(* ===== verification/Prelude.thy ===== *)
theory Prelude
  imports Complex_Main "HOL-Library.Sublist" "HOL-Library.Multiset" "HOL-Library.List_Lexorder"
    "HOL-Library.AList"
begin

text \<open>
  What the components share: the Python values the service computes with, the string, list
  and number primitives of the language that the source calls, and the generic lemmas about them.

  A Python \<open>str\<close> is the list of its code points (\<open>pystr\<close>), so that \<open>length\<close>
  is \<open>len\<close> and list order is Python's string order. A Python \<open>float\<close> is an exact
  rational (\<open>pyfloat\<close>): rounding of IEEE doubles, infinities and NaN are not modelled. A
  \<open>dict\<close> is an association list in insertion order, updated by \<open>AList.update\<close>, which
  keeps the position of a key that is present and appends a new one, as Python does.
\<close>

section \<open>Types\<close>

type_synonym pystr = "int list"
type_synonym pyfloat = rat

text \<open>The values a metadata dictionary carries (JSON-like Python objects).\<close>

datatype pyval =
    PNone
  | PBool bool
  | PInt int
  | PFloat pyfloat
  | PStr pystr
  | PList "pyval list"

type_synonym pydict = "(pystr \<times> pyval) list"

named_theorems py_simps \<open>rewrite rules for the Python primitives\<close>
named_theorems auth_intros \<open>introduction rules of the authorization arguments\<close>

section \<open>Results\<close>

text \<open>A call that may raise is a sum, with the exception on the left.\<close>

definition sbind :: "'e + 'a \<Rightarrow> ('a \<Rightarrow> 'e + 'b) \<Rightarrow> 'e + 'b" where
  "sbind r f = (case r of Inl e \<Rightarrow> Inl e | Inr v \<Rightarrow> f v)"

lemma sbind_simps [simp]:
  "sbind (Inl e) f = Inl e"
  "sbind (Inr v) f = f v"
  by (simp_all add: sbind_def)

lemma sbind_Inr_iff: "sbind r f = Inr w \<longleftrightarrow> (\<exists>v. r = Inr v \<and> f v = Inr w)"
  by (cases r) auto

lemma sbind_Inl_iff: "sbind r f = Inl e \<longleftrightarrow> r = Inl e \<or> (\<exists>v. r = Inr v \<and> f v = Inl e)"
  by (cases r) auto

lemma sbind_InrE: "sbind r f = Inr w \<Longrightarrow> (\<And>v. r = Inr v \<Longrightarrow> f v = Inr w \<Longrightarrow> P) \<Longrightarrow> P"
  by (cases r) auto

text \<open>A loop of calls that stops at the first exception.\<close>

fun smap :: "('a \<Rightarrow> 'e + 'b) \<Rightarrow> 'a list \<Rightarrow> 'e + 'b list" where
  "smap f [] = Inr []"
| "smap f (x # xs) = sbind (f x) (\<lambda>y. sbind (smap f xs) (\<lambda>ys. Inr (y # ys)))"

lemma smap_Inr_length: "smap f xs = Inr ys \<Longrightarrow> length ys = length xs"
  by (induction xs arbitrary: ys) (auto simp: sbind_Inr_iff)

lemma smap_Inr_in:
  "smap f xs = Inr ys \<Longrightarrow> y \<in> set ys \<Longrightarrow> \<exists>x \<in> set xs. f x = Inr y"
  by (induction xs arbitrary: ys) (auto simp: sbind_Inr_iff)

lemma smap_Inr_all:
  "smap f xs = Inr ys \<Longrightarrow> x \<in> set xs \<Longrightarrow> \<exists>y. f x = Inr y"
  by (induction xs arbitrary: ys) (auto simp: sbind_Inr_iff)

lemma smap_list_all2: "smap f xs = Inr ys \<Longrightarrow> list_all2 (\<lambda>x y. f x = Inr y) xs ys"
  by (induction xs arbitrary: ys) (auto simp: sbind_Inr_iff)

lemma smap_Inr_transfer:
  assumes "smap f xs = Inr ys" "\<And>x y. x \<in> set xs \<Longrightarrow> f x = Inr y \<Longrightarrow> g x = Inr (h y)"
  shows "smap g xs = Inr (map h ys)"
  using assms by (induction xs arbitrary: ys) (auto simp: sbind_Inr_iff)

lemma smap_Inr_map:
  "(\<And>x. x \<in> set xs \<Longrightarrow> f x = Inr (g x)) \<Longrightarrow> smap f xs = Inr (map g xs)"
  by (induction xs) simp_all

section \<open>Dictionaries\<close>

text \<open>\<open>d.setdefault(k, v)\<close> and \<open>OrderedDict.move_to_end(k)\<close>.\<close>

definition dict_setdefault :: "'k \<Rightarrow> 'v \<Rightarrow> ('k \<times> 'v) list \<Rightarrow> ('k \<times> 'v) list" where
  "dict_setdefault k v d = (case map_of d k of None \<Rightarrow> d @ [(k, v)] | Some _ \<Rightarrow> d)"

definition move_to_end :: "'k \<Rightarrow> ('k \<times> 'v) list \<Rightarrow> ('k \<times> 'v) list" where
  "move_to_end k d = (case map_of d k of
     None \<Rightarrow> d | Some v \<Rightarrow> filter (\<lambda>p. fst p \<noteq> k) d @ [(k, v)])"

lemma map_of_setdefault:
  "map_of (dict_setdefault k v d) x =
     (if x = k then Some (case map_of d k of None \<Rightarrow> v | Some w \<Rightarrow> w) else map_of d x)"
  by (auto simp: dict_setdefault_def map_add_def split: option.splits)

lemma map_of_filter_other: "x \<noteq> k \<Longrightarrow> map_of (filter (\<lambda>p. fst p \<noteq> k) d) x = map_of d x"
  by (induction d) auto

lemma map_of_move_to_end: "map_of (move_to_end k d) = map_of d"
proof
  fix x
  have "map_of (filter (\<lambda>p. fst p \<noteq> k) d) k = None"
    by (auto simp: map_of_eq_None_iff)
  then show "map_of (move_to_end k d) x = map_of d x"
    by (cases "x = k") (auto simp: move_to_end_def map_add_def map_of_filter_other split: option.splits)
qed

lemma distinct_move_to_end:
  "distinct (map fst d) \<Longrightarrow> distinct (map fst (move_to_end k d))"
  by (auto simp: move_to_end_def distinct_map_filter split: option.splits)

lemma length_filter_other:
  "distinct (map fst d) \<Longrightarrow> k \<in> fst ` set d \<Longrightarrow> Suc (length (filter (\<lambda>p. fst p \<noteq> k) d)) = length d"
proof (induction d)
  case (Cons p d)
  show ?case
  proof (cases "fst p = k")
    case True
    with Cons.prems(1) have "filter (\<lambda>p. fst p \<noteq> k) d = d"
      by (intro filter_True) (auto simp: image_iff)
    with True show ?thesis by simp
  next
    case False
    with Cons show ?thesis by auto
  qed
qed simp

lemma length_move_to_end: "distinct (map fst d) \<Longrightarrow> length (move_to_end k d) = length d"
proof (cases "map_of d k")
  case (Some v)
  assume "distinct (map fst d)"
  moreover from Some have "k \<in> fst ` set d" by (force dest: map_of_SomeD)
  ultimately show ?thesis using Some length_filter_other[of d k] by (simp add: move_to_end_def)
qed (simp add: move_to_end_def)

section \<open>Strings\<close>

text \<open>An ASCII literal of the source as a list of code points.\<close>

definition str :: "string \<Rightarrow> pystr" where
  "str s = map of_char s"

lemma str_simps [simp, py_simps]:
  "str [] = []"
  "str (c # cs) = of_char c # str cs"
  by (simp_all add: str_def)

lemma str_inject: "str s = str t \<longleftrightarrow> s = t"
  by (metis str_def inj_map_eq_map injI of_char_eq_iff)

text \<open>\<open>str.isspace\<close>, which is also what \<open>\s\<close> matches.\<close>

definition is_space :: "int \<Rightarrow> bool" where
  "is_space c \<longleftrightarrow> (9 \<le> c \<and> c \<le> 13) \<or> (28 \<le> c \<and> c \<le> 32) \<or> c = 133 \<or> c = 160 \<or> c = 5760
     \<or> (8192 \<le> c \<and> c \<le> 8202) \<or> c = 8232 \<or> c = 8233 \<or> c = 8239 \<or> c = 8287 \<or> c = 12288"

definition py_strip :: "pystr \<Rightarrow> pystr" where
  "py_strip s = rev (dropWhile is_space (rev (dropWhile is_space s)))"

definition blank :: "pystr \<Rightarrow> bool" where
  "blank s \<longleftrightarrow> py_strip s = []"

lemma dropWhile_rev_Nil_iff: "dropWhile P (rev xs) = [] \<longleftrightarrow> (\<forall>x \<in> set xs. P x)"
  by (simp add: dropWhile_eq_Nil_conv)

lemma blank_iff: "blank s \<longleftrightarrow> (\<forall>c \<in> set s. is_space c)"
proof -
  have "blank s \<longleftrightarrow> (\<forall>c \<in> set (dropWhile is_space s). is_space c)"
    by (simp add: blank_def py_strip_def dropWhile_rev_Nil_iff)
  also have "\<dots> \<longleftrightarrow> (\<forall>c \<in> set s. is_space c)"
    by (metis dropWhile_eq_Nil_conv hd_dropWhile list.set_sel(1) set_dropWhileD)
  finally show ?thesis .
qed

lemma blank_Nil [simp]: "blank []"
  by (simp add: blank_iff)

text \<open>The visible characters of a string.\<close>

definition ink :: "pystr \<Rightarrow> pystr" where
  "ink s = filter (\<lambda>c. \<not> is_space c) s"

lemma ink_append [simp]: "ink (s @ t) = ink s @ ink t"
  by (simp add: ink_def)

lemma ink_blank: "ink s = [] \<longleftrightarrow> blank s"
  by (auto simp: ink_def blank_iff filter_empty_conv)

lemma concat_ink: "ink (concat (map f xs)) = concat (map (\<lambda>x. ink (f x)) xs)"
  by (induction xs) (simp_all add: ink_def)

lemma ink_strip [simp]: "ink (py_strip s) = ink s"
proof -
  have d: "ink (dropWhile is_space t) = ink t" for t
    by (induction t) (auto simp: ink_def)
  have r: "ink (rev t) = rev (ink t)" for t by (simp add: ink_def rev_filter)
  show ?thesis by (simp add: py_strip_def r d)
qed

lemma py_strip_strip: "py_strip (py_strip s) = py_strip s"
proof -
  have "dropWhile is_space (py_strip s) = py_strip s"
  proof (cases "py_strip s")
    case (Cons c cs)
    have "prefix (py_strip s) (dropWhile is_space s)"
      by (metis py_strip_def rev_rev_ident suffix_dropWhile suffix_to_prefix)
    then obtain zs where "dropWhile is_space s = c # cs @ zs" using Cons by (auto simp: prefix_def)
    then have "\<not> is_space c" by (metis dropWhile_eq_Cons_conv)
    with Cons show ?thesis by simp
  qed simp
  moreover have "dropWhile is_space (rev (py_strip s)) = rev (py_strip s)"
    by (simp add: py_strip_def)
  ultimately show ?thesis by (metis py_strip_def rev_rev_ident)
qed

lemma set_py_strip: "c \<in> set (py_strip s) \<Longrightarrow> c \<in> set s"
  by (auto simp: py_strip_def dest!: set_dropWhileD)

text \<open>
  \<open>str.lower\<close>, exact on every string the source compares with an ASCII literal: besides the
  ASCII capitals only the Kelvin sign (U+212A) and the dotted capital I (U+0130) lower to a
  string with an ASCII letter in it. Other code points are left as they are.
\<close>

definition lower_char :: "int \<Rightarrow> pystr" where
  "lower_char c = (if 65 \<le> c \<and> c \<le> 90 then [c + 32] else if c = 8490 then [107]
     else if c = 304 then [105, 775] else [c])"

definition py_lower :: "pystr \<Rightarrow> pystr" where
  "py_lower s = concat (map lower_char s)"

lemma py_lower_Nil [simp]: "py_lower [] = []"
  by (simp add: py_lower_def)

text \<open>The slice \<open>s[a:b]\<close> for non-negative bounds, and \<open>xs[:n]\<close> for any integer.\<close>

definition slice :: "'a list \<Rightarrow> nat \<Rightarrow> nat \<Rightarrow> 'a list" where
  "slice s a b = take (b - a) (drop a s)"

definition py_take :: "int \<Rightarrow> 'a list \<Rightarrow> 'a list" where
  "py_take n xs = (if n < 0 then take (nat (int (length xs) + n)) xs else take (nat n) xs)"

lemma set_py_take: "x \<in> set (py_take n xs) \<Longrightarrow> x \<in> set xs"
  by (auto simp: py_take_def split: if_splits dest: in_set_takeD)

lemma py_take_Nil [simp]: "py_take n [] = []"
  by (simp add: py_take_def)

lemma py_take_Cons: "1 \<le> n \<Longrightarrow> \<exists>ys. py_take n (x # xs) = x # ys"
  by (cases "nat n") (auto simp: py_take_def)

lemma py_take_prefix: "prefix (py_take n xs) xs"
  by (simp add: py_take_def take_is_prefix)

lemma length_py_take: "0 \<le> n \<Longrightarrow> int (length (py_take n xs)) \<le> n"
  by (simp add: py_take_def)

lemma length_slice: "b \<le> length s \<Longrightarrow> length (slice s a b) = b - a"
  by (simp add: slice_def)

lemma slice_Nil [simp]: "slice s a a = []"
  by (simp add: slice_def)

lemma slice_append:
  assumes "a \<le> b" "b \<le> c"
  shows "slice s a b @ slice s b c = slice s a c"
proof -
  have "take (c - a) (drop a s) = take (b - a) (drop a s) @ take (c - b) (drop (b - a) (drop a s))"
    using assms by (metis Nat.diff_diff_right diff_add_assoc2 diff_is_0_eq' le_add_diff_inverse
        le_add_diff_inverse2 nat_le_linear take_add add_diff_cancel_left' diff_add_inverse2)
  then show ?thesis using assms by (simp add: slice_def)
qed

lemma slice_0_length [simp]: "slice s 0 (length s) = s"
  by (simp add: slice_def)

lemma slice_from: "slice s a (length s) = drop a s"
  by (simp add: slice_def)

lemma slice_of_append [simp]:
  "slice (xs @ ys) (length xs) (length xs + n) = take n ys"
  by (simp add: slice_def)

text \<open>\<open>sep.join(parts)\<close> and \<open>s.split(sep)\<close> for a non-empty separator.\<close>

fun py_join :: "pystr \<Rightarrow> pystr list \<Rightarrow> pystr" where
  "py_join sep [] = []"
| "py_join sep [p] = p"
| "py_join sep (p # q # ps) = p @ sep @ py_join sep (q # ps)"

function py_split_from :: "pystr \<Rightarrow> pystr \<Rightarrow> pystr \<Rightarrow> pystr list" where
  "py_split_from sep cur [] = [cur]"
| "py_split_from sep cur (c # cs) =
     (if sep \<noteq> [] \<and> prefix sep (c # cs)
      then cur # py_split_from sep [] (drop (length sep) (c # cs))
      else py_split_from sep (cur @ [c]) cs)"
  by pat_completeness auto
termination
  by (relation "measure (\<lambda>(sep, cur, s). length s)") (auto simp: neq_Nil_conv)

definition py_split :: "pystr \<Rightarrow> pystr \<Rightarrow> pystr list" where
  "py_split sep s = py_split_from sep [] s"

lemma py_split_from_not_Nil: "py_split_from sep cur s \<noteq> []"
  by (induction sep cur s rule: py_split_from.induct) auto

lemma py_join_Cons: "ps \<noteq> [] \<Longrightarrow> py_join sep (p # ps) = p @ sep @ py_join sep ps"
  by (cases ps) auto

lemma py_join_split_from: "py_join sep (py_split_from sep cur s) = cur @ s"
proof (induction sep cur s rule: py_split_from.induct)
  case (2 sep cur c cs)
  show ?case
  proof (cases "sep \<noteq> [] \<and> prefix sep (c # cs)")
    case True
    then have "sep @ drop (length sep) (c # cs) = c # cs"
      by (metis append_eq_conv_conj prefixE)
    with True 2 show ?thesis
      by (simp add: py_join_Cons py_split_from_not_Nil)
  next
    case False
    with 2 show ?thesis by auto
  qed
qed simp

lemma py_join_split: "py_join sep (py_split sep s) = s"
  by (simp add: py_split_def py_join_split_from)

lemma py_split_not_Nil [simp]: "py_split sep s \<noteq> []"
  by (simp add: py_split_def py_split_from_not_Nil)

text \<open>Splitting at a character undoes a join of parts that do not contain it.\<close>

lemma py_split_from_no_sep:
  "c \<notin> set s \<Longrightarrow> py_split_from [c] cur (s @ rest) = py_split_from [c] (cur @ s) rest"
  by (induction s arbitrary: cur) auto

lemma py_split_join_char:
  "ps \<noteq> [] \<Longrightarrow> \<forall>p \<in> set ps. c \<notin> set p \<Longrightarrow> py_split [c] (py_join [c] ps) = ps"
proof (induction ps)
  case (Cons p ps)
  show ?case
  proof (cases ps)
    case Nil
    with Cons.prems py_split_from_no_sep[of c p "[]" "[]"] show ?thesis by (simp add: py_split_def)
  next
    case (Cons q qs)
    with Cons.IH Cons.prems py_split_from_no_sep[of c p "[]"] show ?thesis
      by (simp add: py_split_def)
  qed
qed simp

text \<open>\<open>s.split()\<close>: the maximal runs of non-space characters.\<close>

function py_split_ws :: "pystr \<Rightarrow> pystr list" where
  "py_split_ws [] = []"
| "py_split_ws (c # cs) =
     (if is_space c then py_split_ws cs
      else (c # takeWhile (\<lambda>x. \<not> is_space x) cs) # py_split_ws (dropWhile (\<lambda>x. \<not> is_space x) cs))"
  by pat_completeness auto
termination
  by (relation "measure length") (auto simp: le_imp_less_Suc length_dropWhile_le)

text \<open>\<open>sub in s\<close>.\<close>

fun py_contains :: "pystr \<Rightarrow> pystr \<Rightarrow> bool" where
  "py_contains sub [] = (sub = [])"
| "py_contains sub (c # cs) = (prefix sub (c # cs) \<or> py_contains sub cs)"

lemma py_contains_iff: "py_contains sub s \<longleftrightarrow> (\<exists>a b. s = a @ sub @ b)"
proof (induction s)
  case (Cons c cs)
  have "(\<exists>a b. c # cs = a @ sub @ b) \<longleftrightarrow>
      (\<exists>b. c # cs = sub @ b) \<or> (\<exists>a b. cs = a @ sub @ b)"
    by (metis append_Cons append_Nil list.exhaust list.inject)
  with Cons show ?case by (simp add: prefix_def)
qed simp

text \<open>What \<open>s.encode("utf-8")\<close> accepts, and \<open>a or b\<close> on strings.\<close>

definition utf8_encodable :: "pystr \<Rightarrow> bool" where
  "utf8_encodable s \<longleftrightarrow> list_all (\<lambda>c. \<not> (0xD800 \<le> c \<and> c \<le> 0xDFFF)) s"

definition str_or :: "pystr \<Rightarrow> pystr \<Rightarrow> pystr" where
  "str_or a b = (if a = [] then b else a)"

section \<open>Numbers\<close>

text \<open>The decimal rendering of a non-negative integer, \<open>str(n)\<close>.\<close>

fun py_str_nat :: "nat \<Rightarrow> pystr" where
  "py_str_nat n = (if n < 10 then [48 + int n] else py_str_nat (n div 10) @ [48 + int (n mod 10)])"

declare py_str_nat.simps [simp del]

definition digit_val :: "int \<Rightarrow> nat" where
  "digit_val c = nat (c - 48)"

definition parse_nat :: "pystr \<Rightarrow> nat" where
  "parse_nat s = foldl (\<lambda>n c. 10 * n + digit_val c) 0 s"

lemma parse_nat_snoc [simp]: "parse_nat (s @ [c]) = 10 * parse_nat s + digit_val c"
  by (simp add: parse_nat_def)

lemma parse_nat_single [simp]: "parse_nat [c] = digit_val c"
  by (simp add: parse_nat_def)

lemma digit_val_add [simp]: "digit_val (48 + int k) = k"
  by (simp add: digit_val_def)

lemma parse_py_str_nat [simp]: "parse_nat (py_str_nat n) = n"
proof (induction n rule: py_str_nat.induct)
  case (1 n)
  show ?case
  proof (cases "n < 10")
    case True
    then show ?thesis by (subst py_str_nat.simps) simp
  next
    case False
    with 1 have "parse_nat (py_str_nat (n div 10)) = n div 10" by simp
    moreover have "py_str_nat n = py_str_nat (n div 10) @ [48 + int (n mod 10)]"
      using False by (subst py_str_nat.simps) simp
    ultimately show ?thesis
      by (simp only: parse_nat_snoc digit_val_add) simp
  qed
qed

lemma py_str_nat_inject [simp]: "py_str_nat m = py_str_nat n \<longleftrightarrow> m = n"
  by (metis parse_py_str_nat)

lemma py_str_nat_digits: "c \<in> set (py_str_nat n) \<Longrightarrow> 48 \<le> c \<and> c \<le> 57"
proof (induction n rule: py_str_nat.induct)
  case (1 n)
  show ?case
  proof (cases "n < 10")
    case True
    with 1(2) show ?thesis by (subst (asm) py_str_nat.simps) auto
  next
    case False
    then have "c \<in> set (py_str_nat (n div 10)) \<or> c = 48 + int (n mod 10)"
      using 1(2) by (subst (asm) py_str_nat.simps) auto
    moreover have "n mod 10 < 10" by simp
    ultimately show ?thesis using 1(1) False by auto
  qed
qed

lemma py_str_nat_not_Nil [simp]: "py_str_nat n \<noteq> []"
  by (subst py_str_nat.simps) simp

text \<open>\<open>round(x)\<close> to an integer (ties to even) and \<open>int(x)\<close> (towards zero).\<close>

definition py_round :: "pyfloat \<Rightarrow> int" where
  "py_round x = (let f = \<lfloor>x\<rfloor>; d = x - of_int f in
     if d < 1 / 2 then f else if d > 1 / 2 then f + 1 else if even f then f else f + 1)"

definition py_trunc :: "pyfloat \<Rightarrow> int" where
  "py_trunc x = (if x < 0 then - \<lfloor>- x\<rfloor> else \<lfloor>x\<rfloor>)"

lemma py_trunc_simps [simp]: "py_trunc 0 = 0" "py_trunc (numeral k) = numeral k" "py_trunc (of_int n) = n"
  by (auto simp: py_trunc_def)

lemma py_trunc_mono: "x \<le> y \<Longrightarrow> py_trunc x \<le> py_trunc y"
proof (cases "x < 0 \<and> 0 \<le> y")
  case True
  then have "0 \<le> \<lfloor>- x\<rfloor>" "0 \<le> \<lfloor>y\<rfloor>" by simp_all
  then have "- \<lfloor>- x\<rfloor> \<le> \<lfloor>y\<rfloor>" by linarith
  with True show ?thesis by (auto simp: py_trunc_def)
qed (auto simp: py_trunc_def floor_mono)

lemma py_round_nonneg: "0 \<le> x \<Longrightarrow> 0 \<le> py_round x"
  by (simp add: py_round_def Let_def)

lemma py_round_error: "\<bar>of_int (py_round x) - x\<bar> \<le> 1 / 2"
proof -
  have "of_int \<lfloor>x\<rfloor> \<le> x" "x < of_int \<lfloor>x\<rfloor> + 1"
    by linarith+
  then show ?thesis
    by (simp add: py_round_def Let_def abs_le_iff)
qed

section \<open>Sorting\<close>

text \<open>
  \<open>sorted(xs, key=key, reverse=True)\<close>: Python's sort is stable, also with \<open>reverse=True\<close>,
  where elements of equal key keep their input order.
\<close>

definition py_sorted_desc :: "('a \<Rightarrow> pyfloat) \<Rightarrow> 'a list \<Rightarrow> 'a list" where
  "py_sorted_desc key xs = sort_key (\<lambda>x. - key x) xs"

definition descending :: "('a \<Rightarrow> pyfloat) \<Rightarrow> 'a list \<Rightarrow> bool" where
  "descending key xs \<longleftrightarrow> sorted_wrt (\<lambda>x y. key y \<le> key x) xs"

lemma descending_sorted_desc [simp]: "descending key (py_sorted_desc key xs)"
proof -
  have "sorted (map (\<lambda>x. - key x) (py_sorted_desc key xs))"
    by (simp add: py_sorted_desc_def)
  then show ?thesis
    by (simp add: descending_def sorted_map)
qed

lemma mset_py_sorted_desc [simp]: "mset (py_sorted_desc key xs) = mset xs"
  by (simp add: py_sorted_desc_def)

lemma set_py_sorted_desc [simp]: "set (py_sorted_desc key xs) = set xs"
  by (simp add: py_sorted_desc_def)

lemma length_py_sorted_desc [simp]: "length (py_sorted_desc key xs) = length xs"
  by (simp add: py_sorted_desc_def)

lemma distinct_py_sorted_desc [simp]: "distinct (py_sorted_desc key xs) = distinct xs"
  by (simp add: py_sorted_desc_def)

lemma descending_filter: "descending key xs \<Longrightarrow> descending key (filter P xs)"
  by (simp add: descending_def sorted_wrt_filter)

lemma descending_take: "descending key xs \<Longrightarrow> descending key (take n xs)"
  by (simp add: descending_def sorted_wrt_take)

lemma descending_py_take: "descending key xs \<Longrightarrow> descending key (py_take n xs)"
  by (simp add: py_take_def descending_take)

lemma descending_map:
  "descending (\<lambda>x. key (f x)) xs \<Longrightarrow> descending key (map f xs)"
  by (simp add: descending_def sorted_wrt_map)

lemma descending_cong:
  "(\<And>x. x \<in> set xs \<Longrightarrow> key x = key' x) \<Longrightarrow> descending key xs = descending key' xs"
  by (induction xs) (simp_all add: descending_def)

end
