(* ===== verification/Errors.thy ===== *)
theory Errors
  imports Prelude
begin

text \<open>
  The exception classes of \<open>app/core/exceptions.py\<close>, \<open>WebSearchConfigError\<close> of
  \<open>app/agent/tools/search_providers.py\<close>, and the parse errors of the summary and extraction
  providers: every class is a constructor of
  \<open>api_class\<close>, with the code, default message and HTTP status its constructor passes to
  \<open>APIException\<close>. Any exception the service can see is an \<open>exn\<close>: an
  \<open>APIException\<close> (the handlers re-raise these) or another Python exception, named by its class.
\<close>

datatype api_class =
    BaseAPIException
  | ValidationException
  | InvalidRequestError
  | AudioProcessingError
  | ModelLoadError
  | AsrProcessingError
  | SubtitleGenerationError
  | TextCleaningError
  | PdfParseError
  | EncryptedPdfError
  | CorruptPdfError
  | NoTextLayerError
  | PdfNotFoundError
  | ParserUnavailableError
  | OcrUnavailableError
  | OcrPageFailedError
  | OcrNoTextError
  | InvalidChunkingStrategyError
  | EmptyTextError
  | ChunkingError
  | EmptyBatchError
  | EmbeddingAuthenticationError
  | EmbeddingUnavailableError
  | EmbeddingInternalError
  | DimensionMismatchError
  | EmbeddingProviderError
  | VectorStoreError
  | VectorStoreUnavailableError
  | VectorStoreConfigError
  | RetrievalForbiddenError
  | LlamaIndexRetrievalForbiddenError
  | RetrievalUnavailableError
  | InvalidRetrievalRequestError
  | InvalidRetrievalFilterError
  | RagEngineConfigError
  | RagEngineUnavailableError
  | LLMAuthFailedError
  | LLMUnavailableError
  | LLMStreamError
  | LLMTimeoutError
  | WebSearchConfigError
  | SummaryParseError
  | ExtractionParseError

text \<open>The base class has no code of its own: whoever raises it names one.\<close>

primrec class_code :: "api_class \<Rightarrow> string" where
  "class_code BaseAPIException = []"
| "class_code ValidationException = ''VALIDATION_ERROR''"
| "class_code InvalidRequestError = ''INVALID_REQUEST''"
| "class_code AudioProcessingError = ''INVALID_AUDIO''"
| "class_code ModelLoadError = ''MODEL_LOAD_ERROR''"
| "class_code AsrProcessingError = ''ASR_FAILED''"
| "class_code SubtitleGenerationError = ''SUBTITLE_GENERATION_ERROR''"
| "class_code TextCleaningError = ''TEXT_CLEANING_ERROR''"
| "class_code PdfParseError = ''PDF_PARSE_FAILED''"
| "class_code EncryptedPdfError = ''ENCRYPTED_PDF''"
| "class_code CorruptPdfError = ''CORRUPT_PDF''"
| "class_code NoTextLayerError = ''NO_TEXT_LAYER''"
| "class_code PdfNotFoundError = ''PDF_NOT_FOUND''"
| "class_code ParserUnavailableError = ''PARSER_UNAVAILABLE''"
| "class_code OcrUnavailableError = ''OCR_UNAVAILABLE''"
| "class_code OcrPageFailedError = ''OCR_PAGE_FAILED''"
| "class_code OcrNoTextError = ''OCR_NO_TEXT''"
| "class_code InvalidChunkingStrategyError = ''INVALID_STRATEGY''"
| "class_code EmptyTextError = ''EMPTY_TEXT''"
| "class_code ChunkingError = ''CHUNKING_ERROR''"
| "class_code EmptyBatchError = ''EMPTY_BATCH''"
| "class_code EmbeddingAuthenticationError = ''EMBEDDING_AUTH_FAILED''"
| "class_code EmbeddingUnavailableError = ''EMBEDDING_UNAVAILABLE''"
| "class_code EmbeddingInternalError = ''EMBEDDING_INTERNAL_ERROR''"
| "class_code DimensionMismatchError = ''DIMENSION_MISMATCH''"
| "class_code EmbeddingProviderError = ''EMBEDDING_PROVIDER_ERROR''"
| "class_code VectorStoreError = ''VECTOR_STORE_ERROR''"
| "class_code VectorStoreUnavailableError = ''VECTOR_STORE_UNAVAILABLE''"
| "class_code VectorStoreConfigError = ''VECTOR_STORE_CONFIG_ERROR''"
| "class_code RetrievalForbiddenError = ''FORBIDDEN''"
| "class_code LlamaIndexRetrievalForbiddenError = ''RETRIEVAL_FORBIDDEN''"
| "class_code RetrievalUnavailableError = ''RETRIEVAL_UNAVAILABLE''"
| "class_code InvalidRetrievalRequestError = ''INVALID_RETRIEVAL_REQUEST''"
| "class_code InvalidRetrievalFilterError = ''INVALID_RETRIEVAL_FILTER''"
| "class_code RagEngineConfigError = ''RAG_ENGINE_INVALID''"
| "class_code RagEngineUnavailableError = ''RAG_ENGINE_UNAVAILABLE''"
| "class_code LLMAuthFailedError = ''LLM_AUTH_FAILED''"
| "class_code LLMUnavailableError = ''LLM_UNAVAILABLE''"
| "class_code LLMStreamError = ''LLM_STREAM_ERROR''"
| "class_code LLMTimeoutError = ''LLM_TIMEOUT''"
| "class_code WebSearchConfigError = ''WEB_SEARCH_CONFIG_ERROR''"
| "class_code SummaryParseError = ''SUMMARY_PARSE_FAILED''"
| "class_code ExtractionParseError = ''EXTRACTION_PARSE_FAILED''"

primrec class_status :: "api_class \<Rightarrow> int" where
  "class_status BaseAPIException = 400"
| "class_status ValidationException = 400"
| "class_status InvalidRequestError = 400"
| "class_status AudioProcessingError = 400"
| "class_status ModelLoadError = 503"
| "class_status AsrProcessingError = 500"
| "class_status SubtitleGenerationError = 500"
| "class_status TextCleaningError = 500"
| "class_status PdfParseError = 500"
| "class_status EncryptedPdfError = 400"
| "class_status CorruptPdfError = 400"
| "class_status NoTextLayerError = 400"
| "class_status PdfNotFoundError = 404"
| "class_status ParserUnavailableError = 503"
| "class_status OcrUnavailableError = 503"
| "class_status OcrPageFailedError = 500"
| "class_status OcrNoTextError = 400"
| "class_status InvalidChunkingStrategyError = 400"
| "class_status EmptyTextError = 400"
| "class_status ChunkingError = 500"
| "class_status EmptyBatchError = 400"
| "class_status EmbeddingAuthenticationError = 401"
| "class_status EmbeddingUnavailableError = 503"
| "class_status EmbeddingInternalError = 500"
| "class_status DimensionMismatchError = 500"
| "class_status EmbeddingProviderError = 400"
| "class_status VectorStoreError = 500"
| "class_status VectorStoreUnavailableError = 503"
| "class_status VectorStoreConfigError = 400"
| "class_status RetrievalForbiddenError = 403"
| "class_status LlamaIndexRetrievalForbiddenError = 403"
| "class_status RetrievalUnavailableError = 503"
| "class_status InvalidRetrievalRequestError = 400"
| "class_status InvalidRetrievalFilterError = 400"
| "class_status RagEngineConfigError = 400"
| "class_status RagEngineUnavailableError = 503"
| "class_status LLMAuthFailedError = 401"
| "class_status LLMUnavailableError = 503"
| "class_status LLMStreamError = 500"
| "class_status LLMTimeoutError = 504"
| "class_status WebSearchConfigError = 500"
| "class_status SummaryParseError = 422"
| "class_status ExtractionParseError = 422"

text \<open>
  The default message. \<open>InvalidChunkingStrategyError\<close> has none: its message is this prefix
  followed by the rejected strategy.
\<close>

primrec class_message :: "api_class \<Rightarrow> pystr" where
  "class_message BaseAPIException = []"
| "class_message ValidationException = [0x53C2, 0x6570, 0x6821, 0x9A8C, 0x5931, 0x8D25]"
| "class_message InvalidRequestError = [0x8BF7, 0x6C42, 0x53C2, 0x6570, 0x65E0, 0x6548]"
| "class_message AudioProcessingError = [0x65E0, 0x6CD5, 0x89E3, 0x6790, 0x97F3, 0x9891, 0x6587, 0x4EF6]"
| "class_message ModelLoadError = (str ''ASR '' @ [0x6A21, 0x578B, 0x4E0D, 0x53EF, 0x7528])"
| "class_message AsrProcessingError = [0x8F6C, 0x5F55, 0x5931, 0x8D25, 0xFF0C, 0x8BF7, 0x91CD, 0x8BD5]"
| "class_message SubtitleGenerationError = [0x5B57, 0x5E55, 0x751F, 0x6210, 0x5931, 0x8D25]"
| "class_message TextCleaningError = [0x6587, 0x672C, 0x6E05, 0x6D17, 0x5931, 0x8D25]"
| "class_message PdfParseError = (str ''PDF '' @ [0x89E3, 0x6790, 0x5931, 0x8D25])"
| "class_message EncryptedPdfError = ([0x65E0, 0x6CD5, 0x89E3, 0x6790, 0x52A0, 0x5BC6] @ str '' PDF'')"
| "class_message CorruptPdfError = (str ''PDF '' @ [0x6587, 0x4EF6, 0x635F, 0x574F])"
| "class_message NoTextLayerError = (str ''PDF '' @ [0x65E0, 0x6587, 0x672C, 0x5C42, 0xFF0C,
  0x9700, 0x8981, 0x4F7F, 0x7528] @ str '' OCR '' @ [0x5904, 0x7406])"
| "class_message PdfNotFoundError = (str ''PDF '' @ [0x6587, 0x4EF6, 0x4E0D, 0x5B58, 0x5728])"
| "class_message ParserUnavailableError = (str ''PDF '' @ [0x89E3, 0x6790, 0x5668, 0x4E0D, 0x53EF,
  0x7528])"
| "class_message OcrUnavailableError = (str ''OCR '' @ [0x5F15, 0x64CE, 0x4E0D, 0x53EF, 0x7528])"
| "class_message OcrPageFailedError = ([0x67D0, 0x9875] @ str '' OCR '' @ [0x5931, 0x8D25])"
| "class_message OcrNoTextError = [0x65E0, 0x6CD5, 0x8BC6, 0x522B, 0x6587, 0x5B57]"
| "class_message InvalidChunkingStrategyError = ([0x4E0D, 0x652F, 0x6301, 0x7684, 0x5206, 0x5757,
  0x7B56, 0x7565] @ str '': '')"
| "class_message EmptyTextError = [0x8F93, 0x5165, 0x6587, 0x672C, 0x4E3A, 0x7A7A]"
| "class_message ChunkingError = [0x5206, 0x5757, 0x5185, 0x90E8, 0x9519, 0x8BEF]"
| "class_message EmptyBatchError = [0x8F93, 0x5165, 0x6279, 0x6B21, 0x4E3A, 0x7A7A]"
| "class_message EmbeddingAuthenticationError = (str ''Embedding '' @ [0x8BA4, 0x8BC1, 0x5931, 0x8D25])"
| "class_message EmbeddingUnavailableError = (str ''Embedding '' @ [0x670D, 0x52A1, 0x4E0D, 0x53EF,
  0x7528])"
| "class_message EmbeddingInternalError = (str ''Embedding '' @ [0x5185, 0x90E8, 0x9519, 0x8BEF])"
| "class_message DimensionMismatchError = [0x5411, 0x91CF, 0x7EF4, 0x5EA6, 0x4E0E, 0x914D, 0x7F6E,
  0x4E0D, 0x7B26]"
| "class_message EmbeddingProviderError = ([0x4E0D, 0x652F, 0x6301, 0x7684] @
  str '' Embedding Provider'')"
| "class_message VectorStoreError = [0x5411, 0x91CF, 0x5B58, 0x50A8, 0x64CD, 0x4F5C, 0x5931, 0x8D25]"
| "class_message VectorStoreUnavailableError = [0x5411, 0x91CF, 0x5B58, 0x50A8, 0x670D, 0x52A1,
  0x4E0D, 0x53EF, 0x7528]"
| "class_message VectorStoreConfigError = [0x5411, 0x91CF, 0x5B58, 0x50A8, 0x914D, 0x7F6E, 0x9519,
  0x8BEF]"
| "class_message RetrievalForbiddenError = [0x65E0, 0x6743, 0x8BBF, 0x95EE, 0x8D44, 0x6E90]"
| "class_message LlamaIndexRetrievalForbiddenError = [0x65E0, 0x6743, 0x8BBF, 0x95EE, 0x8D44, 0x6E90]"
| "class_message RetrievalUnavailableError = [0x68C0, 0x7D22, 0x670D, 0x52A1, 0x4E0D, 0x53EF, 0x7528]"
| "class_message InvalidRetrievalRequestError = [0x68C0, 0x7D22, 0x8BF7, 0x6C42, 0x4E0D, 0x5408, 0x6CD5]"
| "class_message InvalidRetrievalFilterError = [0x68C0, 0x7D22, 0x8FC7, 0x6EE4, 0x6761, 0x4EF6,
  0x4E0D, 0x5408, 0x6CD5]"
| "class_message RagEngineConfigError = (str ''RAG_ENGINE '' @ [0x4EC5, 0x652F, 0x6301] @
  str '' legacy/llamaindex'')"
| "class_message RagEngineUnavailableError = (str ''LlamaIndex '' @ [0x4F9D, 0x8D56, 0x672A,
  0x5B89, 0x88C5])"
| "class_message LLMAuthFailedError = (str ''LLM '' @ [0x8BA4, 0x8BC1, 0x5931, 0x8D25])"
| "class_message LLMUnavailableError = (str ''LLM '' @ [0x670D, 0x52A1, 0x4E0D, 0x53EF, 0x7528])"
| "class_message LLMStreamError = [0x6D41, 0x5F0F, 0x8F93, 0x51FA, 0x4E2D, 0x65AD]"
| "class_message LLMTimeoutError = (str ''LLM '' @ [0x8C03, 0x7528, 0x8D85, 0x65F6])"
| "class_message WebSearchConfigError = (str ''Web Search '' @ [0x914D, 0x7F6E, 0x65E0, 0x6548])"
| "class_message SummaryParseError = [0x6458, 0x8981, 0x7ED3, 0x679C, 0x89E3, 0x6790, 0x5931, 0x8D25]"
| "class_message ExtractionParseError = [0x6807, 0x7B7E, 0x5B9E, 0x4F53, 0x62BD, 0x53D6, 0x7ED3,
  0x679C, 0x89E3, 0x6790, 0x5931, 0x8D25]"

record api_exception =
  exc_class :: api_class
  exc_code :: string
  exc_message :: pystr
  exc_status :: int

datatype exn = APIException api_exception | PyException string pystr

fun is_api :: "exn \<Rightarrow> bool" where
  "is_api (APIException a) = True"
| "is_api (PyException c m) = False"

fun exn_code :: "exn \<Rightarrow> string" where
  "exn_code (APIException a) = exc_code a"
| "exn_code (PyException c m) = c"

text \<open>Raising a class with a message, with its default message, and with its own code.\<close>

definition raise_msg :: "api_class \<Rightarrow> pystr \<Rightarrow> exn" where
  "raise_msg c m = APIException
     \<lparr>exc_class = c, exc_code = class_code c, exc_message = m, exc_status = class_status c\<rparr>"

definition raise_default :: "api_class \<Rightarrow> exn" where
  "raise_default c = raise_msg c (class_message c)"

definition raise_code :: "api_class \<Rightarrow> string \<Rightarrow> pystr \<Rightarrow> int \<Rightarrow> exn" where
  "raise_code c code m st = APIException
     \<lparr>exc_class = c, exc_code = code, exc_message = m, exc_status = st\<rparr>"

definition invalid_strategy_error :: "pystr \<Rightarrow> exn" where
  "invalid_strategy_error strategy = raise_msg InvalidChunkingStrategyError
     (class_message InvalidChunkingStrategyError @ strategy)"

text \<open>The built-in exceptions the source raises itself or provokes.\<close>

definition value_error :: "pystr \<Rightarrow> exn" where
  "value_error msg = PyException ''ValueError'' msg"

definition key_error :: "pystr \<Rightarrow> exn" where
  "key_error k = PyException ''KeyError'' k"

fun has_class :: "api_class \<Rightarrow> exn \<Rightarrow> bool" where
  "has_class c (APIException a) = (exc_class a = c)"
| "has_class c (PyException n m) = False"

lemma has_class_raise [simp]: "has_class c (raise_msg d m) \<longleftrightarrow> d = c"
  by (auto simp: raise_msg_def)

lemma is_api_raise [simp]: "is_api (raise_msg c m)" "is_api (raise_code c k m st)"
  by (simp_all add: raise_msg_def raise_code_def)

lemma exn_code_raise [simp]:
  "exn_code (raise_msg c m) = class_code c"
  "exn_code (raise_code c k m st) = k"
  by (simp_all add: raise_msg_def raise_code_def)

lemma has_class_is_api: "has_class c e \<Longrightarrow> is_api e"
  by (cases e) auto

text \<open>A handler can tell the classes apart by their code: no two classes share one.\<close>

definition all_classes :: "api_class list" where
  "all_classes =
     [BaseAPIException, ValidationException, InvalidRequestError, AudioProcessingError, ModelLoadError,
      AsrProcessingError, SubtitleGenerationError, TextCleaningError, PdfParseError,
      EncryptedPdfError, CorruptPdfError, NoTextLayerError, PdfNotFoundError,
      ParserUnavailableError, OcrUnavailableError, OcrPageFailedError, OcrNoTextError,
      InvalidChunkingStrategyError, EmptyTextError, ChunkingError, EmptyBatchError,
      EmbeddingAuthenticationError, EmbeddingUnavailableError, EmbeddingInternalError,
      DimensionMismatchError, EmbeddingProviderError, VectorStoreError,
      VectorStoreUnavailableError, VectorStoreConfigError, RetrievalForbiddenError,
      LlamaIndexRetrievalForbiddenError, RetrievalUnavailableError,
      InvalidRetrievalRequestError, InvalidRetrievalFilterError, RagEngineConfigError,
      RagEngineUnavailableError, LLMAuthFailedError, LLMUnavailableError, LLMStreamError,
      LLMTimeoutError, WebSearchConfigError, SummaryParseError, ExtractionParseError]"

lemma all_classes_complete: "c \<in> set all_classes"
  by (cases c) (simp_all add: all_classes_def)

lemma distinct_class_codes: "distinct (map class_code all_classes)"
  by code_simp

lemma class_code_inject: "class_code c = class_code d \<Longrightarrow> c = d"
  using distinct_class_codes all_classes_complete by (auto simp: distinct_map dest: inj_onD)

lemma class_status_is_error: "400 \<le> class_status c \<and> class_status c < 600"
  by (cases c) simp_all

section \<open>Generators and logs\<close>

text \<open>
  A computation that yields events (to the consumer of a generator, or to a reporter) and then returns a
  value or raises; what was yielded before the exception has been seen.
\<close>

type_synonym ('v, 'a) gen = "'v list \<times> (exn + 'a)"

definition gbind :: "('v, 'a) gen \<Rightarrow> ('a \<Rightarrow> ('v, 'b) gen) \<Rightarrow> ('v, 'b) gen" where
  "gbind g f = (case g of (evs, Inl e) \<Rightarrow> (evs, Inl e) | (evs, Inr a) \<Rightarrow> (case f a of (evs', r) \<Rightarrow> (evs @ evs', r)))"

definition yields :: "'v list \<Rightarrow> ('v, unit) gen" where
  "yields evs = (evs, Inr ())"

definition awaits :: "exn + 'a \<Rightarrow> ('v, 'a) gen" where
  "awaits r = ([], r)"

lemma gbind_simps [simp]:
  "gbind (evs, Inl e) f = (evs, Inl e)"
  "gbind (evs, Inr a) f = (evs @ fst (f a), snd (f a))"
  by (simp_all add: gbind_def split: prod.splits)

lemma gbind_yields [simp]: "gbind (yields evs) f = (evs @ fst (f ()), snd (f ()))"
  by (simp add: yields_def)

lemma gbind_awaits [simp]:
  "gbind (awaits (Inr a)) f = f a"
  "gbind (awaits (Inl e)) f = ([], Inl e)"
  by (simp_all add: awaits_def)

lemma awaits_simps [simp]: "fst (awaits r) = []" "snd (awaits r) = r"
  by (simp_all add: awaits_def)

lemma gbind_InrE:
  assumes "snd (gbind g f) = Inr b"
  obtains a where "snd g = Inr a" "snd (f a) = Inr b" "fst (gbind g f) = fst g @ fst (f a)"
  using assms by (cases g; cases "snd g") auto

lemma gbind_fst: "fst (gbind g f) = fst g @ (case snd g of Inl e \<Rightarrow> [] | Inr a \<Rightarrow> fst (f a))"
  by (cases g; cases "snd g") auto

lemma gbind_snd: "snd (gbind g f) = (case snd g of Inl e \<Rightarrow> Inl e | Inr a \<Rightarrow> snd (f a))"
  by (cases g; cases "snd g") auto

end
