(* ===== verification/Search_Types.thy ===== *)
theory Search_Types
  imports Errors
begin

text \<open>
  The records that travel between the vector store, the retrieval services and their callers
  (\<open>app/models/vector_record.py\<close>, \<open>app/models/hybrid_retrieval.py\<close>,
  \<open>app/models/retrieval.py\<close>), and the interface of the defensive scope check both retrieval
  services make before they return anything.
\<close>

record vector_search_result =
  vr_id :: pystr
  vr_resource_id :: pystr
  vr_user_id :: pystr
  vr_text :: pystr
  vr_metadata :: pydict
  vr_score :: pyfloat
  vr_created_at :: int

datatype search_source = SourceBM25 | SourceVector | SourceRerank

record search_result =
  sr_chunk_id :: pystr
  sr_resource_id :: pystr
  sr_user_id :: pystr
  sr_text :: pystr
  sr_score :: pyfloat
  sr_source :: search_source
  sr_metadata :: pydict

text \<open>The scope dictionary \<open>{"user_id": \<dots>, "resource_ids": [\<dots>]}\<close> the services build.\<close>

record scope_filter =
  f_user_id :: pystr
  f_resource_ids :: "pystr list"

text \<open>
  \<open>_validate_authorization\<close>, the same loop in both services: the first hit outside the requested
  user and resources raises.
\<close>

fun validate_authorization ::
  "('h \<Rightarrow> pystr) \<Rightarrow> ('h \<Rightarrow> pystr) \<Rightarrow> 'h list \<Rightarrow> pystr \<Rightarrow> pystr list \<Rightarrow> exn + unit" where
  "validate_authorization user_of resource_of [] user_id resource_ids = Inr ()"
| "validate_authorization user_of resource_of (h # hs) user_id resource_ids =
     (if user_of h \<noteq> user_id \<or> resource_of h \<notin> set resource_ids
      then Inl (raise_msg RetrievalForbiddenError (class_message RetrievalForbiddenError))
      else validate_authorization user_of resource_of hs user_id resource_ids)"

section \<open>The scope check as an interface\<close>

locale scope_guard =
  fixes user_of :: "'h \<Rightarrow> pystr"
    and resource_of :: "'h \<Rightarrow> pystr"
    and validate :: "'h list \<Rightarrow> pystr \<Rightarrow> pystr list \<Rightarrow> exn + unit"
    and forbidden :: api_class
  assumes accepts: "validate hs u rs = Inr () \<longleftrightarrow> (\<forall>h \<in> set hs. user_of h = u \<and> resource_of h \<in> set rs)"
    and rejects: "validate hs u rs = Inl e \<Longrightarrow> has_class forbidden e"
begin

lemma guarded:
  assumes "sbind (validate hs u rs) (\<lambda>_. k) = Inr r"
  shows "k = Inr r" and "h \<in> set hs \<Longrightarrow> user_of h = u \<and> resource_of h \<in> set rs"
proof -
  from assms have v: "validate hs u rs = Inr ()" and k: "k = Inr r"
    by (auto simp: sbind_Inr_iff)
  from k show "k = Inr r" .
  from v show "h \<in> set hs \<Longrightarrow> user_of h = u \<and> resource_of h \<in> set rs" by (simp add: accepts)
qed

lemma foreign_rejected:
  assumes "h \<in> set hs" "user_of h \<noteq> u \<or> resource_of h \<notin> set rs"
  shows "\<exists>e. sbind (validate hs u rs) k = Inl e \<and> has_class forbidden e"
proof (cases "validate hs u rs")
  case (Inl e)
  with rejects show ?thesis by auto
next
  case (Inr x)
  with accepts assms show ?thesis by (cases x) blast
qed

end

lemma validate_accepts:
  "validate_authorization user_of resource_of hs u rs = Inr () \<longleftrightarrow>
     (\<forall>h \<in> set hs. user_of h = u \<and> resource_of h \<in> set rs)"
  by (induction hs) auto

lemma validate_rejects:
  "validate_authorization user_of resource_of hs u rs = Inl e \<Longrightarrow> has_class RetrievalForbiddenError e"
  by (induction hs) (auto split: if_splits)

interpretation vr_guard: scope_guard vr_user_id vr_resource_id
  "validate_authorization vr_user_id vr_resource_id" RetrievalForbiddenError
  by unfold_locales (simp_all add: validate_accepts validate_rejects)

interpretation sr_guard: scope_guard sr_user_id sr_resource_id
  "validate_authorization sr_user_id sr_resource_id" RetrievalForbiddenError
  by unfold_locales (simp_all add: validate_accepts validate_rejects)

end
