(* ===== verification/Fusion.thy ===== *)
theory Fusion
  imports Search_Types
begin

text \<open>
  The ranking stages of hybrid retrieval: reciprocal rank fusion (\<open>rrf.py\<close>), the BM25 store
  (\<open>bm25_store.py\<close>) and the cross-encoder reranker (\<open>reranker.py\<close>). The scoring engines
  (\<open>rank_bm25\<close>, \<open>jieba\<close>, \<open>sentence_transformers\<close>) are parameters.
\<close>

section \<open>Reciprocal rank fusion\<close>

definition zero_division :: exn where
  "zero_division = PyException ''ZeroDivisionError'' (str ''float division by zero'')"

type_synonym rrf_state = "(pystr \<times> pyfloat) list \<times> (pystr \<times> search_result) list"

fun rrf_loop :: "pyfloat \<Rightarrow> int \<Rightarrow> nat \<Rightarrow> search_result list \<Rightarrow> rrf_state \<Rightarrow> exn + rrf_state" where
  "rrf_loop w k rank [] st = Inr st"
| "rrf_loop w k rank (hit # hits) st =
     (let cid = sr_chunk_id hit;
          old = (case map_of (fst st) cid of None \<Rightarrow> 0 | Some s \<Rightarrow> s)
      in if k + int rank + 1 = 0 then Inl zero_division
         else rrf_loop w k (rank + 1) hits
                (AList.update cid (old + w / of_int (k + int rank + 1)) (fst st),
                 dict_setdefault cid hit (snd st)))"

definition reciprocal_rank_fusion ::
  "search_result list \<Rightarrow> search_result list \<Rightarrow> pyfloat \<Rightarrow> pyfloat \<Rightarrow> int \<Rightarrow> exn + search_result list" where
  "reciprocal_rank_fusion bm25_hits vector_hits bm25_weight vector_weight k =
     sbind (rrf_loop bm25_weight k 0 bm25_hits ([], [])) (\<lambda>st1.
     sbind (rrf_loop vector_weight k 0 vector_hits st1) (\<lambda>st2.
     smap (\<lambda>(cid, score). case map_of (snd st2) cid of
             None \<Rightarrow> Inl (key_error cid)
           | Some hit \<Rightarrow> Inr (hit\<lparr>sr_score := score\<rparr>))
       (py_sorted_desc snd (fst st2))))"

section \<open>BM25 store\<close>

text \<open>
  \<open>'i\<close> is the index object of \<open>rank_bm25\<close>; building it and scoring with it are parameters,
  as is \<open>jieba.cut\<close>.
\<close>

record 'i bm25_engine =
  be_new :: "pystr list list \<Rightarrow> exn + 'i"
  be_scores :: "'i \<Rightarrow> pystr list \<Rightarrow> exn + pyfloat list"
  be_jieba :: "pystr \<Rightarrow> pystr list"

record 'i bm25_store =
  bs_tokenizer :: pystr
  bs_docs :: "search_result list"
  bs_corpus :: "pystr list list"
  bs_bm25 :: "'i option"

definition bm25_store_init :: "pystr \<Rightarrow> exn + 'i bm25_store" where
  "bm25_store_init tokenizer =
     (if tokenizer = str ''jieba'' \<or> tokenizer = str ''whitespace''
      then Inr \<lparr>bs_tokenizer = tokenizer, bs_docs = [], bs_corpus = [], bs_bm25 = None\<rparr>
      else Inl (PyException ''ValueError'' (str ''unsupported tokenizer: '' @ tokenizer)))"

definition tokenize :: "'i bm25_engine \<Rightarrow> 'i bm25_store \<Rightarrow> pystr \<Rightarrow> pystr list" where
  "tokenize eng store t =
     (if t = [] then []
      else if bs_tokenizer store = str ''whitespace'' then py_split_ws t
      else filter (\<lambda>token. \<not> blank token) (be_jieba eng t))"

definition bm25_index ::
  "'i bm25_engine \<Rightarrow> 'i bm25_store \<Rightarrow> search_result list \<Rightarrow> exn + 'i bm25_store" where
  "bm25_index eng store docs =
     (let corpus = map (\<lambda>d. tokenize eng store (sr_text d)) docs;
          store' = store\<lparr>bs_docs := docs, bs_corpus := corpus\<rparr>
      in if corpus = [] then Inr (store'\<lparr>bs_bm25 := None\<rparr>)
         else sbind (be_new eng corpus) (\<lambda>i. Inr (store'\<lparr>bs_bm25 := Some i\<rparr>)))"

definition matches_filters :: "search_result \<Rightarrow> scope_filter \<Rightarrow> bool" where
  "matches_filters doc f \<longleftrightarrow>
     \<not> (f_resource_ids f \<noteq> [] \<and> sr_resource_id doc \<notin> set (f_resource_ids f))
     \<and> \<not> (f_user_id f \<noteq> [] \<and> sr_user_id doc \<noteq> f_user_id f)"

text \<open>The loop over the ranked \<open>(idx, score)\<close> pairs.\<close>

fun bm25_collect ::
  "search_result list \<Rightarrow> scope_filter \<Rightarrow> (nat \<times> pyfloat) list \<Rightarrow> exn + search_result list" where
  "bm25_collect docs f [] = Inr []"
| "bm25_collect docs f ((idx, score) # ranked) =
     (if score \<le> 0 then bm25_collect docs f ranked
      else if length docs \<le> idx then Inl (PyException ''IndexError'' (str ''list index out of range''))
      else if \<not> matches_filters (docs ! idx) f then bm25_collect docs f ranked
      else sbind (bm25_collect docs f ranked)
             (\<lambda>rest. Inr ((docs ! idx)\<lparr>sr_score := score, sr_source := SourceBM25\<rparr> # rest)))"

definition bm25_search ::
  "'i bm25_engine \<Rightarrow> 'i bm25_store \<Rightarrow> pystr \<Rightarrow> int \<Rightarrow> scope_filter \<Rightarrow> exn + search_result list" where
  "bm25_search eng store query top_k f =
     (case bs_bm25 store of
        None \<Rightarrow> Inr []
      | Some i \<Rightarrow>
          if bs_docs store = [] then Inr []
          else let tokens = tokenize eng store query
               in if tokens = [] then Inr []
                  else sbind (be_scores eng i tokens) (\<lambda>scores.
                         bm25_collect (bs_docs store) f
                           (py_take top_k (py_sorted_desc snd (enumerate 0 scores)))))"

section \<open>Reranker\<close>

text \<open>
  \<open>'m\<close> is the cross-encoder; loading it (which may raise) and its \<open>predict\<close> are parameters.
  The state is the lazily loaded model.
\<close>

record 'm reranker =
  rk_enabled :: bool
  rk_model :: "'m option"

definition reranker_init :: "bool \<Rightarrow> 'm option \<Rightarrow> 'm reranker" where
  "reranker_init enabled model = \<lparr>rk_enabled = enabled, rk_model = (if enabled then model else None)\<rparr>"

definition ensure_model :: "(exn + 'm) \<Rightarrow> 'm reranker \<Rightarrow> 'm reranker \<times> (exn + 'm)" where
  "ensure_model load r = (case rk_model r of
     Some m \<Rightarrow> (r, Inr m)
   | None \<Rightarrow> (case load of Inl e \<Rightarrow> (r, Inl e) | Inr m \<Rightarrow> (r\<lparr>rk_model := Some m\<rparr>, Inr m)))"

definition rank_candidates ::
  "search_result list \<Rightarrow> pyfloat list \<Rightarrow> int \<Rightarrow> exn + search_result list" where
  "rank_candidates candidates raw_scores top_n =
     (if length candidates \<noteq> length raw_scores
      then Inl (PyException ''ValueError'' (str ''zip() argument 2 length''))
      else Inr (map (\<lambda>(c, s). c\<lparr>sr_score := s, sr_source := SourceRerank\<rparr>)
             (py_take top_n (py_sorted_desc snd (zip candidates raw_scores)))))"

definition rerank ::
  "(exn + 'm) \<Rightarrow> ('m \<Rightarrow> (pystr \<times> pystr) list \<Rightarrow> exn + pyfloat list) \<Rightarrow> 'm reranker \<Rightarrow>
     pystr \<Rightarrow> search_result list \<Rightarrow> int \<Rightarrow> 'm reranker \<times> (exn + search_result list)" where
  "rerank load predict r query candidates top_n =
     (if candidates = [] \<or> \<not> rk_enabled r then (r, Inr (py_take top_n candidates))
      else case ensure_model load r of
             (r', Inl e) \<Rightarrow> (r', Inl e)
           | (r', Inr m) \<Rightarrow>
               (r', sbind (predict m (map (\<lambda>c. (query, sr_text c)) candidates))
                      (\<lambda>raw_scores. rank_candidates candidates raw_scores top_n)))"

section \<open>What fusion computes\<close>

text \<open>The contribution of one ranked list to the score of a chunk.\<close>

fun rrf_share :: "pyfloat \<Rightarrow> int \<Rightarrow> nat \<Rightarrow> search_result list \<Rightarrow> pystr \<Rightarrow> pyfloat" where
  "rrf_share w k rank [] cid = 0"
| "rrf_share w k rank (hit # hits) cid =
     (if sr_chunk_id hit = cid then w / of_int (k + int rank + 1) else 0)
     + rrf_share w k (rank + 1) hits cid"

abbreviation hit_ids :: "search_result list \<Rightarrow> pystr set" where
  "hit_ids hits \<equiv> sr_chunk_id ` set hits"

definition base_score :: "(pystr \<times> pyfloat) list \<Rightarrow> pystr \<Rightarrow> pyfloat" where
  "base_score scores cid = (case map_of scores cid of None \<Rightarrow> 0 | Some s \<Rightarrow> s)"

definition first_hit :: "pystr \<Rightarrow> search_result list \<Rightarrow> search_result option" where
  "first_hit cid hits = find (\<lambda>h. sr_chunk_id h = cid) hits"

definition carrier_of ::
  "(pystr \<times> search_result) list \<Rightarrow> search_result list \<Rightarrow> pystr \<Rightarrow> search_result option" where
  "carrier_of meta hits cid = (case map_of meta cid of Some h \<Rightarrow> Some h | None \<Rightarrow> first_hit cid hits)"

lemma rrf_share_absent: "cid \<notin> hit_ids hits \<Longrightarrow> rrf_share w k rank hits cid = 0"
  by (induction hits arbitrary: rank) auto

lemma map_of_update: "map_of (AList.update k v d) x = (if x = k then Some v else map_of d x)"
  by (simp add: update_conv')

lemma first_hit_append:
  "first_hit cid (xs @ ys) = (case first_hit cid xs of Some h \<Rightarrow> Some h | None \<Rightarrow> first_hit cid ys)"
  by (induction xs) (auto simp: first_hit_def)

lemma carrier_of_Cons:
  "carrier_of (dict_setdefault (sr_chunk_id h) h meta) hits cid = carrier_of meta (h # hits) cid"
  by (auto simp: carrier_of_def map_of_setdefault first_hit_def split: option.splits)

lemma rrf_loop_spec:
  assumes "0 \<le> k" "distinct (map fst (fst st))"
  shows "\<exists>st'. rrf_loop w k rank hits st = Inr st'
    \<and> distinct (map fst (fst st'))
    \<and> fst ` set (fst st') = fst ` set (fst st) \<union> hit_ids hits
    \<and> (\<forall>cid. base_score (fst st') cid = base_score (fst st) cid + rrf_share w k rank hits cid)
    \<and> (\<forall>cid. map_of (snd st') cid = carrier_of (snd st) hits cid)"
  using assms(2)
proof (induction hits arbitrary: rank st)
  case Nil
  then show ?case by (auto simp: carrier_of_def first_hit_def split: option.splits)
next
  case (Cons h hits)
  let ?cid = "sr_chunk_id h"
  define inc where "inc = w / of_int (k + int rank + 1)"
  define sc where "sc = AList.update ?cid (base_score (fst st) ?cid + inc) (fst st)"
  let ?st = "(sc, dict_setdefault ?cid h (snd st))"
  have step: "rrf_loop w k rank (h # hits) st = rrf_loop w k (rank + 1) hits ?st"
    using assms(1) by (simp add: Let_def base_score_def sc_def inc_def)
  have d: "distinct (map fst (fst ?st))" using Cons.prems by (simp add: distinct_update sc_def)
  have dom: "fst ` set sc = insert ?cid (fst ` set (fst st))" by (simp add: dom_update sc_def)
  have base: "base_score sc cid = base_score (fst st) cid + (if ?cid = cid then inc else 0)" for cid
    by (simp add: base_score_def map_of_update sc_def)
  have share: "rrf_share w k rank (h # hits) cid
      = (if ?cid = cid then inc else 0) + rrf_share w k (rank + 1) hits cid" for cid
    by (simp add: inc_def)
  from Cons.IH[OF d, of "rank + 1"] obtain st' where
    "rrf_loop w k (rank + 1) hits ?st = Inr st'" "distinct (map fst (fst st'))"
    "fst ` set (fst st') = fst ` set sc \<union> hit_ids hits"
    "\<forall>cid. base_score (fst st') cid = base_score sc cid + rrf_share w k (rank + 1) hits cid"
    "\<forall>cid. map_of (snd st') cid = carrier_of (dict_setdefault ?cid h (snd st)) hits cid"
    by auto
  then show ?case unfolding step
    by (intro exI[of _ st']) (simp add: dom base share carrier_of_Cons add.assoc del: rrf_share.simps)
qed

lemma rrf_state:
  assumes "0 \<le> k"
  shows "\<exists>st. sbind (rrf_loop w k 0 hits ([], [])) (rrf_loop v k 0 hits') = Inr st
    \<and> distinct (map fst (fst st)) \<and> fst ` set (fst st) = hit_ids (hits @ hits')
    \<and> (\<forall>cid. base_score (fst st) cid = rrf_share w k 0 hits cid + rrf_share v k 0 hits' cid)
    \<and> (\<forall>cid. map_of (snd st) cid = first_hit cid (hits @ hits'))"
proof -
  from rrf_loop_spec[OF assms, of "([], [])" w 0 hits] obtain st1 where st1:
    "rrf_loop w k 0 hits ([], []) = Inr st1" "distinct (map fst (fst st1))"
    "fst ` set (fst st1) = hit_ids hits"
    "\<forall>cid. base_score (fst st1) cid = rrf_share w k 0 hits cid"
    "\<forall>cid. map_of (snd st1) cid = first_hit cid hits"
    by (auto simp: base_score_def carrier_of_def)
  from rrf_loop_spec[OF assms st1(2), of v 0 hits'] obtain st2 where
    "rrf_loop v k 0 hits' st1 = Inr st2" "distinct (map fst (fst st2))"
    "fst ` set (fst st2) = fst ` set (fst st1) \<union> hit_ids hits'"
    "\<forall>cid. base_score (fst st2) cid = base_score (fst st1) cid + rrf_share v k 0 hits' cid"
    "\<forall>cid. map_of (snd st2) cid = carrier_of (snd st1) hits' cid"
    by blast
  then show ?thesis using st1
    by (intro exI[of _ st2]) (auto simp: carrier_of_def first_hit_append)
qed

lemma first_hit_Some:
  "cid \<in> hit_ids hits \<Longrightarrow> \<exists>h. first_hit cid hits = Some h \<and> h \<in> set hits \<and> sr_chunk_id h = cid"
  by (induction hits) (auto simp: first_hit_def)

lemma base_score_in: "distinct (map fst d) \<Longrightarrow> (c, s) \<in> set d \<Longrightarrow> base_score d c = s"
  by (simp add: base_score_def)

section \<open>What the BM25 store and the reranker return\<close>

lemma bm25_collect_map:
  "bm25_collect docs f ranked = Inr hits \<Longrightarrow>
     hits = map (\<lambda>(i, s). (docs ! i)\<lparr>sr_score := s, sr_source := SourceBM25\<rparr>)
              (filter (\<lambda>(i, s). 0 < s \<and> matches_filters (docs ! i) f) ranked)
     \<and> (\<forall>(i, s) \<in> set ranked. 0 < s \<longrightarrow> i < length docs)"
proof (induction ranked arbitrary: hits)
  case (Cons p ranked)
  obtain i s where p: "p = (i, s)" by (cases p)
  consider "s \<le> 0" | "0 < s" "i < length docs" "\<not> matches_filters (docs ! i) f"
    | "0 < s" "i < length docs" "matches_filters (docs ! i) f"
    using Cons.prems p by (auto simp: not_less split: if_splits)
  then show ?case
  proof cases
    case 3
    with Cons.prems p obtain rest where "bm25_collect docs f ranked = Inr rest"
      "hits = (docs ! i)\<lparr>sr_score := s, sr_source := SourceBM25\<rparr> # rest"
      by (auto simp: sbind_Inr_iff)
    with Cons.IH[of rest] 3 p show ?thesis by simp
  qed (use Cons p in simp_all)
qed simp

lemma matches_filters_update [simp]:
  "matches_filters (d\<lparr>sr_score := s, sr_source := src\<rparr>) f = matches_filters d f"
  by (simp add: matches_filters_def)

lemma bm25_hits_sound:
  assumes "bm25_search eng store query top_k f = Inr hits"
  shows "descending sr_score hits"
    and "0 \<le> top_k \<Longrightarrow> int (length hits) \<le> top_k"
    and "h \<in> set hits \<Longrightarrow> 0 < sr_score h \<and> sr_source h = SourceBM25 \<and> matches_filters h f
      \<and> (\<exists>d \<in> set (bs_docs store). h = d\<lparr>sr_score := sr_score h, sr_source := SourceBM25\<rparr>)"
proof -
  obtain ranked where ranked: "descending snd ranked" "0 \<le> top_k \<longrightarrow> int (length ranked) \<le> top_k"
    and c: "bm25_collect (bs_docs store) f ranked = Inr hits"
  proof (cases "hits = []")
    case True
    then show ?thesis by (intro that[of "[]"]) (simp_all add: descending_def)
  next
    case False
    with assms obtain scores where
      "bm25_collect (bs_docs store) f (py_take top_k (py_sorted_desc snd (enumerate 0 scores))) = Inr hits"
      by (auto simp: bm25_search_def Let_def sbind_Inr_iff split: option.splits if_splits)
    then show ?thesis by (intro that) (auto simp: descending_py_take length_py_take)
  qed
  let ?f = "\<lambda>(i, s). (bs_docs store ! i)\<lparr>sr_score := s, sr_source := SourceBM25\<rparr>"
  let ?P = "\<lambda>(i, s). 0 < s \<and> matches_filters (bs_docs store ! i) f"
  note m = bm25_collect_map[OF c]
  have hits: "hits = map ?f (filter ?P ranked)" using m by blast
  show "descending sr_score hits"
    unfolding hits using ranked(1)
    by (intro descending_map) (simp add: descending_filter case_prod_beta)
  show "0 \<le> top_k \<Longrightarrow> int (length hits) \<le> top_k"
  proof -
    assume "0 \<le> top_k"
    moreover have "length hits \<le> length ranked" unfolding hits by simp
    ultimately show ?thesis using ranked(2) by linarith
  qed
  assume "h \<in> set hits"
  then obtain i s where "(i, s) \<in> set ranked" "0 < s" "matches_filters (bs_docs store ! i) f"
    "h = (bs_docs store ! i)\<lparr>sr_score := s, sr_source := SourceBM25\<rparr>"
    unfolding hits by auto
  moreover from this m have "i < length (bs_docs store)" by fastforce
  ultimately show "0 < sr_score h \<and> sr_source h = SourceBM25 \<and> matches_filters h f
      \<and> (\<exists>d \<in> set (bs_docs store). h = d\<lparr>sr_score := sr_score h, sr_source := SourceBM25\<rparr>)"
    by (auto intro!: bexI[of _ "bs_docs store ! i"])
qed

definition rescored :: "search_result list \<Rightarrow> search_result \<Rightarrow> bool" where
  "rescored cs r \<longleftrightarrow> (\<exists>c \<in> set cs. r = c\<lparr>sr_score := sr_score r, sr_source := sr_source r\<rparr>)"

lemma rescored_self: "c \<in> set cs \<Longrightarrow> rescored cs c"
  unfolding rescored_def by (rule bexI[of _ c]) simp_all

lemma rank_candidates_spec:
  assumes "rank_candidates cs scores n = Inr out"
  shows "descending sr_score out" and "0 \<le> n \<Longrightarrow> int (length out) \<le> n"
    and "r \<in> set out \<Longrightarrow> rescored cs r \<and> sr_source r = SourceRerank"
    and "mset (map sr_chunk_id out) \<subseteq># mset (map sr_chunk_id cs)"
proof -
  let ?f = "\<lambda>(c, s). c\<lparr>sr_score := s, sr_source := SourceRerank\<rparr>"
  let ?ranked = "py_take n (py_sorted_desc snd (zip cs scores))"
  from assms have len: "length cs = length scores" and out: "out = map ?f ?ranked"
    by (auto simp: rank_candidates_def split: if_splits)
  have "descending snd ?ranked" by (simp add: descending_py_take)
  then show "descending sr_score out"
    unfolding out by (intro descending_map) (simp add: case_prod_beta)
  show "0 \<le> n \<Longrightarrow> int (length out) \<le> n" unfolding out by (simp add: length_py_take)
  show "r \<in> set out \<Longrightarrow> rescored cs r \<and> sr_source r = SourceRerank"
    unfolding out rescored_def
    by (auto dest!: set_py_take set_zip_leftD)
  let ?g = "\<lambda>p. sr_chunk_id (fst p)"
  have "map sr_chunk_id out = map ?g ?ranked"
    unfolding out by auto
  then have 1: "mset (map sr_chunk_id out) = image_mset ?g (mset ?ranked)"
    by (simp only: mset_map)
  have "map ?g (zip cs scores) = map sr_chunk_id (map fst (zip cs scores))"
    by simp
  also have "\<dots> = map sr_chunk_id cs" using len by (simp only: map_fst_zip)
  finally have 2: "image_mset ?g (mset (zip cs scores)) = mset (map sr_chunk_id cs)"
    by (simp only: mset_map[symmetric])
  have "mset ?ranked \<subseteq># mset (zip cs scores)"
    by (metis mset_py_sorted_desc mset_subset_eq_add_left mset_append prefixE py_take_prefix)
  then have "image_mset ?g (mset ?ranked) \<subseteq># image_mset ?g (mset (zip cs scores))"
    by (rule image_mset_subseteq_mono)
  then show "mset (map sr_chunk_id out) \<subseteq># mset (map sr_chunk_id cs)"
    by (simp only: 1 2)
qed

lemma rrf_result:
  assumes "0 \<le> k"
  shows "\<exists>out. reciprocal_rank_fusion b v wb wv k = Inr out
    \<and> distinct (map sr_chunk_id out) \<and> hit_ids out = hit_ids b \<union> hit_ids v \<and> descending sr_score out
    \<and> (\<forall>r \<in> set out. sr_score r = rrf_share wb k 0 b (sr_chunk_id r) + rrf_share wv k 0 v (sr_chunk_id r)
         \<and> (\<exists>h. first_hit (sr_chunk_id r) (b @ v) = Some h \<and> r = h\<lparr>sr_score := sr_score r\<rparr>))"
proof -
  from rrf_state[OF assms, of wb b wv v] obtain st where
    st: "sbind (rrf_loop wb k 0 b ([], [])) (rrf_loop wv k 0 v) = Inr st"
    and d: "distinct (map fst (fst st))" and dom: "fst ` set (fst st) = hit_ids (b @ v)"
    and sc: "\<And>cid. base_score (fst st) cid = rrf_share wb k 0 b cid + rrf_share wv k 0 v cid"
    and me: "\<And>cid. map_of (snd st) cid = first_hit cid (b @ v)"
    by blast
  define ordered where "ordered = py_sorted_desc snd (fst st)"
  define g where "g = (\<lambda>(cid, s). (the (first_hit cid (b @ v)))\<lparr>sr_score := s\<rparr>)"
  have in_st: "p \<in> set ordered \<Longrightarrow> p \<in> set (fst st)" for p by (simp add: ordered_def)
  have found: "\<exists>h. first_hit cid (b @ v) = Some h \<and> sr_chunk_id h = cid" if "(cid, s) \<in> set ordered" for cid s
    using first_hit_Some[of cid "b @ v"] in_st[OF that] dom by force
  have cid: "sr_chunk_id (g p) = fst p" if "p \<in> set ordered" for p
    using found that by (cases p) (fastforce simp: g_def)
  have res: "reciprocal_rank_fusion b v wb wv k = Inr (map g ordered)"
  proof -
    have "reciprocal_rank_fusion b v wb wv k =
        smap (\<lambda>(cid, s). case map_of (snd st) cid of None \<Rightarrow> Inl (key_error cid)
           | Some hit \<Rightarrow> Inr (hit\<lparr>sr_score := s\<rparr>)) ordered"
      using st by (auto simp: reciprocal_rank_fusion_def sbind_Inr_iff ordered_def)
    also have "\<dots> = Inr (map g ordered)"
      using found me by (intro smap_Inr_map) (fastforce simp: g_def)
    finally show ?thesis .
  qed
  have ids: "map sr_chunk_id (map g ordered) = map fst ordered"
    using cid by simp
  have "descending sr_score (map g ordered)"
    unfolding ordered_def by (intro descending_map) (simp add: g_def case_prod_beta)
  moreover have "distinct (map sr_chunk_id (map g ordered))"
    using d unfolding ids unfolding ordered_def
    by (metis distinct_map distinct_py_sorted_desc set_py_sorted_desc)
  moreover have "hit_ids (map g ordered) = hit_ids b \<union> hit_ids v"
  proof -
    have "hit_ids (map g ordered) = set (map sr_chunk_id (map g ordered))"
      by (simp only: set_map)
    also have "\<dots> = hit_ids (b @ v)" unfolding ids using dom by (simp add: ordered_def)
    finally show ?thesis by auto
  qed
  moreover have "\<forall>r \<in> set (map g ordered).
      sr_score r = rrf_share wb k 0 b (sr_chunk_id r) + rrf_share wv k 0 v (sr_chunk_id r)
      \<and> (\<exists>h. first_hit (sr_chunk_id r) (b @ v) = Some h \<and> r = h\<lparr>sr_score := sr_score r\<rparr>)"
  proof
    fix r assume "r \<in> set (map g ordered)"
    then obtain p where that: "p \<in> set ordered" and r: "r = g p" by auto
    obtain c s where p: "p = (c, s)" by (cases p)
    with found that obtain h where h: "first_hit c (b @ v) = Some h" "sr_chunk_id h = c" by blast
    have "base_score (fst st) c = s" using base_score_in[OF d] in_st[OF that] p by simp
    with h show "sr_score r = rrf_share wb k 0 b (sr_chunk_id r) + rrf_share wv k 0 v (sr_chunk_id r)
      \<and> (\<exists>h. first_hit (sr_chunk_id r) (b @ v) = Some h \<and> r = h\<lparr>sr_score := sr_score r\<rparr>)"
      by (simp add: r p g_def sc)
  qed
  ultimately show ?thesis using res by blast
qed

section \<open>Properties\<close>

definition hit :: "string \<Rightarrow> pyfloat \<Rightarrow> search_result" where
  "hit cid score = \<lparr>sr_chunk_id = str cid, sr_resource_id = str ''r1'', sr_user_id = str ''u1'',
     sr_text = str ''some text'', sr_score = score, sr_source = SourceVector, sr_metadata = []\<rparr>"

text \<open>C6: reciprocal rank fusion. For a non-negative \<open>k\<close> fusion never fails; the result has every
  chunk of the two lists exactly once, sorted by descending score, the score of a chunk is the sum of
  its shares \<open>w / (k + rank + 1)\<close> in the two lists, and the record carrying it is the first one
  seen, with only the score changed.\<close>

theorem rrf_fuses:
  assumes "0 \<le> k"
  shows "\<exists>out. reciprocal_rank_fusion b v wb wv k = Inr out
    \<and> distinct (map sr_chunk_id out) \<and> hit_ids out = hit_ids b \<union> hit_ids v \<and> descending sr_score out
    \<and> (\<forall>r \<in> set out. sr_score r = rrf_share wb k 0 b (sr_chunk_id r) + rrf_share wv k 0 v (sr_chunk_id r)
         \<and> (\<exists>h. first_hit (sr_chunk_id r) (b @ v) = Some h \<and> r = h\<lparr>sr_score := sr_score r\<rparr>))"
  using rrf_result[OF assms] .

theorem rrf_fuses_witness:
  "\<exists>out. reciprocal_rank_fusion [hit ''a'' 3, hit ''b'' 2] [hit ''b'' 9] 1 1 60 = Inr out
     \<and> hit_ids out = {str ''a'', str ''b''}"
  using rrf_fuses[of 60 "[hit ''a'' 3, hit ''b'' 2]" "[hit ''b'' 9]" 1 1]
  by (auto simp: hit_def)

text \<open>BM25 hits are sound. Whatever the scoring engine returns, the hits come from the indexed
  documents with only score and source changed, have a positive score, match the user and resource
  filter, are at most \<open>top_k\<close> and descend by score.\<close>

theorem bm25_search_sound:
  assumes "bm25_search eng store query top_k f = Inr hits" and "0 \<le> top_k"
  shows "descending sr_score hits \<and> int (length hits) \<le> top_k
    \<and> (\<forall>h \<in> set hits. 0 < sr_score h \<and> matches_filters h f
         \<and> (\<exists>d \<in> set (bs_docs store). h = d\<lparr>sr_score := sr_score h, sr_source := SourceBM25\<rparr>))"
  using bm25_hits_sound[OF assms(1)] assms(2) by blast

definition demo_engine :: "unit bm25_engine" where
  "demo_engine = \<lparr>be_new = (\<lambda>_. Inr ()), be_scores = (\<lambda>_ _. Inr [1, 5]), be_jieba = (\<lambda>t. [t])\<rparr>"

definition demo_store :: "unit bm25_store" where
  "demo_store = \<lparr>bs_tokenizer = str ''jieba'', bs_docs = [hit ''a'' 0, hit ''b'' 0],
     bs_corpus = [[str ''some text''], [str ''some text'']], bs_bm25 = Some ()\<rparr>"

theorem bm25_search_sound_witness:
  "\<exists>hits. bm25_search demo_engine demo_store (str ''q'') 1
      \<lparr>f_user_id = str ''u1'', f_resource_ids = [str ''r1'']\<rparr> = Inr hits
    \<and> length hits = 1 \<and> descending sr_score hits"
proof -
  let ?f = "\<lparr>f_user_id = str ''u1'', f_resource_ids = [str ''r1'']\<rparr>"
  have r: "bm25_search demo_engine demo_store (str ''q'') 1 ?f
      = Inr [(hit ''b'' 5)\<lparr>sr_source := SourceBM25\<rparr>]"
    by (simp add: bm25_search_def demo_engine_def demo_store_def tokenize_def blank_iff is_space_def
        py_sorted_desc_def py_take_def matches_filters_def hit_def Let_def)
  with bm25_search_sound[OF r] show ?thesis by simp
qed

text \<open>What a ranking by the cross-encoder is. When \<open>rerank\<close> succeeds on an enabled model, it
  returns at most \<open>top_n\<close> of the candidates, each at most as often as it was given, in
  descending order of the model's scores, with only score and source changed.\<close>

theorem rerank_ranks:
  assumes "rerank load predict r query cands top_n = (r', Inr out)" and "0 \<le> top_n"
    and "rk_enabled r" and "cands \<noteq> []"
  shows "descending sr_score out \<and> int (length out) \<le> top_n
    \<and> mset (map sr_chunk_id out) \<subseteq># mset (map sr_chunk_id cands)
    \<and> (\<forall>c \<in> set out. rescored cands c \<and> sr_source c = SourceRerank)"
proof -
  from assms obtain scores where "rank_candidates cands scores top_n = Inr out"
    by (auto simp: rerank_def sbind_Inr_iff split: prod.splits sum.splits)
  from rank_candidates_spec[OF this] assms(2) show ?thesis by blast
qed

theorem rerank_ranks_witness:
  "\<exists>r' out. rerank (Inr ()) (\<lambda>_ _. Inr [1, 2]) (reranker_init True None) (str ''q'')
      [hit ''a'' 0, hit ''b'' 0] 1 = (r', Inr out) \<and> int (length out) \<le> 1 \<and> descending sr_score out"
proof -
  let ?out = "[(hit ''b'' 2)\<lparr>sr_source := SourceRerank\<rparr>]"
  have r: "rerank (Inr ()) (\<lambda>_ _. Inr [1, 2]) (reranker_init True None) (str ''q'')
      [hit ''a'' 0, hit ''b'' 0] 1 = (\<lparr>rk_enabled = True, rk_model = Some ()\<rparr>, Inr ?out)"
    by (simp add: rerank_def reranker_init_def ensure_model_def rank_candidates_def py_sorted_desc_def
        py_take_def hit_def)
  have "rk_enabled (reranker_init True None :: unit reranker)" by (simp add: reranker_init_def)
  from rerank_ranks[OF r _ this] r show ?thesis by simp
qed

end
