(* ===== verification/Hybrid.thy ===== *)
theory Hybrid
  imports Fusion
begin

text \<open>
  \<open>HybridRetrievalService\<close>: parameter resolution, the two isolated retrieval paths, the LRU
  cache of BM25 indexes, fusion, the timeout fallback, reranking and the final scope check. The
  embedding service, the vector store, the BM25 store and the reranker are injected through
  protocols in the source; here they are the fields of \<open>hybrid_env\<close>, and
  \<open>hybrid_env_of\<close> plugs the models of the concrete \<open>BM25Store\<close> and \<open>Reranker\<close> in.
  The state is the cache; the clock is the sequence of its readings.
\<close>

section \<open>Configuration and request\<close>

record hybrid_config =
  hc_bm25_weight :: pyfloat
  hc_vector_weight :: pyfloat
  hc_rrf_k :: int
  hc_rerank_top_n :: int
  hc_final_top_k :: int
  hc_score_threshold :: pyfloat
  hc_timeout_ms :: int
  hc_fallback_to_vector :: bool
  hc_bm25_tokenizer :: pystr
  hc_bm25_user_dict :: pystr
  hc_bm25_cache_index :: bool
  hc_bm25_max_docs :: int
  hc_bm25_cache_max_entries :: int
  hc_reranker_model_name :: pystr
  hc_reranker_device :: pystr
  hc_reranker_max_length :: int
  hc_reranker_enabled :: bool

definition default_hybrid_config :: hybrid_config where
  "default_hybrid_config =
     \<lparr>hc_bm25_weight = 1, hc_vector_weight = 1, hc_rrf_k = 60, hc_rerank_top_n = 20,
      hc_final_top_k = 5, hc_score_threshold = 0, hc_timeout_ms = 800,
      hc_fallback_to_vector = True, hc_bm25_tokenizer = str ''jieba'', hc_bm25_user_dict = [],
      hc_bm25_cache_index = True, hc_bm25_max_docs = 1000, hc_bm25_cache_max_entries = 100,
      hc_reranker_model_name = str ''BAAI/bge-reranker-base'', hc_reranker_device = str ''cpu'',
      hc_reranker_max_length = 512, hc_reranker_enabled = True\<rparr>"

record hybrid_request =
  hq_question :: pystr
  hq_user_id :: pystr
  hq_resource_ids :: "pystr list"
  hq_bm25_weight :: "pyfloat option"
  hq_vector_weight :: "pyfloat option"
  hq_rrf_k :: "int option"
  hq_rerank_top_n :: "int option"
  hq_final_top_k :: "int option"
  hq_score_threshold :: "pyfloat option"
  hq_timeout_ms :: "int option"

record resolved_params =
  rp_bm25_weight :: pyfloat
  rp_vector_weight :: pyfloat
  rp_rrf_k :: int
  rp_rerank_top_n :: int
  rp_final_top_k :: int
  rp_score_threshold :: pyfloat
  rp_timeout_ms :: int
  rp_fallback_to_vector :: bool
  rp_bm25_max_docs :: int
  rp_bm25_cache_max_entries :: int
  rp_reranker_enabled :: bool

definition or_default :: "'a option \<Rightarrow> 'a \<Rightarrow> 'a" where
  "or_default x d = (case x of Some v \<Rightarrow> v | None \<Rightarrow> d)"

definition resolve_params :: "hybrid_config \<Rightarrow> hybrid_request \<Rightarrow> resolved_params" where
  "resolve_params cfg req =
     \<lparr>rp_bm25_weight = or_default (hq_bm25_weight req) (hc_bm25_weight cfg),
      rp_vector_weight = or_default (hq_vector_weight req) (hc_vector_weight cfg),
      rp_rrf_k = or_default (hq_rrf_k req) (hc_rrf_k cfg),
      rp_rerank_top_n = or_default (hq_rerank_top_n req) (hc_rerank_top_n cfg),
      rp_final_top_k = or_default (hq_final_top_k req) (hc_final_top_k cfg),
      rp_score_threshold = or_default (hq_score_threshold req) (hc_score_threshold cfg),
      rp_timeout_ms = or_default (hq_timeout_ms req) (hc_timeout_ms cfg),
      rp_fallback_to_vector = hc_fallback_to_vector cfg,
      rp_bm25_max_docs = hc_bm25_max_docs cfg,
      rp_bm25_cache_max_entries = hc_bm25_cache_max_entries cfg,
      rp_reranker_enabled = hc_reranker_enabled cfg\<rparr>"

record fusion_stats =
  fs_bm25_count :: nat
  fs_vector_count :: nat
  fs_fused_count :: nat

record hybrid_result =
  hr_chunks :: "search_result list"
  hr_fusion :: fusion_stats
  hr_degraded :: bool
  hr_elapsed_ms :: int

section \<open>The injected services\<close>

record 's hybrid_env =
  he_embed_query :: "pystr \<Rightarrow> exn + pyfloat list"
  he_vs_search :: "pyfloat list \<Rightarrow> int \<Rightarrow> scope_filter \<Rightarrow> exn + vector_search_result list"
  he_vs_query :: "scope_filter \<Rightarrow> int \<Rightarrow> exn + vector_search_result list"
  he_store_factory :: "exn + 's"
  he_store_index :: "'s \<Rightarrow> search_result list \<Rightarrow> exn + 's"
  he_store_search :: "'s \<Rightarrow> pystr \<Rightarrow> int \<Rightarrow> scope_filter \<Rightarrow> exn + search_result list"
  he_rerank :: "pystr \<Rightarrow> search_result list \<Rightarrow> int \<Rightarrow> exn + search_result list"
  he_clock :: "nat \<Rightarrow> pyfloat"

section \<open>The service\<close>

type_synonym 's bm25_cache = "(pystr \<times> 's) list"

definition to_search_result :: "search_source \<Rightarrow> vector_search_result \<Rightarrow> search_result" where
  "to_search_result source r =
     \<lparr>sr_chunk_id = vr_id r, sr_resource_id = vr_resource_id r, sr_user_id = vr_user_id r,
      sr_text = vr_text r, sr_score = vr_score r, sr_source = source, sr_metadata = vr_metadata r\<rparr>"

definition bm25_cache_key :: "scope_filter \<Rightarrow> pystr" where
  "bm25_cache_key f = f_user_id f @ str ''|'' @ py_join (str '','') (sort (f_resource_ids f))"

definition load_corpus :: "'s hybrid_env \<Rightarrow> scope_filter \<Rightarrow> int \<Rightarrow> exn + search_result list" where
  "load_corpus env f max_docs =
     sbind (he_vs_query env f max_docs) (\<lambda>records. Inr (map (to_search_result SourceBM25) records))"

text \<open>
  \<open>while len(cache) > max_entries: popitem(last=False)\<close>; on an empty cache (a negative limit)
  \<open>popitem\<close> raises \<open>KeyError\<close>.
\<close>

fun evict :: "int \<Rightarrow> 's bm25_cache \<Rightarrow> 's bm25_cache \<times> exn option" where
  "evict max_entries [] =
     (if max_entries < 0 then ([], Some (key_error (str ''dictionary is empty''))) else ([], None))"
| "evict max_entries (p # ps) =
     (if max_entries < int (length (p # ps)) then evict max_entries ps else (p # ps, None))"

definition get_or_build_bm25 ::
  "'s hybrid_env \<Rightarrow> hybrid_config \<Rightarrow> 's bm25_cache \<Rightarrow> scope_filter \<Rightarrow> resolved_params \<Rightarrow>
     's bm25_cache \<times> (exn + 's)" where
  "get_or_build_bm25 env cfg cache f params =
     (let key = bm25_cache_key f in
      case (if hc_bm25_cache_index cfg then map_of cache key else None) of
        Some store \<Rightarrow> (move_to_end key cache, Inr store)
      | None \<Rightarrow>
          (case sbind (load_corpus env f (rp_bm25_max_docs params))
                  (\<lambda>docs. sbind (he_store_factory env) (\<lambda>s. he_store_index env s docs)) of
             Inl e \<Rightarrow> (cache, Inl e)
           | Inr store \<Rightarrow>
               if hc_bm25_cache_index cfg
               then (case evict (rp_bm25_cache_max_entries params)
                            (move_to_end key (AList.update key store cache)) of
                       (cache', None) \<Rightarrow> (cache', Inr store)
                     | (cache', Some e) \<Rightarrow> (cache', Inl e))
               else (cache, Inr store)))"

text \<open>
  \<open>try: return r, False / except APIException: raise / except Exception: return default, True\<close>,
  the handler of all three stages.
\<close>

definition isolate :: "exn + 'a \<Rightarrow> 'a \<Rightarrow> exn + ('a \<times> bool)" where
  "isolate r default_value = (case r of
     Inl e \<Rightarrow> if is_api e then Inl e else Inr (default_value, True)
   | Inr x \<Rightarrow> Inr (x, False))"

definition bm25_retrieve ::
  "'s hybrid_env \<Rightarrow> hybrid_config \<Rightarrow> 's bm25_cache \<Rightarrow> hybrid_request \<Rightarrow> resolved_params \<Rightarrow> scope_filter \<Rightarrow>
     's bm25_cache \<times> (exn + (search_result list \<times> bool))" where
  "bm25_retrieve env cfg cache req params f =
     (case get_or_build_bm25 env cfg cache f params of (cache', r) \<Rightarrow>
        (cache', isolate (sbind r (\<lambda>store.
            he_store_search env store (hq_question req) (rp_rerank_top_n params) f)) []))"

definition vector_retrieve ::
  "'s hybrid_env \<Rightarrow> hybrid_request \<Rightarrow> resolved_params \<Rightarrow> scope_filter \<Rightarrow>
     exn + (search_result list \<times> bool)" where
  "vector_retrieve env req params f =
     isolate (sbind (he_embed_query env (hq_question req)) (\<lambda>query_vector.
              sbind (he_vs_search env query_vector (rp_rerank_top_n params) f) (\<lambda>results.
              Inr (map (to_search_result SourceVector) results)))) []"

definition timeout_fallback_chunks ::
  "resolved_params \<Rightarrow> search_result list \<Rightarrow> search_result list \<Rightarrow> search_result list" where
  "timeout_fallback_chunks params vector_hits fused_top =
     (if rp_fallback_to_vector params \<and> vector_hits \<noteq> []
      then map (\<lambda>hit. hit\<lparr>sr_source := SourceVector\<rparr>) (py_take (rp_final_top_k params) vector_hits)
      else py_take (rp_final_top_k params) fused_top)"

definition rerank_chunks ::
  "'s hybrid_env \<Rightarrow> pystr \<Rightarrow> search_result list \<Rightarrow> resolved_params \<Rightarrow>
     exn + (search_result list \<times> bool)" where
  "rerank_chunks env question fused_top params =
     isolate (he_rerank env question fused_top (rp_final_top_k params))
       (py_take (rp_final_top_k params) fused_top)"

definition elapsed_ms :: "'s hybrid_env \<Rightarrow> pyfloat \<Rightarrow> nat \<Rightarrow> int" where
  "elapsed_ms env start reading = py_trunc ((he_clock env reading - start) * 1000)"

definition finalize_result ::
  "'s hybrid_env \<Rightarrow> search_result list \<Rightarrow> fusion_stats \<Rightarrow> hybrid_request \<Rightarrow> resolved_params \<Rightarrow> bool \<Rightarrow>
     pyfloat \<Rightarrow> exn + hybrid_result" where
  "finalize_result env chunks fusion req params degraded start =
     sbind (validate_authorization sr_user_id sr_resource_id chunks (hq_user_id req) (hq_resource_ids req))
       (\<lambda>_. Inr \<lparr>hr_chunks = filter (\<lambda>c. rp_score_threshold params \<le> sr_score c) chunks,
                 hr_fusion = fusion, hr_degraded = degraded,
                 hr_elapsed_ms = elapsed_ms env start 2\<rparr>)"

text \<open>The part of \<open>retrieve\<close> after both paths have produced their hits.\<close>

definition hybrid_fuse ::
  "'s hybrid_env \<Rightarrow> hybrid_request \<Rightarrow> resolved_params \<Rightarrow> pyfloat \<Rightarrow> search_result list \<Rightarrow>
     search_result list \<Rightarrow> bool \<Rightarrow> exn + hybrid_result" where
  "hybrid_fuse env req params start bm25_hits vector_hits degraded =
     (if bm25_hits = [] \<and> vector_hits = []
      then Inr \<lparr>hr_chunks = [],
                hr_fusion = \<lparr>fs_bm25_count = 0, fs_vector_count = 0, fs_fused_count = 0\<rparr>,
                hr_degraded = degraded, hr_elapsed_ms = elapsed_ms env start 1\<rparr>
      else sbind (reciprocal_rank_fusion bm25_hits vector_hits (rp_bm25_weight params)
                    (rp_vector_weight params) (rp_rrf_k params)) (\<lambda>fused.
        let fused_top = py_take (rp_rerank_top_n params) fused;
            fusion = \<lparr>fs_bm25_count = length bm25_hits, fs_vector_count = length vector_hits,
                      fs_fused_count = length fused\<rparr>
        in if rp_timeout_ms params \<le> elapsed_ms env start 1
           then finalize_result env (timeout_fallback_chunks params vector_hits fused_top) fusion
                  req params True start
           else if rp_reranker_enabled params
           then sbind (rerank_chunks env (hq_question req) fused_top params) (\<lambda>(chunks, failed).
                  finalize_result env chunks fusion req params (degraded \<or> failed) start)
           else finalize_result env (py_take (rp_final_top_k params) fused_top) fusion
                  req params degraded start))"

definition hybrid_retrieve ::
  "'s hybrid_env \<Rightarrow> hybrid_config \<Rightarrow> 's bm25_cache \<Rightarrow> hybrid_request \<Rightarrow>
     's bm25_cache \<times> (exn + hybrid_result)" where
  "hybrid_retrieve env cfg cache req =
     (let start = he_clock env 0;
          params = resolve_params cfg req;
          f = \<lparr>f_user_id = hq_user_id req, f_resource_ids = hq_resource_ids req\<rparr>
      in case bm25_retrieve env cfg cache req params f of (cache', bm25) \<Rightarrow>
        (cache',
         sbind bm25 (\<lambda>(bm25_hits, bm25_failed).
         sbind (vector_retrieve env req params f) (\<lambda>(vector_hits, vector_failed).
           if bm25_failed \<and> vector_failed
           then Inl (raise_msg RetrievalUnavailableError
             [0x6DF7, 0x5408, 0x68C0, 0x7D22, 0x4E24, 0x8DEF, 0x5747, 0x5931, 0x8D25, 0xFF0C,
               0x65E0, 0x6CD5, 0x964D, 0x7EA7])
           else hybrid_fuse env req params start bm25_hits vector_hits (bm25_failed \<or> vector_failed)))))"

text \<open>\<open>build_hybrid_retrieval_service\<close>: the concrete store and reranker behind the protocols.\<close>

definition hybrid_env_of ::
  "hybrid_config \<Rightarrow> (pystr \<Rightarrow> exn + pyfloat list) \<Rightarrow>
     (pyfloat list \<Rightarrow> int \<Rightarrow> scope_filter \<Rightarrow> exn + vector_search_result list) \<Rightarrow>
     (scope_filter \<Rightarrow> int \<Rightarrow> exn + vector_search_result list) \<Rightarrow>
     'i bm25_engine \<Rightarrow> (exn + 'm) \<Rightarrow> ('m \<Rightarrow> (pystr \<times> pystr) list \<Rightarrow> exn + pyfloat list) \<Rightarrow>
     (nat \<Rightarrow> pyfloat) \<Rightarrow> 'i bm25_store hybrid_env" where
  "hybrid_env_of cfg embed_fn vs_search vs_query eng load predict clock =
     \<lparr>he_embed_query = embed_fn, he_vs_search = vs_search, he_vs_query = vs_query,
      he_store_factory = bm25_store_init (hc_bm25_tokenizer cfg),
      he_store_index = bm25_index eng, he_store_search = bm25_search eng,
      he_rerank = (\<lambda>q cs n. snd (rerank load predict (reranker_init (hc_reranker_enabled cfg) None) q cs n)),
      he_clock = clock\<rparr>"

section \<open>Reachable caches\<close>

text \<open>
  The cache starts empty and changes only through \<open>retrieve\<close>, whatever the injected services do
  and whatever is asked.
\<close>

inductive hybrid_reachable :: "hybrid_config \<Rightarrow> 's bm25_cache \<Rightarrow> bool" for cfg where
  created: "hybrid_reachable cfg []"
| retrieved: "hybrid_reachable cfg cache \<Longrightarrow> hybrid_retrieve env cfg cache req = (cache', r) \<Longrightarrow>
     hybrid_reachable cfg cache'"

definition cache_ok :: "hybrid_config \<Rightarrow> 's bm25_cache \<Rightarrow> bool" where
  "cache_ok cfg cache \<longleftrightarrow> distinct (map fst cache)
     \<and> int (length cache) \<le> max 0 (hc_bm25_cache_max_entries cfg)"

end
