(* ===== verification/Hybrid_Props.thy ===== *)
theory Hybrid_Props
  imports Hybrid
begin

text \<open>
  What hybrid retrieval guarantees: no foreign chunk leaves the service whatever the injected stores
  answer, the index cache stays within its bound in every reachable state, failures of one path are
  absorbed and failures of both are reported, and when the cache key identifies a scope.
\<close>

section \<open>The scope check\<close>

lemma finalize_result_guarded:
  assumes "finalize_result env chunks fusion req params degraded start = Inr res"
  shows "hr_chunks res = filter (\<lambda>c. rp_score_threshold params \<le> sr_score c) chunks"
    and "c \<in> set chunks \<Longrightarrow> sr_user_id c = hq_user_id req \<and> sr_resource_id c \<in> set (hq_resource_ids req)"
    and "hr_degraded res = degraded" and "hr_fusion res = fusion"
  using sr_guard.guarded[OF assms[unfolded finalize_result_def]] by auto

lemma hybrid_fuse_guarded:
  assumes "hybrid_fuse env req params start b v degraded = Inr res" and "c \<in> set (hr_chunks res)"
  shows "sr_user_id c = hq_user_id req \<and> sr_resource_id c \<in> set (hq_resource_ids req)
    \<and> rp_score_threshold params \<le> sr_score c"
  using assms
  by (auto simp: hybrid_fuse_def Let_def sbind_Inr_iff finalize_result_guarded(1)
      split: if_splits prod.splits dest: finalize_result_guarded(2))

lemma hybrid_retrieve_Inr:
  assumes "hybrid_retrieve env cfg cache req = (cache', Inr res)"
  obtains b v degraded where
    "hybrid_fuse env req (resolve_params cfg req) (he_clock env 0) b v degraded = Inr res"
  using assms
  by (auto simp: hybrid_retrieve_def Let_def sbind_Inr_iff split: prod.splits if_splits)

lemma isolate_cases:
  "isolate r d = Inl e \<longleftrightarrow> r = Inl e \<and> is_api e"
  "isolate r d = Inr (x, failed) \<longleftrightarrow>
     r = Inr x \<and> \<not> failed \<or> (\<exists>e. r = Inl e \<and> \<not> is_api e) \<and> x = d \<and> failed"
  by (auto simp: isolate_def split: sum.splits)

section \<open>The index cache\<close>

lemma evict_suffix: "evict n c = (c', r) \<Longrightarrow> suffix c' c"
  by (induction n c arbitrary: c' r rule: evict.induct)
    (auto split: if_splits intro: suffix_ConsI)

lemma evict_length: "evict n c = (c', r) \<Longrightarrow> int (length c') \<le> max 0 n"
  by (induction n c arbitrary: c' r rule: evict.induct) (auto split: if_splits)

lemma evict_ok: "0 \<le> n \<Longrightarrow> snd (evict n c) = None"
  by (induction n c rule: evict.induct) auto

lemma cache_ok_move:
  "cache_ok cfg cache \<Longrightarrow> cache_ok cfg (move_to_end k cache)"
  by (simp add: cache_ok_def distinct_move_to_end length_move_to_end)

lemma suffix_distinct_keys: "suffix c' c \<Longrightarrow> distinct (map fst c) \<Longrightarrow> distinct (map fst c')"
  by (auto simp: suffix_def)

lemma get_or_build_cache_ok:
  assumes ok: "cache_ok cfg cache"
    and n: "rp_bm25_cache_max_entries params = hc_bm25_cache_max_entries cfg"
    and g: "get_or_build_bm25 env cfg cache f params = (cache', r)"
  shows "cache_ok cfg cache'"
proof -
  let ?k = "bm25_cache_key f" and ?n = "hc_bm25_cache_max_entries cfg"
  have ins: "cache_ok cfg c'"
    if e: "evict ?n (move_to_end ?k (AList.update ?k store cache)) = (c', e)" for c' store e
  proof -
    have "distinct (map fst (move_to_end ?k (AList.update ?k store cache)))"
      using ok by (intro distinct_move_to_end distinct_update) (simp add: cache_ok_def)
    from suffix_distinct_keys[OF evict_suffix[OF e] this] evict_length[OF e]
    show ?thesis by (simp add: cache_ok_def)
  qed
  from g ok show ?thesis
    by (auto simp: get_or_build_bm25_def Let_def n cache_ok_move
        split: option.splits if_splits sum.splits prod.splits dest: ins)
qed

lemma hybrid_retrieve_cache_ok:
  assumes "cache_ok cfg cache" "hybrid_retrieve env cfg cache req = (cache', r)"
  shows "cache_ok cfg cache'"
proof -
  obtain c r' where g: "get_or_build_bm25 env cfg cache
      \<lparr>f_user_id = hq_user_id req, f_resource_ids = hq_resource_ids req\<rparr> (resolve_params cfg req) = (c, r')"
    by (rule prod.exhaust)
  with assms(2) have "cache' = c"
    by (auto simp: hybrid_retrieve_def bm25_retrieve_def Let_def split: prod.splits)
  with get_or_build_cache_ok[OF assms(1) _ g] show ?thesis by (simp add: resolve_params_def)
qed

section \<open>The cache key\<close>

lemma split_at_bar:
  "(a :: pystr) @ c # r = b @ c # r' \<Longrightarrow> c \<notin> set a \<Longrightarrow> c \<notin> set b \<Longrightarrow> a = b \<and> r = r'"
  by (induction a arbitrary: b) (case_tac b; auto)+

lemma join_comma_inj:
  assumes "py_join [c] ps = py_join [c] qs" "ps \<noteq> []" "qs \<noteq> []"
    and "\<forall>p \<in> set ps. c \<notin> set p" "\<forall>q \<in> set qs. c \<notin> set q"
  shows "ps = qs"
  using assms py_split_join_char by metis

section \<open>Surviving outages\<close>

definition in_scope :: "hybrid_request \<Rightarrow> search_result \<Rightarrow> bool" where
  "in_scope req h \<longleftrightarrow> sr_user_id h = hq_user_id req \<and> sr_resource_id h \<in> set (hq_resource_ids req)"

lemma first_hit_in: "first_hit c hs = Some h \<Longrightarrow> h \<in> set hs \<and> sr_chunk_id h = c"
  by (auto simp: first_hit_def find_Some_iff)

lemma fused_in_scope:
  assumes "0 \<le> k" and "\<forall>h \<in> set b \<union> set v. in_scope req h"
  obtains out where "reciprocal_rank_fusion b v wb wv k = Inr out" "\<forall>h \<in> set out. in_scope req h"
proof -
  from rrf_result[OF assms(1), of b v wb wv] obtain out where
    out: "reciprocal_rank_fusion b v wb wv k = Inr out"
    and carry: "\<forall>r \<in> set out. \<exists>h. first_hit (sr_chunk_id r) (b @ v) = Some h \<and> r = h\<lparr>sr_score := sr_score r\<rparr>"
    by blast
  have "in_scope req r" if "r \<in> set out" for r
  proof -
    from carry that obtain h where "first_hit (sr_chunk_id r) (b @ v) = Some h"
      and r: "r = h\<lparr>sr_score := sr_score r\<rparr>" by blast
    then have "h \<in> set b \<union> set v" using first_hit_in by fastforce
    with assms(2) have "in_scope req h" by blast
    then have "in_scope req (h\<lparr>sr_score := sr_score r\<rparr>)" by (simp add: in_scope_def)
    with r show ?thesis by simp
  qed
  with out that show thesis by blast
qed

lemma finalize_result_total:
  assumes "\<forall>h \<in> set chunks. in_scope req h"
  shows "\<exists>res. finalize_result env chunks fusion req params degraded start = Inr res
    \<and> hr_degraded res = degraded"
proof -
  from assms have "validate_authorization sr_user_id sr_resource_id chunks (hq_user_id req) (hq_resource_ids req) = Inr ()"
    by (simp add: validate_accepts in_scope_def)
  then show ?thesis by (simp add: finalize_result_def)
qed

lemma hybrid_fuse_total:
  assumes scope: "\<forall>h \<in> set b \<union> set v. in_scope req h" and k: "0 \<le> rp_rrf_k params"
    and r: "\<And>q cs n. \<exists>e. he_rerank env q cs n = Inl e \<and> \<not> is_api e"
  shows "\<exists>res. hybrid_fuse env req params start b v True = Inr res \<and> hr_degraded res"
proof (cases "b = [] \<and> v = []")
  case False
  obtain out where out: "reciprocal_rank_fusion b v (rp_bm25_weight params) (rp_vector_weight params)
      (rp_rrf_k params) = Inr out" and sc: "\<forall>h \<in> set out. in_scope req h"
    using fused_in_scope[OF k scope] by blast
  let ?top = "py_take (rp_rerank_top_n params) out"
  have "\<forall>h \<in> set (py_take (rp_final_top_k params) ?top). in_scope req h"
    using sc by (meson set_py_take)
  moreover have "\<forall>h \<in> set (timeout_fallback_chunks params v ?top). in_scope req h"
    using sc scope by (auto simp: timeout_fallback_chunks_def in_scope_def dest!: set_py_take)
  moreover have "rerank_chunks env (hq_question req) ?top params = Inr (py_take (rp_final_top_k params) ?top, True)"
    using r[of "hq_question req" ?top "rp_final_top_k params"]
    by (auto simp: rerank_chunks_def isolate_def)
  ultimately show ?thesis
    using False out by (simp add: hybrid_fuse_def Let_def finalize_result_total[where degraded = True, simplified])
qed (simp add: hybrid_fuse_def)

section \<open>Properties\<close>

text \<open>C4: no chunk outside the request's scope leaves the service. Whatever the embedding service, the
  vector store, the BM25 store, the reranker, the clock and the cached indexes answer, every returned
  chunk belongs to the requesting user and to one of the requested resources and reaches the score
  threshold.\<close>

theorem hybrid_authorized:
  assumes "hybrid_retrieve env cfg cache req = (cache', Inr res)" and "c \<in> set (hr_chunks res)"
  shows "sr_user_id c = hq_user_id req \<and> sr_resource_id c \<in> set (hq_resource_ids req)
    \<and> or_default (hq_score_threshold req) (hc_score_threshold cfg) \<le> sr_score c"
proof -
  from assms(1) obtain b v d where
    "hybrid_fuse env req (resolve_params cfg req) (he_clock env 0) b v d = Inr res"
    by (rule hybrid_retrieve_Inr)
  from hybrid_fuse_guarded[OF this assms(2)] show ?thesis by (simp add: resolve_params_def)
qed

definition demo_vector_hit :: vector_search_result where
  "demo_vector_hit = \<lparr>vr_id = str ''r1-0'', vr_resource_id = str ''r1'', vr_user_id = str ''u1'',
     vr_text = str ''some text'', vr_metadata = [], vr_score = 1, vr_created_at = 0\<rparr>"

definition demo_env :: "search_result list hybrid_env" where
  "demo_env = \<lparr>he_embed_query = (\<lambda>_. Inr [1]), he_vs_search = (\<lambda>_ _ _. Inr [demo_vector_hit]),
     he_vs_query = (\<lambda>_ _. Inr []), he_store_factory = Inr [], he_store_index = (\<lambda>_ docs. Inr docs),
     he_store_search = (\<lambda>s _ _ _. Inr s), he_rerank = (\<lambda>_ cs n. Inr (py_take n cs)), he_clock = (\<lambda>_. 0)\<rparr>"

definition demo_request :: hybrid_request where
  "demo_request = \<lparr>hq_question = str ''q'', hq_user_id = str ''u1'', hq_resource_ids = [str ''r1''],
     hq_bm25_weight = None, hq_vector_weight = None, hq_rrf_k = None, hq_rerank_top_n = None,
     hq_final_top_k = None, hq_score_threshold = None, hq_timeout_ms = None\<rparr>"

lemmas hybrid_unfold = hybrid_retrieve_def hybrid_fuse_def bm25_retrieve_def get_or_build_bm25_def
  load_corpus_def vector_retrieve_def isolate_def rerank_chunks_def timeout_fallback_chunks_def
  finalize_result_def elapsed_ms_def resolve_params_def or_default_def default_hybrid_config_def
  to_search_result_def Let_def bm25_cache_key_def

theorem hybrid_authorized_witness:
  "\<exists>cache' res. hybrid_retrieve demo_env default_hybrid_config [] demo_request = (cache', Inr res)
     \<and> map sr_user_id (hr_chunks res) = [str ''u1'']"
proof -
  let ?c = "(to_search_result SourceVector demo_vector_hit)\<lparr>sr_score := 1 / 61\<rparr>"
  obtain cache' res where r: "hybrid_retrieve demo_env default_hybrid_config [] demo_request = (cache', Inr res)"
    and c: "hr_chunks res = [?c]"
    by (simp add: hybrid_unfold demo_env_def demo_request_def demo_vector_hit_def
        reciprocal_rank_fusion_def py_sorted_desc_def py_take_def py_trunc_def move_to_end_def
        dict_setdefault_def)
  from hybrid_authorized[OF r, of ?c] r c show ?thesis by (auto simp: demo_request_def)
qed

text \<open>In every reachable state of the service the cache of BM25 indexes has distinct keys and at
  most \<open>bm25_cache_max_entries\<close> entries.\<close>

theorem hybrid_cache_bounded:
  assumes "hybrid_reachable cfg cache"
  shows "distinct (map fst cache) \<and> int (length cache) \<le> max 0 (hc_bm25_cache_max_entries cfg)"
proof -
  from assms have "cache_ok cfg cache"
    by induction (auto simp: cache_ok_def[of _ "[]"] intro: hybrid_retrieve_cache_ok)
  then show ?thesis by (simp add: cache_ok_def)
qed

theorem hybrid_cache_bounded_witness:
  "\<exists>cache :: search_result list bm25_cache. hybrid_reachable default_hybrid_config cache
     \<and> length cache = 1 \<and> distinct (map fst cache)"
proof -
  obtain r where r: "hybrid_retrieve demo_env default_hybrid_config [] demo_request
      = ([(str ''u1|r1'', [])], r)"
    by (simp add: hybrid_unfold demo_env_def demo_request_def move_to_end_def str_def)
  from hybrid_reachable.retrieved[OF hybrid_reachable.created r]
  have "hybrid_reachable default_hybrid_config [(str ''u1|r1'', [] :: search_result list)]" .
  with hybrid_cache_bounded[OF this] show ?thesis by fastforce
qed

text \<open>An outage of both paths is reported, not hidden. When embedding the query and loading the
  corpus both fail with something other than an API error and no index is cached for the scope, the
  request fails with \<open>RetrievalUnavailableError\<close> and the cache is unchanged.\<close>

theorem hybrid_both_paths_down:
  assumes "he_embed_query env (hq_question req) = Inl ea" "\<not> is_api ea"
    and "\<And>f n. he_vs_query env f n = Inl eb" "\<not> is_api eb"
    and "map_of cache (bm25_cache_key \<lparr>f_user_id = hq_user_id req, f_resource_ids = hq_resource_ids req\<rparr>) = None"
  shows "\<exists>e. hybrid_retrieve env cfg cache req = (cache, Inl e) \<and> has_class RetrievalUnavailableError e"
  using assms
  by (simp add: hybrid_retrieve_def bm25_retrieve_def vector_retrieve_def get_or_build_bm25_def
      load_corpus_def isolate_def Let_def)

definition down_env :: "search_result list hybrid_env" where
  "down_env = demo_env\<lparr>he_embed_query := (\<lambda>_. Inl (PyException ''ConnectionError'' [])),
     he_vs_query := (\<lambda>_ _. Inl (PyException ''ConnectionError'' [])),
     he_rerank := (\<lambda>_ _ _. Inl (PyException ''RuntimeError'' []))\<rparr>"

theorem hybrid_both_paths_down_witness:
  "\<exists>e. hybrid_retrieve down_env default_hybrid_config [] demo_request = ([], Inl e)
     \<and> has_class RetrievalUnavailableError e"
  by (rule hybrid_both_paths_down[where ea = "PyException ''ConnectionError'' []"
        and eb = "PyException ''ConnectionError'' []"]) (simp_all add: down_env_def)

text \<open>The service answers through outages. When the vector path is down and the reranker raises
  on every call, neither with an API error, a request whose BM25 path returns hits in scope still
  succeeds, for every clock, and its result is marked degraded.\<close>

theorem hybrid_survives_outages:
  assumes "bm25_retrieve env cfg cache req (resolve_params cfg req)
      \<lparr>f_user_id = hq_user_id req, f_resource_ids = hq_resource_ids req\<rparr> = (cache', Inr (hits, False))"
    and "\<forall>h \<in> set hits. in_scope req h"
    and "he_embed_query env (hq_question req) = Inl ea" "\<not> is_api ea"
    and "\<And>q cs n. \<exists>e. he_rerank env q cs n = Inl e \<and> \<not> is_api e"
    and "0 \<le> or_default (hq_rrf_k req) (hc_rrf_k cfg)"
  shows "\<exists>res. hybrid_retrieve env cfg cache req = (cache', Inr res) \<and> hr_degraded res"
proof -
  have v: "vector_retrieve env req (resolve_params cfg req)
      \<lparr>f_user_id = hq_user_id req, f_resource_ids = hq_resource_ids req\<rparr> = Inr ([], True)"
    using assms(3,4) by (simp add: vector_retrieve_def isolate_def)
  have "0 \<le> rp_rrf_k (resolve_params cfg req)" using assms(6) by (simp add: resolve_params_def)
  from hybrid_fuse_total[of hits "[]", OF _ this assms(5)] assms(2) show ?thesis
    by (simp add: hybrid_retrieve_def assms(1) v Let_def)
qed

theorem hybrid_survives_outages_witness:
  "\<exists>res. hybrid_retrieve down_env default_hybrid_config [(str ''u1|r1'', [hit ''a'' 1])] demo_request
      = ([(str ''u1|r1'', [hit ''a'' 1])], Inr res) \<and> hr_degraded res"
  by (rule hybrid_survives_outages[where hits = "[hit ''a'' 1]"
        and ea = "PyException ''ConnectionError'' []"])
    (simp_all add: hybrid_unfold down_env_def demo_env_def demo_request_def move_to_end_def in_scope_def
      hit_def)

text \<open>When the cache key identifies the scope. If the user ids have no \<open>|\<close> and the resource ids
  no comma, two requests share a cached index exactly when they name the same user and the same
  resources, in any order.\<close>

theorem cache_key_identifies_scope:
  assumes "124 \<notin> set (f_user_id f)" "124 \<notin> set (f_user_id g)"
    and "\<forall>r \<in> set (f_resource_ids f) \<union> set (f_resource_ids g). 44 \<notin> set r"
    and "f_resource_ids f \<noteq> []" "f_resource_ids g \<noteq> []"
  shows "bm25_cache_key f = bm25_cache_key g \<longleftrightarrow>
    f_user_id f = f_user_id g \<and> mset (f_resource_ids f) = mset (f_resource_ids g)"
proof
  assume k: "bm25_cache_key f = bm25_cache_key g"
  then have "f_user_id f @ 124 # py_join [44] (sort (f_resource_ids f))
      = f_user_id g @ 124 # py_join [44] (sort (f_resource_ids g))"
    by (simp add: bm25_cache_key_def)
  from split_at_bar[OF this assms(1,2)] have u: "f_user_id f = f_user_id g"
    and j: "py_join [44] (sort (f_resource_ids f)) = py_join [44] (sort (f_resource_ids g))" by auto
  have ne: "sort xs \<noteq> []" if "xs \<noteq> []" for xs :: "pystr list"
    using that by (metis length_0_conv length_sort)
  have "sort (f_resource_ids f) = sort (f_resource_ids g)"
    using join_comma_inj[OF j ne[OF assms(4)] ne[OF assms(5)]] assms(3) by simp
  then have "mset (f_resource_ids f) = mset (f_resource_ids g)" by (metis mset_sort)
  with u show "f_user_id f = f_user_id g \<and> mset (f_resource_ids f) = mset (f_resource_ids g)" by simp
next
  assume "f_user_id f = f_user_id g \<and> mset (f_resource_ids f) = mset (f_resource_ids g)"
  then show "bm25_cache_key f = bm25_cache_key g"
    unfolding bm25_cache_key_def by (metis mset_sort properties_for_sort sorted_sort)
qed

theorem cache_key_identifies_scope_witness:
  "bm25_cache_key \<lparr>f_user_id = str ''u1'', f_resource_ids = [str ''b'', str ''a'']\<rparr>
     = bm25_cache_key \<lparr>f_user_id = str ''u1'', f_resource_ids = [str ''a'', str ''b'']\<rparr>"
  by (subst cache_key_identifies_scope) simp_all

text \<open>Without that condition it does not. Two users whose requests have nothing in common share
  one cache slot, so the second is served the index of the first (the filter of the store and the
  final check keep the foreign chunks from being returned, and its own are not found).\<close>

theorem cache_key_collision:
  "bm25_cache_key \<lparr>f_user_id = str ''a|b'', f_resource_ids = [str ''c'']\<rparr>
     = bm25_cache_key \<lparr>f_user_id = str ''a'', f_resource_ids = [str ''b|c'']\<rparr>"
  by (simp add: bm25_cache_key_def)

end
