(* ===== verification/Subtitles.thy ===== *)
theory Subtitles
  imports Errors
begin

text \<open>
  Subtitles: \<open>format_timecode\<close> (\<open>app/utils/timecode.py\<close>), the merging and splitting of
  ASR segments (\<open>app/services/segment_merger.py\<close>) and the SRT and WebVTT rendering and upload
  (\<open>app/services/srt_generator.py\<close>). The readers at the end are specifications: what a player
  that follows the two formats reads back.
\<close>

section \<open>Timecodes\<close>

text \<open>The format \<open>{n:0wd}\<close> of a non-negative integer.\<close>

definition py_zfill :: "nat \<Rightarrow> nat \<Rightarrow> pystr" where
  "py_zfill w n = (let s = py_str_nat n in replicate (w - length s) 48 @ s)"

definition format_timecode :: "pyfloat \<Rightarrow> pystr \<Rightarrow> pystr" where
  "format_timecode seconds separator =
     (let seconds = (if seconds < 0 then 0 else seconds);
          ms = nat (py_round (seconds * 1000));
          hours = ms div 3600000; ms = ms mod 3600000;
          minutes = ms div 60000; ms = ms mod 60000;
          secs = ms div 1000; millis = ms mod 1000
      in py_zfill 2 hours @ str '':'' @ py_zfill 2 minutes @ str '':'' @ py_zfill 2 secs
         @ separator @ py_zfill 3 millis)"

section \<open>Segments\<close>

record asr_segment =
  sg_start :: pyfloat
  sg_end :: pyfloat
  sg_text :: pystr
  sg_confidence :: "pyfloat option"

text \<open>The constructor with the field constraints \<open>ge=0\<close>; \<open>model_copy\<close> does not check.\<close>

definition asr_segment_new :: "pyfloat \<Rightarrow> pyfloat \<Rightarrow> pystr \<Rightarrow> pyfloat option \<Rightarrow> exn + asr_segment" where
  "asr_segment_new start_s end_s content conf =
     (if start_s < 0 \<or> end_s < 0 then Inl (PyException ''ValidationError'' (str ''AsrSegment''))
      else Inr \<lparr>sg_start = start_s, sg_end = end_s, sg_text = content, sg_confidence = conf\<rparr>)"

record segment_merger =
  mg_min_duration :: pyfloat
  mg_max_duration :: pyfloat
  mg_max_chars :: int
  mg_language :: "pystr option"

definition cjk_languages :: "pystr list" where
  "cjk_languages = [str ''zh'', str ''zh-cn'', str ''zh-tw'', str ''ja'', str ''ko'']"

definition is_cjk :: "pystr option \<Rightarrow> bool" where
  "is_cjk language = (case language of None \<Rightarrow> False | Some l \<Rightarrow> l \<in> set cjk_languages)"

definition join_text :: "pystr \<Rightarrow> pystr \<Rightarrow> pystr option \<Rightarrow> pystr" where
  "join_text left right language =
     (if is_cjk language then left @ right else py_strip (left @ str '' '' @ right))"

text \<open>\<open>text[i : i + n] for i in range(0, len(text), n)\<close> for a positive step.\<close>

function py_slices :: "nat \<Rightarrow> pystr \<Rightarrow> pystr list" where
  "py_slices n s = (if s = [] \<or> n = 0 then [] else take n s # py_slices n (drop n s))"
  by pat_completeness auto
termination
  by (relation "measure (\<lambda>(n, s). length s)") auto

declare py_slices.simps [simp del]

definition piece_end ::
  "asr_segment \<Rightarrow> pyfloat \<Rightarrow> nat \<Rightarrow> pyfloat \<Rightarrow> pystr \<Rightarrow> bool \<Rightarrow> pyfloat" where
  "piece_end seg duration n_chunks current_start c is_last =
     (let total_chars = length (sg_text seg);
          ratio = (if total_chars \<noteq> 0 then of_nat (length c) / of_nat total_chars else 1 / of_nat n_chunks)
      in if is_last then sg_end seg else min (current_start + duration * ratio) (sg_end seg))"

fun split_pieces ::
  "asr_segment \<Rightarrow> pyfloat \<Rightarrow> nat \<Rightarrow> pyfloat \<Rightarrow> pystr list \<Rightarrow> exn + asr_segment list" where
  "split_pieces seg duration n_chunks current_start [] = Inr []"
| "split_pieces seg duration n_chunks current_start (c # cs) =
     (let e = piece_end seg duration n_chunks current_start c (cs = [])
      in sbind (asr_segment_new current_start e c (sg_confidence seg)) (\<lambda>p.
         sbind (split_pieces seg duration n_chunks e cs) (\<lambda>ps. Inr (p # ps))))"

text \<open>
  \<open>range\<close> raises on a zero step and is empty for a negative one.
\<close>

definition split_long_segment :: "asr_segment \<Rightarrow> int \<Rightarrow> exn + asr_segment list" where
  "split_long_segment seg max_chars =
     (if int (length (sg_text seg)) \<le> max_chars then Inr [seg]
      else if max_chars = 0 then Inl (value_error (str ''range() arg 3 must not be zero''))
      else let chunks = (if max_chars < 0 then [] else py_slices (nat max_chars) (sg_text seg))
           in split_pieces seg (max (sg_end seg - sg_start seg) 0) (length chunks) (sg_start seg) chunks)"

section \<open>The merger\<close>

definition normalize_segment :: "asr_segment \<Rightarrow> asr_segment" where
  "normalize_segment seg =
     (let s = max (sg_start seg) 0
      in seg\<lparr>sg_start := s, sg_end := (if sg_end seg < s then s else sg_end seg)\<rparr>)"

definition merger_normalize :: "asr_segment list \<Rightarrow> asr_segment list" where
  "merger_normalize segments = map normalize_segment (sort_key sg_start segments)"

definition ensure_max_chars :: "segment_merger \<Rightarrow> asr_segment \<Rightarrow> exn + asr_segment list" where
  "ensure_max_chars mg seg =
     (if int (length (sg_text seg)) \<le> mg_max_chars mg then Inr [seg]
      else split_long_segment seg (mg_max_chars mg))"

fun merge_loop ::
  "segment_merger \<Rightarrow> asr_segment \<Rightarrow> asr_segment list \<Rightarrow> exn + asr_segment list" where
  "merge_loop mg current [] = ensure_max_chars mg current"
| "merge_loop mg current (seg # segs) =
     (let candidate_duration = sg_end seg - sg_start current;
          candidate_text = join_text (sg_text current) (sg_text seg) (mg_language mg);
          candidate_chars = int (length candidate_text);
          should_merge = (candidate_duration < mg_min_duration mg
            \<or> (candidate_duration < mg_max_duration mg \<and> candidate_chars < mg_max_chars mg))
      in if should_merge
         then merge_loop mg (current\<lparr>sg_end := sg_end seg, sg_text := candidate_text\<rparr>) segs
         else sbind (ensure_max_chars mg current) (\<lambda>done.
              sbind (merge_loop mg seg segs) (\<lambda>rest. Inr (done @ rest))))"

definition merge_segments :: "segment_merger \<Rightarrow> asr_segment list \<Rightarrow> exn + asr_segment list" where
  "merge_segments mg segments =
     (if segments = [] then Inr []
      else case merger_normalize segments of
             [] \<Rightarrow> Inr []
           | current # rest \<Rightarrow> merge_loop mg current rest)"

section \<open>Rendering\<close>

definition generate_srt :: "asr_segment list \<Rightarrow> pystr" where
  "generate_srt segments =
     py_join [10] (map (\<lambda>(index, seg).
       py_str_nat index @ [10] @ format_timecode (sg_start seg) (str '','') @ str '' --> ''
         @ format_timecode (sg_end seg) (str '','') @ [10] @ sg_text seg @ [10])
       (enumerate 1 segments))"

definition generate_vtt :: "asr_segment list \<Rightarrow> pystr" where
  "generate_vtt segments =
     py_join [10] ([str ''WEBVTT'', []] @ concat (map (\<lambda>seg.
       [format_timecode (sg_start seg) (str ''.'') @ str '' --> '' @ format_timecode (sg_end seg) (str ''.''),
        sg_text seg, []]) segments))"

record srt_generator =
  sgn_output_format :: pystr
  sgn_presigned_expiry :: int
  sgn_merger :: segment_merger

definition subtitle_error :: "string \<Rightarrow> pystr \<Rightarrow> exn" where
  "subtitle_error code msg = raise_code SubtitleGenerationError code msg 500"

definition srt_generator_init ::
  "pyfloat \<Rightarrow> pyfloat \<Rightarrow> int \<Rightarrow> pystr \<Rightarrow> pystr option \<Rightarrow> int \<Rightarrow> exn + srt_generator" where
  "srt_generator_init min_duration max_duration max_chars output_format language presigned_expiry =
     (if output_format \<notin> {str ''srt'', str ''vtt''}
      then Inl (subtitle_error ''INVALID_OUTPUT_FORMAT''
                  (str ''unsupported subtitle format: '' @ output_format))
      else Inr \<lparr>sgn_output_format = output_format, sgn_presigned_expiry = presigned_expiry,
        sgn_merger = \<lparr>mg_min_duration = min_duration, mg_max_duration = max_duration,
                      mg_max_chars = max_chars, mg_language = language\<rparr>\<rparr>)"

definition generate :: "srt_generator \<Rightarrow> asr_segment list \<Rightarrow> pystr option \<Rightarrow> exn + pystr" where
  "generate g segments language =
     (if segments = [] then Inl (subtitle_error ''EMPTY_SEGMENTS'' [0x65E0, 0x53EF, 0x7528, 0x8F6C,
       0x5F55, 0x7ED3, 0x679C])
      else sbind (merge_segments ((sgn_merger g)\<lparr>mg_language := language\<rparr>) segments) (\<lambda>merged.
        if merged = [] then Inl (subtitle_error ''EMPTY_SEGMENTS'' [0x65E0, 0x53EF, 0x7528, 0x8F6C,
          0x5F55, 0x7ED3, 0x679C])
        else if sgn_output_format g = str ''vtt'' then Inr (generate_vtt merged)
        else Inr (generate_srt merged)))"

text \<open>
  \<open>save_to_minio\<close>: the client (or the error of building it) and its \<open>put_object\<close> are
  parameters; \<open>str.encode\<close> fails on surrogates, before the \<open>try\<close>.
\<close>

definition save_to_minio ::
  "pystr \<Rightarrow> pystr \<Rightarrow> (exn + 'c) \<Rightarrow> ('c \<Rightarrow> pystr \<Rightarrow> pystr \<Rightarrow> pystr \<Rightarrow> exn + unit) \<Rightarrow> pystr \<Rightarrow> pystr \<Rightarrow> exn + pystr" where
  "save_to_minio cfg_bucket settings_bucket client put_object content key =
     (let bucket = str_or cfg_bucket (str_or settings_bucket (str ''mkc-resources''))
      in sbind client (\<lambda>cl.
         if \<not> utf8_encodable content then Inl (PyException ''UnicodeEncodeError'' (str ''utf-8''))
         else case put_object cl bucket key content of
                Inr _ \<Rightarrow> Inr (str ''minio://'' @ bucket @ str ''/'' @ key)
              | Inl e \<Rightarrow> if has_class SubtitleGenerationError e then Inl e
                         else Inl (subtitle_error ''STORAGE_ERROR'' [0x5B57, 0x5E55, 0x5B58,
                           0x50A8, 0x5931, 0x8D25])))"

section \<open>Readers\<close>

text \<open>What the formats mean: a timecode in milliseconds, a cue, and the cues of a file.\<close>

definition ascii_digits :: "pystr \<Rightarrow> bool" where
  "ascii_digits s \<longleftrightarrow> list_all (\<lambda>c. 48 \<le> c \<and> c \<le> 57) s"

definition read_timecode :: "int \<Rightarrow> pystr \<Rightarrow> nat option" where
  "read_timecode sep t = (case py_split [58] t of
     [h, m, r] \<Rightarrow>
       if 2 \<le> length h \<and> length m = 2 \<and> length r = 6 \<and> r ! 2 = sep \<and> ascii_digits (h @ m @ take 2 r @ drop 3 r)
       then Some (parse_nat h * 3600000 + parse_nat m * 60000 + parse_nat (take 2 r) * 1000 + parse_nat (drop 3 r))
       else None
   | _ \<Rightarrow> None)"

type_synonym cue = "nat \<times> nat \<times> pystr"

definition read_cue :: "int \<Rightarrow> pystr \<Rightarrow> pystr \<Rightarrow> cue option" where
  "read_cue ms_sep timing content = (case py_split [32] timing of
     [a, arrow, b] \<Rightarrow>
       (if arrow \<noteq> str ''-->'' then None
        else case (read_timecode ms_sep a, read_timecode ms_sep b) of
               (Some s, Some e) \<Rightarrow> Some (s, e, content)
             | _ \<Rightarrow> None)
   | _ \<Rightarrow> None)"

fun read_srt_lines :: "nat \<Rightarrow> pystr list \<Rightarrow> cue list option" where
  "read_srt_lines n [] = Some []"
| "read_srt_lines n (index # timing # content # sep # rest) =
     (if index \<noteq> py_str_nat n \<or> sep \<noteq> [] then None
      else case (read_cue 44 timing content, read_srt_lines (n + 1) rest) of
             (Some c, Some cs) \<Rightarrow> Some (c # cs) | _ \<Rightarrow> None)"
| "read_srt_lines n _ = None"

definition read_srt :: "pystr \<Rightarrow> cue list option" where
  "read_srt content = read_srt_lines 1 (py_split [10] content)"

fun read_vtt_lines :: "pystr list \<Rightarrow> cue list option" where
  "read_vtt_lines [] = Some []"
| "read_vtt_lines (timing # content # sep # rest) =
     (if sep \<noteq> [] then None
      else case (read_cue 46 timing content, read_vtt_lines rest) of
             (Some c, Some cs) \<Rightarrow> Some (c # cs) | _ \<Rightarrow> None)"
| "read_vtt_lines _ = None"

definition read_vtt :: "pystr \<Rightarrow> cue list option" where
  "read_vtt content = (case py_split [10] content of
     hdr # sep # rest \<Rightarrow> if hdr = str ''WEBVTT'' \<and> sep = [] then read_vtt_lines rest else None
   | _ \<Rightarrow> None)"

definition millis_of :: "pyfloat \<Rightarrow> nat" where
  "millis_of s = nat (py_round (s * 1000))"

definition cue_of :: "asr_segment \<Rightarrow> cue" where
  "cue_of seg = (millis_of (sg_start seg), millis_of (sg_end seg), sg_text seg)"

end
