(* ===== verification/Subtitle_Props.thy ===== *)
theory Subtitle_Props
  imports Subtitles
begin

text \<open>
  Correctness of the subtitle pipeline: timecodes can be read back to the millisecond, merging keeps
  the text and the timeline and respects the character limit, and what is written as SRT or WebVTT is
  read back as the merged cues.
\<close>

section \<open>Timecodes\<close>

lemma parse_nat_zeros: "parse_nat (replicate k 48 @ s) = parse_nat s"
proof -
  have "foldl (\<lambda>n c. 10 * n + digit_val c) 0 (replicate k 48) = 0"
    by (induction k) (simp_all add: digit_val_def)
  then show ?thesis by (simp add: parse_nat_def)
qed

lemma parse_py_zfill [simp]: "parse_nat (py_zfill w n) = n"
  by (simp add: py_zfill_def Let_def parse_nat_zeros)

lemma py_zfill_digits: "c \<in> set (py_zfill w n) \<Longrightarrow> 48 \<le> c \<and> c \<le> 57"
  by (auto simp: py_zfill_def Let_def dest: py_str_nat_digits split: if_splits)

lemma length_py_str_nat_le: "n < 10 ^ Suc k \<Longrightarrow> length (py_str_nat n) \<le> Suc k"
proof (induction k arbitrary: n)
  case 0
  then show ?case by (subst py_str_nat.simps) simp
next
  case (Suc k)
  show ?case
  proof (cases "n < 10")
    case True
    then show ?thesis by (subst py_str_nat.simps) simp
  next
    case False
    have "n div 10 < 10 ^ Suc k" using Suc.prems by (simp add: div_less_iff_less_mult)
    from Suc.IH[OF this] False show ?thesis by (subst py_str_nat.simps) simp
  qed
qed

lemma length_py_zfill: "n < 10 ^ Suc k \<Longrightarrow> length (py_zfill (Suc k) n) = Suc k"
  using length_py_str_nat_le[of n k] by (simp add: py_zfill_def Let_def)

lemma length_py_zfill_le: "w \<le> length (py_zfill w n)"
  by (simp add: py_zfill_def Let_def)

lemma format_timecode_parts:
  assumes "0 \<le> s"
  obtains h m r where "format_timecode s [c] = py_join [58] [h, m, r]"
    "\<forall>p \<in> set [h, m]. \<forall>x \<in> set p. 48 \<le> x \<and> x \<le> 57"
    "\<forall>x \<in> set r. 48 \<le> x \<and> x \<le> 57 \<or> x = c"
    "2 \<le> length h" "length m = 2" "length r = 6" "r ! 2 = c" "ascii_digits (h @ m @ take 2 r @ drop 3 r)"
    "parse_nat h * 3600000 + parse_nat m * 60000 + parse_nat (take 2 r) * 1000 + parse_nat (drop 3 r) = millis_of s"
proof -
  define ms where "ms = nat (py_round (s * 1000))"
  let ?h = "py_zfill 2 (ms div 3600000)" and ?m = "py_zfill 2 (ms mod 3600000 div 60000)"
  let ?ss = "py_zfill 2 (ms mod 3600000 mod 60000 div 1000)" and ?ml = "py_zfill 3 (ms mod 3600000 mod 60000 mod 1000)"
  have two: "length ?ss = 2" "length ?m = 2"
    using length_py_zfill[of "ms mod 3600000 mod 60000 div 1000" 1] length_py_zfill[of "ms mod 3600000 div 60000" 1]
    by (simp_all add: div_less_iff_less_mult numeral_2_eq_2)
  have three: "length ?ml = 3"
    using length_py_zfill[of "ms mod 3600000 mod 60000 mod 1000" 2] by (simp add: numeral_3_eq_3 numeral_2_eq_2)
  have digits: "ascii_digits (?h @ ?m @ ?ss @ ?ml)"
    by (auto simp: ascii_digits_def list_all_iff dest: py_zfill_digits)
  have f: "format_timecode s [c] = py_join [58] [?h, ?m, ?ss @ [c] @ ?ml]"
    using assms by (simp add: format_timecode_def Let_def ms_def[symmetric])
  have "ms div 3600000 * 3600000 + ms mod 3600000 div 60000 * 60000
      + ms mod 3600000 mod 60000 div 1000 * 1000 + ms mod 3600000 mod 60000 mod 1000 = ms"
    by (simp only: div_mult_mod_eq add.assoc)
  then have v: "parse_nat ?h * 3600000 + parse_nat ?m * 60000 + parse_nat ?ss * 1000 + parse_nat ?ml = millis_of s"
    by (simp add: millis_of_def ms_def)
  have r: "length (?ss @ [c] @ ?ml) = 6" "(?ss @ [c] @ ?ml) ! 2 = c" "take 2 (?ss @ [c] @ ?ml) = ?ss" "drop 3 (?ss @ [c] @ ?ml) = ?ml"
    using two(1) three by (simp_all add: nth_append)
  have d: "\<forall>p \<in> set [?h, ?m]. \<forall>x \<in> set p. 48 \<le> x \<and> x \<le> 57" "\<forall>x \<in> set (?ss @ [c] @ ?ml). 48 \<le> x \<and> x \<le> 57 \<or> x = c"
    using digits by (auto simp: ascii_digits_def list_all_iff)
  show thesis
    by (rule that[of ?h ?m "?ss @ [c] @ ?ml", OF f d length_py_zfill_le two(2) r(1,2)]) (simp_all only: r(3,4) digits v)
qed

lemma read_format_timecode:
  assumes "0 \<le> s" "c \<noteq> 58"
  shows "read_timecode c (format_timecode s [c]) = Some (millis_of s)"
proof -
  from assms(1) obtain h m r where f: "format_timecode s [c] = py_join [58] [h, m, r]"
    and d: "\<forall>p \<in> set [h, m]. \<forall>x \<in> set p. 48 \<le> x \<and> x \<le> 57"
    and r: "\<forall>x \<in> set r. 48 \<le> x \<and> x \<le> 57 \<or> x = c"
    and w: "2 \<le> length h" "length m = 2" "length r = 6" "r ! 2 = c" "ascii_digits (h @ m @ take 2 r @ drop 3 r)"
    and v: "parse_nat h * 3600000 + parse_nat m * 60000 + parse_nat (take 2 r) * 1000 + parse_nat (drop 3 r) = millis_of s"
    by (rule format_timecode_parts)
  have "py_split [58] (format_timecode s [c]) = [h, m, r]"
    unfolding f using d r assms(2) by (intro py_split_join_char) auto
  with v w show ?thesis by (simp add: read_timecode_def)
qed

lemma format_timecode_chars:
  assumes "0 \<le> s" "x \<in> set (format_timecode s [c])"
  shows "48 \<le> x \<and> x \<le> 58 \<or> x = c"
proof -
  from assms(1) obtain h m r where "format_timecode s [c] = py_join [58] [h, m, r]"
    "\<forall>p \<in> set [h, m]. \<forall>x \<in> set p. 48 \<le> x \<and> x \<le> 57" "\<forall>x \<in> set r. 48 \<le> x \<and> x \<le> 57 \<or> x = c"
    by (rule format_timecode_parts)
  with assms(2) show ?thesis by fastforce
qed

lemma read_cue_format:
  assumes "0 \<le> s" "0 \<le> e" "c \<noteq> 58" "c \<noteq> 32"
  shows "read_cue c (format_timecode s [c] @ str '' --> '' @ format_timecode e [c]) content
    = Some (millis_of s, millis_of e, content)"
proof -
  let ?ps = "[format_timecode s [c], str ''-->'', format_timecode e [c]]"
  have "py_split [32] (py_join [32] ?ps) = ?ps"
    using assms format_timecode_chars[OF assms(1), of 32 c] format_timecode_chars[OF assms(2), of 32 c]
    by (intro py_split_join_char) auto
  with assms show ?thesis by (simp add: read_cue_def read_format_timecode)
qed

section \<open>Splitting a segment\<close>

text \<open>Consecutive intervals from \<open>a\<close> to \<open>b\<close>.\<close>

fun spans :: "pyfloat \<Rightarrow> pyfloat \<Rightarrow> asr_segment list \<Rightarrow> bool" where
  "spans a b [] \<longleftrightarrow> a = b"
| "spans a b (p # ps) \<longleftrightarrow> sg_start p = a \<and> a \<le> sg_end p \<and> sg_end p \<le> b \<and> spans (sg_end p) b ps"

text \<open>Intervals in order and without overlap, none before \<open>lo\<close>.\<close>

fun timeline :: "pyfloat \<Rightarrow> asr_segment list \<Rightarrow> bool" where
  "timeline lo [] \<longleftrightarrow> True"
| "timeline lo (p # ps) \<longleftrightarrow> lo \<le> sg_start p \<and> sg_start p \<le> sg_end p \<and> timeline (sg_end p) ps"

lemma concat_py_slices: "0 < n \<Longrightarrow> concat (py_slices n s) = s"
  by (induction n s rule: py_slices.induct) (subst py_slices.simps, auto)

lemma length_py_slices: "p \<in> set (py_slices n s) \<Longrightarrow> length p \<le> n"
  by (induction n s rule: py_slices.induct) (subst (asm) (2) py_slices.simps, auto split: if_splits)

lemma py_slices_Nil_iff: "0 < n \<Longrightarrow> py_slices n s = [] \<longleftrightarrow> s = []"
  by (subst py_slices.simps) auto

lemma piece_end_bounds:
  assumes "cur \<le> sg_end seg" "0 \<le> duration"
  shows "cur \<le> piece_end seg duration n cur c is_last" "piece_end seg duration n cur c is_last \<le> sg_end seg"
  using assms by (simp_all add: piece_end_def Let_def)

lemma split_pieces_spans:
  assumes "cs \<noteq> []" "0 \<le> cur" "cur \<le> sg_end seg" "0 \<le> duration"
  shows "\<exists>ps. split_pieces seg duration n cur cs = Inr ps \<and> map sg_text ps = cs
    \<and> spans cur (sg_end seg) ps \<and> (\<forall>p \<in> set ps. 0 \<le> sg_start p)"
  using assms
proof (induction cs arbitrary: cur)
  case (Cons c cs)
  define e where "e = piece_end seg duration n cur c (cs = [])"
  have e: "cur \<le> e" "e \<le> sg_end seg"
    using piece_end_bounds[OF Cons.prems(3,4)] by (simp_all add: e_def)
  have unfold_step: "split_pieces seg duration n cur (c # cs)
      = sbind (split_pieces seg duration n e cs) (\<lambda>ps. Inr
          (\<lparr>sg_start = cur, sg_end = e, sg_text = c, sg_confidence = sg_confidence seg\<rparr> # ps))"
    using e Cons.prems(2) by (simp add: Let_def e_def[symmetric] asr_segment_new_def)
  show ?case
  proof (cases "cs = []")
    case True
    with unfold_step e Cons.prems(2) show ?thesis by (simp add: e_def piece_end_def)
  next
    case False
    have "0 \<le> e" using e Cons.prems(2) by simp
    from Cons.IH[OF False this e(2) Cons.prems(4)] obtain ps where
      "split_pieces seg duration n e cs = Inr ps" "map sg_text ps = cs"
      "spans e (sg_end seg) ps" "\<forall>p \<in> set ps. 0 \<le> sg_start p" by blast
    with unfold_step e Cons.prems(2) show ?thesis by simp
  qed
qed simp

lemma spans_bounds: "spans a b ps \<Longrightarrow> p \<in> set ps \<Longrightarrow> a \<le> b \<and> sg_start p \<le> sg_end p"
  by (induction ps arbitrary: a) fastforce+

lemma timeline_append:
  "spans a b ps \<Longrightarrow> lo \<le> a \<Longrightarrow> ps \<noteq> [] \<Longrightarrow> timeline b qs \<Longrightarrow> timeline lo (ps @ qs)"
proof (induction ps arbitrary: a lo)
  case (Cons p ps)
  show ?case
  proof (cases "ps = []")
    case True
    with Cons.prems show ?thesis by auto
  next
    case False
    with Cons.prems Cons.IH[of "sg_end p" "sg_end p"] show ?thesis by auto
  qed
qed simp

text \<open>The pieces a finished segment is emitted as.\<close>

definition pieces_of :: "segment_merger \<Rightarrow> asr_segment \<Rightarrow> asr_segment list \<Rightarrow> bool" where
  "pieces_of mg seg ps \<longleftrightarrow> ps \<noteq> [] \<and> concat (map sg_text ps) = sg_text seg \<and> spans (sg_start seg) (sg_end seg) ps
     \<and> (\<forall>p \<in> set ps. 0 \<le> sg_start p \<and> sg_start p \<le> sg_end p \<and> int (length (sg_text p)) \<le> mg_max_chars mg)"

lemma ensure_max_chars_pieces:
  assumes "0 < mg_max_chars mg" "0 \<le> sg_start seg" "sg_start seg \<le> sg_end seg"
  shows "\<exists>ps. ensure_max_chars mg seg = Inr ps \<and> pieces_of mg seg ps"
proof (cases "int (length (sg_text seg)) \<le> mg_max_chars mg")
  case True
  with assms show ?thesis by (simp add: ensure_max_chars_def pieces_of_def)
next
  case False
  let ?cs = "py_slices (nat (mg_max_chars mg)) (sg_text seg)"
  have "?cs \<noteq> []" using assms(1) False by (auto simp: py_slices_Nil_iff)
  from split_pieces_spans[OF this assms(2,3), of "max (sg_end seg - sg_start seg) 0" "length ?cs"]
  obtain ps where ps: "split_pieces seg (max (sg_end seg - sg_start seg) 0) (length ?cs) (sg_start seg) ?cs = Inr ps"
    and t: "map sg_text ps = ?cs" and s: "spans (sg_start seg) (sg_end seg) ps" "\<forall>p \<in> set ps. 0 \<le> sg_start p"
    by auto
  have "int (length (sg_text p)) \<le> mg_max_chars mg" if "p \<in> set ps" for p
  proof -
    have "sg_text p \<in> set ?cs" using that by (simp add: t[symmetric])
    from length_py_slices[OF this] assms(1) show ?thesis by simp
  qed
  moreover have "concat (map sg_text ps) = sg_text seg"
    unfolding t using assms(1) by (simp add: concat_py_slices)
  ultimately have "pieces_of mg seg ps"
    using \<open>?cs \<noteq> []\<close> t s spans_bounds[OF s(1)] by (auto simp: pieces_of_def)
  with ps False assms(1) show ?thesis
    by (simp add: ensure_max_chars_def split_long_segment_def Let_def)
qed

section \<open>Merging\<close>

definition wf_segment :: "asr_segment \<Rightarrow> bool" where
  "wf_segment seg \<longleftrightarrow> 0 \<le> sg_start seg \<and> sg_start seg \<le> sg_end seg"

definition texts :: "asr_segment list \<Rightarrow> pystr" where
  "texts segs = concat (map sg_text segs)"

lemma texts_simps [simp]:
  "texts [] = []" "texts (p # ps) = sg_text p @ texts ps" "texts (ps @ qs) = texts ps @ texts qs"
  by (simp_all add: texts_def)

text \<open>What the loop owes for the open segment and the ones still to come.\<close>

definition merged_from :: "segment_merger \<Rightarrow> asr_segment \<Rightarrow> asr_segment list \<Rightarrow> asr_segment list \<Rightarrow> bool" where
  "merged_from mg current segs out \<longleftrightarrow> out \<noteq> []
     \<and> (\<forall>p \<in> set out. wf_segment p \<and> int (length (sg_text p)) \<le> mg_max_chars mg)
     \<and> ink (texts out) = ink (texts (current # segs))
     \<and> (is_cjk (mg_language mg) \<longrightarrow> texts out = texts (current # segs))
     \<and> set (texts out) \<subseteq> {32} \<union> set (texts (current # segs))
     \<and> (\<forall>lo. lo \<le> sg_start current \<longrightarrow> timeline (sg_end current) segs \<longrightarrow> timeline lo out)"

lemma join_text_ink: "ink (join_text a b l) = ink a @ ink b"
proof -
  have "ink (32 # b) = ink b" by (simp add: ink_def is_space_def)
  then show ?thesis by (simp add: join_text_def)
qed

lemma join_text_set: "set (join_text a b l) \<subseteq> {32} \<union> set a \<union> set b"
  by (auto simp: join_text_def dest: set_py_strip)

lemma pieces_merged:
  assumes "pieces_of mg current ps" and "merged_from mg seg segs out"
  shows "merged_from mg current (seg # segs) (ps @ out)"
proof -
  have t: "texts ps = sg_text current" using assms(1) by (simp add: pieces_of_def texts_def)
  have "timeline lo (ps @ out)" if "lo \<le> sg_start current" "timeline (sg_end current) (seg # segs)" for lo
  proof -
    have "timeline (sg_end current) out" using assms(2) that(2) by (simp add: merged_from_def)
    with assms(1) that(1) show ?thesis
      by (auto simp: pieces_of_def intro: timeline_append)
  qed
  moreover have "\<forall>p \<in> set ps. wf_segment p \<and> int (length (sg_text p)) \<le> mg_max_chars mg"
    using assms(1) by (simp add: pieces_of_def wf_segment_def)
  ultimately show ?thesis
    using assms(2) t by (auto simp: merged_from_def)
qed

lemma merge_loop_spec:
  assumes "0 < mg_max_chars mg" "wf_segment current" "\<forall>s \<in> set segs. wf_segment s"
    and "sorted (map sg_start (current # segs))"
  shows "\<exists>out. merge_loop mg current segs = Inr out \<and> merged_from mg current segs out"
  using assms(2-)
proof (induction segs arbitrary: current)
  case Nil
  with ensure_max_chars_pieces[OF assms(1), of current] obtain ps where
    ps: "ensure_max_chars mg current = Inr ps" "pieces_of mg current ps" by (auto simp: wf_segment_def)
  then have "merged_from mg current [] ps"
    using timeline_append[of "sg_start current" "sg_end current" ps _ "[]"]
    by (auto simp: merged_from_def pieces_of_def texts_def wf_segment_def)
  with ps show ?case by simp
next
  case (Cons seg segs)
  let ?t = "join_text (sg_text current) (sg_text seg) (mg_language mg)"
  let ?cur = "current\<lparr>sg_end := sg_end seg, sg_text := ?t\<rparr>"
  let ?merge = "sg_end seg - sg_start current < mg_min_duration mg
    \<or> (sg_end seg - sg_start current < mg_max_duration mg \<and> int (length ?t) < mg_max_chars mg)"
  show ?case
  proof (cases ?merge)
    case True
    have "wf_segment ?cur" "sorted (map sg_start (?cur # segs))"
      using Cons.prems by (auto simp: wf_segment_def)
    with Cons.IH[of ?cur] Cons.prems obtain out where
      out: "merge_loop mg ?cur segs = Inr out" "merged_from mg ?cur segs out" by auto
    have "merged_from mg current (seg # segs) out"
      using out(2) join_text_set[of "sg_text current" "sg_text seg" "mg_language mg"]
      by (auto simp: merged_from_def join_text_ink) (auto simp: join_text_def)
    with out(1) True show ?thesis by (simp only: merge_loop.simps Let_def if_True) blast
  next
    case False
    obtain ps where ps: "ensure_max_chars mg current = Inr ps" "pieces_of mg current ps"
      using ensure_max_chars_pieces[OF assms(1), of current] Cons.prems(1) by (auto simp: wf_segment_def)
    from Cons.IH[of seg] Cons.prems obtain out where
      out: "merge_loop mg seg segs = Inr out" "merged_from mg seg segs out" by auto
    have "merge_loop mg current (seg # segs) = Inr (ps @ out)"
      using False ps(1) out(1) by (auto simp: Let_def)
    with pieces_merged[OF ps(2) out(2)] show ?thesis by blast
  qed
qed

lemma wf_normalize: "s \<in> set (merger_normalize segs) \<Longrightarrow> wf_segment s"
  by (auto simp: merger_normalize_def normalize_segment_def Let_def wf_segment_def)

lemma sorted_normalize: "sorted (map sg_start (merger_normalize segs))"
proof -
  have "sorted (map (\<lambda>s. max s (0::rat)) (map sg_start (sort_key sg_start segs)))"
    by (intro sorted_map_mono[where f = "\<lambda>s. max s 0", unfolded mono_on_def]) auto
  then show ?thesis by (simp add: merger_normalize_def normalize_segment_def Let_def comp_def)
qed

lemma texts_normalize: "texts (merger_normalize segs) = texts (sort_key sg_start segs)"
  by (simp add: merger_normalize_def texts_def normalize_segment_def Let_def comp_def)

lemma merge_segments_spec:
  assumes "0 < mg_max_chars mg" "segs \<noteq> []"
  obtains cur rest out where "merger_normalize segs = cur # rest" "merge_segments mg segs = Inr out"
    "merged_from mg cur rest out"
proof -
  from assms(2) obtain cur rest where n: "merger_normalize segs = cur # rest"
    by (metis Nil_is_map_conv length_0_conv length_sort list.exhaust merger_normalize_def)
  have "\<exists>out. merge_loop mg cur rest = Inr out \<and> merged_from mg cur rest out"
    using wf_normalize[of _ segs] sorted_normalize[of segs] unfolding n
    by (intro merge_loop_spec[OF assms(1)]) auto
  with n assms(2) that show thesis by (auto simp: merge_segments_def)
qed

section \<open>Reading subtitles back\<close>

lemma join_blocks:
  "py_join [10] (map (\<lambda>(i, s). f i @ [10] @ g s @ [10] @ h s @ [10]) xs)
     = py_join [10] (concat (map (\<lambda>(i, s). [f i, g s, h s, []]) xs))"
proof (induction xs)
  case (Cons x xs)
  then show ?case by (cases x; cases xs) (auto simp: py_join_Cons)
qed simp

lemma read_srt_lines_ok:
  assumes "\<forall>s \<in> set segs. wf_segment s"
  shows "read_srt_lines n (concat (map (\<lambda>(i, s). [py_str_nat i,
      format_timecode (sg_start s) [44] @ str '' --> '' @ format_timecode (sg_end s) [44], sg_text s, []])
      (enumerate n segs))) = Some (map cue_of segs)"
  using assms
proof (induction segs arbitrary: n)
  case (Cons s segs)
  then have "0 \<le> sg_start s" "0 \<le> sg_end s" by (auto simp: wf_segment_def)
  from read_cue_format[OF this, of 44 "sg_text s"] Cons.IH[of "Suc n"] Cons.prems
  show ?case by (simp add: cue_of_def)
qed simp

lemma timing_no_newline:
  assumes "wf_segment s" "c \<noteq> 10"
  shows "10 \<notin> set (format_timecode (sg_start s) [c] @ str '' --> '' @ format_timecode (sg_end s) [c])"
  using format_timecode_chars[of "sg_start s" 10 c] format_timecode_chars[of "sg_end s" 10 c] assms
  by (auto simp: wf_segment_def)

lemma read_generate_srt:
  assumes "\<forall>s \<in> set segs. wf_segment s" "\<forall>s \<in> set segs. 10 \<notin> set (sg_text s)" "segs \<noteq> []"
  shows "read_srt (generate_srt segs) = Some (map cue_of segs)"
proof -
  define lines where "lines = concat (map (\<lambda>(i, s). [py_str_nat i,
      format_timecode (sg_start s) [44] @ str '' --> '' @ format_timecode (sg_end s) [44], sg_text s, []])
      (enumerate 1 segs))"
  have "generate_srt segs = py_join [10] lines"
    using join_blocks[of py_str_nat
        "\<lambda>s. format_timecode (sg_start s) [44] @ str '' --> '' @ format_timecode (sg_end s) [44]" sg_text]
    by (simp add: generate_srt_def lines_def)
  moreover have "py_split [10] (py_join [10] lines) = lines"
  proof (rule py_split_join_char)
    show "lines \<noteq> []" using assms(3) by (cases segs) (simp_all add: lines_def)
    show "\<forall>p \<in> set lines. 10 \<notin> set p"
      using assms timing_no_newline[of _ 44] py_str_nat_digits[of 10]
      by (fastforce simp: lines_def in_set_enumerate_eq)
  qed
  ultimately show ?thesis
    using read_srt_lines_ok[OF assms(1), of 1] by (simp add: read_srt_def lines_def)
qed

lemma read_vtt_lines_ok:
  assumes "\<forall>s \<in> set segs. wf_segment s"
  shows "read_vtt_lines (concat (map (\<lambda>s.
      [format_timecode (sg_start s) [46] @ str '' --> '' @ format_timecode (sg_end s) [46], sg_text s, []])
      segs)) = Some (map cue_of segs)"
  using assms
proof (induction segs)
  case (Cons s segs)
  then have "0 \<le> sg_start s" "0 \<le> sg_end s" by (auto simp: wf_segment_def)
  from read_cue_format[OF this, of 46 "sg_text s"] Cons.IH Cons.prems
  show ?case by (simp add: cue_of_def)
qed simp

lemma read_generate_vtt:
  assumes "\<forall>s \<in> set segs. wf_segment s" "\<forall>s \<in> set segs. 10 \<notin> set (sg_text s)"
  shows "read_vtt (generate_vtt segs) = Some (map cue_of segs)"
proof -
  define lines where "lines = concat (map (\<lambda>s.
      [format_timecode (sg_start s) [46] @ str '' --> '' @ format_timecode (sg_end s) [46], sg_text s, []]) segs)"
  have "generate_vtt segs = py_join [10] ([str ''WEBVTT'', []] @ lines)"
    by (simp add: generate_vtt_def lines_def)
  moreover have "py_split [10] (py_join [10] ([str ''WEBVTT'', []] @ lines)) = [str ''WEBVTT'', []] @ lines"
    using assms timing_no_newline[of _ 46]
    by (intro py_split_join_char) (auto simp: lines_def)
  ultimately show ?thesis
    using read_vtt_lines_ok[OF assms(1)] by (simp add: read_vtt_def lines_def)
qed

lemma merged_no_newline:
  assumes "merger_normalize segs = cur # rest" "merged_from mg cur rest out"
    and "\<forall>s \<in> set segs. 10 \<notin> set (sg_text s)"
  shows "\<forall>s \<in> set out. 10 \<notin> set (sg_text s)"
proof -
  have "10 \<notin> set (texts (cur # rest))"
    using assms(3) texts_normalize[of segs] unfolding assms(1) by (auto simp: texts_def)
  then have "10 \<notin> set (texts out)" using assms(2) by (auto simp: merged_from_def)
  then show ?thesis by (auto simp: texts_def)
qed

section \<open>Properties\<close>

text \<open>A timecode can be read back. For every timestamp that is not negative the text
  \<open>HH:MM:SS,mmm\<close> (or with any separator but the colon) denotes the timestamp rounded to the nearest
  millisecond.\<close>

theorem timecode_roundtrip:
  assumes "0 \<le> seconds" "c \<noteq> 58"
  shows "\<exists>ms. read_timecode c (format_timecode seconds [c]) = Some ms
    \<and> \<bar>of_nat ms - seconds * 1000\<bar> \<le> 1 / 2"
proof -
  have "int (millis_of seconds) = py_round (seconds * 1000)"
    using assms(1) py_round_nonneg[of "seconds * 1000"] by (simp add: millis_of_def)
  then have "of_nat (millis_of seconds) = (of_int (py_round (seconds * 1000)) :: rat)"
    by (metis of_int_of_nat_eq)
  with read_format_timecode[OF assms] py_round_error[of "seconds * 1000"] show ?thesis by simp
qed

theorem timecode_roundtrip_witness:
  "\<exists>ms. read_timecode 44 (format_timecode (7384 + 1 / 2) [44]) = Some ms
     \<and> \<bar>of_nat ms - (7384 + 1 / 2) * 1000\<bar> \<le> (1 / 2 :: rat)"
  by (rule timecode_roundtrip) simp_all

text \<open>C9: merging never fails for a positive character limit, and every subtitle has a valid interval
  and at most \<open>max_chars\<close> characters; segments that do not overlap after normalization give
  subtitles that do not overlap.\<close>

theorem merge_bounds:
  assumes "0 < mg_max_chars mg"
  shows "\<exists>out. merge_segments mg segs = Inr out
    \<and> (\<forall>p \<in> set out. 0 \<le> sg_start p \<and> sg_start p \<le> sg_end p \<and> int (length (sg_text p)) \<le> mg_max_chars mg)
    \<and> (timeline 0 (merger_normalize segs) \<longrightarrow> timeline 0 out)"
proof (cases "segs = []")
  case False
  with assms obtain cur rest out where "merger_normalize segs = cur # rest"
    "merge_segments mg segs = Inr out" "merged_from mg cur rest out"
    by (rule merge_segments_spec)
  then show ?thesis by (auto simp: merged_from_def wf_segment_def)
qed (simp add: merge_segments_def)

definition demo_merger :: segment_merger where
  "demo_merger = \<lparr>mg_min_duration = 1, mg_max_duration = 6, mg_max_chars = 3, mg_language = Some (str ''zh'')\<rparr>"

definition demo_segments :: "asr_segment list" where
  "demo_segments =
     [\<lparr>sg_start = 2, sg_end = 9, sg_text = str ''abcde'', sg_confidence = None\<rparr>,
      \<lparr>sg_start = 0, sg_end = 1 / 2, sg_text = str ''x'', sg_confidence = None\<rparr>]"

theorem merge_bounds_witness:
  "\<exists>out. merge_segments demo_merger demo_segments = Inr out
     \<and> list_all (\<lambda>p. length (sg_text p) \<le> 3) out \<and> timeline 0 out"
proof -
  have "0 < mg_max_chars demo_merger" by (simp add: demo_merger_def)
  moreover have "timeline 0 (merger_normalize demo_segments)"
    by (simp add: merger_normalize_def demo_segments_def normalize_segment_def)
  ultimately show ?thesis
    using merge_bounds[of demo_merger demo_segments] by (auto simp: list_all_iff demo_merger_def)
qed

text \<open>Merging loses no text. The visible characters of the subtitles, in order, are those of the
  segments sorted by start time; for Chinese, Japanese and Korean the texts are exactly the same.\<close>

theorem merge_keeps_text:
  assumes "0 < mg_max_chars mg" "merge_segments mg segs = Inr out"
  shows "ink (texts out) = ink (texts (sort_key sg_start segs))
    \<and> (is_cjk (mg_language mg) \<longrightarrow> texts out = texts (sort_key sg_start segs))"
proof (cases "segs = []")
  case False
  with assms(1) obtain cur rest out' where n: "merger_normalize segs = cur # rest"
    and "merge_segments mg segs = Inr out'" "merged_from mg cur rest out'"
    by (rule merge_segments_spec)
  with assms(2) texts_normalize[of segs] show ?thesis
    unfolding n by (auto simp: merged_from_def)
qed (use assms in \<open>simp add: merge_segments_def\<close>)

theorem merge_keeps_text_witness:
  "\<exists>out. merge_segments demo_merger demo_segments = Inr out \<and> texts out = str ''xabcde''"
proof -
  have m: "0 < mg_max_chars demo_merger" by (simp add: demo_merger_def)
  with merge_segments_spec[OF m, of demo_segments] obtain out where
    r: "merge_segments demo_merger demo_segments = Inr out"
    by (auto simp: demo_segments_def)
  from merge_keeps_text[OF m r] r show ?thesis
    by (auto simp: demo_merger_def demo_segments_def is_cjk_def cjk_languages_def)
qed

text \<open>C8: the generated file is read back. For a positive character limit and texts without a line feed the
  generator produces a file, and a reader of its format, which wants every timecode as \<open>HH:MM:SS\<close> with three
  decimals after a comma in SRT and after a point in WebVTT, gives exactly the merged subtitles: numbered from
  one in SRT, with their texts and their times in milliseconds.\<close>

theorem subtitles_roundtrip:
  assumes "segs \<noteq> []" "0 < mg_max_chars (sgn_merger g)"
    and "\<forall>s \<in> set segs. 10 \<notin> set (sg_text s)"
    and "sgn_output_format g \<in> {str ''srt'', str ''vtt''}"
  shows "\<exists>content out. generate g segs language = Inr content
    \<and> merge_segments ((sgn_merger g)\<lparr>mg_language := language\<rparr>) segs = Inr out
    \<and> (if sgn_output_format g = str ''vtt'' then read_vtt content else read_srt content) = Some (map cue_of out)"
proof -
  let ?mg = "(sgn_merger g)\<lparr>mg_language := language\<rparr>"
  have "0 < mg_max_chars ?mg" using assms(2) by simp
  from this assms(1) obtain cur rest out where n: "merger_normalize segs = cur # rest"
    and out: "merge_segments ?mg segs = Inr out" and m: "merged_from ?mg cur rest out"
    by (rule merge_segments_spec)
  have "out \<noteq> []" "\<forall>s \<in> set out. wf_segment s" using m by (auto simp: merged_from_def)
  with read_generate_srt[of out] read_generate_vtt[of out] merged_no_newline[OF n m assms(3)]
  show ?thesis using assms(1) out by (auto simp: generate_def)
qed

theorem subtitles_roundtrip_witness:
  "\<exists>content out. generate \<lparr>sgn_output_format = str ''srt'', sgn_presigned_expiry = 3600,
       sgn_merger = demo_merger\<rparr> demo_segments None = Inr content
     \<and> read_srt content = Some (map cue_of out)"
  using subtitles_roundtrip[of demo_segments "\<lparr>sgn_output_format = str ''srt'',
      sgn_presigned_expiry = 3600, sgn_merger = demo_merger\<rparr>" None]
  by (auto simp: demo_segments_def demo_merger_def)

text \<open>Merging can cut a subtitle short. A segment that contains the next one (the merger compares
  only the end of the later segment) loses its tail: the merged subtitle ends before the segment it
  came from.\<close>

theorem merge_shrinks_containing_segment:
  "merge_segments (demo_merger\<lparr>mg_max_chars := 80\<rparr>)
     [\<lparr>sg_start = 0, sg_end = 10, sg_text = str ''a'', sg_confidence = None\<rparr>,
      \<lparr>sg_start = 1, sg_end = 2, sg_text = str ''b'', sg_confidence = None\<rparr>]
   = Inr [\<lparr>sg_start = 0, sg_end = 2, sg_text = str ''ab'', sg_confidence = None\<rparr>]"
  by (simp add: merge_segments_def merger_normalize_def normalize_segment_def demo_merger_def
      join_text_def is_cjk_def cjk_languages_def ensure_max_chars_def Let_def)

end
