(* ===== verification/Chunk_Base.thy ===== *)
theory Chunk_Base
  imports Prelude
begin

text \<open>
  The parts every chunking strategy shares: the \<open>Chunk\<close> model, the configuration record, the
  token estimator and \<open>BaseChunker\<close> (\<open>_make_chunk\<close>, \<open>_size_exceeded\<close>,
  \<open>_split_chars\<close>, \<open>_merge_pieces\<close>, \<open>_split_text\<close>). The central notion of the
  proofs is \<open>tiles\<close>: the pieces are non-empty, contiguous and concatenate to the input.
\<close>

section \<open>Data\<close>

record chunk =
  ck_id :: pystr
  ck_resource_id :: pystr
  ck_index :: nat
  ck_text :: pystr
  ck_start :: nat
  ck_end :: nat
  ck_metadata :: pydict
  ck_token_count :: nat

record chunking_config =
  default_strategy :: pystr
  chunk_size :: int
  chunk_overlap :: int
  separators :: "pystr list"
  preserve_metadata :: bool
  max_input_chars :: int

text \<open>
  \<open>TokenEstimator\<close>: the tiktoken encoder is third-party code and an optional parameter; without
  it one id per code point is produced. \<open>chr\<close> raises on a number that is no code point, so
  decoding is partial there. tiktoken's own encoder is total here, while the real one raises for a text that
  contains the name of a special token such as \<open><|endoftext|>\<close>: texts with one are outside the model.
\<close>

record token_estimator =
  encoder :: "((pystr \<Rightarrow> int list) \<times> (int list \<Rightarrow> pystr)) option"

definition fallback_encode :: "pystr \<Rightarrow> int list" where
  "fallback_encode content = map (\<lambda>c. c) content"

definition encode :: "token_estimator \<Rightarrow> pystr \<Rightarrow> int list" where
  "encode est content = (case encoder est of Some (enc, dec) \<Rightarrow> enc content | None \<Rightarrow> fallback_encode content)"

definition is_code_point :: "int \<Rightarrow> bool" where
  "is_code_point c \<longleftrightarrow> 0 \<le> c \<and> c < 0x110000"

definition decode :: "token_estimator \<Rightarrow> int list \<Rightarrow> pystr option" where
  "decode est tokens = (case encoder est of
     Some (enc, dec) \<Rightarrow> Some (dec tokens)
   | None \<Rightarrow> if list_all is_code_point tokens then Some tokens else None)"

definition token_count :: "token_estimator \<Rightarrow> pystr \<Rightarrow> nat" where
  "token_count est content = length (encode est content)"

definition fallback_estimator :: token_estimator where
  "fallback_estimator = \<lparr>encoder = None\<rparr>"

section \<open>BaseChunker\<close>

type_synonym piece = "pystr \<times> nat \<times> nat"

definition make_chunk ::
  "chunking_config \<Rightarrow> token_estimator \<Rightarrow> pystr \<Rightarrow> pystr \<Rightarrow> pydict \<Rightarrow> nat \<Rightarrow> nat \<Rightarrow> nat \<Rightarrow> chunk" where
  "make_chunk cfg est content resource_id metadata index start_pos end_pos =
     \<lparr>ck_id = resource_id @ str ''-'' @ py_str_nat index,
      ck_resource_id = resource_id,
      ck_index = index,
      ck_text = content,
      ck_start = start_pos,
      ck_end = end_pos,
      ck_metadata = (if preserve_metadata cfg then metadata else []),
      ck_token_count = token_count est content\<rparr>"

definition size_exceeded :: "chunking_config \<Rightarrow> token_estimator \<Rightarrow> pystr \<Rightarrow> bool" where
  "size_exceeded cfg est content \<longleftrightarrow>
     chunk_size cfg < int (length content) \<or> chunk_size cfg < int (token_count est content)"

text \<open>
  The loop of \<open>_split_chars\<close>. The conjunct \<open>0 < sz\<close> only serves termination:
  \<open>ChunkingConfig.__post_init__\<close> rejects every other size.
\<close>

function split_chars_from :: "nat \<Rightarrow> pystr \<Rightarrow> nat \<Rightarrow> nat \<Rightarrow> piece list" where
  "split_chars_from sz content start_pos pos =
     (if pos < length content \<and> 0 < sz
      then let e = min (pos + sz) (length content)
           in (slice content pos e, start_pos + pos, start_pos + e)
              # split_chars_from sz content start_pos e
      else [])"
  by pat_completeness auto
termination
  by (relation "measure (\<lambda>(sz, content, start_pos, pos). length content - pos)") auto

declare split_chars_from.simps [simp del]

definition split_chars :: "chunking_config \<Rightarrow> pystr \<Rightarrow> nat \<Rightarrow> piece list" where
  "split_chars cfg content start_pos = split_chars_from (nat (chunk_size cfg)) content start_pos 0"

definition fits :: "chunking_config \<Rightarrow> token_estimator \<Rightarrow> pystr \<Rightarrow> bool" where
  "fits cfg est content \<longleftrightarrow>
     int (length content) \<le> chunk_size cfg \<and> int (token_count est content) \<le> chunk_size cfg"

definition merge_step ::
  "chunking_config \<Rightarrow> token_estimator \<Rightarrow> piece list \<Rightarrow> piece \<Rightarrow> piece list" where
  "merge_step cfg est merged p =
     (case (last merged, p) of ((prev_text, prev_start, _), (cur_text, _, cur_end)) \<Rightarrow>
        if fits cfg est (prev_text @ cur_text)
        then butlast merged @ [(prev_text @ cur_text, prev_start, cur_end)]
        else merged @ [p])"

fun merge_pieces :: "chunking_config \<Rightarrow> token_estimator \<Rightarrow> piece list \<Rightarrow> piece list" where
  "merge_pieces cfg est [] = []"
| "merge_pieces cfg est (p # ps) = foldl (merge_step cfg est) [p] ps"

text \<open>
  The pieces of \<open>text.split(sep)\<close>: every part but the first gets its separator back in front,
  empty pieces are skipped.
\<close>

fun number_parts :: "pystr \<Rightarrow> nat \<Rightarrow> bool \<Rightarrow> pystr list \<Rightarrow> piece list" where
  "number_parts sep cursor is_first [] = []"
| "number_parts sep cursor is_first (part # parts) =
     (let piece_text = (if is_first then part else sep @ part) in
      if piece_text = [] then number_parts sep cursor False parts
      else (piece_text, cursor, cursor + length piece_text)
           # number_parts sep (cursor + length piece_text) False parts)"

fun split_text ::
  "chunking_config \<Rightarrow> token_estimator \<Rightarrow> pystr \<Rightarrow> nat \<Rightarrow> pystr list \<Rightarrow> bool \<Rightarrow> piece list" where
  "split_text cfg est content start_pos [] merge_across =
     (if content = [] then []
      else if \<not> size_exceeded cfg est content then [(content, start_pos, start_pos + length content)]
      else split_chars cfg content start_pos)"
| "split_text cfg est content start_pos (sep # seps) merge_across =
     (if content = [] then []
      else if \<not> size_exceeded cfg est content then [(content, start_pos, start_pos + length content)]
      else if sep = [] then split_chars cfg content start_pos
      else let pieces = number_parts sep start_pos True (py_split sep content);
               sub_pieces = concat (map (\<lambda>(t, s, _). split_text cfg est t s seps True) pieces)
           in if merge_across then merge_pieces cfg est sub_pieces else sub_pieces)"

section \<open>The estimator\<close>

lemma fallback_encode_id [simp]: "fallback_encode t = t"
  by (simp add: fallback_encode_def)

lemma token_count_fallback [simp]: "token_count fallback_estimator t = length t"
  by (simp add: token_count_def encode_def fallback_estimator_def)

lemma decode_encode_fallback:
  "list_all is_code_point t \<Longrightarrow> decode fallback_estimator (encode fallback_estimator t) = Some t"
  by (simp add: decode_def encode_def fallback_estimator_def)

lemma size_exceeded_iff: "size_exceeded cfg est t \<longleftrightarrow> \<not> fits cfg est t"
  by (auto simp: size_exceeded_def fits_def)

section \<open>Tilings\<close>

fun tiles :: "nat \<Rightarrow> pystr \<Rightarrow> piece list \<Rightarrow> bool" where
  "tiles start content [] \<longleftrightarrow> content = []"
| "tiles start content ((t, a, b) # ps) \<longleftrightarrow>
     t \<noteq> [] \<and> a = start \<and> b = start + length t \<and>
     (\<exists>rest. content = t @ rest \<and> tiles b rest ps)"

lemma tiles_single [simp]:
  "tiles s t [(u, a, b)] \<longleftrightarrow> t \<noteq> [] \<and> u = t \<and> a = s \<and> b = s + length t"
  by auto

lemma tiles_append:
  "tiles s t (ps @ qs) \<longleftrightarrow>
     (\<exists>t1 t2. t = t1 @ t2 \<and> tiles s t1 ps \<and> tiles (s + length t1) t2 qs)"
proof (induction ps arbitrary: s t)
  case (Cons p ps)
  obtain u a b where p: "p = (u, a, b)" by (cases p)
  show ?case
  proof
    assume "tiles s t ((p # ps) @ qs)"
    then obtain rest t1 t2 where h: "u \<noteq> []" "a = s" "b = s + length u" "t = u @ rest"
      and r: "rest = t1 @ t2" "tiles b t1 ps" "tiles (b + length t1) t2 qs"
      unfolding p using Cons.IH[of b] by auto
    then show "\<exists>t1 t2. t = t1 @ t2 \<and> tiles s t1 (p # ps) \<and> tiles (s + length t1) t2 qs"
      unfolding p by (intro exI[of _ "u @ t1"] exI[of _ t2]) (auto simp: add.assoc)
  next
    assume "\<exists>t1 t2. t = t1 @ t2 \<and> tiles s t1 (p # ps) \<and> tiles (s + length t1) t2 qs"
    then obtain t2 rest where "t = u @ rest @ t2" "u \<noteq> []" "a = s" "b = s + length u"
        "tiles b rest ps" "tiles (b + length rest) t2 qs"
      unfolding p by (auto simp: add.assoc)
    then show "tiles s t ((p # ps) @ qs)"
      unfolding p using Cons.IH[of b "rest @ t2"] by auto
  qed
qed auto

lemma tiles_concat: "tiles s t ps \<Longrightarrow> concat (map fst ps) = t"
proof (induction ps arbitrary: s t)
  case (Cons p ps)
  then show ?case by (cases p) auto
qed simp

lemma tiles_in:
  assumes "tiles s t ps" "(u, a, b) \<in> set ps"
  shows "s \<le> a \<and> b \<le> s + length t \<and> u \<noteq> [] \<and> b = a + length u \<and> u = slice t (a - s) (b - s)"
proof -
  from assms(2) obtain xs ys where "ps = xs @ (u, a, b) # ys"
    by (auto dest: split_list)
  with assms(1) obtain t1 t2 rest where "t = t1 @ u @ rest" "a = s + length t1"
      "b = a + length u" "u \<noteq> []"
    by (auto simp: tiles_append)
  then show ?thesis by (auto simp: slice_def)
qed

lemma tiles_span:
  assumes "tiles s t ps" "(u, a, b) \<in> set ps"
  shows "s \<le> a" "a \<le> b" "b \<le> s + length t" "u = slice t (a - s) (b - s)" "u \<noteq> []"
proof -
  note h = tiles_in[OF assms]
  from h show "s \<le> a" "b \<le> s + length t" "u = slice t (a - s) (b - s)" "u \<noteq> []" by blast+
  from h have "b = a + length u" by blast
  then show "a \<le> b" by simp
qed

lemma tiles_refine:
  assumes "tiles s t ps"
    and "\<And>u a b. (u, a, b) \<in> set ps \<Longrightarrow> tiles a u (f (u, a, b))"
  shows "tiles s t (concat (map f ps))"
  using assms
proof (induction ps arbitrary: s t)
  case (Cons p ps)
  obtain u a b where p: "p = (u, a, b)" by (cases p)
  from Cons.prems(1) obtain rest where h: "a = s" "b = s + length u" "t = u @ rest" "tiles b rest ps"
    unfolding p by auto
  have "tiles b rest (concat (map f ps))"
    using Cons.IH[OF h(4)] Cons.prems(2) by auto
  moreover have "tiles s u (f p)"
    using Cons.prems(2)[of u a b] h(1) p by simp
  ultimately show ?case using h by (auto simp: tiles_append)
qed simp

section \<open>The base operations tile their input\<close>

lemma tiles_split_chars_from:
  "0 < sz \<Longrightarrow> pos \<le> length content \<Longrightarrow>
     tiles (start_pos + pos) (drop pos content) (split_chars_from sz content start_pos pos)"
proof (induction sz content start_pos pos rule: split_chars_from.induct)
  case (1 sz content start_pos pos)
  show ?case
  proof (cases "pos < length content")
    case True
    define e where "e = min (pos + sz) (length content)"
    have e: "pos < e" "e \<le> length content" using True 1(2) by (auto simp: e_def)
    have IH: "tiles (start_pos + e) (drop e content) (split_chars_from sz content start_pos e)"
      using 1 True e by (simp add: e_def)
    have "drop pos content = slice content pos e @ drop e content"
      using slice_append[of pos e "length content" content] e by (simp add: slice_from)
    moreover have "length (slice content pos e) = e - pos" using e by (simp add: length_slice)
    ultimately show ?thesis
      using True 1(2) e IH
      by (subst split_chars_from.simps) (auto simp: Let_def e_def [symmetric])
  next
    case False
    then show ?thesis by (subst split_chars_from.simps) simp
  qed
qed

lemma tiles_split_chars:
  "0 < chunk_size cfg \<Longrightarrow> tiles start_pos content (split_chars cfg content start_pos)"
  using tiles_split_chars_from[of "nat (chunk_size cfg)" 0 content start_pos]
  by (simp add: split_chars_def)

lemma tiles_merge_step:
  assumes "tiles s t1 merged" "merged \<noteq> []" "tiles (s + length t1) t2 [p]"
  shows "tiles s (t1 @ t2) (merge_step cfg est merged p)"
proof -
  obtain u a b where l: "last merged = (u, a, b)" by (cases "last merged")
  obtain v c d where p: "p = (v, c, d)" by (cases p)
  have m: "merged = butlast merged @ [(u, a, b)]" using assms(2) l by (metis append_butlast_last_id)
  with assms(1) obtain t0 where h: "t1 = t0 @ u" "tiles s t0 (butlast merged)"
      "a = s + length t0" "b = a + length u" "u \<noteq> []"
    by (subst (asm) m, subst (asm) tiles_append) auto
  show ?thesis
  proof (cases "fits cfg est (u @ v)")
    case True
    then have "merge_step cfg est merged p = butlast merged @ [(u @ v, a, d)]"
      by (simp add: merge_step_def l p)
    moreover have "tiles (s + length t0) (u @ v) [(u @ v, a, d)]"
      using h assms(3) p by auto
    ultimately show ?thesis
      using h assms(3) p by (auto simp: tiles_append)
  next
    case False
    then have "merge_step cfg est merged p = merged @ [p]"
      by (simp add: merge_step_def l p)
    then show ?thesis using assms by (auto simp: tiles_append)
  qed
qed

lemma merge_step_not_Nil: "merge_step cfg est merged p \<noteq> []"
  by (auto simp: merge_step_def split: prod.splits)

lemma tiles_foldl_merge:
  "tiles s t1 merged \<Longrightarrow> merged \<noteq> [] \<Longrightarrow> tiles (s + length t1) t2 ps \<Longrightarrow>
     tiles s (t1 @ t2) (foldl (merge_step cfg est) merged ps)"
proof (induction ps arbitrary: merged t1 t2)
  case (Cons p ps)
  obtain u a b where p: "p = (u, a, b)" by (cases p)
  with Cons.prems(3) obtain rest where h: "t2 = u @ rest" "tiles (s + length t1) u [p]"
      "tiles (s + length (t1 @ u)) rest ps"
    by (auto simp: add.assoc)
  have "tiles s (t1 @ u) (merge_step cfg est merged p)"
    using Cons.prems h by (intro tiles_merge_step)
  from Cons.IH[OF this merge_step_not_Nil h(3)] show ?case using h(1) by simp
qed simp

lemma tiles_merge_pieces: "tiles s t ps \<Longrightarrow> tiles s t (merge_pieces cfg est ps)"
proof (cases ps)
  case (Cons p qs)
  assume "tiles s t ps"
  then obtain t1 t2 where h: "t = t1 @ t2" "tiles s t1 [p]" "tiles (s + length t1) t2 qs"
    using tiles_append[of s t "[p]" qs] Cons by auto
  from tiles_foldl_merge[OF h(2) _ h(3)] show ?thesis using Cons h(1) by simp
qed simp

lemma tiles_number_parts_tail:
  "sep \<noteq> [] \<Longrightarrow> tiles c (concat (map (\<lambda>p. sep @ p) parts)) (number_parts sep c False parts)"
  by (induction parts arbitrary: c) (auto simp: Let_def)

lemma py_join_concat: "py_join sep (p # ps) = p @ concat (map (\<lambda>q. sep @ q) ps)"
  by (induction ps arbitrary: p) (auto simp: py_join_Cons)

lemma tiles_number_parts:
  assumes "sep \<noteq> []"
  shows "tiles c content (number_parts sep c True (py_split sep content))"
proof -
  obtain p ps where s: "py_split sep content = p # ps"
    using py_split_not_Nil by (metis list.exhaust)
  have "content = p @ concat (map (\<lambda>q. sep @ q) ps)"
    using py_join_split[of sep content] s by (simp only: py_join_concat)
  then show ?thesis
    using tiles_number_parts_tail[OF assms, of _ ps] s by (auto simp: Let_def)
qed

theorem tiles_split_text:
  "0 < chunk_size cfg \<Longrightarrow> tiles start_pos content (split_text cfg est content start_pos seps merge_across)"
proof (induction seps arbitrary: content start_pos merge_across)
  case Nil
  then show ?case by (simp add: tiles_split_chars)
next
  case (Cons sep seps)
  show ?case
  proof (cases "content = [] \<or> \<not> size_exceeded cfg est content \<or> sep = []")
    case True
    then show ?thesis using Cons.prems by (auto simp: tiles_split_chars)
  next
    case False
    let ?pieces = "number_parts sep start_pos True (py_split sep content)"
    let ?subs = "concat (map (\<lambda>(t, s, _). split_text cfg est t s seps True) ?pieces)"
    have "tiles start_pos content ?subs"
      using False Cons.prems Cons.IH by (intro tiles_refine[OF tiles_number_parts]) auto
    then show ?thesis
      using False tiles_merge_pieces by (auto simp: Let_def)
  qed
qed

section \<open>Sizes\<close>

text \<open>What bounds a piece: it satisfies \<open>P\<close> whenever it fits or comes from \<open>_split_chars\<close>.\<close>

lemma split_chars_from_size:
  "(u, a, b) \<in> set (split_chars_from sz content start_pos pos) \<Longrightarrow> length u \<le> sz"
proof (induction sz content start_pos pos rule: split_chars_from.induct)
  case (1 sz content start_pos pos)
  then show ?case
    by (subst (asm) (2) split_chars_from.simps)
      (auto simp: Let_def slice_def split: if_splits)
qed

lemma split_chars_size:
  "q \<in> set (split_chars cfg content start_pos) \<Longrightarrow> length (fst q) \<le> nat (chunk_size cfg)"
  by (cases q) (auto simp: split_chars_def dest: split_chars_from_size)

lemma merge_step_sizes:
  "merged \<noteq> [] \<Longrightarrow> q \<in> set (merge_step cfg est merged p) \<Longrightarrow>
     q \<in> set merged \<or> q = p \<or> fits cfg est (fst q)"
  by (auto simp: merge_step_def split: prod.splits if_splits dest: in_set_butlastD)

lemma foldl_merge_sizes:
  "merged \<noteq> [] \<Longrightarrow> q \<in> set (foldl (merge_step cfg est) merged ps) \<Longrightarrow>
     q \<in> set merged \<or> q \<in> set ps \<or> fits cfg est (fst q)"
proof (induction ps arbitrary: merged)
  case (Cons p ps)
  then show ?case
    using merge_step_sizes[OF Cons.prems(1), of q cfg est p]
      Cons.IH[OF merge_step_not_Nil, of cfg est merged p] by auto
qed simp

lemma merge_pieces_sizes:
  "q \<in> set (merge_pieces cfg est ps) \<Longrightarrow> q \<in> set ps \<or> fits cfg est (fst q)"
  by (cases ps) (auto dest: foldl_merge_sizes[rotated])

lemma split_text_sizes:
  "q \<in> set (split_text cfg est content start_pos seps merge_across) \<Longrightarrow>
     fits cfg est (fst q) \<or> length (fst q) \<le> nat (chunk_size cfg)"
proof (induction seps arbitrary: content start_pos merge_across q)
  case Nil
  then show ?case
    by (auto simp: size_exceeded_iff split: if_splits dest: split_chars_size)
next
  case (Cons sep seps)
  show ?case
  proof (cases "content = [] \<or> \<not> size_exceeded cfg est content \<or> sep = []")
    case True
    then show ?thesis using Cons.prems
      by (auto simp: size_exceeded_iff split: if_splits dest: split_chars_size)
  next
    case False
    then show ?thesis
      using Cons.prems
      by (auto simp: Let_def split: if_splits dest!: merge_pieces_sizes dest: Cons.IH)
  qed
qed

lemma fits_size: "fits cfg est t \<Longrightarrow> length t \<le> nat (chunk_size cfg)"
  by (auto simp: fits_def)

corollary split_text_char_limit:
  "(u, a, b) \<in> set (split_text cfg est content start_pos seps merge_across) \<Longrightarrow>
     length u \<le> nat (chunk_size cfg)"
  using split_text_sizes[of "(u, a, b)"] fits_size by fastforce

end
