(* ===== verification/Retrieval.thy ===== *)
theory Retrieval
  imports Search_Types Chunk_Base
begin

text \<open>
  The legacy RAG retrieval: \<open>RetrievalService\<close> and \<open>PromptBuilder\<close>
  (\<open>app/services/retrieval\<close>) with the request and response models of
  \<open>app/models/retrieval.py\<close>. The embedding service, the vector store, SHA-1 and the Jinja2
  engine are parameters.
\<close>

section \<open>Models\<close>

record retrieval_request =
  rq_question :: pystr
  rq_user_id :: pystr
  rq_resource_ids :: "pystr list"
  rq_top_k :: int
  rq_score_threshold :: "pyfloat option"
  rq_max_context_tokens :: "int option"

definition len_between :: "nat \<Rightarrow> nat \<Rightarrow> 'a list \<Rightarrow> bool" where
  "len_between lo hi xs \<longleftrightarrow> lo \<le> length xs \<and> length xs \<le> hi"

text \<open>The field constraints of \<open>RetrievalRequest\<close> and its validator.\<close>

definition retrieval_request_valid :: "retrieval_request \<Rightarrow> bool" where
  "retrieval_request_valid req \<longleftrightarrow>
     len_between 1 2000 (rq_question req) \<and> len_between 1 128 (rq_user_id req)
     \<and> len_between 1 100 (rq_resource_ids req)
     \<and> 1 \<le> rq_top_k req \<and> rq_top_k req \<le> 100
     \<and> (case rq_score_threshold req of None \<Rightarrow> True | Some t \<Rightarrow> 0 \<le> t \<and> t \<le> 1)
     \<and> (case rq_max_context_tokens req of None \<Rightarrow> True | Some n \<Rightarrow> 1 \<le> n)
     \<and> \<not> list_ex blank (rq_resource_ids req)"

record retrieval_chunk =
  rc_chunk_id :: pystr
  rc_resource_id :: pystr
  rc_text :: pystr
  rc_score :: pyfloat
  rc_metadata :: pydict

record retrieval_result =
  rr_chunks :: "retrieval_chunk list"
  rr_prompt :: pystr
  rr_context_token_count :: nat

record retrieval_config =
  rcfg_default_top_k :: int
  rcfg_score_threshold :: pyfloat
  rcfg_max_context_tokens :: int
  rcfg_prompt_template :: pystr

definition default_retrieval_config :: retrieval_config where
  "default_retrieval_config = \<lparr>rcfg_default_top_k = 5, rcfg_score_threshold = 7 / 10,
     rcfg_max_context_tokens = 4096, rcfg_prompt_template = str ''prompts/rag.txt''\<rparr>"

section \<open>PromptBuilder\<close>

text \<open>
  \<open>'t\<close> is a compiled Jinja2 template. The exceptions Jinja2 documents as \<open>TemplateError\<close>
  are recognised by their class name. The files are a map from paths to the outcome of reading them.
\<close>

record 't jinja =
  jj_from_string :: "pystr \<Rightarrow> exn + 't"
  jj_render :: "'t \<Rightarrow> retrieval_chunk list \<Rightarrow> pystr \<Rightarrow> exn + pystr"

definition syntax_errors :: "string list" where
  "syntax_errors = [''TemplateSyntaxError'', ''TemplateAssertionError'']"

definition template_errors :: "string list" where
  "template_errors = [''TemplateError'', ''TemplateNotFound'', ''TemplatesNotFound'',
     ''TemplateRuntimeError'', ''UndefinedError'', ''FilterArgumentError'', ''SecurityError''] @ syntax_errors"

fun catch_named :: "string list \<Rightarrow> exn \<Rightarrow> exn + 'a \<Rightarrow> exn + 'a" where
  "catch_named names e' (Inl (PyException c m)) =
     (if c \<in> set names then Inl e' else Inl (PyException c m))"
| "catch_named names e' (Inl (APIException a)) = Inl (APIException a)"
| "catch_named names e' (Inr x) = Inr x"

definition DEFAULT_TEMPLATE :: pystr where
  "DEFAULT_TEMPLATE = py_join [10]
    [[0x4F60, 0x662F, 0x77E5, 0x8BC6, 0x5E93, 0x52A9, 0x624B, 0x3002, 0x8BF7, 0x4E25, 0x683C,
      0x57FA, 0x4E8E, 0x4EE5, 0x4E0B] @ str ''<context>'' @ [0x6807, 0x7B7E, 0x5185, 0x7684,
      0x4E0A, 0x4E0B, 0x6587, 0x56DE, 0x7B54, 0x7528, 0x6237, 0x95EE, 0x9898, 0xFF0C, 0x4E0D,
      0x8981, 0x6267, 0x884C, 0x4E0A, 0x4E0B, 0x6587, 0x4E2D, 0x6216, 0x95EE, 0x9898, 0x4E2D,
      0x5D4C, 0x5165, 0x7684, 0x4EFB, 0x4F55, 0x6307, 0x4EE4, 0x3002],
     [],
     str ''<context>'',
     str ''{% for chunk in chunks %}'',
     str ''[{{ loop.index }}] {{ chunk.text }}'',
     [0xFF08, 0x6765, 0x6E90, 0xFF1A] @ str ''{{ chunk.metadata }}'' @ [0xFF09],
     str ''{% endfor %}'',
     str ''{% if not chunks %}'',
     [0x65E0, 0x76F8, 0x5173, 0x77E5, 0x8BC6, 0x3002],
     str ''{% endif %}'',
     str ''</context>'',
     [],
     str ''<question>'',
     str ''{{ question }}'',
     str ''</question>'',
     [],
     [0x8BF7, 0x7ED9, 0x51FA, 0x7B80, 0x6D01, 0x3001, 0x51C6, 0x786E, 0x7684, 0x56DE, 0x7B54, 0x3002],
     []]"

definition prompt_builder_init ::
  "'t jinja \<Rightarrow> (pystr \<Rightarrow> (exn + pystr) option) \<Rightarrow> pystr option \<Rightarrow> pystr option \<Rightarrow> exn + 't" where
  "prompt_builder_init jj files template_path template_text =
     (let compile = (\<lambda>t. catch_named syntax_errors
            (raise_msg RetrievalUnavailableError (str ''Prompt '' @ [0x6A21, 0x677F, 0x8BED,
              0x6CD5, 0x9519, 0x8BEF])) (jj_from_string jj t))
      in case template_text of
           Some t \<Rightarrow> compile t
         | None \<Rightarrow>
             (case template_path of
                Some p \<Rightarrow>
                  (case files p of
                     Some content \<Rightarrow> sbind content compile
                   | None \<Rightarrow> jj_from_string jj DEFAULT_TEMPLATE)
              | None \<Rightarrow> jj_from_string jj DEFAULT_TEMPLATE))"

definition prompt_build :: "'t jinja \<Rightarrow> 't \<Rightarrow> retrieval_chunk list \<Rightarrow> pystr \<Rightarrow> exn + pystr" where
  "prompt_build jj template chunks question =
     catch_named template_errors (raise_msg RetrievalUnavailableError (str ''Prompt '' @ [0x6E32,
       0x67D3, 0x5931, 0x8D25]))
       (jj_render jj template chunks question)"

section \<open>RetrievalService\<close>

record retrieval_env =
  re_embed_query :: "pystr \<Rightarrow> exn + pyfloat list"
  re_search :: "pyfloat list \<Rightarrow> int \<Rightarrow> scope_filter \<Rightarrow> exn + vector_search_result list"
  re_build :: "retrieval_chunk list \<Rightarrow> pystr \<Rightarrow> exn + pystr"
  re_estimator :: token_estimator
  re_sha1 :: "pystr \<Rightarrow> pystr"

definition distinct_count :: "pystr list \<Rightarrow> int" where
  "distinct_count ids = int (length (remdups ids))"

definition candidate_top_k :: "int \<Rightarrow> pystr list \<Rightarrow> int" where
  "candidate_top_k top_k resource_ids =
     (if distinct_count resource_ids \<le> 1 then top_k
      else min (max (top_k * 8) (top_k + distinct_count resource_ids)) 100)"

definition chunk_fingerprint :: "(pystr \<Rightarrow> pystr) \<Rightarrow> pystr \<Rightarrow> exn + pystr" where
  "chunk_fingerprint sha1 content =
     (let normalized = py_strip (filter (\<lambda>c. \<not> is_space c) content)
      in if normalized = [] then Inr []
         else if \<not> utf8_encodable (py_take 1200 normalized)
         then Inl (PyException ''UnicodeEncodeError'' (str ''utf-8''))
         else Inr (sha1 (py_take 1200 normalized)))"

definition dedup_key :: "(pystr \<Rightarrow> pystr) \<Rightarrow> vector_search_result \<Rightarrow> exn + pystr" where
  "dedup_key sha1 c = sbind (chunk_fingerprint sha1 (vr_text c))
     (\<lambda>fp. Inr (if fp = [] then vr_resource_id c @ str '':'' @ vr_id c else fp))"

fun dedup_loop ::
  "(pystr \<Rightarrow> pystr) \<Rightarrow> pystr list \<Rightarrow> vector_search_result list \<Rightarrow> exn + vector_search_result list" where
  "dedup_loop sha1 seen [] = Inr []"
| "dedup_loop sha1 seen (c # cs) =
     sbind (dedup_key sha1 c) (\<lambda>key.
       if key \<in> set seen then dedup_loop sha1 seen cs
       else sbind (dedup_loop sha1 (key # seen) cs) (\<lambda>rest. Inr (c # rest)))"

definition deduplicate_similar_chunks ::
  "(pystr \<Rightarrow> pystr) \<Rightarrow> vector_search_result list \<Rightarrow> exn + vector_search_result list" where
  "deduplicate_similar_chunks sha1 chunks = dedup_loop sha1 [] chunks"

text \<open>\<open>dict.fromkeys\<close>: the first occurrence of each id, in order.\<close>

fun fromkeys :: "'a list \<Rightarrow> 'a list" where
  "fromkeys [] = []"
| "fromkeys (x # xs) = x # filter (\<lambda>y. y \<noteq> x) (fromkeys xs)"

definition search_per_resource_candidates ::
  "retrieval_env \<Rightarrow> pyfloat list \<Rightarrow> pystr \<Rightarrow> pystr list \<Rightarrow> exn + vector_search_result list" where
  "search_per_resource_candidates env query_vector user_id resource_ids =
     sbind (smap (\<lambda>rid. re_search env query_vector 1 \<lparr>f_user_id = user_id, f_resource_ids = [rid]\<rparr>)
              (fromkeys resource_ids))
       (\<lambda>lists. Inr (concat lists))"

definition to_retrieval_chunk :: "vector_search_result \<Rightarrow> retrieval_chunk" where
  "to_retrieval_chunk c = \<lparr>rc_chunk_id = vr_id c, rc_resource_id = vr_resource_id c, rc_text = vr_text c,
     rc_score = vr_score c, rc_metadata = vr_metadata c\<rparr>"

fun compress_loop ::
  "token_estimator \<Rightarrow> int \<Rightarrow> retrieval_chunk list \<Rightarrow> nat \<Rightarrow> vector_search_result list \<Rightarrow>
     retrieval_chunk list \<times> nat" where
  "compress_loop est max_tokens selected used [] = (selected, used)"
| "compress_loop est max_tokens selected used (c # cs) =
     (let chunk_tokens = token_count est (vr_text c)
      in if selected \<noteq> [] \<and> max_tokens < int (used + chunk_tokens) then (selected, used)
         else compress_loop est max_tokens (selected @ [to_retrieval_chunk c]) (used + chunk_tokens) cs)"

definition compress_context ::
  "token_estimator \<Rightarrow> vector_search_result list \<Rightarrow> int \<Rightarrow> retrieval_chunk list \<times> nat" where
  "compress_context est chunks max_context_tokens = compress_loop est max_context_tokens [] 0 chunks"

text \<open>The two searches inside the \<open>try\<close> of \<open>retrieve\<close>, and its handlers.\<close>

definition search_candidates ::
  "retrieval_env \<Rightarrow> retrieval_request \<Rightarrow> pyfloat list \<Rightarrow> int \<Rightarrow> exn + vector_search_result list" where
  "search_candidates env req query_vector top_k =
     (let r = sbind (re_search env query_vector (candidate_top_k top_k (rq_resource_ids req))
                 \<lparr>f_user_id = rq_user_id req, f_resource_ids = rq_resource_ids req\<rparr>) (\<lambda>results.
               if 1 < distinct_count (rq_resource_ids req)
               then sbind (search_per_resource_candidates env query_vector (rq_user_id req) (rq_resource_ids req))
                      (\<lambda>more. Inr (results @ more))
               else Inr results)
      in case r of
           Inl e \<Rightarrow> if is_api e then Inl e else Inl (raise_msg RetrievalUnavailableError [0x68C0,
             0x7D22, 0x4E0D, 0x53EF, 0x7528])
         | Inr results \<Rightarrow> Inr results)"

definition retrieve ::
  "retrieval_env \<Rightarrow> retrieval_config \<Rightarrow> retrieval_request \<Rightarrow> exn + retrieval_result" where
  "retrieve env cfg req =
     sbind (re_embed_query env (rq_question req)) (\<lambda>query_vector.
     let top_k = (if rq_top_k req = 0 then rcfg_default_top_k cfg else rq_top_k req);
         threshold = (case rq_score_threshold req of Some t \<Rightarrow> t | None \<Rightarrow> rcfg_score_threshold cfg);
         max_tokens = (case rq_max_context_tokens req of Some n \<Rightarrow> n | None \<Rightarrow> rcfg_max_context_tokens cfg)
     in sbind (search_candidates env req query_vector top_k) (\<lambda>search_results.
        let sorted_results = py_sorted_desc vr_score search_results
        in sbind (if 1 < distinct_count (rq_resource_ids req)
                  then deduplicate_similar_chunks (re_sha1 env) sorted_results
                  else Inr sorted_results) (\<lambda>deduped.
           let filtered = py_take top_k (filter (\<lambda>r. threshold \<le> vr_score r) deduped)
           in sbind (validate_authorization vr_user_id vr_resource_id filtered (rq_user_id req) (rq_resource_ids req))
                (\<lambda>_. case compress_context (re_estimator env) filtered max_tokens of (compressed, tokens) \<Rightarrow>
                  sbind (re_build env compressed (rq_question req)) (\<lambda>prompt.
                    Inr \<lparr>rr_chunks = compressed, rr_prompt = prompt, rr_context_token_count = tokens\<rparr>)))))"

section \<open>Selection under a token budget\<close>

abbreviation tokens_of :: "token_estimator \<Rightarrow> vector_search_result list \<Rightarrow> nat" where
  "tokens_of est cs \<equiv> sum_list (map (\<lambda>c. token_count est (vr_text c)) cs)"

text \<open>
  The selection is the longest prefix within the budget, of at least one chunk: any longer prefix
  exceeds the budget.
\<close>

definition budget_prefix :: "token_estimator \<Rightarrow> int \<Rightarrow> vector_search_result list \<Rightarrow> vector_search_result list \<Rightarrow> bool" where
  "budget_prefix est max_tokens cs sel \<longleftrightarrow> prefix sel cs
     \<and> (cs \<noteq> [] \<longrightarrow> sel \<noteq> [])
     \<and> (1 < length sel \<longrightarrow> int (tokens_of est sel) \<le> max_tokens)
     \<and> (length sel < length cs \<longrightarrow> max_tokens < int (tokens_of est (take (length sel + 1) cs)))"

lemma compress_loop_prefix:
  assumes "pre \<noteq> [] \<or> cs \<noteq> [] \<or> pre @ cs = []"
    and "1 < length pre \<longrightarrow> int (tokens_of est pre) \<le> max_tokens"
  shows "\<exists>sel. compress_loop est max_tokens (map to_retrieval_chunk pre) (tokens_of est pre) cs
      = (map to_retrieval_chunk sel, tokens_of est sel) \<and> budget_prefix est max_tokens (pre @ cs) sel"
  using assms
proof (induction cs arbitrary: pre)
  case Nil
  then show ?case by (intro exI[of _ pre]) (auto simp: budget_prefix_def)
next
  case (Cons c cs)
  show ?case
  proof (cases "pre \<noteq> [] \<and> max_tokens < int (tokens_of est pre + token_count est (vr_text c))")
    case True
    with Cons.prems show ?thesis by (intro exI[of _ pre]) (auto simp: budget_prefix_def)
  next
    case False
    then have "1 < length (pre @ [c]) \<longrightarrow> int (tokens_of est (pre @ [c])) \<le> max_tokens" by auto
    with Cons.IH[of "pre @ [c]"] False show ?thesis by (auto simp: Let_def)
  qed
qed

lemma compress_context_prefix:
  "\<exists>sel. compress_context est cs max_tokens = (map to_retrieval_chunk sel, tokens_of est sel)
     \<and> budget_prefix est max_tokens cs sel"
  using compress_loop_prefix[of "[]" cs est max_tokens] by (simp add: compress_context_def)

section \<open>De-duplication\<close>

lemma set_fromkeys [simp]: "set (fromkeys xs) = set xs"
  by (induction xs) auto

lemma distinct_fromkeys [simp]: "distinct (fromkeys xs)"
  by (induction xs) auto

text \<open>The de-duplicated list keeps, of each key, the first chunk.\<close>

lemma dedup_loop_spec:
  "dedup_loop sha1 seen cs = Inr out \<Longrightarrow>
     subseq out cs \<and> distinct (map (dedup_key sha1) out)
     \<and> (\<forall>c \<in> set cs. \<exists>k. dedup_key sha1 c = Inr k)
     \<and> dedup_key sha1 ` set out = dedup_key sha1 ` set cs - Inr ` set seen"
proof (induction cs arbitrary: seen out)
  case (Cons c cs)
  from Cons.prems obtain k where k: "dedup_key sha1 c = Inr k" by (auto simp: sbind_Inr_iff)
  show ?case
  proof (cases "k \<in> set seen")
    case True
    with Cons.prems k have "dedup_loop sha1 seen cs = Inr out" by simp
    from Cons.IH[OF this] k True show ?thesis by auto
  next
    case False
    with Cons.prems k obtain rest where r: "dedup_loop sha1 (k # seen) cs = Inr rest" and o: "out = c # rest"
      by (auto simp: sbind_Inr_iff)
    from Cons.IH[OF r] k False show ?thesis by (auto simp: o)
  qed
qed simp

lemma subseq_subset: "subseq xs ys \<Longrightarrow> set xs \<subseteq> set ys"
  by (metis notin_set_nthsI subseq_conv_nths subsetI)

lemma descending_subseq: "subseq xs ys \<Longrightarrow> descending key ys \<Longrightarrow> descending key xs"
proof (induction rule: list_emb.induct)
  case (list_emb_Cons2 x y xs ys)
  then have "set xs \<subseteq> set ys" by (simp add: subseq_subset)
  with list_emb_Cons2 show ?case by (auto simp: descending_def)
qed (auto simp: descending_def)

section \<open>The candidate set\<close>

lemma candidate_top_k_bounds:
  assumes "1 \<le> k" "k \<le> 100"
  shows "k \<le> candidate_top_k k ids \<and> candidate_top_k k ids \<le> 100"
  using assms by (auto simp: candidate_top_k_def min_def max_def)

lemma handled_Inr_iff: "(case r of Inl e \<Rightarrow> if c e then Inl e else Inl (h e) | Inr x \<Rightarrow> Inr x) = Inr y \<longleftrightarrow> r = Inr y"
  by (cases r) auto

text \<open>A result of the store, for a query with the given vector that asked for the user and requested resources only.\<close>

definition from_store :: "retrieval_env \<Rightarrow> pyfloat list \<Rightarrow> retrieval_request \<Rightarrow> vector_search_result \<Rightarrow> bool" where
  "from_store env v req h \<longleftrightarrow> (\<exists>k f out. re_search env v k f = Inr out \<and> h \<in> set out
     \<and> f_user_id f = rq_user_id req \<and> set (f_resource_ids f) \<subseteq> set (rq_resource_ids req))"

lemma search_candidates_from_store:
  assumes "search_candidates env req v k = Inr rs" "h \<in> set rs"
  shows "from_store env v req h"
proof -
  let ?u = "rq_user_id req" and ?ids = "rq_resource_ids req"
  have store: "from_store env v req x"
    if "re_search env v n \<lparr>f_user_id = ?u, f_resource_ids = ids\<rparr> = Inr out" "x \<in> set out" "set ids \<subseteq> set ?ids" for n ids out x
    using that unfolding from_store_def by fastforce
  from assms(1) obtain first where
    f: "re_search env v (candidate_top_k k ?ids) \<lparr>f_user_id = ?u, f_resource_ids = ?ids\<rparr> = Inr first"
    and more: "(if 1 < distinct_count ?ids
      then sbind (search_per_resource_candidates env v ?u ?ids) (\<lambda>more. Inr (first @ more)) else Inr first) = Inr rs"
    unfolding search_candidates_def Let_def handled_Inr_iff sbind_Inr_iff by blast
  show ?thesis
  proof (cases "h \<in> set first")
    case False
    with more assms(2) obtain lists out where
      l: "smap (\<lambda>rid. re_search env v 1 \<lparr>f_user_id = ?u, f_resource_ids = [rid]\<rparr>) (fromkeys ?ids) = Inr lists"
      and out: "out \<in> set lists" "h \<in> set out"
      by (auto simp: search_per_resource_candidates_def sbind_Inr_iff split: if_splits)
    from smap_Inr_in[OF l out(1)] obtain rid where "rid \<in> set ?ids"
      "re_search env v 1 \<lparr>f_user_id = ?u, f_resource_ids = [rid]\<rparr> = Inr out" by auto
    with store[OF _ out(2)] show ?thesis by fastforce
  qed (use store[OF f] in blast)
qed

text \<open>What \<open>retrieve\<close> has established when it returns.\<close>

lemma retrieve_Inr:
  assumes "retrieve env cfg req = Inr res"
  obtains q results deduped sel where
    "re_embed_query env (rq_question req) = Inr q"
    "search_candidates env req q (if rq_top_k req = 0 then rcfg_default_top_k cfg else rq_top_k req) = Inr results"
    "(if 1 < distinct_count (rq_resource_ids req)
      then deduplicate_similar_chunks (re_sha1 env) (py_sorted_desc vr_score results)
      else Inr (py_sorted_desc vr_score results)) = Inr deduped"
    "budget_prefix (re_estimator env)
       (case rq_max_context_tokens req of Some n \<Rightarrow> n | None \<Rightarrow> rcfg_max_context_tokens cfg)
       (py_take (if rq_top_k req = 0 then rcfg_default_top_k cfg else rq_top_k req)
         (filter (\<lambda>r. (case rq_score_threshold req of Some t \<Rightarrow> t | None \<Rightarrow> rcfg_score_threshold cfg) \<le> vr_score r)
           deduped)) sel"
    "rr_chunks res = map to_retrieval_chunk sel" "rr_context_token_count res = tokens_of (re_estimator env) sel"
    "\<forall>h \<in> set sel. vr_user_id h = rq_user_id req \<and> vr_resource_id h \<in> set (rq_resource_ids req)"
proof -
  let ?k = "if rq_top_k req = 0 then rcfg_default_top_k cfg else rq_top_k req"
  let ?t = "case rq_score_threshold req of Some t \<Rightarrow> t | None \<Rightarrow> rcfg_score_threshold cfg"
  let ?m = "case rq_max_context_tokens req of Some n \<Rightarrow> n | None \<Rightarrow> rcfg_max_context_tokens cfg"
  from assms obtain q results deduped where
    q: "re_embed_query env (rq_question req) = Inr q" "search_candidates env req q ?k = Inr results"
    and d: "(if 1 < distinct_count (rq_resource_ids req)
      then deduplicate_similar_chunks (re_sha1 env) (py_sorted_desc vr_score results)
      else Inr (py_sorted_desc vr_score results)) = Inr deduped"
    and rest: "sbind (validate_authorization vr_user_id vr_resource_id
        (py_take ?k (filter (\<lambda>r. ?t \<le> vr_score r) deduped)) (rq_user_id req) (rq_resource_ids req))
        (\<lambda>_. case compress_context (re_estimator env) (py_take ?k (filter (\<lambda>r. ?t \<le> vr_score r) deduped)) ?m of
          (compressed, tokens) \<Rightarrow> sbind (re_build env compressed (rq_question req)) (\<lambda>prompt.
            Inr \<lparr>rr_chunks = compressed, rr_prompt = prompt, rr_context_token_count = tokens\<rparr>)) = Inr res"
    by (auto simp only: retrieve_def Let_def sbind_Inr_iff)
  define fl where "fl = py_take ?k (filter (\<lambda>r. ?t \<le> vr_score r) deduped)"
  from compress_context_prefix[of "re_estimator env" fl ?m] obtain sel where
    sel: "compress_context (re_estimator env) fl ?m = (map to_retrieval_chunk sel, tokens_of (re_estimator env) sel)"
      "budget_prefix (re_estimator env) ?m fl sel" by blast
  note g = vr_guard.guarded[OF rest, folded fl_def]
  have "set sel \<subseteq> set fl" using sel(2) by (auto simp: budget_prefix_def dest: set_mono_prefix)
  with g(2) have "\<forall>h \<in> set sel. vr_user_id h = rq_user_id req \<and> vr_resource_id h \<in> set (rq_resource_ids req)"
    by blast
  moreover have "rr_chunks res = map to_retrieval_chunk sel"
    "rr_context_token_count res = tokens_of (re_estimator env) sel"
    using g(1) sel(1) by (auto simp: sbind_Inr_iff)
  ultimately show thesis using that[OF q d sel(2)[unfolded fl_def]] by blast
qed

lemma deduped_sound:
  assumes "(if multi then deduplicate_similar_chunks sha1 rs else Inr rs) = Inr deduped"
  shows "subseq deduped rs" "multi \<Longrightarrow> distinct (map (dedup_key sha1) deduped)"
    "rs = r # rs' \<Longrightarrow> \<exists>ds. deduped = r # ds"
  using assms dedup_loop_spec[of sha1 "[]" rs deduped]
  by (auto simp: deduplicate_similar_chunks_def sbind_Inr_iff split: if_splits)

lemma sorted_desc_head:
  assumes "py_sorted_desc key xs = r # rs" "x \<in> set xs"
  shows "key x \<le> key r"
proof -
  have "x \<in> set (r # rs)" using assms by (metis set_py_sorted_desc)
  moreover have "descending key (r # rs)" using assms(1) by (metis descending_sorted_desc)
  ultimately show ?thesis by (auto simp: descending_def)
qed

text \<open>The best candidate survives de-duplication, the cut at \<open>top_k\<close> and the budget.\<close>

lemma best_kept:
  assumes d: "(if multi then deduplicate_similar_chunks sha1 (py_sorted_desc vr_score results)
      else Inr (py_sorted_desc vr_score results)) = Inr deduped" and "1 \<le> top_k"
    and b: "budget_prefix est m (py_take top_k (filter (\<lambda>r. t \<le> vr_score r) deduped)) sel"
  shows "if \<exists>r \<in> set results. t \<le> vr_score r
    then sel \<noteq> [] \<and> (\<forall>r \<in> set results. vr_score r \<le> vr_score (hd sel)) else sel = []"
proof (cases "\<exists>r \<in> set results. t \<le> vr_score r")
  case True
  then obtain r0 where r0: "r0 \<in> set results" "t \<le> vr_score r0" by blast
  then obtain r rs where rs: "py_sorted_desc vr_score results = r # rs"
    by (metis empty_iff list.exhaust list.set(1) set_py_sorted_desc)
  with r0 have "t \<le> vr_score r" using sorted_desc_head by fastforce
  moreover obtain ds where "deduped = r # ds" using deduped_sound(3)[OF d] rs by auto
  ultimately obtain tl where "py_take top_k (filter (\<lambda>r. t \<le> vr_score r) deduped) = r # tl"
    using py_take_Cons[OF assms(2), of r "filter (\<lambda>r. t \<le> vr_score r) ds"] by auto
  with b have "prefix sel (r # tl)" "sel \<noteq> []" by (auto simp: budget_prefix_def)
  then have "sel \<noteq> [] \<and> hd sel = r" by (cases sel) auto
  with sorted_desc_head[OF rs] True show ?thesis by auto
next
  case False
  have "set deduped \<subseteq> set results"
    using subseq_subset[OF deduped_sound(1)[OF d]] by simp
  with False have e: "filter (\<lambda>r. t \<le> vr_score r) deduped = []" by (auto simp: filter_empty_conv)
  from b have "sel = []" unfolding e by (simp add: budget_prefix_def)
  with False show ?thesis by simp
qed

text \<open>What the clients of a retrieval service rely on: every chunk belongs to a requested resource.\<close>

locale retriever =
  fixes ret :: "retrieval_request \<Rightarrow> exn + retrieval_result"
  assumes in_scope: "ret req = Inr res \<Longrightarrow> c \<in> set (rr_chunks res) \<Longrightarrow> rc_resource_id c \<in> set (rq_resource_ids req)"

lemma retrieve_in_scope:
  assumes "retrieve env cfg req = Inr res" "c \<in> set (rr_chunks res)"
  shows "rc_resource_id c \<in> set (rq_resource_ids req)"
  using assms(1)
  by (rule retrieve_Inr) (use assms(2) in \<open>auto simp: to_retrieval_chunk_def\<close>)

interpretation legacy: retriever "retrieve env cfg" for env cfg
  by unfold_locales (rule retrieve_in_scope)

lemma request_defaults:
  "retrieval_request_valid req \<Longrightarrow> (if rq_top_k req = 0 then d else rq_top_k req) = rq_top_k req"
  by (simp add: retrieval_request_valid_def)

abbreviation threshold_of :: "retrieval_config \<Rightarrow> retrieval_request \<Rightarrow> pyfloat" where
  "threshold_of cfg req \<equiv> (case rq_score_threshold req of Some t \<Rightarrow> t | None \<Rightarrow> rcfg_score_threshold cfg)"

abbreviation budget_of :: "retrieval_config \<Rightarrow> retrieval_request \<Rightarrow> int" where
  "budget_of cfg req \<equiv> (case rq_max_context_tokens req of Some n \<Rightarrow> n | None \<Rightarrow> rcfg_max_context_tokens cfg)"

section \<open>Properties\<close>

text \<open>C5: retrieval returns only what the caller may see and asked for. Whatever the embedding service
  and the vector store answer, the returned chunks are made of results the store gave for the vector of the
  question, when asked for this user and requested resources only; each of these results belongs to the
  requesting user and to one of the requested resources and reaches the score threshold; they number at most
  \<open>top_k\<close> and come in descending order of score; over several resources no two of them have the
  same fingerprint.\<close>

theorem retrieval_sound:
  assumes "retrieve env cfg req = Inr res" and "retrieval_request_valid req"
  shows "\<exists>v sel. re_embed_query env (rq_question req) = Inr v \<and> rr_chunks res = map to_retrieval_chunk sel
    \<and> (\<forall>h \<in> set sel. from_store env v req h \<and> vr_user_id h = rq_user_id req \<and> vr_resource_id h \<in> set (rq_resource_ids req)
         \<and> threshold_of cfg req \<le> vr_score h)
    \<and> int (length sel) \<le> rq_top_k req \<and> descending vr_score sel
    \<and> (1 < distinct_count (rq_resource_ids req) \<longrightarrow> distinct (map (dedup_key (re_sha1 env)) sel))"
proof -
  from assms(1) obtain q results deduped sel where
    q: "re_embed_query env (rq_question req) = Inr q"
    and s: "search_candidates env req q (if rq_top_k req = 0 then rcfg_default_top_k cfg else rq_top_k req) = Inr results"
    and d: "(if 1 < distinct_count (rq_resource_ids req)
      then deduplicate_similar_chunks (re_sha1 env) (py_sorted_desc vr_score results)
      else Inr (py_sorted_desc vr_score results)) = Inr deduped"
    and b: "budget_prefix (re_estimator env) (budget_of cfg req)
       (py_take (if rq_top_k req = 0 then rcfg_default_top_k cfg else rq_top_k req)
         (filter (\<lambda>r. threshold_of cfg req \<le> vr_score r) deduped)) sel"
    and out: "rr_chunks res = map to_retrieval_chunk sel"
    and auth: "\<forall>h \<in> set sel. vr_user_id h = rq_user_id req \<and> vr_resource_id h \<in> set (rq_resource_ids req)"
    by (rule retrieve_Inr)
  define kept where "kept = filter (\<lambda>r. threshold_of cfg req \<le> vr_score r) deduped"
  have "prefix sel (py_take (rq_top_k req) kept)"
    using b by (simp add: budget_prefix_def request_defaults[OF assms(2)] kept_def)
  then obtain n where sel: "sel = take n (py_take (rq_top_k req) kept)"
    by (metis append_eq_conv_conj prefixE)
  have "0 \<le> rq_top_k req" using assms(2) by (simp add: retrieval_request_valid_def)
  with length_py_take[of "rq_top_k req" kept] have "int (length sel) \<le> rq_top_k req" by (simp add: sel)
  moreover have kept: "set sel \<subseteq> set kept" by (auto simp: sel dest: in_set_takeD set_py_take)
  moreover have "set kept \<subseteq> set results" using list_emb_set[OF deduped_sound(1)[OF d]] by (force simp: kept_def)
  with kept have "\<forall>h \<in> set sel. from_store env q req h" using search_candidates_from_store[OF s] by blast
  moreover have "descending vr_score sel"
    unfolding sel kept_def using descending_subseq[OF deduped_sound(1)[OF d]]
    by (intro descending_take descending_py_take descending_filter) simp
  moreover have "distinct (map (dedup_key (re_sha1 env)) sel)"
    if "1 < distinct_count (rq_resource_ids req)"
    using deduped_sound(2)[OF d that] unfolding sel kept_def py_take_def
    by (simp add: distinct_map_filter take_map[symmetric] distinct_take)
  ultimately show ?thesis using q out auth by (auto simp: kept_def intro!: exI[of _ sel])
qed

definition demo_result :: "string \<Rightarrow> string \<Rightarrow> pyfloat \<Rightarrow> vector_search_result" where
  "demo_result cid content score = \<lparr>vr_id = str cid, vr_resource_id = str ''r1'', vr_user_id = str ''u1'',
     vr_text = str content, vr_metadata = [], vr_score = score, vr_created_at = 0\<rparr>"

definition demo_retrieval_env :: retrieval_env where
  "demo_retrieval_env = \<lparr>re_embed_query = (\<lambda>_. Inr [1]),
     re_search = (\<lambda>_ _ _. Inr [demo_result ''r1-0'' ''abc'' (8 / 10), demo_result ''r1-1'' ''defg'' (9 / 10),
       demo_result ''r1-2'' ''hi'' (1 / 10)]),
     re_build = (\<lambda>_ q. Inr q), re_estimator = fallback_estimator, re_sha1 = (\<lambda>s. s)\<rparr>"

definition demo_retrieval_request :: retrieval_request where
  "demo_retrieval_request = \<lparr>rq_question = str ''q'', rq_user_id = str ''u1'', rq_resource_ids = [str ''r1''],
     rq_top_k = 5, rq_score_threshold = None, rq_max_context_tokens = Some 5\<rparr>"

lemma demo_request_valid: "retrieval_request_valid demo_retrieval_request"
  by (simp add: retrieval_request_valid_def demo_retrieval_request_def len_between_def blank_iff is_space_def)

lemma demo_retrieve:
  "retrieve demo_retrieval_env default_retrieval_config demo_retrieval_request =
     Inr \<lparr>rr_chunks = [to_retrieval_chunk (demo_result ''r1-1'' ''defg'' (9 / 10))], rr_prompt = str ''q'',
          rr_context_token_count = 4\<rparr>"
  by (simp add: retrieve_def demo_retrieval_env_def demo_retrieval_request_def default_retrieval_config_def
      search_candidates_def candidate_top_k_def distinct_count_def Let_def py_sorted_desc_def
      py_take_def demo_result_def compress_context_def to_retrieval_chunk_def)

theorem retrieval_sound_witness:
  "\<exists>res sel. retrieve demo_retrieval_env default_retrieval_config demo_retrieval_request = Inr res
     \<and> length (rr_chunks res) = 1 \<and> rr_chunks res = map to_retrieval_chunk sel
     \<and> list_all (\<lambda>h. vr_user_id h = str ''u1'' \<and> vr_resource_id h = str ''r1'') sel"
proof -
  let ?r = "\<lparr>rr_chunks = [to_retrieval_chunk (demo_result ''r1-1'' ''defg'' (9 / 10))], rr_prompt = str ''q'',
    rr_context_token_count = 4\<rparr>"
  from retrieval_sound[OF demo_retrieve demo_request_valid] obtain v sel where
    sel: "rr_chunks ?r = map to_retrieval_chunk sel"
    and all: "\<forall>h \<in> set sel. from_store demo_retrieval_env v demo_retrieval_request h
      \<and> vr_user_id h = rq_user_id demo_retrieval_request
      \<and> vr_resource_id h \<in> set (rq_resource_ids demo_retrieval_request)
      \<and> threshold_of default_retrieval_config demo_retrieval_request \<le> vr_score h"
    by (elim exE conjE) (rule that)
  from all have "list_all (\<lambda>h. vr_user_id h = str ''u1'' \<and> vr_resource_id h = str ''r1'') sel"
    by (simp add: demo_retrieval_request_def list_all_iff)
  moreover have "length (rr_chunks ?r) = 1" by simp
  ultimately show ?thesis using demo_retrieve sel by blast
qed

text \<open>The context budget. The reported token count is that of the returned chunks, and it is within
  the budget unless a single chunk is returned.\<close>

theorem context_within_budget:
  assumes "retrieve env cfg req = Inr res"
  shows "rr_context_token_count res = (\<Sum>c\<leftarrow>rr_chunks res. token_count (re_estimator env) (rc_text c))
    \<and> (int (rr_context_token_count res) \<le> budget_of cfg req \<or> length (rr_chunks res) \<le> 1)"
proof -
  from assms obtain cs sel where "budget_prefix (re_estimator env) (budget_of cfg req) cs sel"
    "rr_chunks res = map to_retrieval_chunk sel" "rr_context_token_count res = tokens_of (re_estimator env) sel"
    by (rule retrieve_Inr)
  then show ?thesis by (auto simp: budget_prefix_def to_retrieval_chunk_def comp_def)
qed

theorem context_within_budget_witness:
  "\<exists>res. retrieve demo_retrieval_env default_retrieval_config demo_retrieval_request = Inr res
     \<and> rr_context_token_count res = 4 \<and> length (rr_chunks res) \<le> 1"
  using context_within_budget[OF demo_retrieve] demo_retrieve by auto

text \<open>The best candidate is never lost. If some candidate reaches the threshold, the first returned
  chunk has the highest score of all candidates, whatever de-duplication and the token budget drop;
  otherwise nothing is returned.\<close>

theorem best_candidate_first:
  assumes "retrieve env cfg req = Inr res" and "retrieval_request_valid req"
    and "re_embed_query env (rq_question req) = Inr q"
    and "search_candidates env req q (rq_top_k req) = Inr results"
  shows "if \<exists>r \<in> set results. threshold_of cfg req \<le> vr_score r
    then rr_chunks res \<noteq> [] \<and> (\<forall>r \<in> set results. vr_score r \<le> rc_score (hd (rr_chunks res)))
    else rr_chunks res = []"
proof -
  from assms(1) obtain q' results' deduped sel where
    q: "re_embed_query env (rq_question req) = Inr q'"
      "search_candidates env req q' (if rq_top_k req = 0 then rcfg_default_top_k cfg else rq_top_k req) = Inr results'"
    and d: "(if 1 < distinct_count (rq_resource_ids req)
      then deduplicate_similar_chunks (re_sha1 env) (py_sorted_desc vr_score results')
      else Inr (py_sorted_desc vr_score results')) = Inr deduped"
    and b: "budget_prefix (re_estimator env) (budget_of cfg req)
       (py_take (if rq_top_k req = 0 then rcfg_default_top_k cfg else rq_top_k req)
         (filter (\<lambda>r. threshold_of cfg req \<le> vr_score r) deduped)) sel"
    and out: "rr_chunks res = map to_retrieval_chunk sel"
    by (rule retrieve_Inr)
  have same: "results' = results"
    using q assms(3,4) by (simp add: request_defaults[OF assms(2)])
  have k: "1 \<le> rq_top_k req" using assms(2) by (simp add: retrieval_request_valid_def)
  have "if \<exists>r \<in> set results. threshold_of cfg req \<le> vr_score r
    then sel \<noteq> [] \<and> (\<forall>r \<in> set results. vr_score r \<le> vr_score (hd sel)) else sel = []"
    using best_kept[OF d[unfolded same] k] b by (simp add: request_defaults[OF assms(2)])
  then show ?thesis by (auto simp: out hd_map to_retrieval_chunk_def split: if_splits)
qed

theorem best_candidate_first_witness:
  "\<exists>res. retrieve demo_retrieval_env default_retrieval_config demo_retrieval_request = Inr res
     \<and> rr_chunks res \<noteq> [] \<and> 9 / 10 \<le> rc_score (hd (rr_chunks res))"
proof -
  let ?rs = "[demo_result ''r1-0'' ''abc'' (8 / 10), demo_result ''r1-1'' ''defg'' (9 / 10),
    demo_result ''r1-2'' ''hi'' (1 / 10)]"
  have "re_embed_query demo_retrieval_env (rq_question demo_retrieval_request) = Inr [1]"
    "search_candidates demo_retrieval_env demo_retrieval_request [1] (rq_top_k demo_retrieval_request) = Inr ?rs"
    by (simp_all add: demo_retrieval_env_def demo_retrieval_request_def search_candidates_def
        distinct_count_def)
  from best_candidate_first[OF demo_retrieve demo_request_valid this] demo_retrieve show ?thesis
    by (auto simp: demo_result_def to_retrieval_chunk_def)
qed

text \<open>An outage of the vector store is reported as such. When the embedding succeeds and the search
  fails, the request fails: with the store's own error if that is an API error, with
  \<open>RetrievalUnavailableError\<close> otherwise.\<close>

theorem search_failure_reported:
  assumes "re_embed_query env (rq_question req) = Inr q" "\<And>v k f. re_search env v k f = Inl e"
  shows "\<exists>e'. retrieve env cfg req = Inl e' \<and> (if is_api e then e' = e else has_class RetrievalUnavailableError e')"
  using assms by (simp add: retrieve_def search_candidates_def Let_def)

theorem search_failure_reported_witness:
  "\<exists>e'. retrieve (demo_retrieval_env\<lparr>re_search := (\<lambda>_ _ _. Inl (PyException ''OSError'' []))\<rparr>)
      default_retrieval_config demo_retrieval_request = Inl e' \<and> has_class RetrievalUnavailableError e'"
  using search_failure_reported[of "demo_retrieval_env\<lparr>re_search := (\<lambda>_ _ _. Inl (PyException ''OSError'' []))\<rparr>"
      demo_retrieval_request "[1]" "PyException ''OSError'' []" default_retrieval_config]
  by (simp add: demo_retrieval_env_def)

end
