(* ===== verification/Py_Values.thy ===== *)
theory Py_Values
  imports Errors
begin

text \<open>
  Conversions of dynamically typed Python values: numbers are read as Python reads them (any Unicode
  decimal digit counts, and a literal of more than 4300 digits raises \<open>ValueError\<close>; the strings
  \<open>inf\<close> and \<open>nan\<close>, which \<open>float\<close> accepts, have no rational value and are read as no
  number), and the dictionary accesses the source makes.
\<close>

section \<open>Decimal digits\<close>

text \<open>The zeros of the decimal digit ranges of Unicode 14 (Python 3.11).\<close>

definition nd_zeros :: "int list" where
  "nd_zeros = [0x30, 0x660, 0x6f0, 0x7c0, 0x966, 0x9e6, 0xa66, 0xae6, 0xb66, 0xbe6, 0xc66, 0xce6,
     0xd66, 0xde6, 0xe50, 0xed0, 0xf20, 0x1040, 0x1090, 0x17e0, 0x1810, 0x1946, 0x19d0, 0x1a80,
     0x1a90, 0x1b50, 0x1bb0, 0x1c40, 0x1c50, 0xa620, 0xa8d0, 0xa900, 0xa9d0, 0xa9f0, 0xaa50, 0xabf0,
     0xff10, 0x104a0, 0x10d30, 0x11066, 0x110f0, 0x11136, 0x111d0, 0x112f0, 0x11450, 0x114d0,
     0x11650, 0x116c0, 0x11730, 0x118e0, 0x11950, 0x11c50, 0x11d50, 0x11da0, 0x16a60, 0x16ac0,
     0x16b50, 0x1d7ce, 0x1d7d8, 0x1d7e2, 0x1d7ec, 0x1d7f6, 0x1e140, 0x1e2f0, 0x1e950, 0x1fbf0]"

definition digit_zero :: "int \<Rightarrow> int option" where
  "digit_zero c = find (\<lambda>z. z \<le> c \<and> c \<le> z + 9) nd_zeros"

definition is_digit :: "int \<Rightarrow> bool" where
  "is_digit c \<longleftrightarrow> digit_zero c \<noteq> None"

definition digit_of :: "int \<Rightarrow> int" where
  "digit_of c = (case digit_zero c of Some z \<Rightarrow> c - z | None \<Rightarrow> 0)"

definition digits_value :: "pystr \<Rightarrow> int" where
  "digits_value ds = foldl (\<lambda>n c. 10 * n + digit_of c) 0 ds"

text \<open>\<open>int\<close> of a non-empty run of digits.\<close>

definition int_of_digits :: "pystr \<Rightarrow> exn + int" where
  "int_of_digits ds =
     (if 4300 < length ds then Inl (value_error (str ''Exceeds the limit for integer string conversion''))
      else Inr (digits_value ds))"

text \<open>Digits with single underscores between them, as the literals of \<open>int\<close> and \<open>float\<close> allow.\<close>

definition digit_part :: "pystr \<Rightarrow> pystr option" where
  "digit_part s = (let parts = py_split [95] s
     in if list_all (\<lambda>p. p \<noteq> [] \<and> list_all is_digit p) parts then Some (concat parts) else None)"

definition split_sign :: "pystr \<Rightarrow> bool \<times> pystr" where
  "split_sign s = (case s of [] \<Rightarrow> (False, [])
     | c # r \<Rightarrow> if c = 45 then (True, r) else if c = 43 then (False, r) else (False, s))"

definition py_int_of_str :: "pystr \<Rightarrow> int option" where
  "py_int_of_str s = (case split_sign (py_strip s) of (neg, body) \<Rightarrow>
     (case digit_part body of
        None \<Rightarrow> None
      | Some ds \<Rightarrow> (case int_of_digits ds of Inl _ \<Rightarrow> None | Inr n \<Rightarrow> Some (if neg then - n else n))))"

definition float_mantissa :: "pystr \<Rightarrow> (int \<times> nat) option" where
  "float_mantissa s = (case py_split [46] s of
     [w] \<Rightarrow> map_option (\<lambda>ds. (digits_value ds, 0)) (digit_part w)
   | [w, f] \<Rightarrow>
       if w = [] then map_option (\<lambda>ds. (digits_value ds, length ds)) (digit_part f)
       else if f = [] then map_option (\<lambda>ds. (digits_value ds, 0)) (digit_part w)
       else (case (digit_part w, digit_part f) of
               (Some ws, Some fs) \<Rightarrow> Some (digits_value (ws @ fs), length fs) | _ \<Rightarrow> None)
   | _ \<Rightarrow> None)"

definition float_exponent :: "pystr \<Rightarrow> int option" where
  "float_exponent s = (case s of [] \<Rightarrow> Some 0
     | _ # r \<Rightarrow> (case split_sign r of (neg, body) \<Rightarrow>
         map_option (\<lambda>ds. if neg then - digits_value ds else digits_value ds) (digit_part body)))"

definition py_float_of_str :: "pystr \<Rightarrow> pyfloat option" where
  "py_float_of_str s = (case split_sign (py_strip s) of (neg, body) \<Rightarrow>
     (let m = takeWhile (\<lambda>c. c \<noteq> 101 \<and> c \<noteq> 69) body; e = dropWhile (\<lambda>c. c \<noteq> 101 \<and> c \<noteq> 69) body
      in case (float_mantissa m, float_exponent e) of
           (Some (n, k), Some x) \<Rightarrow>
             (let v = of_int n / 10 ^ k * (if 0 \<le> x then 10 ^ nat x else 1 / 10 ^ nat (- x))
              in Some (if neg then - v else v))
         | _ \<Rightarrow> None))"

section \<open>Values and dictionaries\<close>

definition dict_get :: "pydict \<Rightarrow> string \<Rightarrow> pyval option" where
  "dict_get d k = map_of d (str k)"

fun truthy :: "pyval \<Rightarrow> bool" where
  "truthy PNone = False"
| "truthy (PBool b) = b"
| "truthy (PInt n) = (n \<noteq> 0)"
| "truthy (PFloat x) = (x \<noteq> 0)"
| "truthy (PStr s) = (s \<noteq> [])"
| "truthy (PList xs) = (xs \<noteq> [])"

text \<open>\<open>d.get(k) or e\<close>.\<close>

definition get_or :: "pydict \<Rightarrow> string \<Rightarrow> pyval \<Rightarrow> pyval" where
  "get_or d k e = (case dict_get d k of Some v \<Rightarrow> if truthy v then v else e | None \<Rightarrow> e)"

text \<open>\<open>d.get(k, d.get(j))\<close>.\<close>

definition get_default :: "pydict \<Rightarrow> string \<Rightarrow> string \<Rightarrow> pyval option" where
  "get_default d k j = (case dict_get d k of Some v \<Rightarrow> Some v | None \<Rightarrow> dict_get d j)"

text \<open>
  \<open>str(v)\<close> and \<open>int(v)\<close>; the rendering of floats and lists is a parameter.
\<close>

definition str_of_int :: "int \<Rightarrow> pystr" where
  "str_of_int n = (if n < 0 then 45 # py_str_nat (nat (- n)) else py_str_nat (nat n))"

fun str_of_val :: "(pyval \<Rightarrow> pystr) \<Rightarrow> pyval \<Rightarrow> pystr" where
  "str_of_val rp PNone = str ''None''"
| "str_of_val rp (PBool b) = (if b then str ''True'' else str ''False'')"
| "str_of_val rp (PInt n) = str_of_int n"
| "str_of_val rp (PStr s) = s"
| "str_of_val rp v = rp v"

definition type_error :: "pystr \<Rightarrow> exn" where
  "type_error msg = PyException ''TypeError'' msg"

fun int_of_val :: "pyval \<Rightarrow> exn + int" where
  "int_of_val PNone = Inl (type_error (str ''int() argument''))"
| "int_of_val (PBool b) = Inr (if b then 1 else 0)"
| "int_of_val (PInt n) = Inr n"
| "int_of_val (PFloat x) = Inr (py_trunc x)"
| "int_of_val (PStr s) = (case py_int_of_str s of
     Some n \<Rightarrow> Inr n | None \<Rightarrow> Inl (value_error (str ''invalid literal for int()'')))"
| "int_of_val (PList xs) = Inl (type_error (str ''int() argument''))"

text \<open>\<open>{**d, **e}\<close>.\<close>

definition dict_merge :: "pydict \<Rightarrow> pydict \<Rightarrow> pydict" where
  "dict_merge d e = foldl (\<lambda>acc (k, v). AList.update k v acc) d e"

lemma map_of_dict_merge: "distinct (map fst e) \<Longrightarrow> map_of (dict_merge d e) k = (case map_of e k of Some v \<Rightarrow> Some v | None \<Rightarrow> map_of d k)"
proof (induction e arbitrary: d)
  case (Cons p e)
  obtain a b where p: "p = (a, b)" by fastforce
  from Cons.prems have "map_of e a = None" by (auto simp: p map_of_eq_None_iff)
  with Cons.IH[of "AList.update a b d"] Cons.prems show ?case
    by (auto simp: dict_merge_def p update_conv split: option.splits)
qed (simp add: dict_merge_def)

section \<open>JSON\<close>

text \<open>What \<open>json.loads\<close> returns, and its truth value.\<close>

datatype json =
    JNull
  | JBool bool
  | JNum pyfloat
  | JStr pystr
  | JArr "json list"
  | JObj "(pystr \<times> json) list"

type_synonym json_dict = "(pystr \<times> json) list"

fun json_truthy :: "json \<Rightarrow> bool" where
  "json_truthy JNull = False"
| "json_truthy (JBool b) = b"
| "json_truthy (JNum x) = (x \<noteq> 0)"
| "json_truthy (JStr s) = (s \<noteq> [])"
| "json_truthy (JArr xs) = (xs \<noteq> [])"
| "json_truthy (JObj d) = (d \<noteq> [])"

definition attribute_error :: exn where
  "attribute_error = PyException ''AttributeError'' []"

end
