(* ===== verification/Citations.thy ===== *)
theory Citations
  imports Retrieval Py_Values
begin

text \<open>
  Citations: \<open>CitationFormatter\<close>, \<open>CitationValidator\<close> and \<open>CitationService\<close>
  with the marker pattern of the configuration, a bracketed caret and a decimal number.
\<close>

section \<open>Models\<close>

datatype resource_type = ResAudio | ResPdf

record citation =
  ct_index :: int
  ct_original_index :: "int option"
  ct_chunk_id :: pystr
  ct_resource_id :: pystr
  ct_resource_type :: resource_type
  ct_page :: "int option"
  ct_timestamp_start :: "pyfloat option"
  ct_timestamp_end :: "pyfloat option"
  ct_score :: pyfloat
  ct_snippet :: pystr

record citation_result =
  cr_answer :: pystr
  cr_citations :: "citation list"

section \<open>Markers\<close>

text \<open>
  The pieces \<open>finditer\<close> and \<open>sub\<close> see: literal characters, and matches of the pattern with
  the digits of their group.
\<close>

datatype answer_piece = Lit int | Mark pystr

definition match_marker :: "pystr \<Rightarrow> (pystr \<times> pystr) option" where
  "match_marker s = (case s of
     a # b # r \<Rightarrow>
       (if a = 91 \<and> b = 94
        then case dropWhile is_digit r of
               c # rest \<Rightarrow> if c = 93 \<and> takeWhile is_digit r \<noteq> [] then Some (takeWhile is_digit r, rest) else None
             | [] \<Rightarrow> None
        else None)
   | _ \<Rightarrow> None)"

lemma match_marker_shorter: "match_marker s = Some (ds, rest) \<Longrightarrow> length rest < length s"
proof -
  assume m: "match_marker s = Some (ds, rest)"
  then obtain r where s: "s = 91 # 94 # r" and d: "dropWhile is_digit r = 93 # rest"
    by (auto simp: match_marker_def split: list.splits if_splits)
  have "length (dropWhile is_digit r) \<le> length r" by (rule length_dropWhile_le)
  with d show ?thesis by (simp add: s)
qed

function scan_answer :: "pystr \<Rightarrow> answer_piece list" where
  "scan_answer [] = []"
| "scan_answer (c # t) = (case match_marker (c # t) of
     Some (ds, rest) \<Rightarrow> Mark ds # scan_answer rest
   | None \<Rightarrow> Lit c # scan_answer t)"
  by pat_completeness auto
termination
  by (relation "measure length") (auto dest: match_marker_shorter)

fun render_piece :: "answer_piece \<Rightarrow> pystr" where
  "render_piece (Lit c) = [c]"
| "render_piece (Mark ds) = [91, 94] @ ds @ [93]"

definition render_answer :: "answer_piece list \<Rightarrow> pystr" where
  "render_answer ps = concat (map render_piece ps)"

fun marks_of :: "answer_piece list \<Rightarrow> pystr list" where
  "marks_of [] = []"
| "marks_of (Lit c # ps) = marks_of ps"
| "marks_of (Mark ds # ps) = ds # marks_of ps"

section \<open>CitationFormatter\<close>

text \<open>\<open>str(raw).lower()\<close> can only be one of the two words when \<open>raw\<close> is a string.\<close>

definition citation_resource_type :: "pydict \<Rightarrow> resource_type" where
  "citation_resource_type metadata =
     (case get_or metadata ''resource_type'' (get_or metadata ''content_type''
             (get_or metadata ''source_type'' (PStr (str ''pdf'')))) of
        PStr s \<Rightarrow> if py_lower s = str ''audio'' \<or> py_lower s = str ''media'' then ResAudio else ResPdf
      | _ \<Rightarrow> ResPdf)"

fun optional_int :: "pyval option \<Rightarrow> int option" where
  "optional_int None = None"
| "optional_int (Some PNone) = None"
| "optional_int (Some (PBool b)) = Some (if b then 1 else 0)"
| "optional_int (Some (PInt n)) = Some n"
| "optional_int (Some (PFloat x)) = Some (py_trunc x)"
| "optional_int (Some (PStr s)) = (if s = [] then None else py_int_of_str s)"
| "optional_int (Some (PList xs)) = None"

fun optional_float :: "pyval option \<Rightarrow> pyfloat option" where
  "optional_float None = None"
| "optional_float (Some PNone) = None"
| "optional_float (Some (PBool b)) = Some (if b then 1 else 0)"
| "optional_float (Some (PInt n)) = Some (of_int n)"
| "optional_float (Some (PFloat x)) = Some x"
| "optional_float (Some (PStr s)) = (if s = [] then None else py_float_of_str s)"
| "optional_float (Some (PList xs)) = None"

definition optional_original_index :: "int \<Rightarrow> int \<Rightarrow> int option" where
  "optional_original_index index original_index = (if original_index = index then None else Some original_index)"

definition citation_from_chunk :: "int \<Rightarrow> int \<Rightarrow> int \<Rightarrow> retrieval_chunk \<Rightarrow> citation" where
  "citation_from_chunk snippet_max_chars index original_index chunk =
     (let metadata = rc_metadata chunk in
      \<lparr>ct_index = index, ct_original_index = optional_original_index index original_index,
       ct_chunk_id = rc_chunk_id chunk, ct_resource_id = rc_resource_id chunk,
       ct_resource_type = citation_resource_type metadata,
       ct_page = optional_int (dict_get metadata ''page''),
       ct_timestamp_start = optional_float (get_default metadata ''timestamp_start'' ''start_time''),
       ct_timestamp_end = optional_float (get_default metadata ''timestamp_end'' ''end_time''),
       ct_score = rc_score chunk, ct_snippet = py_take snippet_max_chars (rc_text chunk)\<rparr>)"

text \<open>
  The loop over the matches. \<open>marker_replacements\<close> has a key exactly for the used indices, so it
  stands for both.
\<close>

fun collect_citations ::
  "int \<Rightarrow> retrieval_chunk list \<Rightarrow> pystr list \<Rightarrow> citation list \<Rightarrow> (int \<times> int) list \<Rightarrow>
     exn + (citation list \<times> (int \<times> int) list)" where
  "collect_citations snip chunks [] citations repl = Inr (citations, repl)"
| "collect_citations snip chunks (ds # marks) citations repl =
     sbind (int_of_digits ds) (\<lambda>index.
       if map_of repl index \<noteq> None then collect_citations snip chunks marks citations repl
       else if index < 1 \<or> int (length chunks) < index then collect_citations snip chunks marks citations repl
       else let citation_index = int (length citations) + 1
            in collect_citations snip chunks marks
                 (citations @ [citation_from_chunk snip citation_index index (chunks ! nat (index - 1))])
                 (repl @ [(index, citation_index)]))"

text \<open>The decimal rendering of a (non-negative) citation number in an f-string.\<close>

definition str_of_index :: "int \<Rightarrow> pystr" where
  "str_of_index n = py_str_nat (nat n)"

fun replace_piece :: "(int \<times> int) list \<Rightarrow> answer_piece \<Rightarrow> exn + answer_piece" where
  "replace_piece repl (Lit c) = Inr (Lit c)"
| "replace_piece repl (Mark ds) =
     sbind (int_of_digits ds) (\<lambda>original. case map_of repl original of
       None \<Rightarrow> Inr (Mark ds) | Some n \<Rightarrow> Inr (Mark (str_of_index n)))"

definition renumber_answer :: "pystr \<Rightarrow> (int \<times> int) list \<Rightarrow> exn + pystr" where
  "renumber_answer answer repl =
     (if repl = [] then Inr answer
      else sbind (smap (replace_piece repl) (scan_answer answer)) (\<lambda>ps. Inr (render_answer ps)))"

definition citation_format :: "int \<Rightarrow> pystr \<Rightarrow> retrieval_chunk list \<Rightarrow> exn + citation_result" where
  "citation_format snip answer chunks =
     sbind (collect_citations snip chunks (marks_of (scan_answer answer)) [] []) (\<lambda>(citations, repl).
     sbind (renumber_answer answer repl) (\<lambda>answer'.
     Inr \<lparr>cr_answer = answer', cr_citations = citations\<rparr>))"

section \<open>CitationValidator\<close>

fun citation_validate :: "int \<Rightarrow> citation list \<Rightarrow> pystr list \<Rightarrow> citation list \<Rightarrow> citation list" where
  "citation_validate max_citations valid authorized [] = valid"
| "citation_validate max_citations valid authorized (c # cs) =
     (if authorized \<noteq> [] \<and> ct_resource_id c \<notin> set authorized
      then citation_validate max_citations valid authorized cs
      else if max_citations \<le> int (length (valid @ [c])) then valid @ [c]
      else citation_validate max_citations (valid @ [c]) authorized cs)"

section \<open>CitationService\<close>

definition build_citations ::
  "int \<Rightarrow> int \<Rightarrow> pystr \<Rightarrow> retrieval_chunk list \<Rightarrow> pystr list \<Rightarrow> citation_result" where
  "build_citations snip max_citations answer chunks authorized =
     (case citation_format snip answer chunks of
        Inl e \<Rightarrow> \<lparr>cr_answer = answer, cr_citations = []\<rparr>
      | Inr formatted \<Rightarrow>
          \<lparr>cr_answer = cr_answer formatted,
           cr_citations = citation_validate max_citations [] authorized (cr_citations formatted)\<rparr>)"

definition format_timestamp :: "pyfloat \<Rightarrow> pystr" where
  "format_timestamp seconds = (let n = py_trunc seconds; minutes = n div 60; secs = n mod 60
     in (if minutes < 0
         then str ''-'' @ replicate (1 - length (py_str_nat (nat (- minutes)))) 48 @ py_str_nat (nat (- minutes))
         else replicate (2 - length (py_str_nat (nat minutes))) 48 @ py_str_nat (nat minutes))
        @ str '':'' @ replicate (2 - length (py_str_nat (nat secs))) 48 @ py_str_nat (nat secs))"

end
