(* ===== verification/Citation_Props.thy ===== *)
theory Citation_Props
  imports Citations
begin

text \<open>
  Correctness of citation mapping: which chunks are cited and under which numbers, that every marker of
  the rewritten answer leads to the chunk its original marker named, and what validation keeps.
\<close>

section \<open>Scanning and rendering\<close>

lemma is_digit_ascii: "48 \<le> c \<Longrightarrow> c \<le> 57 \<Longrightarrow> digit_zero c = Some 48"
  by (simp add: digit_zero_def nd_zeros_def)

lemma not_digit: "\<not> is_digit 91" "\<not> is_digit 93" "\<not> is_digit 94"
  by (simp_all add: is_digit_def digit_zero_def nd_zeros_def)

lemma digits_value_snoc [simp]: "digits_value (ds @ [c]) = 10 * digits_value ds + digit_of c"
  by (simp add: digits_value_def)

lemma digits_value_py_str_nat [simp]: "digits_value (py_str_nat n) = int n"
proof (induction n rule: py_str_nat.induct)
  case (1 n)
  have d: "digit_of (48 + int m) = int m" if "m < 10" for m
    using that by (simp add: digit_of_def is_digit_ascii)
  show ?case
  proof (cases "n < 10")
    case True
    then show ?thesis by (subst py_str_nat.simps) (simp add: digits_value_def d)
  next
    case False
    then have "py_str_nat n = py_str_nat (n div 10) @ [48 + int (n mod 10)]"
      by (subst py_str_nat.simps) simp
    with 1[OF False] d[of "n mod 10"] show ?thesis
      by (simp only: digits_value_snoc) presburger
  qed
qed

definition digit_run :: "pystr \<Rightarrow> bool" where
  "digit_run ds \<longleftrightarrow> ds \<noteq> [] \<and> list_all is_digit ds"

lemma digit_run_py_str_nat: "digit_run (py_str_nat n)"
  by (auto simp: digit_run_def list_all_iff is_digit_def is_digit_ascii dest: py_str_nat_digits)

lemma takeWhile_run: "digit_run ds \<Longrightarrow> takeWhile is_digit (ds @ 93 # t) = ds \<and> dropWhile is_digit (ds @ 93 # t) = 93 # t"
  by (auto simp: digit_run_def list_all_iff not_digit)

lemma match_marker_iff:
  "match_marker s = Some (ds, rest) \<longleftrightarrow> digit_run ds \<and> s = 91 # 94 # ds @ 93 # rest"
proof
  assume m: "match_marker s = Some (ds, rest)"
  then obtain r where s: "s = 91 # 94 # r" and d: "dropWhile is_digit r = 93 # rest"
    and t: "takeWhile is_digit r = ds" "ds \<noteq> []"
    by (auto simp: match_marker_def split: list.splits if_splits)
  have "r = ds @ 93 # rest" using takeWhile_dropWhile_id[of is_digit r] by (simp add: d t)
  moreover have "list_all is_digit ds" using t(1) by (auto simp: list_all_iff dest: set_takeWhileD)
  ultimately show "digit_run ds \<and> s = 91 # 94 # ds @ 93 # rest" using s t(2) by (simp add: digit_run_def)
next
  assume r: "digit_run ds \<and> s = 91 # 94 # ds @ 93 # rest"
  then show "match_marker s = Some (ds, rest)"
    using takeWhile_run[of ds rest] by (simp add: match_marker_def digit_run_def del: dropWhile_append takeWhile_append)
qed

lemma render_simps [simp]:
  "render_answer [] = []" "render_answer (p # ps) = render_piece p @ render_answer ps"
  by (simp_all add: render_answer_def)

lemma render_scan: "render_answer (scan_answer s) = s"
proof (induction s rule: scan_answer.induct)
  case (2 c t)
  show ?case
  proof (cases "match_marker (c # t)")
    case (Some p)
    obtain ds rest where p: "(ds, rest) = p" by (cases p) auto
    with Some have "c # t = 91 # 94 # ds @ 93 # rest" by (auto simp: match_marker_iff)
    with 2(2)[OF Some p] Some p show ?thesis by auto
  qed (use 2 in simp)
qed simp

text \<open>
  Whether a marker starts at a bracket is decided before the next bracket, so rewriting later markers
  does not create or destroy one.
\<close>

abbreviation to_bracket :: "pystr \<Rightarrow> pystr" where
  "to_bracket s \<equiv> takeWhile (\<lambda>c. c \<noteq> 91) s"

lemma match_marker_local:
  "match_marker (c # t) \<noteq> None \<longleftrightarrow> c = 91 \<and> (\<exists>ds r. to_bracket t = 94 # ds @ 93 # r \<and> digit_run ds)"
proof
  assume "match_marker (c # t) \<noteq> None"
  then obtain ds rest where d: "digit_run ds" and t: "c = 91" "t = 94 # ds @ 93 # rest"
    by (auto simp: match_marker_iff)
  have "\<forall>x \<in> set ds. x \<noteq> 91" using d not_digit(1) by (auto simp: digit_run_def list_all_iff)
  then have "to_bracket t = 94 # ds @ 93 # to_bracket rest" by (simp add: t)
  with d t show "c = 91 \<and> (\<exists>ds r. to_bracket t = 94 # ds @ 93 # r \<and> digit_run ds)" by blast
next
  assume "c = 91 \<and> (\<exists>ds r. to_bracket t = 94 # ds @ 93 # r \<and> digit_run ds)"
  then obtain ds r where c: "c = 91" and b: "to_bracket t = 94 # ds @ 93 # r" and d: "digit_run ds" by blast
  from b have "t = 94 # ds @ 93 # r @ dropWhile (\<lambda>c. c \<noteq> 91) t"
    using takeWhile_dropWhile_id[of "\<lambda>c. c \<noteq> 91" t] by simp
  with c d show "match_marker (c # t) \<noteq> None" using match_marker_iff by (metis option.distinct(1))
qed

fun same_kind :: "answer_piece \<Rightarrow> answer_piece \<Rightarrow> bool" where
  "same_kind (Lit c) q = (q = Lit c)"
| "same_kind (Mark ds) q = (\<exists>es. q = Mark es \<and> digit_run es)"

lemma to_bracket_rewritten:
  "list_all2 same_kind (scan_answer s) ps \<Longrightarrow> to_bracket (render_answer ps) = to_bracket s"
proof (induction s arbitrary: ps rule: scan_answer.induct)
  case (2 c t)
  show ?case
  proof (cases "match_marker (c # t)")
    case (Some p)
    with 2 show ?thesis by (cases p) (auto simp: match_marker_iff list_all2_Cons1)
  next
    case None
    with 2 show ?thesis by (auto simp: list_all2_Cons1)
  qed
qed simp

lemma scan_rewritten:
  "list_all2 same_kind (scan_answer s) ps \<Longrightarrow> scan_answer (render_answer ps) = ps"
proof (induction s arbitrary: ps rule: scan_answer.induct)
  case (2 c t)
  show ?case
  proof (cases "match_marker (c # t)")
    case (Some p)
    obtain ds rest where p: "(ds, rest) = p" by (cases p) auto
    with 2(3) Some obtain es qs where ps: "ps = Mark es # qs" and e: "digit_run es"
      and q: "list_all2 same_kind (scan_answer rest) qs" by (auto simp: list_all2_Cons1)
    have "match_marker (render_answer ps) = Some (es, render_answer qs)"
      using e by (simp add: ps match_marker_iff)
    with 2(2)[OF Some p q] ps show ?thesis by simp
  next
    case None
    with 2(3) obtain qs where ps: "ps = Lit c # qs" and q: "list_all2 same_kind (scan_answer t) qs"
      by (auto simp: list_all2_Cons1)
    have "match_marker (c # render_answer qs) \<noteq> None \<longleftrightarrow> match_marker (c # t) \<noteq> None"
      unfolding match_marker_local to_bracket_rewritten[OF q] ..
    with None have "match_marker (c # render_answer qs) = None" by blast
    with 2(1)[OF None q] ps show ?thesis by simp
  qed
qed simp

lemma scan_digit_runs: "ds \<in> set (marks_of (scan_answer s)) \<Longrightarrow> digit_run ds"
proof (induction s rule: scan_answer.induct)
  case (2 c t)
  then show ?case
    by (cases "match_marker (c # t)") (auto simp: match_marker_iff)
qed simp

section \<open>Which chunks are cited\<close>

definition in_range :: "retrieval_chunk list \<Rightarrow> int \<Rightarrow> bool" where
  "in_range chunks k \<longleftrightarrow> 1 \<le> k \<and> k \<le> int (length chunks)"

text \<open>The numbers of the markers of an answer, in order.\<close>

definition marker_numbers :: "pystr \<Rightarrow> int list" where
  "marker_numbers answer = map digits_value (marks_of (scan_answer answer))"

text \<open>The cited chunks: the in-range numbers, each at its first occurrence.\<close>

definition cited :: "retrieval_chunk list \<Rightarrow> int list \<Rightarrow> int list" where
  "cited chunks ns = fromkeys (filter (in_range chunks) ns)"

definition citations_of :: "int \<Rightarrow> retrieval_chunk list \<Rightarrow> int list \<Rightarrow> citation list" where
  "citations_of snip chunks ks =
     map (\<lambda>(i, k). citation_from_chunk snip (int i + 1) k (chunks ! nat (k - 1))) (enumerate 0 ks)"

definition replacements_of :: "int list \<Rightarrow> (int \<times> int) list" where
  "replacements_of ks = map (\<lambda>(i, k). (k, int i + 1)) (enumerate 0 ks)"

lemma enumerate_snoc: "enumerate n (xs @ [x]) = enumerate n xs @ [(n + length xs, x)]"
  by (simp add: enumerate_append_eq)

lemma citations_of_snoc:
  "citations_of snip chunks (ks @ [k])
     = citations_of snip chunks ks @ [citation_from_chunk snip (int (length ks) + 1) k (chunks ! nat (k - 1))]"
  "replacements_of (ks @ [k]) = replacements_of ks @ [(k, int (length ks) + 1)]"
  "length (citations_of snip chunks ks) = length ks" "length (replacements_of ks) = length ks"
  by (simp_all add: citations_of_def replacements_of_def enumerate_snoc)

lemma replacements_keys: "map fst (replacements_of ks) = ks"
  by (simp add: replacements_of_def comp_def case_prod_beta)

lemma map_of_replacements:
  "distinct ks \<Longrightarrow> map_of (replacements_of ks) k = Some j \<longleftrightarrow> (\<exists>i < length ks. ks ! i = k \<and> j = int i + 1)"
proof -
  assume "distinct ks"
  then have "map_of (replacements_of ks) k = Some j \<longleftrightarrow> (k, j) \<in> set (replacements_of ks)"
    by (simp add: map_of_eq_Some_iff replacements_keys)
  also have "\<dots> \<longleftrightarrow> (\<exists>i < length ks. ks ! i = k \<and> j = int i + 1)"
    unfolding in_set_conv_nth citations_of_snoc
    by (auto simp: replacements_of_def nth_enumerate_eq)
  finally show ?thesis .
qed

lemma map_of_replacements_None: "map_of (replacements_of ks) k = None \<longleftrightarrow> k \<notin> set ks"
  using set_map[of fst "replacements_of ks"] by (simp add: map_of_eq_None_iff replacements_keys)

lemma replacement_pos: "map_of (replacements_of ks) k = Some j \<Longrightarrow> 0 < j"
  by (auto dest!: map_of_SomeD simp: replacements_of_def)

lemma collect_citations_spec:
  assumes "list_all (\<lambda>ds. length ds \<le> 4300) marks"
  shows "collect_citations snip chunks marks (citations_of snip chunks ks) (replacements_of ks)
    = (let ks' = ks @ filter (\<lambda>k. k \<notin> set ks) (cited chunks (map digits_value marks))
       in Inr (citations_of snip chunks ks', replacements_of ks'))"
  using assms
proof (induction marks arbitrary: ks)
  case (Cons ds marks)
  let ?v = "digits_value ds"
  have i: "int_of_digits ds = Inr ?v" using Cons.prems by (simp add: int_of_digits_def)
  consider "?v \<in> set ks" | "?v \<notin> set ks" "\<not> in_range chunks ?v" | "?v \<notin> set ks" "in_range chunks ?v" by blast
  then show ?case
  proof cases
    case 1
    then have "filter (\<lambda>k. k \<notin> set ks) (cited chunks (?v # ns)) = filter (\<lambda>k. k \<notin> set ks) (cited chunks ns)" for ns
      by (auto simp: cited_def intro!: filter_cong)
    with 1 Cons i show ?thesis by (simp add: map_of_replacements_None)
  next
    case 2
    with Cons i show ?thesis by (auto simp: map_of_replacements_None in_range_def cited_def Let_def)
  next
    case 3
    have "filter (\<lambda>k. k \<notin> set ks) (cited chunks (?v # ns))
        = ?v # filter (\<lambda>k. k \<notin> set (ks @ [?v])) (cited chunks ns)" for ns
      using 3 by (auto simp: cited_def intro!: filter_cong)
    with 3 Cons.IH[of "ks @ [?v]"] Cons.prems i show ?thesis
      by (simp add: map_of_replacements_None in_range_def citations_of_snoc Let_def)
  qed
qed (simp add: cited_def Let_def)

lemma cited_props: "distinct (cited chunks ns)" "k \<in> set (cited chunks ns) \<longleftrightarrow> k \<in> set ns \<and> in_range chunks k"
  by (auto simp: cited_def)

definition short_markers :: "pystr \<Rightarrow> bool" where
  "short_markers answer \<longleftrightarrow> list_all (\<lambda>ds. length ds \<le> 4300) (marks_of (scan_answer answer))"

text \<open>The rewritten marker.\<close>

definition new_piece :: "int list \<Rightarrow> answer_piece \<Rightarrow> answer_piece" where
  "new_piece ks p = (case p of Lit c \<Rightarrow> Lit c
     | Mark ds \<Rightarrow> (case map_of (replacements_of ks) (digits_value ds) of
         None \<Rightarrow> Mark ds | Some n \<Rightarrow> Mark (str_of_index n)))"

lemma replace_pieces:
  "list_all (\<lambda>ds. length ds \<le> 4300) (marks_of ps) \<Longrightarrow>
     smap (replace_piece (replacements_of ks)) ps = Inr (map (new_piece ks) ps)"
  by (induction ps rule: marks_of.induct) (auto simp: new_piece_def int_of_digits_def split: option.splits)

lemma citation_format_short:
  fixes chunks :: "retrieval_chunk list"
  assumes "short_markers answer"
  defines "ks \<equiv> cited chunks (marker_numbers answer)"
  shows "citation_format snip answer chunks = Inr \<lparr>cr_answer = render_answer (map (new_piece ks) (scan_answer answer)),
    cr_citations = citations_of snip chunks ks\<rparr>"
proof -
  have c: "collect_citations snip chunks (marks_of (scan_answer answer)) [] [] = Inr (citations_of snip chunks ks, replacements_of ks)"
    using collect_citations_spec[of "marks_of (scan_answer answer)" snip chunks "[]"] assms
    by (simp add: short_markers_def ks_def marker_numbers_def Let_def citations_of_def replacements_of_def)
  have "renumber_answer answer (replacements_of ks) = Inr (render_answer (map (new_piece ks) (scan_answer answer)))"
  proof (cases "ks = []")
    case True
    have "map (new_piece []) ps = ps" for ps
      by (induction ps) (auto simp: new_piece_def replacements_of_def split: answer_piece.splits)
    with True show ?thesis by (simp add: renumber_answer_def replacements_of_def render_scan)
  next
    case False
    then have "replacements_of ks \<noteq> []" by (metis citations_of_snoc(4) length_0_conv)
    with replace_pieces assms show ?thesis by (simp add: renumber_answer_def short_markers_def)
  qed
  with c show ?thesis by (simp add: citation_format_def)
qed

lemma new_pieces_kind:
  "(\<And>ds. ds \<in> set (marks_of ps) \<Longrightarrow> digit_run ds) \<Longrightarrow> list_all2 same_kind ps (map (new_piece ks) ps)"
  by (induction ps rule: marks_of.induct)
    (auto simp: new_piece_def str_of_index_def digit_run_py_str_nat split: option.splits)

definition new_number :: "int list \<Rightarrow> int \<Rightarrow> int" where
  "new_number ks n = (case map_of (replacements_of ks) n of None \<Rightarrow> n | Some j \<Rightarrow> j)"

lemma marks_new_pieces:
  "map digits_value (marks_of (map (new_piece ks) ps)) = map (new_number ks) (map digits_value (marks_of ps))"
  by (induction ps rule: marks_of.induct)
    (auto simp: new_piece_def new_number_def str_of_index_def dest: replacement_pos split: option.splits)

lemma marker_numbers_rewritten:
  "marker_numbers (render_answer (map (new_piece ks) (scan_answer answer)))
    = map (new_number ks) (marker_numbers answer)"
  using scan_rewritten[OF new_pieces_kind[OF scan_digit_runs]] marks_new_pieces
  by (simp add: marker_numbers_def)

lemma new_number_resolves:
  assumes "distinct ks" "k \<in> set ks"
  shows "1 \<le> new_number ks k \<and> new_number ks k \<le> int (length ks)
    \<and> citations_of snip chunks ks ! nat (new_number ks k - 1)
        = citation_from_chunk snip (new_number ks k) k (chunks ! nat (k - 1))"
proof -
  from assms(2) obtain i where i: "i < length ks" "ks ! i = k" by (auto simp: in_set_conv_nth)
  with assms(1) have "map_of (replacements_of ks) k = Some (int i + 1)" by (auto simp: map_of_replacements)
  with i show ?thesis by (simp add: new_number_def citations_of_def nth_enumerate_eq)
qed

section \<open>Validation\<close>

text \<open>Citations of authorized resources; an empty set authorizes everything.\<close>

definition authorized_for :: "pystr list \<Rightarrow> citation \<Rightarrow> bool" where
  "authorized_for authorized c \<longleftrightarrow> authorized = [] \<or> ct_resource_id c \<in> set authorized"

lemma citation_validate_acc:
  "int (length valid) < max 1 m \<Longrightarrow>
     citation_validate m valid authorized cs
       = valid @ take (nat (max 1 m) - length valid) (filter (authorized_for authorized) cs)"
proof (induction cs arbitrary: valid)
  case (Cons c cs)
  show ?case
  proof (cases "authorized_for authorized c")
    case False
    with Cons show ?thesis by (simp add: authorized_for_def)
  next
    case True
    show ?thesis
    proof (cases "m \<le> int (length (valid @ [c]))")
      case last: True
      with Cons.prems have "nat (max 1 m) - length valid = 1" by (auto simp: max_def split: if_splits)
      with last True show ?thesis by (auto simp: authorized_for_def)
    next
      case False
      then have "nat (max 1 m) - length valid = Suc (nat (max 1 m) - length (valid @ [c]))" by auto
      with False True Cons.IH[of "valid @ [c]"] show ?thesis by (auto simp: authorized_for_def)
    qed
  qed
qed simp

lemma citation_validate_spec:
  "citation_validate m [] authorized cs = take (nat (max 1 m)) (filter (authorized_for authorized) cs)"
  using citation_validate_acc[of "[]" m authorized cs] by simp

section \<open>Properties\<close>

text \<open>Which citations an answer gets. When no marker has more than 4300 digits, formatting succeeds
  and the citations are numbered 1, 2, \<dots> in the order in which the answer first names their chunks;
  every chunk named by an in-range marker is cited exactly once and nothing else is.\<close>

theorem citations_number_first_mentions:
  assumes "short_markers answer"
  shows "\<exists>res. citation_format snip answer chunks = Inr res
    \<and> cr_citations res = map (\<lambda>(i, k). citation_from_chunk snip (int i + 1) k (chunks ! nat (k - 1)))
        (enumerate 0 (fromkeys (filter (in_range chunks) (marker_numbers answer))))"
  using citation_format_short[OF assms] by (auto simp: citations_of_def cited_def)

definition demo_answer :: pystr where
  "demo_answer = str ''A [^2] and B [^7], again [^2], then [^1].''"

definition demo_chunk :: "string \<Rightarrow> retrieval_chunk" where
  "demo_chunk cid = \<lparr>rc_chunk_id = str cid, rc_resource_id = str ''r1'', rc_text = str ''some text'',
     rc_score = 1, rc_metadata = []\<rparr>"

lemma demo_answer_short: "short_markers demo_answer"
  unfolding short_markers_def by code_simp

lemma demo_answer_numbers: "marker_numbers demo_answer = [2, 7, 2, 1]"
  by code_simp

theorem citations_number_first_mentions_witness:
  "\<exists>res. citation_format 200 demo_answer [demo_chunk ''c1'', demo_chunk ''c2''] = Inr res
     \<and> map ct_chunk_id (cr_citations res) = [str ''c2'', str ''c1'']"
  using citations_number_first_mentions[OF demo_answer_short, of 200 "[demo_chunk ''c1'', demo_chunk ''c2'']"]
  by (auto simp: demo_answer_numbers in_range_def citation_from_chunk_def demo_chunk_def)

text \<open>C7: the rewritten answer cites correctly. Read again, its markers correspond one to one to the
  markers of the original answer: a marker that named a chunk now carries the number of the citation
  of that very chunk, and a marker out of range is unchanged and is the number of no citation.\<close>

theorem markers_resolve_to_their_chunks:
  assumes "short_markers answer" and "citation_format snip answer chunks = Inr res"
  shows "list_all2 (\<lambda>old new. if in_range chunks old
      then 1 \<le> new \<and> new \<le> int (length (cr_citations res))
        \<and> cr_citations res ! nat (new - 1) = citation_from_chunk snip new old (chunks ! nat (old - 1))
      else new = old \<and> \<not> (1 \<le> new \<and> new \<le> int (length (cr_citations res))))
    (marker_numbers answer) (marker_numbers (cr_answer res))"
proof -
  define ks where "ks = cited chunks (marker_numbers answer)"
  have d: "distinct ks" and ks: "k \<in> set ks \<longleftrightarrow> k \<in> set (marker_numbers answer) \<and> in_range chunks k" for k
    by (simp_all add: ks_def cited_props)
  have res: "cr_answer res = render_answer (map (new_piece ks) (scan_answer answer))"
    "cr_citations res = citations_of snip chunks ks"
    using assms(2) citation_format_short[OF assms(1), of snip chunks] unfolding ks_def by auto
  have le: "length ks \<le> length chunks"
  proof -
    have "set ks \<subseteq> {1..int (length chunks)}" using ks by (auto simp: in_range_def)
    then have "card (set ks) \<le> card {1..int (length chunks)}" by (intro card_mono) auto
    with d show ?thesis by (simp add: distinct_card)
  qed
  have "new_number ks k = k" if "\<not> in_range chunks k" for k
    using that ks map_of_replacements_None[of ks k] by (simp add: new_number_def)
  with le new_number_resolves[OF d, of _ snip chunks] ks show ?thesis
    unfolding res marker_numbers_rewritten
    by (auto simp: list_all2_map2 list_all2_same citations_of_snoc in_range_def)
qed

theorem markers_resolve_to_their_chunks_witness:
  "\<exists>res. citation_format 200 demo_answer [demo_chunk ''c1'', demo_chunk ''c2''] = Inr res
     \<and> (\<exists>a b c. marker_numbers (cr_answer res) = [a, 7, b, c] \<and> 1 \<le> a)"
proof -
  let ?cs = "[demo_chunk ''c1'', demo_chunk ''c2'']"
  obtain res where r: "citation_format 200 demo_answer ?cs = Inr res"
    using citation_format_short[OF demo_answer_short, of 200 ?cs] by blast
  from markers_resolve_to_their_chunks[OF demo_answer_short r] r show ?thesis
    unfolding demo_answer_numbers by (auto simp: list_all2_Cons1 in_range_def)
qed

text \<open>What validation keeps: the citations of authorized resources, in order, up to the limit (or
  one, if the limit is not positive); so every returned citation is authorized.\<close>

theorem validated_citations:
  "cr_citations (build_citations snip m answer chunks authorized)
     = (case citation_format snip answer chunks of Inl _ \<Rightarrow> []
        | Inr res \<Rightarrow> take (nat (max 1 m)) (filter (authorized_for authorized) (cr_citations res)))"
  by (simp add: build_citations_def citation_validate_spec split: sum.split)

text \<open>Validation does not look at the answer. With a limit of one, an answer with two valid markers
  keeps both while only the first citation is returned, so the second marker leads nowhere.\<close>

theorem truncated_citation_leaves_marker:
  "let res = build_citations 200 1 demo_answer [demo_chunk ''c1'', demo_chunk ''c2''] [str ''r1'']
   in length (cr_citations res) = 1 \<and> 2 \<in> set (marker_numbers (cr_answer res))"
proof -
  let ?cs = "[demo_chunk ''c1'', demo_chunk ''c2'']"
  have k: "cited ?cs [2, 7, 2, 1] = [2, 1]" by (simp add: cited_def in_range_def)
  have "citation_format 200 demo_answer ?cs = Inr \<lparr>cr_answer = render_answer (map (new_piece [2, 1]) (scan_answer demo_answer)),
      cr_citations = citations_of 200 ?cs [2, 1]\<rparr>"
    using citation_format_short[OF demo_answer_short, of 200 ?cs] by (simp add: demo_answer_numbers k)
  moreover have "marker_numbers (render_answer (map (new_piece [2, 1]) (scan_answer demo_answer))) = [1, 7, 1, 2]"
    by (simp add: marker_numbers_rewritten demo_answer_numbers) (simp add: new_number_def replacements_of_def)
  ultimately show ?thesis
    by (simp add: build_citations_def citations_of_def citation_from_chunk_def demo_chunk_def)
qed

end
