(* ===== verification/Embedding.thy ===== *)
theory Embedding
  imports Errors
begin

text \<open>
  The embedding service (\<open>app/services/embedding\<close>): configuration checks, the provider
  factory, the remote and local providers, batching, retries and the assembly of the result. The
  clients of the remote services, the local model and \<open>numpy.linalg.norm\<close> are parameters; a
  provider may keep state and may fail differently on every call, so calls thread its state.
\<close>

section \<open>Retries\<close>

text \<open>
  The loop \<open>for attempt in Retrying(stop=stop_after_attempt(n), reraise=True)\<close> of tenacity
  around a call: at least one attempt, at most \<open>n\<close>, no further one after a fatal exception, and
  the last exception raised. The first argument is the number of attempts left after this one. Waiting
  between attempts has no effect on the outcome.
\<close>

fun retrying :: "nat \<Rightarrow> (exn \<Rightarrow> bool) \<Rightarrow> ('p \<Rightarrow> 'p \<times> (exn + 'a)) \<Rightarrow> 'p \<Rightarrow> 'p \<times> (exn + 'a)" where
  "retrying left fatal call s = (case call s of
     (s', Inr x) \<Rightarrow> (s', Inr x)
   | (s', Inl e) \<Rightarrow> (case left of
        0 \<Rightarrow> (s', Inl e)
      | Suc n \<Rightarrow> if fatal e then (s', Inl e) else retrying n fatal call s'))"

declare retrying.simps [simp del]

definition attempts_left :: "int \<Rightarrow> nat" where
  "attempts_left max_retries = nat (max_retries - 1)"

section \<open>Configuration\<close>

record embedding_config =
  ec_provider :: pystr
  ec_model :: pystr
  ec_api_key :: pystr
  ec_base_url :: pystr
  ec_batch_size :: int
  ec_max_retries :: int
  ec_timeout :: int
  ec_dimensions :: int
  ec_normalize :: bool
  ec_max_text_chars :: int

definition DEFAULT_EMBEDDING_URL :: pystr where
  "DEFAULT_EMBEDDING_URL = str ''https://open.bigmodel.cn/api/paas/v4''"

definition default_embedding_config :: embedding_config where
  "default_embedding_config = \<lparr>ec_provider = str ''zhipuai'', ec_model = str ''embedding-3'', ec_api_key = [],
     ec_base_url = DEFAULT_EMBEDDING_URL, ec_batch_size = 64, ec_max_retries = 3, ec_timeout = 30,
     ec_dimensions = 2048, ec_normalize = True, ec_max_text_chars = 8000\<rparr>"

definition ollama_defaults :: "embedding_config \<Rightarrow> embedding_config" where
  "ollama_defaults c =
     (let c1 = (if ec_base_url c = DEFAULT_EMBEDDING_URL
                then c\<lparr>ec_base_url := str ''http://localhost:11434/v1''\<rparr> else c);
          c2 = (if ec_model c1 = str ''embedding-3'' then c1\<lparr>ec_model := str ''bge-m3''\<rparr> else c1)
      in if ec_dimensions c2 = 2048 then c2\<lparr>ec_dimensions := 1024\<rparr> else c2)"

definition embedding_post_init :: "embedding_config \<Rightarrow> exn + embedding_config" where
  "embedding_post_init raw =
     (let c = (if ec_provider raw = str ''ollama'' then ollama_defaults raw else raw)
      in if ec_batch_size c \<le> 0 then Inl (value_error (str ''batch_size '' @ [0x5FC5, 0x987B,
        0x5927, 0x4E8E] @ str '' 0''))
         else if ec_max_retries c < 0 then Inl (value_error (str ''max_retries '' @ [0x4E0D,
           0x80FD, 0x4E3A, 0x8D1F, 0x6570]))
         else if ec_dimensions c \<le> 0 then Inl (value_error (str ''dimensions '' @ [0x5FC5,
           0x987B, 0x5927, 0x4E8E] @ str '' 0''))
         else if ec_max_text_chars c \<le> 0 then Inl (value_error (str ''max_text_chars '' @
           [0x5FC5, 0x987B, 0x5927, 0x4E8E] @ str '' 0''))
         else if ec_model c = [] then Inl (value_error (str ''model '' @ [0x4E0D, 0x80FD, 0x4E3A,
           0x7A7A]))
         else Inr c)"

section \<open>Providers\<close>

type_synonym vector = "pyfloat list"
type_synonym 'p embed_call = "'p \<Rightarrow> pystr list \<Rightarrow> 'p \<times> (exn + vector list)"

text \<open>
  The three remote providers wrap \<open>embeddings.create\<close> of their client alike: an authentication
  error of the SDK becomes \<open>EmbeddingAuthenticationError\<close>, every other one
  \<open>EmbeddingUnavailableError\<close>. \<open>auth\<close> are the names of the SDK's authentication errors.
\<close>

definition remote_embed :: "string list \<Rightarrow> 'p embed_call \<Rightarrow> 'p embed_call" where
  "remote_embed auth create s texts = (case create s texts of
     (s', Inr vs) \<Rightarrow> (s', Inr vs)
   | (s', Inl (PyException c m)) \<Rightarrow>
       (s', Inl (raise_default (if c \<in> set auth then EmbeddingAuthenticationError else EmbeddingUnavailableError)))
   | (s', Inl (APIException a)) \<Rightarrow> (s', Inl (raise_default EmbeddingUnavailableError)))"

definition openai_embed :: "'p embed_call \<Rightarrow> 'p embed_call" where
  "openai_embed create = remote_embed [''AuthenticationError''] create"

definition ollama_embed :: "'p embed_call \<Rightarrow> 'p embed_call" where
  "ollama_embed create = remote_embed [''AuthenticationError''] create"

definition zhipu_embed :: "'p embed_call \<Rightarrow> 'p embed_call" where
  "zhipu_embed create = remote_embed [''APIAuthenticationError''] create"

text \<open>The local model is loaded on the first call; the state is the loaded model.\<close>

definition load_model :: "bool \<Rightarrow> (exn + 'm) \<Rightarrow> 'm option \<times> (exn + 'm)" where
  "load_model installed make_model =
     (if \<not> installed then (None, Inl (raise_msg EmbeddingUnavailableError
        ([0x5F00, 0x6E90] @ str '' embedding '' @ [0x4F9D, 0x8D56] @
          str '' sentence-transformers'' @ [0xFF0C, 0x8BF7, 0x5B89, 0x88C5, 0x8BE5, 0x4F9D,
          0x8D56])))
      else case make_model of
             Inl e \<Rightarrow> (None, Inl (raise_default EmbeddingUnavailableError))
           | Inr m \<Rightarrow> (Some m, Inr m))"

definition opensource_embed ::
  "bool \<Rightarrow> (exn + 'm) \<Rightarrow> ('m \<Rightarrow> pystr list \<Rightarrow> exn + vector list) \<Rightarrow> 'm option embed_call" where
  "opensource_embed installed make_model encode_fn model texts =
     (case (case model of Some m \<Rightarrow> (Some m, Inr m) | None \<Rightarrow> load_model installed make_model) of
        (model', Inl e) \<Rightarrow> (model', Inl e)
      | (model', Inr m) \<Rightarrow> (model', case encode_fn m texts of
            Inl e \<Rightarrow> Inl (raise_default EmbeddingUnavailableError)
          | Inr vs \<Rightarrow> Inr vs))"

definition mock_embed :: "embedding_config \<Rightarrow> unit embed_call" where
  "mock_embed cfg s texts =
     ((), Inr (map (\<lambda>index. replicate (nat (ec_dimensions cfg)) (1 / 100 * (of_nat index + 1))) [0 ..< length texts]))"

datatype embedding_provider =
  ZhipuProvider | OpenAiProvider | OllamaProvider | OpenSourceProvider | MockProvider

definition require_api_key :: "embedding_config \<Rightarrow> pystr \<Rightarrow> exn + unit" where
  "require_api_key cfg name =
     (if ec_api_key cfg = []
      then Inl (raise_msg EmbeddingAuthenticationError
                  (name @ str '' API key '' @ [0x7F3A, 0x5931, 0xFF0C, 0x65E0, 0x6CD5, 0x542F,
                    0x52A8] @ str '' embedding '' @ [0x670D, 0x52A1]))
      else Inr ())"

definition build_embedding_provider :: "embedding_config \<Rightarrow> exn + embedding_provider" where
  "build_embedding_provider cfg =
     (if ec_provider cfg = str ''zhipuai'' then sbind (require_api_key cfg (str ''ZhipuAI'')) (\<lambda>_. Inr ZhipuProvider)
      else if ec_provider cfg = str ''openai'' then sbind (require_api_key cfg (str ''OpenAI'')) (\<lambda>_. Inr OpenAiProvider)
      else if ec_provider cfg = str ''ollama'' then Inr OllamaProvider
      else if ec_provider cfg = str ''opensource'' then Inr OpenSourceProvider
      else if ec_provider cfg = str ''mock'' then Inr MockProvider
      else Inl (raise_msg EmbeddingProviderError ([0x4E0D, 0x652F, 0x6301, 0x7684] @
        str '' embedding provider: '' @ ec_provider cfg)))"

definition validate_embedding_config :: "embedding_config \<Rightarrow> exn + unit" where
  "validate_embedding_config cfg =
     (if ec_provider cfg \<in> {str ''zhipuai'', str ''openai''} then require_api_key cfg (ec_provider cfg) else Inr ())"

section \<open>EmbeddingService\<close>

record chunk_input =
  ci_id :: pystr
  ci_resource_id :: pystr
  ci_text :: pystr

record embedding_record =
  em_chunk_id :: pystr
  em_resource_id :: pystr
  em_vector :: vector
  em_model :: pystr
  em_dimensions :: int

definition zero_vector :: "embedding_config \<Rightarrow> vector" where
  "zero_vector cfg = replicate (nat (ec_dimensions cfg)) 0"

text \<open>Batches of a positive size (the configuration admits no other).\<close>

function batches :: "nat \<Rightarrow> 'a list \<Rightarrow> 'a list list" where
  "batches n xs = (if xs = [] \<or> n = 0 then [] else take n xs # batches n (drop n xs))"
  by pat_completeness auto
termination
  by (relation "measure (\<lambda>(n, xs). length xs)") auto

declare batches.simps [simp del]

definition prepare_text :: "embedding_config \<Rightarrow> pystr \<Rightarrow> pystr" where
  "prepare_text cfg content =
     (let t = py_strip content
      in if t = [] then []
         else if ec_max_text_chars cfg < int (length t) then py_take (ec_max_text_chars cfg) t else t)"

definition is_auth_error :: "exn \<Rightarrow> bool" where
  "is_auth_error e = has_class EmbeddingAuthenticationError e"

definition embed_batch :: "'p embed_call \<Rightarrow> embedding_config \<Rightarrow> 'p embed_call" where
  "embed_batch provider cfg s texts =
     (case retrying (attempts_left (ec_max_retries cfg)) is_auth_error (\<lambda>s. provider s texts) s of
        (s', Inr vs) \<Rightarrow> (s', Inr vs)
      | (s', Inl e) \<Rightarrow> (s', if is_auth_error e then Inl e else Inl (raise_default EmbeddingUnavailableError)))"

definition normalize_vector :: "(vector \<Rightarrow> pyfloat) \<Rightarrow> vector \<Rightarrow> vector" where
  "normalize_vector nrm v = (if nrm v = 0 then v else map (\<lambda>x. x / nrm v) v)"

definition build_embedding ::
  "(vector \<Rightarrow> pyfloat) \<Rightarrow> embedding_config \<Rightarrow> chunk_input \<Rightarrow> vector \<Rightarrow> exn + embedding_record" where
  "build_embedding nrm cfg c v =
     (if int (length v) \<noteq> ec_dimensions cfg
      then Inl (raise_msg DimensionMismatchError ([0x5411, 0x91CF, 0x7EF4, 0x5EA6] @ str '' '' @
        py_str_nat (length v) @ str '' ''
              @ [0x4E0E, 0x914D, 0x7F6E] @ str '' '' @ py_str_nat (nat (ec_dimensions cfg)) @
                str '' '' @ [0x4E0D, 0x7B26]))
      else let fv = (if ec_normalize cfg then normalize_vector nrm v else v)
           in if fv = [] then Inl (PyException ''ValidationError'' (str ''Embedding''))
              else Inr \<lparr>em_chunk_id = ci_id c, em_resource_id = ci_resource_id c, em_vector = fv,
                        em_model = ec_model cfg, em_dimensions = int (length fv)\<rparr>)"

text \<open>\<open>vectors[idx] = vector\<close> for the non-empty texts, as a merge in order.\<close>

fun fill_vectors :: "vector \<Rightarrow> pystr list \<Rightarrow> vector list \<Rightarrow> vector list" where
  "fill_vectors zero [] vs = []"
| "fill_vectors zero (t # ts) vs =
     (if t = [] then zero # fill_vectors zero ts vs
      else case vs of v # vs' \<Rightarrow> v # fill_vectors zero ts vs' | [] \<Rightarrow> zero # fill_vectors zero ts [])"

definition embed_batch_with_fallback ::
  "(vector \<Rightarrow> pyfloat) \<Rightarrow> 'p embed_call \<Rightarrow> embedding_config \<Rightarrow> 'p \<Rightarrow> chunk_input list \<Rightarrow>
     'p \<times> (exn + embedding_record list)" where
  "embed_batch_with_fallback nrm provider cfg s batch =
     (let prepared = map (\<lambda>c. prepare_text cfg (ci_text c)) batch;
          non_empty = filter (\<lambda>t. t \<noteq> []) prepared;
          finish = (\<lambda>vectors. smap (\<lambda>(c, v). build_embedding nrm cfg c v)
                      (zip batch (fill_vectors (zero_vector cfg) prepared vectors)))
      in if non_empty = [] then (s, finish [])
         else case embed_batch provider cfg s non_empty of
                (s', Inl e) \<Rightarrow> (s', Inl e)
              | (s', Inr returned) \<Rightarrow>
                  (s', if length returned \<noteq> length non_empty
                       then Inl (raise_msg DimensionMismatchError
                              (str ''Embedding provider '' @ [0x8FD4, 0x56DE] @ str '' '' @
                                py_str_nat (length returned)
                               @ str '' '' @ [0x4E2A, 0x5411, 0x91CF, 0xFF0C, 0x671F, 0x671B] @
                                 str '' '' @ py_str_nat (length non_empty) @ str '' '' @ [0x4E2A]))
                       else finish returned))"

fun embed_batches ::
  "(vector \<Rightarrow> pyfloat) \<Rightarrow> 'p embed_call \<Rightarrow> embedding_config \<Rightarrow> 'p \<Rightarrow> chunk_input list list \<Rightarrow>
     'p \<times> (exn + embedding_record list)" where
  "embed_batches nrm provider cfg s [] = (s, Inr [])"
| "embed_batches nrm provider cfg s (b # bs) =
     (case embed_batch_with_fallback nrm provider cfg s b of
        (s', Inl e) \<Rightarrow> (s', Inl e)
      | (s', Inr es) \<Rightarrow>
          (case embed_batches nrm provider cfg s' bs of
             (s'', Inl e) \<Rightarrow> (s'', Inl e)
           | (s'', Inr rest) \<Rightarrow> (s'', Inr (es @ rest))))"

definition embed_chunks ::
  "(vector \<Rightarrow> pyfloat) \<Rightarrow> 'p embed_call \<Rightarrow> embedding_config \<Rightarrow> 'p \<Rightarrow> chunk_input list \<Rightarrow>
     'p \<times> (exn + embedding_record list)" where
  "embed_chunks nrm provider cfg s chunks =
     (if chunks = [] then (s, Inr [])
      else embed_batches nrm provider cfg s (batches (nat (ec_batch_size cfg)) chunks))"

definition embed_query ::
  "(vector \<Rightarrow> pyfloat) \<Rightarrow> 'p embed_call \<Rightarrow> embedding_config \<Rightarrow> 'p \<Rightarrow> pystr \<Rightarrow> 'p \<times> (exn + vector)" where
  "embed_query nrm provider cfg s content =
     (case embed_chunks nrm provider cfg s
             [\<lparr>ci_id = str ''query'', ci_resource_id = str ''query'', ci_text = content\<rparr>] of
        (s', Inl e) \<Rightarrow> (s', Inl e)
      | (s', Inr []) \<Rightarrow> (s', Inr (zero_vector cfg))
      | (s', Inr (e # es)) \<Rightarrow> (s', Inr (em_vector e)))"

section \<open>Retries: facts\<close>

lemma retrying_success: "call s = (s', Inr x) \<Longrightarrow> retrying left fatal call s = (s', Inr x)"
  by (subst retrying.simps) simp

lemma retrying_failure:
  "call s = (s', Inl e) \<Longrightarrow> retrying left fatal call s
     = (case left of 0 \<Rightarrow> (s', Inl e) | Suc n \<Rightarrow> if fatal e then (s', Inl e) else retrying n fatal call s')"
  by (subst retrying.simps) simp

text \<open>Transient failures are absorbed as long as attempts are left.\<close>

lemma retrying_transient:
  assumes "\<forall>i < n. \<exists>e. call (st i) = (st (Suc i), Inl e) \<and> \<not> fatal e"
    and "call (st n) = (s', Inr x)" "n \<le> left"
  shows "retrying left fatal call (st 0) = (s', Inr x)"
  using assms
proof (induction n arbitrary: st left)
  case (Suc n)
  then obtain m where m: "left = Suc m" by (cases left) auto
  from Suc.prems(1) obtain e where e: "call (st 0) = (st 1, Inl e)" "\<not> fatal e" by force
  from Suc.IH[of "\<lambda>i. st (Suc i)" m] Suc.prems m have "retrying m fatal call (st 1) = (s', Inr x)" by auto
  with e m show ?case by (simp add: retrying_failure)
qed (simp add: retrying_success)

text \<open>What a retried call returns is what some attempt returned.\<close>

lemma retrying_outcome: "retrying left fatal call s = (s', r) \<Longrightarrow> \<exists>s0. call s0 = (s', r)"
proof (induction left fatal call s rule: retrying.induct)
  case (1 left fatal call s)
  obtain t o1 where c: "call s = (t, o1)" by fastforce
  show ?case
  proof (cases o1)
    case (Inr x)
    with c 1(2) show ?thesis by (auto simp: retrying_success)
  next
    case (Inl e)
    with c 1 show ?thesis by (auto simp: retrying_failure split: nat.splits if_splits)
  qed
qed

lemma retrying_cong: "(\<And>s. call s = call' s) \<Longrightarrow> retrying left fatal call s = retrying left fatal call' s"
  by presburger

section \<open>The service: facts\<close>

lemma concat_batches: "0 < n \<Longrightarrow> concat (batches n xs) = xs"
  by (induction n xs rule: batches.induct) (subst batches.simps, auto)

lemma length_batches: "b \<in> set (batches n xs) \<Longrightarrow> 0 < length b \<and> length b \<le> n"
  by (induction n xs rule: batches.induct) (subst (asm) (2) batches.simps, auto split: if_splits)

text \<open>The texts the provider may be sent: stripped, not empty, within the limit.\<close>

definition sendable :: "embedding_config \<Rightarrow> pystr \<Rightarrow> bool" where
  "sendable cfg t \<longleftrightarrow> t \<noteq> [] \<and> int (length t) \<le> ec_max_text_chars cfg"

lemma prepare_text_sendable:
  "0 < ec_max_text_chars cfg \<Longrightarrow> prepare_text cfg content \<noteq> [] \<Longrightarrow> sendable cfg (prepare_text cfg content)"
  using length_py_take[of "ec_max_text_chars cfg" "py_strip content"]
  by (auto simp: prepare_text_def sendable_def Let_def)

lemma prepare_text_blank: "blank content \<Longrightarrow> prepare_text cfg content = []"
  by (simp add: prepare_text_def blank_def)

lemma normalize_zero: "v = replicate n 0 \<Longrightarrow> normalize_vector nrm v = v"
  by (simp add: normalize_vector_def)

lemma length_normalize [simp]: "length (normalize_vector nrm v) = length v"
  by (simp add: normalize_vector_def)

lemma length_fill_vectors [simp]: "length (fill_vectors zero ts vs) = length ts"
  by (induction zero ts vs rule: fill_vectors.induct) (auto split: list.splits)

lemma fill_vectors_blank: "i < length ts \<Longrightarrow> ts ! i = [] \<Longrightarrow> fill_vectors zero ts vs ! i = zero"
proof (induction zero ts vs arbitrary: i rule: fill_vectors.induct)
  case (2 zero t ts vs)
  then show ?case by (cases i; cases vs) auto
qed simp

text \<open>One embedding belongs to its chunk.\<close>

definition embeds :: "embedding_config \<Rightarrow> chunk_input \<Rightarrow> embedding_record \<Rightarrow> bool" where
  "embeds cfg c e \<longleftrightarrow> em_chunk_id e = ci_id c \<and> em_resource_id e = ci_resource_id c
     \<and> int (length (em_vector e)) = ec_dimensions cfg \<and> em_dimensions e = ec_dimensions cfg
     \<and> em_model e = ec_model cfg \<and> (blank (ci_text c) \<longrightarrow> em_vector e = zero_vector cfg)"

lemma build_embedding_embeds:
  assumes "build_embedding nrm cfg c v = Inr e" "blank (ci_text c) \<longrightarrow> v = zero_vector cfg"
  shows "embeds cfg c e"
  using assms normalize_zero[of v "nat (ec_dimensions cfg)" nrm]
  by (auto simp: build_embedding_def embeds_def Let_def zero_vector_def split: if_splits)

lemma finish_embeds:
  assumes "smap (\<lambda>(c, v). build_embedding nrm cfg c v)
      (zip batch (fill_vectors (zero_vector cfg) (map (\<lambda>c. prepare_text cfg (ci_text c)) batch) vs)) = Inr es"
  shows "list_all2 (embeds cfg) batch es"
proof -
  let ?fv = "fill_vectors (zero_vector cfg) (map (\<lambda>c. prepare_text cfg (ci_text c)) batch) vs"
  have l: "length ?fv = length batch" by simp
  have b: "blank (ci_text (batch ! i)) \<longrightarrow> ?fv ! i = zero_vector cfg" if "i < length batch" for i
    using that by (auto intro!: fill_vectors_blank simp: prepare_text_blank)
  from smap_list_all2[OF assms] have a: "list_all2 (\<lambda>(c, v) e. build_embedding nrm cfg c v = Inr e) (zip batch ?fv) es"
    by (auto elim: list_all2_mono)
  show ?thesis
  proof (rule list_all2_all_nthI)
    show "length batch = length es" using list_all2_lengthD[OF a] l by simp
  next
    fix i assume i: "i < length batch"
    from list_all2_nthD[OF a, of i] i l have "build_embedding nrm cfg (batch ! i) (?fv ! i) = Inr (es ! i)" by simp
    from build_embedding_embeds[OF this b[OF i]] show "embeds cfg (batch ! i) (es ! i)" .
  qed
qed

lemma embed_batch_with_fallback_embeds:
  "embed_batch_with_fallback nrm provider cfg s batch = (s', Inr es) \<Longrightarrow> list_all2 (embeds cfg) batch es"
  by (auto simp: embed_batch_with_fallback_def Let_def intro: finish_embeds
      split: if_splits prod.splits sum.splits)

lemma embed_batches_embeds:
  "embed_batches nrm provider cfg s bs = (s', Inr es) \<Longrightarrow> list_all2 (embeds cfg) (concat bs) es"
proof (induction bs arbitrary: s es)
  case (Cons b bs)
  then show ?case
    by (auto split: prod.splits sum.splits intro!: list_all2_appendI dest: embed_batch_with_fallback_embeds)
qed simp

text \<open>Providers that agree on sendable texts cannot be told apart.\<close>

lemma embed_batch_cong:
  assumes "\<And>s. p s texts = q s texts"
  shows "embed_batch p cfg s texts = embed_batch q cfg s texts"
  using assms by (simp add: embed_batch_def)

lemma embed_batch_with_fallback_cong:
  assumes "0 < ec_max_text_chars cfg"
    and "\<And>s ts. list_all (sendable cfg) ts \<Longrightarrow> p s ts = q s ts"
  shows "embed_batch_with_fallback nrm p cfg s batch = embed_batch_with_fallback nrm q cfg s batch"
proof -
  have "list_all (sendable cfg) (filter (\<lambda>t. t \<noteq> []) (map (\<lambda>c. prepare_text cfg (ci_text c)) batch))"
    using prepare_text_sendable[OF assms(1)] by (auto simp: list_all_iff)
  from embed_batch_cong[of p _ q cfg s, OF assms(2)[OF this]] show ?thesis
    by (simp add: embed_batch_with_fallback_def Let_def)
qed

lemma embed_batches_cong:
  assumes "0 < ec_max_text_chars cfg"
    and "\<And>s ts. list_all (sendable cfg) ts \<Longrightarrow> p s ts = q s ts"
  shows "embed_batches nrm p cfg s bs = embed_batches nrm q cfg s bs"
  by (induction bs arbitrary: s)
    (auto simp: embed_batch_with_fallback_cong[where p = p and q = q, OF assms] split: prod.splits sum.splits)

lemma post_init_positive:
  "embedding_post_init raw = Inr cfg \<Longrightarrow>
     0 < ec_batch_size cfg \<and> 0 < ec_dimensions cfg \<and> 0 < ec_max_text_chars cfg \<and> 0 \<le> ec_max_retries cfg"
  by (auto simp: embedding_post_init_def Let_def split: if_splits)

section \<open>Properties\<close>

text \<open>Embeddings belong to their chunks. For an accepted configuration, whatever the provider does,
  a successful call returns one embedding per chunk, in order, with the chunk's ids and exactly the
  configured number of dimensions; a chunk of white space gets the zero vector.\<close>

theorem embed_matches_chunks:
  assumes "embedding_post_init raw = Inr cfg" and "embed_chunks nrm provider cfg s chunks = (s', Inr es)"
  shows "list_all2 (\<lambda>c e. em_chunk_id e = ci_id c \<and> em_resource_id e = ci_resource_id c
      \<and> int (length (em_vector e)) = ec_dimensions cfg
      \<and> (blank (ci_text c) \<longrightarrow> em_vector e = zero_vector cfg)) chunks es"
proof -
  have "list_all2 (embeds cfg) chunks es"
    using assms(2) post_init_positive[OF assms(1)] embed_batches_embeds[of nrm provider cfg s]
    by (auto simp: embed_chunks_def concat_batches split: if_splits
        dest!: embed_batches_embeds)
  then show ?thesis by (rule list_all2_mono) (simp add: embeds_def)
qed

definition demo_embedding_config :: embedding_config where
  "demo_embedding_config = default_embedding_config\<lparr>ec_dimensions := 2, ec_batch_size := 1, ec_normalize := False\<rparr>"

definition demo_inputs :: "chunk_input list" where
  "demo_inputs = [\<lparr>ci_id = str ''a'', ci_resource_id = str ''r'', ci_text = str ''hello''\<rparr>,
     \<lparr>ci_id = str ''b'', ci_resource_id = str ''r'', ci_text = str '' ''\<rparr>]"

lemma demo_embedding_ok: "embedding_post_init demo_embedding_config = Inr demo_embedding_config"
  by (simp add: embedding_post_init_def demo_embedding_config_def default_embedding_config_def)

theorem embed_matches_chunks_witness:
  "\<exists>es. embed_chunks (\<lambda>_. 1) (mock_embed demo_embedding_config) demo_embedding_config () demo_inputs = ((), Inr es)
     \<and> map em_chunk_id es = [str ''a'', str ''b'']"
proof -
  obtain es where r: "embed_chunks (\<lambda>_. 1) (mock_embed demo_embedding_config) demo_embedding_config () demo_inputs
      = ((), Inr es)"
    by (simp add: embed_chunks_def demo_inputs_def demo_embedding_config_def default_embedding_config_def
        batches.simps embed_batch_with_fallback_def prepare_text_def py_strip_def is_space_def embed_batch_def
        retrying_success mock_embed_def build_embedding_def zero_vector_def Let_def)
  from embed_matches_chunks[OF demo_embedding_ok r] r show ?thesis
    by (auto simp: demo_inputs_def list_all2_Cons1)
qed

text \<open>The provider only ever sees text it can process: non-empty and at most \<open>max_text_chars\<close>
  characters. Two providers that agree on such texts give the same results and the same states.\<close>

theorem provider_sees_sendable_text:
  assumes "embedding_post_init raw = Inr cfg"
    and "\<And>s ts. list_all (sendable cfg) ts \<Longrightarrow> p s ts = q s ts"
  shows "embed_chunks nrm p cfg s chunks = embed_chunks nrm q cfg s chunks"
  using embed_batches_cong[where p = p and q = q] post_init_positive[OF assms(1)] assms(2)
  by (auto simp: embed_chunks_def)

theorem provider_sees_sendable_text_witness:
  "embed_chunks (\<lambda>_. 1) (mock_embed demo_embedding_config) demo_embedding_config () demo_inputs
     = embed_chunks (\<lambda>_. 1) (\<lambda>s ts. if [] \<in> set ts then ((), Inl (value_error []))
         else mock_embed demo_embedding_config s ts) demo_embedding_config () demo_inputs"
  by (rule provider_sees_sendable_text[OF demo_embedding_ok]) (auto simp: sendable_def list_all_iff)

text \<open>Transient failures are retried. If the provider fails fewer than \<open>max_retries\<close> times, not
  with an authentication error, and then answers, the batch succeeds with that answer.\<close>

theorem embed_batch_retries:
  assumes "\<forall>i < n. \<exists>e. provider (st i) texts = (st (Suc i), Inl e) \<and> \<not> has_class EmbeddingAuthenticationError e"
    and "provider (st n) texts = (s', Inr vs)" and "int n < ec_max_retries cfg"
  shows "embed_batch provider cfg (st 0) texts = (s', Inr vs)"
proof -
  have "n \<le> attempts_left (ec_max_retries cfg)" using assms(3) by (simp add: attempts_left_def)
  from retrying_transient[where call = "\<lambda>s. provider s texts" and fatal = is_auth_error and st = st, OF _ assms(2) this] assms(1)
  show ?thesis by (simp add: embed_batch_def is_auth_error_def)
qed

definition flaky :: "nat embed_call" where
  "flaky s texts = (Suc s, if s < 2 then Inl (raise_default EmbeddingUnavailableError) else Inr (map (\<lambda>_. [1]) texts))"

theorem embed_batch_retries_witness:
  "embed_batch flaky default_embedding_config 0 [str ''a''] = (3, Inr [[1]])"
  by (rule embed_batch_retries[where n = 2 and st = "\<lambda>i. i"])
    (auto simp: flaky_def raise_default_def default_embedding_config_def)

end
