(* ===== verification/LLM.thy ===== *)
theory LLM
  imports Embedding
begin

text \<open>
  The LLM client (\<open>app/services/llm/llm_client.py\<close>) with its request and response models: retries,
  the fallback provider, the events reported to the observer, and streams. A provider is a parameter
  that may keep state. A stream is what its consumer sees of it: the chunks it yields and the exception
  that ends it, if one does. Of an observer event the fields that depend on the call are modelled
  (neither the trace id nor the latency).
\<close>

section \<open>Models\<close>

record llm_message =
  ms_role :: pystr
  ms_content :: pystr

record llm_request =
  lr_messages :: "llm_message list"
  lr_temperature :: pyfloat
  lr_max_tokens :: int

definition message_valid :: "llm_message \<Rightarrow> bool" where
  "message_valid m \<longleftrightarrow> ms_role m \<noteq> [] \<and> ms_content m \<noteq> []"

definition validation_error :: "string \<Rightarrow> exn" where
  "validation_error name = PyException ''ValidationError'' (str name)"

text \<open>Building a request: first the messages, then the request, each with its field constraints.\<close>

definition llm_request_new :: "llm_message list \<Rightarrow> pyfloat \<Rightarrow> int \<Rightarrow> exn + llm_request" where
  "llm_request_new messages temperature max_tokens =
     (if \<not> list_all message_valid messages then Inl (validation_error ''Message'')
      else if messages = [] \<or> temperature < 0 \<or> 2 < temperature \<or> max_tokens \<le> 0
      then Inl (validation_error ''LLMRequest'')
      else Inr \<lparr>lr_messages = messages, lr_temperature = temperature, lr_max_tokens = max_tokens\<rparr>)"

record usage =
  us_prompt_tokens :: int
  us_completion_tokens :: int
  us_total_tokens :: int

record llm_response =
  lp_content :: pystr
  lp_reasoning :: "pystr option"
  lp_model :: pystr
  lp_finish_reason :: pystr
  lp_usage :: usage

record stream_chunk =
  sc_delta :: pystr
  sc_reasoning :: "pystr option"
  sc_finish :: "pystr option"

section \<open>The client\<close>

record llm_client_config =
  lc_provider :: pystr
  lc_model :: pystr
  lc_max_retries :: int

record generation_event =
  ge_provider :: pystr
  ge_model :: pystr
  ge_prompt :: pystr
  ge_completion :: pystr
  ge_input_tokens :: int
  ge_output_tokens :: int
  ge_total_tokens :: int
  ge_status :: string
  ge_error_code :: "string option"

definition request_prompt :: "llm_request \<Rightarrow> pystr" where
  "request_prompt req = py_join [10] (map (\<lambda>m. ms_role m @ str '': '' @ ms_content m) (lr_messages req))"

definition build_event ::
  "llm_client_config option \<Rightarrow> llm_request \<Rightarrow> llm_response option \<Rightarrow> pystr \<Rightarrow> string \<Rightarrow> string option \<Rightarrow> generation_event" where
  "build_event cfg req response completion status error_code =
     \<lparr>ge_provider = (case cfg of Some c \<Rightarrow> lc_provider c | None \<Rightarrow> str ''unknown''),
      ge_model = (case response of Some r \<Rightarrow> lp_model r
                  | None \<Rightarrow> (case cfg of Some c \<Rightarrow> lc_model c | None \<Rightarrow> str ''unknown'')),
      ge_prompt = request_prompt req, ge_completion = completion,
      ge_input_tokens = (case response of Some r \<Rightarrow> us_prompt_tokens (lp_usage r) | None \<Rightarrow> 0),
      ge_output_tokens = (case response of Some r \<Rightarrow> us_completion_tokens (lp_usage r) | None \<Rightarrow> 0),
      ge_total_tokens = (case response of Some r \<Rightarrow> us_total_tokens (lp_usage r) | None \<Rightarrow> 0),
      ge_status = status, ge_error_code = error_code\<rparr>"

definition retryable :: "exn \<Rightarrow> bool" where
  "retryable e \<longleftrightarrow> has_class LLMUnavailableError e \<or> has_class LLMTimeoutError e"

type_synonym 'p completion_call = "llm_request \<Rightarrow> 'p \<Rightarrow> 'p \<times> (exn + llm_response)"

text \<open>The call, its outcome and the event recorded for it.\<close>

definition complete_with_provider ::
  "llm_client_config option \<Rightarrow> 'p completion_call \<Rightarrow> llm_request \<Rightarrow> 'p \<Rightarrow>
     'p \<times> generation_event \<times> (exn + llm_response)" where
  "complete_with_provider cfg provider req s =
     (let max_retries = (case cfg of Some c \<Rightarrow> lc_max_retries c | None \<Rightarrow> 3)
      in case retrying (attempts_left max_retries) (\<lambda>e. \<not> retryable e) (provider req) s of
           (s', Inr response) \<Rightarrow>
             (s', build_event cfg req (Some response) (lp_content response) ''success'' None, Inr response)
         | (s', Inl e) \<Rightarrow>
             if is_api e then (s', build_event cfg req None [] ''error'' (Some (exn_code e)), Inl e)
             else (s', build_event cfg req None [] ''error'' (Some ''LLM_UNAVAILABLE''),
                   Inl (raise_default LLMUnavailableError)))"

definition llm_complete ::
  "llm_client_config option \<Rightarrow> 'p completion_call \<Rightarrow> 'p completion_call option \<Rightarrow> llm_request \<Rightarrow> 'p \<Rightarrow>
     'p \<times> generation_event list \<times> (exn + llm_response)" where
  "llm_complete cfg provider fallback req s =
     (case complete_with_provider cfg provider req s of
        (s', ev, Inr response) \<Rightarrow> (s', [ev], Inr response)
      | (s', ev, Inl e) \<Rightarrow>
          (case fallback of
             Some fb \<Rightarrow>
               if retryable e
               then (case complete_with_provider cfg fb req s' of (s'', ev', r) \<Rightarrow> (s'', [ev, ev'], r))
               else (s', [ev], Inl e)
           | None \<Rightarrow> (s', [ev], Inl e)))"

type_synonym llm_stream = "stream_chunk list \<times> exn option"

definition error_chunk :: stream_chunk where
  "error_chunk = \<lparr>sc_delta = [], sc_reasoning = None, sc_finish = Some (str ''error'')\<rparr>"

definition stream_failure :: "exn \<Rightarrow> bool" where
  "stream_failure e \<longleftrightarrow> retryable e \<or> has_class LLMStreamError e"

definition llm_stream_complete ::
  "llm_client_config option \<Rightarrow> (llm_request \<Rightarrow> llm_stream) \<Rightarrow> llm_request \<Rightarrow> llm_stream \<times> generation_event" where
  "llm_stream_complete cfg provider req =
     (case provider req of (chunks, stop) \<Rightarrow>
        let failed = list_ex (\<lambda>c. sc_finish c = Some (str ''error'')) chunks;
            answer = concat (map sc_delta chunks);
            ev = (\<lambda>status code. build_event cfg req None answer status code)
        in case stop of
             None \<Rightarrow> ((chunks, None), if failed then ev ''error'' (Some ''LLM_STREAM_ERROR'') else ev ''success'' None)
           | Some e \<Rightarrow>
               if stream_failure e then ((chunks @ [error_chunk], None), ev ''error'' (Some (exn_code e)))
               else ((chunks, Some e), if failed then ev ''error'' (Some ''LLM_STREAM_ERROR'') else ev ''success'' None))"

text \<open>\<open>format_sse_stream\<close>; \<open>model_dump_json\<close> is a parameter.\<close>

definition format_sse_stream :: "(stream_chunk \<Rightarrow> pystr) \<Rightarrow> llm_stream \<Rightarrow> pystr list \<times> exn option" where
  "format_sse_stream dump stream =
     (case stream of (chunks, stop) \<Rightarrow>
        (map (\<lambda>c. str ''event: message'' @ [10] @ str ''data: '' @ dump c @ [10, 10]) chunks
         @ (if stop = None then [str ''event: done'' @ [10] @ str ''data: {\"finish_reason\":\"stop\"}'' @ [10, 10]] else []),
         stop))"

section \<open>MockProvider\<close>

definition mock_complete :: "pystr \<Rightarrow> pystr \<Rightarrow> 'p completion_call" where
  "mock_complete mock_response model req s =
     (s, Inr \<lparr>lp_content = mock_response, lp_reasoning = None, lp_model = model, lp_finish_reason = str ''stop'',
              lp_usage = \<lparr>us_prompt_tokens = 0, us_completion_tokens = 0, us_total_tokens = 0\<rparr>\<rparr>)"

definition mock_stream :: "pystr list \<Rightarrow> llm_request \<Rightarrow> llm_stream" where
  "mock_stream mock_chunks req =
     (map (\<lambda>d. \<lparr>sc_delta = d, sc_reasoning = None, sc_finish = None\<rparr>)
        (if mock_chunks = [] then [str ''mock'', str '' '', str ''answer''] else mock_chunks)
      @ [\<lparr>sc_delta = [], sc_reasoning = None, sc_finish = Some (str ''stop'')\<rparr>], None)"

section \<open>Properties\<close>

lemma complete_with_provider_api:
  "complete_with_provider cfg provider req s = (s', ev, Inl e) \<Longrightarrow> is_api e \<and> ge_status ev = ''error''
     \<and> ge_error_code ev = Some (exn_code e)"
  by (auto simp: complete_with_provider_def build_event_def Let_def raise_default_def
      split: prod.splits sum.splits if_splits)

lemma complete_with_provider_ok:
  "complete_with_provider cfg provider req s = (s', ev, Inr r) \<Longrightarrow>
     ge_status ev = ''success'' \<and> ge_completion ev = lp_content r \<and> (\<exists>s0. provider req s0 = (s', Inr r))"
  by (auto simp: complete_with_provider_def build_event_def Let_def dest: retrying_outcome
      split: prod.splits sum.splits if_splits)

text \<open>C12: what a caller of \<open>complete\<close> can rely on, whatever the providers do. A failure is always an
  API error; an answer is one that a provider gave; and the last recorded event tells the outcome:
  success with the answer's text, or the code of the error raised.\<close>

theorem llm_complete_outcome:
  assumes "llm_complete cfg provider fallback req s = (s', evs, r)"
  shows "evs \<noteq> [] \<and> (case r of
      Inl e \<Rightarrow> is_api e \<and> ge_status (last evs) = ''error'' \<and> ge_error_code (last evs) = Some (exn_code e)
    | Inr a \<Rightarrow> ge_status (last evs) = ''success'' \<and> ge_completion (last evs) = lp_content a
        \<and> (\<exists>p \<in> {provider} \<union> set_option fallback. \<exists>s0. p req s0 = (s', Inr a)))"
proof -
  obtain s1 ev o1 where c: "complete_with_provider cfg provider req s = (s1, ev, o1)" by (metis prod_cases3)
  show ?thesis
  proof (cases o1)
    case (Inr a)
    with c assms complete_with_provider_ok[of cfg provider req s s1 ev a] show ?thesis
      by (auto simp: llm_complete_def)
  next
    case (Inl e)
    note api = complete_with_provider_api[OF c[unfolded Inl]]
    show ?thesis
    proof (cases "\<exists>fb. fallback = Some fb \<and> retryable e")
      case True
      then obtain fb where fb: "fallback = Some fb" "retryable e" by blast
      obtain s2 ev2 o2 where c2: "complete_with_provider cfg fb req s1 = (s2, ev2, o2)" by (metis prod_cases3)
      with c Inl fb assms have "s' = s2" "evs = [ev, ev2]" "r = o2" by (auto simp: llm_complete_def)
      with complete_with_provider_api[of cfg fb req s1 s2 ev2] complete_with_provider_ok[of cfg fb req s1 s2 ev2] c2 fb
      show ?thesis by (auto split: sum.splits)
    next
      case False
      with c Inl assms have "evs = [ev]" "r = Inl e" by (auto simp: llm_complete_def split: option.splits)
      with api show ?thesis by simp
    qed
  qed
qed

definition demo_request_llm :: llm_request where
  "demo_request_llm = \<lparr>lr_messages = [\<lparr>ms_role = str ''user'', ms_content = str ''hi''\<rparr>], lr_temperature = 1, lr_max_tokens = 9\<rparr>"

theorem llm_complete_outcome_witness:
  "\<exists>s' evs a. llm_complete None (\<lambda>_ s. (s, Inl (PyException ''OSError'' []))) (Some (mock_complete (str ''ok'') (str ''m'')))
      demo_request_llm () = (s', evs, Inr a) \<and> lp_content a = str ''ok'' \<and> ge_status (last evs) = ''success''"
proof -
  obtain s' evs a where r: "llm_complete None (\<lambda>_ s. (s, Inl (PyException ''OSError'' [])))
      (Some (mock_complete (str ''ok'') (str ''m''))) demo_request_llm () = (s', evs, Inr a)" and a: "lp_content a = str ''ok''"
    by (simp add: llm_complete_def complete_with_provider_def retrying.simps retryable_def mock_complete_def
        attempts_left_def raise_default_def numeral_2_eq_2)
  from llm_complete_outcome[OF r] r a show ?thesis by auto
qed

text \<open>The fallback model takes over. If the primary provider times out or is unavailable on every
  attempt and the fallback answers, the client answers.\<close>

theorem fallback_provider_answers:
  assumes "\<And>s. \<exists>e. provider req s = (s, Inl e) \<and> retryable e" and "fb req s = (s', Inr a)"
  shows "\<exists>evs. llm_complete cfg provider (Some fb) req s = (s', evs, Inr a)"
proof -
  have "\<exists>e. retrying n (\<lambda>e. \<not> retryable e) (provider req) s = (s, Inl e) \<and> retryable e" for n
  proof (induction n)
    case 0
    from assms(1)[of s] show ?case by (auto simp: retrying_failure)
  next
    case (Suc n)
    from assms(1)[of s] obtain e where "provider req s = (s, Inl e)" "retryable e" by blast
    with Suc show ?case by (auto simp: retrying_failure)
  qed
  then obtain e where e: "retrying (attempts_left (case cfg of Some c \<Rightarrow> lc_max_retries c | None \<Rightarrow> 3)) (\<lambda>e. \<not> retryable e)
      (provider req) s = (s, Inl e)" "retryable e" by blast
  then have "is_api e" by (auto simp: retryable_def dest: has_class_is_api)
  with e assms(2) show ?thesis
    by (simp add: llm_complete_def complete_with_provider_def Let_def retrying_success)
qed

theorem fallback_provider_answers_witness:
  "\<exists>evs. llm_complete None (\<lambda>_ s. (s, Inl (raise_default LLMTimeoutError)))
      (Some (mock_complete (str ''ok'') (str ''m''))) demo_request_llm () = ((), evs, snd (mock_complete (str ''ok'') (str ''m'') demo_request_llm ()))"
  unfolding mock_complete_def snd_conv
  by (rule fallback_provider_answers) (simp_all add: raise_default_def retryable_def)

text \<open>A broken stream still ends as a stream. Whatever the provider yields before it fails with one
  of the LLM errors is passed on in order, followed by one chunk that says \<open>error\<close>, and no exception
  escapes; the observer gets the text received so far.\<close>

theorem broken_stream_is_closed:
  assumes "provider req = (chunks, Some e)" and "stream_failure e"
  shows "\<exists>ev. llm_stream_complete cfg provider req = ((chunks @ [error_chunk], None), ev)
    \<and> ge_completion ev = concat (map sc_delta chunks) \<and> ge_error_code ev = Some (exn_code e)"
  using assms by (simp add: llm_stream_complete_def build_event_def Let_def)

theorem broken_stream_is_closed_witness:
  "\<exists>ev. llm_stream_complete None (\<lambda>_. ([\<lparr>sc_delta = str ''a'', sc_reasoning = None, sc_finish = None\<rparr>],
        Some (raise_default LLMStreamError))) demo_request_llm
      = (([\<lparr>sc_delta = str ''a'', sc_reasoning = None, sc_finish = None\<rparr>] @ [error_chunk], None), ev)
    \<and> ge_completion ev = str ''a''"
  using broken_stream_is_closed[of "\<lambda>_. ([\<lparr>sc_delta = str ''a'', sc_reasoning = None, sc_finish = None\<rparr>],
      Some (raise_default LLMStreamError))" demo_request_llm "[\<lparr>sc_delta = str ''a'', sc_reasoning = None, sc_finish = None\<rparr>]"
      "raise_default LLMStreamError" None]
  by (auto simp: stream_failure_def raise_default_def)

end
