(* ===== verification/Vector_Store.thy ===== *)
theory Vector_Store
  imports Search_Types Py_Values Embedding
begin

text \<open>
  The vector stores (\<open>app/vector_store\<close>): configuration checks, \<open>ChromaStore\<close>,
  \<open>MilvusStore\<close> and the factory with its fallback. The database clients are parameters: records
  of the calls the stores make, over a client state. Filters, record conversions, score normalization,
  retries, limits and error translation are the source's own.
\<close>

section \<open>Configuration and records\<close>

record vector_store_config =
  vc_provider :: pystr
  vc_collection_name :: pystr
  vc_uri :: pystr
  vc_fallback_provider :: pystr
  vc_dimensions :: int
  vc_metric_type :: pystr
  vc_max_retries :: int

definition top_k_limit :: int where
  "top_k_limit = 100"

definition store_post_init :: "vector_store_config \<Rightarrow> exn + vector_store_config" where
  "store_post_init c =
     (if vc_dimensions c \<le> 0 then Inl (value_error (str ''dimensions '' @ [0x5FC5, 0x987B,
       0x5927, 0x4E8E] @ str '' 0''))
      else if vc_max_retries c < 0 then Inl (value_error (str ''max_retries '' @ [0x4E0D, 0x80FD,
        0x4E3A, 0x8D1F, 0x6570]))
      else if top_k_limit \<le> 0 then Inl (value_error (str ''top_k_limit '' @ [0x5FC5, 0x987B,
        0x5927, 0x4E8E] @ str '' 0''))
      else Inr c)"

record vector_record =
  ve_id :: pystr
  ve_resource_id :: pystr
  ve_user_id :: pystr
  ve_text :: pystr
  ve_vector :: vector
  ve_metadata :: pydict
  ve_created_at :: int

text \<open>
  The filter dictionary of \<open>search\<close> and \<open>query\<close>: each key may be absent, and the resource keys
  may hold one id or a list.
\<close>

datatype id_filter = OneId pystr | ManyIds "pystr list"

record store_filter =
  sf_resource_ids :: "id_filter option"
  sf_resource_id :: "id_filter option"
  sf_user_id :: "pystr option"

text \<open>What the retrieval services pass.\<close>

definition store_filter_of :: "scope_filter \<Rightarrow> store_filter" where
  "store_filter_of f = \<lparr>sf_resource_ids = Some (ManyIds (f_resource_ids f)), sf_resource_id = None,
     sf_user_id = Some (f_user_id f)\<rparr>"

definition wanted_ids :: "store_filter \<Rightarrow> id_filter option" where
  "wanted_ids f = (case sf_resource_ids f of Some ids \<Rightarrow> Some ids | None \<Rightarrow> sf_resource_id f)"

section \<open>ChromaStore\<close>

datatype where_clause =
    WEq pystr pystr
  | WAnd "where_clause list"
  | WOr "where_clause list"

definition RESERVED_KEYS :: "pystr list" where
  "RESERVED_KEYS = [str ''resource_id'', str ''user_id'', str ''created_at'']"

definition record_to_chroma_metadata :: "vector_record \<Rightarrow> pydict" where
  "record_to_chroma_metadata r = dict_merge
     [(str ''resource_id'', PStr (ve_resource_id r)), (str ''user_id'', PStr (ve_user_id r)),
      (str ''created_at'', PInt (ve_created_at r))] (ve_metadata r)"

definition chroma_resource_filter :: "pystr \<Rightarrow> pystr option \<Rightarrow> where_clause" where
  "chroma_resource_filter resource_id user_id = (case user_id of
     Some u \<Rightarrow> WAnd [WEq (str ''resource_id'') resource_id, WEq (str ''user_id'') u]
   | None \<Rightarrow> WEq (str ''resource_id'') resource_id)"

definition chroma_resource_id_filter :: "id_filter option \<Rightarrow> where_clause option" where
  "chroma_resource_id_filter ids = (case ids of
     None \<Rightarrow> None
   | Some (OneId r) \<Rightarrow> Some (WEq (str ''resource_id'') r)
   | Some (ManyIds rs) \<Rightarrow> Some (case rs of
        [] \<Rightarrow> WEq (str ''resource_id'') []
      | [r] \<Rightarrow> WEq (str ''resource_id'') r
      | _ \<Rightarrow> WOr (map (WEq (str ''resource_id'')) rs)))"

definition chroma_search_filter :: "store_filter \<Rightarrow> where_clause option" where
  "chroma_search_filter f =
     (let clauses = (case chroma_resource_id_filter (wanted_ids f) of Some c \<Rightarrow> [c] | None \<Rightarrow> [])
                  @ (case sf_user_id f of Some u \<Rightarrow> [WEq (str ''user_id'') u] | None \<Rightarrow> [])
      in case clauses of [] \<Rightarrow> None | [c] \<Rightarrow> Some c | cs \<Rightarrow> Some (WAnd cs))"

definition chroma_distance_to_score :: "pyfloat option \<Rightarrow> pyfloat" where
  "chroma_distance_to_score d = (case d of None \<Rightarrow> 0 | Some x \<Rightarrow> max 0 (1 - x))"

text \<open>
  The answers of a collection: parallel lists, for \<open>query\<close> one list per query vector. An absent
  list and an empty one are the same to the source (\<open>get(...) or \<dots>\<close>).
\<close>

record chroma_rows =
  cw_ids :: "pystr list"
  cw_metadatas :: "pydict option list"
  cw_documents :: "pystr option list"
  cw_distances :: "pyfloat option list"

record 'c chroma_client =
  cc_upsert :: "'c \<Rightarrow> (pystr \<times> vector \<times> pydict \<times> pystr) list \<Rightarrow> 'c \<times> (exn + unit)"
  cc_delete :: "'c \<Rightarrow> where_clause \<Rightarrow> 'c \<times> (exn + unit)"
  cc_count :: "'c \<Rightarrow> exn + int"
  cc_query :: "'c \<Rightarrow> vector \<Rightarrow> int \<Rightarrow> where_clause option \<Rightarrow> exn + chroma_rows"
  cc_get :: "'c \<Rightarrow> where_clause option \<Rightarrow> int \<Rightarrow> exn + chroma_rows"

definition unavailable :: "pystr \<Rightarrow> exn + 'a \<Rightarrow> exn + 'a" where
  "unavailable msg r = (case r of Inl e \<Rightarrow> Inl (raise_msg VectorStoreUnavailableError msg) | Inr x \<Rightarrow> Inr x)"

definition chroma_upsert :: "'c chroma_client \<Rightarrow> 'c \<Rightarrow> vector_record list \<Rightarrow> 'c \<times> (exn + int)" where
  "chroma_upsert cl s records =
     (if records = [] then (s, Inr 0)
      else case cc_upsert cl s (map (\<lambda>r. (ve_id r, ve_vector r, record_to_chroma_metadata r, ve_text r)) records) of
             (s', r) \<Rightarrow> (s', sbind (unavailable (str ''Chroma '' @ [0x5199, 0x5165,
               0x5931, 0x8D25]) r) (\<lambda>_. Inr (int (length records)))))"

definition chroma_delete_by_resource ::
  "'c chroma_client \<Rightarrow> 'c \<Rightarrow> pystr \<Rightarrow> pystr option \<Rightarrow> 'c \<times> (exn + int)" where
  "chroma_delete_by_resource cl s resource_id user_id =
     (case cc_count cl s of
        Inl e \<Rightarrow> (s, Inl e)
      | Inr before \<Rightarrow>
          (case cc_delete cl s (chroma_resource_filter resource_id user_id) of
             (s', r) \<Rightarrow> (s', sbind (unavailable (str ''Chroma '' @ [0x5220, 0x9664,
               0x5931, 0x8D25]) r) (\<lambda>_.
                sbind (cc_count cl s') (\<lambda>after. Inr (max 0 (before - after)))))))"

definition get_str :: "(pyval \<Rightarrow> pystr) \<Rightarrow> pydict \<Rightarrow> string \<Rightarrow> pystr" where
  "get_str rp d k = (case dict_get d k of Some v \<Rightarrow> str_of_val rp v | None \<Rightarrow> [])"

definition get_int0 :: "pydict \<Rightarrow> string \<Rightarrow> exn + int" where
  "get_int0 d k = (case dict_get d k of Some v \<Rightarrow> int_of_val v | None \<Rightarrow> Inr 0)"

definition chroma_result ::
  "(pyval \<Rightarrow> pystr) \<Rightarrow> pystr \<Rightarrow> pydict \<Rightarrow> pystr option \<Rightarrow> pyfloat \<Rightarrow> exn + vector_search_result" where
  "chroma_result rp rid md doc score =
     sbind (get_int0 md ''created_at'') (\<lambda>created.
       Inr \<lparr>vr_id = rid, vr_resource_id = get_str rp md ''resource_id'', vr_user_id = get_str rp md ''user_id'',
            vr_text = (case doc of Some d \<Rightarrow> d | None \<Rightarrow> []),
            vr_metadata = filter (\<lambda>(k, v). k \<notin> set RESERVED_KEYS) md,
            vr_score = score, vr_created_at = created\<rparr>)"

text \<open>The loop over the zipped lists, which skips rows without metadata.\<close>

fun chroma_results ::
  "(pyval \<Rightarrow> pystr) \<Rightarrow> (pystr \<times> pydict option \<times> pystr option \<times> pyfloat) list \<Rightarrow> exn + vector_search_result list" where
  "chroma_results rp [] = Inr []"
| "chroma_results rp ((rid, None, doc, score) # rows) = chroma_results rp rows"
| "chroma_results rp ((rid, Some md, doc, score) # rows) =
     sbind (chroma_result rp rid md doc score) (\<lambda>r. sbind (chroma_results rp rows) (\<lambda>rs. Inr (r # rs)))"

definition chroma_search ::
  "(pyval \<Rightarrow> pystr) \<Rightarrow> 'c chroma_client \<Rightarrow> 'c \<Rightarrow> vector \<Rightarrow> int \<Rightarrow> store_filter \<Rightarrow> exn + vector_search_result list" where
  "chroma_search rp cl s v top_k f =
     sbind (unavailable (str ''Chroma '' @ [0x641C, 0x7D22, 0x5931, 0x8D25])
              (cc_query cl s v (min top_k top_k_limit) (chroma_search_filter f))) (\<lambda>rows.
       chroma_results rp (zip (cw_ids rows) (zip (cw_metadatas rows) (zip (cw_documents rows)
         (map chroma_distance_to_score (cw_distances rows))))))"

definition chroma_query ::
  "(pyval \<Rightarrow> pystr) \<Rightarrow> 'c chroma_client \<Rightarrow> 'c \<Rightarrow> store_filter \<Rightarrow> int \<Rightarrow> exn + vector_search_result list" where
  "chroma_query rp cl s f limit =
     sbind (unavailable (str ''Chroma '' @ [0x67E5, 0x8BE2, 0x5931, 0x8D25])
              (cc_get cl s (chroma_search_filter f) (min limit top_k_limit))) (\<lambda>rows.
       chroma_results rp (map (\<lambda>(rid, md, doc). (rid, md, doc, 0))
         (zip (cw_ids rows) (zip (cw_metadatas rows) (cw_documents rows)))))"

section \<open>MilvusStore\<close>

definition TEXT_MAX_LENGTH :: nat where
  "TEXT_MAX_LENGTH = 4096"

definition record_to_milvus :: "vector_record \<Rightarrow> vector_record" where
  "record_to_milvus r = r\<lparr>ve_text := take TEXT_MAX_LENGTH (ve_text r)\<rparr>"

text \<open>\<open>value.replace("'", "''")\<close> and a quoted literal.\<close>

definition escape_expr :: "pystr \<Rightarrow> pystr" where
  "escape_expr v = concat (map (\<lambda>c. if c = 39 then [39, 39] else [c]) v)"

definition quoted :: "pystr \<Rightarrow> pystr" where
  "quoted v = [39] @ escape_expr v @ [39]"

definition milvus_resource_filter :: "pystr \<Rightarrow> pystr option \<Rightarrow> pystr" where
  "milvus_resource_filter resource_id user_id =
     (case user_id of
        Some u \<Rightarrow> if u \<noteq> [] then str ''resource_id == '' @ quoted resource_id @ str '' && user_id == '' @ quoted u
                  else str ''resource_id == '' @ quoted resource_id
      | None \<Rightarrow> str ''resource_id == '' @ quoted resource_id)"

definition milvus_resource_id_filter :: "id_filter option \<Rightarrow> pystr" where
  "milvus_resource_id_filter ids = (case ids of
     None \<Rightarrow> []
   | Some (OneId r) \<Rightarrow> str ''resource_id == '' @ quoted r
   | Some (ManyIds rs) \<Rightarrow> (case rs of
        [] \<Rightarrow> str ''resource_id == '' @ quoted []
      | [r] \<Rightarrow> str ''resource_id == '' @ quoted r
      | _ \<Rightarrow> str ''resource_id in ['' @ py_join (str '', '') (map quoted rs) @ str '']''))"

definition milvus_search_filter :: "store_filter \<Rightarrow> pystr" where
  "milvus_search_filter f =
     (let rf = milvus_resource_id_filter (wanted_ids f);
          clauses = (if rf \<noteq> [] then [rf] else [])
                  @ (case sf_user_id f of Some u \<Rightarrow> [str ''user_id == '' @ quoted u] | None \<Rightarrow> [])
      in py_join (str '' && '') clauses)"

text \<open>
  \<open>str.upper\<close> as far as the comparison with the metric names needs it: the ASCII letters, and the
  dotless i (U+0131), whose capital is ASCII.
\<close>

definition upper_ascii :: "pystr \<Rightarrow> pystr" where
  "upper_ascii s = map (\<lambda>c. if 97 \<le> c \<and> c \<le> 122 then c - 32 else if c = 305 then 73 else c) s"

definition milvus_distance_to_score :: "pyfloat \<Rightarrow> pystr \<Rightarrow> exn + pyfloat" where
  "milvus_distance_to_score d metric_type =
     (if upper_ascii metric_type = str ''L2''
      then if 1 + d = 0 then Inl (PyException ''ZeroDivisionError'' (str ''float division by zero''))
           else Inr (1 / (1 + d))
      else if upper_ascii metric_type = str ''IP'' then Inr (max 0 (- d))
      else Inr (1 - d))"

text \<open>A row: the fields the source reads, each of which may be absent.\<close>

record milvus_row =
  mr_id :: "pyval option"
  mr_resource_id :: "pyval option"
  mr_user_id :: "pyval option"
  mr_text :: "pyval option"
  mr_metadata :: "pydict option"
  mr_created_at :: "pyval option"

definition field_str :: "(pyval \<Rightarrow> pystr) \<Rightarrow> pyval option \<Rightarrow> pystr" where
  "field_str rp v = (case v of Some x \<Rightarrow> str_of_val rp x | None \<Rightarrow> [])"

definition row_result :: "(pyval \<Rightarrow> pystr) \<Rightarrow> milvus_row \<Rightarrow> pystr \<Rightarrow> pyfloat \<Rightarrow> exn + vector_search_result" where
  "row_result rp row rid score =
     sbind (case mr_created_at row of Some v \<Rightarrow> int_of_val v | None \<Rightarrow> Inr 0) (\<lambda>created.
       Inr \<lparr>vr_id = rid, vr_resource_id = field_str rp (mr_resource_id row),
            vr_user_id = field_str rp (mr_user_id row), vr_text = field_str rp (mr_text row),
            vr_metadata = (case mr_metadata row of Some d \<Rightarrow> d | None \<Rightarrow> []),
            vr_score = score, vr_created_at = created\<rparr>)"

definition hit_to_result ::
  "(pyval \<Rightarrow> pystr) \<Rightarrow> pystr \<Rightarrow> milvus_row \<times> pyfloat \<Rightarrow> exn + vector_search_result" where
  "hit_to_result rp metric_type = (\<lambda>(row, d).
     (case mr_id row of
        None \<Rightarrow> Inl (key_error (str ''id''))
      | Some i \<Rightarrow> sbind (milvus_distance_to_score d metric_type) (row_result rp row (str_of_val rp i))))"

definition query_row_to_result :: "(pyval \<Rightarrow> pystr) \<Rightarrow> milvus_row \<Rightarrow> exn + vector_search_result" where
  "query_row_to_result rp row = row_result rp row (field_str rp (mr_id row)) 0"

text \<open>The two shapes of the answer to a delete: a list of ids, or a dictionary with a count.\<close>

datatype delete_reply = DeletedIds "pyval list" | DeletedCount "int option"

record 'c milvus_client =
  mc_upsert :: "'c \<Rightarrow> vector_record list \<Rightarrow> 'c \<times> (exn + int option)"
  mc_delete :: "'c \<Rightarrow> pystr \<Rightarrow> 'c \<times> (exn + delete_reply)"
  mc_search :: "vector \<Rightarrow> int \<Rightarrow> pystr \<Rightarrow> 'c \<Rightarrow> 'c \<times> (exn + (milvus_row \<times> pyfloat) list)"
  mc_query :: "pystr \<Rightarrow> int \<Rightarrow> 'c \<Rightarrow> 'c \<times> (exn + milvus_row list)"
  mc_has_collection :: "'c \<Rightarrow> exn + bool"
  mc_vector_dim :: "'c \<Rightarrow> exn + int option option"
  mc_create :: "pystr \<Rightarrow> 'c \<Rightarrow> 'c \<times> (exn + unit)"

definition with_retry :: "vector_store_config \<Rightarrow> ('c \<Rightarrow> 'c \<times> (exn + 'a)) \<Rightarrow> 'c \<Rightarrow> 'c \<times> (exn + 'a)" where
  "with_retry cfg call s =
     (case retrying (attempts_left (vc_max_retries cfg)) (\<lambda>_. False) call s of
        (s', Inr x) \<Rightarrow> (s', Inr x)
      | (s', Inl e) \<Rightarrow> (s', if has_class VectorStoreConfigError e then Inl e
            else Inl (raise_msg VectorStoreUnavailableError (str ''Milvus '' @ [0x64CD, 0x4F5C,
              0x5931, 0x8D25, 0xFF0C, 0x8BF7, 0x91CD, 0x8BD5]))))"

definition then_ok :: "'c \<times> (exn + 'a) \<Rightarrow> ('a \<Rightarrow> exn + 'b) \<Rightarrow> 'c \<times> (exn + 'b)" where
  "then_ok r f = (case r of (s, x) \<Rightarrow> (s, sbind x f))"

definition milvus_upsert ::
  "'c milvus_client \<Rightarrow> vector_store_config \<Rightarrow> 'c \<Rightarrow> vector_record list \<Rightarrow> 'c \<times> (exn + int)" where
  "milvus_upsert cl cfg s records =
     (if records = [] then (s, Inr 0)
      else then_ok (with_retry cfg (\<lambda>s. mc_upsert cl s (map record_to_milvus records)) s)
             (\<lambda>n. Inr (case n of Some k \<Rightarrow> k | None \<Rightarrow> int (length records))))"

definition milvus_delete_by_resource ::
  "'c milvus_client \<Rightarrow> vector_store_config \<Rightarrow> 'c \<Rightarrow> pystr \<Rightarrow> pystr option \<Rightarrow> 'c \<times> (exn + int)" where
  "milvus_delete_by_resource cl cfg s resource_id user_id =
     then_ok (with_retry cfg (\<lambda>s. mc_delete cl s (milvus_resource_filter resource_id user_id)) s)
       (\<lambda>reply. Inr (case reply of
            DeletedIds ids \<Rightarrow> int (length ids)
          | DeletedCount n \<Rightarrow> (case n of Some k \<Rightarrow> k | None \<Rightarrow> 0)))"

definition milvus_search ::
  "(pyval \<Rightarrow> pystr) \<Rightarrow> 'c milvus_client \<Rightarrow> vector_store_config \<Rightarrow> 'c \<Rightarrow> vector \<Rightarrow> int \<Rightarrow> store_filter \<Rightarrow>
     'c \<times> (exn + vector_search_result list)" where
  "milvus_search rp cl cfg s v top_k f =
     then_ok (with_retry cfg (mc_search cl v (min top_k top_k_limit) (milvus_search_filter f)) s)
       (smap (hit_to_result rp (vc_metric_type cfg)))"

definition milvus_query ::
  "(pyval \<Rightarrow> pystr) \<Rightarrow> 'c milvus_client \<Rightarrow> vector_store_config \<Rightarrow> 'c \<Rightarrow> store_filter \<Rightarrow> int \<Rightarrow>
     'c \<times> (exn + vector_search_result list)" where
  "milvus_query rp cl cfg s f limit =
     then_ok (with_retry cfg (mc_query cl (milvus_search_filter f) (min limit top_k_limit)) s)
       (smap (query_row_to_result rp))"

text \<open>
  \<open>_is_local_milvus_uri\<close> with the path arithmetic of \<open>pathlib\<close>: the last proper component and
  its suffix.
\<close>

definition starts_with :: "pystr \<Rightarrow> pystr \<Rightarrow> bool" where
  "starts_with s p \<longleftrightarrow> prefix p s"

definition path_name :: "pystr \<Rightarrow> pystr" where
  "path_name p = (case rev (filter (\<lambda>c. c \<noteq> [] \<and> c \<noteq> str ''.'') (py_split [47] p)) of [] \<Rightarrow> [] | c # _ \<Rightarrow> c)"

definition path_suffix :: "pystr \<Rightarrow> pystr" where
  "path_suffix p =
     (let n = path_name p; tail_rev = takeWhile (\<lambda>c. c \<noteq> 46) (rev n)
      in if length tail_rev = length n \<or> tail_rev = [] \<or> length tail_rev + 1 = length n then []
         else 46 # rev tail_rev)"

definition is_local_milvus_uri :: "pystr \<Rightarrow> bool" where
  "is_local_milvus_uri uri =
     (if list_ex (starts_with uri) [str ''http://'', str ''https://'', str ''tcp://'', str ''unix://''] then False
      else path_suffix uri = str ''.db'' \<or> \<not> starts_with uri (str ''/''))"

definition default_index_type :: "vector_store_config \<Rightarrow> pystr" where
  "default_index_type cfg = (if is_local_milvus_uri (vc_uri cfg) then str ''AUTOINDEX'' else str ''HNSW'')"

definition validate_collection_dimension :: "'c milvus_client \<Rightarrow> vector_store_config \<Rightarrow> 'c \<Rightarrow> exn + unit" where
  "validate_collection_dimension cl cfg s =
     sbind (mc_vector_dim cl s) (\<lambda>field. case field of
       None \<Rightarrow> Inl (raise_msg VectorStoreConfigError (str ''Collection '' @
         vc_collection_name cfg @ str '' '' @ [0x7F3A, 0x5C11] @ str '' vector '' @ [0x5B57,
         0x6BB5]))
     | Some actual_dim \<Rightarrow>
         if actual_dim \<noteq> Some (vc_dimensions cfg)
         then Inl (raise_msg VectorStoreConfigError (str ''Collection '' @ vc_collection_name cfg @
           str '' '' @ [0x7EF4, 0x5EA6] @ str '' ''
                @
                  (case actual_dim of Some d \<Rightarrow> str_of_int d | None \<Rightarrow> str ''None'') @
                  str '' '' @ [0x4E0E, 0x914D, 0x7F6E] @ str '' ''
                @ str_of_int (vc_dimensions cfg) @ str '' '' @ [0x4E0D, 0x7B26]))
         else Inr ())"

text \<open>\<open>milvus\<close> recognises the exceptions of class \<open>MilvusException\<close> and gives their message.\<close>

definition ensure_collection ::
  "(exn \<Rightarrow> pystr option) \<Rightarrow> 'c milvus_client \<Rightarrow> vector_store_config \<Rightarrow> 'c \<Rightarrow> 'c \<times> (exn + unit)" where
  "ensure_collection milvus cl cfg s =
     (case mc_has_collection cl s of
        Inl e \<Rightarrow> (s, Inl e)
      | Inr True \<Rightarrow> (s, validate_collection_dimension cl cfg s)
      | Inr False \<Rightarrow>
          (case mc_create cl (default_index_type cfg) s of
             (s', Inr u) \<Rightarrow> (s', Inr u)
           | (s', Inl e) \<Rightarrow>
               (case milvus e of
                  None \<Rightarrow> (s', Inl e)
                | Some msg \<Rightarrow>
                    if py_contains (str ''HNSW'') msg \<or> py_contains (str ''local mode'') (py_lower msg)
                    then mc_create cl (str ''AUTOINDEX'') s'
                    else (s', Inl e))))"

section \<open>Factory\<close>

datatype store_kind = ChromaKind | MilvusKind

definition build_primary :: "(store_kind \<Rightarrow> vector_store_config \<Rightarrow> exn + 's) \<Rightarrow> vector_store_config \<Rightarrow> exn + 's" where
  "build_primary mk cfg = mk (if vc_provider cfg = str ''chroma'' then ChromaKind else MilvusKind) cfg"

definition build_fallback :: "(store_kind \<Rightarrow> vector_store_config \<Rightarrow> exn + 's) \<Rightarrow> vector_store_config \<Rightarrow> exn + 's" where
  "build_fallback mk cfg =
     (if vc_fallback_provider cfg = str ''chroma'' then mk ChromaKind (cfg\<lparr>vc_provider := str ''chroma''\<rparr>)
      else if vc_fallback_provider cfg = str ''milvus'' then mk MilvusKind (cfg\<lparr>vc_provider := str ''milvus''\<rparr>)
      else Inl (raise_msg VectorStoreConfigError
                  ([0x4E0D, 0x652F, 0x6301, 0x7684] @ str '' fallback vector store provider: '' @
                    vc_fallback_provider cfg)))"

definition build_vector_store ::
  "(store_kind \<Rightarrow> vector_store_config \<Rightarrow> exn + 's) \<Rightarrow> vector_store_config \<Rightarrow> bool \<Rightarrow> exn + 's" where
  "build_vector_store mk cfg allow_fallback =
     (if vc_provider cfg \<notin> {str ''milvus'', str ''chroma''}
      then Inl (raise_msg VectorStoreConfigError ([0x4E0D, 0x652F, 0x6301, 0x7684] @
        str '' vector store provider: '' @ vc_provider cfg))
      else case build_primary mk cfg of
             Inr st \<Rightarrow> Inr st
           | Inl e \<Rightarrow> if \<not> allow_fallback \<or> vc_provider cfg = vc_fallback_provider cfg then Inl e
                      else build_fallback mk cfg)"

section \<open>What a Chroma filter means\<close>

text \<open>
  The documented meaning of a \<open>where\<close> clause: equality of a metadata field, conjunction,
  disjunction.
\<close>

fun where_holds :: "where_clause \<Rightarrow> pydict \<Rightarrow> bool" where
  "where_holds (WEq k v) md \<longleftrightarrow> map_of md k = Some (PStr v)"
| "where_holds (WAnd cs) md \<longleftrightarrow> list_all (\<lambda>c. where_holds c md) cs"
| "where_holds (WOr cs) md \<longleftrightarrow> list_ex (\<lambda>c. where_holds c md) cs"

lemma where_scope:
  "\<exists>w. chroma_search_filter (store_filter_of f) = Some w
     \<and> (\<forall>md. where_holds w md \<longleftrightarrow> map_of md (str ''user_id'') = Some (PStr (f_user_id f))
        \<and> (\<exists>r \<in> set (if f_resource_ids f = [] then [[]] else f_resource_ids f).
             map_of md (str ''resource_id'') = Some (PStr r)))"
proof -
  consider "f_resource_ids f = []" | r where "f_resource_ids f = [r]"
    | r r' rs where "f_resource_ids f = r # r' # rs" by (metis list.exhaust)
  then show ?thesis
    by cases (auto simp: chroma_search_filter_def chroma_resource_id_filter_def store_filter_of_def
        wanted_ids_def Let_def list_ex_iff)
qed

lemma chroma_results_in:
  "chroma_results rp rows = Inr rs \<Longrightarrow> r \<in> set rs \<Longrightarrow>
     \<exists>rid md doc score. (rid, Some md, doc, score) \<in> set rows \<and> chroma_result rp rid md doc score = Inr r"
  by (induction rp rows arbitrary: rs rule: chroma_results.induct) (auto simp: sbind_Inr_iff, blast+)

lemma chroma_results_length: "chroma_results rp rows = Inr rs \<Longrightarrow> length rs \<le> length rows"
  by (induction rp rows arbitrary: rs rule: chroma_results.induct) (auto simp: sbind_Inr_iff)

lemma chroma_result_fields:
  assumes "chroma_result rp rid md doc score = Inr r"
  shows "vr_id r = rid" "vr_score r = score"
    "map_of md (str k) = Some (PStr v) \<Longrightarrow> get_str rp md k = v"
    "vr_user_id r = get_str rp md ''user_id''" "vr_resource_id r = get_str rp md ''resource_id''"
  using assms by (auto simp: chroma_result_def sbind_Inr_iff get_str_def dict_get_def)

lemma map_of_filter_keys: "P k \<Longrightarrow> map_of (filter (\<lambda>(k, v). P k) d) k = map_of d k"
  by (induction d) auto

section \<open>Properties\<close>

text \<open>The Chroma store enforces the scope. If the collection honours its documented filter (every
  row it returns satisfies the \<open>where\<close> clause), a search for a scope with at least one resource
  returns only chunks of the user and of the named resources, with scores that are not negative.\<close>

theorem chroma_search_scoped:
  assumes "chroma_search rp cl s v k (store_filter_of f) = Inr rs" and "f_resource_ids f \<noteq> []"
    and honours: "\<And>n w rows md. cc_query cl s v n (Some w) = Inr rows \<Longrightarrow> Some md \<in> set (cw_metadatas rows)
      \<Longrightarrow> where_holds w md"
    and "r \<in> set rs"
  shows "vr_user_id r = f_user_id f \<and> vr_resource_id r \<in> set (f_resource_ids f) \<and> 0 \<le> vr_score r"
proof -
  obtain w where w: "chroma_search_filter (store_filter_of f) = Some w"
    and sem: "\<And>md. where_holds w md \<longleftrightarrow> map_of md (str ''user_id'') = Some (PStr (f_user_id f))
        \<and> (\<exists>r \<in> set (f_resource_ids f). map_of md (str ''resource_id'') = Some (PStr r))"
    using where_scope[of f] assms(2) by auto
  from assms(1) obtain rows where q: "cc_query cl s v (min k top_k_limit) (Some w) = Inr rows"
    and rs: "chroma_results rp (zip (cw_ids rows) (zip (cw_metadatas rows) (zip (cw_documents rows)
         (map chroma_distance_to_score (cw_distances rows))))) = Inr rs"
    by (auto simp: chroma_search_def w unavailable_def sbind_Inr_iff split: sum.splits)
  from chroma_results_in[OF rs assms(4)] obtain rid md doc score where
    row: "(rid, Some md, doc, score) \<in> set (zip (cw_ids rows) (zip (cw_metadatas rows) (zip (cw_documents rows)
         (map chroma_distance_to_score (cw_distances rows)))))"
    and r: "chroma_result rp rid md doc score = Inr r" by blast
  from row have "Some md \<in> set (cw_metadatas rows)" "score \<in> set (map chroma_distance_to_score (cw_distances rows))"
    by (meson in_set_zipE)+
  moreover have "0 \<le> chroma_distance_to_score d" for d by (simp add: chroma_distance_to_score_def split: option.split)
  ultimately have "where_holds w md" "0 \<le> score" using honours[OF q] by auto
  with sem chroma_result_fields[OF r] show ?thesis by force
qed

definition demo_rows :: chroma_rows where
  "demo_rows = \<lparr>cw_ids = [str ''r1-0''], cw_metadatas = [Some [(str ''resource_id'', PStr (str ''r1'')),
     (str ''user_id'', PStr (str ''u1'')), (str ''page'', PInt 3)]],
     cw_documents = [Some (str ''text'')], cw_distances = [Some (1 / 4)]\<rparr>"

text \<open>A collection of that one row, which filters.\<close>

definition demo_chroma :: "unit chroma_client" where
  "demo_chroma = \<lparr>cc_upsert = (\<lambda>s _. (s, Inr ())), cc_delete = (\<lambda>s _. (s, Inr ())), cc_count = (\<lambda>_. Inr 1),
     cc_query = (\<lambda>_ _ _ w. case w of Some c \<Rightarrow>
        if where_holds c [(str ''resource_id'', PStr (str ''r1'')), (str ''user_id'', PStr (str ''u1'')), (str ''page'', PInt 3)]
        then Inr demo_rows else Inr \<lparr>cw_ids = [], cw_metadatas = [], cw_documents = [], cw_distances = []\<rparr>
      | None \<Rightarrow> Inr demo_rows),
     cc_get = (\<lambda>_ _ n. Inr (if 1 \<le> n then demo_rows else \<lparr>cw_ids = [], cw_metadatas = [], cw_documents = [], cw_distances = []\<rparr>))\<rparr>"

theorem chroma_search_scoped_witness:
  "\<exists>r. chroma_search (\<lambda>_. []) demo_chroma () [1] 5
      (store_filter_of \<lparr>f_user_id = str ''u1'', f_resource_ids = [str ''r1'', str ''r2'']\<rparr>) = Inr [r]
     \<and> vr_user_id r = str ''u1'' \<and> vr_resource_id r \<in> set [str ''r1'', str ''r2''] \<and> 0 \<le> vr_score r"
proof -
  let ?f = "\<lparr>f_user_id = str ''u1'', f_resource_ids = [str ''r1'', str ''r2'']\<rparr>"
  obtain r where r: "chroma_search (\<lambda>_. []) demo_chroma () [1] 5 (store_filter_of ?f) = Inr [r]"
    by (simp add: chroma_search_def demo_chroma_def chroma_search_filter_def store_filter_of_def wanted_ids_def
        chroma_resource_id_filter_def unavailable_def demo_rows_def chroma_result_def get_int0_def dict_get_def)
  have "vr_user_id r = f_user_id ?f \<and> vr_resource_id r \<in> set (f_resource_ids ?f) \<and> 0 \<le> vr_score r"
    by (rule chroma_search_scoped[OF r]) (auto simp: demo_chroma_def demo_rows_def split: if_splits)
  with r show ?thesis by auto
qed

text \<open>The corpus cap. Whatever limit the caller asks for, a query of the Chroma store returns at most
  100 records, if the collection honours the limit it is given: the 1000 documents hybrid retrieval
  asks for to build its BM25 index are never loaded.\<close>

theorem chroma_query_capped:
  assumes "chroma_query rp cl s f limit = Inr rs"
    and "\<And>w n rows. cc_get cl s w n = Inr rows \<Longrightarrow> int (length (cw_ids rows)) \<le> max 0 n"
  shows "length rs \<le> 100"
proof -
  from assms(1) obtain rows where g: "cc_get cl s (chroma_search_filter f) (min limit top_k_limit) = Inr rows"
    and rs: "chroma_results rp (map (\<lambda>(rid, md, doc). (rid, md, doc, 0))
         (zip (cw_ids rows) (zip (cw_metadatas rows) (cw_documents rows)))) = Inr rs"
    by (auto simp: chroma_query_def unavailable_def sbind_Inr_iff split: sum.splits)
  from chroma_results_length[OF rs] have "length rs \<le> length (cw_ids rows)" by simp
  moreover have "int (length (cw_ids rows)) \<le> 100" using assms(2)[OF g] by (simp add: top_k_limit_def)
  ultimately show ?thesis by simp
qed

theorem chroma_query_capped_witness:
  "\<exists>rs. chroma_query (\<lambda>_. []) demo_chroma () (store_filter_of \<lparr>f_user_id = str ''u1'', f_resource_ids = [str ''r1'']\<rparr>)
      1000 = Inr rs \<and> length rs \<le> 100"
proof -
  let ?f = "store_filter_of \<lparr>f_user_id = str ''u1'', f_resource_ids = [str ''r1'']\<rparr>"
  obtain rs where r: "chroma_query (\<lambda>_. []) demo_chroma () ?f 1000 = Inr rs"
    by (simp add: chroma_query_def demo_chroma_def unavailable_def demo_rows_def chroma_result_def get_int0_def
        dict_get_def top_k_limit_def)
  have "length rs \<le> 100"
    by (rule chroma_query_capped[OF r]) (auto simp: demo_chroma_def demo_rows_def split: if_splits)
  with r show ?thesis by blast
qed

text \<open>A stored record is read back. If the metadata of a record uses none of the reserved keys, the
  row the Chroma store writes is converted back to a result with the record's resource, user,
  creation time and metadata.\<close>

theorem chroma_record_roundtrip:
  assumes "distinct (map fst (ve_metadata r))" and "list_all (\<lambda>k. k \<notin> set RESERVED_KEYS) (map fst (ve_metadata r))"
  shows "\<exists>res. chroma_result rp (ve_id r) (record_to_chroma_metadata r) (Some (ve_text r)) score = Inr res
    \<and> vr_id res = ve_id r \<and> vr_resource_id res = ve_resource_id r \<and> vr_user_id res = ve_user_id r
    \<and> vr_text res = ve_text r \<and> vr_created_at res = ve_created_at r
    \<and> (\<forall>k. k \<notin> set RESERVED_KEYS \<longrightarrow> map_of (vr_metadata res) k = map_of (ve_metadata r) k)"
proof -
  let ?md = "record_to_chroma_metadata r"
  have m: "map_of ?md k = (case map_of (ve_metadata r) k of Some v \<Rightarrow> Some v | None \<Rightarrow>
      map_of [(str ''resource_id'', PStr (ve_resource_id r)), (str ''user_id'', PStr (ve_user_id r)),
        (str ''created_at'', PInt (ve_created_at r))] k)" for k
    unfolding record_to_chroma_metadata_def by (rule map_of_dict_merge[OF assms(1)])
  have none: "map_of (ve_metadata r) k = None" if "k \<in> set RESERVED_KEYS" for k
    using assms(2) that by (auto simp: list_all_iff map_of_eq_None_iff)
  have res: "map_of ?md (str ''resource_id'') = Some (PStr (ve_resource_id r))"
    "map_of ?md (str ''user_id'') = Some (PStr (ve_user_id r))"
    "map_of ?md (str ''created_at'') = Some (PInt (ve_created_at r))"
    by (simp_all add: m none RESERVED_KEYS_def)
  have "map_of (filter (\<lambda>(k, v). k \<notin> set RESERVED_KEYS) ?md) k = map_of ?md k" if "k \<notin> set RESERVED_KEYS" for k
    using that by (rule map_of_filter_keys)
  moreover have "map_of ?md k = map_of (ve_metadata r) k" if "k \<notin> set RESERVED_KEYS" for k
    using that by (auto simp: m RESERVED_KEYS_def split: option.splits)
  ultimately show ?thesis using res
    by (simp add: chroma_result_def get_int0_def get_str_def dict_get_def)
qed

definition demo_record :: vector_record where
  "demo_record = \<lparr>ve_id = str ''r1-0'', ve_resource_id = str ''r1'', ve_user_id = str ''u1'', ve_text = str ''t'',
     ve_vector = [1], ve_metadata = [(str ''page'', PInt 3)], ve_created_at = 7\<rparr>"

theorem chroma_record_roundtrip_witness:
  "\<exists>res. chroma_result (\<lambda>_. []) (str ''r1-0'') (record_to_chroma_metadata demo_record) (Some (str ''t'')) 1 = Inr res
     \<and> vr_user_id res = str ''u1'' \<and> vr_created_at res = 7"
  using chroma_record_roundtrip[of demo_record "\<lambda>_. []" 1]
  by (auto simp: demo_record_def RESERVED_KEYS_def)

text \<open>Without that condition a record changes hands. Metadata with a \<open>user_id\<close> key overwrites the
  owner the record is stored under.\<close>

theorem chroma_metadata_overrides_owner:
  "map_of (record_to_chroma_metadata (demo_record\<lparr>ve_metadata := [(str ''user_id'', PStr (str ''u2''))]\<rparr>)) (str ''user_id'')
     = Some (PStr (str ''u2''))"
  by (simp add: record_to_chroma_metadata_def dict_merge_def demo_record_def)

text \<open>Scores of Milvus hits. For the L2 metric a non-negative distance gives a score in (0, 1] that
  falls as the distance grows; for COSINE, whose distances reach 2, the score is not kept in the
  promised range: it goes down to -1.\<close>

theorem milvus_scores:
  "(0 \<le> d \<longrightarrow> (\<exists>x. milvus_distance_to_score d (str ''L2'') = Inr x \<and> 0 < x \<and> x \<le> 1
      \<and> (\<forall>d' y. d < d' \<longrightarrow> milvus_distance_to_score d' (str ''l2'') = Inr y \<longrightarrow> y < x)))
   \<and> milvus_distance_to_score 2 (str ''COSINE'') = Inr (- 1)"
  by (auto simp: milvus_distance_to_score_def upper_ascii_def frac_less2 split: if_splits)

theorem milvus_scores_witness:
  "\<exists>x. milvus_distance_to_score 3 (str ''L2'') = Inr x \<and> 0 < x \<and> x \<le> 1"
  using milvus_scores[of 3] by auto

end
