(* ===== verification/Memory.thy ===== *)
theory Memory
  imports Vector_Store
begin

text \<open>
  Long-term memory (\<open>app/services/memory\<close>): loading the context of a question and saving turns and
  facts. The embedding service and the vector store are parameters over a state \<open>'s\<close>; fresh
  identifiers come from the parameter \<open>uuids\<close>.
\<close>

record memory_config =
  mem_enabled :: bool
  mem_top_k :: int
  mem_score_threshold :: pyfloat
  mem_max_context_tokens :: int
  mem_conversation_prefix :: pystr
  mem_user_prefix :: pystr

definition default_memory_config :: memory_config where
  "default_memory_config = \<lparr>mem_enabled = True, mem_top_k = 5, mem_score_threshold = 7 / 10,
     mem_max_context_tokens = 1024, mem_conversation_prefix = str ''memory:conversation'',
     mem_user_prefix = str ''memory:user''\<rparr>"

record 's memory_env =
  me_embed_query :: "'s \<Rightarrow> pystr \<Rightarrow> 's \<times> (exn + vector)"
  me_search :: "'s \<Rightarrow> vector \<Rightarrow> int \<Rightarrow> scope_filter \<Rightarrow> 's \<times> (exn + vector_search_result list)"
  me_embed :: "'s \<Rightarrow> chunk_input list \<Rightarrow> 's \<times> (exn + embedding_record list)"
  me_upsert :: "'s \<Rightarrow> vector_record list \<Rightarrow> 's \<times> (exn + int)"
  me_now :: int

definition estimate_tokens :: "pystr \<Rightarrow> int" where
  "estimate_tokens content = (int (length content) + 1) div 2"

text \<open>The loop over the ranked memories, which stops at the first that does not fit.\<close>

fun memory_snippets :: "int \<Rightarrow> int \<Rightarrow> vector_search_result list \<Rightarrow> pystr list" where
  "memory_snippets limit used [] = []"
| "memory_snippets limit used (r # rs) =
     (let t = py_strip (vr_text r)
      in if t = [] then memory_snippets limit used rs
         else if limit < used + estimate_tokens t then []
         else t # memory_snippets limit (used + estimate_tokens t) rs)"

definition memory_block :: "pystr list \<Rightarrow> pystr" where
  "memory_block snippets =
     (if snippets = [] then []
      else str ''=== '' @ [0x957F, 0x671F, 0x8BB0, 0x5FC6, 0xFF08, 0x53EF, 0x80FD, 0x4E0E, 0x5F53,
        0x524D, 0x95EE, 0x9898, 0x76F8, 0x5173, 0xFF09] @ str ''==='' @ [10]
           @ py_join [10] (map (\<lambda>s. str ''- '' @ s) snippets) @ [10] @ replicate 36 61)"

definition conversation_resource :: "memory_config \<Rightarrow> pystr \<Rightarrow> pystr" where
  "conversation_resource cfg conversation_id = mem_conversation_prefix cfg @ str '':'' @ conversation_id"

definition user_resource :: "memory_config \<Rightarrow> pystr \<Rightarrow> pystr" where
  "user_resource cfg user_id = mem_user_prefix cfg @ str '':'' @ user_id"

definition load_context ::
  "'s memory_env \<Rightarrow> memory_config \<Rightarrow> 's \<Rightarrow> pystr \<Rightarrow> pystr \<Rightarrow> pystr \<Rightarrow> 's \<times> pystr" where
  "load_context env cfg s user_id conversation_id question =
     (if \<not> mem_enabled cfg then (s, [])
      else case me_embed_query env s question of
             (s1, Inl e) \<Rightarrow> (s1, [])
           | (s1, Inr v) \<Rightarrow>
               (case me_search env s1 v (mem_top_k cfg)
                       \<lparr>f_user_id = user_id, f_resource_ids = [conversation_resource cfg conversation_id, user_resource cfg user_id]\<rparr> of
                  (s2, Inl e) \<Rightarrow> (s2, [])
                | (s2, Inr results) \<Rightarrow>
                    (s2, memory_block (memory_snippets (mem_max_context_tokens cfg) 0
                       (py_sorted_desc vr_score (filter (\<lambda>r. mem_score_threshold cfg \<le> vr_score r) results))))))"

definition turn_text :: "pystr \<Rightarrow> pystr \<Rightarrow> pystr \<Rightarrow> pystr" where
  "turn_text question answer reasoning =
     str ''User: '' @ question @ [10] @ str ''Assistant: '' @ answer
     @ (if \<not> blank reasoning then [10] @ str ''Reasoning: '' @ py_strip reasoning else [])"

definition save_turn ::
  "'s memory_env \<Rightarrow> memory_config \<Rightarrow> pystr \<times> pystr \<Rightarrow> 's \<Rightarrow> pystr \<Rightarrow> pystr \<Rightarrow> pystr \<Rightarrow> pystr \<Rightarrow> pystr \<Rightarrow> 's" where
  "save_turn env cfg uuids s user_id conversation_id question answer reasoning =
     (if \<not> mem_enabled cfg \<or> blank question \<or> blank answer then s
      else let content = turn_text question answer reasoning
           in case me_embed env s [\<lparr>ci_id = fst uuids, ci_resource_id = conversation_resource cfg conversation_id, ci_text = content\<rparr>] of
                (s1, Inr (e # es)) \<Rightarrow>
                  fst (me_upsert env s1 [\<lparr>ve_id = snd uuids, ve_resource_id = conversation_resource cfg conversation_id,
                     ve_user_id = user_id, ve_text = content, ve_vector = em_vector e,
                     ve_metadata = [(str ''memory_type'', PStr (str ''turn''))], ve_created_at = me_now env\<rparr>])
              | (s1, _) \<Rightarrow> s1)"

definition save_user_facts ::
  "'s memory_env \<Rightarrow> memory_config \<Rightarrow> (nat \<Rightarrow> pystr) \<Rightarrow> 's \<Rightarrow> pystr \<Rightarrow> pystr list \<Rightarrow> 's" where
  "save_user_facts env cfg uuids s user_id facts =
     (if \<not> mem_enabled cfg \<or> facts = [] then s
      else let chunks = map (\<lambda>(i, fact). \<lparr>ci_id = uuids i, ci_resource_id = user_resource cfg user_id, ci_text = py_strip fact\<rparr>)
                          (enumerate 0 (filter (\<lambda>f. \<not> blank f) facts))
           in if chunks = [] then s
              else case me_embed env s chunks of
                     (s1, Inl e) \<Rightarrow> s1
                   | (s1, Inr embeddings) \<Rightarrow>
                       fst (me_upsert env s1 (map (\<lambda>(c, e). \<lparr>ve_id = ci_id c, ve_resource_id = ci_resource_id c,
                          ve_user_id = user_id, ve_text = ci_text c, ve_vector = em_vector e,
                          ve_metadata = [(str ''memory_type'', PStr (str ''user_fact''))], ve_created_at = me_now env\<rparr>)
                          (zip chunks embeddings))))"

section \<open>Properties\<close>

lemma memory_snippets_sound:
  "0 \<le> used \<Longrightarrow> used \<le> limit \<Longrightarrow>
     used + (\<Sum>t\<leftarrow>memory_snippets limit used rs. estimate_tokens t) \<le> limit
     \<and> subseq (memory_snippets limit used rs) (map (\<lambda>r. py_strip (vr_text r)) rs)
     \<and> [] \<notin> set (memory_snippets limit used rs)"
proof (induction limit used rs rule: memory_snippets.induct)
  case (2 limit used r rs)
  have "0 \<le> estimate_tokens (py_strip (vr_text r))" by (simp add: estimate_tokens_def)
  with 2 show ?case by (auto simp: Let_def)
qed simp

text \<open>What enters the prompt from memory. Whatever the services answer, \<open>load_context\<close> does not
  fail; the context is empty or the block of snippets that are the trimmed texts of found memories
  above the threshold, best first, none empty, and together within the token budget.\<close>

theorem memory_context_bounded:
  assumes "0 \<le> mem_max_context_tokens cfg"
  shows "\<exists>snippets. snd (load_context env cfg s user_id conversation_id question) = memory_block snippets
    \<and> (\<Sum>t\<leftarrow>snippets. estimate_tokens t) \<le> mem_max_context_tokens cfg \<and> [] \<notin> set snippets
    \<and> (\<exists>rs :: vector_search_result list. descending vr_score rs \<and> list_all (\<lambda>r. mem_score_threshold cfg \<le> vr_score r) rs
         \<and> subseq snippets (map (\<lambda>r. py_strip (vr_text r)) rs))"
proof -
  have none: ?thesis if "snd (load_context env cfg s user_id conversation_id question) = []"
    using that assms by (intro exI[of _ "[]"]) (auto simp: memory_block_def descending_def intro!: exI[of _ "[]"])
  have some: ?thesis if "snd (load_context env cfg s user_id conversation_id question)
      = memory_block (memory_snippets (mem_max_context_tokens cfg) 0
          (py_sorted_desc vr_score (filter (\<lambda>r. mem_score_threshold cfg \<le> vr_score r) results)))" for results
  proof -
    let ?rs = "py_sorted_desc vr_score (filter (\<lambda>r. mem_score_threshold cfg \<le> vr_score r) results)"
    have "list_all (\<lambda>r. mem_score_threshold cfg \<le> vr_score r) ?rs" by (auto simp: list_all_iff)
    moreover have "descending vr_score ?rs" by simp
    moreover note m = memory_snippets_sound[OF order.refl assms, of ?rs]
    ultimately have "\<exists>rs :: vector_search_result list. descending vr_score rs \<and> list_all (\<lambda>r. mem_score_threshold cfg \<le> vr_score r) rs
        \<and> subseq (memory_snippets (mem_max_context_tokens cfg) 0 ?rs) (map (\<lambda>r. py_strip (vr_text r)) rs)"
      by blast
    with that m show ?thesis
      by (intro exI[of _ "memory_snippets (mem_max_context_tokens cfg) 0 ?rs"]) simp
  qed
  have "snd (load_context env cfg s user_id conversation_id question) = []
    \<or> (\<exists>results. snd (load_context env cfg s user_id conversation_id question)
      = memory_block (memory_snippets (mem_max_context_tokens cfg) 0
          (py_sorted_desc vr_score (filter (\<lambda>r. mem_score_threshold cfg \<le> vr_score r) results))))"
    by (auto simp: load_context_def split: prod.splits sum.splits)
  with none some show ?thesis by blast
qed

text \<open>An environment without state, with a fixed answer, and one that remembers what was written.\<close>

definition demo_memory :: "string list \<Rightarrow> vector_record list memory_env" where
  "demo_memory memories = \<lparr>me_embed_query = (\<lambda>s _. (s, Inr [1])),
     me_search = (\<lambda>s _ _ f. (s, Inr (map (\<lambda>t. \<lparr>vr_id = [], vr_resource_id = hd (f_resource_ids f), vr_user_id = f_user_id f,
        vr_text = str t, vr_metadata = [], vr_score = 1, vr_created_at = 0\<rparr>) memories))),
     me_embed = (\<lambda>s cs. (s, Inr (map (\<lambda>c. \<lparr>em_chunk_id = ci_id c, em_resource_id = ci_resource_id c, em_vector = [1],
        em_model = [], em_dimensions = 1\<rparr>) cs))),
     me_upsert = (\<lambda>s rs. (s @ rs, Inr (int (length rs)))), me_now = 0\<rparr>"

theorem memory_context_bounded_witness:
  "\<exists>snippets. snd (load_context (demo_memory [''likes tea'']) default_memory_config [] (str ''u'') (str ''c'') (str ''q''))
      = memory_block snippets \<and> (\<Sum>t\<leftarrow>snippets. estimate_tokens t) \<le> 1024"
  using memory_context_bounded[of default_memory_config "demo_memory [''likes tea'']" "[]" "str ''u''" "str ''c''" "str ''q''"]
  by (auto simp: default_memory_config_def)

text \<open>Saving keeps users apart. Whatever text is saved, the store receives at most one turn record,
  owned by the given user and filed under the given conversation, with the question and the answer in
  its text; and nothing when memory is off or the question or answer is blank.\<close>

theorem save_turn_writes_one_record:
  assumes "\<And>s cs. fst (me_embed env s cs) = s" and "\<And>s rs. fst (me_upsert env s rs) = s @ rs"
  shows "save_turn env cfg uuids written user_id conversation_id question answer reasoning = written
    \<or> (\<exists>r. save_turn env cfg uuids written user_id conversation_id question answer reasoning = written @ [r]
         \<and> ve_user_id r = user_id \<and> ve_resource_id r = conversation_resource cfg conversation_id
         \<and> prefix (str ''User: '' @ question @ [10] @ str ''Assistant: '' @ answer) (ve_text r)
         \<and> mem_enabled cfg \<and> \<not> blank question \<and> \<not> blank answer)"
proof (cases "mem_enabled cfg \<and> \<not> blank question \<and> \<not> blank answer")
  case True
  define content where "content = turn_text question answer reasoning"
  obtain s1 r where m: "me_embed env written [\<lparr>ci_id = fst uuids, ci_resource_id = conversation_resource cfg conversation_id,
      ci_text = content\<rparr>] = (s1, r)" by fastforce
  with assms(1)[of written] have "s1 = written" by (metis fst_conv)
  with m True assms(2) show ?thesis
    by (auto simp: save_turn_def content_def turn_text_def Let_def split: sum.splits list.splits)
qed (auto simp: save_turn_def)

theorem save_turn_writes_one_record_witness:
  "\<exists>r. save_turn (demo_memory []) default_memory_config ([], []) [] (str ''u'') (str ''c'') (str ''q'') (str ''a'') [] = [r]
     \<and> ve_user_id r = str ''u''"
proof -
  let ?s = "save_turn (demo_memory []) default_memory_config ([], []) [] (str ''u'') (str ''c'') (str ''q'') (str ''a'') []"
  have ne: "?s \<noteq> []"
    by (simp add: save_turn_def demo_memory_def default_memory_config_def blank_iff is_space_def Let_def)
  have e: "\<And>s cs. fst (me_embed (demo_memory []) s cs) = s" "\<And>s rs. fst (me_upsert (demo_memory []) s rs) = s @ rs"
    by (simp_all add: demo_memory_def)
  from save_turn_writes_one_record[OF e, of default_memory_config "([], [])" "[]" "str ''u''" "str ''c''" "str ''q''" "str ''a''" "[]"]
  ne show ?thesis by auto
qed

end
