(* ===== verification/QA.thy ===== *)
theory QA
  imports Citation_Props LLM Memory
begin

text \<open>
  \<open>QAService.stream_answer\<close>: memory, retrieval, prompt, the LLM stream, citations, and the events
  sent to the client. The RAG engine and the LLM client are parameters (\<open>LLMClient.stream_complete\<close>
  of the theory of the LLM client is one instance), the memory context is the string
  \<open>load_context\<close> returned. Metrics, spans and the trace id of error events are not modelled.
\<close>

section \<open>Requests and events\<close>

record qa_request =
  qr_question :: pystr
  qr_conversation_id :: pystr
  qr_message_id :: pystr
  qr_user_id :: pystr
  qr_resource_ids :: "pystr list"
  qr_history :: "llm_message list"
  qr_top_k :: "int option"
  qr_score_threshold :: "pyfloat option"
  qr_max_context_tokens :: "int option"
  qr_temperature :: "pyfloat option"
  qr_max_tokens :: "int option"

definition opt_all :: "('a \<Rightarrow> bool) \<Rightarrow> 'a option \<Rightarrow> bool" where
  "opt_all P x = (case x of None \<Rightarrow> True | Some v \<Rightarrow> P v)"

definition qa_request_valid :: "qa_request \<Rightarrow> bool" where
  "qa_request_valid req \<longleftrightarrow>
     len_between 1 2000 (qr_question req) \<and> qr_conversation_id req \<noteq> [] \<and> qr_message_id req \<noteq> [] \<and> qr_user_id req \<noteq> []
     \<and> length (qr_resource_ids req) \<le> 100 \<and> list_all message_valid (qr_history req)
     \<and> opt_all (\<lambda>k. 1 \<le> k \<and> k \<le> 100) (qr_top_k req) \<and> opt_all (\<lambda>t. 0 \<le> t \<and> t \<le> 1) (qr_score_threshold req)
     \<and> opt_all (\<lambda>n. 1 \<le> n) (qr_max_context_tokens req) \<and> opt_all (\<lambda>t. 0 \<le> t \<and> t \<le> 2) (qr_temperature req)
     \<and> opt_all (\<lambda>n. 0 < n) (qr_max_tokens req) \<and> \<not> list_ex blank (qr_resource_ids req)"

text \<open>
  The events with the fields of their \<open>data\<close> dictionaries, without the message and conversation ids
  that every event copies from the request.
\<close>

datatype qa_event =
    ChunkEv pystr nat
  | ReasoningEv pystr nat
  | CitationEv citation
  | DoneEv nat bool
  | ErrorEv string pystr

fun terminal :: "qa_event \<Rightarrow> bool" where
  "terminal (DoneEv n d) = True"
| "terminal (ErrorEv c m) = True"
| "terminal _ = False"

definition error_retryable :: "string \<Rightarrow> bool" where
  "error_retryable code \<longleftrightarrow>
     code \<in> {''LLM_TIMEOUT'', ''LLM_STREAM_ERROR'', ''LLM_UNAVAILABLE'', ''RETRIEVAL_UNAVAILABLE''}"

section \<open>The service\<close>

definition build_messages :: "qa_request \<Rightarrow> pystr \<Rightarrow> pystr \<Rightarrow> llm_message list" where
  "build_messages req prompt memory_context =
     (if memory_context \<noteq> [] then [\<lparr>ms_role = str ''system'', ms_content = memory_context\<rparr>] else [])
     @ qr_history req @ [\<lparr>ms_role = str ''user'', ms_content = prompt\<rparr>]"

text \<open>\<open>x or d\<close> on an optional number.\<close>

definition num_or :: "'a :: zero option \<Rightarrow> 'a \<Rightarrow> 'a" where
  "num_or x d = (case x of None \<Rightarrow> d | Some v \<Rightarrow> if v = 0 then d else v)"

definition qa_llm_request :: "qa_request \<Rightarrow> pystr \<Rightarrow> pystr \<Rightarrow> exn + llm_request" where
  "qa_llm_request req prompt memory_context =
     llm_request_new (build_messages req prompt memory_context)
       (num_or (qr_temperature req) (7 / 10)) (num_or (qr_max_tokens req) 2048)"

definition qa_retrieval_request :: "qa_request \<Rightarrow> exn + retrieval_request" where
  "qa_retrieval_request req =
     (let r = \<lparr>rq_question = qr_question req, rq_user_id = qr_user_id req, rq_resource_ids = qr_resource_ids req,
               rq_top_k = (case qr_top_k req of Some k \<Rightarrow> k | None \<Rightarrow> 5),
               rq_score_threshold = qr_score_threshold req, rq_max_context_tokens = qr_max_context_tokens req\<rparr>
      in if retrieval_request_valid r then Inr r else Inl (validation_error ''RetrievalRequest''))"

definition fallback_answer :: "retrieval_result option \<Rightarrow> pystr" where
  "fallback_answer result =
     (let chunks = (case result of None \<Rightarrow> [] | Some r \<Rightarrow> rr_chunks r);
          snippets = map (py_take 160) (filter (\<lambda>t. t \<noteq> []) (map (\<lambda>c. py_strip (rc_text c)) (take 3 chunks)))
      in if snippets = [] then []
         else [0x6A21, 0x578B, 0x6682, 0x65F6, 0x4E0D, 0x53EF, 0x7528, 0xFF0C, 0x5148, 0x6839,
           0x636E, 0x5DF2, 0x68C0, 0x7D22, 0x5230, 0x7684, 0x8D44, 0x6599, 0x7ED9, 0x51FA, 0x53C2,
           0x8003, 0x4FE1, 0x606F, 0xFF1A] @ [10]
              @ py_join [10] (map (\<lambda>s. str ''- '' @ s) snippets))"

definition qa_citations :: "(int \<times> int) option \<Rightarrow> qa_request \<Rightarrow> pystr \<Rightarrow> retrieval_chunk list \<Rightarrow> citation list" where
  "qa_citations svc req answer chunks =
     (case svc of
        None \<Rightarrow> []
      | Some (snip, max_citations) \<Rightarrow>
          if chunks = [] then [] else cr_citations (build_citations snip max_citations answer chunks (qr_resource_ids req)))"

datatype stream_end = Stopped | Errored | RanOut

text \<open>
  The loop over the stream: the events, the answer so far, the next chunk index, and how it ended.
\<close>

fun qa_consume :: "nat \<Rightarrow> nat \<Rightarrow> stream_chunk list \<Rightarrow> qa_event list \<times> pystr \<times> nat \<times> stream_end" where
  "qa_consume ci ri [] = ([], [], ci, RanOut)"
| "qa_consume ci ri (c # cs) =
     (let (ev1, ci') = (if sc_delta c \<noteq> [] then ([ChunkEv (sc_delta c) ci], ci + 1) else ([], ci));
          (ev2, ri') = (case sc_reasoning c of
              Some r \<Rightarrow> if r \<noteq> [] then ([ReasoningEv r ri], ri + 1) else ([], ri)
            | None \<Rightarrow> ([], ri))
      in if sc_finish c = Some (str ''error'') then (ev1 @ ev2, sc_delta c, ci', Errored)
         else if sc_finish c = Some (str ''stop'') then (ev1 @ ev2, sc_delta c, ci', Stopped)
         else case qa_consume ci' ri' cs of (evs, ans, k, fin) \<Rightarrow> (ev1 @ ev2 @ evs, sc_delta c @ ans, k, fin))"

record qa_env =
  qv_rag :: "retrieval_request \<Rightarrow> exn + retrieval_result"
  qv_stream :: "llm_request \<Rightarrow> llm_stream"
  qv_citation :: "(int \<times> int) option"
  qv_memory :: bool

text \<open>What a run does: the events, the answer saved as a turn (if any), and an exception that escapes.\<close>

record qa_run =
  qn_events :: "qa_event list"
  qn_saved :: "pystr option"
  qn_escaped :: "exn option"

definition qa_events_only :: "qa_event list \<Rightarrow> qa_run" where
  "qa_events_only evs = \<lparr>qn_events = evs, qn_saved = None, qn_escaped = None\<rparr>"

definition degraded_events :: "pystr \<Rightarrow> nat \<Rightarrow> qa_event \<Rightarrow> qa_event list" where
  "degraded_events fallback index err = (if fallback \<noteq> [] then [ChunkEv fallback index, DoneEv 0 True] else [err])"

fun exn_message :: "exn \<Rightarrow> pystr" where
  "exn_message (APIException a) = exc_message a"
| "exn_message (PyException c m) = m"

text \<open>The part after retrieval.\<close>

definition qa_generate ::
  "qa_env \<Rightarrow> qa_request \<Rightarrow> pystr \<Rightarrow> pystr \<Rightarrow> retrieval_result option \<Rightarrow> qa_run" where
  "qa_generate env req memory_context prompt result =
     (case qa_llm_request req prompt memory_context of
        Inl e \<Rightarrow> \<lparr>qn_events = [], qn_saved = None, qn_escaped = Some e\<rparr>
      | Inr lreq \<Rightarrow>
          (case qv_stream env lreq of (chunks, stop) \<Rightarrow>
           (case qa_consume 0 0 chunks of (evs, answer, next_index, fin) \<Rightarrow>
             if fin = Errored
             then qa_events_only (evs @ degraded_events (fallback_answer result) next_index
                    (ErrorEv ''LLM_TIMEOUT'' [0x751F, 0x6210, 0x8D85, 0x65F6]))
             else case (if fin = RanOut then stop else None) of
               Some e \<Rightarrow>
                 if retryable e
                 then qa_events_only (evs @ degraded_events (fallback_answer result) 0
                        (ErrorEv (exn_code e) (exn_message e)))
                 else qa_events_only (evs @ [ErrorEv ''LLM_STREAM_ERROR'' [0x6D41, 0x5F0F, 0x751F,
                   0x6210, 0x5931, 0x8D25]])
             | None \<Rightarrow>
                 let citations = qa_citations (qv_citation env) req answer
                       (case result of Some r \<Rightarrow> rr_chunks r | None \<Rightarrow> [])
                 in \<lparr>qn_events = evs @ map CitationEv citations @ [DoneEv (length citations) False],
                     qn_saved = (if qv_memory env then Some answer else None), qn_escaped = None\<rparr>)))"

definition stream_answer :: "qa_env \<Rightarrow> pystr \<Rightarrow> qa_request \<Rightarrow> qa_run" where
  "stream_answer env memory_context req =
     (if qr_resource_ids req = [] then qa_generate env req memory_context (qr_question req) None
      else case sbind (qa_retrieval_request req) (qv_rag env) of
             Inr result \<Rightarrow> qa_generate env req memory_context (rr_prompt result) (Some result)
           | Inl e \<Rightarrow>
               if is_api e then qa_events_only [ErrorEv (exn_code e) (exn_message e)]
               else qa_events_only [ErrorEv ''RETRIEVAL_UNAVAILABLE'' [0x68C0, 0x7D22, 0x4E0D,
                 0x53EF, 0x7528]])"

section \<open>Facts\<close>

lemma qa_consume_not_terminal:
  "qa_consume ci ri cs = (evs, ans, k, fin) \<Longrightarrow> list_all (\<lambda>e. \<not> terminal e) evs"
proof (induction ci ri cs arbitrary: evs ans k fin rule: qa_consume.induct)
  case (2 ci ri c cs)
  then show ?case
    by (auto simp: Let_def split: if_splits option.splits prod.splits)
qed simp

fun chunk_parts :: "qa_event list \<Rightarrow> (pystr \<times> nat) list" where
  "chunk_parts [] = []"
| "chunk_parts (ChunkEv d i # evs) = (d, i) # chunk_parts evs"
| "chunk_parts (_ # evs) = chunk_parts evs"

lemma chunk_parts_append [simp]: "chunk_parts (xs @ ys) = chunk_parts xs @ chunk_parts ys"
  by (induction xs rule: chunk_parts.induct) auto

lemma chunk_parts_citations [simp]: "chunk_parts (map CitationEv cs) = []"
  by (induction cs) auto

lemma upt_join: "i \<le> j \<Longrightarrow> j \<le> k \<Longrightarrow> [i ..< j] @ [j ..< k] = [i ..< k]"
  by (metis le_add_diff_inverse upt_add_eq_append)

lemma qa_consume_parts:
  "qa_consume ci ri cs = (evs, ans, k, fin) \<Longrightarrow>
     concat (map fst (chunk_parts evs)) = ans \<and> map snd (chunk_parts evs) = [ci ..< k] \<and> ci \<le> k"
proof (induction cs arbitrary: ci ri evs ans k fin)
  case (Cons c cs)
  define ci' where "ci' = (if sc_delta c \<noteq> [] then ci + 1 else ci)"
  define ri' where "ri' = (case sc_reasoning c of Some r \<Rightarrow> if r \<noteq> [] then ri + 1 else ri | None \<Rightarrow> ri)"
  define ev where "ev = (if sc_delta c \<noteq> [] then [ChunkEv (sc_delta c) ci] else [])
    @ (case sc_reasoning c of Some r \<Rightarrow> if r \<noteq> [] then [ReasoningEv r ri] else [] | None \<Rightarrow> [])"
  have e: "concat (map fst (chunk_parts ev)) = sc_delta c" "map snd (chunk_parts ev) = [ci ..< ci']" "ci \<le> ci'"
    by (auto simp: ev_def ci'_def split: option.splits)
  have step: "qa_consume ci ri (c # cs) =
     (if sc_finish c = Some (str ''error'') then (ev, sc_delta c, ci', Errored)
      else if sc_finish c = Some (str ''stop'') then (ev, sc_delta c, ci', Stopped)
      else case qa_consume ci' ri' cs of (evs, ans, k, fin) \<Rightarrow> (ev @ evs, sc_delta c @ ans, k, fin))"
    by (auto simp: ev_def ci'_def ri'_def Let_def split: option.splits prod.splits)
  obtain evs1 ans1 k1 fin1 where r: "qa_consume ci' ri' cs = (evs1, ans1, k1, fin1)" by (metis prod_cases4)
  note ih = Cons.IH[OF r]
  from Cons.prems step r e ih show ?case
    by (auto split: if_splits simp: upt_join)
qed simp

lemma qa_llm_request_ok:
  assumes "qa_request_valid req" "prompt \<noteq> []"
  shows "\<exists>l. qa_llm_request req prompt mc = Inr l"
proof -
  have "list_all message_valid (build_messages req prompt mc)"
    using assms by (auto simp: build_messages_def message_valid_def qa_request_valid_def)
  moreover have "0 \<le> num_or (qr_temperature req) (7 / 10) \<and> num_or (qr_temperature req) (7 / 10) \<le> 2"
    "0 < num_or (qr_max_tokens req) 2048"
    using assms by (auto simp: qa_request_valid_def opt_all_def num_or_def split: option.splits)
  moreover have "build_messages req prompt mc \<noteq> []" by (simp add: build_messages_def)
  ultimately show ?thesis by (auto simp: qa_llm_request_def llm_request_new_def)
qed

text \<open>A well-formed run: one terminal event, at the end, and nothing escapes.\<close>

definition closed_run :: "qa_run \<Rightarrow> bool" where
  "closed_run r \<longleftrightarrow> qn_escaped r = None
     \<and> (\<exists>pre t. qn_events r = pre @ [t] \<and> terminal t \<and> list_all (\<lambda>e. \<not> terminal e) pre)"

lemma closed_runI:
  "list_all (\<lambda>e. \<not> terminal e) pre \<Longrightarrow> terminal t \<Longrightarrow> qn_events r = pre @ [t] \<Longrightarrow> qn_escaped r = None \<Longrightarrow> closed_run r"
  by (auto simp: closed_run_def)

lemma closed_degraded:
  assumes "list_all (\<lambda>e. \<not> terminal e) evs" "terminal err"
  shows "closed_run (qa_events_only (evs @ degraded_events fb i err))"
  using assms
  by (cases "fb = []")
    (auto simp: degraded_events_def qa_events_only_def
      intro: closed_runI[of evs err] closed_runI[of "evs @ [ChunkEv fb i]" "DoneEv 0 True"])

lemma qa_generate_closed:
  assumes "qa_request_valid req" "prompt \<noteq> []"
  shows "closed_run (qa_generate env req mc prompt result)"
proof -
  obtain l where l: "qa_llm_request req prompt mc = Inr l" using qa_llm_request_ok[OF assms] by blast
  obtain chunks stop where st: "qv_stream env l = (chunks, stop)" by fastforce
  obtain evs answer k fin where c: "qa_consume 0 0 chunks = (evs, answer, k, fin)" by (metis prod_cases4)
  note nt = qa_consume_not_terminal[OF c]
  let ?stop = "if fin = RanOut then stop else None"
  consider "fin = Errored" | e where "fin \<noteq> Errored" "?stop = Some e" | "fin \<noteq> Errored" "?stop = None" by fastforce
  then show ?thesis
  proof cases
    case 1
    with nt show ?thesis by (simp add: qa_generate_def l st c closed_degraded)
  next
    case 2
    moreover have "closed_run (qa_events_only (evs @ [ErrorEv a b]))" for a b
      using nt by (intro closed_runI[of evs]) (auto simp: qa_events_only_def)
    ultimately show ?thesis using nt by (auto simp: qa_generate_def l st c closed_degraded split: if_splits)
  next
    case 3
    let ?cs = "qa_citations (qv_citation env) req answer (case result of Some r \<Rightarrow> rr_chunks r | None \<Rightarrow> [])"
    have "list_all (\<lambda>e. \<not> terminal e) (evs @ map CitationEv ?cs)" using nt by (auto simp: list_all_iff)
    with 3 show ?thesis
      by (intro closed_runI[of "evs @ map CitationEv ?cs" "DoneEv (length ?cs) False"])
        (auto simp: qa_generate_def l st c Let_def split: if_splits option.splits)
  qed
qed

lemma qa_generate_done:
  assumes "DoneEv n False \<in> set (qn_events (qa_generate env req mc prompt result))"
  obtains l chunks stop evs answer k fin where "qa_llm_request req prompt mc = Inr l" "qv_stream env l = (chunks, stop)"
    "qa_consume 0 0 chunks = (evs, answer, k, fin)" "fin \<noteq> Errored"
    "qn_events (qa_generate env req mc prompt result) = evs
       @ map CitationEv (qa_citations (qv_citation env) req answer (case result of Some r \<Rightarrow> rr_chunks r | None \<Rightarrow> []))
       @ [DoneEv (length (qa_citations (qv_citation env) req answer (case result of Some r \<Rightarrow> rr_chunks r | None \<Rightarrow> []))) False]"
    "qn_saved (qa_generate env req mc prompt result) = (if qv_memory env then Some answer else None)"
proof -
  obtain l where l: "qa_llm_request req prompt mc = Inr l"
    using assms by (cases "qa_llm_request req prompt mc") (auto simp: qa_generate_def)
  obtain chunks stop where st: "qv_stream env l = (chunks, stop)" by fastforce
  obtain evs answer k fin where c: "qa_consume 0 0 chunks = (evs, answer, k, fin)" by (metis prod_cases4)
  have nt: "DoneEv n False \<notin> set evs"
    using qa_consume_not_terminal[OF c] by (force simp: list_all_iff)
  have ok: "fin \<noteq> Errored" "(if fin = RanOut then stop else None) = None"
    using assms nt by (auto simp: qa_generate_def l st c qa_events_only_def degraded_events_def split: if_splits option.splits)
  then show thesis
    by (intro that[OF l st c ok(1)]) (auto simp: qa_generate_def l st c Let_def split: if_splits)
qed

lemma qa_citations_authorized:
  assumes "c \<in> set (qa_citations svc req answer chunks)" "qr_resource_ids req \<noteq> []"
  shows "ct_resource_id c \<in> set (qr_resource_ids req)"
proof -
  from assms(1) obtain snip m where
    "c \<in> set (cr_citations (build_citations snip m answer chunks (qr_resource_ids req)))"
    by (auto simp: qa_citations_def split: option.splits if_splits prod.splits)
  then show ?thesis
    using assms(2)
    by (auto simp: build_citations_def citation_validate_spec authorized_for_def split: sum.splits dest!: in_set_takeD)
qed

lemma qa_citations_none: "qa_citations svc req answer [] = []"
  by (auto simp: qa_citations_def split: option.splits prod.splits)

section \<open>Properties\<close>

definition demo_qa_request :: qa_request where
  "demo_qa_request = \<lparr>qr_question = str ''q'', qr_conversation_id = str ''c'', qr_message_id = str ''m'', qr_user_id = str ''u1'',
     qr_resource_ids = [str ''r1''], qr_history = [], qr_top_k = None, qr_score_threshold = None,
     qr_max_context_tokens = None, qr_temperature = Some (1 / 2), qr_max_tokens = Some 64\<rparr>"

definition demo_qa_env :: qa_env where
  "demo_qa_env = \<lparr>qv_rag = (\<lambda>_. Inr \<lparr>rr_chunks = [demo_chunk ''c1''], rr_prompt = str ''p'', rr_context_token_count = 1\<rparr>),
     qv_stream = mock_stream [str ''see [^1]''], qv_citation = Some (200, 8), qv_memory = True\<rparr>"

lemma demo_qa_valid: "qa_request_valid demo_qa_request"
  by (simp add: qa_request_valid_def demo_qa_request_def len_between_def opt_all_def blank_iff is_space_def)

text \<open>The one way out of the stream that is not an event: retrieval returns an empty prompt. The messages
  are built before the \<open>try\<close> that guards the LLM stream, so the validation error of \<open>Message\<close>
  escapes and the client gets no event at all.\<close>

definition empty_prompt_retrieved :: "qa_env \<Rightarrow> qa_request \<Rightarrow> bool" where
  "empty_prompt_retrieved env req \<longleftrightarrow> qr_resource_ids req \<noteq> []
     \<and> (case sbind (qa_retrieval_request req) (qv_rag env) of Inr result \<Rightarrow> rr_prompt result = [] | Inl e \<Rightarrow> False)"

lemma qa_generate_empty_prompt:
  "qa_generate env req mc [] result
     = \<lparr>qn_events = [], qn_saved = None, qn_escaped = Some (validation_error ''Message'')\<rparr>"
proof -
  have "\<not> list_all message_valid (build_messages req [] mc)"
    by (simp add: build_messages_def message_valid_def)
  then show ?thesis by (simp add: qa_generate_def qa_llm_request_def llm_request_new_def)
qed

lemma empty_prompt_escapes:
  assumes "empty_prompt_retrieved env req"
  shows "stream_answer env mc req
    = \<lparr>qn_events = [], qn_saved = None, qn_escaped = Some (validation_error ''Message'')\<rparr>"
  using assms
  by (auto simp: empty_prompt_retrieved_def stream_answer_def qa_generate_empty_prompt split: sum.splits)

text \<open>C10: every answer stream is properly closed. For a valid request, whatever retrieval and the LLM do,
  the client receives exactly one terminal event, \<open>done\<close> or \<open>error\<close>, it is the last event, and
  no exception escapes, unless the retrieval succeeds with an empty prompt; in that one case there is no event
  and the validation error of \<open>Message\<close> escapes.\<close>

theorem qa_stream_closed:
  assumes "qa_request_valid req"
  shows "if empty_prompt_retrieved env req
    then qn_events (stream_answer env mc req) = []
      \<and> qn_escaped (stream_answer env mc req) = Some (validation_error ''Message'')
    else (\<exists>pre t. qn_events (stream_answer env mc req) = pre @ [t] \<and> terminal t \<and> list_all (\<lambda>e. \<not> terminal e) pre)
      \<and> qn_escaped (stream_answer env mc req) = None"
proof -
  have q: "qr_question req \<noteq> []" using assms(1) by (auto simp: qa_request_valid_def len_between_def)
  have err: "closed_run (qa_events_only [ErrorEv a b])" for a b
    by (rule closed_runI[of "[]"]) (auto simp: qa_events_only_def)
  have "closed_run (stream_answer env mc req)" if "\<not> empty_prompt_retrieved env req"
    using qa_generate_closed[OF assms(1) q] qa_generate_closed[OF assms(1)] that err
    by (auto simp: stream_answer_def empty_prompt_retrieved_def split: sum.splits)
  then show ?thesis by (auto simp: closed_run_def empty_prompt_escapes)
qed

theorem qa_stream_closed_witness:
  "(\<exists>pre t. qn_events (stream_answer demo_qa_env [] demo_qa_request) = pre @ [t] \<and> terminal t)
   \<and> qn_escaped (stream_answer (demo_qa_env\<lparr>qv_rag := \<lambda>_. Inr \<lparr>rr_chunks = [], rr_prompt = [], rr_context_token_count = 0\<rparr>\<rparr>)
       [] demo_qa_request) = Some (validation_error ''Message'')"
proof -
  let ?bad = "demo_qa_env\<lparr>qv_rag := \<lambda>_. Inr \<lparr>rr_chunks = [], rr_prompt = [], rr_context_token_count = 0\<rparr>\<rparr>"
  have "\<not> empty_prompt_retrieved demo_qa_env demo_qa_request" "empty_prompt_retrieved ?bad demo_qa_request" by code_simp+
  with qa_stream_closed[OF demo_qa_valid, of demo_qa_env "[]"] qa_stream_closed[OF demo_qa_valid, of ?bad "[]"]
  show ?thesis by auto
qed

text \<open>What the client assembles is the answer. When a run ends with an undegraded \<open>done\<close>, the
  \<open>chunk\<close> events are numbered 0, 1, \<dots> without gaps and their deltas concatenate to the answer
  that is saved as a memory turn.\<close>

theorem qa_chunks_are_the_answer:
  assumes "DoneEv n False \<in> set (qn_events (stream_answer env mc req))" and "qv_memory env"
  shows "\<exists>answer. qn_saved (stream_answer env mc req) = Some answer
    \<and> concat (map fst (chunk_parts (qn_events (stream_answer env mc req)))) = answer
    \<and> map snd (chunk_parts (qn_events (stream_answer env mc req)))
        = [0 ..< length (chunk_parts (qn_events (stream_answer env mc req)))]"
proof -
  obtain prompt result where g: "stream_answer env mc req = qa_generate env req mc prompt result"
    using assms(1) by (auto simp: stream_answer_def qa_events_only_def split: if_splits sum.splits)
  from assms(1)[unfolded g] obtain l chunks stop evs answer k fin where
    c: "qa_consume 0 0 chunks = (evs, answer, k, fin)"
    and ev: "qn_events (qa_generate env req mc prompt result) = evs
       @ map CitationEv (qa_citations (qv_citation env) req answer (case result of Some r \<Rightarrow> rr_chunks r | None \<Rightarrow> []))
       @ [DoneEv (length (qa_citations (qv_citation env) req answer (case result of Some r \<Rightarrow> rr_chunks r | None \<Rightarrow> []))) False]"
    and sv: "qn_saved (qa_generate env req mc prompt result) = (if qv_memory env then Some answer else None)"
    by (rule qa_generate_done)
  have p: "chunk_parts (qn_events (qa_generate env req mc prompt result)) = chunk_parts evs" by (simp add: ev)
  from qa_consume_parts[OF c] have "map snd (chunk_parts evs) = [0 ..< k]" "concat (map fst (chunk_parts evs)) = answer" by auto
  moreover from this(1) have "length (chunk_parts evs) = k" by (metis diff_zero length_map length_upt)
  ultimately show ?thesis using sv assms(2) by (simp add: g p)
qed

lemma demo_qa_run:
  "DoneEv 1 False \<in> set (qn_events (stream_answer demo_qa_env [] demo_qa_request))"
  by code_simp

theorem qa_chunks_are_the_answer_witness:
  "\<exists>answer. qn_saved (stream_answer demo_qa_env [] demo_qa_request) = Some answer
     \<and> concat (map fst (chunk_parts (qn_events (stream_answer demo_qa_env [] demo_qa_request)))) = answer"
  using qa_chunks_are_the_answer[OF demo_qa_run] by (auto simp: demo_qa_env_def)

text \<open>C11: the client only gets citations of resources it asked about.\<close>

theorem qa_citations_in_scope:
  assumes "CitationEv c \<in> set (qn_events (stream_answer env mc req))"
  shows "ct_resource_id c \<in> set (qr_resource_ids req)"
proof -
  have no: "CitationEv c \<notin> set evs" if "qa_consume i j chunks = (evs, a, k, fin)" for i j chunks evs a k fin
    using that
  proof (induction i j chunks arbitrary: evs a k fin rule: qa_consume.induct)
    case (2 ci ri ch cs)
    then show ?case by (auto simp: Let_def split: if_splits option.splits prod.splits)
  qed simp
  have auth: "c \<in> set (qa_citations (qv_citation env) req answer (case result of Some r \<Rightarrow> rr_chunks r | None \<Rightarrow> []))
      \<Longrightarrow> qr_resource_ids req \<noteq> [] \<or> result = None \<Longrightarrow> ct_resource_id c \<in> set (qr_resource_ids req)" for answer result
    using qa_citations_authorized qa_citations_none by (cases result) fastforce+
  have gen: "\<exists>answer. c \<in> set (qa_citations (qv_citation env) req answer (case result of Some r \<Rightarrow> rr_chunks r | None \<Rightarrow> []))"
    if "CitationEv c \<in> set (qn_events (qa_generate env req mc prompt result))" for prompt result
    using that no
    by (auto simp: qa_generate_def Let_def qa_events_only_def degraded_events_def
        split: sum.splits prod.splits if_splits option.splits)
  from assms obtain prompt result where "CitationEv c \<in> set (qn_events (qa_generate env req mc prompt result))"
    and r: "qr_resource_ids req \<noteq> [] \<or> result = None"
    by (auto simp: stream_answer_def qa_events_only_def split: if_splits sum.splits)
  from gen[OF this(1)] auth[OF _ r] show ?thesis by blast
qed

lemma demo_qa_citation:
  "\<exists>c. CitationEv c \<in> set (qn_events (stream_answer demo_qa_env [] demo_qa_request))"
proof -
  have "list_ex (\<lambda>e. case e of CitationEv c \<Rightarrow> True | _ \<Rightarrow> False) (qn_events (stream_answer demo_qa_env [] demo_qa_request))"
    by code_simp
  then obtain e where e: "e \<in> set (qn_events (stream_answer demo_qa_env [] demo_qa_request))"
    and cit: "case e of CitationEv c \<Rightarrow> True | _ \<Rightarrow> False" unfolding list_ex_iff by blast
  from cit obtain c where "e = CitationEv c" by (cases e) simp_all
  with e show ?thesis by blast
qed

theorem qa_citations_in_scope_witness:
  "\<exists>c. CitationEv c \<in> set (qn_events (stream_answer demo_qa_env [] demo_qa_request)) \<and> ct_resource_id c = str ''r1''"
proof -
  obtain c where c: "CitationEv c \<in> set (qn_events (stream_answer demo_qa_env [] demo_qa_request))"
    using demo_qa_citation by blast
  from qa_citations_in_scope[OF c] c show ?thesis by (auto simp: demo_qa_request_def)
qed

text \<open>A temperature of zero is not honoured. The request model admits 0, but \<open>temperature or 0.7\<close>
  replaces it, so the LLM is called with 0.7.\<close>

theorem qa_temperature_zero_ignored:
  "\<exists>l. qa_llm_request (demo_qa_request\<lparr>qr_temperature := Some 0\<rparr>) (str ''p'') [] = Inr l \<and> lr_temperature l = 7 / 10"
  by (simp add: qa_llm_request_def demo_qa_request_def num_or_def llm_request_new_def build_messages_def message_valid_def)

end
