(* ===== verification/Web_Search.thy ===== *)
theory Web_Search
  imports LLM Py_Values
begin

text \<open>
  The web search tool of the agent (\<open>app/agent/tools/web_search_tool.py\<close>, \<open>search_providers.py\<close>,
  \<open>web_search_config.py\<close>): the sliding window rate limiter, the tool with its retries and fallback
  response, and the parsers of the provider replies. The subprocess that fetches a reply is a
  parameter; a reply is a JSON value, and \<open>dump\<close> is Python's \<open>str\<close> on values that are not
  strings.
\<close>

section \<open>Data\<close>

record provider_config =
  pc_api_key :: pystr
  pc_base_url :: pystr
  pc_timeout :: pyfloat

record web_search_config =
  wc_provider :: pystr
  wc_top_k :: int
  wc_max_top_k :: int
  wc_rate_limit_per_minute :: int
  wc_max_retries :: int
  wc_snippet_max_length :: int
  wc_curl :: provider_config
  wc_serper :: provider_config
  wc_bing :: provider_config

definition default_web_search_config :: web_search_config where
  "default_web_search_config = \<lparr>wc_provider = str ''curl'', wc_top_k = 5, wc_max_top_k = 10,
     wc_rate_limit_per_minute = 20, wc_max_retries = 2, wc_snippet_max_length = 200,
     wc_curl = \<lparr>pc_api_key = [], pc_base_url = str ''https://api.duckduckgo.com/'', pc_timeout = 10\<rparr>,
     wc_serper = \<lparr>pc_api_key = [], pc_base_url = str ''https://google.serper.dev/search'', pc_timeout = 10\<rparr>,
     wc_bing = \<lparr>pc_api_key = [], pc_base_url = str ''https://api.bing.microsoft.com/v7.0/search'', pc_timeout = 10\<rparr>\<rparr>"

record web_request =
  wq_query :: pystr
  wq_top_k :: int

record web_result =
  wr_title :: pystr
  wr_url :: pystr
  wr_snippet :: pystr

record web_response =
  wp_results :: "web_result list"
  wp_fallback :: bool

definition web_request_new :: "pystr \<Rightarrow> int \<Rightarrow> exn + web_request" where
  "web_request_new query top_k =
     (if 1 \<le> length query \<and> length query \<le> 200 \<and> 1 \<le> top_k \<and> top_k \<le> 10
      then Inr \<lparr>wq_query = query, wq_top_k = top_k\<rparr> else Inl (validation_error ''WebSearchRequest''))"

section \<open>Provider replies\<close>

text \<open>\<open>str(d.get(k) or e)\<close>.\<close>

definition str_get :: "(json \<Rightarrow> pystr) \<Rightarrow> json_dict \<Rightarrow> string \<Rightarrow> pystr \<Rightarrow> pystr" where
  "str_get dump d k e = (case map_of d (str k) of
     Some v \<Rightarrow> if json_truthy v then (case v of JStr s \<Rightarrow> s | _ \<Rightarrow> dump v) else e
   | None \<Rightarrow> e)"

text \<open>\<open>v.get(\<dots>)\<close> needs a dictionary; a slice needs a list or a string, whose characters are then skipped
  as items that are not dictionaries; iteration also accepts a dictionary, whose keys are skipped.\<close>

definition as_dict :: "json \<Rightarrow> exn + json_dict" where
  "as_dict v = (case v of JObj d \<Rightarrow> Inr d | _ \<Rightarrow> Inl attribute_error)"

definition sliced :: "int \<Rightarrow> json option \<Rightarrow> exn + json list" where
  "sliced n v = (case v of None \<Rightarrow> Inr [] | Some (JArr xs) \<Rightarrow> Inr (py_take n xs) | Some (JStr s) \<Rightarrow> Inr []
     | Some _ \<Rightarrow> Inl (type_error []))"

definition iterated :: "json option \<Rightarrow> exn + json list" where
  "iterated v = (case v of None \<Rightarrow> Inr [] | Some (JArr xs) \<Rightarrow> Inr xs | Some (JStr s) \<Rightarrow> Inr []
     | Some (JObj d) \<Rightarrow> Inr [] | Some _ \<Rightarrow> Inl (type_error []))"

definition truncate_value :: "pystr \<Rightarrow> int \<Rightarrow> pystr" where
  "truncate_value value max_length = (if 0 < max_length then py_take max_length value else value)"

lemma map_of_size: "map_of d k = Some v \<Longrightarrow> size v \<le> size_list (size_prod (\<lambda>_. 0) size) d"
proof (induction d)
  case (Cons p d)
  then show ?case by (cases p) (auto split: if_splits)
qed simp

text \<open>\<open>_flatten_related_topics\<close>: groups of topics are expanded, items that are not objects dropped.\<close>

function flatten_related_topics :: "json list \<Rightarrow> json_dict list" where
  "flatten_related_topics [] = []"
| "flatten_related_topics (item # items) =
     (case item of
        JObj d \<Rightarrow>
          (case map_of d (str ''Topics'') of
             Some (JArr topics) \<Rightarrow> flatten_related_topics topics
           | _ \<Rightarrow> [d])
      | _ \<Rightarrow> []) @ flatten_related_topics items"
  by pat_completeness auto

termination
proof (relation "measure (size_list size)", goal_cases)
  case (2 item items d a topics)
  then have "size (JArr topics) \<le> size_list (size_prod (\<lambda>_. 0) size) d" using map_of_size by metis
  with 2 show ?case by simp
qed auto

definition SEP_DASH :: pystr where
  "SEP_DASH = str '' - ''"

fun curl_topics :: "(json \<Rightarrow> pystr) \<Rightarrow> web_search_config \<Rightarrow> int \<Rightarrow> web_result list \<Rightarrow> json_dict list \<Rightarrow> web_result list" where
  "curl_topics dump cfg top_k results [] = results"
| "curl_topics dump cfg top_k results (item # items) =
     (if top_k \<le> int (length results) then results
      else let txt = str_get dump item ''Text'' []; first_url = str_get dump item ''FirstURL'' []
           in if txt = [] \<or> first_url = [] then curl_topics dump cfg top_k results items
              else curl_topics dump cfg top_k
                     (results @ [\<lparr>wr_title = str_or (take 80 (hd (py_split SEP_DASH txt))) (str ''DuckDuckGo result''),
                        wr_url = first_url, wr_snippet = truncate_value txt (wc_snippet_max_length cfg)\<rparr>]) items)"

text \<open>The result made of the abstract; a record with an empty title is refused.\<close>

definition curl_abstract :: "(json \<Rightarrow> pystr) \<Rightarrow> web_search_config \<Rightarrow> json_dict \<Rightarrow> exn + web_result list" where
  "curl_abstract dump cfg d =
     (let abstract = str_get dump d ''AbstractText'' []; abstract_url = str_get dump d ''AbstractURL'' [];
          heading = str_get dump d ''Heading'' (str ''DuckDuckGo result'')
      in if abstract = [] \<or> abstract_url = [] then Inr []
         else if heading = [] then Inl (validation_error ''WebSearchResult'')
         else Inr [\<lparr>wr_title = heading, wr_url = abstract_url,
                    wr_snippet = truncate_value abstract (wc_snippet_max_length cfg)\<rparr>])"

definition curl_parse_response :: "(json \<Rightarrow> pystr) \<Rightarrow> web_search_config \<Rightarrow> json \<Rightarrow> int \<Rightarrow> exn + web_result list" where
  "curl_parse_response dump cfg raw top_k =
     sbind (as_dict raw) (\<lambda>d. sbind (curl_abstract dump cfg d) (\<lambda>results.
     sbind (iterated (map_of d (str ''RelatedTopics''))) (\<lambda>items.
       Inr (py_take top_k (curl_topics dump cfg top_k results (flatten_related_topics items))))))"

text \<open>The loop Serper and Bing share, with the keys of the title and of the address.\<close>

fun parse_items :: "(json \<Rightarrow> pystr) \<Rightarrow> web_search_config \<Rightarrow> string \<Rightarrow> string \<Rightarrow> json list \<Rightarrow> web_result list" where
  "parse_items dump cfg title_key url_key [] = []"
| "parse_items dump cfg title_key url_key (item # items) =
     (case item of
        JObj d \<Rightarrow>
          (let title = str_get dump d title_key []; url = str_get dump d url_key []
           in if title = [] \<or> url = [] then []
              else [\<lparr>wr_title = title, wr_url = url,
                     wr_snippet = truncate_value (str_get dump d ''snippet'' []) (wc_snippet_max_length cfg)\<rparr>])
      | _ \<Rightarrow> []) @ parse_items dump cfg title_key url_key items"

definition serper_parse_response :: "(json \<Rightarrow> pystr) \<Rightarrow> web_search_config \<Rightarrow> json \<Rightarrow> int \<Rightarrow> exn + web_result list" where
  "serper_parse_response dump cfg raw top_k =
     sbind (as_dict raw) (\<lambda>d. sbind (sliced top_k (map_of d (str ''organic''))) (\<lambda>items.
       Inr (parse_items dump cfg ''title'' ''link'' items)))"

definition bing_parse_response :: "(json \<Rightarrow> pystr) \<Rightarrow> web_search_config \<Rightarrow> json \<Rightarrow> int \<Rightarrow> exn + web_result list" where
  "bing_parse_response dump cfg raw top_k =
     sbind (as_dict raw) (\<lambda>d.
     sbind (case map_of d (str ''webPages'') of None \<Rightarrow> Inr [] | Some v \<Rightarrow> as_dict v) (\<lambda>pages.
     sbind (sliced top_k (map_of pages (str ''value''))) (\<lambda>items.
       Inr (parse_items dump cfg ''name'' ''url'' items))))"

definition mock_parse_response :: "json \<Rightarrow> int \<Rightarrow> exn + web_result list" where
  "mock_parse_response raw top_k = Inr (py_take top_k [\<lparr>wr_title = str ''Mock web result'',
     wr_url = str ''https://example.com/mock-web-result'',
     wr_snippet = str ''Mock search result for local development and CI.''\<rparr>])"

datatype search_provider = CurlSearchProvider | SerperProvider | BingProvider | MockSearchProvider

definition build_search_provider :: "web_search_config \<Rightarrow> exn + search_provider" where
  "build_search_provider cfg =
     (if wc_provider cfg = str ''curl'' then Inr CurlSearchProvider
      else if wc_provider cfg = str ''serper''
      then (if pc_api_key (wc_serper cfg) = [] then Inl (raise_msg WebSearchConfigError (str ''SERPER_API_KEY '' @
        [0x672A, 0x914D, 0x7F6E]))
            else Inr SerperProvider)
      else if wc_provider cfg = str ''bing''
      then (if pc_api_key (wc_bing cfg) = [] then Inl (raise_msg WebSearchConfigError (str ''BING_API_KEY '' @
        [0x672A, 0x914D, 0x7F6E]))
            else Inr BingProvider)
      else if wc_provider cfg = str ''mock'' then Inr MockSearchProvider
      else Inl (raise_msg WebSearchConfigError (([0x4E0D, 0x652F, 0x6301, 0x7684] @
        str '' Web Search provider: '') @ wc_provider cfg)))"

definition parse_response ::
  "search_provider \<Rightarrow> (json \<Rightarrow> pystr) \<Rightarrow> web_search_config \<Rightarrow> json \<Rightarrow> int \<Rightarrow> exn + web_result list" where
  "parse_response p dump cfg raw top_k = (case p of
     CurlSearchProvider \<Rightarrow> curl_parse_response dump cfg raw top_k
   | SerperProvider \<Rightarrow> serper_parse_response dump cfg raw top_k
   | BingProvider \<Rightarrow> bing_parse_response dump cfg raw top_k
   | MockSearchProvider \<Rightarrow> mock_parse_response raw top_k)"

text \<open>\<open>search\<close>: the mock provider parses the empty object, the others what they fetch.\<close>

definition provider_search ::
  "search_provider \<Rightarrow> (json \<Rightarrow> pystr) \<Rightarrow> web_search_config \<Rightarrow> (web_request \<Rightarrow> 'p \<Rightarrow> 'p \<times> (exn + json)) \<Rightarrow>
     web_request \<Rightarrow> 'p \<Rightarrow> 'p \<times> (exn + web_result list)" where
  "provider_search p dump cfg curl_json req s =
     (if p = MockSearchProvider then (s, parse_response p dump cfg (JObj []) (wq_top_k req))
      else case curl_json req s of
             (s', r) \<Rightarrow> (s', sbind r (\<lambda>raw. parse_response p dump cfg raw (wq_top_k req))))"

section \<open>Rate limiting and the tool\<close>

definition rate_limit_error :: "string \<Rightarrow> exn" where
  "rate_limit_error msg = PyException ''RateLimitExceededError'' (str msg)"

text \<open>\<open>SlidingWindowRateLimiter.acquire\<close> on the deque of call times, at the time \<open>now\<close>.\<close>

definition acquire :: "int \<Rightarrow> pyfloat \<Rightarrow> pyfloat \<Rightarrow> pyfloat list \<Rightarrow> pyfloat list \<times> (exn + unit)" where
  "acquire limit window now calls =
     (if limit \<le> 0 then (calls, Inl (rate_limit_error ''web search disabled by rate limit''))
      else let live = dropWhile (\<lambda>t. window \<le> now - t) calls
           in if limit \<le> int (length live) then (live, Inl (rate_limit_error ''web search rate limit exceeded''))
              else (live @ [now], Inr ()))"

definition search_with_retries ::
  "web_search_config \<Rightarrow> (web_request \<Rightarrow> 'p \<Rightarrow> 'p \<times> (exn + 'a)) \<Rightarrow> web_request \<Rightarrow> 'p \<Rightarrow> 'p \<times> (exn + 'a)" where
  "search_with_retries cfg search req = retrying (attempts_left (max 1 (wc_max_retries cfg))) (\<lambda>_. False) (search req)"

definition is_validation_error :: "exn \<Rightarrow> bool" where
  "is_validation_error e = (case e of PyException c m \<Rightarrow> c = ''ValidationError'' | APIException a \<Rightarrow> False)"

text \<open>\<open>WebSearchTool.invoke\<close>: the state is the provider's and the limiter's deque.\<close>

definition web_invoke ::
  "web_search_config \<Rightarrow> (web_request \<Rightarrow> 'p \<Rightarrow> 'p \<times> (exn + web_result list)) \<Rightarrow> pyfloat \<Rightarrow> pystr \<Rightarrow> int option \<Rightarrow>
     'p \<times> pyfloat list \<Rightarrow> ('p \<times> pyfloat list) \<times> (exn + web_response)" where
  "web_invoke cfg search now query top_k st =
     (case web_request_new (py_strip query)
             (min (case top_k of Some k \<Rightarrow> if k = 0 then wc_top_k cfg else k | None \<Rightarrow> wc_top_k cfg) (wc_max_top_k cfg)) of
        Inl e \<Rightarrow> (st, Inl e)
      | Inr req \<Rightarrow>
          (case acquire (wc_rate_limit_per_minute cfg) 60 now (snd st) of
             (calls, Inl e) \<Rightarrow> ((fst st, calls), Inr \<lparr>wp_results = [], wp_fallback = True\<rparr>)
           | (calls, Inr _) \<Rightarrow>
               (case search_with_retries cfg search req (fst st) of
                  (p, Inr results) \<Rightarrow> ((p, calls), Inr \<lparr>wp_results = results, wp_fallback = False\<rparr>)
                | (p, Inl e) \<Rightarrow>
                    if is_validation_error e then ((p, calls), Inl e)
                    else ((p, calls), Inr \<lparr>wp_results = [], wp_fallback = True\<rparr>))))"

definition web_block_request :: "web_result list \<Rightarrow> exn + llm_request" where
  "web_block_request results = llm_request_new
     [\<lparr>ms_role = str ''user'', ms_content = [0x8BF7, 0x5C06, 0x4EE5, 0x4E0B, 0x7F51, 0x7EDC,
       0x641C, 0x7D22, 0x7ED3, 0x679C, 0x6458, 0x8981, 0x4E3A, 0x7B80, 0x6D01, 0x4FE1, 0x606F,
       0xFF0C, 0x6807, 0x6CE8, 0x4E3A, 0x300C, 0x7F51, 0x7EDC, 0x6765, 0x6E90, 0x300D, 0xFF1A,
       0xA] @
       py_join [10] (map (\<lambda>r. str ''- '' @ wr_title r @ str '': '' @ wr_snippet r @ str '' ('' @ wr_url r @ str '')'') results)\<rparr>]
     (1 / 5) 512"

definition summarize_and_inject :: "(llm_request \<Rightarrow> exn + llm_response) \<Rightarrow> web_result list \<Rightarrow> exn + pystr" where
  "summarize_and_inject complete_fn results =
     (if results = [] then Inr []
      else sbind (web_block_request results) (\<lambda>req. sbind (complete_fn req) (\<lambda>response.
             Inr ([0x3010, 0x7F51, 0x7EDC, 0x6765, 0x6E90, 0x3011] @ lp_content response))))"

section \<open>The limiter as a state machine\<close>

text \<open>
  The limiter over time: \<open>admitted\<close> are the times of all calls let through since the start,
  \<open>calls\<close> the deque, \<open>clock\<close> the time of the last call. The monotonic clock never goes back.
\<close>

inductive limiter_run :: "int \<Rightarrow> pyfloat \<Rightarrow> pyfloat list \<Rightarrow> pyfloat list \<Rightarrow> pyfloat \<Rightarrow> bool" for limit window where
  start: "limiter_run limit window [] [] clock"
| admit: "limiter_run limit window admitted calls clock \<Longrightarrow> clock \<le> now \<Longrightarrow>
    acquire limit window now calls = (calls', Inr ()) \<Longrightarrow> limiter_run limit window (admitted @ [now]) calls' now"
| refuse: "limiter_run limit window admitted calls clock \<Longrightarrow> clock \<le> now \<Longrightarrow>
    acquire limit window now calls = (calls', Inl e) \<Longrightarrow> limiter_run limit window admitted calls' now"

lemma dropWhile_old:
  fixes now window :: pyfloat
  shows "sorted ts \<Longrightarrow> dropWhile (\<lambda>t. window \<le> now - t) ts = filter (\<lambda>t. now - t < window) ts"
proof (induction ts)
  case (Cons t ts)
  then have "\<not> window \<le> now - t \<Longrightarrow> u \<in> set ts \<Longrightarrow> now - u < window" for u by force
  with Cons show ?case by (auto simp: not_le)
qed simp

text \<open>What the deque holds: the admitted calls that were in the window at the last call.\<close>

definition limiter_inv :: "int \<Rightarrow> pyfloat \<Rightarrow> pyfloat list \<Rightarrow> pyfloat list \<Rightarrow> pyfloat \<Rightarrow> bool" where
  "limiter_inv limit window admitted calls clock \<longleftrightarrow>
     (\<exists>old. admitted = old @ calls \<and> list_all (\<lambda>t. window \<le> clock - t) old) \<and> sorted admitted
     \<and> list_all (\<lambda>t. t \<le> clock) admitted"

lemma limiter_live:
  assumes "limiter_inv limit window admitted calls clock" "clock \<le> now"
  shows "dropWhile (\<lambda>t. window \<le> now - t) calls = filter (\<lambda>t. now - t < window) admitted"
proof -
  obtain old where a: "admitted = old @ calls" and o: "list_all (\<lambda>t. window \<le> clock - t) old"
    using assms(1) by (auto simp: limiter_inv_def)
  have "sorted calls" using assms(1) a by (auto simp: limiter_inv_def sorted_append)
  then have "dropWhile (\<lambda>t. window \<le> now - t) calls = filter (\<lambda>t. now - t < window) calls" by (rule dropWhile_old)
  moreover have "filter (\<lambda>t. now - t < window) old = []"
    using o assms(2) by (force simp: list_all_iff filter_empty_conv)
  ultimately show ?thesis by (simp add: a)
qed

lemma limiter_inv_keep:
  assumes "limiter_inv limit window admitted calls clock" "clock \<le> now"
  shows "limiter_inv limit window admitted (dropWhile (\<lambda>t. window \<le> now - t) calls) now"
proof -
  obtain old where a: "admitted = old @ calls" and o: "list_all (\<lambda>t. window \<le> clock - t) old"
    using assms(1) by (auto simp: limiter_inv_def)
  let ?p = "\<lambda>t. window \<le> now - t"
  have "admitted = (old @ takeWhile ?p calls) @ dropWhile ?p calls" by (simp add: a)
  moreover have "list_all ?p (old @ takeWhile ?p calls)"
    using o assms(2) by (force simp: list_all_iff dest: set_takeWhileD)
  moreover have "list_all (\<lambda>t. t \<le> now) admitted"
    using assms by (force simp: limiter_inv_def list_all_iff)
  ultimately show ?thesis using assms(1) unfolding limiter_inv_def by blast
qed

lemma limiter_inv_add:
  assumes "limiter_inv limit window admitted calls now"
  shows "limiter_inv limit window (admitted @ [now]) (calls @ [now]) now"
  using assms by (auto simp: limiter_inv_def sorted_append list_all_iff)

lemma limiter_run_inv: "limiter_run limit window admitted calls clock \<Longrightarrow> limiter_inv limit window admitted calls clock"
proof (induction rule: limiter_run.induct)
  case (start clock)
  then show ?case by (simp add: limiter_inv_def)
next
  case (admit admitted calls clock now calls')
  then have "calls' = dropWhile (\<lambda>t. window \<le> now - t) calls @ [now]"
    by (auto simp: acquire_def Let_def split: if_splits)
  with limiter_inv_add[OF limiter_inv_keep[OF admit.IH admit.hyps(2)]] show ?case by simp
next
  case (refuse admitted calls clock now calls' e)
  then have "calls' = calls \<and> limit \<le> 0 \<or> calls' = dropWhile (\<lambda>t. window \<le> now - t) calls"
    by (auto simp: acquire_def Let_def split: if_splits)
  then show ?case
  proof
    assume "calls' = calls \<and> limit \<le> 0"
    with refuse.IH refuse.hyps(2) show ?case by (force simp: limiter_inv_def list_all_iff)
  next
    assume "calls' = dropWhile (\<lambda>t. window \<le> now - t) calls"
    with limiter_inv_keep[OF refuse.IH refuse.hyps(2)] show ?case by simp
  qed
qed

lemma acquire_admits_iff:
  assumes "limiter_inv limit window admitted calls clock" "clock \<le> now"
  shows "snd (acquire limit window now calls) = Inr () \<longleftrightarrow>
    int (length (filter (\<lambda>t. now - t < window) admitted)) < limit"
  unfolding acquire_def Let_def limiter_live[OF assms] by simp

lemma window_bound:
  "limiter_run limit window admitted calls clock \<Longrightarrow>
     int (length (filter (\<lambda>x. t - window < x \<and> x \<le> t) admitted)) \<le> max 0 limit"
proof (induction rule: limiter_run.induct)
  case (admit admitted calls clock now calls')
  have inv: "limiter_inv limit window admitted calls clock" using admit.hyps(1) by (rule limiter_run_inv)
  show ?case
  proof (cases "now \<le> t")
    case True
    have "length (filter (\<lambda>x. t - window < x \<and> x \<le> t) admitted) \<le> length (filter (\<lambda>x. now - x < window) admitted)"
      by (induction admitted) (use True in auto)
    moreover have "int (length (filter (\<lambda>x. now - x < window) admitted)) < limit"
      using acquire_admits_iff[OF inv admit.hyps(2)] admit.hyps(3) by simp
    ultimately show ?thesis by simp
  qed (use admit.IH in simp)
qed simp_all

section \<open>Properties\<close>

text \<open>C15: the rate limit is exact. After any sequence of calls, a call at a later time is let through
  exactly when fewer than \<open>limit\<close> calls were let through in the window that ends now; hence no window,
  wherever it ends, contains more than \<open>limit\<close> admitted calls.\<close>

theorem rate_limiter_exact:
  assumes "limiter_run limit window admitted calls clock" "clock \<le> now"
  shows "(snd (acquire limit window now calls) = Inr () \<longleftrightarrow>
      int (length (filter (\<lambda>t. now - t < window) admitted)) < limit)
    \<and> int (length (filter (\<lambda>x. t - window < x \<and> x \<le> t) admitted)) \<le> max 0 limit"
  using acquire_admits_iff[OF limiter_run_inv[OF assms(1)] assms(2)] window_bound[OF assms(1)] by simp

lemma demo_limiter: "limiter_run 2 60 [0, 10] [0, 10] 10"
proof -
  have a: "limiter_run 2 60 ([] @ [0]) [0] 0"
    by (rule limiter_run.admit[OF limiter_run.start[where clock = 0]]) (simp_all add: acquire_def)
  have "limiter_run 2 60 ([0] @ [10]) [0, 10] 10"
    by (rule limiter_run.admit[where calls = "[0]" and clock = 0]) (use a in \<open>simp_all add: acquire_def\<close>)
  then show ?thesis by simp
qed

theorem rate_limiter_exact_witness:
  "snd (acquire 2 60 20 [0, 10]) \<noteq> Inr () \<and> snd (acquire 2 60 60 [0, 10]) = Inr ()
     \<and> length (filter (\<lambda>x. 15 - 60 < x \<and> x \<le> (15 :: pyfloat)) [0, 10]) \<le> 2"
  using rate_limiter_exact[OF demo_limiter, of 20 15] rate_limiter_exact[OF demo_limiter, of 60 15] by simp

lemma truncate_fits: "n \<le> 0 \<or> int (length (truncate_value s n)) \<le> n"
  by (auto simp: truncate_value_def py_take_def)

definition good_result :: "web_search_config \<Rightarrow> web_result \<Rightarrow> bool" where
  "good_result cfg r \<longleftrightarrow> wr_title r \<noteq> [] \<and> wr_url r \<noteq> []
     \<and> (wc_snippet_max_length cfg \<le> 0 \<or> int (length (wr_snippet r)) \<le> wc_snippet_max_length cfg)"

lemma curl_topics_good:
  "list_all (good_result cfg) results \<Longrightarrow> list_all (good_result cfg) (curl_topics dump cfg top_k results items)"
proof (induction dump cfg top_k results items rule: curl_topics.induct)
  case (2 dump cfg top_k results item items)
  have "str_or a (str ''DuckDuckGo result'') \<noteq> []" for a by (simp add: str_or_def str_def)
  with 2 show ?case by (auto simp: Let_def good_result_def truncate_fits)
qed simp

lemma parse_items_good: "list_all (good_result cfg) (parse_items dump cfg tk uk items)"
  by (induction items) (auto simp: Let_def good_result_def truncate_fits split: json.splits)

lemma parse_items_length: "length (parse_items dump cfg tk uk items) \<le> length items"
  by (induction items) (auto simp: Let_def split: json.splits)

lemma sliced_length: "sliced n v = Inr xs \<Longrightarrow> 0 \<le> n \<Longrightarrow> int (length xs) \<le> n"
  by (auto simp: sliced_def length_py_take split: option.splits json.splits)

lemma list_all_py_take: "list_all P xs \<Longrightarrow> list_all P (py_take n xs)"
  using set_py_take by (fastforce simp: list_all_iff)

lemma curl_parse_good:
  assumes "curl_parse_response dump cfg raw k = Inr rs" "0 \<le> k"
  shows "int (length rs) \<le> k \<and> list_all (good_result cfg) rs"
proof -
  from assms(1) obtain d rs0 items where rs: "rs = py_take k (curl_topics dump cfg k rs0 items)" and r0: "curl_abstract dump cfg d = Inr rs0"
    by (auto simp: curl_parse_response_def sbind_Inr_iff)
  from r0 have "list_all (good_result cfg) rs0"
    by (auto simp: curl_abstract_def Let_def good_result_def truncate_fits split: if_splits)
  with rs show ?thesis using assms(2) by (simp add: length_py_take list_all_py_take curl_topics_good)
qed

text \<open>What a provider hands on. Whatever JSON the remote service sends, parsing either raises or
  yields at most \<open>top_k\<close> results, each with a title and an address and a snippet within the
  configured length.\<close>

theorem parse_response_bounded:
  assumes "parse_response p dump cfg raw k = Inr rs" "1 \<le> k"
  shows "int (length rs) \<le> k \<and> list_all (\<lambda>r. wr_title r \<noteq> [] \<and> wr_url r \<noteq> []) rs
    \<and> (p = MockSearchProvider \<or> list_all (good_result cfg) rs)"
proof -
  have weaken: "list_all (good_result cfg) xs \<Longrightarrow> list_all (\<lambda>r. wr_title r \<noteq> [] \<and> wr_url r \<noteq> []) xs" for xs
    by (auto simp: list_all_iff good_result_def)
  show ?thesis
proof (cases p)
  case CurlSearchProvider
  with assms curl_parse_good[of dump cfg raw k rs] weaken show ?thesis by (simp add: parse_response_def)
next
  case SerperProvider
  with assms obtain items where "rs = parse_items dump cfg ''title'' ''link'' items" "int (length items) \<le> k"
    by (auto simp: parse_response_def serper_parse_response_def sbind_Inr_iff dest: sliced_length)
  with parse_items_length[of dump cfg "''title''" "''link''" items] parse_items_good weaken show ?thesis by simp
next
  case BingProvider
  with assms obtain items where "rs = parse_items dump cfg ''name'' ''url'' items" "int (length items) \<le> k"
    by (auto simp: parse_response_def bing_parse_response_def sbind_Inr_iff dest: sliced_length)
  with parse_items_length[of dump cfg "''name''" "''url''" items] parse_items_good weaken show ?thesis by simp
next
  case MockSearchProvider
  with assms show ?thesis by (auto simp: parse_response_def mock_parse_response_def py_take_def str_def)
qed
qed

definition demo_reply :: json where
  "demo_reply = JObj [(str ''organic'', JArr [JObj [(str ''title'', JStr [65]), (str ''link'', JStr [66])], JNull])]"

theorem parse_response_bounded_witness:
  "\<exists>rs. parse_response SerperProvider (\<lambda>_. []) default_web_search_config demo_reply 5 = Inr rs
     \<and> int (length rs) \<le> 5 \<and> list_all (good_result default_web_search_config) rs"
proof -
  have "\<exists>rs. parse_response SerperProvider (\<lambda>_. []) default_web_search_config demo_reply 5 = Inr rs"
    by (simp add: parse_response_def serper_parse_response_def demo_reply_def as_dict_def sliced_def str_def sbind_def)
  then obtain rs where "parse_response SerperProvider (\<lambda>_. []) default_web_search_config demo_reply 5 = Inr rs" ..
  with parse_response_bounded[OF this] show ?thesis by auto
qed

lemma long_query_refused: "200 < length (py_strip query) \<Longrightarrow> web_invoke cfg search now query top_k st = (st, Inl (validation_error ''WebSearchRequest''))"
  by (simp add: web_invoke_def web_request_new_def)

text \<open>Web search degrades, it does not fail. For a query of 1 to 200 characters and limits in range,
  whatever the provider does short of producing an invalid result record, the tool answers; when the rate
  limit is reached or every attempt fails, with no results and the \<open>fallback\<close> flag, and the provider
  is not called at all when the limit is reached.\<close>

theorem web_invoke_degrades:
  assumes "1 \<le> length (py_strip query)" "length (py_strip query) \<le> 200"
    and "1 \<le> min (wc_top_k cfg) (wc_max_top_k cfg)" "min (wc_top_k cfg) (wc_max_top_k cfg) \<le> 10"
    and "\<And>req p p' e. search req p = (p', Inl e) \<Longrightarrow> \<not> is_validation_error e"
  shows "\<exists>p' calls' resp. web_invoke cfg search now query None (p, calls) = ((p', calls'), Inr resp)
    \<and> (wp_fallback resp \<longrightarrow> wp_results resp = [])
    \<and> (snd (acquire (wc_rate_limit_per_minute cfg) 60 now calls) \<noteq> Inr () \<longrightarrow> wp_fallback resp \<and> p' = p)"
proof -
  obtain req where req: "web_request_new (py_strip query) (min (wc_top_k cfg) (wc_max_top_k cfg)) = Inr req"
    using assms(1-4) by (simp add: web_request_new_def)
  have nv: "\<not> is_validation_error e" if "retrying n f (search r) s = (s', Inl e)" for n f r s s' e
    using that
  proof (induction n f "search r" s rule: retrying.induct)
    case (1 left fatal s)
    then show ?case
      by (subst (asm) (2) retrying.simps) (auto split: prod.splits sum.splits nat.splits if_splits dest: assms(5))
  qed
  show ?thesis
    using req nv by (auto simp: web_invoke_def search_with_retries_def split: prod.splits sum.splits)
qed

theorem web_invoke_degrades_witness:
  "\<exists>p' calls' resp. web_invoke default_web_search_config (\<lambda>_ n. (Suc n, Inl (type_error []))) 0 (str ''query'') None (0, [])
       = ((p', calls'), Inr resp) \<and> (wp_fallback resp \<longrightarrow> wp_results resp = [])"
proof -
  have "\<exists>p' calls' resp. web_invoke default_web_search_config (\<lambda>_ n. (Suc n, Inl (type_error []))) 0 (str ''query'') None (0, [])
       = ((p', calls'), Inr resp) \<and> (wp_fallback resp \<longrightarrow> wp_results resp = [])
     \<and> (snd (acquire (wc_rate_limit_per_minute default_web_search_config) 60 0 []) \<noteq> Inr () \<longrightarrow> wp_fallback resp \<and> p' = 0)"
    by (rule web_invoke_degrades)
      (auto simp: default_web_search_config_def type_error_def is_validation_error_def py_strip_def is_space_def str_def)
  then show ?thesis by blast
qed

end
