(* ===== verification/Agent.thy ===== *)
theory Agent
  imports QA Web_Search
begin

text \<open>
  The agent workflow (\<open>app/agent\<close>): intent routing, the nodes, the runner that drives them and
  turns state changes into events, and the checkpointer. The retrieval service, the LLM client and the
  web search tool are parameters; \<open>WebSearchTool.invoke\<close> of the theory of web search is one
  instance, at the limiter state of the moment. \<open>str\<close> of a float is a parameter.
\<close>

section \<open>Requests, state and configuration\<close>

record agent_request =
  ag_question :: pystr
  ag_conversation_id :: pystr
  ag_message_id :: pystr
  ag_user_id :: pystr
  ag_resource_ids :: "pystr list"
  ag_history :: "llm_message list"
  ag_intent :: "pystr option"
  ag_enable_web_search :: bool
  ag_top_k :: "int option"
  ag_score_threshold :: "pyfloat option"
  ag_max_context_tokens :: "int option"
  ag_temperature :: "pyfloat option"
  ag_max_tokens :: "int option"

definition VALID_INTENTS :: "pystr list" where
  "VALID_INTENTS = [str ''summarize'', str ''qa'', str ''compare'', str ''generate'']"

definition agent_request_valid :: "agent_request \<Rightarrow> bool" where
  "agent_request_valid req \<longleftrightarrow>
     len_between 1 2000 (ag_question req) \<and> ag_conversation_id req \<noteq> [] \<and> ag_message_id req \<noteq> [] \<and> ag_user_id req \<noteq> []
     \<and> length (ag_resource_ids req) \<le> 100 \<and> list_all message_valid (ag_history req)
     \<and> opt_all (\<lambda>i. i \<in> set VALID_INTENTS) (ag_intent req)
     \<and> opt_all (\<lambda>k. 1 \<le> k \<and> k \<le> 100) (ag_top_k req) \<and> opt_all (\<lambda>t. 0 \<le> t \<and> t \<le> 1) (ag_score_threshold req)
     \<and> opt_all (\<lambda>n. 1 \<le> n) (ag_max_context_tokens req) \<and> opt_all (\<lambda>t. 0 \<le> t \<and> t \<le> 2) (ag_temperature req)
     \<and> opt_all (\<lambda>n. 0 < n) (ag_max_tokens req) \<and> \<not> list_ex blank (ag_resource_ids req)"

record agent_config =
  ac_enabled :: bool
  ac_recursion_limit :: int
  ac_max_iterations :: int
  ac_default_intent :: pystr
  ac_enable_dynamic_intent :: bool
  ac_enable_web_search :: bool
  ac_compare_concurrency :: int
  ac_fallback_message :: pystr
  ac_emit_node_events :: bool

definition default_agent_config :: agent_config where
  "default_agent_config = \<lparr>ac_enabled = True, ac_recursion_limit = 12, ac_max_iterations = 3,
     ac_default_intent = str ''qa'', ac_enable_dynamic_intent = False, ac_enable_web_search = True,
     ac_compare_concurrency = 3, ac_fallback_message = [0x62B1, 0x6B49, 0xFF0C, 0x6682, 0x65E0,
       0x6CD5, 0x751F, 0x6210, 0x7B54, 0x6848, 0xFF0C, 0x8BF7, 0x7A0D, 0x540E, 0x91CD, 0x8BD5],
     ac_emit_node_events = True\<rparr>"

text \<open>\<open>AgentState\<close>; the citations are kept as records.\<close>

record agent_state =
  as_messages :: "llm_message list"
  as_intent :: pystr
  as_question :: pystr
  as_conversation_id :: pystr
  as_message_id :: pystr
  as_user_id :: pystr
  as_resource_ids :: "pystr list"
  as_retrieved_chunks :: "retrieval_chunk list"
  as_draft_answer :: pystr
  as_final_answer :: pystr
  as_citations :: "citation list"
  as_iterations :: int
  as_max_iterations :: int
  as_validation_passed :: bool
  as_low_confidence :: bool
  as_top_k :: "int option"
  as_score_threshold :: "pyfloat option"
  as_max_context_tokens :: "int option"
  as_temperature :: "pyfloat option"
  as_max_tokens :: "int option"
  as_enable_web_search :: bool
  as_memory_context :: pystr

record agent_env =
  ae_config :: agent_config
  ae_retrieve :: "retrieval_request \<Rightarrow> exn + retrieval_result"
  ae_stream :: "llm_request \<Rightarrow> llm_stream"
  ae_complete :: "llm_request \<Rightarrow> exn + llm_response"
  ae_web :: "pystr \<Rightarrow> exn + web_response"
  ae_float_str :: "pyfloat \<Rightarrow> pystr"
  ae_citation :: "(int \<times> int) option"
  ae_memory :: "pystr option"

section \<open>Routing\<close>

definition mentions :: "pystr \<Rightarrow> pystr list \<Rightarrow> bool" where
  "mentions s ws \<longleftrightarrow> list_ex (\<lambda>w. py_contains w s) ws"

definition COMPARE_WORDS :: "pystr list" where
  "COMPARE_WORDS = [[0x5BF9, 0x6BD4], [0x6BD4, 0x8F83], str ''compare'', str ''difference'',
    str ''differences'']"

definition SUMMARIZE_WORDS :: "pystr list" where
  "SUMMARIZE_WORDS = [[0x603B, 0x7ED3], [0x6458, 0x8981], [0x6982, 0x62EC], str ''summarize'',
    str ''summary'']"

definition GENERATE_WORDS :: "pystr list" where
  "GENERATE_WORDS = [[0x751F, 0x6210], [0x5199, 0x4E00, 0x6BB5], [0x521B, 0x4F5C],
    str ''generate'', str ''draft'', str ''write'']"

definition classify_by_rules :: "pystr \<Rightarrow> pystr \<Rightarrow> pystr" where
  "classify_by_rules question explicit_intent =
     (if explicit_intent \<in> set VALID_INTENTS then explicit_intent
      else let lowered = py_lower question
           in if mentions lowered COMPARE_WORDS then str ''compare''
              else if mentions lowered SUMMARIZE_WORDS then str ''summarize''
              else if mentions lowered GENERATE_WORDS then str ''generate''
              else str ''qa'')"

definition route_by_intent :: "agent_state \<Rightarrow> pystr" where
  "route_by_intent st = (let intent = str_or (as_intent st) (str ''qa'')
     in if intent \<notin> set VALID_INTENTS then str ''qa'' else intent)"

datatype route = RoutePass | RouteRetry

definition route_after_validate :: "agent_state \<Rightarrow> route" where
  "route_after_validate st =
     (if as_validation_passed st then RoutePass
      else if as_max_iterations st \<le> as_iterations st then RoutePass else RouteRetry)"

section \<open>Nodes\<close>

definition dynamic_intent :: "agent_env \<Rightarrow> pystr \<Rightarrow> exn + pystr" where
  "dynamic_intent env question =
     sbind (llm_request_new [\<lparr>ms_role = str ''user'', ms_content =
         ([0x5C06, 0x95EE, 0x9898, 0x5206, 0x7C7B, 0x4E3A] @ str '' summarize'' @ [0x3001] @
           str ''qa'' @ [0x3001] @ str ''compare'' @ [0x3001] @ str ''generate '' @ [0x4E4B,
           0x4E00, 0xFF0C, 0x53EA, 0x8F93, 0x51FA, 0x7C7B, 0x522B, 0x3002, 0xA, 0x95EE, 0x9898,
           0xFF1A]) @ question\<rparr>] 0 8) (\<lambda>req.
     sbind (ae_complete env req) (\<lambda>response. Inr (py_lower (py_strip (lp_content response)))))"

definition intent_node :: "agent_env \<Rightarrow> agent_state \<Rightarrow> exn + agent_state" where
  "intent_node env st =
     sbind (if ac_enable_dynamic_intent (ae_config env) then dynamic_intent env (as_question st)
            else Inr (classify_by_rules (as_question st) (as_intent st))) (\<lambda>intent.
     Inr (st\<lparr>as_intent := (if intent \<notin> set VALID_INTENTS then ac_default_intent (ae_config env) else intent)\<rparr>))"

definition retrieval_tool_invoke :: "agent_env \<Rightarrow> agent_state \<Rightarrow> exn + retrieval_chunk list" where
  "retrieval_tool_invoke env st =
     (let r = \<lparr>rq_question = as_question st, rq_user_id = as_user_id st, rq_resource_ids = as_resource_ids st,
               rq_top_k = num_or (as_top_k st) 5, rq_score_threshold = as_score_threshold st,
               rq_max_context_tokens = as_max_context_tokens st\<rparr>
      in if retrieval_request_valid r then sbind (ae_retrieve env r) (\<lambda>res. Inr (rr_chunks res))
         else Inl (validation_error ''RetrievalRequest''))"

definition retrieval_node :: "agent_env \<Rightarrow> agent_state \<Rightarrow> exn + agent_state" where
  "retrieval_node env st =
     (if as_resource_ids st = [] then Inr (st\<lparr>as_retrieved_chunks := [], as_citations := []\<rparr>)
      else case retrieval_tool_invoke env st of
             Inr chunks \<Rightarrow> Inr (st\<lparr>as_retrieved_chunks := chunks, as_citations := []\<rparr>)
           | Inl e \<Rightarrow> if has_class RetrievalForbiddenError e then Inl e
                      else Inr (st\<lparr>as_retrieved_chunks := [], as_citations := []\<rparr>))"

definition citations_traceable :: "citation list \<Rightarrow> retrieval_chunk list \<Rightarrow> bool" where
  "citations_traceable citations chunks =
     list_all (\<lambda>c. ct_resource_id c \<in> set (map rc_resource_id chunks)) citations"

definition validate_node :: "agent_env \<Rightarrow> agent_state \<Rightarrow> agent_state" where
  "validate_node env st =
     (let iterations = as_iterations st + 1;
          passed = (as_citations st = [] \<or> citations_traceable (as_citations st) (as_retrieved_chunks st));
          low_confidence = (\<not> passed \<and> ac_max_iterations (ae_config env) \<le> iterations)
      in st\<lparr>as_iterations := iterations, as_validation_passed := passed \<or> low_confidence,
            as_low_confidence := low_confidence, as_final_answer := as_draft_answer st\<rparr>)"

definition BASE_SYSTEM_PROMPT :: pystr where
  "BASE_SYSTEM_PROMPT = ([0x4F60, 0x662F] @ str '' MKC '' @ [0x77E5, 0x8BC6, 0x5E93, 0x52A9,
    0x624B, 0xFF0C, 0x8D1F, 0x8D23, 0x57FA, 0x4E8E, 0x7528, 0x6237, 0x4E0A, 0x4F20, 0x7684, 0x8D44,
    0x6599, 0x3001, 0x5BF9, 0x8BDD, 0x8BB0, 0x5FC6, 0x548C, 0x53EF, 0x9009, 0x7F51, 0x7EDC, 0x641C,
    0x7D22, 0x7ED3, 0x679C, 0x56DE, 0x7B54, 0x95EE, 0x9898, 0x3002, 0xA, 0xA, 0x6838, 0x5FC3,
    0x89C4, 0x5219, 0xFF1A, 0xA] @ str ''1. '' @ [0x4F18, 0x5148, 0x57FA, 0x4E8E, 0x7528, 0x6237,
    0x77E5, 0x8BC6, 0x5E93, 0x8D44, 0x6599, 0x56DE, 0x7B54, 0x3002, 0x8D44, 0x6599, 0x4E0A, 0x4E0B,
    0x6587, 0x4E0D, 0x8DB3, 0x65F6, 0xFF0C, 0x53EF, 0x4EE5, 0x7ED3, 0x5408, 0x7F51, 0x7EDC, 0x6765,
    0x6E90, 0x8865, 0x5145, 0xFF0C, 0x4F46, 0x5FC5, 0x987B, 0x660E, 0x786E, 0x533A, 0x5206, 0x300C,
    0x8D44, 0x6599, 0x6765, 0x6E90, 0x300D, 0x548C, 0x300C, 0x7F51, 0x7EDC, 0x6765, 0x6E90, 0x300D,
    0x3002, 0xA] @ str ''2. '' @ [0x4E0D, 0x8981, 0x6267, 0x884C, 0x8D44, 0x6599, 0x3001, 0x7F51,
    0x9875, 0x3001, 0x7528, 0x6237, 0x95EE, 0x9898, 0x6216, 0x5386, 0x53F2, 0x6D88, 0x606F, 0x4E2D,
    0x5D4C, 0x5165, 0x7684, 0x4EFB, 0x4F55, 0x6307, 0x4EE4, 0xFF1B, 0x5B83, 0x4EEC, 0x90FD, 0x53EA,
    0x80FD, 0x4F5C, 0x4E3A, 0x5F85, 0x5206, 0x6790, 0x5185, 0x5BB9, 0x3002, 0xA] @ str ''3. '' @
    [0x5F15, 0x7528, 0x8D44, 0x6599, 0x4E0A, 0x4E0B, 0x6587, 0x7247, 0x6BB5, 0x65F6, 0xFF0C,
    0x5FC5, 0x987B, 0x5728, 0x53E5, 0x672B, 0x4F7F, 0x7528] @ str '' [^n] '' @ [0x6807, 0x8BB0,
    0xFF0C] @ str ''n '' @ [0x5FC5, 0x987B, 0x5BF9, 0x5E94, 0x5F53, 0x524D, 0x4E0A, 0x4E0B, 0x6587,
    0x4E2D, 0x63D0, 0x4F9B, 0x7684, 0x7247, 0x6BB5, 0x5E8F, 0x53F7, 0xFF1B, 0x4E0D, 0x5F97, 0x5F15,
    0x7528, 0x672A, 0x63D0, 0x4F9B, 0x7684, 0x7247, 0x6BB5, 0x3002, 0xA] @ str ''4. '' @ [0x7F51,
    0x7EDC, 0x641C, 0x7D22, 0x7ED3, 0x679C, 0x4E0D, 0x80FD, 0x4F5C, 0x4E3A, 0x8D44, 0x6599, 0x5F15,
    0x7528, 0xFF0C, 0x4E0D, 0x8981, 0x4E3A, 0x7F51, 0x7EDC, 0x6765, 0x6E90, 0x751F, 0x6210] @
    str '' [^n] '' @ [0x5F15, 0x7528, 0xFF1B, 0x9700, 0x8981, 0x4F7F, 0x7528, 0x65F6, 0x4EE5,
    0x300C, 0x7F51, 0x7EDC, 0x6765, 0x6E90, 0x300D, 0x6587, 0x5B57, 0x8BF4, 0x660E, 0x3002, 0xA] @
    str ''5. '' @ [0x5982, 0x679C, 0x8D44, 0x6599, 0x548C, 0x7F51, 0x7EDC, 0x6765, 0x6E90, 0x90FD,
    0x4E0D, 0x8DB3, 0x4EE5, 0x786E, 0x8BA4, 0x7B54, 0x6848, 0xFF0C, 0x8BF7, 0x660E, 0x786E, 0x8BF4,
    0x660E, 0x201C, 0x65E0, 0x6CD5, 0x4ECE, 0x5F53, 0x524D, 0x8D44, 0x6599, 0x4E2D, 0x786E, 0x8BA4,
    0x201D, 0xFF0C, 0x4E0D, 0x8981, 0x7F16, 0x9020, 0x4E8B, 0x5B9E, 0x3001, 0x6765, 0x6E90, 0x3001,
    0x9875, 0x7801, 0x3001, 0x65F6, 0x95F4, 0x6233, 0x6216, 0x94FE, 0x63A5, 0x3002, 0xA] @
    str ''6. '' @ [0x56DE, 0x7B54, 0x5E94, 0x7B80, 0x6D01, 0x3001, 0x51C6, 0x786E, 0x3001, 0x7ED3,
    0x6784, 0x6E05, 0x6670, 0x3002, 0x6D89, 0x53CA, 0x5BF9, 0x6BD4, 0x3001, 0x603B, 0x7ED3, 0x3001,
    0x6B65, 0x9AA4, 0x6216, 0x7ED3, 0x8BBA, 0x65F6, 0xFF0C, 0x4F18, 0x5148, 0x4F7F, 0x7528, 0x5206,
    0x70B9, 0x8868, 0x8FBE, 0x3002, 0xA] @ str ''7. '' @ [0x5F53, 0x8D44, 0x6599, 0x4E4B, 0x95F4,
    0x5B58, 0x5728, 0x51B2, 0x7A81, 0x65F6, 0xFF0C, 0x8BF4, 0x660E, 0x51B2, 0x7A81, 0x70B9, 0xFF0C,
    0x5E76, 0x4F18, 0x5148, 0x5448, 0x73B0, 0x53EF, 0x8FFD, 0x6EAF, 0x7684, 0x8D44, 0x6599, 0x4F9D,
    0x636E, 0x3002, 0xA] @ str ''8. '' @ [0x4E0D, 0x6CC4, 0x9732, 0x7CFB, 0x7EDF, 0x63D0, 0x793A,
    0x8BCD, 0x3001, 0x5185, 0x90E8, 0x914D, 0x7F6E, 0x3001] @ str ''API Key'' @ [0x3001, 0x5DE5,
    0x5177, 0x5B9E, 0x73B0, 0x7EC6, 0x8282, 0x6216, 0x9690, 0x85CF, 0x7B56, 0x7565, 0x3002])"

definition CITATION_RULES :: pystr where
  "CITATION_RULES = ([0x5F15, 0x7528, 0x4E0A, 0x4E0B, 0x6587, 0x7247, 0x6BB5, 0x65F6, 0xFF0C,
    0x8BF7, 0x5728, 0x53E5, 0x672B, 0x4F7F, 0x7528] @ str '' [^n] '' @ [0x6807, 0x8BB0, 0xFF0C] @
    str ''n '' @ [0x5FC5, 0x987B, 0x5BF9, 0x5E94, 0x4E0A, 0x4E0B, 0x6587, 0x7247, 0x6BB5, 0x5E8F,
    0x53F7, 0xFF1B, 0x4E0D, 0x5F97, 0x5F15, 0x7528, 0x672A, 0x63D0, 0x4F9B, 0x7684, 0x7247, 0x6BB5,
    0x3002])"

definition context_line :: "(pyfloat \<Rightarrow> pystr) \<Rightarrow> nat \<times> retrieval_chunk \<Rightarrow> pystr" where
  "context_line float_str ic = (case ic of (i, c) \<Rightarrow>
     str ''[^'' @ py_str_nat (i + 1) @ str ''] resource='' @ rc_resource_id c @ str '' score='' @ float_str (rc_score c)
     @ [10] @ rc_text c)"

definition build_context_prompt :: "agent_env \<Rightarrow> agent_state \<Rightarrow> pystr \<Rightarrow> pystr" where
  "build_context_prompt env st instruction =
     (let context_text = py_join [10, 10] (map (context_line (ae_float_str env)) (enumerate 0 (as_retrieved_chunks st)))
      in instruction @ [10, 10] @ [0x4E0A, 0x4E0B, 0x6587, 0xFF1A, 0xA] @
        str_or context_text [0x65E0, 0x76F8, 0x5173, 0x77E5, 0x8BC6, 0x5E93, 0x4E0A, 0x4E0B,
        0x6587, 0x3002] @ [10, 10]
         @ [0x7528, 0x6237, 0x95EE, 0x9898, 0xFF1A] @ as_question st)"

text \<open>The web search block of the \<open>generate\<close> branch; any failure leaves the question alone.\<close>

definition web_context :: "agent_env \<Rightarrow> agent_state \<Rightarrow> pystr" where
  "web_context env st =
     (if as_enable_web_search st \<and> ac_enable_web_search (ae_config env)
      then case sbind (ae_web env (as_question st)) (\<lambda>response. summarize_and_inject (ae_complete env) (wp_results response)) of
             Inr block \<Rightarrow> if block \<noteq> [] then [10, 10] @ block else []
           | Inl e \<Rightarrow> []
      else [])"

definition build_user_content :: "agent_env \<Rightarrow> agent_state \<Rightarrow> pystr \<Rightarrow> pystr" where
  "build_user_content env st node =
     (if node = str ''qa'' then build_context_prompt env st [0x8BF7, 0x57FA, 0x4E8E, 0x8D44,
       0x6599, 0x56DE, 0x7B54, 0x95EE, 0x9898, 0x3002]
      else if node = str ''compare'' then build_context_prompt env st [0x8BF7, 0x6A2A, 0x5411,
        0x5BF9, 0x6BD4, 0x591A, 0x4E2A, 0x8D44, 0x6E90, 0x7684, 0x6838, 0x5FC3, 0x7ED3, 0x8BBA,
        0x3002]
      else if node = str ''summarize'' then build_context_prompt env st [0x8BF7, 0x57FA, 0x4E8E,
        0x8D44, 0x6599, 0x603B, 0x7ED3, 0x6838, 0x5FC3, 0x5185, 0x5BB9, 0x3002]
      else as_question st @ web_context env st)"

definition build_llm_messages :: "agent_env \<Rightarrow> agent_state \<Rightarrow> pystr \<Rightarrow> llm_message list" where
  "build_llm_messages env st node =
     (let system_parts = [BASE_SYSTEM_PROMPT] @ (if as_memory_context st \<noteq> [] then [as_memory_context st] else [])
            @ (if node \<in> {str ''qa'', str ''compare'', str ''summarize''} then [CITATION_RULES] else [])
      in [\<lparr>ms_role = str ''system'', ms_content = py_join [10, 10] system_parts\<rparr>] @ as_messages st
         @ [\<lparr>ms_role = str ''user'', ms_content = build_user_content env st node\<rparr>])"

text \<open>What \<open>stream_generation\<close> passes on: chunks with text, up to the first that ends the stream.\<close>

fun pass_chunks :: "stream_chunk list \<Rightarrow> stream_chunk list \<times> bool" where
  "pass_chunks [] = ([], False)"
| "pass_chunks (c # cs) =
     (let out = (if sc_delta c \<noteq> [] \<or> (sc_reasoning c \<noteq> None \<and> sc_reasoning c \<noteq> Some []) then [c] else [])
      in if sc_finish c = Some (str ''stop'') \<or> sc_finish c = Some (str ''error'') then (out, True)
         else case pass_chunks cs of (rest, ended) \<Rightarrow> (out @ rest, ended))"

definition stream_generation :: "agent_env \<Rightarrow> agent_state \<Rightarrow> pystr \<Rightarrow> exn + llm_stream" where
  "stream_generation env st node =
     sbind (llm_request_new (build_llm_messages env st node) (num_or (as_temperature st) (7 / 10)) (num_or (as_max_tokens st) 2048))
       (\<lambda>req. case ae_stream env req of (chunks, stop) \<Rightarrow>
          (case pass_chunks chunks of (out, ended) \<Rightarrow> Inr (out, if ended then None else stop)))"

section \<open>The runner\<close>

datatype agent_event =
    NodeStart pystr
  | NodeEnd pystr pydict
  | AChunk pystr nat
  | AReasoning pystr nat
  | ACitation citation
  | ADone int bool nat
  | AError string pystr

definition initial_state :: "agent_config \<Rightarrow> agent_request \<Rightarrow> agent_state" where
  "initial_state cfg req = \<lparr>as_messages = ag_history req,
     as_intent = (case ag_intent req of Some i \<Rightarrow> i | None \<Rightarrow> []), as_question = ag_question req,
     as_conversation_id = ag_conversation_id req, as_message_id = ag_message_id req, as_user_id = ag_user_id req,
     as_resource_ids = ag_resource_ids req, as_retrieved_chunks = [], as_draft_answer = [], as_final_answer = [],
     as_citations = [], as_iterations = 0, as_max_iterations = ac_max_iterations cfg, as_validation_passed = True,
     as_low_confidence = False, as_top_k = ag_top_k req, as_score_threshold = ag_score_threshold req,
     as_max_context_tokens = ag_max_context_tokens req, as_temperature = ag_temperature req,
     as_max_tokens = ag_max_tokens req, as_enable_web_search = ag_enable_web_search req, as_memory_context = []\<rparr>"

text \<open>One visit of the retrieve node with its events.\<close>

definition retrieve_step :: "agent_env \<Rightarrow> agent_state \<Rightarrow> (agent_event, agent_state) gen" where
  "retrieve_step env st =
     gbind (yields [NodeStart (str ''retrieve'')]) (\<lambda>_.
     gbind (awaits (retrieval_node env st)) (\<lambda>st'.
     gbind (yields [NodeEnd (str ''retrieve'') [(str ''chunks'', PInt (int (length (as_retrieved_chunks st'))))]]) (\<lambda>_.
       awaits (Inr st'))))"

text \<open>The loop over the generated chunks: events, answer, and whether it stopped at an error chunk.\<close>

fun agent_consume :: "nat \<Rightarrow> nat \<Rightarrow> stream_chunk list \<Rightarrow> agent_event list \<times> pystr \<times> bool" where
  "agent_consume ci ri [] = ([], [], False)"
| "agent_consume ci ri (c # cs) =
     (let (ev1, ci') = (if sc_delta c \<noteq> [] then ([AChunk (sc_delta c) ci], ci + 1) else ([], ci));
          (ev2, ri') = (case sc_reasoning c of
              Some r \<Rightarrow> if r \<noteq> [] then ([AReasoning r ri], ri + 1) else ([], ri)
            | None \<Rightarrow> ([], ri))
      in if sc_finish c = Some (str ''error'')
         then (ev1 @ ev2 @ [AError ''AGENT_LLM_ERROR'' [0x751F, 0x6210, 0x5931, 0x8D25]],
           sc_delta c, True)
         else case agent_consume ci' ri' cs of (evs, ans, failed) \<Rightarrow> (ev1 @ ev2 @ evs, sc_delta c @ ans, failed))"

definition generate_step :: "agent_env \<Rightarrow> agent_state \<Rightarrow> pystr \<Rightarrow> (agent_event, agent_state option) gen" where
  "generate_step env st branch =
     gbind (yields [NodeStart branch]) (\<lambda>_.
     gbind (awaits (stream_generation env st branch)) (\<lambda>(chunks, stop).
       case agent_consume 0 0 chunks of (evs, answer, failed) \<Rightarrow>
         if failed then (evs, Inr None)
         else case stop of
                Some e \<Rightarrow> (evs, Inl e)
              | None \<Rightarrow>
                  (let draft = str_or answer (ac_fallback_message (ae_config env))
                   in (evs @ [NodeEnd branch [(str ''draft_length'', PInt (int (length draft)))]],
                       Inr (Some (st\<lparr>as_draft_answer := draft\<rparr>))))))"

text \<open>The validation loop; the first argument is what is left of \<open>range(recursion_limit)\<close>.\<close>

fun validate_loop :: "agent_env \<Rightarrow> nat \<Rightarrow> agent_state \<Rightarrow> (agent_event, agent_state) gen" where
  "validate_loop env 0 st = ([], Inl (PyException ''RecursionError'' []))"
| "validate_loop env (Suc n) st =
     (let st' = validate_node env st
      in gbind (yields [NodeStart (str ''validate''), NodeEnd (str ''validate'')
              [(str ''passed'', PBool (as_validation_passed st')), (str ''iterations'', PInt (as_iterations st'))]]) (\<lambda>_.
         if route_after_validate st' = RoutePass then awaits (Inr st')
         else gbind (retrieve_step env st') (\<lambda>st''. validate_loop env n st'')))"

definition agent_build_citations :: "agent_env \<Rightarrow> agent_request \<Rightarrow> agent_state \<Rightarrow> citation list" where
  "agent_build_citations env req st =
     (case ae_citation env of
        None \<Rightarrow> []
      | Some (snip, max_citations) \<Rightarrow>
          if as_retrieved_chunks st = [] then []
          else cr_citations (build_citations snip max_citations (as_draft_answer st) (as_retrieved_chunks st) (ag_resource_ids req)))"

text \<open>
  \<open>_run_nodes\<close>. The value is the state that is checkpointed and whose answer is saved as a memory
  turn, or nothing when the run ends at an error chunk.
\<close>

definition route_step :: "agent_env \<Rightarrow> agent_state \<Rightarrow> (agent_event, agent_state \<times> pystr) gen" where
  "route_step env st =
     (let branch = route_by_intent st
      in if branch \<in> {str ''qa'', str ''compare''}
         then gbind (retrieve_step env st) (\<lambda>st'.
                awaits (Inr (st', if as_intent st' = str ''compare'' then str ''compare'' else str ''qa'')))
         else if branch = str ''summarize'' \<and> as_resource_ids st \<noteq> [] \<and> as_retrieved_chunks st = []
         then gbind (retrieve_step env st) (\<lambda>st'. awaits (Inr (st', branch)))
         else awaits (Inr (st, branch)))"

definition finish_step :: "agent_env \<Rightarrow> agent_request \<Rightarrow> agent_state \<Rightarrow> (agent_event, agent_state option) gen" where
  "finish_step env req st =
     (let citations = agent_build_citations env req st; st' = st\<lparr>as_citations := citations\<rparr>
      in (map ACitation citations @ [ADone (as_iterations st') (as_low_confidence st') (length citations)], Inr (Some st')))"

definition run_nodes :: "agent_env \<Rightarrow> agent_request \<Rightarrow> agent_state \<Rightarrow> (agent_event, agent_state option) gen" where
  "run_nodes env req st0 =
     (let st1 = (case ae_memory env of Some mc \<Rightarrow> st0\<lparr>as_memory_context := mc\<rparr> | None \<Rightarrow> st0)
      in gbind (yields [NodeStart (str ''intent'')]) (\<lambda>_.
         gbind (awaits (intent_node env st1)) (\<lambda>st2.
         gbind (yields [NodeEnd (str ''intent'') [(str ''intent'', PStr (as_intent st2))]]) (\<lambda>_.
         gbind (route_step env st2) (\<lambda>(st3, branch).
         gbind (generate_step env st3 branch) (\<lambda>r. case r of
             None \<Rightarrow> awaits (Inr None)
           | Some st4 \<Rightarrow>
               gbind (validate_loop env (nat (ac_recursion_limit (ae_config env))) st4) (\<lambda>st5.
                 finish_step env req st5)))))))"

text \<open>The checkpointer's local snapshots, by thread.\<close>

type_synonym snapshots = "pystr \<Rightarrow> agent_state option"

definition checkpoint_save :: "snapshots \<Rightarrow> pystr \<Rightarrow> agent_state \<Rightarrow> snapshots" where
  "checkpoint_save snaps thread_id st = snaps(thread_id := Some st)"

definition checkpoint_load :: "snapshots \<Rightarrow> pystr \<Rightarrow> agent_state option" where
  "checkpoint_load snaps thread_id = snaps thread_id"

record agent_run =
  an_events :: "agent_event list"
  an_snapshots :: snapshots
  an_turn :: "pystr option"

definition error_of :: "exn \<Rightarrow> agent_event" where
  "error_of e =
     (if has_class RetrievalForbiddenError e then AError ''FORBIDDEN'' (exn_message e)
      else case e of
             APIException a \<Rightarrow> AError (exc_code a) (exc_message a)
           | PyException c m \<Rightarrow>
               if c = ''RecursionError'' then AError ''AGENT_TIMEOUT'' [0x8FBE, 0x5230, 0x8FED,
                 0x4EE3, 0x4E0A, 0x9650]
               else AError ''AGENT_INTERNAL_ERROR'' (str ''Agent '' @ [0x5185, 0x90E8, 0x9519, 0x8BEF]))"

definition run_stream :: "agent_env \<Rightarrow> snapshots \<Rightarrow> agent_request \<Rightarrow> agent_run" where
  "run_stream env snaps req =
     (let st = initial_state (ae_config env) req;
          st0 = (case checkpoint_load snaps (ag_conversation_id req) of
                   Some prev \<Rightarrow> st\<lparr>as_iterations := as_iterations prev\<rparr> | None \<Rightarrow> st)
      in case run_nodes env req st0 of
           (evs, Inl e) \<Rightarrow> \<lparr>an_events = evs @ [error_of e], an_snapshots = snaps, an_turn = None\<rparr>
         | (evs, Inr None) \<Rightarrow> \<lparr>an_events = evs, an_snapshots = snaps, an_turn = None\<rparr>
         | (evs, Inr (Some st')) \<Rightarrow>
             \<lparr>an_events = evs, an_snapshots = checkpoint_save snaps (ag_conversation_id req) st',
              an_turn = (case ae_memory env of Some _ \<Rightarrow> Some (as_draft_answer st') | None \<Rightarrow> None)\<rparr>)"

end
