(* ===== verification/Agent_Props.thy ===== *)
theory Agent_Props
  imports Agent
begin

text \<open>
  Properties of the agent: how its event streams end, what they contain, what is remembered of a run,
  and that it never shows a resource the request did not name. The law the agent needs of a retrieval
  service is the locale \<open>retriever\<close>, which \<open>RetrievalService.retrieve\<close> satisfies.
\<close>

section \<open>How streams end\<close>

fun agent_terminal :: "agent_event \<Rightarrow> bool" where
  "agent_terminal (ADone i l k) = True"
| "agent_terminal (AError c m) = True"
| "agent_terminal _ = False"

fun working :: "agent_event \<Rightarrow> bool" where
  "working (ACitation c) = False"
| "working e = (\<not> agent_terminal e)"

abbreviation running :: "agent_event list \<Rightarrow> bool" where
  "running evs \<equiv> list_all working evs"

definition ended :: "agent_event list \<Rightarrow> bool" where
  "ended evs \<longleftrightarrow> (\<exists>pre t. evs = pre @ [t] \<and> agent_terminal t \<and> list_all (\<lambda>e. \<not> agent_terminal e) pre)"

lemma working_not_terminal: "working e \<Longrightarrow> \<not> agent_terminal e"
  by (cases e) auto

lemma running_not_terminal: "running evs \<Longrightarrow> list_all (\<lambda>e. \<not> agent_terminal e) evs"
  by (auto simp: list_all_iff working_not_terminal)

lemma ended_append: "running xs \<Longrightarrow> ended ys \<Longrightarrow> ended (xs @ ys)"
  unfolding ended_def using running_not_terminal by (metis append.assoc list_all_append)

lemma ended_snoc: "list_all (\<lambda>e. \<not> agent_terminal e) xs \<Longrightarrow> agent_terminal t \<Longrightarrow> ended (xs @ [t])"
  by (auto simp: ended_def)

definition working_or_error :: "agent_event \<Rightarrow> bool" where
  "working_or_error e \<longleftrightarrow> working e \<or> (\<exists>c m. e = AError c m)"

lemma working_or_error_simps [simp]:
  "working_or_error (AError c m)" "working_or_error (NodeStart n)" "working_or_error (NodeEnd n d)"
  "\<not> working_or_error (ACitation x)" "\<not> working_or_error (ADone i low k)"
  by (simp_all add: working_or_error_def)

lemma running_working_or_error: "running evs \<Longrightarrow> list_all working_or_error evs"
  by (auto simp: list_all_iff working_or_error_def)

text \<open>The chunks a client receives, with their indices.\<close>

fun agent_parts :: "agent_event list \<Rightarrow> (pystr \<times> nat) list" where
  "agent_parts [] = []"
| "agent_parts (AChunk d i # evs) = (d, i) # agent_parts evs"
| "agent_parts (_ # evs) = agent_parts evs"

lemma agent_parts_append [simp]: "agent_parts (xs @ ys) = agent_parts xs @ agent_parts ys"
  by (induction xs rule: agent_parts.induct) auto

lemma agent_parts_citations [simp]: "agent_parts (map ACitation cs) = []"
  by (induction cs) auto

section \<open>The invariant of a run\<close>

text \<open>
  What holds of the state from the start to the last validation: the request's resources, no
  citations, no chunks without resources, and the iteration count and answer given.
\<close>

definition run_inv :: "agent_request \<Rightarrow> int \<Rightarrow> agent_state \<Rightarrow> bool" where
  "run_inv req n st \<longleftrightarrow> as_resource_ids st = ag_resource_ids req \<and> as_citations st = []
     \<and> (ag_resource_ids req = [] \<longrightarrow> as_retrieved_chunks st = []) \<and> as_iterations st = n"

lemma retrieval_node_inv: "retrieval_node env st = Inr st' \<Longrightarrow> run_inv req n st \<Longrightarrow> run_inv req n st'"
  by (auto simp: retrieval_node_def run_inv_def split: if_splits sum.splits)

lemma intent_node_inv: "intent_node env st = Inr st' \<Longrightarrow> run_inv req n st \<Longrightarrow> run_inv req n st'"
  by (auto simp: intent_node_def run_inv_def sbind_Inr_iff)

lemma retrieve_step_running [simp]: "running (fst (retrieve_step env st))"
  by (cases "retrieval_node env st") (simp_all add: retrieve_step_def)

lemma retrieve_step_snd [simp]: "snd (retrieve_step env st) = retrieval_node env st"
  by (cases "retrieval_node env st") (simp_all add: retrieve_step_def)

lemma route_step_running: "running (fst (route_step env st))"
  by (simp add: route_step_def Let_def gbind_fst split: sum.splits)

lemma route_step_inv: "snd (route_step env st) = Inr (st', branch) \<Longrightarrow> run_inv req n st \<Longrightarrow> run_inv req n st'"
  by (auto simp: route_step_def Let_def gbind_snd retrieval_node_inv split: if_splits sum.splits)

lemma route_step_branch: "snd (route_step env st) = Inr (st', branch) \<Longrightarrow> branch \<in> set VALID_INTENTS"
  by (auto simp: route_step_def route_by_intent_def Let_def gbind_snd VALID_INTENTS_def split: if_splits sum.splits)

lemma route_step_parts: "agent_parts (fst (route_step env st)) = []"
proof -
  have "agent_parts (fst (retrieve_step env st)) = []"
    by (cases "retrieval_node env st") (simp_all add: retrieve_step_def)
  then show ?thesis by (simp add: route_step_def Let_def gbind_fst split: sum.splits)
qed

text \<open>The consumer of chunks, one chunk at a time.\<close>

definition chunk_events :: "nat \<Rightarrow> nat \<Rightarrow> stream_chunk \<Rightarrow> agent_event list" where
  "chunk_events ci ri c = (if sc_delta c \<noteq> [] then [AChunk (sc_delta c) ci] else [])
     @ (case sc_reasoning c of Some r \<Rightarrow> if r \<noteq> [] then [AReasoning r ri] else [] | None \<Rightarrow> [])"

definition next_chunk :: "nat \<Rightarrow> stream_chunk \<Rightarrow> nat" where
  "next_chunk ci c = (if sc_delta c \<noteq> [] then ci + 1 else ci)"

definition next_reasoning :: "nat \<Rightarrow> stream_chunk \<Rightarrow> nat" where
  "next_reasoning ri c = (case sc_reasoning c of Some r \<Rightarrow> if r \<noteq> [] then ri + 1 else ri | None \<Rightarrow> ri)"

lemma agent_consume_Cons:
  "agent_consume ci ri (c # cs) =
     (if sc_finish c = Some (str ''error'')
      then (chunk_events ci ri c @ [AError ''AGENT_LLM_ERROR'' [0x751F, 0x6210, 0x5931, 0x8D25]], sc_delta c, True)
      else case agent_consume (next_chunk ci c) (next_reasoning ri c) cs of
        (evs, ans, failed) \<Rightarrow> (chunk_events ci ri c @ evs, sc_delta c @ ans, failed))"
  by (auto simp: chunk_events_def next_chunk_def next_reasoning_def Let_def split: option.splits prod.splits)

lemma chunk_events_running [simp]: "running (chunk_events ci ri c)"
  by (auto simp: chunk_events_def split: option.splits)

lemma agent_consume_events:
  "agent_consume ci ri cs = (evs, ans, failed) \<Longrightarrow> if failed then ended evs else running evs"
proof (induction cs arbitrary: ci ri evs ans failed)
  case (Cons c cs)
  obtain evs1 ans1 failed1 where r: "agent_consume (next_chunk ci c) (next_reasoning ri c) cs = (evs1, ans1, failed1)"
    by (metis prod_cases3)
  from Cons.prems r Cons.IH[OF r] show ?case
    by (auto simp: agent_consume_Cons ended_snoc ended_append running_not_terminal simp del: agent_consume.simps split: if_splits)
qed simp

lemma generate_step_events:
  "case snd (generate_step env st branch) of
     Inr None \<Rightarrow> ended (fst (generate_step env st branch))
   | _ \<Rightarrow> running (fst (generate_step env st branch))"
proof (cases "stream_generation env st branch")
  case (Inr cs)
  obtain chunks stop where cs: "cs = (chunks, stop)" by fastforce
  obtain evs ans failed where c: "agent_consume 0 0 chunks = (evs, ans, failed)" by (metis prod_cases3)
  note a = agent_consume_events[OF c]
  have "ended evs \<Longrightarrow> ended (NodeStart branch # evs)" using ended_append[of "[NodeStart branch]" evs] by simp
  with a show ?thesis
    by (auto simp: generate_step_def Inr cs c Let_def split: option.splits if_splits)
qed (simp add: generate_step_def)

lemma agent_consume_kinds: "agent_consume ci ri cs = (evs, ans, failed) \<Longrightarrow> list_all working_or_error evs"
proof (induction cs arbitrary: ci ri evs ans failed)
  case (Cons c cs)
  have "list_all working_or_error (chunk_events ci ri c)" by (rule running_working_or_error) simp
  with Cons.prems Cons.IH show ?case
    by (auto simp: agent_consume_Cons simp del: agent_consume.simps split: if_splits prod.splits)
qed simp

lemma generate_step_kinds: "list_all working_or_error (fst (generate_step env st branch))"
  by (cases "stream_generation env st branch")
    (auto simp: generate_step_def Let_def agent_consume_kinds split: prod.splits if_splits option.splits)

lemma generate_step_state:
  assumes "snd (generate_step env st branch) = Inr (Some st')"
  shows "\<exists>draft. st' = st\<lparr>as_draft_answer := draft\<rparr>"
  using assms
  by (cases "stream_generation env st branch")
    (auto simp: generate_step_def Let_def split: prod.splits if_splits option.splits)

lemma validate_loop_running: "running (fst (validate_loop env n st))"
  by (induction env n st rule: validate_loop.induct) (simp_all add: Let_def gbind_fst split: sum.splits)

text \<open>Before the citations are built there are none, so the first validation passes.\<close>

lemma validate_at_once:
  assumes "run_inv req k st"
  shows "validate_loop env (Suc n) st =
    ([NodeStart (str ''validate''), NodeEnd (str ''validate'')
        [(str ''passed'', PBool True), (str ''iterations'', PInt (k + 1))]], Inr (validate_node env st))"
  using assms by (simp add: validate_node_def route_after_validate_def run_inv_def)

lemma finish_step_ended: "ended (fst (finish_step env req st))"
  by (simp add: finish_step_def Let_def ended_snoc list_all_iff)

section \<open>Runs\<close>

abbreviation start_state :: "agent_env \<Rightarrow> snapshots \<Rightarrow> agent_request \<Rightarrow> agent_state" where
  "start_state env snaps req \<equiv> (case checkpoint_load snaps (ag_conversation_id req) of
     Some prev \<Rightarrow> (initial_state (ae_config env) req)\<lparr>as_iterations := as_iterations prev\<rparr>
   | None \<Rightarrow> initial_state (ae_config env) req)"

definition prior_iterations :: "snapshots \<Rightarrow> pystr \<Rightarrow> int" where
  "prior_iterations snaps thread_id = (case checkpoint_load snaps thread_id of Some st \<Rightarrow> as_iterations st | None \<Rightarrow> 0)"

lemma start_state_inv: "run_inv req (prior_iterations snaps (ag_conversation_id req)) (start_state env snaps req)"
  by (auto simp: run_inv_def prior_iterations_def initial_state_def split: option.splits)

definition with_memory :: "agent_env \<Rightarrow> agent_state \<Rightarrow> agent_state" where
  "with_memory env st = (case ae_memory env of Some mc \<Rightarrow> st\<lparr>as_memory_context := mc\<rparr> | None \<Rightarrow> st)"

lemma with_memory_inv: "run_inv req n st \<Longrightarrow> run_inv req n (with_memory env st)"
  by (auto simp: with_memory_def run_inv_def split: option.splits)

text \<open>The stages of a run, one rule per way it can go.\<close>

inductive agent_path :: "agent_env \<Rightarrow> agent_request \<Rightarrow> agent_state \<Rightarrow> (agent_event, agent_state option) gen \<Rightarrow> bool" for env req st where
  no_intent: "intent_node env (with_memory env st) = Inl e \<Longrightarrow>
    agent_path env req st ([NodeStart (str ''intent'')], Inl e)"
| no_route: "intent_node env (with_memory env st) = Inr st2 \<Longrightarrow> snd (route_step env st2) = Inl e \<Longrightarrow>
    agent_path env req st ([NodeStart (str ''intent''), NodeEnd (str ''intent'') [(str ''intent'', PStr (as_intent st2))]]
      @ fst (route_step env st2), Inl e)"
| no_answer: "intent_node env (with_memory env st) = Inr st2 \<Longrightarrow> snd (route_step env st2) = Inr (st3, branch) \<Longrightarrow>
    snd (generate_step env st3 branch) = r \<Longrightarrow> r = Inr None \<or> r = Inl e \<Longrightarrow>
    agent_path env req st ([NodeStart (str ''intent''), NodeEnd (str ''intent'') [(str ''intent'', PStr (as_intent st2))]]
      @ fst (route_step env st2) @ fst (generate_step env st3 branch), r)"
| answered: "intent_node env (with_memory env st) = Inr st2 \<Longrightarrow> snd (route_step env st2) = Inr (st3, branch) \<Longrightarrow>
    snd (generate_step env st3 branch) = Inr (Some st4) \<Longrightarrow>
    agent_path env req st ([NodeStart (str ''intent''), NodeEnd (str ''intent'') [(str ''intent'', PStr (as_intent st2))]]
      @ fst (route_step env st2) @ fst (generate_step env st3 branch)
      @ fst (gbind (validate_loop env (nat (ac_recursion_limit (ae_config env))) st4) (finish_step env req)),
      snd (gbind (validate_loop env (nat (ac_recursion_limit (ae_config env))) st4) (finish_step env req)))"

lemma run_nodes_path: "agent_path env req st (run_nodes env req st)"
proof (cases "intent_node env (with_memory env st)")
  case (Inl e)
  then show ?thesis using agent_path.no_intent[OF Inl] by (simp add: run_nodes_def with_memory_def[symmetric])
next
  case i: (Inr st2)
  show ?thesis
  proof (cases "snd (route_step env st2)")
    case (Inl e)
    then show ?thesis using agent_path.no_route[OF i Inl]
      by (cases "route_step env st2") (auto simp: run_nodes_def with_memory_def[symmetric] i Let_def)
  next
    case (Inr sb)
    obtain st3 branch where sb: "sb = (st3, branch)" by fastforce
    note r = Inr[unfolded sb]
    have run: "run_nodes env req st =
       ([NodeStart (str ''intent''), NodeEnd (str ''intent'') [(str ''intent'', PStr (as_intent st2))]] @ fst (route_step env st2)
          @ fst (gbind (generate_step env st3 branch) (\<lambda>r. case r of None \<Rightarrow> awaits (Inr None) | Some st4 \<Rightarrow>
              gbind (validate_loop env (nat (ac_recursion_limit (ae_config env))) st4) (finish_step env req))),
        snd (gbind (generate_step env st3 branch) (\<lambda>r. case r of None \<Rightarrow> awaits (Inr None) | Some st4 \<Rightarrow>
              gbind (validate_loop env (nat (ac_recursion_limit (ae_config env))) st4) (finish_step env req))))"
      by (simp add: run_nodes_def with_memory_def[symmetric] i r gbind_fst gbind_snd Let_def)
    consider e where "snd (generate_step env st3 branch) = Inl e" | "snd (generate_step env st3 branch) = Inr None"
      | st4 where "snd (generate_step env st3 branch) = Inr (Some st4)"
      by (metis option.exhaust sum.exhaust)
    then show ?thesis
    proof cases
      case 1
      with agent_path.no_answer[OF i r 1] show ?thesis by (simp add: run gbind_fst gbind_snd)
    next
      case 2
      with agent_path.no_answer[OF i r 2] show ?thesis by (simp add: run gbind_fst gbind_snd)
    next
      case 3
      with agent_path.answered[OF i r 3] show ?thesis by (simp add: run gbind_fst gbind_snd)
    qed
  qed
qed

text \<open>The shape of a run that finishes: the state before validation and the events after it.\<close>

lemma agent_path_finished:
  assumes "agent_path env req st g" "snd g = Inr (Some st')" "run_inv req n st"
  obtains pre st2 st3 branch st4 where "running pre" "agent_parts pre = []" "run_inv req n st3" "branch \<in> set VALID_INTENTS"
    "intent_node env (with_memory env st) = Inr st2" "snd (route_step env st2) = Inr (st3, branch)"
    "snd (generate_step env st3 branch) = Inr (Some st4)"
    "fst g = pre @ fst (generate_step env st3 branch)
       @ [NodeStart (str ''validate''), NodeEnd (str ''validate'')
            [(str ''passed'', PBool True), (str ''iterations'', PInt (n + 1))]]
       @ fst (finish_step env req (validate_node env st4))"
    "snd (finish_step env req (validate_node env st4)) = Inr (Some st')"
  using assms
proof cases
  case (answered st2 st3 branch st4)
  have i3: "run_inv req n st3"
    using answered(2,3) assms(3) route_step_inv intent_node_inv with_memory_inv by blast
  then have i4: "run_inv req n st4" using generate_step_state[OF answered(4)] by (auto simp: run_inv_def)
  show thesis
  proof (cases "nat (ac_recursion_limit (ae_config env))")
    case 0
    with answered assms(2) show ?thesis by simp
  next
    case (Suc k)
    show ?thesis
      by (rule that[of "[NodeStart (str ''intent''), NodeEnd (str ''intent'') [(str ''intent'', PStr (as_intent st2))]]
           @ fst (route_step env st2)" st3 branch st2 st4])
        (use answered assms(2) i3 validate_at_once[OF i4] Suc in
          \<open>simp_all add: route_step_running route_step_parts route_step_branch del: validate_loop.simps\<close>)
  qed
qed (use assms(2) in auto)

lemma run_stream_Inr:
  assumes "snd (run_nodes env req (start_state env snaps req)) = Inr (Some st')"
  shows "an_events (run_stream env snaps req) = fst (run_nodes env req (start_state env snaps req))"
    "an_snapshots (run_stream env snaps req) = checkpoint_save snaps (ag_conversation_id req) st'"
    "an_turn (run_stream env snaps req) = (case ae_memory env of Some _ \<Rightarrow> Some (as_draft_answer st') | None \<Rightarrow> None)"
  using assms by (auto simp: run_stream_def Let_def split: prod.splits)

lemma run_stream_other:
  assumes "\<nexists>st'. snd (run_nodes env req (start_state env snaps req)) = Inr (Some st')"
  shows "an_snapshots (run_stream env snaps req) = snaps" "an_turn (run_stream env snaps req) = None"
  using assms by (auto simp: run_stream_def Let_def split: prod.splits sum.splits option.splits)

lemma agent_path_events:
  assumes "agent_path env req st g"
  shows "case snd g of Inl e \<Rightarrow> running (fst g) | Inr _ \<Rightarrow> ended (fst g)"
  using assms
proof cases
  case (no_answer st2 st3 branch r e)
  have p: "running ([NodeStart (str ''intent''), NodeEnd (str ''intent'') [(str ''intent'', PStr (as_intent st2))]] @ fst (route_step env st2))"
    by (simp add: route_step_running)
  from no_answer show ?thesis
    using generate_step_events[of env st3 branch] ended_append[OF p] p by (auto simp: append.assoc)
next
  case (answered st2 st3 branch st4)
  let ?v = "validate_loop env (nat (ac_recursion_limit (ae_config env))) st4"
  have p: "running ([NodeStart (str ''intent''), NodeEnd (str ''intent'') [(str ''intent'', PStr (as_intent st2))]]
      @ fst (route_step env st2) @ fst (generate_step env st3 branch) @ fst ?v)"
    using generate_step_events[of env st3 branch] answered by (simp add: route_step_running validate_loop_running)
  show ?thesis
    unfolding answered gbind_fst gbind_snd
    by (cases "snd ?v")
      (use p ended_append[OF p finish_step_ended] in \<open>auto simp: append.assoc finish_step_def Let_def\<close>)
qed (auto simp: route_step_running)

lemma agent_path_no_answer:
  assumes "agent_path env req st (evs, Inr None)"
  shows "list_all working_or_error evs"
  using assms
proof cases
  case (no_answer st2 st3 branch)
  then show ?thesis
    using generate_step_kinds[of env st3 branch] running_working_or_error[OF route_step_running[of env st2]]
    by simp
qed (auto simp: gbind_snd finish_step_def Let_def split: sum.splits)

text \<open>Citations and \<open>done\<close> are only sent by runs that finish.\<close>

lemma run_events_last:
  assumes "x \<in> set (an_events (run_stream env snaps req))" "\<not> working_or_error x"
  shows "\<exists>st'. snd (run_nodes env req (start_state env snaps req)) = Inr (Some st')"
proof -
  obtain evs r where g: "run_nodes env req (start_state env snaps req) = (evs, r)" by fastforce
  note path = run_nodes_path[of env req "start_state env snaps req", unfolded g]
  consider e where "r = Inl e" | "r = Inr None" | st' where "r = Inr (Some st')"
    by (metis option.exhaust sum.exhaust)
  then show ?thesis
  proof cases
    case (1 e)
    have "list_all working_or_error evs"
      using agent_path_events[OF path] 1 by (simp add: running_working_or_error)
    moreover have "working_or_error (error_of e)" by (auto simp: error_of_def split: exn.splits)
    ultimately show ?thesis using assms g 1 by (auto simp: run_stream_def Let_def list_all_iff)
  next
    case 2
    with agent_path_no_answer path assms g show ?thesis by (fastforce simp: run_stream_def Let_def list_all_iff)
  qed (use g in simp)
qed

section \<open>What a run leaves behind\<close>

lemma agent_consume_parts:
  "agent_consume ci ri cs = (evs, ans, failed) \<Longrightarrow>
     concat (map fst (agent_parts evs)) = ans \<and> (\<exists>k. ci \<le> k \<and> map snd (agent_parts evs) = [ci ..< k])"
proof (induction cs arbitrary: ci ri evs ans failed)
  case (Cons c cs)
  have e: "concat (map fst (agent_parts (chunk_events ci ri c))) = sc_delta c"
    "map snd (agent_parts (chunk_events ci ri c)) = [ci ..< next_chunk ci c]" "ci \<le> next_chunk ci c"
    by (auto simp: chunk_events_def next_chunk_def split: option.splits)
  obtain evs1 ans1 failed1 where r: "agent_consume (next_chunk ci c) (next_reasoning ri c) cs = (evs1, ans1, failed1)"
    by (metis prod_cases3)
  obtain k where k: "concat (map fst (agent_parts evs1)) = ans1" "next_chunk ci c \<le> k" "map snd (agent_parts evs1) = [next_chunk ci c ..< k]"
    using Cons.IH[OF r] by blast
  show ?case
  proof (cases "sc_finish c = Some (str ''error'')")
    case True
    with Cons.prems e show ?thesis by (auto simp: agent_consume_Cons simp del: agent_consume.simps)
  next
    case False
    with Cons.prems r e k upt_join[OF e(3) k(2)] show ?thesis
      by (auto simp: agent_consume_Cons simp del: agent_consume.simps intro!: exI[of _ k])
  qed
qed (auto intro!: exI)

lemma generate_step_parts:
  assumes "snd (generate_step env st branch) = Inr (Some st')"
  shows "\<exists>k. map snd (agent_parts (fst (generate_step env st branch))) = [0 ..< k]"
    "as_draft_answer st' = str_or (concat (map fst (agent_parts (fst (generate_step env st branch))))) (ac_fallback_message (ae_config env))"
proof -
  obtain chunks stop where g: "stream_generation env st branch = Inr (chunks, stop)"
    using assms by (cases "stream_generation env st branch") (auto simp: generate_step_def)
  obtain evs ans failed where c: "agent_consume 0 0 chunks = (evs, ans, failed)" by (metis prod_cases3)
  note a = agent_consume_parts[OF c]
  have f: "\<not> failed" "stop = None" using assms by (auto simp: generate_step_def g c Let_def split: if_splits option.splits)
  show "\<exists>k. map snd (agent_parts (fst (generate_step env st branch))) = [0 ..< k]"
    "as_draft_answer st' = str_or (concat (map fst (agent_parts (fst (generate_step env st branch))))) (ac_fallback_message (ae_config env))"
    using a assms f by (auto simp: generate_step_def g c Let_def)
qed

text \<open>Everything known of a finished run, for the properties below.\<close>

lemma finished_run:
  assumes "x \<in> set (an_events (run_stream env snaps req))" "\<not> working_or_error x"
  obtains pre st2 st3 branch st4 st' where "running pre" "agent_parts pre = []" "run_inv req (prior_iterations snaps (ag_conversation_id req)) st3"
    "intent_node env (with_memory env (start_state env snaps req)) = Inr st2"
    "snd (route_step env st2) = Inr (st3, branch)"
    "snd (generate_step env st3 branch) = Inr (Some st4)"
    "st' = (validate_node env st4)\<lparr>as_citations := agent_build_citations env req (validate_node env st4)\<rparr>"
    "an_events (run_stream env snaps req) = pre @ fst (generate_step env st3 branch)
       @ [NodeStart (str ''validate''), NodeEnd (str ''validate'')
            [(str ''passed'', PBool True), (str ''iterations'', PInt (prior_iterations snaps (ag_conversation_id req) + 1))]]
       @ map ACitation (as_citations st') @ [ADone (as_iterations st') (as_low_confidence st') (length (as_citations st'))]"
    "an_snapshots (run_stream env snaps req) = checkpoint_save snaps (ag_conversation_id req) st'"
    "an_turn (run_stream env snaps req) = (case ae_memory env of Some _ \<Rightarrow> Some (as_draft_answer st') | None \<Rightarrow> None)"
proof -
  obtain st' where r: "snd (run_nodes env req (start_state env snaps req)) = Inr (Some st')"
    using run_events_last[OF assms] by blast
  show thesis
  proof (rule agent_path_finished[OF run_nodes_path r start_state_inv], goal_cases)
    case (1 pre st2 st3 branch st4)
    show thesis
      by (rule that[OF 1(1,2,3,5,6,7), of st'])
        (use 1(8,9) run_stream_Inr[OF r] in \<open>auto simp: finish_step_def Let_def\<close>)
  qed
qed

lemma validate_node_props [simp]:
  "as_retrieved_chunks (validate_node env st) = as_retrieved_chunks st"
  "as_draft_answer (validate_node env st) = as_draft_answer st"
  "as_final_answer (validate_node env st) = as_draft_answer st"
  "as_resource_ids (validate_node env st) = as_resource_ids st"
  "as_iterations (validate_node env st) = as_iterations st + 1"
  by (simp_all add: validate_node_def Let_def)

lemma agent_citations_authorized:
  assumes "c \<in> set (agent_build_citations env req st)" "ag_resource_ids req = [] \<longrightarrow> as_retrieved_chunks st = []"
  shows "ct_resource_id c \<in> set (ag_resource_ids req)"
proof -
  from assms obtain snip m where "ag_resource_ids req \<noteq> []"
    "c \<in> set (cr_citations (build_citations snip m (as_draft_answer st) (as_retrieved_chunks st) (ag_resource_ids req)))"
    by (auto simp: agent_build_citations_def split: option.splits if_splits prod.splits)
  then show ?thesis
    by (auto simp: build_citations_def citation_validate_spec authorized_for_def split: sum.splits dest!: in_set_takeD)
qed

text \<open>The scope of the chunks, for any retrieval service that keeps the contract.\<close>

context retriever
begin

lemma node_scoped:
  assumes "ae_retrieve env = ret" "retrieval_node env st = Inr st'" "c \<in> set (as_retrieved_chunks st')"
  shows "rc_resource_id c \<in> set (as_resource_ids st)"
proof -
  note sc = in_scope[unfolded assms(1)[symmetric]]
  from assms(2,3) show ?thesis
    by (auto simp: retrieval_node_def retrieval_tool_invoke_def Let_def sbind_Inr_iff split: if_splits sum.splits dest!: sc)
qed

lemma route_scoped:
  assumes "ae_retrieve env = ret" "snd (route_step env st) = Inr (st', branch)" "as_retrieved_chunks st = []"
    "c \<in> set (as_retrieved_chunks st')"
  shows "rc_resource_id c \<in> set (as_resource_ids st)"
  using assms(2-4) node_scoped[OF assms(1)]
  by (auto simp: route_step_def Let_def gbind_snd split: if_splits sum.splits)

lemma run_scoped:
  assumes "ae_retrieve env = ret" "ADone i low k \<in> set (an_events (run_stream env snaps req))"
    "an_snapshots (run_stream env snaps req) (ag_conversation_id req) = Some st" "c \<in> set (as_retrieved_chunks st)"
  shows "rc_resource_id c \<in> set (ag_resource_ids req)"
proof -
  have nw: "\<not> working_or_error (ADone i low k)" by simp
  from assms(2) nw show ?thesis
  proof (rule finished_run)
    fix pre st2 st3 branch st4 st'
    assume i: "intent_node env (with_memory env (start_state env snaps req)) = Inr st2"
      and r: "snd (route_step env st2) = Inr (st3, branch)"
      and g: "snd (generate_step env st3 branch) = Inr (Some st4)"
      and st': "st' = (validate_node env st4)\<lparr>as_citations := agent_build_citations env req (validate_node env st4)\<rparr>"
      and sn: "an_snapshots (run_stream env snaps req) = checkpoint_save snaps (ag_conversation_id req) st'"
    have "c \<in> set (as_retrieved_chunks st3)"
      using assms(3,4) st' sn generate_step_state[OF g] by (auto simp: checkpoint_save_def)
    moreover have "as_retrieved_chunks st2 = []" "as_resource_ids st2 = ag_resource_ids req"
      using i by (auto simp: intent_node_def sbind_Inr_iff with_memory_def initial_state_def split: option.splits)
    ultimately show ?thesis using route_scoped[OF assms(1) r] by simp
  qed
qed

end

section \<open>Properties\<close>

definition demo_agent_request :: agent_request where
  "demo_agent_request = \<lparr>ag_question = str ''q'', ag_conversation_id = str ''c'', ag_message_id = str ''m'',
     ag_user_id = str ''u1'', ag_resource_ids = [str ''r1''], ag_history = [], ag_intent = Some (str ''qa''),
     ag_enable_web_search = False, ag_top_k = None, ag_score_threshold = None, ag_max_context_tokens = None,
     ag_temperature = Some (1 / 2), ag_max_tokens = Some 64\<rparr>"

definition demo_agent_env :: agent_env where
  "demo_agent_env = \<lparr>ae_config = default_agent_config,
     ae_retrieve = (\<lambda>_. Inr \<lparr>rr_chunks = [demo_chunk ''c1''], rr_prompt = str ''p'', rr_context_token_count = 1\<rparr>),
     ae_stream = mock_stream [str ''see [^1]''], ae_complete = (\<lambda>_. Inl (type_error [])), ae_web = (\<lambda>_. Inl (type_error [])),
     ae_float_str = (\<lambda>_. str ''0.9''), ae_citation = Some (200, 8), ae_memory = Some []\<rparr>"

lemma demo_agent_done: "ADone 1 False 1 \<in> set (an_events (run_stream demo_agent_env (\<lambda>_. None) demo_agent_request))"
  by code_simp

text \<open>C13: every agent stream is properly closed. Whatever the request, the configuration and the services
  do, the client receives exactly one \<open>done\<close> or \<open>error\<close> event, and it is the last one.\<close>

theorem agent_stream_closed: "ended (an_events (run_stream env snaps req))"
proof -
  obtain evs r where g: "run_nodes env req (start_state env snaps req) = (evs, r)" by fastforce
  have "agent_terminal (error_of e)" for e by (auto simp: error_of_def split: exn.splits)
  with agent_path_events[OF run_nodes_path[of env req "start_state env snaps req"], unfolded g] show ?thesis
    by (cases r) (auto simp: run_stream_def Let_def g ended_snoc running_not_terminal split: option.splits)
qed

text \<open>C14: the client only gets citations of resources it named, also over several turns.\<close>

theorem agent_citations_in_scope:
  assumes "ACitation c \<in> set (an_events (run_stream env snaps req))"
  shows "ct_resource_id c \<in> set (ag_resource_ids req)"
proof -
  have nw: "\<not> working_or_error (ACitation c)" by simp
  from assms nw show ?thesis
  proof (rule finished_run)
    fix pre st2 st3 branch st4 st'
    assume "running pre" and i3: "run_inv req (prior_iterations snaps (ag_conversation_id req)) st3"
      and g: "snd (generate_step env st3 branch) = Inr (Some st4)"
      and st': "st' = (validate_node env st4)\<lparr>as_citations := agent_build_citations env req (validate_node env st4)\<rparr>"
      and evs: "an_events (run_stream env snaps req) = pre @ fst (generate_step env st3 branch)
         @ [NodeStart (str ''validate''), NodeEnd (str ''validate'')
              [(str ''passed'', PBool True), (str ''iterations'', PInt (prior_iterations snaps (ag_conversation_id req) + 1))]]
         @ map ACitation (as_citations st') @ [ADone (as_iterations st') (as_low_confidence st') (length (as_citations st'))]"
    have "ACitation c \<notin> set pre" "ACitation c \<notin> set (fst (generate_step env st3 branch))"
      using \<open>running pre\<close> generate_step_kinds[of env st3 branch] nw by (force simp: list_all_iff)+
    with assms evs st' have "c \<in> set (agent_build_citations env req (validate_node env st4))" by auto
    then show ?thesis
      by (rule agent_citations_authorized)
        (use generate_step_state[OF g] i3 in \<open>auto simp: run_inv_def\<close>)
  qed
qed

lemma demo_agent_citation:
  "\<exists>c. ACitation c \<in> set (an_events (run_stream demo_agent_env (\<lambda>_. None) demo_agent_request))"
proof -
  have "list_ex (\<lambda>e. case e of ACitation c \<Rightarrow> True | _ \<Rightarrow> False) (an_events (run_stream demo_agent_env (\<lambda>_. None) demo_agent_request))"
    by code_simp
  then obtain e where e: "e \<in> set (an_events (run_stream demo_agent_env (\<lambda>_. None) demo_agent_request))"
    and cit: "case e of ACitation c \<Rightarrow> True | _ \<Rightarrow> False" unfolding list_ex_iff by blast
  from cit obtain c where "e = ACitation c" by (cases e) simp_all
  with e show ?thesis by blast
qed

theorem agent_citations_in_scope_witness:
  "\<exists>c. ACitation c \<in> set (an_events (run_stream demo_agent_env (\<lambda>_. None) demo_agent_request))
     \<and> ct_resource_id c = str ''r1''"
proof -
  obtain c where c: "ACitation c \<in> set (an_events (run_stream demo_agent_env (\<lambda>_. None) demo_agent_request))"
    using demo_agent_citation by blast
  from agent_citations_in_scope[OF c] c show ?thesis by (auto simp: demo_agent_request_def)
qed

text \<open>What enters the agent's context is in scope. With the retrieval service, every chunk a finished
  run used for its answer belongs to a resource of the request.\<close>

theorem agent_context_in_scope:
  assumes "ae_retrieve env = retrieve renv rcfg" "ADone i low k \<in> set (an_events (run_stream env snaps req))"
    "an_snapshots (run_stream env snaps req) (ag_conversation_id req) = Some st" "c \<in> set (as_retrieved_chunks st)"
  shows "rc_resource_id c \<in> set (ag_resource_ids req)"
  using assms by (rule legacy.run_scoped)

definition retrieving_env :: agent_env where
  "retrieving_env = demo_agent_env\<lparr>ae_retrieve := retrieve demo_retrieval_env default_retrieval_config\<rparr>"

lemma retrieving_env_run:
  "case run_stream retrieving_env (\<lambda>_. None) demo_agent_request of outcome \<Rightarrow>
     list_ex (\<lambda>e. e = ADone 1 False 1) (an_events outcome)
     \<and> (case an_snapshots outcome (str ''c'') of Some st \<Rightarrow> length (as_retrieved_chunks st) = 2 | None \<Rightarrow> False)"
  by code_simp

lemmas retrieving_env_runs = retrieving_env_run[THEN conjunct1] retrieving_env_run[THEN conjunct2]

theorem agent_context_in_scope_witness:
  "\<exists>st. an_snapshots (run_stream retrieving_env (\<lambda>_. None) demo_agent_request) (str ''c'') = Some st
     \<and> length (as_retrieved_chunks st) = 2 \<and> list_all (\<lambda>c. rc_resource_id c = str ''r1'') (as_retrieved_chunks st)"
proof -
  from retrieving_env_runs(2) obtain st where st: "an_snapshots (run_stream retrieving_env (\<lambda>_. None) demo_agent_request) (str ''c'') = Some st"
    and len: "length (as_retrieved_chunks st) = 2"
    by (auto split: option.splits)
  have "rc_resource_id c \<in> set (ag_resource_ids demo_agent_request)" if "c \<in> set (as_retrieved_chunks st)" for c
    by (rule agent_context_in_scope[of retrieving_env demo_retrieval_env default_retrieval_config 1 False 1 "\<lambda>_. None" _ st])
      (use st that retrieving_env_runs(1) in \<open>auto simp: retrieving_env_def list_ex_iff demo_agent_request_def\<close>)
  with st len show ?thesis by (auto simp: demo_agent_request_def list_all_iff)
qed

text \<open>The client, the checkpoint and the memory agree on the answer. When a run is done, its \<open>chunk\<close>
  events are numbered 0, 1, \<dots> without gaps; their concatenation, or the configured fallback message if
  there is none, is the answer in the checkpoint and the answer saved as a memory turn.\<close>

theorem agent_answer_saved:
  assumes "ADone i low k \<in> set (an_events (run_stream env snaps req))"
  shows "\<exists>st n. an_snapshots (run_stream env snaps req) (ag_conversation_id req) = Some st
    \<and> map snd (agent_parts (an_events (run_stream env snaps req))) = [0 ..< n]
    \<and> as_final_answer st = str_or (concat (map fst (agent_parts (an_events (run_stream env snaps req)))))
        (ac_fallback_message (ae_config env))
    \<and> an_turn (run_stream env snaps req) = (case ae_memory env of Some _ \<Rightarrow> Some (as_final_answer st) | None \<Rightarrow> None)"
proof -
  have nw: "\<not> working_or_error (ADone i low k)" by simp
  from assms nw show ?thesis
  proof (rule finished_run)
    fix pre st2 st3 branch st4 st'
    assume g: "snd (generate_step env st3 branch) = Inr (Some st4)"
      and st': "st' = (validate_node env st4)\<lparr>as_citations := agent_build_citations env req (validate_node env st4)\<rparr>"
      and evs: "an_events (run_stream env snaps req) = pre @ fst (generate_step env st3 branch)
         @ [NodeStart (str ''validate''), NodeEnd (str ''validate'')
              [(str ''passed'', PBool True), (str ''iterations'', PInt (prior_iterations snaps (ag_conversation_id req) + 1))]]
         @ map ACitation (as_citations st') @ [ADone (as_iterations st') (as_low_confidence st') (length (as_citations st'))]"
      and sn: "an_snapshots (run_stream env snaps req) = checkpoint_save snaps (ag_conversation_id req) st'"
      and turn: "an_turn (run_stream env snaps req) = (case ae_memory env of Some _ \<Rightarrow> Some (as_draft_answer st') | None \<Rightarrow> None)"
      and pre: "agent_parts pre = []"
    have parts: "agent_parts (an_events (run_stream env snaps req)) = agent_parts (fst (generate_step env st3 branch))"
      by (simp add: evs pre)
    obtain n where "map snd (agent_parts (fst (generate_step env st3 branch))) = [0 ..< n]"
      using generate_step_parts(1)[OF g] by blast
    with generate_step_parts(2)[OF g] show ?thesis
      unfolding parts sn turn
      by (intro exI[of _ st'] exI[of _ n]) (simp add: st' checkpoint_save_def split: option.split)
  qed
qed

theorem agent_answer_saved_witness:
  "\<exists>st. an_snapshots (run_stream demo_agent_env (\<lambda>_. None) demo_agent_request) (str ''c'') = Some st
     \<and> an_turn (run_stream demo_agent_env (\<lambda>_. None) demo_agent_request) = Some (as_final_answer st)"
  using agent_answer_saved[OF demo_agent_done] by (auto simp: demo_agent_request_def demo_agent_env_def)

text \<open>The retry loop is dead. Citations are built only after the validation loop, so the first
  validation always passes: a finished run validates once, after its last chunk, is never of low
  confidence, and its iteration count is one more than that of the previous turn of the conversation.\<close>

theorem validation_passes_at_once:
  assumes "ADone i low k \<in> set (an_events (run_stream env snaps req))"
  shows "\<not> low \<and> i = prior_iterations snaps (ag_conversation_id req) + 1
    \<and> (\<exists>pre cs. an_events (run_stream env snaps req) = pre @ [NodeStart (str ''validate''), NodeEnd (str ''validate'')
           [(str ''passed'', PBool True), (str ''iterations'', PInt i)]] @ map ACitation cs @ [ADone i low (length cs)])"
proof -
  have nw: "\<not> working_or_error (ADone i low k)" by simp
  from assms nw show ?thesis
  proof (rule finished_run)
    fix pre st2 st3 branch st4 st'
    assume pre: "running pre" and i3: "run_inv req (prior_iterations snaps (ag_conversation_id req)) st3"
      and g: "snd (generate_step env st3 branch) = Inr (Some st4)"
      and st': "st' = (validate_node env st4)\<lparr>as_citations := agent_build_citations env req (validate_node env st4)\<rparr>"
      and evs: "an_events (run_stream env snaps req) = pre @ fst (generate_step env st3 branch)
         @ [NodeStart (str ''validate''), NodeEnd (str ''validate'')
              [(str ''passed'', PBool True), (str ''iterations'', PInt (prior_iterations snaps (ag_conversation_id req) + 1))]]
         @ map ACitation (as_citations st') @ [ADone (as_iterations st') (as_low_confidence st') (length (as_citations st'))]"
    have i4: "run_inv req (prior_iterations snaps (ag_conversation_id req)) st4"
      using i3 generate_step_state[OF g] by (auto simp: run_inv_def)
    then have v: "as_iterations st' = prior_iterations snaps (ag_conversation_id req) + 1" "\<not> as_low_confidence st'"
      by (simp_all add: st' run_inv_def validate_node_def Let_def)
    have "ADone i low k \<notin> set pre" "ADone i low k \<notin> set (fst (generate_step env st3 branch))"
      using pre generate_step_kinds[of env st3 branch] nw by (force simp: list_all_iff)+
    with assms evs have il: "i = as_iterations st'" "low = as_low_confidence st'" by auto
    show ?thesis
      by (intro conjI exI[of _ "pre @ fst (generate_step env st3 branch)"] exI[of _ "as_citations st'"])
        (simp_all add: il v evs)
  qed
qed

theorem validation_passes_at_once_witness:
  "\<exists>pre cs. an_events (run_stream demo_agent_env (\<lambda>_. None) demo_agent_request) = pre @ [NodeStart (str ''validate''), NodeEnd (str ''validate'')
     [(str ''passed'', PBool True), (str ''iterations'', PInt 1)]] @ map ACitation cs @ [ADone 1 False (length cs)]"
  using validation_passes_at_once[OF demo_agent_done] by blast

text \<open>A sequence of requests against one checkpointer.\<close>

fun agent_session :: "agent_env \<Rightarrow> snapshots \<Rightarrow> agent_request list \<Rightarrow> snapshots" where
  "agent_session env snaps [] = snaps"
| "agent_session env snaps (req # reqs) = agent_session env (an_snapshots (run_stream env snaps req)) reqs"

fun finished_turns :: "agent_env \<Rightarrow> snapshots \<Rightarrow> agent_request list \<Rightarrow> pystr \<Rightarrow> nat" where
  "finished_turns env snaps [] thread_id = 0"
| "finished_turns env snaps (req # reqs) thread_id =
     (if ag_conversation_id req = thread_id
        \<and> list_ex (\<lambda>e. case e of ADone _ _ _ \<Rightarrow> True | _ \<Rightarrow> False) (an_events (run_stream env snaps req)) then 1 else 0)
     + finished_turns env (an_snapshots (run_stream env snaps req)) reqs thread_id"

lemma is_done_iff:
  "list_ex (\<lambda>e. case e of ADone _ _ _ \<Rightarrow> True | _ \<Rightarrow> False) evs \<longleftrightarrow> (\<exists>i low k. ADone i low k \<in> set evs)"
proof (induction evs)
  case (Cons e evs)
  then show ?case by (cases e) auto
qed simp

lemma run_counts:
  "prior_iterations (an_snapshots (run_stream env snaps req)) thread_id = prior_iterations snaps thread_id
     + (if ag_conversation_id req = thread_id
          \<and> list_ex (\<lambda>e. case e of ADone _ _ _ \<Rightarrow> True | _ \<Rightarrow> False) (an_events (run_stream env snaps req)) then 1 else 0)"
proof (cases "\<exists>st'. snd (run_nodes env req (start_state env snaps req)) = Inr (Some st')")
  case False
  have "ADone i low k \<notin> set (an_events (run_stream env snaps req))" for i low k
    using run_events_last[of "ADone i low k" env snaps req] False by auto
  with run_stream_other(1)[OF False] show ?thesis by (simp add: is_done_iff)
next
  case True
  then obtain st' where r: "snd (run_nodes env req (start_state env snaps req)) = Inr (Some st')" by blast
  obtain i low k where d: "ADone i low k \<in> set (an_events (run_stream env snaps req))" "as_iterations st' = prior_iterations snaps (ag_conversation_id req) + 1"
  proof (rule agent_path_finished[OF run_nodes_path r start_state_inv], goal_cases)
    case (1 pre st2 st3 branch st4)
    have "run_inv req (prior_iterations snaps (ag_conversation_id req)) st4"
      using 1(4) generate_step_state[OF 1(8)] by (auto simp: run_inv_def)
    then show thesis
      using 1(2,9,10) run_stream_Inr(1)[OF r]
      by (intro 1(1)[of "as_iterations st'" "as_low_confidence st'" "length (as_citations st')"])
        (auto simp: finish_step_def Let_def run_inv_def)
  qed
  then show ?thesis using run_stream_Inr(2)[OF r]
    by (auto simp: is_done_iff prior_iterations_def checkpoint_load_def checkpoint_save_def)
qed

text \<open>The iteration budget is shared by all turns. Over any sequence of requests the iteration count of
  a conversation grows by one for each of its finished runs and for nothing else: it is never reset, so
  \<open>max_iterations\<close> bounds the turns of a conversation rather than the attempts of a run; requests of
  other conversations have no influence on it.\<close>

theorem iterations_count_turns:
  "prior_iterations (agent_session env snaps reqs) thread_id =
     prior_iterations snaps thread_id + int (finished_turns env snaps reqs thread_id)"
  by (induction reqs arbitrary: snaps) (simp_all add: run_counts)

lemma agent_request_messages:
  assumes "agent_request_valid req" "as_messages st = ag_history req" "as_question st = ag_question req"
  shows "list_all message_valid (build_llm_messages env st node)"
proof -
  have "ag_question req \<noteq> []" "list_all message_valid (ag_history req)"
    using assms(1) by (auto simp: agent_request_valid_def len_between_def)
  moreover have "py_join sep (BASE_SYSTEM_PROMPT # ps) \<noteq> []" for sep ps
    by (cases ps) (simp_all add: BASE_SYSTEM_PROMPT_def)
  ultimately show ?thesis
    by (simp add: assms build_llm_messages_def Let_def message_valid_def build_user_content_def build_context_prompt_def)
qed

lemma route_step_no_resources:
  assumes "as_resource_ids st = []" "as_retrieved_chunks st = []" "as_citations st = []"
  shows "\<exists>branch. snd (route_step env st) = Inr (st, branch)"
proof -
  have "st\<lparr>as_retrieved_chunks := [], as_citations := []\<rparr> = st" using assms by (cases st) simp
  then have "retrieval_node env st = Inr st" by (simp add: retrieval_node_def assms)
  then show ?thesis by (simp add: route_step_def Let_def gbind_snd assms)
qed

lemma run_nodes_answered:
  assumes "intent_node env (with_memory env st) = Inr st2" "snd (route_step env st2) = Inr (st3, branch)"
    "snd (generate_step env st3 branch) = Inr (Some st4)" "run_inv req n st" "0 < ac_recursion_limit (ae_config env)"
  shows "run_nodes env req st = ([NodeStart (str ''intent''), NodeEnd (str ''intent'') [(str ''intent'', PStr (as_intent st2))]]
      @ fst (route_step env st2) @ fst (generate_step env st3 branch)
      @ [NodeStart (str ''validate''), NodeEnd (str ''validate'')
           [(str ''passed'', PBool True), (str ''iterations'', PInt (n + 1))]]
      @ fst (finish_step env req (validate_node env st4)), snd (finish_step env req (validate_node env st4)))"
proof -
  have i4: "run_inv req n st4"
    using route_step_inv[OF assms(2) intent_node_inv[OF assms(1) with_memory_inv[OF assms(4)]]] generate_step_state[OF assms(3)]
    by (auto simp: run_inv_def)
  obtain k where k: "nat (ac_recursion_limit (ae_config env)) = Suc k" using assms(5) by (cases "nat (ac_recursion_limit (ae_config env))") auto
  show ?thesis
    using run_nodes_path[of env req st]
  proof cases
    case (answered st2' st3' branch' st4')
    have eq: "st2' = st2" "st3' = st3" "branch' = branch" using answered(2,3) assms(1,2) by auto
    then have "st4' = st4" using answered(4) assms(3) by simp
    with eq answered(1) validate_at_once[OF i4] k show ?thesis by simp
  qed (use assms in auto)
qed

lemma error_stream_generation:
  assumes "agent_request_valid req" "as_messages st = ag_history req" "as_question st = ag_question req"
    "as_temperature st = ag_temperature req" "as_max_tokens st = ag_max_tokens req"
    "ae_stream env = (\<lambda>_. ([error_chunk], None))"
  shows "generate_step env st branch = ([NodeStart branch, NodeEnd branch [(str ''draft_length'', PInt (int (length (ac_fallback_message (ae_config env)))))]],
    Inr (Some (st\<lparr>as_draft_answer := ac_fallback_message (ae_config env)\<rparr>)))"
proof -
  have "0 \<le> num_or (as_temperature st) (7 / 10) \<and> num_or (as_temperature st) (7 / 10) \<le> 2" "0 < num_or (as_max_tokens st) 2048"
    using assms(1,4,5) by (auto simp: agent_request_valid_def opt_all_def num_or_def split: option.splits)
  moreover have "build_llm_messages env st branch \<noteq> []" by (simp add: build_llm_messages_def Let_def)
  ultimately have "stream_generation env st branch = Inr ([], None)"
    using agent_request_messages[OF assms(1-3)]
    by (auto simp: stream_generation_def llm_request_new_def assms(6) error_chunk_def sbind_def)
  then show ?thesis by (simp add: generate_step_def str_or_def Let_def)
qed

text \<open>A failing LLM is hidden. When the LLM client reports a failure the way it does, with one chunk
  that says \<open>error\<close>, a valid request without resources does not end with \<open>AGENT_LLM_ERROR\<close>:
  the client receives \<open>done\<close> and no text at all, while the checkpoint and the memory store the
  fallback message as the answer.\<close>

theorem agent_llm_failure_hidden:
  assumes "agent_request_valid req" "ag_resource_ids req = []" "\<not> ac_enable_dynamic_intent (ae_config env)"
    "0 < ac_recursion_limit (ae_config env)" "ae_stream env = (\<lambda>_. ([error_chunk], None))" "ae_memory env = Some mc"
  shows "(\<exists>pre. an_events (run_stream env snaps req) = pre @ [ADone (prior_iterations snaps (ag_conversation_id req) + 1) False 0]
       \<and> running pre \<and> agent_parts pre = [])
    \<and> an_turn (run_stream env snaps req) = Some (ac_fallback_message (ae_config env))"
proof -
  let ?st = "start_state env snaps req" and ?n = "prior_iterations snaps (ag_conversation_id req)"
  have inv: "run_inv req ?n ?st" by (rule start_state_inv)
  obtain st2 where i: "intent_node env (with_memory env ?st) = Inr st2"
    and st2: "as_messages st2 = ag_history req" "as_question st2 = ag_question req" "as_temperature st2 = ag_temperature req"
      "as_max_tokens st2 = ag_max_tokens req" "as_retrieved_chunks st2 = []"
    using assms(3) by (auto simp: intent_node_def with_memory_def initial_state_def sbind_def split: option.splits)
  have inv2: "run_inv req ?n st2" using intent_node_inv[OF i with_memory_inv[OF inv]] .
  then obtain branch where r: "snd (route_step env st2) = Inr (st2, branch)"
    using route_step_no_resources[of st2 env] st2(5) assms(2) by (auto simp: run_inv_def)
  note g = error_stream_generation[OF assms(1) st2(1-4) assms(5), of branch]
  have "run_nodes env req ?st = ([NodeStart (str ''intent''), NodeEnd (str ''intent'') [(str ''intent'', PStr (as_intent st2))]]
      @ fst (route_step env st2) @ fst (generate_step env st2 branch)
      @ [NodeStart (str ''validate''), NodeEnd (str ''validate'') [(str ''passed'', PBool True), (str ''iterations'', PInt (?n + 1))]]
      @ [ADone (?n + 1) False 0],
      Inr (Some (validate_node env (st2\<lparr>as_draft_answer := ac_fallback_message (ae_config env)\<rparr>))))"
    using run_nodes_answered[OF i r _ inv assms(4)] g inv2 st2(5)
    by (simp add: finish_step_def Let_def agent_build_citations_def run_inv_def validate_node_def split: option.splits)
  with g show ?thesis
    by (auto simp: run_stream_def Let_def assms(6) route_step_running route_step_parts
        intro!: exI[of _ "_ @ _"])
qed

definition broken_llm_env :: agent_env where
  "broken_llm_env = demo_agent_env\<lparr>ae_stream := (\<lambda>_. ([error_chunk], None))\<rparr>"

definition demo_open_request :: agent_request where
  "demo_open_request = demo_agent_request\<lparr>ag_resource_ids := []\<rparr>"

theorem agent_llm_failure_hidden_witness:
  "(\<exists>pre. an_events (run_stream broken_llm_env (\<lambda>_. None) demo_open_request) = pre @ [ADone 1 False 0]
     \<and> agent_parts pre = [])
   \<and> an_turn (run_stream broken_llm_env (\<lambda>_. None) demo_open_request) = Some (ac_fallback_message default_agent_config)"
proof -
  have "(\<exists>pre. an_events (run_stream broken_llm_env (\<lambda>_. None) demo_open_request)
        = pre @ [ADone (prior_iterations (\<lambda>_. None) (ag_conversation_id demo_open_request) + 1) False 0]
       \<and> running pre \<and> agent_parts pre = [])
    \<and> an_turn (run_stream broken_llm_env (\<lambda>_. None) demo_open_request) = Some (ac_fallback_message (ae_config broken_llm_env))"
    by (rule agent_llm_failure_hidden[where mc = "[]"])
      (simp_all add: broken_llm_env_def demo_agent_env_def default_agent_config_def demo_open_request_def
        demo_agent_request_def agent_request_valid_def len_between_def opt_all_def VALID_INTENTS_def)
  then show ?thesis
    by (auto simp: prior_iterations_def checkpoint_load_def broken_llm_env_def demo_agent_env_def)
qed

text \<open>A scope violation reaches the client. If retrieval reports that a chunk lies outside the requested
  scope, a valid question answering or comparing request ends at once with the error \<open>FORBIDDEN\<close>:
  no text is generated and neither the checkpoint nor the memory is written.\<close>

theorem agent_forbidden_reported:
  assumes "agent_request_valid req" "ag_resource_ids req \<noteq> []" "length (ag_user_id req) \<le> 128"
    "ag_intent req = Some intent" "intent \<in> {str ''qa'', str ''compare''}" "\<not> ac_enable_dynamic_intent (ae_config env)"
    "ae_retrieve env = (\<lambda>_. Inl e)" "has_class RetrievalForbiddenError e"
  shows "run_stream env snaps req = \<lparr>an_events = [NodeStart (str ''intent''), NodeEnd (str ''intent'') [(str ''intent'', PStr intent)],
      NodeStart (str ''retrieve''), AError ''FORBIDDEN'' (exn_message e)], an_snapshots = snaps, an_turn = None\<rparr>"
proof -
  let ?st = "start_state env snaps req"
  define st2 where "st2 = (with_memory env ?st)\<lparr>as_intent := intent\<rparr>"
  have valid: "intent \<in> set VALID_INTENTS" using assms(5) by (auto simp: VALID_INTENTS_def)
  have fields: "as_intent (with_memory env ?st) = intent" "as_question st2 = ag_question req" "as_user_id st2 = ag_user_id req"
    "as_resource_ids st2 = ag_resource_ids req" "as_top_k st2 = ag_top_k req" "as_score_threshold st2 = ag_score_threshold req"
    "as_max_context_tokens st2 = ag_max_context_tokens req" "as_intent st2 = intent"
    by (auto simp: st2_def with_memory_def initial_state_def assms(4) split: option.splits)
  have i: "intent_node env (with_memory env ?st) = Inr st2"
    using valid by (simp add: intent_node_def assms(6) classify_by_rules_def fields(1) sbind_def st2_def)
  have "retrieval_request_valid \<lparr>rq_question = ag_question req, rq_user_id = ag_user_id req, rq_resource_ids = ag_resource_ids req,
      rq_top_k = num_or (ag_top_k req) 5, rq_score_threshold = ag_score_threshold req, rq_max_context_tokens = ag_max_context_tokens req\<rparr>"
    using assms(1,2,3) by (auto simp: retrieval_request_valid_def agent_request_valid_def len_between_def opt_all_def num_or_def
        Suc_le_eq split: option.splits)
  then have n: "retrieval_node env st2 = Inl e"
    using assms(2,8) by (simp add: retrieval_node_def retrieval_tool_invoke_def fields assms(7) sbind_def)
  have "route_by_intent st2 = intent" using valid assms(5) by (auto simp: route_by_intent_def fields str_or_def)
  with assms(5) n have r: "route_step env st2 = ([NodeStart (str ''retrieve'')], Inl e)"
    by (auto simp: route_step_def Let_def retrieve_step_def)
  show ?thesis
    using run_nodes_path[of env req ?st]
  proof cases
    case (no_route st2' e')
    then show ?thesis using i r assms(8) fields(8) by (auto simp: run_stream_def Let_def error_of_def)
  qed (use i r in auto)
qed

theorem agent_forbidden_reported_witness:
  "\<exists>evs. an_events (run_stream (demo_agent_env\<lparr>ae_retrieve := \<lambda>_. Inl (raise_default RetrievalForbiddenError)\<rparr>) (\<lambda>_. None) demo_agent_request)
     = evs @ [AError ''FORBIDDEN'' (class_message RetrievalForbiddenError)] \<and> length evs = 3"
proof -
  have "run_stream (demo_agent_env\<lparr>ae_retrieve := \<lambda>_. Inl (raise_default RetrievalForbiddenError)\<rparr>) (\<lambda>_. None) demo_agent_request =
    \<lparr>an_events = [NodeStart (str ''intent''), NodeEnd (str ''intent'') [(str ''intent'', PStr (str ''qa''))], NodeStart (str ''retrieve''),
      AError ''FORBIDDEN'' (exn_message (raise_default RetrievalForbiddenError))], an_snapshots = (\<lambda>_. None), an_turn = None\<rparr>"
    by (rule agent_forbidden_reported)
      (simp_all add: demo_agent_env_def default_agent_config_def demo_agent_request_def agent_request_valid_def
        len_between_def opt_all_def VALID_INTENTS_def blank_iff is_space_def raise_default_def)
  then show ?thesis by (simp add: raise_default_def raise_msg_def)
qed

end
