(* ===== verification/Llama_Index.thy ===== *)
theory Llama_Index
  imports Retrieval Vector_Store Py_Values
begin

text \<open>
  The LlamaIndex retrieval path (\<open>app/services/llamaindex\<close>): metadata mapping between vector records,
  nodes and chunks, the filters, the embedding and vector store adapters, the context compressor and the
  retrieval engine. Of the LlamaIndex package the code uses nodes as data: an id, a text and a metadata
  dictionary that are given back as they were put in, and an optional score. The vector store, the
  embedding service, SHA-1 and \<open>str\<close> of floats and lists are parameters.
\<close>

section \<open>Nodes\<close>

record text_node =
  nd_id :: pystr
  nd_text :: pystr
  nd_metadata :: pydict

datatype retrieved_node = PlainNode text_node | ScoredNode text_node "pyfloat option"

section \<open>Metadata mapping\<close>

text \<open>\<open>if a not in m and b in m: m[a] = m[b]\<close>\<close>

definition alias_key :: "string \<Rightarrow> string \<Rightarrow> pydict \<Rightarrow> pydict" where
  "alias_key a b m = (case (dict_get m a, dict_get m b) of
     (None, Some v) \<Rightarrow> AList.update (str a) v m | _ \<Rightarrow> m)"

definition normalize_metadata :: "pydict \<Rightarrow> pydict" where
  "normalize_metadata m =
     alias_key ''end_sec'' ''timestamp_end'' (alias_key ''start_sec'' ''timestamp_start''
    (alias_key ''timestamp_end'' ''end_sec'' (alias_key ''timestamp_start'' ''start_sec''
    (alias_key ''source_type'' ''resource_type'' (alias_key ''resource_type'' ''source_type''
    (alias_key ''chunk_id'' ''id'' m))))))"

definition metadata_with_required_fields :: "pydict option \<Rightarrow> pystr \<Rightarrow> pystr \<Rightarrow> pystr \<Rightarrow> pydict" where
  "metadata_with_required_fields metadata chunk_id resource_id user_id =
     AList.update (str ''user_id'') (PStr user_id)
    (AList.update (str ''resource_id'') (PStr resource_id)
    (AList.update (str ''chunk_id'') (PStr chunk_id)
       (normalize_metadata (case metadata of Some m \<Rightarrow> m | None \<Rightarrow> []))))"

definition vector_record_to_node :: "vector_record \<Rightarrow> text_node" where
  "vector_record_to_node r =
     \<lparr>nd_id = ve_id r, nd_text = ve_text r,
      nd_metadata = metadata_with_required_fields (Some (ve_metadata r)) (ve_id r) (ve_resource_id r) (ve_user_id r)\<rparr>"

definition vector_search_result_to_node :: "vector_search_result \<Rightarrow> text_node" where
  "vector_search_result_to_node r =
     \<lparr>nd_id = vr_id r, nd_text = vr_text r,
      nd_metadata = AList.update (str ''score'') (PFloat (vr_score r))
        (metadata_with_required_fields (Some (vr_metadata r)) (vr_id r) (vr_resource_id r) (vr_user_id r))\<rparr>"

text \<open>\<open>float(raw)\<close>, with the exceptions \<open>TypeError\<close> and \<open>ValueError\<close> as \<open>None\<close>.\<close>

fun float_of_val :: "pyval \<Rightarrow> pyfloat option" where
  "float_of_val PNone = None"
| "float_of_val (PBool b) = Some (if b then 1 else 0)"
| "float_of_val (PInt n) = Some (of_int n)"
| "float_of_val (PFloat x) = Some x"
| "float_of_val (PStr s) = py_float_of_str s"
| "float_of_val (PList xs) = None"

definition resolve_score :: "pyfloat option \<Rightarrow> pydict \<Rightarrow> pyfloat" where
  "resolve_score score metadata =
     (case score of
        Some x \<Rightarrow> x
      | None \<Rightarrow>
          (case dict_get metadata ''score'' of
             None \<Rightarrow> 0
           | Some raw \<Rightarrow>
               if raw = PNone \<or> raw = PStr [] then 0
               else (case float_of_val raw of Some x \<Rightarrow> x | None \<Rightarrow> 0)))"

definition node_to_retrieval_chunk :: "(pyval \<Rightarrow> pystr) \<Rightarrow> text_node \<Rightarrow> pyfloat option \<Rightarrow> retrieval_chunk" where
  "node_to_retrieval_chunk rp node score =
     (let metadata = normalize_metadata (nd_metadata node)
      in \<lparr>rc_chunk_id = str_of_val rp (get_or metadata ''chunk_id'' (PStr (nd_id node))),
          rc_resource_id = str_of_val rp (get_or metadata ''resource_id'' (PStr [])),
          rc_text = nd_text node, rc_score = resolve_score score metadata, rc_metadata = metadata\<rparr>)"

definition node_with_score_to_chunk :: "(pyval \<Rightarrow> pystr) \<Rightarrow> text_node \<Rightarrow> pyfloat option \<Rightarrow> retrieval_chunk" where
  "node_with_score_to_chunk rp node score =
     node_to_retrieval_chunk rp node (Some (case score of None \<Rightarrow> 0 | Some x \<Rightarrow> x))"

fun node_to_chunk :: "(pyval \<Rightarrow> pystr) \<Rightarrow> retrieved_node \<Rightarrow> retrieval_chunk" where
  "node_to_chunk rp (ScoredNode node score) = node_with_score_to_chunk rp node score"
| "node_to_chunk rp (PlainNode node) = node_to_retrieval_chunk rp node None"

section \<open>Filters and adapters\<close>

fun normalize_ids_loop :: "pystr list \<Rightarrow> pystr list \<Rightarrow> pystr list" where
  "normalize_ids_loop seen [] = []"
| "normalize_ids_loop seen (rid # rids) =
     (let value = py_strip rid
      in if value \<noteq> [] \<and> value \<notin> set seen then value # normalize_ids_loop (value # seen) rids
         else normalize_ids_loop seen rids)"

definition normalize_resource_ids :: "pystr list \<Rightarrow> pystr list" where
  "normalize_resource_ids resource_ids = normalize_ids_loop [] resource_ids"

definition build_metadata_filters :: "pystr \<Rightarrow> pystr list \<Rightarrow> exn + scope_filter" where
  "build_metadata_filters user_id resource_ids =
     (if py_strip user_id = []
      then Inl (raise_msg InvalidRetrievalFilterError ([0x68C0, 0x7D22, 0x8FC7, 0x6EE4, 0x6761,
        0x4EF6, 0x5FC5, 0x987B, 0x5305, 0x542B] @ str '' user_id''))
      else if normalize_resource_ids resource_ids = []
      then Inl (raise_msg InvalidRetrievalFilterError ([0x68C0, 0x7D22, 0x8FC7, 0x6EE4, 0x6761,
        0x4EF6, 0x5FC5, 0x987B, 0x5305, 0x542B] @ str '' resource_ids''))
      else Inr \<lparr>f_user_id = py_strip user_id, f_resource_ids = normalize_resource_ids resource_ids\<rparr>)"

text \<open>\<open>MKCEmbeddingAdapter._embed\<close>\<close>

definition adapter_embed :: "(pystr \<Rightarrow> exn + pyfloat list) \<Rightarrow> pystr \<Rightarrow> exn + pyfloat list" where
  "adapter_embed embed_service content =
     (case embed_service content of
        Inr v \<Rightarrow> Inr v
      | Inl e \<Rightarrow> if has_class EmbeddingUnavailableError e then Inl e
                 else Inl (raise_msg EmbeddingUnavailableError [0x5411, 0x91CF, 0x751F, 0x6210,
                   0x4E0D, 0x53EF, 0x7528]))"

type_synonym scoped_search = "pyfloat list \<Rightarrow> int \<Rightarrow> scope_filter \<Rightarrow> exn + vector_search_result list"

definition search_by_vector :: "scoped_search \<Rightarrow> pyfloat list \<Rightarrow> scope_filter \<Rightarrow> int \<Rightarrow> exn + text_node list" where
  "search_by_vector store_search v filters top_k =
     (case store_search v (min top_k top_k_limit) filters of
        Inr results \<Rightarrow> Inr (map vector_search_result_to_node results)
      | Inl e \<Rightarrow> if has_class VectorStoreUnavailableError e then Inl e
                 else Inl (raise_msg VectorStoreUnavailableError [0x5411, 0x91CF, 0x5B58, 0x50A8,
                   0x4E0D, 0x53EF, 0x7528]))"

definition adapter_query ::
  "(pystr \<Rightarrow> exn + pyfloat list) \<Rightarrow> scoped_search \<Rightarrow> pystr \<Rightarrow> pystr \<Rightarrow> pystr list \<Rightarrow> int \<Rightarrow> exn + retrieved_node list" where
  "adapter_query get_query_embedding store_search question user_id resource_ids top_k =
     sbind (build_metadata_filters user_id resource_ids) (\<lambda>filters.
       sbind (get_query_embedding question) (\<lambda>v.
         sbind (search_by_vector store_search v filters top_k) (\<lambda>nodes. Inr (map PlainNode nodes))))"

section \<open>Context compressor\<close>

fun llama_compress_loop ::
  "token_estimator \<Rightarrow> int \<Rightarrow> retrieval_chunk list \<Rightarrow> nat \<Rightarrow> retrieval_chunk list \<Rightarrow> retrieval_chunk list \<times> nat" where
  "llama_compress_loop est max_tokens selected used [] = (selected, used)"
| "llama_compress_loop est max_tokens selected used (c # cs) =
     (let chunk_tokens = token_count est (rc_text c)
      in if selected \<noteq> [] \<and> max_tokens < int (used + chunk_tokens) then (selected, used)
         else llama_compress_loop est max_tokens (selected @ [c]) (used + chunk_tokens) cs)"

definition llama_compress :: "token_estimator \<Rightarrow> retrieval_chunk list \<Rightarrow> int \<Rightarrow> retrieval_chunk list \<times> nat" where
  "llama_compress est chunks max_context_tokens = llama_compress_loop est max_context_tokens [] 0 chunks"

section \<open>Retrieval engine\<close>

record llama_config =
  lc_default_top_k :: int
  lc_score_threshold :: pyfloat
  lc_max_context_tokens :: int
  lc_per_resource_candidates :: bool

definition default_llama_config :: llama_config where
  "default_llama_config = \<lparr>lc_default_top_k = 5, lc_score_threshold = 7 / 10, lc_max_context_tokens = 4096,
     lc_per_resource_candidates = True\<rparr>"

definition llama_post_init :: "llama_config \<Rightarrow> exn + llama_config" where
  "llama_post_init c =
     (if lc_default_top_k c \<le> 0 then Inl (raise_msg InvalidRetrievalRequestError (str ''default_top_k '' @
       [0x5FC5, 0x987B, 0x5927, 0x4E8E] @ str '' 0''))
      else if \<not> (0 \<le> lc_score_threshold c \<and> lc_score_threshold c \<le> 1)
      then Inl (raise_msg InvalidRetrievalRequestError (str ''score_threshold '' @ [0x5FC5, 0x987B,
        0x5728] @ str '' 0 '' @ [0x5230] @ str '' 1 '' @ [0x4E4B, 0x95F4]))
      else if lc_max_context_tokens c \<le> 0
      then Inl (raise_msg InvalidRetrievalRequestError (str ''max_context_tokens '' @ [0x5FC5,
        0x987B, 0x5927, 0x4E8E] @ str '' 0''))
      else Inr c)"

record llama_env =
  le_query :: "pystr \<Rightarrow> pystr \<Rightarrow> pystr list \<Rightarrow> int \<Rightarrow> exn + retrieved_node list"
  le_build :: "retrieval_chunk list \<Rightarrow> pystr \<Rightarrow> exn + pystr"
  le_estimator :: token_estimator
  le_sha1 :: "pystr \<Rightarrow> pystr"
  le_repr :: "pyval \<Rightarrow> pystr"

definition validate_llama_request :: "retrieval_request \<Rightarrow> exn + unit" where
  "validate_llama_request req =
     (if blank (rq_question req) then Inl (raise_msg InvalidRetrievalRequestError (str ''question '' @
       [0x4E0D, 0x80FD, 0x4E3A, 0x7A7A]))
      else if blank (rq_user_id req) then Inl (raise_msg InvalidRetrievalRequestError (str ''user_id '' @
        [0x4E0D, 0x80FD, 0x4E3A, 0x7A7A]))
      else if rq_resource_ids req = [] then Inl (raise_msg InvalidRetrievalRequestError (str ''resource_ids '' @
        [0x4E0D, 0x80FD, 0x4E3A, 0x7A7A]))
      else Inr ())"

definition use_per_resource :: "llama_config \<Rightarrow> pystr list \<Rightarrow> bool" where
  "use_per_resource cfg resource_ids \<longleftrightarrow> lc_per_resource_candidates cfg \<and> 1 < distinct_count resource_ids"

definition llama_candidate_top_k :: "llama_config \<Rightarrow> int \<Rightarrow> pystr list \<Rightarrow> int" where
  "llama_candidate_top_k cfg top_k resource_ids =
     (if \<not> use_per_resource cfg resource_ids then top_k
      else min (max (top_k * 8) (top_k + distinct_count resource_ids)) 100)"

definition retrieve_candidates ::
  "llama_env \<Rightarrow> llama_config \<Rightarrow> retrieval_request \<Rightarrow> int \<Rightarrow> exn + retrieved_node list" where
  "retrieve_candidates env cfg req top_k =
     sbind (le_query env (rq_question req) (rq_user_id req) (rq_resource_ids req)
              (llama_candidate_top_k cfg top_k (rq_resource_ids req))) (\<lambda>nodes.
       if \<not> use_per_resource cfg (rq_resource_ids req) then Inr nodes
       else sbind (smap (\<lambda>rid. le_query env (rq_question req) (rq_user_id req) [rid] 1) (fromkeys (rq_resource_ids req)))
              (\<lambda>more. Inr (nodes @ concat more)))"

definition chunk_user_id :: "(pyval \<Rightarrow> pystr) \<Rightarrow> retrieval_chunk \<Rightarrow> pystr" where
  "chunk_user_id rp c = str_of_val rp (get_or (rc_metadata c) ''user_id'' (PStr []))"

fun validate_chunks :: "(pyval \<Rightarrow> pystr) \<Rightarrow> retrieval_chunk list \<Rightarrow> pystr \<Rightarrow> pystr list \<Rightarrow> exn + unit" where
  "validate_chunks rp [] user_id resource_ids = Inr ()"
| "validate_chunks rp (c # cs) user_id resource_ids =
     (if chunk_user_id rp c \<noteq> user_id \<or> rc_resource_id c \<notin> set resource_ids
      then Inl (raise_msg LlamaIndexRetrievalForbiddenError [0x65E0, 0x6743, 0x8BBF, 0x95EE,
        0x8D44, 0x6E90])
      else validate_chunks rp cs user_id resource_ids)"

definition llama_dedup_key :: "(pystr \<Rightarrow> pystr) \<Rightarrow> retrieval_chunk \<Rightarrow> exn + pystr" where
  "llama_dedup_key sha1 c = sbind (chunk_fingerprint sha1 (rc_text c))
     (\<lambda>fp. Inr (if fp = [] then rc_resource_id c @ str '':'' @ rc_chunk_id c else fp))"

fun llama_dedup_loop :: "(pystr \<Rightarrow> pystr) \<Rightarrow> pystr list \<Rightarrow> retrieval_chunk list \<Rightarrow> exn + retrieval_chunk list" where
  "llama_dedup_loop sha1 seen [] = Inr []"
| "llama_dedup_loop sha1 seen (c # cs) =
     sbind (llama_dedup_key sha1 c) (\<lambda>key.
       if key \<in> set seen then llama_dedup_loop sha1 seen cs
       else sbind (llama_dedup_loop sha1 (key # seen) cs) (\<lambda>rest. Inr (c # rest)))"

definition llama_retrieve :: "llama_env \<Rightarrow> llama_config \<Rightarrow> retrieval_request \<Rightarrow> exn + retrieval_result" where
  "llama_retrieve env cfg req =
     sbind (validate_llama_request req) (\<lambda>_.
     let top_k = (if rq_top_k req = 0 then lc_default_top_k cfg else rq_top_k req);
         threshold = (case rq_score_threshold req of Some t \<Rightarrow> t | None \<Rightarrow> lc_score_threshold cfg);
         max_tokens = (case rq_max_context_tokens req of Some n \<Rightarrow> n | None \<Rightarrow> lc_max_context_tokens cfg)
     in sbind (case retrieve_candidates env cfg req top_k of
                 Inr nodes \<Rightarrow> Inr nodes
               | Inl e \<Rightarrow> if is_api e then Inl e else Inl (raise_msg RetrievalUnavailableError [0x68C0,
                 0x7D22, 0x4E0D, 0x53EF, 0x7528]))
          (\<lambda>nodes. let chunks = map (node_to_chunk (le_repr env)) nodes
            in sbind (validate_chunks (le_repr env) chunks (rq_user_id req) (rq_resource_ids req)) (\<lambda>_.
               sbind (if use_per_resource cfg (rq_resource_ids req)
                      then llama_dedup_loop (le_sha1 env) [] (py_sorted_desc rc_score chunks)
                      else Inr (py_sorted_desc rc_score chunks)) (\<lambda>deduped.
               case llama_compress (le_estimator env)
                      (py_take top_k (filter (\<lambda>c. threshold \<le> rc_score c) deduped)) max_tokens of
                 (compressed, tokens) \<Rightarrow>
                   sbind (le_build env compressed (rq_question req)) (\<lambda>prompt.
                     Inr \<lparr>rr_chunks = compressed, rr_prompt = prompt, rr_context_token_count = tokens\<rparr>)))))"

end
