(* ===== verification/Chunkers.thy ===== *)
theory Chunkers
  imports Chunk_Base Errors
begin

text \<open>
  The three chunking strategies (\<open>FixedTokenChunker\<close>, \<open>ParagraphChunker\<close>,
  \<open>SemanticChunker\<close>), the validation of \<open>ChunkingConfig\<close> and the dispatch of
  \<open>ChunkingService.chunk\<close>. The interface the rest of the pipeline relies on is the locale
  \<open>chunk_strategy\<close>, interpreted for each strategy.
\<close>

section \<open>ChunkingConfig\<close>

definition nl :: pystr where
  "nl = [10]"

definition DEFAULT_SEPARATORS :: "pystr list" where
  "DEFAULT_SEPARATORS =
     [nl @ str ''## '', nl @ str ''# '', nl @ nl, nl, [0x3002], [0xFF0C], str '' '', []]"

text \<open>\<open>__post_init__\<close>: the checks in their order, each raising \<open>ValueError\<close>.\<close>

definition config_post_init :: "chunking_config \<Rightarrow> exn + chunking_config" where
  "config_post_init c =
     (if chunk_size c \<le> 0 then Inl (value_error
        (str ''chunk_size '' @ [0x5FC5, 0x987B, 0x5927, 0x4E8E] @ str '' 0''))
      else if chunk_overlap c < 0 then Inl (value_error
        (str ''chunk_overlap '' @ [0x4E0D, 0x80FD, 0x4E3A, 0x8D1F, 0x6570]))
      else if chunk_size c \<le> chunk_overlap c then Inl (value_error
        (str ''chunk_overlap '' @ [0x5FC5, 0x987B, 0x5C0F, 0x4E8E] @ str '' chunk_size''))
      else if max_input_chars c \<le> 0 then Inl (value_error
        (str ''max_input_chars '' @ [0x5FC5, 0x987B, 0x5927, 0x4E8E] @ str '' 0''))
      else if separators c = [] then Inl (value_error
        (str ''separators '' @ [0x4E0D, 0x80FD, 0x4E3A, 0x7A7A]))
      else if last (separators c) \<noteq> [] then Inl (value_error
        (str ''separators '' @ [0x5217, 0x8868, 0x672B, 0x5C3E, 0x5FC5, 0x987B, 0x5305, 0x542B,
          0x7A7A, 0x5B57, 0x7B26, 0x4E32, 0x20, 0x22, 0x22, 0x20, 0x4F5C, 0x4E3A, 0x515C, 0x5E95,
          0x5206, 0x9694, 0x7B26]))
      else Inr c)"

definition config_wf :: "chunking_config \<Rightarrow> bool" where
  "config_wf c \<longleftrightarrow> 0 < chunk_size c \<and> 0 \<le> chunk_overlap c \<and> chunk_overlap c < chunk_size c
     \<and> 0 < max_input_chars c \<and> separators c \<noteq> [] \<and> last (separators c) = []"

section \<open>FixedTokenChunker\<close>

text \<open>
  Both binary searches of the class are this loop: \<open>mid = (lo + hi) // 2\<close>, go right when the
  window up to \<open>mid\<close> is within the limit.
\<close>

function bisect :: "(nat \<Rightarrow> bool) \<Rightarrow> nat \<Rightarrow> nat \<Rightarrow> nat" where
  "bisect ok lo hi =
     (if lo < hi
      then let mid = (lo + hi) div 2 in if ok mid then bisect ok (mid + 1) hi else bisect ok lo mid
      else lo)"
  by pat_completeness auto
termination
  by (relation "measure (\<lambda>(ok, lo, hi). hi - lo)") auto

declare bisect.simps [simp del]

definition find_max_end :: "token_estimator \<Rightarrow> pystr \<Rightarrow> nat \<Rightarrow> int \<Rightarrow> nat" where
  "find_max_end est content start_pos limit =
     bisect (\<lambda>mid. int (token_count est (slice content start_pos mid)) \<le> limit)
       (start_pos + 1) (length content + 1) - 1"

definition find_overlap_chars :: "token_estimator \<Rightarrow> pystr \<Rightarrow> nat \<Rightarrow> nat \<Rightarrow> int \<Rightarrow> int" where
  "find_overlap_chars est content start_pos end_pos overlap =
     (if overlap \<le> 0 \<or> end_pos \<le> start_pos then 0
      else int (bisect (\<lambda>mid. int (token_count est (slice content (end_pos - mid) end_pos)) \<le> overlap)
             0 (end_pos - start_pos + 1)) - 1)"

definition next_start :: "token_estimator \<Rightarrow> pystr \<Rightarrow> nat \<Rightarrow> nat \<Rightarrow> int \<Rightarrow> nat" where
  "next_start est content start_pos end_pos overlap =
     (let next_pos = int end_pos - find_overlap_chars est content start_pos end_pos overlap
      in if next_pos \<le> int start_pos then start_pos + 1 else nat next_pos)"

definition effective_overlap :: "chunking_config \<Rightarrow> int" where
  "effective_overlap cfg = max 0 (min (chunk_overlap cfg) (chunk_size cfg - 1))"

lemma next_start_greater: "start_pos < next_start est content start_pos end_pos overlap"
  by (auto simp: next_start_def Let_def)

function fixed_loop ::
  "chunking_config \<Rightarrow> token_estimator \<Rightarrow> pystr \<Rightarrow> pystr \<Rightarrow> pydict \<Rightarrow> nat \<Rightarrow> nat \<Rightarrow> chunk list" where
  "fixed_loop cfg est content resource_id metadata index start_pos =
     (if start_pos < length content
      then let end_pos = find_max_end est content start_pos (chunk_size cfg);
               c = make_chunk cfg est (slice content start_pos end_pos) resource_id metadata index
                     start_pos end_pos
           in c # (if length content \<le> end_pos then []
                   else fixed_loop cfg est content resource_id metadata (index + 1)
                          (next_start est content start_pos end_pos (effective_overlap cfg)))
      else [])"
  by pat_completeness auto
termination
  by (relation "measure (\<lambda>(cfg, est, content, rid, m, index, start_pos). length content - start_pos)")
    (auto intro: diff_less_mono2 next_start_greater)

declare fixed_loop.simps [simp del]

definition fixed_split ::
  "chunking_config \<Rightarrow> token_estimator \<Rightarrow> pystr \<Rightarrow> pystr \<Rightarrow> pydict \<Rightarrow> chunk list" where
  "fixed_split cfg est content resource_id metadata =
     (if content = [] then [] else fixed_loop cfg est content resource_id metadata 0 0)"

section \<open>ParagraphChunker\<close>

definition number_chunks ::
  "chunking_config \<Rightarrow> token_estimator \<Rightarrow> pystr \<Rightarrow> pydict \<Rightarrow> piece list \<Rightarrow> chunk list" where
  "number_chunks cfg est resource_id metadata pieces =
     map (\<lambda>(index, (t, s, e)). make_chunk cfg est t resource_id metadata index s e)
       (enumerate 0 pieces)"

definition SENTENCE_SEPARATORS :: "pystr list" where
  "SENTENCE_SEPARATORS = [nl, [0x3002], [0xFF01], [0xFF1F], [0xFF1B], [0xFF0C], str '' '', []]"

text \<open>
  The length of a match of the pattern newline, white space, newline at the head of the string:
  the white space is greedy and gives characters back until a newline follows it, so the match
  ends at the last newline of the white-space run.
\<close>

definition paragraph_match :: "pystr \<Rightarrow> nat option" where
  "paragraph_match s = (case s of [] \<Rightarrow> None | c # cs \<Rightarrow>
     if c = 10
     then let k = length (dropWhile (\<lambda>x. x \<noteq> 10) (rev (takeWhile is_space cs)))
          in if k = 0 then None else Some (Suc k)
     else None)"

lemma paragraph_match_le: "paragraph_match s = Some k \<Longrightarrow> 2 \<le> k \<and> k \<le> length s"
proof -
  assume a: "paragraph_match s = Some k"
  then obtain c cs where s: "s = c # cs" by (auto simp: paragraph_match_def split: list.splits)
  define d where "d = length (dropWhile (\<lambda>x. x \<noteq> 10) (rev (takeWhile is_space cs)))"
  have "d \<le> length cs"
    unfolding d_def by (rule order_trans[OF length_dropWhile_le]) (simp add: length_takeWhile_le)
  moreover have "paragraph_match s = (if c = 10 then if d = 0 then None else Some (Suc d) else None)"
    unfolding paragraph_match_def s Let_def d_def by simp
  ultimately show ?thesis using a s by (auto split: if_splits)
qed

text \<open>\<open>finditer\<close>: the non-overlapping matches from left to right, as spans.\<close>

function paragraph_matches :: "nat \<Rightarrow> pystr \<Rightarrow> (nat \<times> nat) list" where
  "paragraph_matches pos [] = []"
| "paragraph_matches pos (c # cs) =
     (case paragraph_match (c # cs) of
        None \<Rightarrow> paragraph_matches (pos + 1) cs
      | Some k \<Rightarrow> (pos, pos + k) # paragraph_matches (pos + k) (drop k (c # cs)))"
  by pat_completeness auto
termination
  by (relation "measure (\<lambda>(pos, s). length s)") (auto dest: paragraph_match_le)

fun raw_paragraphs :: "pystr \<Rightarrow> nat \<Rightarrow> (nat \<times> nat) list \<Rightarrow> piece list" where
  "raw_paragraphs content cursor [] =
     (if blank (drop cursor content) then [] else [(drop cursor content, cursor, length content)])"
| "raw_paragraphs content cursor ((m_start, m_end) # ms) =
     (if blank (slice content cursor m_start) then []
      else [(slice content cursor m_start, cursor, m_start)])
     @ raw_paragraphs content m_end ms"

definition paragraph_pieces :: "chunking_config \<Rightarrow> token_estimator \<Rightarrow> piece \<Rightarrow> piece list" where
  "paragraph_pieces cfg est p = (case p of (segment, start_pos, _) \<Rightarrow>
     if size_exceeded cfg est segment
     then split_text cfg est segment start_pos SENTENCE_SEPARATORS True
     else [(segment, start_pos, start_pos + length segment)])"

definition paragraph_split ::
  "chunking_config \<Rightarrow> token_estimator \<Rightarrow> pystr \<Rightarrow> pystr \<Rightarrow> pydict \<Rightarrow> chunk list" where
  "paragraph_split cfg est content resource_id metadata =
     (if content = [] then []
      else number_chunks cfg est resource_id metadata
             (concat (map (paragraph_pieces cfg est)
               (raw_paragraphs content 0 (paragraph_matches 0 content)))))"

section \<open>SemanticChunker\<close>

definition semantic_split ::
  "chunking_config \<Rightarrow> token_estimator \<Rightarrow> pystr \<Rightarrow> pystr \<Rightarrow> pydict \<Rightarrow> chunk list" where
  "semantic_split cfg est content resource_id metadata =
     (if content = [] then []
      else number_chunks cfg est resource_id metadata
             (split_text cfg est content 0
               (if separators cfg = [] then DEFAULT_SEPARATORS else separators cfg) False))"

section \<open>ChunkingService\<close>

definition chunk_service ::
  "chunking_config \<Rightarrow> token_estimator \<Rightarrow> pystr \<Rightarrow> pystr \<Rightarrow> pydict \<Rightarrow> pystr option \<Rightarrow> exn + chunk list" where
  "chunk_service cfg est content resource_id metadata strategy =
     (let wanted = (case strategy of None \<Rightarrow> default_strategy cfg
                    | Some s \<Rightarrow> if s = [] then default_strategy cfg else s);
          selected = py_lower (py_strip wanted)
      in if selected = str ''paragraph'' then Inr (paragraph_split cfg est content resource_id metadata)
         else if selected = str ''fixed_token'' then Inr (fixed_split cfg est content resource_id metadata)
         else if selected = str ''semantic'' then Inr (semantic_split cfg est content resource_id metadata)
         else Inl (invalid_strategy_error selected))"

section \<open>Configuration\<close>

lemma config_post_init_wf: "config_post_init c = Inr c' \<longleftrightarrow> c' = c \<and> config_wf c"
  by (auto simp: config_post_init_def config_wf_def)

section \<open>Binary search\<close>

lemma bisect_spec:
  "lo \<le> hi \<Longrightarrow> lo \<le> bisect ok lo hi \<and> bisect ok lo hi \<le> hi
     \<and> (lo < bisect ok lo hi \<longrightarrow> ok (bisect ok lo hi - 1))
     \<and> (bisect ok lo hi < hi \<longrightarrow> \<not> ok (bisect ok lo hi))"
proof (induction ok lo hi rule: bisect.induct)
  case (1 ok lo hi)
  define mid where "mid = (lo + hi) div 2"
  consider "\<not> lo < hi" | "lo < hi" "ok mid" | "lo < hi" "\<not> ok mid" by blast
  then show ?case
  proof cases
    case 1
    then have "bisect ok lo hi = lo" by (subst bisect.simps) simp
    with "1.prems" 1 show ?thesis by simp
  next
    case 2
    then have eq: "bisect ok lo hi = bisect ok (mid + 1) hi"
      by (subst bisect.simps) (simp add: Let_def mid_def)
    have "mid + 1 \<le> hi" "lo \<le> mid" using 2 by (auto simp: mid_def)
    with "1.IH"(1)[OF 2(1) mid_def 2(2)] 2 show ?thesis
      unfolding eq by (cases "bisect ok (mid + 1) hi = mid + 1") auto
  next
    case 3
    then have eq: "bisect ok lo hi = bisect ok lo mid"
      by (subst bisect.simps) (simp add: Let_def mid_def)
    have "mid < hi" "lo \<le> mid" using 3 by (auto simp: mid_def)
    with "1.IH"(2)[OF 3(1) mid_def 3(2)] 3 show ?thesis
      unfolding eq by (cases "bisect ok lo mid = mid") auto
  qed
qed

lemma bisect_progress: "lo < hi \<Longrightarrow> ok lo \<Longrightarrow> lo < bisect ok lo hi"
  using bisect_spec[of lo hi ok] by (metis le_neq_implies_less less_imp_le)

lemma find_max_end_bounds:
  assumes "start_pos < length content"
  shows "start_pos \<le> find_max_end est content start_pos n"
    and "find_max_end est content start_pos n \<le> length content"
    and "start_pos < find_max_end est content start_pos n \<Longrightarrow>
      int (token_count est (slice content start_pos (find_max_end est content start_pos n))) \<le> n"
    and "find_max_end est content start_pos n < length content \<Longrightarrow>
      n < int (token_count est (slice content start_pos (find_max_end est content start_pos n + 1)))"
  using bisect_spec[of "start_pos + 1" "length content + 1"
      "\<lambda>mid. int (token_count est (slice content start_pos mid)) \<le> n"] assms
  by (auto simp: find_max_end_def not_le)

lemma find_max_end_progress:
  assumes "start_pos < length content"
    and "int (token_count est [content ! start_pos]) \<le> n"
  shows "start_pos < find_max_end est content start_pos n"
proof (rule ccontr)
  assume "\<not> start_pos < find_max_end est content start_pos n"
  then have e: "find_max_end est content start_pos n = start_pos"
    using find_max_end_bounds(1)[OF assms(1), of est n] by simp
  have "slice content start_pos (start_pos + 1) = [content ! start_pos]"
    using assms(1) by (simp add: slice_def take_Suc_conv_app_nth hd_drop_conv_nth take_Suc)
  with find_max_end_bounds(4)[OF assms(1), of est n] e assms show False by simp
qed

lemma next_start_le:
  assumes "start_pos < end_pos" "token_count est [] = 0"
  shows "next_start est content start_pos end_pos ov \<le> end_pos"
proof -
  let ?ok = "\<lambda>mid. int (token_count est (slice content (end_pos - mid) end_pos)) \<le> ov"
  have "0 \<le> find_overlap_chars est content start_pos end_pos ov"
  proof (cases "ov \<le> 0 \<or> end_pos \<le> start_pos")
    case False
    then have "0 < bisect ?ok 0 (end_pos - start_pos + 1)"
      using assms(2) by (intro bisect_progress) simp_all
    with False show ?thesis by (simp add: find_overlap_chars_def)
  qed (simp add: find_overlap_chars_def)
  with assms show ?thesis by (auto simp: next_start_def Let_def)
qed

section \<open>The chunks of the fixed-window strategy\<close>

lemma make_chunk_simps [simp]:
  "ck_id (make_chunk cfg est t rid m i a b) = rid @ str ''-'' @ py_str_nat i"
  "ck_resource_id (make_chunk cfg est t rid m i a b) = rid"
  "ck_index (make_chunk cfg est t rid m i a b) = i"
  "ck_text (make_chunk cfg est t rid m i a b) = t"
  "ck_start (make_chunk cfg est t rid m i a b) = a"
  "ck_end (make_chunk cfg est t rid m i a b) = b"
  "ck_metadata (make_chunk cfg est t rid m i a b) = (if preserve_metadata cfg then m else [])"
  "ck_token_count (make_chunk cfg est t rid m i a b) = token_count est t"
  by (simp_all add: make_chunk_def)

text \<open>The loop makes its chunks from the positions it visits, numbered from \<open>index\<close>.\<close>

lemma fixed_loop_chunks:
  "c \<in> set (fixed_loop cfg est content rid m index start_pos) \<Longrightarrow>
     \<exists>i a. a < length content \<and>
       c = (let e = find_max_end est content a (chunk_size cfg)
            in make_chunk cfg est (slice content a e) rid m i a e)"
proof (induction cfg est content rid m index start_pos rule: fixed_loop.induct)
  case (1 cfg est content rid m index start_pos)
  show ?case
  proof (cases "start_pos < length content")
    case True
    with 1 show ?thesis
      by (subst (asm) (2) fixed_loop.simps) (auto simp: Let_def split: if_splits)
  next
    case False
    with 1(2) show ?thesis by (subst (asm) fixed_loop.simps) simp
  qed
qed

lemma fixed_loop_indices:
  "map ck_index (fixed_loop cfg est content rid m index start_pos)
     = [index ..< index + length (fixed_loop cfg est content rid m index start_pos)]"
proof (induction cfg est content rid m index start_pos rule: fixed_loop.induct)
  case (1 cfg est content rid m index start_pos)
  show ?case
  proof (cases "start_pos < length content \<and>
      \<not> length content \<le> find_max_end est content start_pos (chunk_size cfg)")
    case True
    with 1 show ?thesis
      by (subst (1 2) fixed_loop.simps) (simp add: Let_def upt_conv_Cons del: upt_Suc)
  next
    case False
    then show ?thesis
      by (subst (1 2) fixed_loop.simps) (auto simp: Let_def upt_conv_Cons del: upt_Suc)
  qed
qed

text \<open>
  No character from the start position on is skipped, as long as every single character is within
  the window and the encoder makes no token of the empty string.
\<close>

lemma fixed_loop_covers:
  assumes "\<forall>x \<in> set content. int (token_count est [x]) \<le> chunk_size cfg"
    and "token_count est [] = 0"
  shows "start_pos \<le> i \<Longrightarrow> i < length content \<Longrightarrow>
     \<exists>c \<in> set (fixed_loop cfg est content rid m index start_pos). ck_start c \<le> i \<and> i < ck_end c"
  using assms
proof (induction cfg est content rid m index start_pos rule: fixed_loop.induct)
  case (1 cfg est content rid m index start_pos)
  define e where "e = find_max_end est content start_pos (chunk_size cfg)"
  have lt: "start_pos < length content" using 1 by simp
  have e: "start_pos < e" "e \<le> length content"
    using find_max_end_progress[OF lt, of est "chunk_size cfg"] find_max_end_bounds[OF lt] 1 lt
    by (auto simp: e_def)
  let ?rest = "fixed_loop cfg est content rid m (index + 1)
      (next_start est content start_pos e (effective_overlap cfg))"
  have loop: "fixed_loop cfg est content rid m index start_pos =
      make_chunk cfg est (slice content start_pos e) rid m index start_pos e
        # (if length content \<le> e then [] else ?rest)"
    using lt by (subst fixed_loop.simps) (simp add: Let_def e_def)
  show ?case
  proof (cases "i < e")
    case True
    with 1(2) show ?thesis unfolding loop by simp
  next
    case False
    then have n: "\<not> length content \<le> e" using 1(3) by simp
    have "next_start est content start_pos e (effective_overlap cfg) \<le> i"
      using next_start_le[OF e(1) 1(5)] False by (meson not_le order_trans)
    then have "\<exists>c \<in> set ?rest. ck_start c \<le> i \<and> i < ck_end c"
      using 1(1)[OF lt e_def refl n] 1 by blast
    then show ?thesis unfolding loop using n by auto
  qed
qed

end
