(* ===== verification/Text_Cleaning.thy ===== *)
theory Text_Cleaning
  imports Subtitles Embedding Py_Values
begin

text \<open>
  Cleaning of transcripts (\<open>app/services/text_cleaning\<close>): the rule cleaner with its regular
  expressions, the LLM cleaner with the parsing of its replies, and the service that combines them and
  falls back to the original text. What \<open>\w\<close> matches is a parameter (\<open>w\<close>), as are
  \<open>json.loads\<close> and the chat client.
\<close>

section \<open>Rule cleaner\<close>

definition DEFAULT_FILLER_WORDS :: "pystr list" where
  "DEFAULT_FILLER_WORDS = [[0x55EF], [0x554A], [0x54E6], [0x5443], [0x90A3, 0x4E2A], [0x5C31,
    0x662F], [0x7136, 0x540E], [0x8FD9, 0x4E2A], [0x90A3, 0x500B], [0x9019, 0x500B]]"

text \<open>How often \<open>\s+\1\<close> matches at the start of a string, and what follows the repetitions.\<close>

function eat_spaced :: "pystr \<Rightarrow> pystr \<Rightarrow> nat \<times> pystr" where
  "eat_spaced word s =
     (let rest = dropWhile is_space s
      in if s \<noteq> rest \<and> word \<noteq> [] \<and> prefix word rest
         then (case eat_spaced word (drop (length word) rest) of (n, t) \<Rightarrow> (n + 1, t))
         else (0, s))"
  by pat_completeness auto
termination
proof (relation "measure (\<lambda>(word, s). length s)", goal_cases)
  case (2 word s rest)
  then have "length (drop (length word) rest) < length rest" by (auto simp: prefix_def)
  moreover have "length rest \<le> length s" using 2 by (simp add: length_dropWhile_le)
  ultimately show ?case by simp
qed simp

declare eat_spaced.simps [simp del]

text \<open>The same without white space in between.\<close>

function eat_adjacent :: "pystr \<Rightarrow> pystr \<Rightarrow> nat \<times> pystr" where
  "eat_adjacent word s =
     (if word \<noteq> [] \<and> prefix word s
      then (case eat_adjacent word (drop (length word) s) of (n, t) \<Rightarrow> (n + 1, t))
      else (0, s))"
  by pat_completeness auto
termination
  by (relation "measure (\<lambda>(word, s). length s)") (auto simp: prefix_def)

declare eat_adjacent.simps [simp del]

lemma eat_spaced_suffix: "eat_spaced word s = (n, t) \<Longrightarrow> suffix t s"
proof (induction word s arbitrary: n t rule: eat_spaced.induct)
  case (1 word s)
  let ?rest = "dropWhile is_space s"
  show ?case
  proof (cases "s \<noteq> ?rest \<and> word \<noteq> [] \<and> prefix word ?rest")
    case True
    then obtain n' where "eat_spaced word (drop (length word) ?rest) = (n', t)"
      using 1(2) by (subst (asm) eat_spaced.simps) (auto simp: Let_def split: prod.splits)
    with 1(1)[OF refl True] have "suffix t (drop (length word) ?rest)" by blast
    then show ?thesis using suffix_drop[of "length word" ?rest] suffix_dropWhile[of is_space s] by (meson suffix_order.trans)
  qed (use 1(2) in \<open>subst (asm) eat_spaced.simps, auto simp: Let_def\<close>)
qed

lemma eat_adjacent_suffix: "eat_adjacent word s = (n, t) \<Longrightarrow> suffix t s"
proof (induction word s arbitrary: n t rule: eat_adjacent.induct)
  case (1 word s)
  show ?case
  proof (cases "word \<noteq> [] \<and> prefix word s")
    case True
    then obtain n' where "eat_adjacent word (drop (length word) s) = (n', t)"
      using 1(2) by (subst (asm) eat_adjacent.simps) (auto split: prod.splits)
    with 1(1)[OF True] have "suffix t (drop (length word) s)" by blast
    then show ?thesis using suffix_drop[of "length word" s] by (meson suffix_order.trans)
  qed (use 1(2) in \<open>subst (asm) eat_adjacent.simps, auto\<close>)
qed

text \<open>
  \<open>(\b\w+\b)(\s+\1){2,}\<close>: at the start of a word (\<open>prev\<close> says whether the previous
  character is a word character) the group can only be the whole word, since it has to end at a word
  boundary.
\<close>

function remove_word_repetitions :: "(int \<Rightarrow> bool) \<Rightarrow> bool \<Rightarrow> pystr \<Rightarrow> pystr" where
  "remove_word_repetitions w prev [] = []"
| "remove_word_repetitions w prev (c # cs) =
     (if w c \<and> \<not> prev
      then let word = takeWhile w (c # cs)
           in case eat_spaced word (dropWhile w (c # cs)) of (n, rest) \<Rightarrow>
                if 2 \<le> n then word @ remove_word_repetitions w True rest
                else c # remove_word_repetitions w True cs
      else c # remove_word_repetitions w (w c) cs)"
  by pat_completeness auto
termination
proof (relation "measure (\<lambda>(w, prev, s). length s)", goal_cases)
  case (2 w prev c cs word n rest)
  then have "suffix rest (dropWhile w (c # cs))" using eat_spaced_suffix by metis
  with 2 show ?case
    using length_dropWhile_le[of w cs] by (auto dest!: suffix_length_le)
qed auto

definition remove_filler_words :: "pystr list \<Rightarrow> pystr \<Rightarrow> pystr" where
  "remove_filler_words words s = foldl (\<lambda>t word. if word = [] then t else concat (py_split word t)) s words"

text \<open>The range of \<open>[\u4e00-\u9fff]\<close>.\<close>

definition cjk_char :: "int \<Rightarrow> bool" where
  "cjk_char c \<longleftrightarrow> 0x4E00 \<le> c \<and> c \<le> 0x9FFF"

text \<open>
  A character followed by at least two repetitions of itself, as \<open>eat\<close> counts them; what follows
  is never longer than what is left, which the guard says for the termination of the function.
\<close>

function collapse_chars :: "(pystr \<Rightarrow> pystr \<Rightarrow> nat \<times> pystr) \<Rightarrow> pystr \<Rightarrow> pystr" where
  "collapse_chars eat [] = []"
| "collapse_chars eat (c # cs) =
     (case eat [c] cs of (n, rest) \<Rightarrow>
        if cjk_char c \<and> 2 \<le> n \<and> length rest \<le> length cs then c # collapse_chars eat rest
        else c # collapse_chars eat cs)"
  by pat_completeness auto
termination
  by (relation "measure (\<lambda>(eat, s). length s)") auto

text \<open>\<open>(\b\w{1,4}\b)\1{2,}\<close>, read like the pattern of word repetitions.\<close>

function collapse_tokens :: "(int \<Rightarrow> bool) \<Rightarrow> bool \<Rightarrow> pystr \<Rightarrow> pystr" where
  "collapse_tokens w prev [] = []"
| "collapse_tokens w prev (c # cs) =
     (if w c \<and> \<not> prev
      then let word = takeWhile w (c # cs)
           in case eat_adjacent word (dropWhile w (c # cs)) of (n, rest) \<Rightarrow>
                if length word \<le> 4 \<and> 2 \<le> n then word @ collapse_tokens w True rest
                else c # collapse_tokens w True cs
      else c # collapse_tokens w (w c) cs)"
  by pat_completeness auto
termination
proof (relation "measure (\<lambda>(w, prev, s). length s)", goal_cases)
  case (2 w prev c cs word n rest)
  then have "suffix rest (dropWhile w (c # cs))" using eat_adjacent_suffix by metis
  with 2 show ?case
    using length_dropWhile_le[of w cs] by (auto dest!: suffix_length_le)
qed auto

definition collapse_adjacent_repeats :: "(int \<Rightarrow> bool) \<Rightarrow> pystr \<Rightarrow> pystr" where
  "collapse_adjacent_repeats w s =
     collapse_tokens w False (collapse_chars eat_spaced (collapse_chars eat_adjacent s))"

function normalize_whitespace :: "pystr \<Rightarrow> pystr" where
  "normalize_whitespace [] = []"
| "normalize_whitespace (c # cs) =
     (if is_space c then 32 # normalize_whitespace (dropWhile is_space cs) else c # normalize_whitespace cs)"
  by pat_completeness auto
termination
  by (relation "measure length") (auto simp: length_dropWhile_le le_imp_less_Suc)

definition rule_clean :: "(int \<Rightarrow> bool) \<Rightarrow> pystr list \<Rightarrow> pystr \<Rightarrow> pystr" where
  "rule_clean w filler s =
     py_strip (normalize_whitespace (collapse_adjacent_repeats w
       (remove_filler_words filler (remove_word_repetitions w False s))))"

definition rule_cleaner_init :: "pystr list option \<Rightarrow> pystr list" where
  "rule_cleaner_init filler = (case filler of
     Some (x # xs) \<Rightarrow> x # xs | _ \<Rightarrow> DEFAULT_FILLER_WORDS)"

definition rule_clean_segments :: "(int \<Rightarrow> bool) \<Rightarrow> pystr list \<Rightarrow> asr_segment list \<Rightarrow> asr_segment list" where
  "rule_clean_segments w filler = map (\<lambda>seg. seg\<lparr>sg_text := rule_clean w filler (sg_text seg)\<rparr>)"

section \<open>LLM cleaner\<close>

definition clean_prompt :: "pystr list \<Rightarrow> pystr" where
  "clean_prompt texts =
     [0x4F60, 0x662F, 0x4E00, 0x540D, 0x8BED, 0x97F3, 0x8F6C, 0x5F55, 0x6821, 0x5BF9, 0x4E13,
       0x5BB6, 0x3002, 0x8BF7, 0x6E05, 0x6D17, 0x4EE5, 0x4E0B, 0x8F6C, 0x5F55, 0x6587, 0x672C,
       0xFF0C, 0x5220, 0x9664, 0x8BED, 0x6C14, 0x8BCD, 0x3001, 0x91CD, 0x590D, 0x8BCD, 0x548C,
       0x53E3, 0x5403, 0xFF0C, 0x4FDD, 0x6301, 0x539F, 0x610F, 0x4E0E, 0x65F6, 0x95F4, 0x6233,
       0x4E0D, 0x53D8, 0x3002, 0x53EA, 0x8F93, 0x51FA, 0x6E05, 0x6D17, 0x540E, 0x7684, 0x6587,
       0x672C, 0xFF0C, 0x6BCF, 0x884C, 0x4E00, 0x6761, 0xFF0C, 0x7F16, 0x53F7, 0x4E0E, 0x8F93,
       0x5165, 0x4FDD, 0x6301, 0x4E00, 0x81F4, 0x3002, 0x4E0D, 0x8981, 0x89E3, 0x91CA, 0xFF0C,
       0x4E0D, 0x8981, 0x6DFB, 0x52A0, 0x989D, 0x5916, 0x5185, 0x5BB9, 0x3002, 0xA, 0xA]
     @ py_join [10] (map (\<lambda>(i, t). py_str_nat (i + 1) @ str ''. '' @
       t) (enumerate 0 texts)) @ [10, 10] @ [0x8F93, 0x51FA, 0xFF1A]"

text \<open>The content of the first choice; every other shape of the reply is a \<open>ValueError\<close>.\<close>

definition extract_content :: "json \<Rightarrow> exn + pystr" where
  "extract_content response =
     (case response of
        JObj d \<Rightarrow> (case map_of d (str ''choices'') of
          Some (JArr (JObj c # _)) \<Rightarrow> (case map_of c (str ''message'') of
            Some (JObj m) \<Rightarrow> (case map_of m (str ''content'') of
              Some (JStr content) \<Rightarrow> Inr content
            | _ \<Rightarrow> Inl (value_error (str ''content'')))
          | _ \<Rightarrow> Inl (value_error (str ''message'')))
        | _ \<Rightarrow> Inl (value_error (str ''choices'')))
      | _ \<Rightarrow> Inl (value_error (str ''unexpected LLM response shape'')))"

text \<open>
  \<open>content.splitlines()\<close> up to empty lines, which are dropped (so \<open>\r\n\<close> needs no rule of
  its own).
\<close>

definition line_break :: "int \<Rightarrow> bool" where
  "line_break c \<longleftrightarrow> (10 \<le> c \<and> c \<le> 13) \<or> (28 \<le> c \<and> c \<le> 30) \<or> c = 133 \<or> c = 8232 \<or> c = 8233"

function py_lines :: "pystr \<Rightarrow> pystr list" where
  "py_lines s = (if s = [] then [] else takeWhile (\<lambda>c. \<not> line_break c) s # py_lines (drop 1 (dropWhile (\<lambda>c. \<not> line_break c) s)))"
  by pat_completeness auto
termination
proof (relation "measure length", goal_cases)
  case (2 s)
  then show ?case using length_dropWhile_le[of "\<lambda>c. \<not> line_break c" s] by (cases s) auto
qed simp

declare py_lines.simps [simp del]

definition numbering_sep :: "int \<Rightarrow> bool" where
  "numbering_sep c \<longleftrightarrow> c = 46 \<or> c = 41 \<or> is_space c"

text \<open>\<open>re.sub(r"^\d+[\.\)\s]+", "", line)\<close>.\<close>

definition strip_numbering :: "pystr \<Rightarrow> pystr" where
  "strip_numbering line =
     (let rest = dropWhile is_digit line
      in if rest \<noteq> line \<and> rest \<noteq> dropWhile numbering_sep rest then dropWhile numbering_sep rest else line)"

fun json_strings :: "json list \<Rightarrow> pystr list option" where
  "json_strings [] = Some []"
| "json_strings (JStr s # js) = map_option ((#) s) (json_strings js)"
| "json_strings (_ # js) = None"

definition try_parse_json_array :: "(pystr \<Rightarrow> json option) \<Rightarrow> pystr \<Rightarrow> pystr list option" where
  "try_parse_json_array loads content = (case loads content of Some (JArr items) \<Rightarrow> json_strings items | _ \<Rightarrow> None)"

definition parse_cleaned :: "(pystr \<Rightarrow> json option) \<Rightarrow> pystr \<Rightarrow> nat \<Rightarrow> exn + pystr list" where
  "parse_cleaned loads content expected_count =
     (let by_line = filter (\<lambda>t. t \<noteq> []) (map (\<lambda>l. py_strip (strip_numbering l))
            (filter (\<lambda>l. l \<noteq> []) (map py_strip (py_lines content))));
          parsed = try_parse_json_array loads content
      in if parsed \<noteq> None \<and> length (the parsed) = expected_count then Inr (the parsed)
         else if length by_line \<noteq> expected_count then Inl (value_error (str ''unexpected number of cleaned texts''))
         else Inr by_line)"

type_synonym 'p chat_call = "pystr \<Rightarrow> 'p \<Rightarrow> 'p \<times> (exn + json)"

definition clean_batch ::
  "(pystr \<Rightarrow> json option) \<Rightarrow> 'p chat_call \<Rightarrow> asr_segment list \<Rightarrow> 'p \<Rightarrow> 'p \<times> (exn + asr_segment list)" where
  "clean_batch loads chat segments p =
     (if segments = [] then (p, Inr [])
      else case chat (clean_prompt (map sg_text segments)) p of
             (p', response) \<Rightarrow>
               (p', sbind response (\<lambda>r. sbind (extract_content r) (\<lambda>content.
                      sbind (parse_cleaned loads content (length segments)) (\<lambda>texts.
                        Inr (map (\<lambda>(seg, t). seg\<lparr>sg_text := t\<rparr>) (zip segments texts)))))))"

fun clean_batches ::
  "(pystr \<Rightarrow> json option) \<Rightarrow> 'p chat_call \<Rightarrow> asr_segment list list \<Rightarrow> 'p \<Rightarrow> 'p \<times> (exn + asr_segment list)" where
  "clean_batches loads chat [] p = (p, Inr [])"
| "clean_batches loads chat (b # bs) p =
     (case clean_batch loads chat b p of
        (p', Inl e) \<Rightarrow> (p', Inl e)
      | (p', Inr out) \<Rightarrow>
          (case clean_batches loads chat bs p' of (p'', r) \<Rightarrow> (p'', sbind r (\<lambda>rest. Inr (out @ rest)))))"

definition llm_clean_segments ::
  "(pystr \<Rightarrow> json option) \<Rightarrow> 'p chat_call \<Rightarrow> int \<Rightarrow> asr_segment list \<Rightarrow> 'p \<Rightarrow> 'p \<times> (exn + asr_segment list)" where
  "llm_clean_segments loads chat batch_size segments p =
     clean_batches loads chat (batches (nat (max 1 batch_size)) segments) p"

section \<open>The service\<close>

datatype cleaning_mode = RuleMode | LlmMode | HybridMode

definition mode_of :: "pystr \<Rightarrow> cleaning_mode" where
  "mode_of raw = (let m = py_strip (py_lower raw)
     in if m = str ''llm'' then LlmMode else if m = str ''hybrid'' then HybridMode else RuleMode)"

record 'p cleaning_env =
  cl_enabled :: bool
  cl_mode :: pystr
  cl_fallback_on_error :: bool
  cl_word :: "int \<Rightarrow> bool"
  cl_filler :: "pystr list"
  cl_loads :: "pystr \<Rightarrow> json option"
  cl_llm :: "('p chat_call \<times> int) option"

definition validate_cleaned :: "asr_segment list \<Rightarrow> asr_segment list \<Rightarrow> exn + asr_segment list" where
  "validate_cleaned cleaned original =
     (if length cleaned \<noteq> length original then Inl (value_error (str ''cleaned segment count''))
      else if list_ex (\<lambda>seg. blank (sg_text seg)) cleaned
      then Inl (raise_code TextCleaningError ''EMPTY_AFTER_CLEAN'' [0x6E05, 0x6D17, 0x540E, 0x6587,
        0x672C, 0x4E3A, 0x7A7A, 0xFF0C, 0x56DE, 0x9000, 0x539F, 0x59CB] 500)
      else Inr cleaned)"

definition clean_attempt :: "'p cleaning_env \<Rightarrow> asr_segment list \<Rightarrow> 'p \<Rightarrow> 'p \<times> (exn + asr_segment list)" where
  "clean_attempt env segments p =
     (let cleaned = rule_clean_segments (cl_word env) (cl_filler env) segments
      in case (if mode_of (cl_mode env) = RuleMode then None else cl_llm env) of
           None \<Rightarrow> (p, validate_cleaned cleaned segments)
         | Some (chat, batch_size) \<Rightarrow>
             (case llm_clean_segments (cl_loads env) chat batch_size cleaned p of
                (p', r) \<Rightarrow> (p', sbind r (\<lambda>out. validate_cleaned out segments))))"

definition clean_transcript :: "'p cleaning_env \<Rightarrow> asr_segment list \<Rightarrow> 'p \<Rightarrow> 'p \<times> (exn + asr_segment list)" where
  "clean_transcript env segments p =
     (if \<not> cl_enabled env \<or> segments = [] then (p, Inr segments)
      else case clean_attempt env segments p of
             (p', Inr out) \<Rightarrow> (p', Inr out)
           | (p', Inl e) \<Rightarrow>
               if cl_fallback_on_error env then (p', Inr segments)
               else (p', Inl (raise_code TextCleaningError ''LLM_CLEAN_FAILED'' [0x6587, 0x672C,
                 0x6E05, 0x6D17, 0x5931, 0x8D25, 0xFF0C, 0x5DF2, 0x4F7F, 0x7528, 0x539F, 0x59CB,
                 0x6587, 0x672C] 500)))"

section \<open>Facts\<close>

definition timing :: "asr_segment \<Rightarrow> pyfloat \<times> pyfloat \<times> pyfloat option" where
  "timing seg = (sg_start seg, sg_end seg, sg_confidence seg)"

lemma timing_text [simp]: "timing (seg\<lparr>sg_text := t\<rparr>) = timing seg"
  by (simp add: timing_def)

lemma map_timing_zip: "length ts = length xs \<Longrightarrow> map (timing \<circ> (\<lambda>(seg, t). seg\<lparr>sg_text := t\<rparr>)) (zip xs ts) = map timing xs"
  by (induction ts xs rule: list_induct2) simp_all

lemma parse_cleaned_length: "parse_cleaned loads content n = Inr ts \<Longrightarrow> length ts = n"
  by (auto simp: parse_cleaned_def Let_def split: if_splits)

lemma clean_batch_timing: "clean_batch loads chat segs p = (p', Inr out) \<Longrightarrow> map timing out = map timing segs"
  by (auto simp: clean_batch_def sbind_Inr_iff map_timing_zip dest!: parse_cleaned_length split: if_splits prod.splits)

lemma clean_batches_timing: "clean_batches loads chat bs p = (p', Inr out) \<Longrightarrow> map timing out = map timing (concat bs)"
proof (induction bs arbitrary: p out)
  case (Cons b bs)
  then show ?case
    by (auto simp: sbind_Inr_iff dest!: clean_batch_timing split: prod.splits sum.splits)
qed simp

lemma llm_clean_timing: "llm_clean_segments loads chat n segs p = (p', Inr out) \<Longrightarrow> map timing out = map timing segs"
  using clean_batches_timing by (fastforce simp: llm_clean_segments_def concat_batches)

lemma clean_attempt_ok:
  assumes "clean_attempt env segs p = (p', Inr out)"
  shows "map timing out = map timing segs" "list_all (\<lambda>seg. \<not> blank (sg_text seg)) out"
proof -
  have rt: "map timing (rule_clean_segments w f segs) = map timing segs" for w f
    by (simp add: rule_clean_segments_def)
  have v: "validate_cleaned xs ys = Inr zs \<Longrightarrow> zs = xs \<and> list_all (\<lambda>seg. \<not> blank (sg_text seg)) zs" for xs ys zs
    by (auto simp: validate_cleaned_def list_ex_iff list_all_iff split: if_splits)
  show "map timing out = map timing segs" "list_all (\<lambda>seg. \<not> blank (sg_text seg)) out"
    using assms llm_clean_timing rt
    by (fastforce simp: clean_attempt_def Let_def sbind_Inr_iff split: option.splits prod.splits if_splits dest!: v)+
qed

lemma clean_transcript_ok:
  assumes "clean_transcript env segs p = (p', Inr out)"
  shows "map timing out = map timing segs \<and> (out = segs \<or> list_all (\<lambda>seg. \<not> blank (sg_text seg)) out)"
  using assms
  by (auto simp: clean_transcript_def split: if_splits prod.splits sum.splits dest: clean_attempt_ok)

text \<open>Every step of the rule cleaner only removes characters.\<close>

lemma subseq_suffix: "suffix t s \<Longrightarrow> subseq t s"
  by (simp add: suffix_imp_subseq)

lemma subseq_word_rest: "suffix rest (dropWhile w s) \<Longrightarrow> subseq t rest \<Longrightarrow> subseq (takeWhile w s @ t) s"
  by (metis list_emb_append_mono subseq_order.refl subseq_order.trans subseq_suffix takeWhile_dropWhile_id)

lemma subseq_remove_word_repetitions: "subseq (remove_word_repetitions w prev s) s"
proof (induction w prev s rule: remove_word_repetitions.induct)
  case (2 w prev c cs)
  obtain n rest where e: "eat_spaced (takeWhile w (c # cs)) (dropWhile w (c # cs)) = (n, rest)" by fastforce
  have "subseq (takeWhile w cs @ t) cs" if "subseq t rest" "w c" for t
    using subseq_word_rest[OF _ that(1), of w cs] eat_spaced_suffix[OF e] that(2) by simp
  with 2 e show ?case by (auto simp: Let_def)
qed simp

lemma subseq_collapse_tokens: "subseq (collapse_tokens w prev s) s"
proof (induction w prev s rule: collapse_tokens.induct)
  case (2 w prev c cs)
  obtain n rest where e: "eat_adjacent (takeWhile w (c # cs)) (dropWhile w (c # cs)) = (n, rest)" by fastforce
  have "subseq (takeWhile w cs @ t) cs" if "subseq t rest" "w c" for t
    using subseq_word_rest[OF _ that(1), of w cs] eat_adjacent_suffix[OF e] that(2) by simp
  with 2 e show ?case by (auto simp: Let_def)
qed simp

lemma subseq_collapse_chars:
  assumes "\<And>word s n t. eat word s = (n, t) \<Longrightarrow> suffix t s"
  shows "subseq (collapse_chars eat s) s"
  using assms
proof (induction eat s rule: collapse_chars.induct)
  case (2 eat c cs)
  obtain n rest where e: "eat [c] cs = (n, rest)" by fastforce
  from 2(3)[OF e] have "subseq rest cs" by (rule subseq_suffix)
  with 2 e show ?case by (auto intro: subseq_order.trans)
qed simp

lemma subseq_concat_split: "sep \<noteq> [] \<Longrightarrow> subseq (concat (py_split sep s)) s"
proof -
  assume "sep \<noteq> []"
  have "subseq (concat parts) (py_join sep parts)" for parts
    by (induction sep parts rule: py_join.induct) (auto intro: list_emb_append_mono list_emb_append2)
  then show ?thesis using py_join_split[of sep s] by metis
qed

lemma subseq_remove_filler_words: "subseq (remove_filler_words words s) s"
proof (induction words arbitrary: s)
  case (Cons a words)
  have "subseq (if a = [] then s else concat (py_split a s)) s" by (simp add: subseq_concat_split)
  moreover have "remove_filler_words (a # words) s = remove_filler_words words (if a = [] then s else concat (py_split a s))"
    by (simp add: remove_filler_words_def)
  ultimately show ?case using Cons[of "if a = [] then s else concat (py_split a s)"] subseq_order.trans by metis
qed (simp add: remove_filler_words_def)

lemma ink_normalize_whitespace: "ink (normalize_whitespace s) = ink s"
proof (induction s rule: normalize_whitespace.induct)
  case (2 c cs)
  have "ink (dropWhile is_space cs) = ink cs" by (induction cs) (auto simp: ink_def)
  with 2 show ?case by (auto simp: ink_def is_space_def)
qed simp

lemma rule_clean_ink: "subseq (ink (rule_clean w filler s)) (ink s)"
proof -
  have "subseq (collapse_adjacent_repeats w t) t" for t
    unfolding collapse_adjacent_repeats_def
    by (meson eat_adjacent_suffix eat_spaced_suffix subseq_collapse_chars subseq_collapse_tokens subseq_order.trans)
  then have "subseq (collapse_adjacent_repeats w (remove_filler_words filler (remove_word_repetitions w False s))) s"
    by (meson subseq_order.trans subseq_remove_filler_words subseq_remove_word_repetitions)
  then have "subseq (ink (collapse_adjacent_repeats w (remove_filler_words filler (remove_word_repetitions w False s)))) (ink s)"
    unfolding ink_def by (rule subseq_filter)
  then show ?thesis by (simp add: rule_clean_def ink_normalize_whitespace)
qed

lemma strip_ends: "py_strip s = [] \<or> \<not> is_space (hd (py_strip s)) \<and> \<not> is_space (last (py_strip s))"
proof (cases "py_strip s = []")
  case False
  let ?d = "dropWhile is_space s"
  have l: "\<not> is_space (last (py_strip s))"
    using False hd_dropWhile[of is_space "rev ?d"] by (auto simp: py_strip_def last_rev)
  have "prefix (py_strip s) ?d"
    by (metis py_strip_def rev_rev_ident suffix_dropWhile suffix_to_prefix)
  then have "hd (py_strip s) = hd ?d" "?d \<noteq> []"
    using False by (auto simp: prefix_def simp del: dropWhile_eq_Nil_conv)
  with l hd_dropWhile[of is_space s] show ?thesis by simp
qed simp

text \<open>White space of a cleaned text: single spaces only.\<close>

fun tidy :: "pystr \<Rightarrow> bool" where
  "tidy [] = True"
| "tidy [c] = (is_space c \<longrightarrow> c = 32)"
| "tidy (c # d # s) = ((is_space c \<longrightarrow> c = 32 \<and> \<not> is_space d) \<and> tidy (d # s))"

lemma tidy_Cons: "tidy (c # s) \<longleftrightarrow> (is_space c \<longrightarrow> c = 32 \<and> (s = [] \<or> \<not> is_space (hd s))) \<and> tidy s"
  by (cases s) auto

lemma hd_normalize: "s \<noteq> [] \<Longrightarrow> \<not> is_space (hd s) \<Longrightarrow> hd (normalize_whitespace s) = hd s"
  by (cases s) auto

lemma tidy_normalize: "tidy (normalize_whitespace s)"
proof (induction s rule: normalize_whitespace.induct)
  case (2 c cs)
  let ?r = "dropWhile is_space cs"
  have "normalize_whitespace ?r = [] \<or> \<not> is_space (hd (normalize_whitespace ?r))"
    using hd_normalize[of ?r] hd_dropWhile[of is_space cs] by (cases "?r = []") (simp del: dropWhile_eq_Nil_conv, metis)
  with 2 show ?case by (auto simp: tidy_Cons)
qed simp

lemma tidy_suffix: "tidy (s @ t) \<Longrightarrow> tidy t"
  by (induction s) (auto simp: tidy_Cons)

lemma tidy_prefix: "tidy (s @ t) \<Longrightarrow> tidy s"
proof (induction s)
  case (Cons c s)
  then show ?case by (cases s) (auto simp: tidy_Cons)
qed simp

lemma tidy_strip: "tidy s \<Longrightarrow> tidy (py_strip s)"
proof -
  assume t: "tidy s"
  obtain a where a: "s = a @ dropWhile is_space s" by (metis takeWhile_dropWhile_id)
  let ?d = "dropWhile is_space s"
  have d: "tidy ?d" using t a tidy_suffix by metis
  obtain b where "rev ?d = b @ dropWhile is_space (rev ?d)" by (metis takeWhile_dropWhile_id)
  then have "?d = py_strip s @ rev b" by (metis py_strip_def rev_append rev_rev_ident)
  with d show ?thesis using tidy_prefix by metis
qed

text \<open>The last pattern of \<open>_collapse_adjacent_repeats\<close> never matches: its group has to end at a word
  boundary and to be followed at once by its own first character, which is a word character.\<close>

lemma collapse_tokens_id: "collapse_tokens w prev s = s"
proof (induction w prev s rule: collapse_tokens.induct)
  case (2 w prev c cs)
  have "fst (eat_adjacent (takeWhile w (c # cs)) (dropWhile w (c # cs))) = 0" if "w c"
  proof -
    have "\<not> prefix (c # takeWhile w cs) (dropWhile w cs)"
    proof
      assume "prefix (c # takeWhile w cs) (dropWhile w cs)"
      then obtain u where "dropWhile w cs = c # u" by (auto simp: prefix_def)
      with that hd_dropWhile[of w cs] show False by simp
    qed
    with that have "\<not> prefix (takeWhile w (c # cs)) (dropWhile w (c # cs))" by simp
    then show ?thesis by (subst eat_adjacent.simps) simp
  qed
  with 2 show ?case by (auto simp: Let_def split: prod.splits)
qed simp

section \<open>Properties\<close>

text \<open>The rule cleaner only deletes. Whatever the filler words, the visible characters of the cleaned
  text are a subsequence of those of the original, and its white space is single spaces, none at either end.\<close>

theorem rule_clean_only_deletes:
  "subseq (ink (rule_clean w filler s)) (ink s) \<and> tidy (rule_clean w filler s)
   \<and> (rule_clean w filler s = [] \<or> \<not> is_space (hd (rule_clean w filler s)) \<and> \<not> is_space (last (rule_clean w filler s)))"
proof -
  let ?t = "normalize_whitespace (collapse_adjacent_repeats w (remove_filler_words filler (remove_word_repetitions w False s)))"
  have "tidy (rule_clean w filler s)" using tidy_strip[OF tidy_normalize] by (simp add: rule_clean_def)
  moreover have "rule_clean w filler s = [] \<or> \<not> is_space (hd (rule_clean w filler s)) \<and> \<not> is_space (last (rule_clean w filler s))"
    unfolding rule_clean_def by (rule strip_ends)
  ultimately show ?thesis using rule_clean_ink by blast
qed

text \<open>C16: cleaning never moves a subtitle. Whatever the mode, the LLM and the reply do, the cleaned
  transcript has the same segments with the same times and confidences; with \<open>fallback_on_error\<close> the
  call does not fail, and its texts are either all non-blank or exactly the original ones.\<close>

theorem cleaning_keeps_timeline:
  assumes "clean_transcript env segs p = (p', r)"
  shows "(case r of Inl e \<Rightarrow> \<not> cl_fallback_on_error env \<and> has_class TextCleaningError e
    | Inr out \<Rightarrow> map timing out = map timing segs \<and> (out = segs \<or> list_all (\<lambda>seg. \<not> blank (sg_text seg)) out))"
proof (cases r)
  case (Inl e)
  with assms show ?thesis by (auto simp: clean_transcript_def raise_code_def split: if_splits prod.splits sum.splits)
next
  case (Inr out)
  with assms clean_transcript_ok show ?thesis by fastforce
qed

text \<open>One filler word disables cleaning. In rule mode, if a single segment consists of filler words
  only, the whole transcript comes back uncleaned.\<close>

theorem filler_segment_disables_cleaning:
  assumes "mode_of (cl_mode env) = RuleMode" "cl_fallback_on_error env"
    "seg \<in> set segs" "blank (rule_clean (cl_word env) (cl_filler env) (sg_text seg))"
  shows "clean_transcript env segs p = (p, Inr segs)"
proof -
  have "list_ex (\<lambda>s. blank (sg_text s)) (rule_clean_segments (cl_word env) (cl_filler env) segs)"
    using assms(3,4) by (auto simp: rule_clean_segments_def list_ex_iff)
  then show ?thesis by (auto simp: clean_transcript_def clean_attempt_def validate_cleaned_def Let_def assms(1,2) rule_clean_segments_def)
qed

definition demo_cleaning :: "unit cleaning_env" where
  "demo_cleaning = \<lparr>cl_enabled = True, cl_mode = str ''rule'', cl_fallback_on_error = True, cl_word = (\<lambda>c. \<not> is_space c),
     cl_filler = DEFAULT_FILLER_WORDS, cl_loads = (\<lambda>_. None), cl_llm = None\<rparr>"

definition demo_seg :: "pystr \<Rightarrow> asr_segment" where
  "demo_seg t = \<lparr>sg_start = 0, sg_end = 1, sg_text = t, sg_confidence = None\<rparr>"

theorem cleaning_keeps_timeline_witness:
  "\<exists>out. clean_transcript demo_cleaning [demo_seg (str ''no no no way'')] () = ((), Inr out)
     \<and> map sg_text out = [str ''no way''] \<and> map timing out = [(0, 1, None)]"
proof -
  have r: "clean_transcript demo_cleaning [demo_seg (str ''no no no way'')] () = ((), Inr [demo_seg (str ''no way'')])"
    by code_simp
  from cleaning_keeps_timeline[OF r] have "map timing [demo_seg (str ''no way'')] = map timing [demo_seg (str ''no no no way'')]"
    by simp
  then have "map timing [demo_seg (str ''no way'')] = [(0, 1, None)]" by (simp add: demo_seg_def timing_def)
  with r show ?thesis by (intro exI[of _ "[demo_seg (str ''no way'')]"] conjI) (simp_all only:, simp add: demo_seg_def)
qed

theorem filler_segment_disables_cleaning_witness:
  "clean_transcript demo_cleaning [demo_seg (str ''no no no''), demo_seg [0x55EF]] ()
     = ((), Inr [demo_seg (str ''no no no''), demo_seg [0x55EF]])"
  by (rule filler_segment_disables_cleaning[of _ "demo_seg [0x55EF]"]) (simp_all add: demo_cleaning_def mode_of_def, code_simp+)

text \<open>A cleaned line that begins with a number loses it, because it is read as the numbering.\<close>

lemma leading_number_lost: "parse_cleaned (\<lambda>_. None) (str ''3 pages'') 1 = Inr [str ''pages'']"
  by code_simp

text \<open>A repetition may end inside a longer word, whose beginning is then taken for a repetition.\<close>

lemma repetition_eats_word_start:
  "rule_clean (\<lambda>c. \<not> is_space c) [] (str ''no no nothing'') = str ''nothing''"
  by code_simp

end
