(* ===== verification/Configuration.thy ===== *)
theory Configuration
  imports Llama_Index Memory Hybrid Web_Search LLM Chunkers Text_Cleaning
begin

text \<open>
  How the services read their settings: placeholders of environment variables in strings
  (\<open>${VAR}\<close>, \<open>${VAR:-default}\<close>) and the functions that build configuration records from a section of
  \<open>config/ai.yaml\<close>. The parsed YAML section is a dictionary (nested sections are given separately), the
  environment a partial map from names to values (\<open>os.environ\<close> over \<open>.env\<close>), and \<open>str\<close> of floats and
  lists a parameter. Entries the source keeps without a conversion are read as text, \<open>null\<close> as the empty one.
\<close>

type_synonym environment = "pystr \<Rightarrow> pystr option"

section \<open>Placeholders\<close>

definition ident_start :: "int \<Rightarrow> bool" where
  "ident_start c \<longleftrightarrow> (65 \<le> c \<and> c \<le> 90) \<or> (97 \<le> c \<and> c \<le> 122) \<or> c = 95"

definition ident_char :: "int \<Rightarrow> bool" where
  "ident_char c \<longleftrightarrow> ident_start c \<or> (48 \<le> c \<and> c \<le> 57)"

text \<open>
  A match of the pattern at the start of a string: the name, the dflt and the length. The
  modules write the default as \<open>[^}]*\<close> or as \<open>.*?\<close>; the second does not cross a line break (\<open>multiline\<close> is
  false).
\<close>

definition match_rest :: "bool \<Rightarrow> pystr \<Rightarrow> pystr \<Rightarrow> (pystr \<times> pystr option \<times> nat) option" where
  "match_rest multiline name rest =
     (case rest of
        [] \<Rightarrow> None
      | c # t \<Rightarrow>
          if c = 125 then Some (name, None, length name + 3)
          else if c = 58 \<and> t \<noteq> [] \<and> hd t = 45
          then (let dflt = takeWhile (\<lambda>x. x \<noteq> 125) (tl t)
                in if length dflt < length (tl t) \<and> (multiline \<or> 10 \<notin> set dflt)
                   then Some (name, Some dflt, length name + length dflt + 5) else None)
          else None)"

definition match_placeholder :: "bool \<Rightarrow> pystr \<Rightarrow> (pystr \<times> pystr option \<times> nat) option" where
  "match_placeholder multiline s =
     (case s of
        d # b # r \<Rightarrow>
          if d = 36 \<and> b = 123 \<and> r \<noteq> [] \<and> ident_start (hd r)
          then match_rest multiline (takeWhile ident_char r) (dropWhile ident_char r)
          else None
      | _ \<Rightarrow> None)"

definition replace_placeholder :: "environment \<Rightarrow> pystr \<Rightarrow> pystr option \<Rightarrow> pystr" where
  "replace_placeholder env name dflt =
     (case env name of None \<Rightarrow> (case dflt of Some d \<Rightarrow> d | None \<Rightarrow> []) | Some v \<Rightarrow> v)"

text \<open>\<open>re.sub\<close>: matches from left to right; what is put in is not looked at again.\<close>

function expand_env :: "bool \<Rightarrow> environment \<Rightarrow> pystr \<Rightarrow> pystr" where
  "expand_env multiline env [] = []"
| "expand_env multiline env (c # cs) = (case match_placeholder multiline (c # cs) of
     Some (name, dflt, n) \<Rightarrow> replace_placeholder env name dflt @ expand_env multiline env (drop (n - 1) cs)
   | None \<Rightarrow> c # expand_env multiline env cs)"
  by pat_completeness auto
termination
  by (relation "measure (\<lambda>(m, env, s). length s)") auto

declare expand_env.simps(2) [simp del]

fun resolve_env_value :: "bool \<Rightarrow> environment \<Rightarrow> pyval \<Rightarrow> pyval" where
  "resolve_env_value multiline env (PStr s) = PStr (if 36 \<notin> set s then s else expand_env multiline env s)"
| "resolve_env_value multiline env v = v"

section \<open>Conversions\<close>

definition get_value :: "pydict \<Rightarrow> string \<Rightarrow> pyval \<Rightarrow> pyval" where
  "get_value d k dflt = (case dict_get d k of Some v \<Rightarrow> v | None \<Rightarrow> dflt)"

definition float_val :: "pyval \<Rightarrow> exn + pyfloat" where
  "float_val v = (case float_of_val v of Some x \<Rightarrow> Inr x
     | None \<Rightarrow> (case v of PStr s \<Rightarrow> Inl (value_error (str ''could not convert string to float''))
                | _ \<Rightarrow> Inl (type_error (str ''float() argument''))))"

definition parse_bool :: "pyval \<Rightarrow> bool" where
  "parse_bool v = (case v of PBool b \<Rightarrow> b
     | PStr s \<Rightarrow> py_lower (py_strip s) \<in> {str ''true'', str ''1'', str ''yes'', str ''on''}
     | _ \<Rightarrow> truthy v)"

definition text_val :: "(pyval \<Rightarrow> pystr) \<Rightarrow> pyval \<Rightarrow> pystr" where
  "text_val rp v = (if v = PNone then [] else str_of_val rp v)"

definition sec_or :: "environment \<Rightarrow> string \<Rightarrow> pystr \<Rightarrow> pystr" where
  "sec_or env k e = (case env (str k) of Some v \<Rightarrow> str_or v e | None \<Rightarrow> e)"

section \<open>Retrieval\<close>

definition build_retrieval_config :: "environment \<Rightarrow> (pyval \<Rightarrow> pystr) \<Rightarrow> pydict \<Rightarrow> exn + retrieval_config" where
  "build_retrieval_config env rp cfg =
     (let get = (\<lambda>k d. resolve_env_value True env (get_value cfg k d)); def = default_retrieval_config
      in sbind (int_of_val (get ''default_top_k'' (PInt (rcfg_default_top_k def)))) (\<lambda>top_k.
         sbind (float_val (get ''score_threshold'' (PFloat (rcfg_score_threshold def)))) (\<lambda>threshold.
         sbind (int_of_val (get ''max_context_tokens'' (PInt (rcfg_max_context_tokens def)))) (\<lambda>tokens.
           Inr \<lparr>rcfg_default_top_k = top_k, rcfg_score_threshold = threshold, rcfg_max_context_tokens = tokens,
             rcfg_prompt_template = str_of_val rp (get ''prompt_template'' (PStr (rcfg_prompt_template def)))\<rparr>))))"

text \<open>\<open>rag_engine.factory._parse_bool\<close>, which differs from the others on values that are neither.\<close>

definition rag_parse_bool :: "(pyval \<Rightarrow> pystr) \<Rightarrow> pyval \<Rightarrow> bool" where
  "rag_parse_bool rp v = (case v of PBool b \<Rightarrow> b
     | _ \<Rightarrow> py_lower (py_strip (str_of_val rp v)) \<in> {str ''1'', str ''true'', str ''yes'', str ''on''})"

definition build_llamaindex_retrieval_config :: "environment \<Rightarrow> (pyval \<Rightarrow> pystr) \<Rightarrow> pydict \<Rightarrow> exn + llama_config" where
  "build_llamaindex_retrieval_config env rp cfg =
     (let get = (\<lambda>k d. resolve_env_value True env (get_value cfg k d)); def = default_llama_config
      in sbind (int_of_val (get ''default_top_k'' (PInt (lc_default_top_k def)))) (\<lambda>top_k.
         sbind (float_val (get ''score_threshold'' (PFloat (lc_score_threshold def)))) (\<lambda>threshold.
         sbind (int_of_val (get ''max_context_tokens'' (PInt (lc_max_context_tokens def)))) (\<lambda>tokens.
           llama_post_init \<lparr>lc_default_top_k = top_k, lc_score_threshold = threshold, lc_max_context_tokens = tokens,
             lc_per_resource_candidates =
               rag_parse_bool rp (get ''per_resource_candidates'' (PBool (lc_per_resource_candidates def)))\<rparr>))))"

section \<open>Embedding\<close>

definition embedding_api_key :: "environment \<Rightarrow> pystr \<Rightarrow> pystr \<Rightarrow> pystr" where
  "embedding_api_key env provider resolved =
     (let generic = sec_or env ''EMBEDDING_API_KEY'' resolved
      in if provider = str ''zhipuai'' then sec_or env ''ZHIPU_API_KEY'' generic
         else if provider = str ''openai'' then sec_or env ''OPENAI_API_KEY'' (sec_or env ''KIMI_API_KEY'' generic)
         else if provider = str ''ollama'' then sec_or env ''OLLAMA_API_KEY'' []
         else generic)"

definition build_embedding_config :: "environment \<Rightarrow> (pyval \<Rightarrow> pystr) \<Rightarrow> pydict \<Rightarrow> exn + embedding_config" where
  "build_embedding_config env rp cfg =
     (let get = (\<lambda>k d. resolve_env_value False env (get_value cfg k d)); def = default_embedding_config;
          num = (\<lambda>k d. int_of_val (get k (PInt d))); txt = (\<lambda>k d. text_val rp (get k (PStr d)));
          provider = txt ''provider'' (ec_provider def)
      in sbind (num ''batch_size'' (ec_batch_size def)) (\<lambda>batch_size.
         sbind (num ''max_retries'' (ec_max_retries def)) (\<lambda>max_retries.
         sbind (num ''timeout'' (ec_timeout def)) (\<lambda>timeout.
         sbind (num ''dimensions'' (ec_dimensions def)) (\<lambda>dimensions.
         sbind (num ''max_text_chars'' (ec_max_text_chars def)) (\<lambda>max_text_chars.
           embedding_post_init \<lparr>ec_provider = provider, ec_model = txt ''model'' (ec_model def),
             ec_api_key = embedding_api_key env provider (txt ''api_key'' []),
             ec_base_url = txt ''base_url'' (ec_base_url def), ec_batch_size = batch_size, ec_max_retries = max_retries,
             ec_timeout = timeout, ec_dimensions = dimensions,
             ec_normalize = parse_bool (get_value cfg ''normalize'' (PBool True)), ec_max_text_chars = max_text_chars\<rparr>))))))"

section \<open>LLM\<close>

record llm_config =
  lm_provider :: pystr
  lm_model :: pystr
  lm_api_key :: pystr
  lm_base_url :: pystr
  lm_temperature :: pyfloat
  lm_max_tokens :: int
  lm_timeout :: int
  lm_max_retries :: int
  lm_fallback_model :: "pystr option"
  lm_mock_response :: pystr
  lm_mock_stream_chunks :: "pystr list"

definition DEFAULT_ZHIPUAI_BASE_URL :: pystr where
  "DEFAULT_ZHIPUAI_BASE_URL = str ''https://open.bigmodel.cn/api/paas/v4''"

definition DEFAULT_ZHIPUAI_MODEL :: pystr where
  "DEFAULT_ZHIPUAI_MODEL = str ''glm-4-flash''"

definition MOCK_RESPONSE :: pystr where
  "MOCK_RESPONSE = ([0x8FD9, 0x662F, 0x6765, 0x81EA] @ str '' mock provider '' @ [0x7684, 0x56FA,
    0x5B9A, 0x56DE, 0x7B54, 0x3002])"

definition MOCK_STREAM_CHUNKS :: "pystr list" where
  "MOCK_STREAM_CHUNKS = [str ''mock'', str '' '', str ''answer'']"

definition default_llm_config :: llm_config where
  "default_llm_config = \<lparr>lm_provider = str ''zhipuai'', lm_model = DEFAULT_ZHIPUAI_MODEL, lm_api_key = [],
     lm_base_url = DEFAULT_ZHIPUAI_BASE_URL, lm_temperature = 7 / 10, lm_max_tokens = 2048, lm_timeout = 60,
     lm_max_retries = 3, lm_fallback_model = None, lm_mock_response = MOCK_RESPONSE,
     lm_mock_stream_chunks = MOCK_STREAM_CHUNKS\<rparr>"

definition llm_provider_defaults :: "llm_config \<Rightarrow> llm_config" where
  "llm_provider_defaults c =
     (let c1 = (if lm_provider c = str ''kimi'' \<and> lm_base_url c = DEFAULT_ZHIPUAI_BASE_URL
                then c\<lparr>lm_base_url := str ''https://api.moonshot.cn/v1''\<rparr> else c);
          c2 = (if lm_provider c1 = str ''kimi'' \<and> lm_model c1 = DEFAULT_ZHIPUAI_MODEL
                then c1\<lparr>lm_model := str ''moonshot-v1-8k''\<rparr> else c1);
          c3 = (if lm_provider c2 = str ''ollama'' \<and> lm_base_url c2 = DEFAULT_ZHIPUAI_BASE_URL
                then c2\<lparr>lm_base_url := str ''http://localhost:11434/v1''\<rparr> else c2)
      in if lm_provider c3 = str ''ollama'' \<and> lm_model c3 = DEFAULT_ZHIPUAI_MODEL
         then c3\<lparr>lm_model := str ''deepseek-r1:8b''\<rparr> else c3)"

definition llm_post_init :: "llm_config \<Rightarrow> exn + llm_config" where
  "llm_post_init raw =
     (let c = llm_provider_defaults raw
      in if lm_max_tokens c \<le> 0 then Inl (value_error (str ''max_tokens '' @ [0x5FC5, 0x987B,
        0x5927, 0x4E8E] @ str '' 0''))
         else if lm_timeout c \<le> 0 then Inl (value_error (str ''timeout '' @ [0x5FC5, 0x987B,
           0x5927, 0x4E8E] @ str '' 0''))
         else if lm_max_retries c < 0 then Inl (value_error (str ''max_retries '' @ [0x4E0D,
           0x80FD, 0x4E3A, 0x8D1F, 0x6570]))
         else if lm_model c = [] then Inl (value_error (str ''model '' @ [0x4E0D, 0x80FD, 0x4E3A,
           0x7A7A]))
         else Inr c)"

definition llm_api_key :: "environment \<Rightarrow> pystr \<Rightarrow> pystr \<Rightarrow> pystr" where
  "llm_api_key env provider resolved =
     (let generic = sec_or env ''LLM_API_KEY'' resolved
      in if provider = str ''zhipuai'' then sec_or env ''ZHIPU_API_KEY'' generic
         else if provider = str ''kimi'' then sec_or env ''KIMI_API_KEY'' (sec_or env ''OPENAI_API_KEY'' generic)
         else generic)"

fun resolve_env_list :: "(pyval \<Rightarrow> pystr) \<Rightarrow> pyval \<Rightarrow> pystr list option" where
  "resolve_env_list rp (PList items) = Some (map (str_of_val rp) items)"
| "resolve_env_list rp (PStr s) = Some (filter (\<lambda>item. item \<noteq> []) (map py_strip (py_split [44] s)))"
| "resolve_env_list rp v = None"

definition build_llm_config :: "environment \<Rightarrow> (pyval \<Rightarrow> pystr) \<Rightarrow> pydict \<Rightarrow> exn + llm_config" where
  "build_llm_config env rp cfg =
     (let get = (\<lambda>k d. resolve_env_value True env (get_value cfg k d)); def = default_llm_config;
          num = (\<lambda>k d. int_of_val (get k (PInt d))); txt = (\<lambda>k d. text_val rp (get k (PStr d)));
          provider = txt ''provider'' (lm_provider def)
      in sbind (float_val (get ''temperature'' (PFloat (lm_temperature def)))) (\<lambda>temperature.
         sbind (num ''max_tokens'' (lm_max_tokens def)) (\<lambda>max_tokens.
         sbind (num ''timeout'' (lm_timeout def)) (\<lambda>timeout.
         sbind (num ''max_retries'' (lm_max_retries def)) (\<lambda>max_retries.
           llm_post_init \<lparr>lm_provider = provider, lm_model = txt ''model'' (lm_model def),
             lm_api_key = llm_api_key env provider (txt ''api_key'' []), lm_base_url = txt ''base_url'' (lm_base_url def),
             lm_temperature = temperature, lm_max_tokens = max_tokens, lm_timeout = timeout, lm_max_retries = max_retries,
             lm_fallback_model = (let v = get ''fallback_model'' PNone in if v = PNone then None else Some (text_val rp v)),
             lm_mock_response = txt ''mock_response'' MOCK_RESPONSE,
             lm_mock_stream_chunks = (case resolve_env_list rp (get_value cfg ''mock_stream_chunks'' PNone) of
                Some (c # cs) \<Rightarrow> c # cs | _ \<Rightarrow> MOCK_STREAM_CHUNKS)\<rparr>)))))"

datatype llm_provider_kind = ZhipuLLM | KimiLLM | OllamaLLM | MockLLM

definition build_llm_provider :: "llm_config \<Rightarrow> exn + llm_provider_kind \<times> llm_config" where
  "build_llm_provider cfg =
     (if lm_provider cfg = str ''zhipuai'' then Inr (ZhipuLLM, cfg)
      else if lm_provider cfg = str ''kimi'' then Inr (KimiLLM, cfg)
      else if lm_provider cfg = str ''ollama'' then Inr (OllamaLLM, cfg)
      else if lm_provider cfg = str ''mock'' then Inr (MockLLM, cfg)
      else Inl (value_error (([0x4E0D, 0x652F, 0x6301, 0x7684] @ str '' LLM provider: '') @
        lm_provider cfg)))"

text \<open>The primary and the fallback provider of the client; the observer is built beside them.\<close>

definition build_llm_client :: "llm_config \<Rightarrow> exn + (llm_provider_kind \<times> llm_config) \<times> (llm_provider_kind \<times> llm_config) option" where
  "build_llm_client cfg =
     sbind (build_llm_provider cfg) (\<lambda>provider.
       case lm_fallback_model cfg of
         Some (c # cs) \<Rightarrow>
           sbind (llm_post_init (default_llm_config\<lparr>lm_provider := lm_provider cfg, lm_model := c # cs,
               lm_api_key := lm_api_key cfg, lm_base_url := lm_base_url cfg, lm_temperature := lm_temperature cfg,
               lm_max_tokens := lm_max_tokens cfg, lm_timeout := lm_timeout cfg, lm_max_retries := lm_max_retries cfg\<rparr>))
             (\<lambda>fallback_cfg. sbind (build_llm_provider fallback_cfg) (\<lambda>fallback. Inr (provider, Some fallback)))
       | _ \<Rightarrow> Inr (provider, None))"

definition validate_llm_config :: "llm_config \<Rightarrow> exn + unit" where
  "validate_llm_config cfg =
     (if lm_provider cfg \<in> {str ''zhipuai'', str ''kimi''} \<and> lm_api_key cfg = []
      then Inl (raise_msg LLMAuthFailedError (lm_provider cfg @ (str '' API key '' @ [0x7F3A,
        0x5931, 0xFF0C, 0x65E0, 0x6CD5, 0x542F, 0x52A8] @ str '' LLM '' @ [0x670D, 0x52A1])))
      else Inr ())"

section \<open>Vector store\<close>

definition resolved_or :: "environment \<Rightarrow> pyval \<Rightarrow> 'a \<Rightarrow> (pyval \<Rightarrow> 'a) \<Rightarrow> 'a" where
  "resolved_or env v dflt f = (let r = resolve_env_value False env v in if r = PStr [] \<or> r = PNone then dflt else f r)"

definition parse_int :: "environment \<Rightarrow> pyval \<Rightarrow> int \<Rightarrow> exn + int" where
  "parse_int env v dflt = resolved_or env v (Inr dflt) int_of_val"

definition parse_float :: "environment \<Rightarrow> pyval \<Rightarrow> pyfloat \<Rightarrow> exn + pyfloat" where
  "parse_float env v dflt = resolved_or env v (Inr dflt) float_val"

definition parse_string :: "environment \<Rightarrow> (pyval \<Rightarrow> pystr) \<Rightarrow> pyval \<Rightarrow> pystr \<Rightarrow> pystr" where
  "parse_string env rp v dflt = resolved_or env v dflt (str_of_val rp)"

text \<open>The configuration with the fields only the clients of the databases use.\<close>

record store_settings = vector_store_config +
  vc_db_name :: pystr
  vc_user :: pystr
  vc_password :: pystr
  vc_token :: pystr
  vc_chroma_path :: pystr
  vc_retry_min_wait :: int
  vc_retry_max_wait :: int
  vc_connect_timeout :: pyfloat

definition build_vector_store_config :: "environment \<Rightarrow> (pyval \<Rightarrow> pystr) \<Rightarrow> pydict \<Rightarrow> exn + store_settings" where
  "build_vector_store_config env rp cfg =
     (let val = (\<lambda>k. get_value cfg k PNone); txt = (\<lambda>k d. parse_string env rp (val k) d); num = (\<lambda>k d. parse_int env (val k) d)
      in sbind (num ''dimensions'' 2048) (\<lambda>dimensions.
         sbind (num ''max_retries'' 3) (\<lambda>max_retries.
         sbind (num ''retry_min_wait'' 1) (\<lambda>min_wait.
         sbind (num ''retry_max_wait'' 10) (\<lambda>max_wait.
         sbind (parse_float env (val ''connect_timeout'') 10) (\<lambda>connect_timeout.
         let c = \<lparr>vc_provider = txt ''provider'' (str ''milvus''),
               vc_collection_name = txt ''collection_name'' (str ''mkc_vectors''), vc_uri = txt ''uri'' (str ''./milvus.db''),
               vc_fallback_provider = txt ''fallback_provider'' (str ''chroma''), vc_dimensions = dimensions,
               vc_metric_type = txt ''metric_type'' (str ''COSINE''), vc_max_retries = max_retries,
               vc_db_name = txt ''db_name'' (str ''default''), vc_user = txt ''user'' [], vc_password = txt ''password'' [],
               vc_token = txt ''token'' [], vc_chroma_path = txt ''chroma_path'' (str ''./chroma''),
               vc_retry_min_wait = min_wait, vc_retry_max_wait = max_wait, vc_connect_timeout = connect_timeout\<rparr>
         in sbind (store_post_init (vector_store_config.truncate c)) (\<lambda>_. Inr c)))))))"

section \<open>Memory, hybrid retrieval, chunking, indexing\<close>

definition build_memory_config :: "(pyval \<Rightarrow> pystr) \<Rightarrow> pydict \<Rightarrow> exn + memory_config" where
  "build_memory_config rp raw =
     sbind (int_of_val (get_value raw ''top_k'' (PInt 5))) (\<lambda>top_k.
     sbind (float_val (get_value raw ''score_threshold'' (PFloat (7 / 10)))) (\<lambda>threshold.
     sbind (int_of_val (get_value raw ''max_context_tokens'' (PInt 1024))) (\<lambda>tokens.
       Inr \<lparr>mem_enabled = parse_bool (get_value raw ''enabled'' (PBool True)), mem_top_k = top_k,
         mem_score_threshold = threshold, mem_max_context_tokens = tokens,
         mem_conversation_prefix = str_of_val rp (get_value raw ''conversation_prefix'' (PStr (str ''memory:conversation''))),
         mem_user_prefix = str_of_val rp (get_value raw ''user_prefix'' (PStr (str ''memory:user'')))\<rparr>)))"

definition build_hybrid_retrieval_config ::
  "(pyval \<Rightarrow> pystr) \<Rightarrow> pydict \<Rightarrow> pydict \<Rightarrow> pydict \<Rightarrow> exn + hybrid_config" where
  "build_hybrid_retrieval_config rp cfg bm25_cfg reranker_cfg =
     (let def = default_hybrid_config; num = (\<lambda>d k v. int_of_val (get_value d k (PInt v)));
          flt = (\<lambda>k v. float_val (get_value cfg k (PFloat v))); yes = (\<lambda>d k v. truthy (get_value d k (PBool v)));
          txt = (\<lambda>d k v. str_of_val rp (get_value d k (PStr v)))
      in sbind (flt ''bm25_weight'' (hc_bm25_weight def)) (\<lambda>bm25_weight.
         sbind (flt ''vector_weight'' (hc_vector_weight def)) (\<lambda>vector_weight.
         sbind (num cfg ''rrf_k'' (hc_rrf_k def)) (\<lambda>rrf_k.
         sbind (num cfg ''rerank_top_n'' (hc_rerank_top_n def)) (\<lambda>top_n.
         sbind (num cfg ''final_top_k'' (hc_final_top_k def)) (\<lambda>top_k.
         sbind (flt ''score_threshold'' (hc_score_threshold def)) (\<lambda>threshold.
         sbind (num cfg ''timeout_ms'' (hc_timeout_ms def)) (\<lambda>timeout.
         sbind (num bm25_cfg ''max_docs'' (hc_bm25_max_docs def)) (\<lambda>max_docs.
         sbind (num bm25_cfg ''cache_max_entries'' (hc_bm25_cache_max_entries def)) (\<lambda>entries.
         sbind (num reranker_cfg ''max_length'' (hc_reranker_max_length def)) (\<lambda>max_length.
           Inr \<lparr>hc_bm25_weight = bm25_weight, hc_vector_weight = vector_weight, hc_rrf_k = rrf_k, hc_rerank_top_n = top_n,
             hc_final_top_k = top_k, hc_score_threshold = threshold, hc_timeout_ms = timeout,
             hc_fallback_to_vector = yes cfg ''fallback_to_vector'' (hc_fallback_to_vector def),
             hc_bm25_tokenizer = txt bm25_cfg ''tokenizer'' (hc_bm25_tokenizer def),
             hc_bm25_user_dict = txt bm25_cfg ''user_dict'' (hc_bm25_user_dict def),
             hc_bm25_cache_index = yes bm25_cfg ''cache_index'' (hc_bm25_cache_index def), hc_bm25_max_docs = max_docs,
             hc_bm25_cache_max_entries = entries,
             hc_reranker_model_name = txt reranker_cfg ''model_name'' (hc_reranker_model_name def),
             hc_reranker_device = txt reranker_cfg ''device'' (hc_reranker_device def),
             hc_reranker_max_length = max_length,
             hc_reranker_enabled = yes reranker_cfg ''enabled'' (hc_reranker_enabled def)\<rparr>)))))))))))"

definition env_or_cfg :: "environment \<Rightarrow> (pyval \<Rightarrow> pystr) \<Rightarrow> string \<Rightarrow> pyval \<Rightarrow> pystr" where
  "env_or_cfg env rp k v = (case env (str k) of Some x \<Rightarrow> x | None \<Rightarrow> str_of_val rp v)"

fun list_val :: "(pyval \<Rightarrow> pystr) \<Rightarrow> pyval \<Rightarrow> exn + pystr list" where
  "list_val rp (PList items) = Inr (map (str_of_val rp) items)"
| "list_val rp (PStr s) = Inr (map (\<lambda>c. [c]) s)"
| "list_val rp v = Inl (type_error (str ''object is not iterable''))"

definition build_chunking_config :: "environment \<Rightarrow> (pyval \<Rightarrow> pystr) \<Rightarrow> pydict \<Rightarrow> exn + chunking_config" where
  "build_chunking_config env rp cfg =
     sbind (int_of_val (PStr (env_or_cfg env rp ''CHUNKING_CHUNK_SIZE'' (get_value cfg ''chunk_size'' (PInt 512))))) (\<lambda>sz.
     sbind (int_of_val (get_value cfg ''chunk_overlap'' (PInt 50))) (\<lambda>overlap.
     sbind (list_val rp (get_value cfg ''separators'' (PList (map PStr DEFAULT_SEPARATORS)))) (\<lambda>seps.
     sbind (int_of_val (PStr (env_or_cfg env rp ''CHUNKING_MAX_INPUT_CHARS'' (get_value cfg ''max_input_chars'' (PInt 1000000)))))
       (\<lambda>max_chars.
       config_post_init
         \<lparr>default_strategy = env_or_cfg env rp ''CHUNKING_DEFAULT_STRATEGY'' (get_value cfg ''strategy'' (PStr (str ''paragraph''))),
          chunk_size = sz, chunk_overlap = overlap, separators = seps,
          preserve_metadata = truthy (get_value cfg ''preserve_metadata'' (PBool True)), max_input_chars = max_chars\<rparr>))))"

record vector_indexing_config =
  vi_enabled :: bool
  vi_strategy :: "pystr option"

definition build_vector_indexing_config :: "(pyval \<Rightarrow> pystr) \<Rightarrow> pydict \<Rightarrow> vector_indexing_config" where
  "build_vector_indexing_config rp cfg =
     \<lparr>vi_enabled = parse_bool (get_value cfg ''enabled'' (PBool True)),
      vi_strategy = (let v = get_value cfg ''strategy'' PNone in if truthy v then Some (str_of_val rp v) else None)\<rparr>"

section \<open>Web search\<close>

text \<open>Here only a value that is one placeholder as a whole is replaced.\<close>

definition whole_placeholder :: "environment \<Rightarrow> pystr \<Rightarrow> pystr" where
  "whole_placeholder env v =
     (if prefix (str ''${'') v \<and> suffix (str ''}'') v
      then (case env (take (length v - 3) (drop 2 v)) of Some x \<Rightarrow> x | None \<Rightarrow> []) else v)"

definition build_provider_config ::
  "environment \<Rightarrow> (pyval \<Rightarrow> pystr) \<Rightarrow> pydict \<Rightarrow> pystr \<Rightarrow> string option \<Rightarrow> exn + provider_config" where
  "build_provider_config env rp cfg base_url env_key =
     (let api_key = whole_placeholder env (str_of_val rp (get_value cfg ''api_key'' (PStr [])))
      in sbind (float_val (get_value cfg ''timeout'' (PFloat 10))) (\<lambda>timeout.
           Inr \<lparr>pc_api_key = (case env_key of None \<Rightarrow> api_key
                   | Some k \<Rightarrow> (case env (str k) of Some x \<Rightarrow> x | None \<Rightarrow> api_key)),
                pc_base_url = str_of_val rp (get_value cfg ''base_url'' (PStr base_url)), pc_timeout = timeout\<rparr>))"

definition build_web_search_config ::
  "environment \<Rightarrow> (pyval \<Rightarrow> pystr) \<Rightarrow> pydict \<Rightarrow> pydict \<Rightarrow> pydict \<Rightarrow> pydict \<Rightarrow> exn + web_search_config" where
  "build_web_search_config env rp cfg curl serper bing =
     (let num = (\<lambda>k v. int_of_val (get_value cfg k (PInt v)))
      in sbind (num ''top_k'' 5) (\<lambda>top_k.
         sbind (num ''max_top_k'' 10) (\<lambda>max_top_k.
         sbind (num ''rate_limit_per_minute'' 20) (\<lambda>limit.
         sbind (num ''max_retries'' 2) (\<lambda>retries.
         sbind (float_val (get_value cfg ''retry_backoff_min'' (PInt 1))) (\<lambda>_.
         sbind (float_val (get_value cfg ''retry_backoff_max'' (PInt 5))) (\<lambda>_.
         sbind (num ''snippet_max_length'' 200) (\<lambda>snippet.
         sbind (build_provider_config env rp curl (str ''https://api.duckduckgo.com/'') None) (\<lambda>c.
         sbind (build_provider_config env rp serper (str ''https://google.serper.dev/search'') (Some ''SERPER_API_KEY'')) (\<lambda>sp.
         sbind (build_provider_config env rp bing (str ''https://api.bing.microsoft.com/v7.0/search'') (Some ''BING_API_KEY'')) (\<lambda>b.
           Inr \<lparr>wc_provider = py_lower (str_of_val rp (get_value cfg ''provider'' (PStr (str ''curl'')))), wc_top_k = top_k,
             wc_max_top_k = max_top_k, wc_rate_limit_per_minute = limit, wc_max_retries = retries,
             wc_snippet_max_length = snippet, wc_curl = c, wc_serper = sp, wc_bing = b\<rparr>)))))))))))"

section \<open>Transcript cleaning\<close>

text \<open>
  The LLM of the cleaner: the constructors of the two client packages are parameters, which raise
  \<open>ImportError\<close> when the package is not installed.
\<close>

definition or_on_import_error :: "exn + 'c \<Rightarrow> exn + 'c \<Rightarrow> exn + 'c" where
  "or_on_import_error r k = (case r of
     Inl (PyException c m) \<Rightarrow> if c \<in> {''ImportError'', ''ModuleNotFoundError''} then k else r | _ \<Rightarrow> r)"

definition create_openai_compatible_client ::
  "(pystr \<Rightarrow> exn + 'c) \<Rightarrow> (pystr \<Rightarrow> exn + 'c) \<Rightarrow> pystr \<Rightarrow> exn + 'c" where
  "create_openai_compatible_client openai zhipuai api_key =
     or_on_import_error (openai api_key) (or_on_import_error (zhipuai api_key)
       (Inl (raise_code TextCleaningError ''LLM_NOT_CONFIGURED''
          (str ''no supported LLM client package installed (openai or zhipuai)'') 500)))"

definition mode_uses_llm :: "(pyval \<Rightarrow> pystr) \<Rightarrow> pydict \<Rightarrow> bool" where
  "mode_uses_llm rp cfg \<longleftrightarrow> py_strip (py_lower (str_of_val rp (get_value cfg ''mode'' (PStr (str ''rule'')))))
     \<in> {str ''llm'', str ''hybrid''}"

record 'c llm_cleaner =
  cn_client :: 'c
  cn_model :: pystr
  cn_temperature :: pyfloat
  cn_max_tokens :: int
  cn_batch_size :: int

definition build_llm_cleaner ::
  "(pystr \<Rightarrow> exn + 'c) \<Rightarrow> (pyval \<Rightarrow> pystr) \<Rightarrow> pystr \<Rightarrow> pydict \<Rightarrow> exn + 'c llm_cleaner option" where
  "build_llm_cleaner create rp api_key cfg =
     sbind (float_val (get_value cfg ''temperature'' (PFloat (1 / 10)))) (\<lambda>temperature.
     sbind (int_of_val (get_value cfg ''max_tokens'' (PInt 2048))) (\<lambda>max_tokens.
     sbind (int_of_val (get_value cfg ''batch_size'' (PInt 10))) (\<lambda>batch_size.
       if api_key = [] then Inr None
       else case create api_key of
              Inr client \<Rightarrow> Inr (Some \<lparr>cn_client = client,
                cn_model = text_val rp (get_value cfg ''llm_model'' (PStr (str ''glm-4-flash''))),
                cn_temperature = temperature, cn_max_tokens = max_tokens, cn_batch_size = batch_size\<rparr>)
            | Inl e \<Rightarrow> if has_class TextCleaningError e then Inr None else Inl e)))"

definition cleaning_llm ::
  "(pystr \<Rightarrow> exn + 'c) \<Rightarrow> (pystr \<Rightarrow> exn + 'c) \<Rightarrow> (pyval \<Rightarrow> pystr) \<Rightarrow> pystr \<Rightarrow> pydict \<Rightarrow> exn + 'c llm_cleaner option" where
  "cleaning_llm openai zhipuai rp api_key cfg =
     (if mode_uses_llm rp cfg then build_llm_cleaner (create_openai_compatible_client openai zhipuai) rp api_key cfg
      else Inr None)"

end
