(* ===== verification/Chunking.thy ===== *)
theory Chunking
  imports Chunkers
begin

text \<open>
  What the chunking component promises. The locale \<open>chunk_strategy\<close> is the contract between a
  strategy and its clients (numbering, identifiers, spans inside the text); each strategy
  interprets it, and the service inherits it. The properties state that no text is lost, that the
  size limits hold, and where they do not.
\<close>

section \<open>The contract of a strategy\<close>

locale chunk_strategy =
  fixes split_fn :: "chunking_config \<Rightarrow> token_estimator \<Rightarrow> pystr \<Rightarrow> pystr \<Rightarrow> pydict \<Rightarrow> chunk list"
  assumes indices: "map ck_index (split_fn cfg est t rid m) = [0 ..< length (split_fn cfg est t rid m)]"
    and identity: "c \<in> set (split_fn cfg est t rid m) \<Longrightarrow>
      ck_id c = rid @ str ''-'' @ py_str_nat (ck_index c) \<and> ck_resource_id c = rid
      \<and> ck_token_count c = token_count est (ck_text c)
      \<and> ck_metadata c = (if preserve_metadata cfg then m else [])"
    and span: "0 < chunk_size cfg \<Longrightarrow> c \<in> set (split_fn cfg est t rid m) \<Longrightarrow>
      ck_start c \<le> ck_end c \<and> ck_end c \<le> length t \<and> ck_text c = slice t (ck_start c) (ck_end c)"
    and nothing: "split_fn cfg est [] rid m = []"
begin

lemma ids: "map ck_id (split_fn cfg est t rid m) =
    map (\<lambda>i. rid @ str ''-'' @ py_str_nat i) [0 ..< length (split_fn cfg est t rid m)]"
proof -
  have "map ck_id (split_fn cfg est t rid m)
      = map (\<lambda>i. rid @ str ''-'' @ py_str_nat i) (map ck_index (split_fn cfg est t rid m))"
    using identity by auto
  then show ?thesis by (simp only: indices)
qed

lemma distinct_ids: "distinct (map ck_id (split_fn cfg est t rid m))"
  unfolding ids by (auto simp: distinct_map inj_on_def)

end

section \<open>Interpretations\<close>

lemma map_number_chunks:
  assumes "\<And>i t a b. f (make_chunk cfg est t rid m i a b) = g (i, t, a, b)"
  shows "map f (number_chunks cfg est rid m ps) = map g (enumerate 0 ps)"
  using assms by (simp add: number_chunks_def case_prod_beta)

lemma number_chunks_indices:
  "map ck_index (number_chunks cfg est rid m ps) = [0 ..< length (number_chunks cfg est rid m ps)]"
  by (subst map_number_chunks[where g = fst]) (simp_all add: number_chunks_def)

lemma number_chunks_spans:
  "map (\<lambda>c. (ck_text c, ck_start c, ck_end c)) (number_chunks cfg est rid m ps) = ps"
  by (subst map_number_chunks[where g = snd]) simp_all

lemma number_chunks_text: "map ck_text (number_chunks cfg est rid m ps) = map fst ps"
proof -
  have "map fst (map (\<lambda>c. (ck_text c, ck_start c, ck_end c)) (number_chunks cfg est rid m ps)) = map fst ps"
    by (simp only: number_chunks_spans)
  then show ?thesis by (simp add: comp_def)
qed

lemma number_chunks_in:
  assumes "c \<in> set (number_chunks cfg est rid m ps)"
  shows "\<exists>i t a b. (t, a, b) \<in> set ps \<and> c = make_chunk cfg est t rid m i a b"
proof -
  from assms obtain i t a b where i: "(i, t, a, b) \<in> set (enumerate 0 ps)"
      and c: "c = make_chunk cfg est t rid m i a b"
    by (auto simp: number_chunks_def)
  from imageI[OF i, of snd] have "(t, a, b) \<in> set (map snd (enumerate 0 ps))"
    by (simp only: set_map snd_conv)
  with c show ?thesis by auto
qed

interpretation fixed: chunk_strategy fixed_split
proof (unfold_locales, goal_cases)
  case (1 cfg est t rid m)
  then show ?case using fixed_loop_indices[of cfg est t rid m 0 0] by (simp add: fixed_split_def)
next
  case (2 c cfg est t rid m)
  then show ?case
    by (auto simp: fixed_split_def Let_def split: if_splits dest!: fixed_loop_chunks)
next
  case (3 cfg c est t rid m)
  then show ?case using find_max_end_bounds(1,2)
    by (auto simp: fixed_split_def Let_def split: if_splits dest!: fixed_loop_chunks)
qed (simp add: fixed_split_def)

lemma semantic_tiles:
  assumes "0 < chunk_size cfg"
  shows "tiles 0 t (map (\<lambda>c. (ck_text c, ck_start c, ck_end c)) (semantic_split cfg est t rid m))"
  using assms tiles_split_text by (simp add: semantic_split_def number_chunks_spans)

interpretation semantic: chunk_strategy semantic_split
proof (unfold_locales, goal_cases)
  case (1 cfg est t rid m)
  then show ?case by (simp add: semantic_split_def number_chunks_indices)
next
  case (2 c cfg est t rid m)
  then show ?case by (auto simp: semantic_split_def split: if_splits dest!: number_chunks_in)
next
  case (3 cfg c est t rid m)
  then have "(ck_text c, ck_start c, ck_end c) \<in>
      set (map (\<lambda>c. (ck_text c, ck_start c, ck_end c)) (semantic_split cfg est t rid m))"
    by auto
  from tiles_span[OF semantic_tiles[OF 3(1)] this] show ?case by simp
qed (simp add: semantic_split_def)

section \<open>Paragraph spans\<close>

text \<open>The matches are in order, inside the text, and consist of white space.\<close>

fun spans_ok :: "pystr \<Rightarrow> nat \<Rightarrow> (nat \<times> nat) list \<Rightarrow> bool" where
  "spans_ok content c [] \<longleftrightarrow> c \<le> length content"
| "spans_ok content c ((a, b) # ms) \<longleftrightarrow>
     c \<le> a \<and> a \<le> b \<and> b \<le> length content \<and> blank (slice content a b) \<and> spans_ok content b ms"

lemma spans_ok_earlier: "spans_ok content c ms \<Longrightarrow> c' \<le> c \<Longrightarrow> spans_ok content c' ms"
  by (cases ms) auto

lemma paragraph_match_blank:
  assumes "paragraph_match s = Some k"
  shows "blank (take k s)"
proof -
  from assms obtain cs where s: "s = 10 # cs"
    by (auto simp: paragraph_match_def Let_def split: list.splits if_splits)
  define d where "d = length (dropWhile (\<lambda>x. x \<noteq> 10) (rev (takeWhile is_space cs)))"
  have "k = Suc d"
    using assms unfolding paragraph_match_def s Let_def d_def by (simp split: if_splits)
  moreover have "d \<le> length (takeWhile is_space cs)"
    unfolding d_def by (rule order_trans[OF length_dropWhile_le]) simp
  then have "take d cs = take d (takeWhile is_space cs)"
    by (metis takeWhile_eq_take min.absorb1 take_take)
  then have "\<forall>x \<in> set (take d cs). is_space x"
    by (auto dest: in_set_takeD set_takeWhileD)
  ultimately show ?thesis by (simp add: s blank_iff is_space_def)
qed

lemma paragraph_matches_ok: "spans_ok (pre @ s) (length pre) (paragraph_matches (length pre) s)"
proof (induction "length pre" s arbitrary: pre rule: paragraph_matches.induct)
  case (2 c cs)
  show ?case
  proof (cases "paragraph_match (c # cs)")
    case None
    have "spans_ok ((pre @ [c]) @ cs) (length (pre @ [c])) (paragraph_matches (length (pre @ [c])) cs)"
      using 2(1)[OF None, of "pre @ [c]"] by simp
    with None show ?thesis using spans_ok_earlier by fastforce
  next
    case (Some k)
    have k: "k \<le> length (c # cs)" using paragraph_match_le[OF Some] by simp
    let ?pre = "pre @ take k (c # cs)"
    have l: "length ?pre = length pre + k" using k by simp
    have "spans_ok (?pre @ drop k (c # cs)) (length ?pre)
        (paragraph_matches (length ?pre) (drop k (c # cs)))"
      using 2(2)[OF Some, of ?pre] l by simp
    then have "spans_ok (pre @ c # cs) (length pre + k)
        (paragraph_matches (length pre + k) (drop k (c # cs)))"
      using l by (simp del: take_append drop_append)
    moreover have "blank (slice (pre @ c # cs) (length pre) (length pre + k))"
      using paragraph_match_blank[OF Some] by (simp only: slice_of_append)
    ultimately show ?thesis using Some k by simp
  qed
qed simp

lemma raw_paragraphs_ink:
  "spans_ok content c ms \<Longrightarrow>
     concat (map (\<lambda>p. ink (fst p)) (raw_paragraphs content c ms)) = ink (drop c content)"
proof (induction content c ms rule: raw_paragraphs.induct)
  case (1 content c)
  then show ?case by (auto simp flip: ink_blank)
next
  case (2 content c a b ms)
  have "drop c content = slice content c a @ slice content a b @ drop b content"
    using 2(2) slice_append[of a b "length content" content] slice_append[of c a "length content" content]
    by (auto simp: slice_from)
  moreover have "ink (slice content a b) = []" using 2(2) by (simp add: ink_blank)
  ultimately show ?case using 2 ink_blank[of "slice content c a"] by auto
qed

lemma raw_paragraphs_in:
  "spans_ok content c ms \<Longrightarrow> (t, a, b) \<in> set (raw_paragraphs content c ms) \<Longrightarrow>
     a \<le> b \<and> b \<le> length content \<and> t = slice content a b \<and> \<not> blank t"
proof (induction content c ms rule: raw_paragraphs.induct)
  case (2 content c m_start m_end ms)
  have "c \<le> m_start" "m_start \<le> length content" "spans_ok content m_end ms" using 2(2) by auto
  with 2(1,3) show ?case by (auto split: if_splits)
qed (auto simp: slice_from split: if_splits)

lemma paragraph_pieces_tiles:
  "0 < chunk_size cfg \<Longrightarrow> t \<noteq> [] \<Longrightarrow> tiles a t (paragraph_pieces cfg est (t, a, b))"
  using tiles_split_text by (simp add: paragraph_pieces_def)

lemma slice_slice:
  "b \<le> length t \<Longrightarrow> a \<le> c \<Longrightarrow> c \<le> d \<Longrightarrow> d \<le> b \<Longrightarrow> slice (slice t a b) (c - a) (d - a) = slice t c d"
  by (simp add: slice_def drop_take add.commute min_def)

lemma paragraph_piece_span:
  assumes "0 < chunk_size cfg" "spans_ok content c ms"
    and "q \<in> set (raw_paragraphs content c ms)" "(t, a, b) \<in> set (paragraph_pieces cfg est q)"
  shows "a \<le> b \<and> b \<le> length content \<and> t = slice content a b \<and> t \<noteq> []"
proof -
  obtain u x y where q: "q = (u, x, y)" by (cases q)
  have u: "x \<le> y" "y \<le> length content" "u = slice content x y" "\<not> blank u"
    using raw_paragraphs_in[OF assms(2) assms(3)[unfolded q]] by blast+
  then have ne: "u \<noteq> []" by auto
  have l: "x + length u = y" using u(1-3) by (simp add: length_slice)
  have t: "x \<le> a" "b \<le> y" "t \<noteq> []" "a \<le> b" "t = slice u (a - x) (b - x)"
    using tiles_span[OF paragraph_pieces_tiles[OF assms(1) ne] assms(4)[unfolded q]] l by blast+
  have "slice u (a - x) (b - x) = slice content a b"
    unfolding u(3) using u t by (intro slice_slice) simp_all
  with t u(2) show ?thesis by simp
qed

interpretation para: chunk_strategy paragraph_split
proof (unfold_locales, goal_cases)
  case (1 cfg est t rid m)
  then show ?case by (simp add: paragraph_split_def number_chunks_indices)
next
  case (2 c cfg est t rid m)
  then show ?case by (auto simp: paragraph_split_def split: if_splits dest!: number_chunks_in)
next
  case (3 cfg c est t rid m)
  have ok: "spans_ok t 0 (paragraph_matches 0 t)" using paragraph_matches_ok[of "[]" t] by simp
  from 3(2) obtain i u a b q where "c = make_chunk cfg est u rid m i a b"
      "q \<in> set (raw_paragraphs t 0 (paragraph_matches 0 t))"
      "(u, a, b) \<in> set (paragraph_pieces cfg est q)"
    by (auto simp: paragraph_split_def split: if_splits dest!: number_chunks_in)
  with paragraph_piece_span[OF 3(1) ok] show ?case by simp
qed (simp add: paragraph_split_def)

section \<open>Estimators with at most one token per character\<close>

text \<open>
  The token limit follows from the character limit only for an estimator that makes at most one
  token per character, as the fallback estimator does.
\<close>

locale char_bounded =
  fixes est :: token_estimator
  assumes count_le_length: "token_count est t \<le> length t"
begin

lemma split_text_token_limit:
  "(u, a, b) \<in> set (split_text cfg est content start_pos seps merge_across) \<Longrightarrow>
     token_count est u \<le> nat (chunk_size cfg)"
  using split_text_char_limit count_le_length order_trans by blast

lemma single_char_fits: "0 < chunk_size cfg \<Longrightarrow> int (token_count est [x]) \<le> chunk_size cfg"
  using count_le_length[of "[x]"] by simp

lemma count_Nil: "token_count est [] = 0"
  using count_le_length[of "[]"] by simp

end

interpretation fallback: char_bounded fallback_estimator
  by unfold_locales simp

section \<open>Shared facts of the properties\<close>

lemma post_init_size: "config_post_init raw = Inr cfg \<Longrightarrow> 0 < chunk_size cfg"
  by (simp add: config_post_init_wf config_wf_def)

lemma paragraph_piece_limit:
  "(u, a, b) \<in> set (paragraph_pieces cfg est p) \<Longrightarrow> length u \<le> nat (chunk_size cfg)"
  by (auto simp: paragraph_pieces_def size_exceeded_iff
      dest: split_text_char_limit fits_size split: prod.splits if_splits)

lemma paragraph_chunk_limit:
  "c \<in> set (paragraph_split cfg est t rid m) \<Longrightarrow> length (ck_text c) \<le> nat (chunk_size cfg)"
  by (auto simp: paragraph_split_def split: if_splits dest!: number_chunks_in dest: paragraph_piece_limit)

lemma semantic_chunk_limit:
  "c \<in> set (semantic_split cfg est t rid m) \<Longrightarrow> length (ck_text c) \<le> nat (chunk_size cfg)"
  by (auto simp: semantic_split_def split: if_splits dest!: number_chunks_in dest: split_text_char_limit)

lemma concat_map_concat:
  "concat (map f (concat (map g xs))) = concat (map (\<lambda>x. concat (map f (g x))) xs)"
  by (induction xs) simp_all

lemma paragraph_ink:
  assumes "0 < chunk_size cfg"
  shows "ink (concat (map ck_text (paragraph_split cfg est t rid m))) = ink t"
proof (cases "t = []")
  case False
  define ms where "ms = paragraph_matches 0 t"
  have ok: "spans_ok t 0 ms" using paragraph_matches_ok[of "[]" t] by (simp add: ms_def)
  have piece: "concat (map fst (paragraph_pieces cfg est p)) = fst p"
    if "p \<in> set (raw_paragraphs t 0 ms)" for p
  proof -
    obtain u a b where p: "p = (u, a, b)" by (cases p)
    with raw_paragraphs_in[OF ok, of u a b] that have "u \<noteq> []" by auto
    from tiles_concat[OF paragraph_pieces_tiles[OF assms this]] show ?thesis using p by simp
  qed
  have "concat (map ck_text (paragraph_split cfg est t rid m))
      = concat (map fst (raw_paragraphs t 0 ms))"
    using False piece
    by (simp add: paragraph_split_def number_chunks_text concat_map_concat flip: ms_def cong: map_cong)
  then show ?thesis using raw_paragraphs_ink[OF ok] by (simp add: concat_ink)
qed (simp add: paragraph_split_def ink_def)

lemma chunk_service_split:
  assumes "chunk_service cfg est t rid m strategy = Inr cs"
  shows "cs = paragraph_split cfg est t rid m \<or> cs = fixed_split cfg est t rid m
    \<or> cs = semantic_split cfg est t rid m"
  using assms by (simp add: chunk_service_def Let_def split: if_splits)

lemma fixed_chunk_tokens:
  assumes "token_count est [] = 0" "0 < chunk_size cfg" "c \<in> set (fixed_split cfg est t rid m)"
  shows "int (ck_token_count c) \<le> chunk_size cfg"
proof -
  from assms(3) obtain i a where a: "a < length t"
      and c: "c = (let e = find_max_end est t a (chunk_size cfg)
                   in make_chunk cfg est (slice t a e) rid m i a e)"
    by (auto simp: fixed_split_def split: if_splits dest!: fixed_loop_chunks)
  let ?e = "find_max_end est t a (chunk_size cfg)"
  show ?thesis
  proof (cases "a < ?e")
    case True
    with find_max_end_bounds(3)[OF a True] c show ?thesis by (simp add: Let_def)
  next
    case False
    then have "slice t a ?e = []" by (simp add: slice_def)
    with c assms show ?thesis by (simp add: Let_def)
  qed
qed

section \<open>Properties\<close>

text \<open>A configuration the constructor accepts, for the witnesses.\<close>

definition tiny_config :: chunking_config where
  "tiny_config = \<lparr>default_strategy = str ''paragraph'', chunk_size = 4, chunk_overlap = 1,
     separators = DEFAULT_SEPARATORS, preserve_metadata = True, max_input_chars = 100\<rparr>"

lemma tiny_config_ok: "config_post_init tiny_config = Inr tiny_config"
  by (simp add: config_post_init_def tiny_config_def DEFAULT_SEPARATORS_def)

text \<open>C1: the semantic strategy loses nothing and respects the size. For every configuration the
  constructor accepts and every tokenizer, the chunk texts concatenate to the input, no chunk is
  empty and no chunk is longer than \<open>chunk_size\<close> characters.\<close>

theorem semantic_split_lossless:
  assumes "config_post_init raw = Inr cfg"
  shows "concat (map ck_text (semantic_split cfg est t rid m)) = t
    \<and> (\<forall>c \<in> set (semantic_split cfg est t rid m).
         ck_text c \<noteq> [] \<and> int (length (ck_text c)) \<le> chunk_size cfg)"
proof -
  have pos: "0 < chunk_size cfg" using post_init_size[OF assms] .
  let ?ps = "map (\<lambda>c. (ck_text c, ck_start c, ck_end c)) (semantic_split cfg est t rid m)"
  have tiled: "tiles 0 t ?ps" using semantic_tiles[OF pos] .
  have "concat (map ck_text (semantic_split cfg est t rid m)) = concat (map fst ?ps)"
    by (simp add: comp_def)
  also have "\<dots> = t" using tiles_concat[OF tiled] .
  finally have "concat (map ck_text (semantic_split cfg est t rid m)) = t" .
  moreover have "ck_text c \<noteq> []" if "c \<in> set (semantic_split cfg est t rid m)" for c
    using that by (intro tiles_span(5)[OF tiled, of _ "ck_start c" "ck_end c"]) auto
  ultimately show ?thesis using semantic_chunk_limit pos by fastforce
qed

theorem semantic_split_lossless_witness:
  "concat (map ck_text (semantic_split tiny_config fallback_estimator (str ''ab cd efghij'') [] []))
     = str ''ab cd efghij''"
  using semantic_split_lossless[OF tiny_config_ok, of fallback_estimator "str ''ab cd efghij''" "[]" "[]"]
  by blast

text \<open>The paragraph strategy drops white space only. For every accepted configuration and every
  tokenizer, the chunk texts carry exactly the non-space characters of the input, in order, and no
  chunk is longer than \<open>chunk_size\<close> characters.\<close>

theorem paragraph_split_keeps_ink:
  assumes "config_post_init raw = Inr cfg"
  shows "ink (concat (map ck_text (paragraph_split cfg est t rid m))) = ink t
    \<and> (\<forall>c \<in> set (paragraph_split cfg est t rid m). int (length (ck_text c)) \<le> chunk_size cfg)"
  using paragraph_ink paragraph_chunk_limit post_init_size[OF assms] by fastforce

theorem paragraph_split_keeps_ink_witness:
  "ink (concat (map ck_text (paragraph_split tiny_config fallback_estimator
      (str ''ab'' @ nl @ nl @ str ''cdefgh'') [] []))) = ink (str ''ab'' @ nl @ nl @ str ''cdefgh'')"
  using paragraph_split_keeps_ink[OF tiny_config_ok, of fallback_estimator
      "str ''ab'' @ nl @ nl @ str ''cdefgh''" "[]" "[]"]
  by blast

text \<open>C2: the fixed-window strategy covers the text within the token limit. For an accepted
  configuration, if the tokenizer makes no token of the empty string and no single character of the
  text needs more than \<open>chunk_size\<close> tokens, every position of the text lies in some chunk and
  every chunk has at most \<open>chunk_size\<close> tokens; nothing is assumed about how token counts grow
  with the window.\<close>

theorem fixed_split_covers:
  assumes "config_post_init raw = Inr cfg" and "token_count est [] = 0"
    and "\<forall>x \<in> set t. int (token_count est [x]) \<le> chunk_size cfg"
  shows "(\<forall>i < length t. \<exists>c \<in> set (fixed_split cfg est t rid m).
            ck_start c \<le> i \<and> i < ck_end c \<and> ck_text c = slice t (ck_start c) (ck_end c))
    \<and> (\<forall>c \<in> set (fixed_split cfg est t rid m). int (ck_token_count c) \<le> chunk_size cfg)"
proof -
  have pos: "0 < chunk_size cfg" using post_init_size[OF assms(1)] .
  have "\<exists>c \<in> set (fixed_split cfg est t rid m). ck_start c \<le> i \<and> i < ck_end c" if "i < length t" for i
    using fixed_loop_covers[OF assms(3,2), of 0 i rid m 0] that by (auto simp: fixed_split_def)
  with fixed.span[OF pos] fixed_chunk_tokens[OF assms(2) pos] show ?thesis by blast
qed

theorem fixed_split_covers_witness:
  "\<exists>c \<in> set (fixed_split tiny_config fallback_estimator (str ''abcdefg'') [] []).
      ck_start c \<le> 6 \<and> 6 < ck_end c"
proof -
  have "\<forall>x \<in> set (str ''abcdefg''). int (token_count fallback_estimator [x]) \<le> chunk_size tiny_config"
    by (simp add: tiny_config_def)
  from fixed_split_covers[OF tiny_config_ok fallback.count_Nil this, of "[]" "[]",
      THEN conjunct1, rule_format, of 6]
  show ?thesis by auto
qed

text \<open>C3: what every client of the chunking service may rely on. Whenever \<open>ChunkingService.chunk\<close>
  returns (whatever strategy was asked for), the chunks are numbered from 0 in order, their
  identifiers are pairwise distinct, they carry the resource, and each text is the slice of the
  input between its positions, which lie inside the input.\<close>

theorem chunk_service_contract:
  assumes "config_post_init raw = Inr cfg" and "chunk_service cfg est t rid m strategy = Inr cs"
  shows "map ck_index cs = [0 ..< length cs] \<and> distinct (map ck_id cs)
    \<and> (\<forall>c \<in> set cs. ck_resource_id c = rid \<and> ck_start c \<le> ck_end c \<and> ck_end c \<le> length t
         \<and> ck_text c = slice t (ck_start c) (ck_end c))"
  using chunk_service_split[OF assms(2)] post_init_size[OF assms(1)]
    fixed.indices fixed.distinct_ids fixed.identity fixed.span
    semantic.indices semantic.distinct_ids semantic.identity semantic.span
    para.indices para.distinct_ids para.identity para.span
  by (elim disjE) simp_all

theorem chunk_service_contract_witness:
  "\<exists>cs. chunk_service tiny_config fallback_estimator (str ''abcdefg'') (str ''r'') [] None = Inr cs
     \<and> distinct (map ck_id cs)"
proof -
  let ?cs = "paragraph_split tiny_config fallback_estimator (str ''abcdefg'') (str ''r'') []"
  have "chunk_service tiny_config fallback_estimator (str ''abcdefg'') (str ''r'') [] None = Inr ?cs"
    by (simp add: chunk_service_def tiny_config_def py_strip_def py_lower_def lower_char_def
        is_space_def Let_def)
  with chunk_service_contract[OF tiny_config_ok this] show ?thesis by blast
qed

text \<open>Without tiktoken the token limit holds. With the character-count fallback estimator, no
  chunk of any strategy has more than \<open>chunk_size\<close> tokens.\<close>

theorem fallback_token_limit:
  assumes "config_post_init raw = Inr cfg"
    and "chunk_service cfg fallback_estimator t rid m strategy = Inr cs"
  shows "\<forall>c \<in> set cs. int (ck_token_count c) \<le> chunk_size cfg"
proof -
  have pos: "0 < chunk_size cfg" using post_init_size[OF assms(1)] .
  show ?thesis
    using chunk_service_split[OF assms(2)] pos fixed_chunk_tokens[OF fallback.count_Nil pos]
      semantic.identity[of _ cfg fallback_estimator t rid m] para.identity[of _ cfg fallback_estimator t rid m]
      semantic_chunk_limit[of _ cfg fallback_estimator t rid m]
      paragraph_chunk_limit[of _ cfg fallback_estimator t rid m]
    by (elim disjE) fastforce+
qed

theorem fallback_token_limit_witness:
  "\<exists>cs. chunk_service tiny_config fallback_estimator (str ''abcdefg'') (str ''r'') [] (Some (str '' Semantic'')) = Inr cs
     \<and> list_all (\<lambda>c. int (ck_token_count c) \<le> 4) cs"
proof -
  let ?cs = "semantic_split tiny_config fallback_estimator (str ''abcdefg'') (str ''r'') []"
  have "chunk_service tiny_config fallback_estimator (str ''abcdefg'') (str ''r'') []
      (Some (str '' Semantic'')) = Inr ?cs"
    by (simp add: chunk_service_def tiny_config_def py_strip_def py_lower_def lower_char_def
        is_space_def Let_def)
  with fallback_token_limit[OF tiny_config_ok this] show ?thesis
    by (intro exI[of _ ?cs]) (simp add: tiny_config_def list_all_iff)
qed

text \<open>A tokenizer that makes three tokens of every character, as byte-level encodings do for rare
  characters.\<close>

definition wide_estimator :: token_estimator where
  "wide_estimator = \<lparr>encoder = Some (\<lambda>t. concat (map (\<lambda>c. [c, c, c]) t), \<lambda>ts. ts)\<rparr>"

text \<open>The token limit of the paragraph strategy is not guaranteed. With a tokenizer that needs
  three tokens per character, the character-level fallback cuts pieces of \<open>chunk_size\<close>
  characters, and a chunk exceeds the limit although the class promises that none does.\<close>

theorem paragraph_token_limit_violated:
  "\<exists>c \<in> set (paragraph_split tiny_config wide_estimator (str ''abcdef'') (str ''r'') []).
     chunk_size tiny_config < int (ck_token_count c)"
  by code_simp

text \<open>The fixed-window strategy can drop text. When single characters need more tokens than
  \<open>chunk_size\<close>, the binary search returns the start position, the chunk is empty and the window
  moves on by one: here the whole input disappears.\<close>

theorem fixed_split_drops_wide_chars:
  "map ck_text (fixed_split (tiny_config\<lparr>chunk_size := 2\<rparr>) wide_estimator (str ''ab'') (str ''r'') [])
     = [[], []]"
  by code_simp

end
