(* ===== verification/Configuration_Props.thy ===== *)
theory Configuration_Props
  imports Configuration Chunking
begin

text \<open>
  What the settings can be relied on for: what the expansion of placeholders computes, that a configuration
  that is built satisfies what its component requires, that an empty section gives the defaults, and where
  settings are not read as they are written.
\<close>

section \<open>Expansion\<close>

text \<open>A string as its author means it: plain text and placeholders.\<close>

datatype template_part = Plain pystr | Variable pystr "pystr option"

definition braced :: "pystr \<Rightarrow> pystr option \<Rightarrow> pystr" where
  "braced name d = str ''${'' @ name @ (case d of None \<Rightarrow> [] | Some x \<Rightarrow> str '':-'' @ x) @ str ''}''"

fun written :: "template_part \<Rightarrow> pystr" where
  "written (Plain s) = s"
| "written (Variable name d) = braced name d"

fun meant :: "environment \<Rightarrow> template_part \<Rightarrow> pystr" where
  "meant env (Plain s) = s"
| "meant env (Variable name d) = replace_placeholder env name d"

fun proper_part :: "bool \<Rightarrow> template_part \<Rightarrow> bool" where
  "proper_part multiline (Plain s) = (36 \<notin> set s)"
| "proper_part multiline (Variable name d) =
     ((case name of [] \<Rightarrow> False | c # cs \<Rightarrow> ident_start c \<and> list_all ident_char cs)
      \<and> (case d of None \<Rightarrow> True | Some x \<Rightarrow> 125 \<notin> set x \<and> (multiline \<or> 10 \<notin> set x)))"

lemma takeWhile_stop: "list_all P xs \<Longrightarrow> \<not> P y \<Longrightarrow> takeWhile P (xs @ y # ys) = xs \<and> dropWhile P (xs @ y # ys) = y # ys"
  by (induction xs) auto

lemma match_braced:
  assumes "proper_part multiline (Variable name d)"
  shows "match_placeholder multiline (braced name d @ rest) = Some (name, d, length (braced name d))"
proof -
  from assms obtain c cs where n: "name = c # cs" "ident_start c" "list_all ident_char cs"
    by (auto split: list.splits)
  then have all: "list_all ident_char name" by (simp add: ident_char_def)
  have stop: "\<not> ident_char 125" "\<not> ident_char 58" by (simp_all add: ident_char_def ident_start_def)
  show ?thesis
  proof (cases d)
    case None
    with takeWhile_stop[OF all stop(1), of rest] n show ?thesis
      by (simp add: braced_def match_placeholder_def match_rest_def)
  next
    case (Some x)
    with assms have x: "125 \<notin> set x" "multiline \<or> 10 \<notin> set x" by auto
    have "takeWhile (\<lambda>y. y \<noteq> 125) (x @ 125 # rest) = x"
      using x(1) by (induction x) auto
    with takeWhile_stop[OF all stop(2), of "45 # x @ 125 # rest"] n Some x(2) show ?thesis
      by (auto simp: braced_def match_placeholder_def match_rest_def Let_def)
  qed
qed

lemma expand_plain: "36 \<notin> set s \<Longrightarrow> expand_env m env (s @ rest) = s @ expand_env m env rest"
proof (induction s)
  case (Cons c s)
  then have "match_placeholder m ((c # s) @ rest) = None"
    by (auto simp: match_placeholder_def split: list.splits)
  with Cons show ?case by (simp add: expand_env.simps(2))
qed simp

lemma expand_braced:
  assumes "proper_part m (Variable name d)"
  shows "expand_env m env (braced name d @ rest) = replace_placeholder env name d @ expand_env m env rest"
proof -
  obtain c cs where b: "braced name d = c # cs" by (auto simp: braced_def)
  with match_braced[OF assms, of rest] show ?thesis by (simp add: expand_env.simps(2))
qed

lemma expand_parts:
  "list_all (proper_part m) parts \<Longrightarrow> expand_env m env (concat (map written parts)) = concat (map (meant env) parts)"
proof (induction parts)
  case (Cons p parts)
  then show ?case by (cases p) (simp_all add: expand_plain expand_braced)
qed simp

lemma meant_plain: "list_all (proper_part m) parts \<Longrightarrow> 36 \<notin> set (concat (map written parts)) \<Longrightarrow>
   concat (map (meant env) parts) = concat (map written parts)"
proof (induction parts)
  case (Cons p parts)
  then show ?case by (cases p) (auto simp: braced_def)
qed simp

text \<open>C25: placeholders mean what they say. A string made of plain text and well-formed placeholders expands
  to the text with each placeholder replaced by the value of its variable, or by its default when the variable
  is not set; a value that is put in is not expanded again.\<close>

theorem expansion_correct:
  assumes "list_all (proper_part multiline) parts"
  shows "resolve_env_value multiline env (PStr (concat (map written parts))) = PStr (concat (map (meant env) parts))"
  using expand_parts[OF assms] meant_plain[OF assms] by auto

theorem expansion_correct_witness:
  "resolve_env_value True (\<lambda>_. None) (PStr (str ''a ${B:-c}'')) = PStr (str ''a c'')"
  using expansion_correct[of True "[Plain (str ''a ''), Variable (str ''B'') (Some (str ''c''))]" "\<lambda>_. None"]
  by (simp add: braced_def replace_placeholder_def ident_start_def)

section \<open>Valid configurations\<close>

definition embedding_ok :: "embedding_config \<Rightarrow> bool" where
  "embedding_ok c \<longleftrightarrow> 0 < ec_batch_size c \<and> 0 \<le> ec_max_retries c \<and> 0 < ec_dimensions c \<and> 0 < ec_max_text_chars c
     \<and> ec_model c \<noteq> []"

definition llm_ok :: "llm_config \<Rightarrow> bool" where
  "llm_ok c \<longleftrightarrow> 0 < lm_max_tokens c \<and> 0 < lm_timeout c \<and> 0 \<le> lm_max_retries c \<and> lm_model c \<noteq> []"

definition llama_ok :: "llama_config \<Rightarrow> bool" where
  "llama_ok c \<longleftrightarrow> 0 < lc_default_top_k c \<and> 0 \<le> lc_score_threshold c \<and> lc_score_threshold c \<le> 1
     \<and> 0 < lc_max_context_tokens c"

lemma embedding_post_init_ok: "embedding_post_init c = Inr d \<Longrightarrow> embedding_ok d"
  by (auto simp: embedding_post_init_def embedding_ok_def Let_def split: if_splits)

lemma llm_post_init_ok: "llm_post_init c = Inr d \<Longrightarrow> llm_ok d"
  unfolding llm_post_init_def Let_def llm_ok_def by (auto split: if_splits)

lemma llama_post_init_ok: "llama_post_init c = Inr d \<Longrightarrow> llama_ok d"
  by (auto simp: llama_post_init_def llama_ok_def split: if_splits)

text \<open>C26: whatever the YAML section and the environment contain, a configuration that is built is one its
  component can work with: positive sizes and limits, an overlap smaller than the chunk size, separators ending
  with the empty one, a threshold in the unit interval, a model name.\<close>

theorem built_configs_ok:
  "(build_embedding_config env rp cfg = Inr ec \<longrightarrow> embedding_ok ec)
   \<and> (build_llm_config env rp cfg = Inr lm \<longrightarrow> llm_ok lm)
   \<and> (build_llamaindex_retrieval_config env rp cfg = Inr lc \<longrightarrow> llama_ok lc)
   \<and> (build_chunking_config env rp cfg = Inr cc \<longrightarrow> config_wf cc)
   \<and> (build_vector_store_config env rp cfg = Inr vc \<longrightarrow> 0 < vc_dimensions vc \<and> 0 \<le> vc_max_retries vc)"
proof (intro conjI impI)
  assume "build_embedding_config env rp cfg = Inr ec"
  then show "embedding_ok ec"
    unfolding build_embedding_config_def Let_def by (elim sbind_InrE) (erule embedding_post_init_ok)
next
  assume "build_llm_config env rp cfg = Inr lm"
  then show "llm_ok lm"
    unfolding build_llm_config_def Let_def by (elim sbind_InrE) (erule llm_post_init_ok)
next
  assume "build_llamaindex_retrieval_config env rp cfg = Inr lc"
  then show "llama_ok lc"
    unfolding build_llamaindex_retrieval_config_def Let_def by (elim sbind_InrE) (erule llama_post_init_ok)
next
  assume "build_chunking_config env rp cfg = Inr cc"
  then show "config_wf cc" unfolding build_chunking_config_def by (elim sbind_InrE) (simp add: config_post_init_wf)
next
  assume "build_vector_store_config env rp cfg = Inr vc"
  then obtain u where "store_post_init (vector_store_config.truncate vc) = Inr u"
    unfolding build_vector_store_config_def Let_def sbind_Inr_iff by blast
  then show "0 < vc_dimensions vc" "0 \<le> vc_max_retries vc"
    by (auto simp: store_post_init_def vector_store_config.defs split: if_splits)
qed

section \<open>Defaults\<close>

lemma sec_or_unset [simp]: "sec_or (\<lambda>_. None) k e = e"
  by (simp add: sec_or_def)

lemma get_value_Nil [simp]: "get_value [] k d = d"
  by (simp add: get_value_def dict_get_def)

lemma float_val_simps [simp]: "float_val (PFloat x) = Inr x" "float_val (PInt n) = Inr (of_int n)"
  by (simp_all add: float_val_def)

lemma str_of_defaults: "str_of_int 512 = str ''512''" "str_of_int 1000000 = str ''1000000''"
  by (simp_all add: str_of_int_def py_str_nat.simps)

lemma int_of_defaults: "int_of_val (PStr (str ''512'')) = Inr 512" "int_of_val (PStr (str ''1000000'')) = Inr 1000000"
  by (simp_all add: py_int_of_str_def split_sign_def digit_part_def py_split_def py_strip_def is_space_def is_digit_def
      digit_zero_def nd_zeros_def int_of_digits_def digits_value_def digit_of_def)

definition default_chunking_config :: chunking_config where
  "default_chunking_config = \<lparr>default_strategy = str ''paragraph'', chunk_size = 512, chunk_overlap = 50,
     separators = DEFAULT_SEPARATORS, preserve_metadata = True, max_input_chars = 1000000\<rparr>"

lemma default_embedding: "build_embedding_config (\<lambda>_. None) rp [] = Inr default_embedding_config"
  by (simp add: build_embedding_config_def default_embedding_config_def Let_def text_val_def embedding_post_init_def
      parse_bool_def embedding_api_key_def DEFAULT_EMBEDDING_URL_def)

text \<open>The defaults of the LLM contain no placeholder.\<close>

lemma resolve_plain: "36 \<notin> set s \<Longrightarrow> resolve_env_value m env (PStr s) = PStr s"
  by simp

lemma llm_defaults_plain [simp]:
  "36 \<notin> set DEFAULT_ZHIPUAI_BASE_URL" "36 \<notin> set DEFAULT_ZHIPUAI_MODEL" "36 \<notin> set MOCK_RESPONSE" "36 \<notin> set (str ''zhipuai'')"
  "DEFAULT_ZHIPUAI_MODEL \<noteq> []"
  by (simp_all add: DEFAULT_ZHIPUAI_BASE_URL_def DEFAULT_ZHIPUAI_MODEL_def MOCK_RESPONSE_def)

lemma zhipu_provider_defaults [simp]: "lm_provider c = str ''zhipuai'' \<Longrightarrow> llm_provider_defaults c = c"
  by (simp add: llm_provider_defaults_def Let_def str_inject del: str_simps)

lemma llm_default_fields [simp]:
  "lm_provider default_llm_config = str ''zhipuai''" "lm_model default_llm_config = DEFAULT_ZHIPUAI_MODEL"
  "lm_base_url default_llm_config = DEFAULT_ZHIPUAI_BASE_URL" "lm_temperature default_llm_config = 7 / 10"
  "lm_max_tokens default_llm_config = 2048" "lm_timeout default_llm_config = 60" "lm_max_retries default_llm_config = 3"
  by (simp_all add: default_llm_config_def)

lemmas llm_building = build_llm_config_def Let_def text_val_def llm_post_init_def llm_api_key_def resolve_plain

lemma default_llm: "build_llm_config (\<lambda>_. None) rp [] = Inr default_llm_config"
  by (simp add: llm_building del: str_simps resolve_env_value.simps(1)) (simp add: default_llm_config_def)

lemma default_chunking: "build_chunking_config (\<lambda>_. None) rp [] = Inr default_chunking_config"
  by (simp add: build_chunking_config_def env_or_cfg_def str_of_defaults int_of_defaults config_post_init_wf config_wf_def
      DEFAULT_SEPARATORS_def default_chunking_config_def del: str_simps int_of_val.simps(5))

text \<open>Without settings every component gets its documented defaults.\<close>

theorem default_configs:
  "build_retrieval_config env rp [] = Inr default_retrieval_config
   \<and> build_llamaindex_retrieval_config env rp [] = Inr default_llama_config
   \<and> build_embedding_config (\<lambda>_. None) rp [] = Inr default_embedding_config
   \<and> build_llm_config (\<lambda>_. None) rp [] = Inr default_llm_config
   \<and> build_memory_config rp [] = Inr default_memory_config
   \<and> build_hybrid_retrieval_config rp [] [] [] = Inr default_hybrid_config
   \<and> build_web_search_config (\<lambda>_. None) rp [] [] [] [] = Inr default_web_search_config
   \<and> build_chunking_config (\<lambda>_. None) rp [] = Inr default_chunking_config"
proof (intro conjI)
  show "build_retrieval_config env rp [] = Inr default_retrieval_config"
    by (simp add: build_retrieval_config_def default_retrieval_config_def)
  show "build_llamaindex_retrieval_config env rp [] = Inr default_llama_config"
    by (simp add: build_llamaindex_retrieval_config_def default_llama_config_def rag_parse_bool_def llama_post_init_def)
  show "build_memory_config rp [] = Inr default_memory_config"
    by (simp add: build_memory_config_def default_memory_config_def parse_bool_def)
  show "build_hybrid_retrieval_config rp [] [] [] = Inr default_hybrid_config"
    by (simp add: build_hybrid_retrieval_config_def Let_def default_hybrid_config_def)
  show "build_web_search_config (\<lambda>_. None) rp [] [] [] [] = Inr default_web_search_config"
    by (simp add: build_web_search_config_def Let_def default_web_search_config_def build_provider_config_def
        whole_placeholder_def py_lower_def lower_char_def)
qed (rule default_embedding default_llm default_chunking)+

theorem built_configs_ok_witness: "embedding_ok default_embedding_config \<and> llm_ok default_llm_config \<and> config_wf default_chunking_config"
  using built_configs_ok[of "\<lambda>_. None" "\<lambda>_. []" "[]"] default_embedding default_llm default_chunking by blast

section \<open>Settings that are not read as written\<close>

text \<open>Two entries of \<open>config/ai.yaml\<close>, and environments that set their variables.\<close>

definition mock_section :: pydict where
  "mock_section = [(str ''mock_stream_chunks'', PStr (str ''${LLM_MOCK_STREAM_CHUNKS:-mock, ,answer}''))]"

definition mock_env :: "pystr option \<Rightarrow> environment" where
  "mock_env v k = (if k = str ''LLM_MOCK_STREAM_CHUNKS'' then v else None)"

definition dimensions_entry :: pyval where
  "dimensions_entry = PStr (str ''${EMBEDDING_DIMENSIONS:-2048}'')"

definition empty_dimensions :: environment where
  "empty_dimensions k = (if k = str ''EMBEDDING_DIMENSIONS'' then Some [] else None)"

lemma mock_section_get:
  "get_value mock_section k d =
     (if k = ''mock_stream_chunks'' then PStr (str ''${LLM_MOCK_STREAM_CHUNKS:-mock, ,answer}'') else d)"
  by (simp add: mock_section_def get_value_def dict_get_def str_inject del: str_simps)

lemma mock_env_sec_or: "k \<noteq> ''LLM_MOCK_STREAM_CHUNKS'' \<Longrightarrow> sec_or (mock_env v) k e = e"
  by (simp add: sec_or_def mock_env_def str_inject del: str_simps)

lemma mock_pieces:
  "resolve_env_list rp (PStr (str ''${LLM_MOCK_STREAM_CHUNKS:-mock, ,answer}''))
     = Some [str ''${LLM_MOCK_STREAM_CHUNKS:-mock'', str ''answer}'']"
  by (simp add: py_split_def py_strip_def is_space_def)

text \<open>The chunks of the mock stream are not expanded. The value that \<open>config/ai.yaml\<close> gives for them is split
  at its commas as it stands, so the mock streams pieces of the placeholder, whatever the environment holds.\<close>

theorem mock_chunks_not_expanded:
  "\<exists>c. build_llm_config (mock_env v) rp mock_section = Inr c
    \<and> lm_mock_stream_chunks c = [str ''${LLM_MOCK_STREAM_CHUNKS:-mock'', str ''answer}'']"
  by (simp add: llm_building mock_section_get mock_env_sec_or mock_pieces
      del: str_simps resolve_env_value.simps(1) resolve_env_list.simps(2))

lemma dimensions_expanded: "resolve_env_value False empty_dimensions dimensions_entry = PStr []"
  by code_simp

text \<open>An empty variable is not an unset one. With \<open>EMBEDDING_DIMENSIONS\<close> set to the empty string the
  embedding configuration cannot be built, while a vector store setting written the same way gets its default.\<close>

theorem empty_variable_fails:
  "(\<exists>e. build_embedding_config empty_dimensions rp [(str ''dimensions'', dimensions_entry)] = Inl e)
   \<and> parse_int empty_dimensions dimensions_entry d = Inr d"
proof
  have g: "get_value [(str ''dimensions'', w)] k d' = (if k = ''dimensions'' then w else d')" for w k d'
    by (simp add: get_value_def dict_get_def str_inject del: str_simps)
  have "\<exists>e. int_of_val (PStr []) = Inl e"
    by (simp add: py_int_of_str_def split_sign_def digit_part_def py_split_def py_strip_def)
  then show "\<exists>e. build_embedding_config empty_dimensions rp [(str ''dimensions'', dimensions_entry)] = Inl e"
    by (auto simp: build_embedding_config_def g Let_def dimensions_expanded default_embedding_config_def simp del: str_simps int_of_val.simps(5))
  show "parse_int empty_dimensions dimensions_entry d = Inr d"
    by (simp add: parse_int_def resolved_or_def dimensions_expanded)
qed

end
