(* ===== verification/Storage.thy ===== *)
theory Storage
  imports Errors
begin

text \<open>
  Object storage (\<open>app/services/minio_storage.py\<close>, \<open>app/services/audio_downloader.py\<close>): which
  object a \<open>minio://\<close> address denotes, how keys are made safe, downloading and uploading; and the
  reports to the gateway (\<open>app/services/gateway_reporter.py\<close>). The MinIO client is a parameter:
  how it is built, \<open>fget_object\<close> and \<open>put_object\<close>.
\<close>

section \<open>Addresses\<close>

text \<open>
  What \<open>urlparse\<close> of the standard library does with the addresses used here. Leading control
  characters and blanks are stripped, tabs and line breaks removed, then scheme, network location, fragment
  and query are split off. \<open>netloc_ok\<close> stands for the library's checks of the network location
  (balanced brackets, Unicode normalisation), which raise \<open>ValueError\<close>.
\<close>

record parsed_url =
  u_scheme :: pystr
  u_netloc :: pystr
  u_path :: pystr

definition scheme_char :: "int \<Rightarrow> bool" where
  "scheme_char c \<longleftrightarrow> (97 \<le> c \<and> c \<le> 122) \<or> (65 \<le> c \<and> c \<le> 90) \<or> (48 \<le> c \<and> c \<le> 57)
     \<or> c = 43 \<or> c = 45 \<or> c = 46"

definition scheme_start :: "int \<Rightarrow> bool" where
  "scheme_start c \<longleftrightarrow> (97 \<le> c \<and> c \<le> 122) \<or> (65 \<le> c \<and> c \<le> 90)"

definition split_scheme :: "pystr \<Rightarrow> pystr \<times> pystr" where
  "split_scheme url =
     (let before = takeWhile (\<lambda>c. c \<noteq> 58) url; after = dropWhile (\<lambda>c. c \<noteq> 58) url
      in if after \<noteq> [] \<and> before \<noteq> [] \<and> scheme_start (hd before) \<and> list_all scheme_char before
         then (py_lower before, tl after) else ([], url))"

definition urlparse :: "(pystr \<Rightarrow> bool) \<Rightarrow> pystr \<Rightarrow> exn + parsed_url" where
  "urlparse netloc_ok raw =
     (let url = filter (\<lambda>c. c \<notin> {9, 10, 13}) (dropWhile (\<lambda>c. c \<le> 32) raw);
          (scheme, rest) = split_scheme url;
          delim = (\<lambda>c. c = 47 \<or> c = 63 \<or> c = 35);
          (netloc, rest') = (if prefix (str ''//'') rest
             then (takeWhile (\<lambda>c. \<not> delim c) (drop 2 rest), dropWhile (\<lambda>c. \<not> delim c) (drop 2 rest))
             else ([], rest))
      in if \<not> netloc_ok netloc then Inl (value_error (str ''netloc''))
         else Inr \<lparr>u_scheme = scheme, u_netloc = netloc,
                   u_path = takeWhile (\<lambda>c. c \<noteq> 63) (takeWhile (\<lambda>c. c \<noteq> 35) rest')\<rparr>)"

section \<open>Names\<close>

definition safe_char :: "int \<Rightarrow> bool" where
  "safe_char c \<longleftrightarrow> (97 \<le> c \<and> c \<le> 122) \<or> (65 \<le> c \<and> c \<le> 90) \<or> (48 \<le> c \<and> c \<le> 57) \<or> c = 95 \<or> c = 45"

definition safe_task_id :: "pystr \<Rightarrow> pystr" where
  "safe_task_id task_id = str_or (filter safe_char task_id) (str ''unknown'')"

fun clean_parts :: "pystr list \<Rightarrow> pystr list \<Rightarrow> pystr list" where
  "clean_parts cleaned [] = cleaned"
| "clean_parts cleaned (part # parts) =
     (if part = str ''..'' then clean_parts (butlast cleaned) parts
      else clean_parts (cleaned @ [part]) parts)"

definition normalize_object_name :: "pystr \<Rightarrow> pystr" where
  "normalize_object_name path =
     py_join (str ''/'') (clean_parts []
       (filter (\<lambda>part. part \<noteq> [] \<and> part \<noteq> str ''.'') (py_split (str ''/'') path)))"

section \<open>The client\<close>

text \<open>Absent entries of the configuration are empty strings (for which \<open>or\<close> takes the default).\<close>

record 'c minio_env =
  mi_installed :: bool
  mi_cfg_endpoint :: pystr
  mi_endpoint :: pystr
  mi_cfg_use_ssl :: "bool option"
  mi_use_ssl :: bool
  mi_cfg_region :: pystr
  mi_region :: pystr
  mi_access_key :: pystr
  mi_secret_key :: pystr
  mi_cfg_bucket :: pystr
  mi_bucket :: pystr
  mi_connect :: "pystr \<Rightarrow> pystr \<Rightarrow> pystr \<Rightarrow> pystr \<Rightarrow> bool \<Rightarrow> exn + 'c"

definition minio_client :: "api_class \<Rightarrow> 'c minio_env \<Rightarrow> exn + 'c" where
  "minio_client cls env =
     (if \<not> mi_installed env then Inl (raise_msg cls (str ''minio SDK is not installed''))
      else if mi_access_key env = [] \<or> mi_secret_key env = []
      then Inl (raise_msg cls (str ''MinIO credentials are not configured''))
      else mi_connect env (str_or (mi_cfg_endpoint env) (str_or (mi_endpoint env) (str ''localhost:9000'')))
             (mi_access_key env) (mi_secret_key env) (str_or (mi_cfg_region env) (mi_region env))
             (case mi_cfg_use_ssl env of Some b \<Rightarrow> b | None \<Rightarrow> mi_use_ssl env))"

definition exn_text :: "exn \<Rightarrow> pystr" where
  "exn_text e = (case e of APIException a \<Rightarrow> exc_message a | PyException c m \<Rightarrow> m)"

type_synonym ('c, 'f) fget = "'c \<Rightarrow> pystr \<Rightarrow> pystr \<Rightarrow> exn + 'f"
type_synonym 'c put = "'c \<Rightarrow> pystr \<Rightarrow> pystr \<Rightarrow> pystr \<Rightarrow> exn + unit"

text \<open>\<open>download_file\<close>, which returns the file it writes.\<close>

definition download_file ::
  "(pystr \<Rightarrow> bool) \<Rightarrow> 'c minio_env \<Rightarrow> ('c, 'f) fget \<Rightarrow> pystr \<Rightarrow> exn + 'f" where
  "download_file netloc_ok env fget url =
     sbind (urlparse netloc_ok url) (\<lambda>parsed.
       let scheme = py_lower (u_scheme parsed);
           bucket = str_or (u_netloc parsed) (str_or (mi_cfg_bucket env) (mi_bucket env));
           object_name = normalize_object_name (dropWhile (\<lambda>c. c = 47) (u_path parsed))
       in if scheme \<noteq> str ''minio''
          then Inl (raise_msg PdfParseError (str ''unsupported PDF URL scheme: '' @ scheme @
                      str ''. Only minio:// is supported.''))
          else if bucket = [] \<or> object_name = []
          then Inl (raise_msg PdfParseError (str ''invalid minio URL: missing bucket or object name''))
          else sbind (minio_client PdfParseError env) (\<lambda>client.
            case fget client bucket object_name of
              Inr f \<Rightarrow> Inr f
            | Inl e \<Rightarrow> Inl (raise_msg PdfNotFoundError (str ''failed to download PDF from minio''))))"

definition download_audio ::
  "(pystr \<Rightarrow> bool) \<Rightarrow> 'c minio_env \<Rightarrow> ('c, 'f) fget \<Rightarrow> pystr \<Rightarrow> exn + 'f" where
  "download_audio netloc_ok env fget url =
     sbind (urlparse netloc_ok url) (\<lambda>parsed.
       let scheme = py_lower (u_scheme parsed);
           bucket = str_or (u_netloc parsed) (str_or (mi_cfg_bucket env) (mi_bucket env));
           object_name = dropWhile (\<lambda>c. c = 47) (u_path parsed)
       in if scheme \<noteq> str ''minio''
          then Inl (raise_msg AudioProcessingError (str ''unsupported audio URL scheme: '' @ scheme @
                      str ''. Only minio:// is supported.''))
          else if bucket = [] \<or> object_name = []
          then Inl (raise_msg AudioProcessingError (str ''invalid minio URL: missing bucket or object name''))
          else sbind (minio_client AudioProcessingError env) (\<lambda>client.
            case fget client bucket object_name of
              Inr f \<Rightarrow> Inr f
            | Inl e \<Rightarrow> Inl (raise_msg AudioProcessingError
                             (str ''failed to download audio from minio: '' @ exn_text e))))"

text \<open>\<open>upload_json\<close>; \<open>dumps\<close> is \<open>json.dumps\<close> of the data.\<close>

definition upload_json :: "'c minio_env \<Rightarrow> 'c put \<Rightarrow> ('d \<Rightarrow> pystr) \<Rightarrow> 'd \<Rightarrow> pystr \<Rightarrow> exn + pystr" where
  "upload_json env put_object dumps data key =
     (let bucket = str_or (mi_cfg_bucket env) (str_or (mi_bucket env) (str ''mkc-resources''))
      in sbind (minio_client PdfParseError env) (\<lambda>client.
           if \<not> utf8_encodable (dumps data) then Inl (PyException ''UnicodeEncodeError'' (str ''utf-8''))
           else case put_object client bucket key (dumps data) of
                  Inr _ \<Rightarrow> Inr (str ''minio://'' @ bucket @ str ''/'' @ key)
                | Inl e \<Rightarrow> Inl (raise_msg PdfParseError
                                 (str ''failed to upload PDF result to minio: '' @ exn_text e))))"

section \<open>Facts\<close>

lemma split_from_parts:
  "p \<in> set (py_split_from [c] cur s) \<Longrightarrow> c \<notin> set cur \<Longrightarrow> c \<notin> set p"
  by (induction "[c]" cur s rule: py_split_from.induct) (auto split: if_splits)

definition object_part :: "pystr \<Rightarrow> bool" where
  "object_part p \<longleftrightarrow> p \<noteq> [] \<and> p \<noteq> str ''.'' \<and> p \<noteq> str ''..'' \<and> 47 \<notin> set p"

lemma clean_parts_ok:
  assumes "list_all object_part cleaned" "list_all (\<lambda>p. p \<noteq> str ''..'' \<longrightarrow> object_part p) parts"
  shows "list_all object_part (clean_parts cleaned parts)"
  using assms
proof (induction cleaned parts rule: clean_parts.induct)
  case (2 cleaned part parts)
  have "list_all object_part (butlast cleaned)" using 2(3) by (auto simp: list_all_iff dest: in_set_butlastD)
  with 2 show ?case by auto
qed simp

lemma clean_parts_id: "list_all object_part parts \<Longrightarrow> clean_parts cleaned parts = cleaned @ parts"
  by (induction cleaned parts rule: clean_parts.induct) (auto simp: object_part_def)

lemma filter_object_parts: "list_all object_part ps \<Longrightarrow> filter (\<lambda>p. p \<noteq> [] \<and> p \<noteq> str ''.'') ps = ps"
  by (induction ps) (auto simp: object_part_def)

lemma normalize_object_parts: "list_all object_part ps \<Longrightarrow> normalize_object_name (py_join (str ''/'') ps) = py_join (str ''/'') ps"
proof (cases "ps = []")
  case False
  assume ok: "list_all object_part ps"
  have "py_split (str ''/'') (py_join (str ''/'') ps) = ps"
    using py_split_join_char[OF False, of 47] ok by (auto simp: list_all_iff object_part_def)
  with ok clean_parts_id[OF ok, of "[]"] filter_object_parts[OF ok] show ?thesis
    by (simp add: normalize_object_name_def)
qed (simp add: normalize_object_name_def py_split_def)

lemma takeWhile_all: "list_all P xs \<Longrightarrow> takeWhile P (xs @ ys) = xs @ takeWhile P ys"
  and dropWhile_all: "list_all P xs \<Longrightarrow> dropWhile P (xs @ ys) = dropWhile P ys"
  by (induction xs) auto

lemma urlparse_minio:
  assumes "list_all (\<lambda>c. c \<notin> {9, 10, 13, 47, 63, 35}) bucket" "list_all (\<lambda>c. c \<notin> {9, 10, 13, 63, 35}) key" "netloc_ok bucket"
  shows "urlparse netloc_ok (str ''minio://'' @ bucket @ 47 # key) = Inr \<lparr>u_scheme = str ''minio'', u_netloc = bucket, u_path = 47 # key\<rparr>"
proof -
  have f: "filter (\<lambda>c. c \<noteq> 9 \<and> c \<noteq> 10 \<and> c \<noteq> 13) xs = xs" if "list_all (\<lambda>c. c \<notin> {9, 10, 13}) xs" for xs :: pystr
    using that by (induction xs) auto
  have fb: "filter (\<lambda>c. c \<noteq> 9 \<and> c \<noteq> 10 \<and> c \<noteq> 13) bucket = bucket"
    and fk: "filter (\<lambda>c. c \<noteq> 9 \<and> c \<noteq> 10 \<and> c \<noteq> 13) key = key"
    using assms(1,2) by (auto intro!: f simp: list_all_iff)
  have nb: "takeWhile (\<lambda>c. c \<noteq> 47 \<and> c \<noteq> 63 \<and> c \<noteq> 35) (bucket @ 47 # key) = bucket"
    "dropWhile (\<lambda>c. c \<noteq> 47 \<and> c \<noteq> 63 \<and> c \<noteq> 35) (bucket @ 47 # key) = 47 # key"
    using assms(1) by (auto simp: takeWhile_all dropWhile_all list_all_iff)
  have k: "takeWhile (\<lambda>c. c \<noteq> 35) key = key" "takeWhile (\<lambda>c. c \<noteq> 63) key = key"
    using assms(2) by (auto simp: takeWhile_eq_all_conv list_all_iff)
  show ?thesis
    using assms(3) by (simp add: urlparse_def split_scheme_def fb fk nb k scheme_start_def scheme_char_def py_lower_def lower_char_def)
qed

section \<open>Properties\<close>

text \<open>C19: an address cannot escape its bucket. Whatever path an address has, the object name made from
  it consists of proper names only (none empty, none \<open>.\<close> or \<open>..\<close>), and cleaning it again
  changes nothing.\<close>

theorem object_name_confined:
  "\<exists>ps. normalize_object_name path = py_join (str ''/'') ps \<and> list_all object_part ps
      \<and> normalize_object_name (normalize_object_name path) = normalize_object_name path"
proof -
  let ?ps = "clean_parts [] (filter (\<lambda>p. p \<noteq> [] \<and> p \<noteq> str ''.'') (py_split (str ''/'') path))"
  have "list_all object_part ?ps"
    by (rule clean_parts_ok) (auto simp: list_all_iff object_part_def py_split_def dest: split_from_parts)
  then show ?thesis using normalize_object_parts by (auto simp: normalize_object_name_def)
qed

text \<open>What was uploaded can be fetched. The address that \<open>upload_json\<close> returns for the key of a
  task's result leads \<open>download_file\<close> to the same client, bucket and key, whatever the task id.\<close>

theorem upload_download_roundtrip:
  assumes "upload_json env put_object dumps data key = Inr url"
    and "key = str ''results/'' @ safe_task_id task_id @ str ''/parsed.json''"
    and "bucket = str_or (mi_cfg_bucket env) (str_or (mi_bucket env) (str ''mkc-resources''))"
    and "list_all (\<lambda>c. c \<notin> {9, 10, 13, 47, 63, 35}) bucket" "netloc_ok bucket"
    and "minio_client PdfParseError env = Inr client" "fget client bucket key = Inr f"
  shows "download_file netloc_ok env fget url = Inr f"
proof -
  have url: "url = str ''minio://'' @ bucket @ 47 # key"
    using assms(1,3) by (auto simp: upload_json_def sbind_Inr_iff Let_def split: if_splits sum.splits)
  have sid: "list_all safe_char (safe_task_id task_id)" "safe_task_id task_id \<noteq> []"
    by (auto simp: safe_task_id_def str_or_def list_all_iff safe_char_def)
  have b: "bucket \<noteq> []" using assms(3) by (auto simp: str_or_def)
  have "list_all (\<lambda>c. c \<notin> {9, 10, 13, 63, 35}) key"
    using sid(1) by (auto simp: assms(2) list_all_iff safe_char_def)
  note u = urlparse_minio[of bucket key netloc_ok, OF assms(4) this assms(5)]
  have "list_all object_part [str ''results'', safe_task_id task_id, str ''parsed.json'']"
    using sid by (auto simp: object_part_def list_all_iff safe_char_def)
  from normalize_object_parts[OF this] have "normalize_object_name key = key"
    by (simp add: assms(2))
  moreover have "dropWhile (\<lambda>c. c = 47) (47 # key) = key" "key \<noteq> []" by (simp_all add: assms(2))
  ultimately show ?thesis using u b
    by (simp add: download_file_def url Let_def assms(6,7) str_or_def py_lower_def lower_char_def)
qed

text \<open>The audio downloader does not clean the name, and a number sign in it cuts it off.\<close>

definition demo_minio :: "unit minio_env" where
  "demo_minio = \<lparr>mi_installed = True, mi_cfg_endpoint = [], mi_endpoint = [], mi_cfg_use_ssl = None, mi_use_ssl = False,
     mi_cfg_region = [], mi_region = [], mi_access_key = str ''a'', mi_secret_key = str ''s'', mi_cfg_bucket = [],
     mi_bucket = str ''b'', mi_connect = (\<lambda>_ _ _ _ _. Inr ())\<rparr>"

theorem upload_download_roundtrip_witness:
  "upload_json demo_minio (\<lambda>_ _ _ _. Inr ()) id (str ''{}'') (str ''results/t1/parsed.json'')
     = Inr (str ''minio://b/results/t1/parsed.json'')
   \<and> download_file (\<lambda>_. True) demo_minio (\<lambda>_ b k. Inr (b, k)) (str ''minio://b/results/t1/parsed.json'')
     = Inr (str ''b'', str ''results/t1/parsed.json'')"
proof -
  have u: "upload_json demo_minio (\<lambda>_ _ _ _. Inr ()) id (str ''{}'') (str ''results/t1/parsed.json'')
     = Inr (str ''minio://b/results/t1/parsed.json'')" by code_simp
  moreover have "download_file (\<lambda>_. True) demo_minio (\<lambda>_ b k. Inr (b, k)) (str ''minio://b/results/t1/parsed.json'')
     = Inr (str ''b'', str ''results/t1/parsed.json'')"
    by (rule upload_download_roundtrip[OF u, of "str ''t1''" "str ''b''" _ "()"])
      (simp_all add: demo_minio_def minio_client_def str_or_def safe_task_id_def safe_char_def)
  ultimately show ?thesis by blast
qed

lemma audio_name_unclean:
  "download_audio (\<lambda>_. True) demo_minio (\<lambda>_ b k. Inr k) (str ''minio://b/x/../y'') = Inr (str ''x/../y'')"
  by code_simp

lemma number_sign_cuts_name:
  "download_file (\<lambda>_. True) demo_minio (\<lambda>_ b k. Inr k) (str ''minio://b/c# notes.pdf'') = Inr (str ''c'')"
  by code_simp

end
