(* ===== verification/Summary.thy ===== *)
theory Summary
  imports Chunk_Base Embedding Storage Py_Values
begin

text \<open>
  Summaries (\<open>app/services/summary\<close>): splitting a text into token windows, map-reduce, the sections of
  a PDF outline or of a recording, the LLM provider with its retries and reply parser, the repository and
  the service. The LLM client, the Jinja templates, \<open>json.loads\<close> and the gateway are parameters.
\<close>

section \<open>Data model\<close>

record section_summary =
  se_title :: pystr
  se_summary :: pystr
  se_content :: pystr
  se_page_range :: "(int \<times> int) option"
  se_timestamp_range :: "(pyfloat \<times> pyfloat) option"

record summary_result =
  sr_resource_id :: pystr
  sr_full_summary :: pystr
  sr_sections :: "section_summary list"
  sr_model :: pystr
  sr_tokens :: int
  sr_fallback :: bool

record summarize_request =
  sq_types :: "pystr list"
  sq_source_type :: pystr
  sq_content :: pystr
  sq_parsed :: "json_dict option"
  sq_srt_segments :: "json_dict list option"

section \<open>Values of JSON dictionaries\<close>

definition json_str :: "(json \<Rightarrow> pystr) \<Rightarrow> json \<Rightarrow> pystr" where
  "json_str dump v = (case v of JStr s \<Rightarrow> s | JNull \<Rightarrow> str ''None'' | JBool b \<Rightarrow> if b then str ''True'' else str ''False'' | _ \<Rightarrow> dump v)"

definition json_int :: "json \<Rightarrow> exn + int" where
  "json_int v = (case v of JNum x \<Rightarrow> Inr (py_trunc x) | JBool b \<Rightarrow> Inr (if b then 1 else 0)
     | JStr s \<Rightarrow> (case py_int_of_str s of Some n \<Rightarrow> Inr n | None \<Rightarrow> Inl (value_error (str ''int'')))
     | _ \<Rightarrow> Inl (type_error (str ''int'')))"

definition json_float :: "json \<Rightarrow> exn + pyfloat" where
  "json_float v = (case v of JNum x \<Rightarrow> Inr x | JBool b \<Rightarrow> Inr (if b then 1 else 0)
     | JStr s \<Rightarrow> (case py_float_of_str s of Some x \<Rightarrow> Inr x | None \<Rightarrow> Inl (value_error (str ''float'')))
     | _ \<Rightarrow> Inl (type_error (str ''float'')))"

text \<open>\<open>v.get(k, d)\<close> of a value that should be a dictionary, and \<open>v.get(k) or []\<close> for a list.\<close>

definition dget :: "json_dict \<Rightarrow> string \<Rightarrow> json \<Rightarrow> json" where
  "dget d k e = (case map_of d (str k) of Some v \<Rightarrow> v | None \<Rightarrow> e)"

definition json_get :: "json \<Rightarrow> string \<Rightarrow> json \<Rightarrow> exn + json" where
  "json_get v k e = (case v of JObj d \<Rightarrow> Inr (dget d k e) | _ \<Rightarrow> Inl attribute_error)"

definition list_or_empty :: "json_dict \<Rightarrow> string \<Rightarrow> exn + json list" where
  "list_or_empty d k = (let v = dget d k JNull
     in if \<not> json_truthy v then Inr []
        else case v of JArr xs \<Rightarrow> Inr xs | JStr s \<Rightarrow> Inr (map (\<lambda>c. JStr [c]) s) | JObj e \<Rightarrow> Inr (map (\<lambda>p. JStr (fst p)) e)
             | _ \<Rightarrow> Inl (type_error (str ''object is not iterable'')))"

text \<open>\<open>xs[a:b]\<close> for any integers.\<close>

definition py_slice :: "int \<Rightarrow> int \<Rightarrow> 'a list \<Rightarrow> 'a list" where
  "py_slice a b xs =
     (let n = int (length xs);
          lo = (if a < 0 then max 0 (n + a) else min a n);
          hi = (if b < 0 then max 0 (n + b) else min b n)
      in take (nat (hi - lo)) (drop (nat lo) xs))"

section \<open>Token windows\<close>

function token_windows :: "nat \<Rightarrow> nat \<Rightarrow> 'a list \<Rightarrow> 'a list list" where
  "token_windows limit step tokens =
     (if tokens = [] \<or> step = 0 then []
      else take limit tokens #
        (if length tokens \<le> limit then [] else token_windows limit step (drop step tokens)))"
  by pat_completeness auto
termination
  by (relation "measure (\<lambda>(limit, step, tokens). length tokens)") auto

declare token_windows.simps [simp del]

definition split_step :: "int \<Rightarrow> int \<Rightarrow> int" where
  "split_step limit overlap = max 1 (limit - max 0 overlap)"

definition split_chunks :: "token_estimator \<Rightarrow> int \<Rightarrow> int \<Rightarrow> pystr \<Rightarrow> exn + pystr list" where
  "split_chunks est limit overlap content =
     (if limit \<le> 0 then Inr [content]
      else let tokens = encode est content
           in if int (length tokens) \<le> limit then Inr [content]
              else smap (\<lambda>window. case decode est window of Some t \<Rightarrow> Inr t | None \<Rightarrow> Inl (value_error (str ''chr()'')))
                     (token_windows (nat limit) (nat (split_step limit overlap)) tokens))"

section \<open>Sections\<close>

fun toc_sections :: "(json \<Rightarrow> pystr) \<Rightarrow> json list \<Rightarrow> nat \<Rightarrow> json list \<Rightarrow> exn + section_summary list" where
  "toc_sections dump pages index [] = Inr []"
| "toc_sections dump pages index (entry # rest) =
     sbind (sbind (json_get entry ''page'' (JNum 1)) json_int) (\<lambda>start_page.
       sbind (case rest of
                [] \<Rightarrow> Inr (int (length pages) + 1)
              | following # _ \<Rightarrow> sbind (json_get following ''page'' (JNum (of_nat (length pages) + 1))) json_int) (\<lambda>next_page.
         let end_page = max start_page (min (next_page - 1) (int (length pages)))
         in sbind (smap (\<lambda>page. sbind (json_get page ''text'' (JStr [])) (\<lambda>t. Inr (json_str dump t)))
                     (py_slice (start_page - 1) end_page pages)) (\<lambda>texts.
              sbind (json_get entry ''title'' JNull) (\<lambda>title.
                sbind (toc_sections dump pages (index + 1) rest) (\<lambda>sections.
                  Inr (\<lparr>se_title = (if json_truthy title then json_str dump title
                                    else [0x7B2C, 0x20] @ py_str_nat (index + 1) @ [0x20, 0x8282]),
                                      se_summary = [],
                        se_content = py_join [10] texts, se_page_range = Some (start_page, end_page),
                        se_timestamp_range = None\<rparr> # sections))))))"

definition split_pdf :: "(json \<Rightarrow> pystr) \<Rightarrow> json_dict \<Rightarrow> exn + section_summary list" where
  "split_pdf dump parsed =
     sbind (list_or_empty parsed ''toc'') (\<lambda>toc.
       sbind (list_or_empty parsed ''pages'') (\<lambda>pages.
         if toc = [] \<or> pages = [] then Inr [] else toc_sections dump pages 0 toc))"

definition fmt_time :: "pyfloat \<Rightarrow> pystr" where
  "fmt_time seconds = (let n = py_trunc seconds; two = (\<lambda>k. if 0 \<le> k \<and> k < 10 then 48 # str_of_int k else str_of_int k)
     in two (n div 60) @ str '':'' @ two (n mod 60))"

definition build_audio_section :: "(json \<Rightarrow> pystr) \<Rightarrow> json_dict list \<Rightarrow> exn + section_summary" where
  "build_audio_section dump segments =
     sbind (json_float (dget (hd segments) ''start'' (JNum 0))) (\<lambda>start.
       sbind (json_float (dget (last segments) ''end'' (JNum start))) (\<lambda>fin.
         Inr \<lparr>se_title = fmt_time start @ str ''-'' @ fmt_time fin, se_summary = [],
              se_content = py_join [10] (map (\<lambda>segment. json_str dump (dget segment ''text'' (JStr []))) segments),
              se_page_range = None, se_timestamp_range = Some (start, fin)\<rparr>))"

text \<open>The buckets of \<open>split_audio\<close>: a bucket is full when its end is far enough from its start.\<close>

fun audio_buckets :: "pyfloat \<Rightarrow> json_dict list \<Rightarrow> pyfloat \<Rightarrow> json_dict list \<Rightarrow> exn + json_dict list list" where
  "audio_buckets width bucket bucket_start [] = Inr (if bucket = [] then [] else [bucket])"
| "audio_buckets width bucket bucket_start (segment # rest) =
     sbind (json_float (dget segment ''end'' (JNum bucket_start))) (\<lambda>fin.
       if width \<le> fin - bucket_start
       then sbind (audio_buckets width [] fin rest) (\<lambda>buckets. Inr ((bucket @ [segment]) # buckets))
       else audio_buckets width (bucket @ [segment]) bucket_start rest)"

definition split_audio :: "(json \<Rightarrow> pystr) \<Rightarrow> json_dict list \<Rightarrow> int \<Rightarrow> exn + section_summary list" where
  "split_audio dump srt_segments chunk_minutes =
     (if srt_segments = [] then Inr []
      else sbind (json_float (dget (hd srt_segments) ''start'' (JNum 0))) (\<lambda>start.
        sbind (audio_buckets (of_int chunk_minutes * 60) [] start srt_segments) (\<lambda>buckets.
          smap (build_audio_section dump) buckets)))"

section \<open>LLM provider\<close>

type_synonym 's completion = "pystr \<Rightarrow> 's \<Rightarrow> 's \<times> (exn + pystr \<times> int)"

definition summary_of_reply :: "(json \<Rightarrow> pystr) \<Rightarrow> (pystr \<Rightarrow> json option) \<Rightarrow> pystr \<Rightarrow> exn + pystr" where
  "summary_of_reply dump loads raw = (case loads raw of
     None \<Rightarrow> Inl (raise_default SummaryParseError)
   | Some (JObj d) \<Rightarrow> (case map_of d (str ''summary'') of
       Some v \<Rightarrow> Inr (py_strip (json_str dump v))
     | None \<Rightarrow> Inl (raise_msg SummaryParseError ([0x6458, 0x8981, 0x7ED3, 0x679C,
       0x7F3A, 0x5C11] @ str '' summary '' @ [0x5B57, 0x6BB5])))
   | Some _ \<Rightarrow> Inl (raise_msg SummaryParseError ([0x6458, 0x8981, 0x7ED3, 0x679C,
     0x7F3A, 0x5C11] @ str '' summary '' @ [0x5B57, 0x6BB5])))"

definition complete_summary ::
  "(json \<Rightarrow> pystr) \<Rightarrow> (pystr \<Rightarrow> json option) \<Rightarrow> 's completion \<Rightarrow> pystr \<Rightarrow> 's \<Rightarrow> 's \<times> (exn + pystr \<times> int)" where
  "complete_summary dump loads llm prompt s =
     (case llm prompt s of (s', r) \<Rightarrow>
        (s', sbind r (\<lambda>(content, tokens). sbind (summary_of_reply dump loads content) (\<lambda>summary. Inr (summary, tokens)))))"

text \<open>The prompts are the rendered templates; each of the three calls is tried three times.\<close>

record 's summary_env =
  su_dump :: "json \<Rightarrow> pystr"
  su_loads :: "pystr \<Rightarrow> json option"
  su_llm :: "'s completion"
  su_full_prompt :: "pystr \<Rightarrow> pystr"
  su_chunk_prompt :: "pystr \<Rightarrow> pystr"
  su_section_prompt :: "pystr \<Rightarrow> pystr \<Rightarrow> pystr"
  su_estimator :: token_estimator
  su_chunk_token_limit :: int
  su_overlap_tokens :: int
  su_empty_summary_chars :: int
  su_model :: pystr
  su_save :: "summary_result \<Rightarrow> 's \<Rightarrow> 's \<times> (exn + unit)"

definition ask_summary :: "'s summary_env \<Rightarrow> pystr \<Rightarrow> 's \<Rightarrow> 's \<times> (exn + pystr \<times> int)" where
  "ask_summary env prompt = retrying 2 (\<lambda>_. False) (complete_summary (su_dump env) (su_loads env) (su_llm env) prompt)"

definition summarize_full :: "'s summary_env \<Rightarrow> pystr \<Rightarrow> 's \<Rightarrow> 's \<times> (exn + pystr \<times> int)" where
  "summarize_full env content = ask_summary env (su_full_prompt env content)"

definition summarize_chunk :: "'s summary_env \<Rightarrow> pystr \<Rightarrow> 's \<Rightarrow> 's \<times> (exn + pystr \<times> int)" where
  "summarize_chunk env content = ask_summary env (su_chunk_prompt env content)"

definition summarize_section :: "'s summary_env \<Rightarrow> pystr \<Rightarrow> pystr \<Rightarrow> 's \<Rightarrow> 's \<times> (exn + pystr \<times> int)" where
  "summarize_section env title content = ask_summary env (su_section_prompt env title content)"

section \<open>Map-reduce\<close>

fun summarize_parts :: "'s summary_env \<Rightarrow> pystr list \<Rightarrow> 's \<Rightarrow> 's \<times> (exn + pystr list \<times> int)" where
  "summarize_parts env [] s = (s, Inr ([], 0))"
| "summarize_parts env (c # cs) s =
     (case summarize_chunk env c s of
        (s1, Inl e) \<Rightarrow> (s1, Inl e)
      | (s1, Inr (summary, tokens)) \<Rightarrow>
          (case summarize_parts env cs s1 of
             (s2, r) \<Rightarrow> (s2, sbind r (\<lambda>(partials, total_tokens). Inr (summary # partials, tokens + total_tokens)))))"

definition map_reduce :: "'s summary_env \<Rightarrow> pystr \<Rightarrow> 's \<Rightarrow> 's \<times> (exn + pystr \<times> int)" where
  "map_reduce env content s =
     (case split_chunks (su_estimator env) (su_chunk_token_limit env) (su_overlap_tokens env) content of
        Inl e \<Rightarrow> (s, Inl e)
      | Inr chunks \<Rightarrow>
          if length chunks \<le> 1 then summarize_full env content s
          else (case summarize_parts env chunks s of
                  (s1, Inl e) \<Rightarrow> (s1, Inl e)
                | (s1, Inr (partials, total_tokens)) \<Rightarrow>
                    (case summarize_full env (py_join [10, 10] partials) s1 of
                       (s2, r) \<Rightarrow> (s2, sbind r (\<lambda>(merged, merge_tokens). Inr (merged, total_tokens + merge_tokens))))))"

section \<open>The service\<close>

definition full_text :: "'s summary_env \<Rightarrow> summarize_request \<Rightarrow> exn + pystr" where
  "full_text env request =
     (if sq_content request \<noteq> [] then Inr (sq_content request)
      else case sq_parsed request of
             Some (p # ps) \<Rightarrow>
               sbind (case dget (p # ps) ''pages'' (JArr []) of JArr xs \<Rightarrow> Inr xs | JStr s \<Rightarrow> Inr (map (\<lambda>c. JStr [c]) s)
                        | JObj e \<Rightarrow> Inr (map (\<lambda>q. JStr (fst q)) e) | _ \<Rightarrow> Inl (type_error (str ''object is not iterable''))) (\<lambda>pages.
                 sbind (smap (\<lambda>page. sbind (json_get page ''text'' (JStr [])) (\<lambda>t. Inr (json_str (su_dump env) t))) pages)
                   (\<lambda>texts. Inr (py_join [10] texts)))
           | _ \<Rightarrow> (case sq_srt_segments request of
               Some (x # xs) \<Rightarrow> Inr (py_join [10] (map (\<lambda>segment. json_str (su_dump env) (dget segment ''text'' (JStr []))) (x # xs)))
             | _ \<Rightarrow> Inr []))"

definition split_sections :: "'s summary_env \<Rightarrow> summarize_request \<Rightarrow> exn + section_summary list" where
  "split_sections env request =
     (case sq_parsed request of
        Some (p # ps) \<Rightarrow>
          if sq_source_type request = str ''pdf'' then split_pdf (su_dump env) (p # ps)
          else split_audio (su_dump env) (case sq_srt_segments request of Some xs \<Rightarrow> xs | None \<Rightarrow> []) 5
      | _ \<Rightarrow> split_audio (su_dump env) (case sq_srt_segments request of Some xs \<Rightarrow> xs | None \<Rightarrow> []) 5)"

definition safe_full :: "'s summary_env \<Rightarrow> pystr \<Rightarrow> 's \<Rightarrow> 's \<times> (exn + pystr \<times> int \<times> bool)" where
  "safe_full env content s =
     (case map_reduce env content s of
        (s', r) \<Rightarrow> (s', sbind r (\<lambda>(summary, tokens).
          if \<not> blank summary then Inr (py_strip summary, tokens, False)
          else Inr (py_take (su_empty_summary_chars env) content, tokens, True))))"

fun summarize_sections :: "'s summary_env \<Rightarrow> section_summary list \<Rightarrow> 's \<Rightarrow> 's \<times> (exn + section_summary list)" where
  "summarize_sections env [] s = (s, Inr [])"
| "summarize_sections env (x # xs) s =
     (if blank (se_content x) then summarize_sections env xs s
      else case summarize_section env (se_title x) (se_content x) s of
             (s1, Inl e) \<Rightarrow> (s1, Inl e)
           | (s1, Inr (summary, tokens)) \<Rightarrow>
               (case summarize_sections env xs s1 of
                  (s2, r) \<Rightarrow> (s2, sbind r (\<lambda>rest. Inr (x\<lparr>se_summary := summary\<rparr> # rest)))))"

text \<open>The two optional parts of \<open>generate\<close>.\<close>

definition full_part :: "'s summary_env \<Rightarrow> summarize_request \<Rightarrow> pystr \<Rightarrow> 's \<Rightarrow> 's \<times> (exn + pystr \<times> int \<times> bool)" where
  "full_part env request content s =
     (if str ''full'' \<in> set (sq_types request) then safe_full env content s else (s, Inr ([], 0, False)))"

definition section_part :: "'s summary_env \<Rightarrow> summarize_request \<Rightarrow> 's \<Rightarrow> 's \<times> (exn + section_summary list)" where
  "section_part env request s =
     (if str ''section'' \<in> set (sq_types request)
      then (case split_sections env request of Inl e \<Rightarrow> (s, Inl e) | Inr sections \<Rightarrow> summarize_sections env sections s)
      else (s, Inr []))"

definition generate_summary :: "'s summary_env \<Rightarrow> pystr \<Rightarrow> summarize_request \<Rightarrow> 's \<Rightarrow> 's \<times> (exn + summary_result)" where
  "generate_summary env resource_id request s =
     (case full_text env request of
        Inl e \<Rightarrow> (s, Inl e)
      | Inr content \<Rightarrow>
          (case full_part env request content s of
             (s1, Inl e) \<Rightarrow> (s1, Inl e)
           | (s1, Inr (full_summary, tokens, fallback)) \<Rightarrow>
               (case section_part env request s1 of
                  (s2, Inl e) \<Rightarrow> (s2, Inl e)
                | (s2, Inr sections) \<Rightarrow>
                    let result = \<lparr>sr_resource_id = resource_id, sr_full_summary = full_summary, sr_sections = sections,
                          sr_model = su_model env, sr_tokens = tokens, sr_fallback = fallback\<rparr>
                    in case su_save env result s2 of (s3, r) \<Rightarrow> (s3, sbind r (\<lambda>_. Inr result)))))"

section \<open>Repository\<close>

text \<open>
  \<open>SummaryRepository.save\<close> (and, with another name, \<open>ExtractionRepository.save\<close>): the result is
  uploaded, then sent to the gateway if one is configured.
\<close>

definition repository_save ::
  "('a \<Rightarrow> pystr \<Rightarrow> 's \<Rightarrow> 's \<times> (exn + pystr)) \<Rightarrow> pystr \<Rightarrow> (pystr \<Rightarrow> 'a \<Rightarrow> 's \<Rightarrow> 's \<times> (exn + unit)) \<Rightarrow> pystr \<Rightarrow> pystr \<Rightarrow> pystr \<Rightarrow> 'a \<Rightarrow> 's \<Rightarrow> 's \<times> (exn + pystr)" where
  "repository_save upload base_url post name collection resource_id result s =
     (case upload result (resource_id @ str ''/'' @ name) s of
        (s1, Inl e) \<Rightarrow> (s1, Inl e)
      | (s1, Inr uri) \<Rightarrow>
          (let base = rev (dropWhile (\<lambda>c. c = 47) (rev base_url))
           in if base = [] then (s1, Inr uri)
              else case post (base @ str ''/api/v1/internal/resources/'' @ resource_id @ str ''/'' @ collection) result s1 of
                     (s2, r) \<Rightarrow> (s2, sbind r (\<lambda>_. Inr uri))))"

section \<open>Facts\<close>

lemma token_windows_cover:
  assumes "0 < step" "step \<le> limit" "tokens \<noteq> []"
  shows "token_windows limit step tokens \<noteq> []
    \<and> list_all (\<lambda>w. w \<noteq> [] \<and> length w \<le> limit) (token_windows limit step tokens)
    \<and> concat (map (take step) (butlast (token_windows limit step tokens))) @ last (token_windows limit step tokens) = tokens"
  using assms
proof (induction limit step tokens rule: token_windows.induct)
  case (1 limit step tokens)
  show ?case
  proof (cases "length tokens \<le> limit")
    case True
    with 1 show ?thesis by (subst (1 2 3 4) token_windows.simps) simp
  next
    case False
    let ?ws = "token_windows limit step (drop step tokens)"
    have ih: "?ws \<noteq> []" "list_all (\<lambda>w. w \<noteq> [] \<and> length w \<le> limit) ?ws" "concat (map (take step) (butlast ?ws)) @ last ?ws = drop step tokens"
      using 1 False by simp_all
    have w: "token_windows limit step tokens = take limit tokens # ?ws"
      using 1(2,4) False by (subst token_windows.simps) simp
    have "take step (take limit tokens) = take step tokens" using 1(3) by (simp add: min_def)
    with ih 1(2-4) show ?thesis by (simp add: w)
  qed
qed

lemma audio_buckets_concat: "audio_buckets width bucket start segs = Inr bs \<Longrightarrow> concat bs = bucket @ segs \<and> [] \<notin> set bs"
  by (induction width bucket start segs arbitrary: bs rule: audio_buckets.induct)
    (fastforce simp: sbind_Inr_iff split: if_splits)+

lemma summarize_sections_nonblank:
  "summarize_sections env xs s = (s', Inr ys) \<Longrightarrow> list_all (\<lambda>x. \<not> blank (se_content x)) ys"
  by (induction env xs s arbitrary: s' ys rule: summarize_sections.induct)
    (fastforce simp: sbind_Inr_iff split: if_splits prod.splits sum.splits)+

lemma blank_strip: "blank (py_strip s) = blank s"
  by (simp flip: ink_blank)

lemma safe_full_outcome:
  "safe_full env content s = (s', Inr (summary, tokens, fallback)) \<Longrightarrow>
     if fallback then summary = py_take (su_empty_summary_chars env) content else \<not> blank summary"
  by (auto simp: safe_full_def sbind_Inr_iff blank_strip split: prod.splits if_splits)

section \<open>Properties\<close>

text \<open>C22: map-reduce sees the whole text. A text of more tokens than the limit is cut into windows that decode to
  the chunks: none is empty or longer than the limit, and without their overlaps they are the token sequence.\<close>

theorem split_chunks_cover:
  assumes "split_chunks est limit overlap content = Inr chunks" "0 < limit" "limit < int (token_count est content)"
  shows "\<exists>windows. list_all2 (\<lambda>w c. decode est w = Some c) windows chunks
     \<and> list_all (\<lambda>w. w \<noteq> [] \<and> int (length w) \<le> limit) windows
     \<and> concat (map (take (nat (split_step limit overlap))) (butlast windows)) @ last windows = encode est content"
proof -
  let ?ws = "token_windows (nat limit) (nat (split_step limit overlap)) (encode est content)"
  have "smap (\<lambda>w. case decode est w of Some t \<Rightarrow> Inr t | None \<Rightarrow> Inl (value_error (str ''chr()''))) ?ws = Inr chunks"
    using assms by (simp add: split_chunks_def token_count_def Let_def)
  then have "list_all2 (\<lambda>w c. decode est w = Some c) ?ws chunks"
    by (auto dest!: smap_list_all2 elim!: list_all2_mono split: option.splits)
  moreover have "0 < nat (split_step limit overlap)" "nat (split_step limit overlap) \<le> nat limit" "encode est content \<noteq> []"
    using assms(2,3) by (auto simp: split_step_def token_count_def)
  note token_windows_cover[OF this]
  ultimately show ?thesis using assms(2) by (intro exI[of _ ?ws]) (auto simp: list_all_iff)
qed

text \<open>No segment of a recording is lost. The sections of a recording come from consecutive, non-empty groups
  of its segments, which together are all of them in order.\<close>

theorem audio_sections_partition:
  assumes "split_audio dump segments chunk_minutes = Inr sections"
  shows "\<exists>groups. concat groups = segments \<and> [] \<notin> set groups \<and> list_all2 (\<lambda>g s. build_audio_section dump g = Inr s) groups sections"
proof (cases "segments = []")
  case True
  with assms show ?thesis by (intro exI[of _ "[]"]) (simp add: split_audio_def)
next
  case False
  then obtain start groups where "audio_buckets (of_int chunk_minutes * 60) [] start segments = Inr groups"
    "smap (build_audio_section dump) groups = Inr sections"
    using assms by (auto simp: split_audio_def sbind_Inr_iff)
  with audio_buckets_concat smap_list_all2 show ?thesis by (metis append_Nil)
qed

text \<open>A summary that is returned was saved. When \<open>generate\<close> returns, the last thing that happened is that
  exactly this result was stored; it has no section without content, and its full summary, if asked for, is not
  blank or is flagged as the beginning of the text.\<close>

theorem summary_saved:
  assumes "generate_summary env resource_id request s = (s', Inr result)"
  shows "(\<exists>s0. su_save env result s0 = (s', Inr ())) \<and> sr_resource_id result = resource_id
     \<and> list_all (\<lambda>x. \<not> blank (se_content x)) (sr_sections result)
     \<and> (str ''full'' \<notin> set (sq_types request) \<or> (if sr_fallback result
          then \<exists>content. full_text env request = Inr content \<and> sr_full_summary result = py_take (su_empty_summary_chars env) content
          else \<not> blank (sr_full_summary result)))"
proof -
  obtain content s1 full_summary tokens fallback s2 sections where
    c: "full_text env request = Inr content" and f: "full_part env request content s = (s1, Inr (full_summary, tokens, fallback))"
    and x: "section_part env request s1 = (s2, Inr sections)"
    and r: "result = \<lparr>sr_resource_id = resource_id, sr_full_summary = full_summary, sr_sections = sections,
        sr_model = su_model env, sr_tokens = tokens, sr_fallback = fallback\<rparr>" "su_save env result s2 = (s', Inr ())"
    using assms by (auto simp: generate_summary_def Let_def sbind_Inr_iff split: sum.splits prod.splits)
  have "list_all (\<lambda>x. \<not> blank (se_content x)) sections"
    using x summarize_sections_nonblank by (fastforce simp: section_part_def split: if_splits sum.splits)
  moreover have "str ''full'' \<in> set (sq_types request) \<Longrightarrow>
      if fallback then full_summary = py_take (su_empty_summary_chars env) content else \<not> blank full_summary"
    using f safe_full_outcome[of env content s s1 full_summary tokens fallback] by (simp add: full_part_def)
  ultimately show ?thesis using r c by auto
qed

section \<open>Witnesses\<close>

theorem split_chunks_cover_witness:
  "split_chunks fallback_estimator 4 1 (str ''abcdefgh'') = Inr [str ''abcd'', str ''defg'', str ''gh'']
   \<and> (\<exists>windows. list_all2 (\<lambda>w c. decode fallback_estimator w = Some c) windows [str ''abcd'', str ''defg'', str ''gh'']
        \<and> concat (map (take 3) (butlast windows)) @ last windows = str ''abcdefgh'')"
proof -
  have c: "split_chunks fallback_estimator 4 1 (str ''abcdefgh'') = Inr [str ''abcd'', str ''defg'', str ''gh'']" by code_simp
  have "4 < int (token_count fallback_estimator (str ''abcdefgh''))" by code_simp
  from split_chunks_cover[OF c _ this] c show ?thesis
    by (auto simp: split_step_def encode_def fallback_estimator_def fallback_encode_def)
qed

definition demo_recording :: "json_dict list" where
  "demo_recording = [[(str ''start'', JNum 0), (str ''end'', JNum 200), (str ''text'', JStr (str ''a''))],
     [(str ''start'', JNum 200), (str ''end'', JNum 310), (str ''text'', JStr (str ''b''))],
     [(str ''start'', JNum 310), (str ''end'', JNum 400), (str ''text'', JStr (str ''c''))]]"

definition two_sections :: "section_summary list" where
  "two_sections = [\<lparr>se_title = str ''00:00-05:10'', se_summary = [], se_content = [97, 10, 98], se_page_range = None, se_timestamp_range = Some (0, 310)\<rparr>,
     \<lparr>se_title = str ''05:10-06:40'', se_summary = [], se_content = str ''c'', se_page_range = None, se_timestamp_range = Some (310, 400)\<rparr>]"

theorem audio_sections_partition_witness:
  "split_audio (\<lambda>_. []) demo_recording 5 = Inr two_sections
   \<and> (\<exists>groups. concat groups = demo_recording \<and> list_all2 (\<lambda>g s. build_audio_section (\<lambda>_. []) g = Inr s) groups two_sections)"
proof -
  have c: "split_audio (\<lambda>_. []) demo_recording 5 = Inr two_sections" by code_simp
  from audio_sections_partition[OF c] c show ?thesis by auto
qed

definition demo_summary_env :: "summary_result list summary_env" where
  "demo_summary_env = \<lparr>su_dump = (\<lambda>_. []), su_loads = (\<lambda>t. Some (JObj [(str ''summary'', JStr [])])), su_llm = (\<lambda>p s. (s, Inr ([], 7))),
     su_full_prompt = id, su_chunk_prompt = id, su_section_prompt = (\<lambda>t c. c), su_estimator = fallback_estimator,
     su_chunk_token_limit = 3000, su_overlap_tokens = 100, su_empty_summary_chars = 3, su_model = str ''mock'',
     su_save = (\<lambda>r s. (r # s, Inr ()))\<rparr>"

definition demo_request :: summarize_request where
  "demo_request = \<lparr>sq_types = [str ''full''], sq_source_type = str ''pdf'', sq_content = str ''abcd'', sq_parsed = None, sq_srt_segments = None\<rparr>"

definition demo_summary :: summary_result where
  "demo_summary = \<lparr>sr_resource_id = str ''r'', sr_full_summary = str ''abc'', sr_sections = [], sr_model = str ''mock'', sr_tokens = 7, sr_fallback = True\<rparr>"

theorem summary_saved_witness:
  "generate_summary demo_summary_env (str ''r'') demo_request [] = ([demo_summary], Inr demo_summary)
   \<and> (\<exists>s0. su_save demo_summary_env demo_summary s0 = ([demo_summary], Inr ()))"
proof -
  have g: "generate_summary demo_summary_env (str ''r'') demo_request [] = ([demo_summary], Inr demo_summary)" by code_simp
  with summary_saved[OF g] show ?thesis by blast
qed

section \<open>Further behaviour\<close>

text \<open>An overlap as large as the limit moves the window by one token only: one LLM call per token.\<close>

lemma large_overlap_single_steps: "split_step limit overlap = 1" if "limit \<le> overlap" "0 < limit"
  using that by (simp add: split_step_def)

text \<open>The tokens of section summaries are not counted.\<close>

lemma section_tokens_not_counted:
  assumes "generate_summary env resource_id request s = (s', Inr result)" "str ''full'' \<notin> set (sq_types request)"
  shows "sr_tokens result = 0"
  using assms by (auto simp: generate_summary_def full_part_def Let_def sbind_Inr_iff split: sum.splits prod.splits)

text \<open>An outline entry for page 0 gets the last page of the file instead of the first ones.\<close>

lemma page_zero_section:
  "map se_content (case split_pdf (\<lambda>_. []) [(str ''toc'', JArr [JObj [(str ''page'', JNum 0), (str ''title'', JStr (str ''t''))]]),
      (str ''pages'', JArr [JObj [(str ''text'', JStr (str ''a''))], JObj [(str ''text'', JStr (str ''b''))]])] of Inr secs \<Rightarrow> secs | Inl e \<Rightarrow> [])
    = [str ''b'']"
  by code_simp

end
