(* ===== verification/LLM_Providers.thy ===== *)
theory LLM_Providers
  imports LLM Summary
begin

text \<open>
  The LLM providers (\<open>app/services/llm\<close>): the OpenAI-compatible provider, which Kimi and Ollama share, and
  ZhipuAI: how their replies are read, complete or as a stream, and which errors they raise. The SDK clients are
  parameters: what a call returns as a dictionary, or the exception it raises, of which the provider
  recognises two kinds. A stream of an SDK is the chunks it gives and the exception that ends it, if one does.
  The locale \<open>chat_provider\<close> states what the LLM client relies on when it consumes a stream.
\<close>

section \<open>SDK errors\<close>

record sdk_errors =
  sdk_authentication :: "exn \<Rightarrow> bool"
  sdk_timeout :: "exn \<Rightarrow> bool"

definition provider_error :: "sdk_errors \<Rightarrow> exn \<Rightarrow> exn" where
  "provider_error sdk e =
     (if sdk_authentication sdk e then raise_default LLMAuthFailedError
      else if sdk_timeout sdk e then raise_default LLMTimeoutError
      else raise_default LLMUnavailableError)"

section \<open>Reading replies\<close>

text \<open>\<open>xs[0]\<close> and the field types of the response models.\<close>

fun first_item :: "json \<Rightarrow> exn + json" where
  "first_item (JArr (x # xs)) = Inr x"
| "first_item (JArr []) = Inl (PyException ''IndexError'' (str ''list index out of range''))"
| "first_item (JStr (c # cs)) = Inr (JStr [c])"
| "first_item (JStr []) = Inl (PyException ''IndexError'' (str ''string index out of range''))"
| "first_item (JObj d) = Inl (key_error (str ''0''))"
| "first_item _ = Inl (type_error (str ''object is not subscriptable''))"

fun text_field :: "json \<Rightarrow> exn + pystr" where
  "text_field (JStr s) = Inr s"
| "text_field _ = Inl (validation_error ''string_type'')"

fun int_field :: "json \<Rightarrow> exn + int" where
  "int_field (JNum x) = (if of_int \<lfloor>x\<rfloor> = x then Inr \<lfloor>x\<rfloor> else Inl (validation_error ''int_from_float''))"
| "int_field (JBool b) = Inr (if b then 1 else 0)"
| "int_field (JStr s) = (case py_int_of_str s of Some n \<Rightarrow> Inr n | None \<Rightarrow> Inl (validation_error ''int_parsing''))"
| "int_field _ = Inl (validation_error ''int_type'')"

definition or_text :: "json \<Rightarrow> pystr \<Rightarrow> exn + pystr" where
  "or_text v e = (if json_truthy v then text_field v else Inr e)"

definition dict_of :: "json \<Rightarrow> json_dict option" where
  "dict_of v = (case v of JObj d \<Rightarrow> Some d | _ \<Rightarrow> None)"

definition read_usage :: "json_dict \<Rightarrow> exn + usage" where
  "read_usage data =
     (let raw = dget data ''usage'' (JObj []); u = (if json_truthy raw then raw else JObj []);
          field = (\<lambda>k. case dict_of u of Some d \<Rightarrow> int_field (dget d k (JNum 0)) | None \<Rightarrow> Inr 0)
      in sbind (field ''prompt_tokens'') (\<lambda>p. sbind (field ''completion_tokens'') (\<lambda>c. sbind (field ''total_tokens'') (\<lambda>t.
           Inr \<lparr>us_prompt_tokens = p, us_completion_tokens = c, us_total_tokens = t\<rparr>))))"

text \<open>\<open>_message_content\<close>: the content, and the reasoning under either of its names.\<close>

definition message_content :: "(json \<Rightarrow> pystr) \<Rightarrow> json_dict \<Rightarrow> pystr \<times> pystr option" where
  "message_content dump message =
     (let c = dget message ''content'' JNull; content = (if json_truthy c then json_str dump c else []);
          r1 = dget message ''reasoning'' JNull; reasoning = (if json_truthy r1 then r1 else dget message ''reasoning_content'' JNull)
      in (content, if json_truthy reasoning then Some (json_str dump reasoning) else None))"

definition choice_message :: "json \<Rightarrow> json" where
  "choice_message choice = (case dict_of choice of Some c \<Rightarrow> dget c ''message'' (JObj []) | None \<Rightarrow> JObj [])"

definition choice_finish :: "json \<Rightarrow> json" where
  "choice_finish choice = (case dict_of choice of Some c \<Rightarrow> dget c ''finish_reason'' JNull | None \<Rightarrow> JStr (str ''stop''))"

definition parse_openai_compatible_response :: "(json \<Rightarrow> pystr) \<Rightarrow> pystr \<Rightarrow> json_dict \<Rightarrow> exn + llm_response" where
  "parse_openai_compatible_response dump model data =
     sbind (first_item (dget data ''choices'' (JArr [JObj []]))) (\<lambda>choice.
     let (content, reasoning) = (case dict_of (choice_message choice) of Some m \<Rightarrow> message_content dump m | None \<Rightarrow> ([], None))
     in sbind (read_usage data) (\<lambda>u.
        sbind (or_text (choice_finish choice) (str ''stop'')) (\<lambda>finish.
          Inr \<lparr>lp_content = content, lp_reasoning = reasoning, lp_model = model, lp_finish_reason = finish, lp_usage = u\<rparr>)))"

definition zhipu_parse_response :: "pystr \<Rightarrow> json_dict \<Rightarrow> exn + llm_response" where
  "zhipu_parse_response model data =
     sbind (first_item (dget data ''choices'' (JArr [JObj []]))) (\<lambda>choice.
     let content = (case dict_of (choice_message choice) of Some m \<Rightarrow> dget m ''content'' JNull | None \<Rightarrow> JStr [])
     in sbind (read_usage data) (\<lambda>u.
        sbind (or_text content []) (\<lambda>content.
        sbind (or_text (choice_finish choice) (str ''stop'')) (\<lambda>finish.
          Inr \<lparr>lp_content = content, lp_reasoning = None, lp_model = model, lp_finish_reason = finish, lp_usage = u\<rparr>))))"

definition empty_chunk :: stream_chunk where
  "empty_chunk = \<lparr>sc_delta = [], sc_reasoning = None, sc_finish = None\<rparr>"

fun optional_text :: "json \<Rightarrow> exn + pystr option" where
  "optional_text JNull = Inr None"
| "optional_text v = sbind (text_field v) (\<lambda>s. Inr (Some s))"

text \<open>The part the two chunk parsers share: no choices, or a choice that is no dictionary, make an empty chunk.\<close>

definition with_choice :: "json_dict \<Rightarrow> (json_dict \<Rightarrow> exn + stream_chunk) \<Rightarrow> exn + stream_chunk" where
  "with_choice data read =
     (let choices = dget data ''choices'' (JArr [])
      in if \<not> json_truthy choices then Inr empty_chunk
         else sbind (first_item choices) (\<lambda>choice. case dict_of choice of None \<Rightarrow> Inr empty_chunk | Some c \<Rightarrow> read c))"

definition choice_delta :: "json_dict \<Rightarrow> json" where
  "choice_delta c = (let d = dget c ''delta'' (JObj []) in if json_truthy d then d else JObj [])"

definition parse_openai_compatible_stream_chunk :: "(json \<Rightarrow> pystr) \<Rightarrow> json_dict \<Rightarrow> exn + stream_chunk" where
  "parse_openai_compatible_stream_chunk dump data =
     with_choice data (\<lambda>c.
       let (content, reasoning) = (case dict_of (choice_delta c) of
             Some m \<Rightarrow> message_content dump m | None \<Rightarrow> (json_str dump (choice_delta c), None))
       in sbind (optional_text (dget c ''finish_reason'' JNull)) (\<lambda>finish.
            Inr \<lparr>sc_delta = content, sc_reasoning = reasoning, sc_finish = finish\<rparr>))"

definition zhipu_parse_stream_chunk :: "json_dict \<Rightarrow> exn + stream_chunk" where
  "zhipu_parse_stream_chunk data =
     with_choice data (\<lambda>c.
       sbind (or_text (case dict_of (choice_delta c) of Some m \<Rightarrow> dget m ''content'' JNull | None \<Rightarrow> choice_delta c) [])
         (\<lambda>content. sbind (optional_text (dget c ''finish_reason'' JNull)) (\<lambda>finish.
            Inr \<lparr>sc_delta = content, sc_reasoning = None, sc_finish = finish\<rparr>)))"

text \<open>\<open>_model_dump\<close> of what the SDK returns, as a dictionary.\<close>

definition model_dump :: "json \<Rightarrow> exn + json_dict" where
  "model_dump v = (case dict_of v of Some d \<Rightarrow> Inr d | None \<Rightarrow> Inl (type_error (str ''unexpected response type'')))"

section \<open>Calls\<close>

type_synonym 'p sdk_call = "llm_request \<Rightarrow> 'p \<Rightarrow> 'p \<times> (exn + json)"

text \<open>\<open>complete\<close>: only the SDK call is inside the \<open>try\<close>; reading the reply is not.\<close>

definition provider_complete :: "sdk_errors \<Rightarrow> (json_dict \<Rightarrow> exn + llm_response) \<Rightarrow> 'p sdk_call \<Rightarrow> 'p completion_call" where
  "provider_complete sdk parse create req s =
     (case create req s of
        (s', Inl e) \<Rightarrow> (s', Inl (provider_error sdk e))
      | (s', Inr response) \<Rightarrow> (s', sbind (model_dump response) parse))"

definition openai_complete :: "sdk_errors \<Rightarrow> (json \<Rightarrow> pystr) \<Rightarrow> pystr \<Rightarrow> 'p sdk_call \<Rightarrow> 'p completion_call" where
  "openai_complete sdk dump model create = provider_complete sdk (parse_openai_compatible_response dump model) create"

definition zhipu_complete :: "sdk_errors \<Rightarrow> pystr \<Rightarrow> 'p sdk_call \<Rightarrow> 'p completion_call" where
  "zhipu_complete sdk model create = provider_complete sdk (zhipu_parse_response model) create"

text \<open>
  The loop of \<open>stream_complete\<close>: a chunk \<open>None\<close> ends it, an exception of the SDK or of the parser becomes
  a \<open>LLMStreamError\<close>.
\<close>

definition interrupted :: "exn \<Rightarrow> exn" where
  "interrupted e = (if has_class LLMStreamError e then e else raise_default LLMStreamError)"

fun read_stream :: "(json_dict \<Rightarrow> exn + stream_chunk) \<Rightarrow> json list \<Rightarrow> exn option \<Rightarrow> llm_stream" where
  "read_stream parse [] stop = ([], map_option interrupted stop)"
| "read_stream parse (raw # raws) stop =
     (if raw = JNull then ([], None)
      else case sbind (model_dump raw) parse of
             Inl e \<Rightarrow> ([], Some (interrupted e))
           | Inr chunk \<Rightarrow> (case read_stream parse raws stop of (chunks, end) \<Rightarrow> (chunk # chunks, end)))"

definition provider_stream ::
  "sdk_errors \<Rightarrow> (json_dict \<Rightarrow> exn + stream_chunk) \<Rightarrow> (llm_request \<Rightarrow> exn + (json list \<times> exn option)) \<Rightarrow> llm_request \<Rightarrow> llm_stream" where
  "provider_stream sdk parse create req =
     (case create req of
        Inl e \<Rightarrow> ([], Some (provider_error sdk e))
      | Inr (raws, stop) \<Rightarrow> read_stream parse raws stop)"

definition openai_stream ::
  "sdk_errors \<Rightarrow> (json \<Rightarrow> pystr) \<Rightarrow> (llm_request \<Rightarrow> exn + (json list \<times> exn option)) \<Rightarrow> llm_request \<Rightarrow> llm_stream" where
  "openai_stream sdk dump create = provider_stream sdk (parse_openai_compatible_stream_chunk dump) create"

definition zhipu_stream :: "sdk_errors \<Rightarrow> (llm_request \<Rightarrow> exn + (json list \<times> exn option)) \<Rightarrow> llm_request \<Rightarrow> llm_stream" where
  "zhipu_stream sdk create = provider_stream sdk zhipu_parse_stream_chunk create"

text \<open>\<open>_build_http_client\<close>: whether a client that ignores the proxy settings is used.\<close>

definition is_local_url :: "pystr \<Rightarrow> bool" where
  "is_local_url url \<longleftrightarrow> prefix (str ''http://localhost'') url \<or> prefix (str ''http://127.0.0.1'') url \<or> prefix (str ''http://[::1]'') url"

section \<open>The contract of a provider\<close>

text \<open>A stream ends by itself or with one of four errors.\<close>

definition llm_error :: "exn \<Rightarrow> bool" where
  "llm_error e \<longleftrightarrow> has_class LLMAuthFailedError e \<or> has_class LLMTimeoutError e \<or> has_class LLMUnavailableError e
     \<or> has_class LLMStreamError e"

locale chat_provider =
  fixes strm :: "llm_request \<Rightarrow> llm_stream"
  assumes ends: "snd (strm req) = Some e \<Longrightarrow> llm_error e"
begin

text \<open>Through the client, only an authentication failure reaches the consumer as an exception.\<close>

lemma client_stream:
  assumes "llm_stream_complete cfg strm req = ((chunks, stop), ev)"
  shows "stop = None \<or> (\<exists>e. stop = Some e \<and> has_class LLMAuthFailedError e)"
    and "\<exists>tl. chunks = fst (strm req) @ tl \<and> tl \<in> {[], [error_chunk]}"
    and "ge_completion ev = concat (map sc_delta (fst (strm req)))"
proof -
  obtain cs st where s: "strm req = (cs, st)" by fastforce
  have "stream_failure e \<or> has_class LLMAuthFailedError e" if "st = Some e" for e
    using ends[of req e] that s by (auto simp: llm_error_def stream_failure_def retryable_def)
  with assms s show "stop = None \<or> (\<exists>e. stop = Some e \<and> has_class LLMAuthFailedError e)"
    "\<exists>tl. chunks = fst (strm req) @ tl \<and> tl \<in> {[], [error_chunk]}"
    "ge_completion ev = concat (map sc_delta (fst (strm req)))"
    by (auto simp: llm_stream_complete_def build_event_def Let_def split: option.splits if_splits)
qed

end

lemma provider_error_class: "llm_error (provider_error sdk e)" "is_api (provider_error sdk e)"
  by (simp_all add: provider_error_def llm_error_def raise_default_def)

lemma interrupted_class: "has_class LLMStreamError (interrupted e)"
  by (simp add: interrupted_def raise_default_def)

lemma read_stream_ends: "snd (read_stream parse raws stop) = Some e \<Longrightarrow> has_class LLMStreamError e"
  by (induction parse raws stop rule: read_stream.induct)
    (auto simp: interrupted_class split: if_splits sum.splits prod.splits)

lemma provider_stream_ends: "snd (provider_stream sdk parse create req) = Some e \<Longrightarrow> llm_error e"
  by (auto simp: provider_stream_def provider_error_class llm_error_def dest: read_stream_ends
      split: sum.splits prod.splits) (metis llm_error_def provider_error_class(1))

interpretation openai_provider: chat_provider "openai_stream sdk dump create" for sdk dump create
  by unfold_locales (simp add: openai_stream_def provider_stream_ends)

interpretation zhipu_provider: chat_provider "zhipu_stream sdk create" for sdk create
  by unfold_locales (simp add: zhipu_stream_def provider_stream_ends)

interpretation mock_provider: chat_provider "mock_stream chunks" for chunks
  by unfold_locales (simp add: mock_stream_def)

text \<open>The mock provider's stream reaches the consumer as it is, with no exception.\<close>

lemma mock_stream_contained:
  assumes "llm_stream_complete cfg (mock_stream texts) req = ((chunks, stop), ev)"
  shows "chunks = fst (mock_stream texts req) \<and> stop = None
    \<and> ge_completion ev = concat (map sc_delta (fst (mock_stream texts req)))"
  using mock_provider.client_stream(3)[OF assms] assms
  by (auto simp: llm_stream_complete_def mock_stream_def Let_def split: if_splits)

section \<open>Properties\<close>

text \<open>
  What can be read of the events of a stream: the longest run of events from the first on that the parser
  reads. Reading ends well at an empty event, or at the end of the events if the SDK raises nothing there.
\<close>

definition readable_part :: "(json_dict \<Rightarrow> exn + stream_chunk) \<Rightarrow> json list \<Rightarrow> stream_chunk list \<Rightarrow> bool" where
  "readable_part parse raws chunks \<longleftrightarrow>
     list_all2 (\<lambda>raw chunk. raw \<noteq> JNull \<and> sbind (model_dump raw) parse = Inr chunk) (take (length chunks) raws) chunks
     \<and> (case drop (length chunks) raws of [] \<Rightarrow> True | raw # _ \<Rightarrow> raw = JNull \<or> isl (sbind (model_dump raw) parse))"

definition ends_well :: "json list \<Rightarrow> exn option \<Rightarrow> stream_chunk list \<Rightarrow> bool" where
  "ends_well raws stop chunks \<longleftrightarrow> (case drop (length chunks) raws of [] \<Rightarrow> stop = None | raw # _ \<Rightarrow> raw = JNull)"

lemma read_stream_spec:
  "read_stream parse raws stop = (chunks, end) \<Longrightarrow>
     readable_part parse raws chunks \<and> (end = None \<longleftrightarrow> ends_well raws stop chunks)"
proof (induction parse raws stop arbitrary: chunks "end" rule: read_stream.induct)
  case (2 parse raw raws stop)
  then show ?case
    by (auto simp: readable_part_def ends_well_def sbind_def split: if_splits sum.splits prod.splits)
qed (auto simp: readable_part_def ends_well_def)

lemma provider_failures:
  "\<not> stream_failure (raise_default LLMAuthFailedError)" "stream_failure (raise_default LLMTimeoutError)"
  "stream_failure (raise_default LLMUnavailableError)"
  by (simp_all add: stream_failure_def retryable_def raise_default_def)

text \<open>C27: a stream never breaks its consumer, except for a wrong key. For the OpenAI-compatible provider and
  for ZhipuAI, whatever the SDK does, the client passes on, in order, what the provider's parser can read of the
  events up to the first it cannot, and records the text of it; it adds an error chunk exactly when
  the call failed or the stream did not end well, and lets no other exception than an authentication failure
  through.\<close>

theorem provider_stream_contained:
  assumes "strm = openai_stream sdk dump create \<and> parse = parse_openai_compatible_stream_chunk dump
      \<or> strm = zhipu_stream sdk create \<and> parse = zhipu_parse_stream_chunk"
    and "llm_stream_complete cfg strm req = ((chunks, stop), ev)"
  shows "\<exists>read tl. chunks = read @ tl \<and> ge_completion ev = concat (map sc_delta read)
    \<and> (case create req of
          Inl e \<Rightarrow> read = [] \<and> (if sdk_authentication sdk e then stop = Some (raise_default LLMAuthFailedError) \<and> tl = []
            else stop = None \<and> tl = [error_chunk])
        | Inr (raws, failure) \<Rightarrow> readable_part parse raws read
            \<and> stop = None \<and> tl = (if ends_well raws failure read then [] else [error_chunk]))"
proof -
  have p: "strm req = provider_stream sdk parse create req"
    using assms(1) by (auto simp: openai_stream_def zhipu_stream_def)
  show ?thesis
  proof (cases "create req")
    case (Inl e)
    then have "strm req = ([], Some (provider_error sdk e))" by (simp add: p provider_stream_def)
    then show ?thesis using assms(2) Inl
      by (cases "sdk_authentication sdk e")
        (auto simp: llm_stream_complete_def build_event_def Let_def provider_error_def provider_failures split: if_splits)
  next
    case (Inr r)
    obtain raws failure where r: "create req = Inr (raws, failure)" using Inr by (cases r) simp
    obtain read fin where read: "read_stream parse raws failure = (read, fin)" by fastforce
    then have st: "strm req = (read, fin)" by (simp add: p provider_stream_def r)
    have spec: "readable_part parse raws read" "fin = None \<longleftrightarrow> ends_well raws failure read"
      using read_stream_spec[OF read] by simp_all
    have "stream_failure e" if "fin = Some e" for e
      using read_stream_ends[of parse raws failure e] that read by (simp add: stream_failure_def)
    then have "chunks = read @ (if fin = None then [] else [error_chunk]) \<and> stop = None
        \<and> ge_completion ev = concat (map sc_delta read)"
      using assms(2) st
      by (cases fin) (auto simp: llm_stream_complete_def build_event_def Let_def split: if_splits)
    with spec show ?thesis
      by (intro exI[of _ read] exI[of _ "if fin = None then [] else [error_chunk]"]) (simp add: r)
  qed
qed

definition content_event :: "pystr \<Rightarrow> json" where
  "content_event d = JObj [(str ''choices'', JArr [JObj [(str ''delta'', JObj [(str ''content'', JStr d)])]])]"

definition demo_sdk :: sdk_errors where
  "demo_sdk = \<lparr>sdk_authentication = (\<lambda>e. exn_code e = ''AuthenticationError''), sdk_timeout = (\<lambda>e. exn_code e = ''APITimeoutError'')\<rparr>"

definition broken_create :: "llm_request \<Rightarrow> exn + (json list \<times> exn option)" where
  "broken_create req = Inr ([content_event (str ''a''), content_event (str ''b'')], Some (PyException ''ReadError'' []))"

lemma broken_client_stream:
  "llm_stream_complete None (openai_stream demo_sdk (\<lambda>_. []) broken_create) demo_request_llm =
     (([empty_chunk\<lparr>sc_delta := str ''a''\<rparr>, empty_chunk\<lparr>sc_delta := str ''b''\<rparr>, error_chunk], None),
      build_event None demo_request_llm None (str ''ab'') ''error'' (Some ''LLM_STREAM_ERROR''))"
  by code_simp

lemma broken_zhipu_stream:
  "llm_stream_complete None (zhipu_stream demo_sdk broken_create) demo_request_llm =
     (([empty_chunk\<lparr>sc_delta := str ''a''\<rparr>, empty_chunk\<lparr>sc_delta := str ''b''\<rparr>, error_chunk], None),
      build_event None demo_request_llm None (str ''ab'') ''error'' (Some ''LLM_STREAM_ERROR''))"
  by code_simp

theorem provider_stream_contained_witness:
  "(\<exists>read tl. [empty_chunk\<lparr>sc_delta := str ''a''\<rparr>, empty_chunk\<lparr>sc_delta := str ''b''\<rparr>, error_chunk] = read @ tl
      \<and> readable_part (parse_openai_compatible_stream_chunk (\<lambda>_. [])) [content_event (str ''a''), content_event (str ''b'')] read)
   \<and> (\<exists>read tl. [empty_chunk\<lparr>sc_delta := str ''a''\<rparr>, empty_chunk\<lparr>sc_delta := str ''b''\<rparr>, error_chunk] = read @ tl
      \<and> readable_part zhipu_parse_stream_chunk [content_event (str ''a''), content_event (str ''b'')] read)"
proof -
  have c: "broken_create demo_request_llm
      = Inr ([content_event (str ''a''), content_event (str ''b'')], Some (PyException ''ReadError'' []))"
    by (simp add: broken_create_def)
  show ?thesis
    using provider_stream_contained[OF disjI1[OF conjI[OF refl refl]] broken_client_stream]
      provider_stream_contained[OF disjI2[OF conjI[OF refl refl]] broken_zhipu_stream]
    unfolding c sum.case prod.case by blast
qed

text \<open>Plain streams are read verbatim. When every event of a stream carries a text as its content, the
  OpenAI-compatible provider and ZhipuAI both yield exactly these texts, in order, and no reasoning.\<close>

theorem plain_stream_verbatim:
  assumes "create req = Inr (map content_event ds, None)"
  shows "openai_stream sdk dump create req = (map (\<lambda>d. empty_chunk\<lparr>sc_delta := d\<rparr>) ds, None)
    \<and> zhipu_stream sdk create req = (map (\<lambda>d. empty_chunk\<lparr>sc_delta := d\<rparr>) ds, None)"
proof -
  have o: "sbind (model_dump (content_event d)) (parse_openai_compatible_stream_chunk dump) = Inr (empty_chunk\<lparr>sc_delta := d\<rparr>)" for d
    by (simp add: model_dump_def content_event_def dict_of_def parse_openai_compatible_stream_chunk_def with_choice_def
        choice_delta_def dget_def message_content_def json_str_def empty_chunk_def Let_def)
  have z: "sbind (model_dump (content_event d)) zhipu_parse_stream_chunk = Inr (empty_chunk\<lparr>sc_delta := d\<rparr>)" for d
    by (simp add: model_dump_def content_event_def dict_of_def zhipu_parse_stream_chunk_def with_choice_def
        choice_delta_def dget_def or_text_def empty_chunk_def Let_def)
  have read: "read_stream parse (map content_event ds) None = (map (\<lambda>d. empty_chunk\<lparr>sc_delta := d\<rparr>) ds, None)"
    if "\<And>d. sbind (model_dump (content_event d)) parse = Inr (empty_chunk\<lparr>sc_delta := d\<rparr>)" for parse
    using that by (induction ds) (simp_all add: content_event_def)
  from assms read[OF o] read[OF z] show ?thesis
    by (simp add: openai_stream_def zhipu_stream_def provider_stream_def)
qed

theorem plain_stream_verbatim_witness:
  "openai_stream demo_sdk (\<lambda>_. []) (\<lambda>_. Inr (map content_event [str ''a'', str ''b''], None)) demo_request_llm
     = (map (\<lambda>d. empty_chunk\<lparr>sc_delta := d\<rparr>) [str ''a'', str ''b''], None)"
  by (rule plain_stream_verbatim[THEN conjunct1]) (rule refl)

text \<open>A wrong key is not retried. When the SDK reports an authentication failure, the client makes exactly one
  call, asks no fallback, records one event, and raises \<open>LLMAuthFailedError\<close>.\<close>

theorem auth_failure_final:
  assumes "create req s = (s', Inl e)" "sdk_authentication sdk e"
  shows "\<exists>ev e'. llm_complete cfg (openai_complete sdk dump model create) fb req s = (s', [ev], Inl e')
    \<and> has_class LLMAuthFailedError e' \<and> ge_error_code ev = Some ''LLM_AUTH_FAILED''"
proof -
  have "openai_complete sdk dump model create req s = (s', Inl (raise_default LLMAuthFailedError))"
    using assms by (simp add: openai_complete_def provider_complete_def provider_error_def)
  then have "retrying n (\<lambda>e. \<not> retryable e) (openai_complete sdk dump model create req) s
      = (s', Inl (raise_default LLMAuthFailedError))" for n
    by (cases n) (simp_all add: retrying.simps retryable_def raise_default_def)
  then show ?thesis
    by (auto simp: llm_complete_def complete_with_provider_def build_event_def raise_default_def retryable_def split: option.splits)
qed

theorem auth_failure_final_witness:
  "\<exists>ev e'. llm_complete None (openai_complete demo_sdk (\<lambda>_. []) (str ''m'') (\<lambda>_ n. (Suc n, Inl (PyException ''AuthenticationError'' []))))
      None demo_request_llm 0 = (1, [ev], Inl e') \<and> has_class LLMAuthFailedError e' \<and> ge_error_code ev = Some ''LLM_AUTH_FAILED''"
  by (rule auth_failure_final[where e = "PyException ''AuthenticationError'' []"]) (simp_all add: demo_sdk_def)

text \<open>A reply without choices is not an LLM error of the provider but an \<open>IndexError\<close>: it is not retried
  and reported as unavailable.\<close>

lemma empty_choices_not_retried:
  assumes "create req s = (s', Inr (JObj [(str ''choices'', JArr [])]))"
  shows "\<exists>ev e. llm_complete cfg (openai_complete sdk dump model create) None req s = (s', [ev], Inl e)
    \<and> has_class LLMUnavailableError e"
proof -
  have "openai_complete sdk dump model create req s = (s', Inl (PyException ''IndexError'' (str ''list index out of range'')))"
    using assms by (simp add: openai_complete_def provider_complete_def model_dump_def dict_of_def
        parse_openai_compatible_response_def dget_def)
  then have "retrying n (\<lambda>e. \<not> retryable e) (openai_complete sdk dump model create req) s
      = (s', Inl (PyException ''IndexError'' (str ''list index out of range'')))" for n
    by (cases n) (simp_all add: retrying.simps retryable_def)
  then show ?thesis
    by (auto simp: llm_complete_def complete_with_provider_def build_event_def raise_default_def)
qed

end
