(* ===== verification/Api_Base.thy ===== *)
theory Api_Base
  imports Py_Values
begin

text \<open>
  What every endpoint of the service shares: the response envelope (\<open>app/core/response.py\<close>), the check of the
  internal key (\<open>app/api/dependencies.py\<close>, \<open>app/api/agent.py\<close>) and the error handlers of \<open>app/main.py\<close>.
  The time stamp and the trace id of a request, and \<open>str\<close> of values that are no strings, are parameters. A
  response is its status with its JSON value, or a stream of events with the exception that breaks it off.
\<close>

section \<open>The envelope\<close>

definition RETRYABLE_CODES :: "pystr list" where
  "RETRYABLE_CODES = [str ''DEPENDENCY_UNAVAILABLE'', str ''EMBEDDING_UNAVAILABLE'', str ''LLM_STREAM_ERROR'',
     str ''LLM_TIMEOUT'', str ''LLM_UNAVAILABLE'', str ''RETRIEVAL_TIMEOUT'', str ''RETRIEVAL_UNAVAILABLE'',
     str ''VECTOR_STORE_UNAVAILABLE'']"

definition is_retryable :: "int \<Rightarrow> pystr \<Rightarrow> bool" where
  "is_retryable status code \<longleftrightarrow> status \<in> {408, 429, 503, 504} \<or> code \<in> set RETRYABLE_CODES"

definition sensitive_markers :: "pystr list" where
  "sensitive_markers = [str ''traceback'', str ''sql'', str ''select '', str ''insert '', str ''update '',
     str ''delete '', str ''password'', str ''secret'', str ''token'', str ''/users/'']"

definition GENERIC_MESSAGE :: pystr where
  "GENERIC_MESSAGE = [0x7CFB, 0x7EDF, 0x5F02, 0x5E38, 0xFF0C, 0x8BF7, 0x7A0D, 0x540E, 0x91CD, 0x8BD5]"

definition sanitize_message :: "pystr \<Rightarrow> pystr" where
  "sanitize_message message =
     (if list_ex (\<lambda>marker. py_contains marker (py_lower message)) sensitive_markers then GENERIC_MESSAGE
      else take 200 message)"

definition sensitive_keys :: "pystr list" where
  "sensitive_keys = [str ''password'', str ''secret'', str ''token'', str ''key'']"

fun text_of :: "(json \<Rightarrow> pystr) \<Rightarrow> json \<Rightarrow> pystr" where
  "text_of rp (JStr s) = s"
| "text_of rp v = rp v"

definition safe_details :: "(json \<Rightarrow> pystr) \<Rightarrow> json \<Rightarrow> json_dict" where
  "safe_details rp details = (case details of
     JObj d \<Rightarrow> foldl (\<lambda>safe (k, v).
       if list_ex (\<lambda>marker. py_contains marker (py_lower k)) sensitive_keys then safe
       else AList.update (take 80 k) (JStr (take 200 (text_of rp v))) safe) [] d
   | _ \<Rightarrow> [])"

definition entry :: "json_dict \<Rightarrow> string \<Rightarrow> json" where
  "entry d k = (case map_of d (str k) of Some v \<Rightarrow> v | None \<Rightarrow> JNull)"

definition or_string :: "(json \<Rightarrow> pystr) \<Rightarrow> json \<Rightarrow> pystr \<Rightarrow> pystr" where
  "or_string rp v d = (if json_truthy v then text_of rp v else d)"

definition normalize_error :: "(json \<Rightarrow> pystr) \<Rightarrow> json_dict option \<Rightarrow> int \<Rightarrow> pystr \<Rightarrow> json" where
  "normalize_error rp error status trace_id = (case error of
     None \<Rightarrow> JNull
   | Some d \<Rightarrow>
       let code = or_string rp (entry d ''code'') (str ''INTERNAL_ERROR'')
       in JObj [(str ''code'', JStr code),
                (str ''message'', JStr (sanitize_message (or_string rp (entry d ''message'') GENERIC_MESSAGE))),
                (str ''trace_id'', JStr trace_id),
                (str ''retryable'', JBool (is_retryable status code)),
                (str ''details'', JObj (safe_details rp (entry d ''details'')))])"

datatype http_response = JsonResponse int json | EventStream "pystr list" "exn option"

text \<open>The request context: the trace id and the time stamp.\<close>

record request_context =
  cx_trace_id :: pystr
  cx_timestamp :: pystr
  cx_repr :: "json \<Rightarrow> pystr"

definition make_response ::
  "request_context \<Rightarrow> json \<Rightarrow> bool \<Rightarrow> json_dict option \<Rightarrow> json_dict \<Rightarrow> int \<Rightarrow> http_response" where
  "make_response cx data success error meta status =
     JsonResponse status (JObj
       ([(str ''success'', JBool success), (str ''data'', data),
         (str ''error'', normalize_error (cx_repr cx) error status (cx_trace_id cx)),
         (str ''meta'', JObj (if meta \<noteq> [] then meta else [(str ''timestamp'', JStr (cx_timestamp cx))]))]
        @ (if cx_trace_id cx \<noteq> [] then [(str ''trace_id'', JStr (cx_trace_id cx))] else [])))"

definition ok_response :: "request_context \<Rightarrow> json \<Rightarrow> int \<Rightarrow> http_response" where
  "ok_response cx data status = make_response cx data True None [] status"

section \<open>Error handlers\<close>

text \<open>What reaches a handler: an exception of a view, or one the framework raises for an HTTP status.\<close>

datatype failure = Thrown exn | HttpError int

definition error_response :: "request_context \<Rightarrow> pystr \<Rightarrow> pystr \<Rightarrow> int \<Rightarrow> http_response" where
  "error_response cx code message status =
     make_response cx JNull False (Some [(str ''code'', JStr code), (str ''message'', JStr message)]) [] status"

text \<open>
  Flask looks for a handler of the status code first, then along the classes of the exception; the exceptions it
  raises for other status codes are \<open>Exception\<close>s too, so the last handler takes them.
\<close>

definition handle_failure :: "request_context \<Rightarrow> failure \<Rightarrow> http_response" where
  "handle_failure cx f =
     (case f of
        Thrown (APIException a) \<Rightarrow> error_response cx (str (exc_code a)) (exc_message a) (exc_status a)
      | _ \<Rightarrow> if f = HttpError 404 then error_response cx (str ''NOT_FOUND'') [0x8D44,
        0x6E90, 0x4E0D, 0x5B58, 0x5728] 404
             else error_response cx (str ''INTERNAL_ERROR'') [0x670D, 0x52A1, 0x5668, 0x5185,
               0x90E8, 0x9519, 0x8BEF] 500)"

section \<open>The internal key\<close>

text \<open>\<open>hmac.compare_digest\<close> of two strings: both have to be ASCII.\<close>

definition compare_digest :: "pystr \<Rightarrow> pystr \<Rightarrow> exn + bool" where
  "compare_digest a b =
     (if list_all (\<lambda>c. c < 128) a \<and> list_all (\<lambda>c. c < 128) b then Inr (a = b)
      else Inl (type_error (str ''comparing strings with non-ASCII characters is not supported'')))"

definition api_error :: "string \<Rightarrow> pystr \<Rightarrow> int \<Rightarrow> exn" where
  "api_error code message status = raise_code BaseAPIException code message status"

definition check_internal_key :: "pystr \<Rightarrow> pystr option \<Rightarrow> exn + unit" where
  "check_internal_key configured header = (case header of
     None \<Rightarrow> Inl (api_error ''UNAUTHORIZED'' [0x7F3A, 0x5C11, 0x5185, 0x90E8, 0x8C03,
       0x7528, 0x5BC6, 0x94A5] 401)
   | Some key \<Rightarrow>
       if configured = [] \<or> key = [] then Inl (api_error ''FORBIDDEN'' [0x975E, 0x6CD5, 0x5185,
         0x90E8, 0x8C03, 0x7528] 403)
       else sbind (compare_digest key configured) (\<lambda>same.
         if same then Inr () else Inl (api_error ''FORBIDDEN'' [0x975E, 0x6CD5, 0x5185, 0x90E8,
           0x8C03, 0x7528] 403)))"

definition check_agent_internal_key :: "pystr \<Rightarrow> pystr option \<Rightarrow> exn + unit" where
  "check_agent_internal_key configured header =
     (let unauthorized = Inl (api_error ''UNAUTHORIZED'' [0x672A, 0x6388, 0x6743, 0x8BBF, 0x95EE] 401)
      in case header of
           None \<Rightarrow> unauthorized
         | Some key \<Rightarrow>
             if key = [] \<or> configured = [] then unauthorized
             else sbind (compare_digest key configured) (\<lambda>same. if same then Inr () else unauthorized))"

end
