(* ===== verification/Llama_Props.thy ===== *)
theory Llama_Props
  imports Llama_Index
begin

text \<open>
  Facts and properties of the LlamaIndex retrieval path: what a search result looks like after its way
  through a node, what the engine returns, and that it agrees with the legacy retrieval service when both
  search the same store.
\<close>

section \<open>Metadata\<close>

lemma dict_get_update [simp]:
  "dict_get (AList.update (str k) v m) j = (if j = k then Some v else dict_get m j)"
  by (simp add: dict_get_def update_conv' str_inject)

lemma dict_get_alias:
  "dict_get (alias_key a b m) k =
     (if k = a \<and> dict_get m a = None then dict_get m b else dict_get m k)"
  by (auto simp: alias_key_def split: option.splits)

text \<open>Normalising only adds keys.\<close>

lemma alias_keeps: "dict_get m k = Some v \<Longrightarrow> dict_get (alias_key a b m) k = Some v"
  by (auto simp: dict_get_alias)

lemma normalize_metadata_keeps: "dict_get m k = Some v \<Longrightarrow> dict_get (normalize_metadata m) k = Some v"
  by (simp add: normalize_metadata_def alias_keeps)

text \<open>The metadata of a mapped search result.\<close>

lemma node_metadata:
  fixes r
  defines "m \<equiv> nd_metadata (vector_search_result_to_node r)"
  shows "dict_get m ''chunk_id'' = Some (PStr (vr_id r))" "dict_get m ''resource_id'' = Some (PStr (vr_resource_id r))"
    "dict_get m ''user_id'' = Some (PStr (vr_user_id r))" "dict_get m ''score'' = Some (PFloat (vr_score r))"
  by (simp_all add: m_def vector_search_result_to_node_def metadata_with_required_fields_def del: str_simps)

lemma node_metadata_other:
  assumes "dict_get (vr_metadata r) k = Some v" "k \<notin> {''chunk_id'', ''resource_id'', ''user_id'', ''score''}"
  shows "dict_get (nd_metadata (vector_search_result_to_node r)) k = Some v"
  using assms normalize_metadata_keeps[OF assms(1)]
  by (simp add: vector_search_result_to_node_def metadata_with_required_fields_def del: str_simps)

section \<open>Mapped chunks\<close>

text \<open>What a search result becomes when it comes back as a chunk.\<close>

definition mapped_chunk :: "(pyval \<Rightarrow> pystr) \<Rightarrow> vector_search_result \<Rightarrow> retrieval_chunk" where
  "mapped_chunk rp r = node_to_chunk rp (PlainNode (vector_search_result_to_node r))"

lemma mapped_chunk_simps [simp]:
  "rc_chunk_id (mapped_chunk rp r) = vr_id r" "rc_resource_id (mapped_chunk rp r) = vr_resource_id r"
  "rc_text (mapped_chunk rp r) = vr_text r" "rc_score (mapped_chunk rp r) = vr_score r"
  "chunk_user_id rp (mapped_chunk rp r) = vr_user_id r"
  by (simp_all add: mapped_chunk_def node_to_retrieval_chunk_def Let_def get_or_def resolve_score_def chunk_user_id_def
      normalize_metadata_keeps[OF node_metadata(1)] normalize_metadata_keeps[OF node_metadata(2)]
      normalize_metadata_keeps[OF node_metadata(3)] normalize_metadata_keeps[OF node_metadata(4)]
      del: str_simps)
    (simp_all add: vector_search_result_to_node_def)

section \<open>The engine\<close>

interpretation chunk_guard: scope_guard "chunk_user_id rp" rc_resource_id "validate_chunks rp"
  LlamaIndexRetrievalForbiddenError for rp
proof
  show "(validate_chunks rp hs u rs = Inr ()) = (\<forall>h \<in> set hs. chunk_user_id rp h = u \<and> rc_resource_id h \<in> set rs)"
    for hs u rs
    by (induction hs) auto
  show "has_class LlamaIndexRetrievalForbiddenError e" if "validate_chunks rp hs u rs = Inl e" for hs u rs e
    using that by (induction hs) (auto split: if_splits)
qed

lemma llama_dedup_loop_spec:
  "llama_dedup_loop sha1 seen cs = Inr out \<Longrightarrow> subseq out cs"
  by (induction cs arbitrary: seen out) (auto simp: sbind_Inr_iff split: if_splits)

abbreviation llama_tokens :: "token_estimator \<Rightarrow> retrieval_chunk list \<Rightarrow> nat" where
  "llama_tokens est cs \<equiv> sum_list (map (\<lambda>c. token_count est (rc_text c)) cs)"

lemma llama_compress_loop_prefix:
  "llama_compress_loop est m pre (llama_tokens est pre) cs = (sel, n) \<Longrightarrow>
     (length pre \<le> 1 \<or> int (llama_tokens est pre) \<le> m) \<Longrightarrow>
     prefix sel (pre @ cs) \<and> n = llama_tokens est sel \<and> (length sel \<le> 1 \<or> int n \<le> m)"
proof (induction cs arbitrary: pre)
  case (Cons c cs)
  show ?case
  proof (cases "pre \<noteq> [] \<and> m < int (llama_tokens est pre + token_count est (rc_text c))")
    case False
    then have "length (pre @ [c]) \<le> 1 \<or> int (llama_tokens est (pre @ [c])) \<le> m" by auto
    with Cons.IH[of "pre @ [c]"] Cons.prems(1) False show ?thesis by auto
  qed (use Cons.prems in auto)
qed auto

lemma llama_compress_prefix:
  "llama_compress est cs m = (sel, n) \<Longrightarrow> prefix sel cs \<and> n = llama_tokens est sel \<and> (length sel \<le> 1 \<or> int n \<le> m)"
  using llama_compress_loop_prefix[of est m "[]" cs sel n] by (auto simp: llama_compress_def)

abbreviation llama_threshold :: "llama_config \<Rightarrow> retrieval_request \<Rightarrow> pyfloat" where
  "llama_threshold cfg req \<equiv> (case rq_score_threshold req of Some t \<Rightarrow> t | None \<Rightarrow> lc_score_threshold cfg)"

abbreviation llama_budget :: "llama_config \<Rightarrow> retrieval_request \<Rightarrow> int" where
  "llama_budget cfg req \<equiv> (case rq_max_context_tokens req of Some n \<Rightarrow> n | None \<Rightarrow> lc_max_context_tokens cfg)"

text \<open>What the engine has established when it returns.\<close>

lemma llama_retrieve_Inr:
  assumes "llama_retrieve env cfg req = Inr res"
  obtains nodes deduped where
    "retrieve_candidates env cfg req (if rq_top_k req = 0 then lc_default_top_k cfg else rq_top_k req) = Inr nodes"
    "\<forall>c \<in> node_to_chunk (le_repr env) ` set nodes. chunk_user_id (le_repr env) c = rq_user_id req
       \<and> rc_resource_id c \<in> set (rq_resource_ids req)"
    "subseq deduped (py_sorted_desc rc_score (map (node_to_chunk (le_repr env)) nodes))"
    "llama_compress (le_estimator env)
       (py_take (if rq_top_k req = 0 then lc_default_top_k cfg else rq_top_k req)
         (filter (\<lambda>c. llama_threshold cfg req \<le> rc_score c) deduped)) (llama_budget cfg req)
      = (rr_chunks res, rr_context_token_count res)"
proof -
  let ?k = "if rq_top_k req = 0 then lc_default_top_k cfg else rq_top_k req"
  let ?cs = "\<lambda>nodes. map (node_to_chunk (le_repr env)) nodes"
  from assms obtain nodes deduped where
    n: "retrieve_candidates env cfg req ?k = Inr nodes"
    and v: "validate_chunks (le_repr env) (?cs nodes) (rq_user_id req) (rq_resource_ids req) = Inr ()"
    and d: "(if use_per_resource cfg (rq_resource_ids req)
       then llama_dedup_loop (le_sha1 env) [] (py_sorted_desc rc_score (?cs nodes))
       else Inr (py_sorted_desc rc_score (?cs nodes))) = Inr deduped"
    and c: "(case llama_compress (le_estimator env) (py_take ?k (filter (\<lambda>c. llama_threshold cfg req \<le> rc_score c) deduped))
         (llama_budget cfg req) of (compressed, tokens) \<Rightarrow> sbind (le_build env compressed (rq_question req)) (\<lambda>prompt.
            Inr \<lparr>rr_chunks = compressed, rr_prompt = prompt, rr_context_token_count = tokens\<rparr>)) = Inr res"
    unfolding llama_retrieve_def Let_def sbind_Inr_iff handled_Inr_iff by auto
  show thesis
  proof (rule that[OF n])
    show "\<forall>c \<in> node_to_chunk (le_repr env) ` set nodes. chunk_user_id (le_repr env) c = rq_user_id req
       \<and> rc_resource_id c \<in> set (rq_resource_ids req)"
      using v unfolding chunk_guard.accepts by simp
    show "subseq deduped (py_sorted_desc rc_score (?cs nodes))"
      using d by (auto dest: llama_dedup_loop_spec split: if_splits)
    show "llama_compress (le_estimator env) (py_take ?k (filter (\<lambda>c. llama_threshold cfg req \<le> rc_score c) deduped))
        (llama_budget cfg req) = (rr_chunks res, rr_context_token_count res)"
      using c by (auto simp: sbind_Inr_iff split: prod.splits)
  qed
qed

lemma llama_in_scope:
  assumes "llama_retrieve env cfg req = Inr res" "c \<in> set (rr_chunks res)"
  shows "rc_resource_id c \<in> set (rq_resource_ids req) \<and> chunk_user_id (le_repr env) c = rq_user_id req
    \<and> llama_threshold cfg req \<le> rc_score c"
  using assms(1)
proof (rule llama_retrieve_Inr)
  fix nodes deduped
  assume s: "subseq deduped (py_sorted_desc rc_score (map (node_to_chunk (le_repr env)) nodes))"
    and g: "\<forall>c \<in> node_to_chunk (le_repr env) ` set nodes. chunk_user_id (le_repr env) c = rq_user_id req
       \<and> rc_resource_id c \<in> set (rq_resource_ids req)"
    and l: "llama_compress (le_estimator env)
       (py_take (if rq_top_k req = 0 then lc_default_top_k cfg else rq_top_k req)
         (filter (\<lambda>c. llama_threshold cfg req \<le> rc_score c) deduped)) (llama_budget cfg req)
      = (rr_chunks res, rr_context_token_count res)"
  from llama_compress_prefix[OF l] assms(2)
  have "c \<in> set (filter (\<lambda>c. llama_threshold cfg req \<le> rc_score c) deduped)"
    by (meson set_mono_prefix set_py_take subsetD)
  with subseq_subset[OF s] g show ?thesis by auto
qed

interpretation llama: retriever "llama_retrieve env cfg" for env cfg
  by unfold_locales (use llama_in_scope in blast)

section \<open>Agreement with the legacy service\<close>

lemma insort_key_map: "insort_key f (g x) (map g xs) = map g (insort_key (\<lambda>y. f (g y)) x xs)"
  by (induction xs) auto

lemma py_sorted_desc_map: "py_sorted_desc key (map g xs) = map g (py_sorted_desc (\<lambda>x. key (g x)) xs)"
  by (induction xs) (simp_all add: py_sorted_desc_def insort_key_map)

lemma llama_dedup_key_mapped [simp]: "llama_dedup_key sha1 (mapped_chunk rp r) = dedup_key sha1 r"
  by (simp add: llama_dedup_key_def dedup_key_def cong: if_cong)

lemma llama_dedup_loop_mapped:
  "dedup_loop sha1 seen rs = Inr out \<Longrightarrow>
     llama_dedup_loop sha1 seen (map (mapped_chunk rp) rs) = Inr (map (mapped_chunk rp) out)"
  by (induction sha1 seen rs arbitrary: out rule: dedup_loop.induct) (auto simp: sbind_Inr_iff split: if_splits)

lemma py_take_map: "py_take n (map f xs) = map f (py_take n xs)"
  by (simp add: py_take_def take_map)

lemma compress_mapped:
  "\<exists>sel n. compress_loop est m (map to_retrieval_chunk pre) u cs = (map to_retrieval_chunk sel, n)
     \<and> llama_compress_loop est m (map (mapped_chunk rp) pre) u (map (mapped_chunk rp) cs) = (map (mapped_chunk rp) sel, n)"
proof (induction cs arbitrary: pre u)
  case (Cons c cs)
  show ?case
  proof (cases "pre \<noteq> [] \<and> m < int (u + token_count est (vr_text c))")
    case True
    then show ?thesis by (intro exI[of _ pre] exI[of _ u]) auto
  next
    case False
    with Cons.IH[of "pre @ [c]" "u + token_count est (vr_text c)"] show ?thesis by (auto simp: Let_def)
  qed
qed auto

text \<open>Identifiers the filters leave as they are, and a store that keeps to the scope it is asked for.\<close>

definition scope_is_normal :: "retrieval_request \<Rightarrow> bool" where
  "scope_is_normal req \<longleftrightarrow> py_strip (rq_user_id req) = rq_user_id req
     \<and> normalize_resource_ids (rq_resource_ids req) = rq_resource_ids req"

definition store_in_scope :: "scoped_search \<Rightarrow> bool" where
  "store_in_scope store_search \<longleftrightarrow> (\<forall>v k f rs. store_search v k f = Inr rs \<longrightarrow>
     (\<forall>r \<in> set rs. vr_user_id r = f_user_id f \<and> vr_resource_id r \<in> set (f_resource_ids f)))"

lemma normalize_ids_loop_set: "set (normalize_ids_loop seen ids) = py_strip ` set ids - {[]} - set seen"
  by (induction seen ids rule: normalize_ids_loop.induct) (auto simp: Let_def)

lemma scope_is_normalD:
  assumes "scope_is_normal req" "rid \<in> set (rq_resource_ids req)"
  shows "normalize_resource_ids [rid] = [rid]"
proof -
  have "rid \<in> py_strip ` set (rq_resource_ids req) - {[]}"
    using assms normalize_ids_loop_set[of "[]" "rq_resource_ids req"]
    by (auto simp: scope_is_normal_def normalize_resource_ids_def)
  then show ?thesis by (auto simp: normalize_resource_ids_def Let_def py_strip_strip)
qed

text \<open>The engine over the adapter, with the embedding service and the store of the legacy service.\<close>

definition llama_over :: "retrieval_env \<Rightarrow> (retrieval_chunk list \<Rightarrow> pystr \<Rightarrow> exn + pystr) \<Rightarrow> (pyval \<Rightarrow> pystr) \<Rightarrow> llama_env" where
  "llama_over env build rp =
     \<lparr>le_query = adapter_query (adapter_embed (re_embed_query env)) (re_search env), le_build = build,
      le_estimator = re_estimator env, le_sha1 = re_sha1 env, le_repr = rp\<rparr>"

definition llama_config_of :: "retrieval_config \<Rightarrow> llama_config" where
  "llama_config_of cfg = \<lparr>lc_default_top_k = rcfg_default_top_k cfg, lc_score_threshold = rcfg_score_threshold cfg,
     lc_max_context_tokens = rcfg_max_context_tokens cfg, lc_per_resource_candidates = True\<rparr>"

lemma llama_over_simps [simp]:
  "le_build (llama_over env build rp) = build" "le_estimator (llama_over env build rp) = re_estimator env"
  "le_sha1 (llama_over env build rp) = re_sha1 env" "le_repr (llama_over env build rp) = rp"
  "lc_score_threshold (llama_config_of cfg) = rcfg_score_threshold cfg"
  "lc_max_context_tokens (llama_config_of cfg) = rcfg_max_context_tokens cfg"
  by (simp_all add: llama_over_def llama_config_of_def)

lemma adapter_query_Inr:
  assumes "re_embed_query env q = Inr v" "py_strip uid = uid" "uid \<noteq> []" "normalize_resource_ids rids = rids" "rids \<noteq> []"
    and "k \<le> 100" "re_search env v k \<lparr>f_user_id = uid, f_resource_ids = rids\<rparr> = Inr rs"
  shows "le_query (llama_over env build rp) q uid rids k = Inr (map (\<lambda>r. PlainNode (vector_search_result_to_node r)) rs)"
  using assms by (simp add: llama_over_def adapter_query_def build_metadata_filters_def adapter_embed_def
      search_by_vector_def top_k_limit_def min_absorb1)

lemma candidates_agree:
  assumes "search_candidates env req v k = Inr rs" "re_embed_query env (rq_question req) = Inr v"
    and "retrieval_request_valid req" "scope_is_normal req" "1 \<le> k" "k \<le> 100"
  shows "retrieve_candidates (llama_over env build rp) (llama_config_of cfg) req k
      = Inr (map (\<lambda>r. PlainNode (vector_search_result_to_node r)) rs)"
proof -
  let ?u = "rq_user_id req" and ?ids = "rq_resource_ids req" and ?node = "\<lambda>r. PlainNode (vector_search_result_to_node r)"
  note norm = assms(4)[unfolded scope_is_normal_def]
  have ne: "?u \<noteq> []" "?ids \<noteq> []" using assms(3) by (auto simp: retrieval_request_valid_def len_between_def)
  have use: "use_per_resource (llama_config_of cfg) ?ids \<longleftrightarrow> 1 < distinct_count ?ids"
    by (simp add: use_per_resource_def llama_config_of_def)
  have top: "llama_candidate_top_k (llama_config_of cfg) k ?ids = candidate_top_k k ?ids"
    by (simp add: llama_candidate_top_k_def candidate_top_k_def use not_less)
  have q: "le_query (llama_over env build rp) (rq_question req) ?u ids n = Inr (map ?node out)"
    if "re_search env v n \<lparr>f_user_id = ?u, f_resource_ids = ids\<rparr> = Inr out" "n \<le> 100"
      "normalize_resource_ids ids = ids" "ids \<noteq> []" for ids n out
    using adapter_query_Inr[OF assms(2) _ ne(1) that(3,4,2,1)] norm by blast
  from assms(1) obtain first where
    f: "re_search env v (candidate_top_k k ?ids) \<lparr>f_user_id = ?u, f_resource_ids = ?ids\<rparr> = Inr first"
    and more: "(if 1 < distinct_count ?ids
      then sbind (search_per_resource_candidates env v ?u ?ids) (\<lambda>more. Inr (first @ more)) else Inr first) = Inr rs"
    unfolding search_candidates_def Let_def handled_Inr_iff sbind_Inr_iff by blast
  note first = q[OF f conjunct2[OF candidate_top_k_bounds[OF assms(5,6)]] conjunct2[OF norm] ne(2)]
  show ?thesis
  proof (cases "1 < distinct_count ?ids")
    case True
    with more obtain lists where
      l: "smap (\<lambda>rid. re_search env v 1 \<lparr>f_user_id = ?u, f_resource_ids = [rid]\<rparr>) (fromkeys ?ids) = Inr lists"
      and rs: "rs = first @ concat lists"
      by (auto simp: search_per_resource_candidates_def sbind_Inr_iff)
    have "smap (\<lambda>rid. le_query (llama_over env build rp) (rq_question req) ?u [rid] 1) (fromkeys ?ids)
        = Inr (map (map ?node) lists)"
    proof (rule smap_Inr_transfer[OF l])
      fix rid out
      assume "rid \<in> set (fromkeys ?ids)" "re_search env v 1 \<lparr>f_user_id = ?u, f_resource_ids = [rid]\<rparr> = Inr out"
      then show "le_query (llama_over env build rp) (rq_question req) ?u [rid] 1 = Inr (map ?node out)"
        using q[of 1 "[rid]" out] scope_is_normalD[OF assms(4)] by simp
    qed
    with True first use top rs show ?thesis by (simp add: retrieve_candidates_def map_concat)
  qed (use more first use top in \<open>auto simp: retrieve_candidates_def\<close>)
qed

text \<open>What the clients of a chunk see of it apart from its metadata.\<close>

definition chunk_view :: "retrieval_chunk \<Rightarrow> pystr \<times> pystr \<times> pystr \<times> pyfloat" where
  "chunk_view c = (rc_chunk_id c, rc_resource_id c, rc_text c, rc_score c)"

lemma chunk_view_mapped: "chunk_view (mapped_chunk rp r) = chunk_view (to_retrieval_chunk r)"
  by (simp add: chunk_view_def to_retrieval_chunk_def)

lemma search_candidates_scoped:
  assumes "search_candidates env req v k = Inr rs" "store_in_scope (re_search env)" "r \<in> set rs"
  shows "vr_user_id r = rq_user_id req \<and> vr_resource_id r \<in> set (rq_resource_ids req)"
  using search_candidates_from_store[OF assms(1,3)] assms(2) unfolding from_store_def store_in_scope_def by fastforce

lemma finished_prompt:
  "(case x of (cs, n) \<Rightarrow> sbind (build cs) (\<lambda>prompt.
      Inr \<lparr>rr_chunks = cs, rr_prompt = prompt, rr_context_token_count = n\<rparr>)) = Inr res \<Longrightarrow>
     x = (rr_chunks res, rr_context_token_count res) \<and> build (rr_chunks res) = Inr (rr_prompt res)"
  by (auto simp: sbind_Inr_iff split: prod.splits)

lemma legacy_steps:
  assumes "retrieve env cfg req = Inr res" "retrieval_request_valid req"
  obtains v rs deduped sel where "re_embed_query env (rq_question req) = Inr v"
    "search_candidates env req v (rq_top_k req) = Inr rs"
    "(if 1 < distinct_count (rq_resource_ids req)
      then dedup_loop (re_sha1 env) [] (py_sorted_desc vr_score rs) else Inr (py_sorted_desc vr_score rs)) = Inr deduped"
    "compress_context (re_estimator env) (py_take (rq_top_k req)
       (filter (\<lambda>r. threshold_of cfg req \<le> vr_score r) deduped)) (budget_of cfg req)
      = (map to_retrieval_chunk sel, rr_context_token_count res)"
    "rr_chunks res = map to_retrieval_chunk sel" "re_build env (rr_chunks res) (rq_question req) = Inr (rr_prompt res)"
proof -
  from assms(1) obtain v rs deduped where
    e: "re_embed_query env (rq_question req) = Inr v" and s: "search_candidates env req v (rq_top_k req) = Inr rs"
    and d: "(if 1 < distinct_count (rq_resource_ids req)
      then dedup_loop (re_sha1 env) [] (py_sorted_desc vr_score rs) else Inr (py_sorted_desc vr_score rs)) = Inr deduped"
    and c: "(case compress_context (re_estimator env) (py_take (rq_top_k req)
       (filter (\<lambda>r. threshold_of cfg req \<le> vr_score r) deduped)) (budget_of cfg req) of (compressed, tokens) \<Rightarrow>
         sbind (re_build env compressed (rq_question req)) (\<lambda>prompt.
           Inr \<lparr>rr_chunks = compressed, rr_prompt = prompt, rr_context_token_count = tokens\<rparr>)) = Inr res"
    unfolding retrieve_def Let_def sbind_Inr_iff request_defaults[OF assms(2)] deduplicate_similar_chunks_def
    by blast
  note p = finished_prompt[OF c, THEN conjunct2] and c = finished_prompt[OF c, THEN conjunct1]
  obtain sel where sel: "rr_chunks res = map to_retrieval_chunk sel"
    using c compress_context_prefix by (metis prod.inject)
  show thesis by (rule that[OF e s d c[unfolded sel] sel p])
qed

section \<open>Properties\<close>

text \<open>A search result survives its way through a LlamaIndex node. The chunk an engine makes of it has
  the result's id, resource, text and score, names its user, and still has every other metadata entry.\<close>

theorem node_roundtrip:
  fixes rp r
  defines "c \<equiv> node_to_chunk rp (PlainNode (vector_search_result_to_node r))"
  shows "chunk_view c = (vr_id r, vr_resource_id r, vr_text r, vr_score r) \<and> chunk_user_id rp c = vr_user_id r
    \<and> (\<forall>k v. k \<notin> {''chunk_id'', ''resource_id'', ''user_id'', ''score''} \<longrightarrow>
         dict_get (vr_metadata r) k = Some v \<longrightarrow> dict_get (rc_metadata c) k = Some v)"
proof -
  have "dict_get (rc_metadata c) k = Some v"
    if "k \<notin> {''chunk_id'', ''resource_id'', ''user_id'', ''score''}" "dict_get (vr_metadata r) k = Some v" for k v
    using normalize_metadata_keeps[OF node_metadata_other[OF that(2,1)]]
    by (simp add: c_def node_to_retrieval_chunk_def Let_def)
  moreover have "c = mapped_chunk rp r" by (simp add: c_def mapped_chunk_def)
  ultimately show ?thesis by (simp add: chunk_view_def)
qed

definition demo_hit :: vector_search_result where
  "demo_hit = (demo_result ''c1'' ''abc'' (9 / 10))\<lparr>vr_metadata := [(str ''page'', PInt 3)]\<rparr>"

theorem node_roundtrip_witness:
  "dict_get (rc_metadata (node_to_chunk (\<lambda>_. []) (PlainNode (vector_search_result_to_node demo_hit)))) ''page'' = Some (PInt 3)"
  using node_roundtrip[of "\<lambda>_. []" demo_hit, THEN conjunct2, THEN conjunct2, rule_format, of "''page''" "PInt 3"]
  by (simp add: demo_hit_def dict_get_def)

text \<open>C24: both RAG engines answer alike. When the legacy service returns, the LlamaIndex engine over the
  same embedding service, store and prompt builder returns chunks with the same ids, resources, texts and scores
  in the same order, and the same token count, provided the store keeps to the scope, the identifiers have no
  padding or duplicates, the question is not blank and prompts can be rendered. Each prompt is the builder's
  rendering of the engine's own chunks, so the prompts are equal for a template that prints nothing but those
  fields. (The metadata of the chunks differs, as \<open>metadata_differs\<close> shows, and the shipped template
  prints it.)\<close>

theorem engines_agree:
  assumes "retrieve env cfg req = Inr res" "retrieval_request_valid req"
    and "store_in_scope (re_search env)" "scope_is_normal req" "\<not> blank (rq_question req)"
    and "\<And>cs q. \<exists>prompt. re_build env cs q = Inr prompt"
  shows "\<exists>res'. llama_retrieve (llama_over env (re_build env) rp) (llama_config_of cfg) req = Inr res'
    \<and> map chunk_view (rr_chunks res') = map chunk_view (rr_chunks res)
    \<and> rr_context_token_count res' = rr_context_token_count res
    \<and> re_build env (rr_chunks res) (rq_question req) = Inr (rr_prompt res)
    \<and> re_build env (rr_chunks res') (rq_question req) = Inr (rr_prompt res')
    \<and> ((\<forall>cs cs'. map chunk_view cs = map chunk_view cs' \<longrightarrow>
          re_build env cs (rq_question req) = re_build env cs' (rq_question req)) \<longrightarrow> rr_prompt res' = rr_prompt res)"
  using assms(1,2)
proof (rule legacy_steps)
  fix v rs deduped sel
  let ?env = "llama_over env (re_build env) rp" and ?cfg = "llama_config_of cfg" and ?k = "rq_top_k req" and ?g = "mapped_chunk rp"
  let ?t = "threshold_of cfg req"
  assume e: "re_embed_query env (rq_question req) = Inr v" and s: "search_candidates env req v ?k = Inr rs"
    and d: "(if 1 < distinct_count (rq_resource_ids req)
      then dedup_loop (re_sha1 env) [] (py_sorted_desc vr_score rs) else Inr (py_sorted_desc vr_score rs)) = Inr deduped"
    and c: "compress_context (re_estimator env) (py_take ?k (filter (\<lambda>r. ?t \<le> vr_score r) deduped)) (budget_of cfg req)
      = (map to_retrieval_chunk sel, rr_context_token_count res)"
    and out: "rr_chunks res = map to_retrieval_chunk sel"
    and pr: "re_build env (rr_chunks res) (rq_question req) = Inr (rr_prompt res)"
  have k: "1 \<le> ?k" "?k \<le> 100" and u: "\<not> blank (rq_user_id req)" "rq_resource_ids req \<noteq> []"
    using assms(2,4) by (auto simp: retrieval_request_valid_def len_between_def scope_is_normal_def blank_def)
  note cand = candidates_agree[OF s e assms(2,4) k, of "re_build env" rp cfg]
  have chunks: "map (node_to_chunk rp) (map (\<lambda>r. PlainNode (vector_search_result_to_node r)) rs) = map ?g rs"
    by (simp add: mapped_chunk_def)
  have v: "validate_chunks rp (map ?g rs) (rq_user_id req) (rq_resource_ids req) = Inr ()"
    using search_candidates_scoped[OF s assms(3)] by (simp add: chunk_guard.accepts)
  have dd: "(if use_per_resource ?cfg (rq_resource_ids req)
      then llama_dedup_loop (re_sha1 env) [] (py_sorted_desc rc_score (map ?g rs))
      else Inr (py_sorted_desc rc_score (map ?g rs))) = Inr (map ?g deduped)"
    using d by (auto simp: py_sorted_desc_map use_per_resource_def llama_config_of_def llama_dedup_loop_mapped split: if_splits)
  have f: "py_take ?k (filter (\<lambda>c. ?t \<le> rc_score c) (map ?g deduped))
      = map ?g (py_take ?k (filter (\<lambda>r. ?t \<le> vr_score r) deduped))"
    by (simp add: filter_map comp_def py_take_map)
  define fl where "fl = py_take ?k (filter (\<lambda>r. ?t \<le> vr_score r) deduped)"
  from compress_mapped[of "re_estimator env" "budget_of cfg req" "[]" 0 fl rp] c[folded fl_def] obtain sel' where
    sel': "map to_retrieval_chunk sel' = map to_retrieval_chunk sel"
    and cc: "llama_compress (re_estimator env) (map ?g fl) (budget_of cfg req) = (map ?g sel', rr_context_token_count res)"
    unfolding compress_context_def llama_compress_def list.map(1) by auto
  have view: "map chunk_view (map ?g sel') = map chunk_view (rr_chunks res)"
    using arg_cong[OF sel', of "map chunk_view"] by (simp add: out chunk_view_mapped comp_def)
  obtain prompt where b: "re_build env (map ?g sel') (rq_question req) = Inr prompt" using assms(6) by blast
  let ?res = "\<lparr>rr_chunks = map ?g sel', rr_prompt = prompt, rr_context_token_count = rr_context_token_count res\<rparr>"
  have run: "llama_retrieve ?env ?cfg req = Inr ?res"
    using u assms(5) b
    by (simp add: llama_retrieve_def validate_llama_request_def request_defaults[OF assms(2)] Let_def
        cand chunks v dd f cc[unfolded fl_def] del: map_map split del: if_split cong: if_cong option.case_cong)
  have same: "prompt = rr_prompt res" if "\<forall>cs cs'. map chunk_view cs = map chunk_view cs' \<longrightarrow>
      re_build env cs (rq_question req) = re_build env cs' (rq_question req)"
    using that[rule_format, OF view] b pr by simp
  show ?thesis
    by (rule exI[of _ ?res], unfold retrieval_result.simps, intro conjI impI, rule run, rule view, rule refl, rule pr, rule b, erule same)
qed

lemma metadata_differs:
  "chunk_view (mapped_chunk rp demo_hit) = chunk_view (to_retrieval_chunk demo_hit)
   \<and> rc_metadata (mapped_chunk rp demo_hit) \<noteq> rc_metadata (to_retrieval_chunk demo_hit)"
proof -
  have "rc_metadata (mapped_chunk rp demo_hit) = normalize_metadata (nd_metadata (vector_search_result_to_node demo_hit))"
    by (simp add: mapped_chunk_def node_to_retrieval_chunk_def Let_def)
  moreover have "normalize_metadata (nd_metadata (vector_search_result_to_node demo_hit))
      \<noteq> rc_metadata (to_retrieval_chunk demo_hit)" by code_simp
  ultimately show ?thesis by (simp add: chunk_view_mapped)
qed

definition demo_scoped_env :: retrieval_env where
  "demo_scoped_env = demo_retrieval_env\<lparr>re_search := (\<lambda>_ _ f. Inr (filter
     (\<lambda>r. vr_user_id r = f_user_id f \<and> vr_resource_id r \<in> set (f_resource_ids f))
     [demo_result ''r1-0'' ''abc'' (8 / 10), demo_result ''r1-1'' ''defg'' (9 / 10), demo_result ''r1-2'' ''hi'' (1 / 10)]))\<rparr>"

lemma demo_scoped:
  "retrieve demo_scoped_env default_retrieval_config demo_retrieval_request =
     Inr \<lparr>rr_chunks = [to_retrieval_chunk (demo_result ''r1-1'' ''defg'' (9 / 10))], rr_prompt = str ''q'',
          rr_context_token_count = 4\<rparr>"
  by (simp add: retrieve_def demo_scoped_env_def demo_retrieval_env_def demo_retrieval_request_def default_retrieval_config_def
      search_candidates_def candidate_top_k_def distinct_count_def Let_def py_sorted_desc_def
      py_take_def demo_result_def compress_context_def to_retrieval_chunk_def)

lemma demo_scoped_env_in_scope: "store_in_scope (re_search demo_scoped_env)"
  by (auto simp: store_in_scope_def demo_scoped_env_def demo_retrieval_env_def)

lemma demo_request_normal: "scope_is_normal demo_retrieval_request" "\<not> blank (rq_question demo_retrieval_request)"
  by (simp_all add: scope_is_normal_def demo_retrieval_request_def normalize_resource_ids_def Let_def py_strip_def
      is_space_def blank_iff)

theorem engines_agree_witness:
  "\<exists>res'. llama_retrieve (llama_over demo_scoped_env (re_build demo_scoped_env) (\<lambda>_. []))
       (llama_config_of default_retrieval_config) demo_retrieval_request = Inr res'
     \<and> map chunk_view (rr_chunks res') = [(str ''r1-1'', str ''r1'', str ''defg'', 9 / 10)] \<and> rr_context_token_count res' = 4
     \<and> rr_prompt res' = str ''q''"
proof -
  have b: "re_build demo_scoped_env = (\<lambda>_ q. Inr q)" by (simp add: demo_scoped_env_def demo_retrieval_env_def)
  have "\<And>cs q. \<exists>prompt. re_build demo_scoped_env cs q = Inr prompt" by (simp add: b)
  from engines_agree[OF demo_scoped demo_request_valid demo_scoped_env_in_scope demo_request_normal this, of "\<lambda>_. []"]
  show ?thesis by (auto simp: b chunk_view_def to_retrieval_chunk_def demo_result_def)
qed

lemma search_by_vector_Inr_iff:
  "search_by_vector srch v f k = Inr nodes \<longleftrightarrow>
     (\<exists>rs. srch v (min k top_k_limit) f = Inr rs \<and> nodes = map vector_search_result_to_node rs)"
  by (cases "srch v (min k top_k_limit) f") (auto simp: search_by_vector_def)

lemma adapter_nodes_stripped:
  assumes "le_query (llama_over env build rp) q uid rids k = Inr nodes" "store_in_scope (re_search env)"
    and "node \<in> set nodes"
  shows "chunk_user_id rp (node_to_chunk rp node) = py_strip uid"
proof -
  from assms(1) obtain v rids' rs where "re_search env v (min k top_k_limit) \<lparr>f_user_id = py_strip uid, f_resource_ids = rids'\<rparr> = Inr rs"
    and n: "nodes = map (\<lambda>r. PlainNode (vector_search_result_to_node r)) rs"
    by (auto simp: llama_over_def adapter_query_def build_metadata_filters_def search_by_vector_Inr_iff sbind_Inr_iff comp_def
        split: if_splits)
  with assms(2) have "\<forall>r \<in> set rs. vr_user_id r = py_strip uid" unfolding store_in_scope_def by fastforce
  with n assms(3) mapped_chunk_simps(5)[of rp, unfolded mapped_chunk_def] show ?thesis by auto
qed

lemma candidates_stripped:
  assumes "retrieve_candidates (llama_over env build rp) cfg req k = Inr nodes" "store_in_scope (re_search env)"
    and "node \<in> set nodes"
  shows "chunk_user_id rp (node_to_chunk rp node) = py_strip (rq_user_id req)"
proof -
  from assms(1) obtain first where
    f: "le_query (llama_over env build rp) (rq_question req) (rq_user_id req) (rq_resource_ids req)
      (llama_candidate_top_k cfg k (rq_resource_ids req)) = Inr first"
    and more: "(if \<not> use_per_resource cfg (rq_resource_ids req) then Inr first
      else sbind (smap (\<lambda>rid. le_query (llama_over env build rp) (rq_question req) (rq_user_id req) [rid] 1)
        (fromkeys (rq_resource_ids req))) (\<lambda>more. Inr (first @ concat more))) = Inr nodes"
    unfolding retrieve_candidates_def sbind_Inr_iff by blast
  show ?thesis
  proof (cases "node \<in> set first")
    case False
    with more assms(3) obtain lists l where "smap (\<lambda>rid. le_query (llama_over env build rp) (rq_question req) (rq_user_id req) [rid] 1)
        (fromkeys (rq_resource_ids req)) = Inr lists" "l \<in> set lists" "node \<in> set l"
      by (auto simp: sbind_Inr_iff split: if_splits)
    with smap_Inr_in[OF this(1,2)] adapter_nodes_stripped[OF _ assms(2)] show ?thesis by blast
  qed (use adapter_nodes_stripped[OF f assms(2)] in blast)
qed

text \<open>Padding breaks the LlamaIndex engine. The filters strip the user id before the search, but the check
  compares with the id as requested: with a store that keeps to the scope, a request with a padded user id
  fails as forbidden as soon as anything is found, and returns no chunk otherwise.\<close>

theorem padded_user_forbidden:
  assumes "llama_retrieve (llama_over env build rp) cfg req = Inr res"
    and "store_in_scope (re_search env)" "py_strip (rq_user_id req) \<noteq> rq_user_id req"
  shows "rr_chunks res = []"
  using assms(1)
proof (rule llama_retrieve_Inr)
  let ?env = "llama_over env build rp"
  fix nodes deduped
  assume n: "retrieve_candidates ?env cfg req (if rq_top_k req = 0 then lc_default_top_k cfg else rq_top_k req) = Inr nodes"
    and g: "\<forall>c \<in> node_to_chunk (le_repr ?env) ` set nodes. chunk_user_id (le_repr ?env) c = rq_user_id req
       \<and> rc_resource_id c \<in> set (rq_resource_ids req)"
    and s: "subseq deduped (py_sorted_desc rc_score (map (node_to_chunk (le_repr ?env)) nodes))"
    and c: "llama_compress (le_estimator ?env)
       (py_take (if rq_top_k req = 0 then lc_default_top_k cfg else rq_top_k req)
         (filter (\<lambda>c. llama_threshold cfg req \<le> rc_score c) deduped)) (llama_budget cfg req)
      = (rr_chunks res, rr_context_token_count res)"
  have "nodes = []"
    using candidates_stripped[OF n assms(2)] g assms(3) by (cases nodes) (auto simp: llama_over_def)
  with s have "deduped = []" by (simp add: py_sorted_desc_def)
  with c llama_compress_prefix[OF c] show ?thesis by simp
qed

lemma demo_padded:
  "llama_retrieve (llama_over (demo_scoped_env\<lparr>re_search := \<lambda>_ _ _. Inr []\<rparr>) (\<lambda>_ q. Inr q) (\<lambda>_. [])) default_llama_config
     (demo_retrieval_request\<lparr>rq_user_id := str '' u1''\<rparr>) =
     Inr \<lparr>rr_chunks = [], rr_prompt = str ''q'', rr_context_token_count = 0\<rparr>"
  by code_simp

theorem padded_user_forbidden_witness:
  "\<exists>res. llama_retrieve (llama_over (demo_scoped_env\<lparr>re_search := \<lambda>_ _ _. Inr []\<rparr>) (\<lambda>_ q. Inr q) (\<lambda>_. [])) default_llama_config
      (demo_retrieval_request\<lparr>rq_user_id := str '' u1''\<rparr>) = Inr res \<and> rr_chunks res = []"
proof -
  have "store_in_scope (re_search (demo_scoped_env\<lparr>re_search := \<lambda>_ _ _. Inr []\<rparr>))" by (simp add: store_in_scope_def)
  moreover have "py_strip (rq_user_id (demo_retrieval_request\<lparr>rq_user_id := str '' u1''\<rparr>))
      \<noteq> rq_user_id (demo_retrieval_request\<lparr>rq_user_id := str '' u1''\<rparr>)" by code_simp
  ultimately show ?thesis using padded_user_forbidden[OF demo_padded] demo_padded by blast
qed

lemma demo_padded_hit:
  "\<exists>e. llama_retrieve (llama_over demo_scoped_env (\<lambda>_ q. Inr q) (\<lambda>_. [])) default_llama_config
      (demo_retrieval_request\<lparr>rq_user_id := str '' u1''\<rparr>) = Inl e \<and> has_class LlamaIndexRetrievalForbiddenError e"
  by (intro exI[of _ "raise_msg LlamaIndexRetrievalForbiddenError [0x65E0, 0x6743, 0x8BBF, 0x95EE, 0x8D44, 0x6E90]"] conjI)
    (code_simp, simp)

end
