(* ===== verification/Rag_Engine.thy ===== *)
theory Rag_Engine
  imports Llama_Props Configuration Agent_Props
begin

text \<open>
  The choice of the RAG engine (\<open>app/services/rag_engine\<close>) and the application around it: the configuration
  read from \<open>RAG_ENGINE\<close>, the factory, the extensions \<open>app/main.py\<close> creates, and the engine that the
  question-answering endpoint (\<open>app/api/qa.py\<close>) and the agent (\<open>app/api/agent.py\<close>) take. Every engine is an
  instance of the contract \<open>retriever\<close> that its clients rely on.
\<close>

section \<open>Engines\<close>

datatype rag_engine =
    LegacyRagEngine retrieval_env retrieval_config
  | LlamaIndexRagEngine llama_env llama_config

fun rag_retrieve :: "rag_engine \<Rightarrow> retrieval_request \<Rightarrow> exn + retrieval_result" where
  "rag_retrieve (LegacyRagEngine env cfg) req = retrieve env cfg req"
| "rag_retrieve (LlamaIndexRagEngine env cfg) req = llama_retrieve env cfg req"

interpretation rag: retriever "rag_retrieve engine" for engine
proof
  show "rc_resource_id c \<in> set (rq_resource_ids req)"
    if "rag_retrieve engine req = Inr res" "c \<in> set (rr_chunks res)" for req res c
    using that by (cases engine) (simp_all add: legacy.in_scope llama.in_scope)
qed

section \<open>Configuration and factory\<close>

record rag_engine_config =
  rg_engine :: pystr
  rg_llamaindex_enabled :: bool

definition rag_config_post_init :: "pystr \<Rightarrow> exn + rag_engine_config" where
  "rag_config_post_init engine =
     (let normalized = py_lower (py_strip engine)
      in if normalized \<notin> {str ''legacy'', str ''llamaindex''} then Inl (raise_default RagEngineConfigError)
         else Inr \<lparr>rg_engine = normalized, rg_llamaindex_enabled = (normalized = str ''llamaindex'')\<rparr>)"

definition build_rag_engine_config :: "environment \<Rightarrow> exn + rag_engine_config" where
  "build_rag_engine_config env = rag_config_post_init (case env (str ''RAG_ENGINE'') of Some v \<Rightarrow> v | None \<Rightarrow> str ''legacy'')"

text \<open>What \<open>find_spec\<close> says of the LlamaIndex package: it is found or not, or it raises.\<close>

definition require_llamaindex :: "exn + bool \<Rightarrow> exn + unit" where
  "require_llamaindex spec = (case spec of
     Inr True \<Rightarrow> Inr ()
   | Inr False \<Rightarrow> Inl (raise_default RagEngineUnavailableError)
   | Inl e \<Rightarrow> if exn_code e = ''ModuleNotFoundError'' then Inl (raise_default RagEngineUnavailableError) else Inl e)"

record rag_parts =
  pa_retrieval :: "(retrieval_env \<times> retrieval_config) option"
  pa_embed_query :: "(pystr \<Rightarrow> exn + pyfloat list) option"
  pa_search :: "scoped_search option"
  pa_llama :: "(llama_env \<times> llama_config) option"

text \<open>What the factory reads and creates on its own.\<close>

record rag_surroundings =
  su_spec :: "exn + bool"
  su_store_config :: "exn + store_settings"
  su_prompt :: "exn + (retrieval_chunk list \<Rightarrow> pystr \<Rightarrow> exn + pystr)"
  su_llama_config :: "exn + llama_config"
  su_estimator :: token_estimator
  su_sha1 :: "pystr \<Rightarrow> pystr"
  su_repr :: "pyval \<Rightarrow> pystr"

definition build_llamaindex_vector_store ::
  "exn + store_settings \<Rightarrow> (pystr \<Rightarrow> exn + pyfloat list) \<Rightarrow> scoped_search \<Rightarrow>
     exn + (pystr \<Rightarrow> pystr \<Rightarrow> pystr list \<Rightarrow> int \<Rightarrow> exn + retrieved_node list)" where
  "build_llamaindex_vector_store config embed_adapter store_search =
     (case config of
        Inr _ \<Rightarrow> Inr (adapter_query embed_adapter store_search)
      | Inl e \<Rightarrow> if has_class VectorStoreUnavailableError e then Inl e
                 else Inl (raise_msg VectorStoreUnavailableError [0x5411, 0x91CF, 0x5B58, 0x50A8,
                   0x4E0D, 0x53EF, 0x7528]))"

definition build_rag_engine :: "rag_engine_config \<Rightarrow> rag_parts \<Rightarrow> rag_surroundings \<Rightarrow> exn + rag_engine" where
  "build_rag_engine cfg parts su =
     (if rg_engine cfg = str ''legacy''
      then (case pa_retrieval parts of
              None \<Rightarrow> Inl (raise_msg RagEngineUnavailableError (str ''Legacy RAG '' @
                [0x5F15, 0x64CE, 0x4E0D, 0x53EF, 0x7528]))
            | Some (env, rcfg) \<Rightarrow> Inr (LegacyRagEngine env rcfg))
      else sbind (require_llamaindex (su_spec su)) (\<lambda>_.
        case pa_llama parts of
          Some (env, lcfg) \<Rightarrow> Inr (LlamaIndexRagEngine env lcfg)
        | None \<Rightarrow>
            (case (pa_embed_query parts, pa_search parts) of
               (Some embed_text, Some store_search) \<Rightarrow>
                 sbind (build_llamaindex_vector_store (su_store_config su) (adapter_embed embed_text) store_search) (\<lambda>query.
                 sbind (su_prompt su) (\<lambda>build.
                 sbind (su_llama_config su) (\<lambda>lcfg.
                   Inr (LlamaIndexRagEngine \<lparr>le_query = query, le_build = build, le_estimator = su_estimator su,
                     le_sha1 = su_sha1 su, le_repr = su_repr su\<rparr> lcfg))))
             | _ \<Rightarrow> Inl (raise_msg RagEngineUnavailableError (str ''LlamaIndex RAG '' @
               [0x5F15, 0x64CE, 0x4E0D, 0x53EF, 0x7528])))))"

section \<open>The application\<close>

text \<open>
  The services \<open>create_app\<close> is given, and the functions that build the missing ones. The embedding service
  and the vector store of these builders are of any type.
\<close>

record ('e, 'v, 'h, 'l, 'm) app_services =
  sv_embedding :: "'e option"
  sv_vector_store :: "'v option"
  sv_retrieval :: "(retrieval_env \<times> retrieval_config) option"
  sv_rag_engine :: "rag_engine option"
  sv_hybrid :: "'h option"
  sv_llm :: "'l option"
  sv_memory :: "'m option"

record ('e, 'v, 'h, 'l, 'm) app_builders =
  ab_validate_embedding :: "exn + unit"
  ab_embedding :: "exn + 'e"
  ab_vector_store :: "exn + 'v"
  ab_retrieval :: "'e \<Rightarrow> 'v \<Rightarrow> exn + (retrieval_env \<times> retrieval_config)"
  ab_rag_engine :: "(retrieval_env \<times> retrieval_config) \<Rightarrow> 'e \<Rightarrow> 'v \<Rightarrow> exn + rag_engine"
  ab_hybrid :: "'e \<Rightarrow> 'v \<Rightarrow> exn + 'h"
  ab_validate_llm :: "exn + unit"
  ab_llm :: "exn + 'l"
  ab_memory :: "'e \<Rightarrow> 'v \<Rightarrow> exn + 'm"

definition given_or :: "'a option \<Rightarrow> exn + 'a \<Rightarrow> exn + 'a" where
  "given_or x build = (case x of Some y \<Rightarrow> Inr y | None \<Rightarrow> build)"

text \<open>The part of \<open>init_extensions\<close> that creates these services; the extensions are its result.\<close>

definition init_extensions ::
  "('e, 'v, 'h, 'l, 'm) app_builders \<Rightarrow> ('e, 'v, 'h, 'l, 'm) app_services \<Rightarrow> exn + ('e, 'v, 'h, 'l, 'm) app_services" where
  "init_extensions b sv =
     sbind (given_or (sv_embedding sv) (sbind (ab_validate_embedding b) (\<lambda>_. ab_embedding b))) (\<lambda>embedding.
     sbind (given_or (sv_vector_store sv) (ab_vector_store b)) (\<lambda>store.
     sbind (given_or (sv_retrieval sv) (ab_retrieval b embedding store)) (\<lambda>retrieval.
     sbind (given_or (sv_rag_engine sv) (ab_rag_engine b retrieval embedding store)) (\<lambda>engine.
     sbind (given_or (sv_hybrid sv) (ab_hybrid b embedding store)) (\<lambda>hybrid.
     sbind (given_or (sv_llm sv) (sbind (ab_validate_llm b) (\<lambda>_. ab_llm b))) (\<lambda>llm.
     sbind (given_or (sv_memory sv) (ab_memory b embedding store)) (\<lambda>memory.
       Inr \<lparr>sv_embedding = Some embedding, sv_vector_store = Some store, sv_retrieval = Some retrieval,
         sv_rag_engine = Some engine, sv_hybrid = Some hybrid, sv_llm = Some llm, sv_memory = Some memory\<rparr>)))))))"

text \<open>The engine of \<open>stream_qa\<close>, and the retrieval service of the agent's nodes.\<close>

definition qa_rag_engine :: "('e, 'v, 'h, 'l, 'm) app_services \<Rightarrow> exn + rag_engine" where
  "qa_rag_engine ext =
     (case (sv_rag_engine ext, sv_retrieval ext) of
        (Some engine, None) \<Rightarrow> Inr engine
      | (_, Some (env, cfg)) \<Rightarrow> Inr (LegacyRagEngine env cfg)
      | (None, None) \<Rightarrow> Inl (key_error (str ''retrieval'')))"

definition agent_retrieval :: "('e, 'v, 'h, 'l, 'm) app_services \<Rightarrow> exn + rag_engine" where
  "agent_retrieval ext = (case sv_retrieval ext of
     Some (env, cfg) \<Rightarrow> Inr (LegacyRagEngine env cfg) | None \<Rightarrow> Inl (key_error (str ''retrieval'')))"

section \<open>Properties\<close>

text \<open>The engine is the one that is asked for. The factory builds the legacy engine exactly for
  \<open>RAG_ENGINE=legacy\<close> (or unset), the LlamaIndex engine only when its package is there; any other value is a
  configuration error.\<close>

theorem engine_selected:
  assumes "sbind (build_rag_engine_config env) (\<lambda>cfg. build_rag_engine cfg parts su) = r"
    and "normalized = py_lower (py_strip (case env (str ''RAG_ENGINE'') of Some v \<Rightarrow> v | None \<Rightarrow> str ''legacy''))"
  shows "case r of
      Inr (LegacyRagEngine renv rcfg) \<Rightarrow> normalized = str ''legacy'' \<and> pa_retrieval parts = Some (renv, rcfg)
    | Inr (LlamaIndexRagEngine lenv lcfg) \<Rightarrow> normalized = str ''llamaindex'' \<and> su_spec su = Inr True
    | Inl e \<Rightarrow> normalized \<in> {str ''legacy'', str ''llamaindex''} \<or> has_class RagEngineConfigError e"
proof (cases "normalized \<in> {str ''legacy'', str ''llamaindex''}")
  case True
  then consider "normalized = str ''legacy''" | "normalized = str ''llamaindex''" "normalized \<noteq> str ''legacy''" by auto
  then show ?thesis
  proof cases
    case 1
    with assms show ?thesis
      by (auto simp: build_rag_engine_config_def rag_config_post_init_def Let_def build_rag_engine_def
          simp del: str_simps split: option.splits)
  next
    case 2
    have req: "require_llamaindex (su_spec su) = Inr u \<Longrightarrow> su_spec su = Inr True" for u
      by (auto simp: require_llamaindex_def split: sum.splits bool.splits if_splits)
    have legacy: "r \<noteq> Inr (LegacyRagEngine renv rcfg)" for renv rcfg
      using assms 2 by (auto simp: build_rag_engine_config_def rag_config_post_init_def Let_def build_rag_engine_def
          sbind_Inr_iff simp del: str_simps split: option.splits)
    have llama: "su_spec su = Inr True" if "r = Inr (LlamaIndexRagEngine lenv lcfg)" for lenv lcfg
      using assms 2 that by (auto simp: build_rag_engine_config_def rag_config_post_init_def Let_def build_rag_engine_def
          sbind_Inr_iff simp del: str_simps split: option.splits dest!: req)
    from legacy llama 2 show ?thesis by (auto split: sum.splits rag_engine.splits)
  qed
next
  case False
  with assms have "r = Inl (raise_default RagEngineConfigError)"
    by (auto simp: build_rag_engine_config_def rag_config_post_init_def Let_def simp del: str_simps)
  then show ?thesis by (simp add: raise_default_def)
qed

definition demo_surroundings :: rag_surroundings where
  "demo_surroundings = \<lparr>su_spec = Inr True, su_store_config = Inl (value_error []), su_prompt = Inl (value_error []),
     su_llama_config = Inl (value_error []), su_estimator = fallback_estimator, su_sha1 = (\<lambda>s. s), su_repr = (\<lambda>_. [])\<rparr>"

theorem engine_selected_witness:
  "\<exists>e. sbind (build_rag_engine_config (\<lambda>_. Some (str ''other'')))
      (\<lambda>cfg. build_rag_engine cfg \<lparr>pa_retrieval = None, pa_embed_query = None, pa_search = None, pa_llama = None\<rparr> demo_surroundings) = Inl e
    \<and> has_class RagEngineConfigError e"
proof -
  have other: "build_rag_engine_config (\<lambda>_. Some (str ''other'')) = Inl (raise_default RagEngineConfigError)"
    by (simp add: build_rag_engine_config_def rag_config_post_init_def Let_def py_strip_def is_space_def py_lower_def lower_char_def)
  have r: "sbind (build_rag_engine_config (\<lambda>_. Some (str ''other'')))
      (\<lambda>cfg. build_rag_engine cfg \<lparr>pa_retrieval = None, pa_embed_query = None, pa_search = None, pa_llama = None\<rparr> demo_surroundings)
    = Inl (raise_default RagEngineConfigError)"
    by (simp add: other del: str_simps)
  from engine_selected[OF r refl] have "has_class RagEngineConfigError (raise_default RagEngineConfigError)"
    by (simp add: raise_default_def)
  with r show ?thesis by blast
qed

text \<open>Whichever engine serves the agent, every chunk a finished run used belongs to a resource of the
  request.\<close>

theorem agent_engine_in_scope:
  assumes "ae_retrieve env = rag_retrieve engine" "ADone i low k \<in> set (an_events (run_stream env snaps req))"
    "an_snapshots (run_stream env snaps req) (ag_conversation_id req) = Some st" "c \<in> set (as_retrieved_chunks st)"
  shows "rc_resource_id c \<in> set (ag_resource_ids req)"
  using assms by (rule rag.run_scoped)

text \<open>The setting has no effect on answers. In an application that has started, whatever engine was
  built or given, questions are answered with the legacy engine over the retrieval service.\<close>

theorem qa_ignores_engine:
  assumes "init_extensions b sv = Inr ext"
  shows "\<exists>env cfg. sv_retrieval ext = Some (env, cfg) \<and> sv_rag_engine ext \<noteq> None
    \<and> qa_rag_engine ext = Inr (LegacyRagEngine env cfg) \<and> agent_retrieval ext = Inr (LegacyRagEngine env cfg)"
  using assms unfolding init_extensions_def
  by (elim sbind_InrE) (auto simp: qa_rag_engine_def agent_retrieval_def)

definition demo_services :: "(unit, unit, unit, unit, unit) app_services" where
  "demo_services = \<lparr>sv_embedding = Some (), sv_vector_store = Some (), sv_retrieval = Some (demo_retrieval_env, default_retrieval_config),
     sv_rag_engine = Some (LlamaIndexRagEngine (llama_over demo_scoped_env (\<lambda>_ q. Inr q) (\<lambda>_. [])) default_llama_config),
     sv_hybrid = Some (), sv_llm = Some (), sv_memory = Some ()\<rparr>"

definition demo_builders :: "(unit, unit, unit, unit, unit) app_builders" where
  "demo_builders = \<lparr>ab_validate_embedding = Inr (), ab_embedding = Inr (), ab_vector_store = Inr (),
     ab_retrieval = (\<lambda>_ _. Inl (value_error [])), ab_rag_engine = (\<lambda>_ _ _. Inl (value_error [])), ab_hybrid = (\<lambda>_ _. Inr ()),
     ab_validate_llm = Inr (), ab_llm = Inr (), ab_memory = (\<lambda>_ _. Inr ())\<rparr>"

theorem qa_ignores_engine_witness:
  "init_extensions demo_builders demo_services = Inr demo_services
   \<and> qa_rag_engine demo_services = Inr (LegacyRagEngine demo_retrieval_env default_retrieval_config)"
proof -
  have i: "init_extensions demo_builders demo_services = Inr demo_services"
    by (simp add: init_extensions_def demo_builders_def demo_services_def given_or_def)
  from qa_ignores_engine[OF i] i show ?thesis by (auto simp: demo_services_def)
qed

definition engine_env :: agent_env where
  "engine_env = demo_agent_env\<lparr>ae_retrieve := rag_retrieve
     (LlamaIndexRagEngine (llama_over demo_scoped_env (\<lambda>_ q. Inr q) (\<lambda>_. [])) (default_llama_config\<lparr>lc_score_threshold := 1 / 2\<rparr>))\<rparr>"

lemma engine_env_run:
  "case run_stream engine_env (\<lambda>_. None) demo_agent_request of outcome \<Rightarrow>
     list_ex (\<lambda>e. e = ADone 1 False 1) (an_events outcome)
     \<and> (case an_snapshots outcome (str ''c'') of Some st \<Rightarrow> length (as_retrieved_chunks st) = 2 | None \<Rightarrow> False)"
  by code_simp

lemmas engine_env_runs = engine_env_run[THEN conjunct1] engine_env_run[THEN conjunct2]

theorem agent_engine_in_scope_witness:
  "\<exists>st. an_snapshots (run_stream engine_env (\<lambda>_. None) demo_agent_request) (str ''c'') = Some st
     \<and> length (as_retrieved_chunks st) = 2 \<and> list_all (\<lambda>c. rc_resource_id c = str ''r1'') (as_retrieved_chunks st)"
proof -
  from engine_env_runs(2) obtain st where st: "an_snapshots (run_stream engine_env (\<lambda>_. None) demo_agent_request) (str ''c'') = Some st"
    and len: "length (as_retrieved_chunks st) = 2"
    by (auto split: option.splits)
  have "rc_resource_id c \<in> set (ag_resource_ids demo_agent_request)" if "c \<in> set (as_retrieved_chunks st)" for c
    by (rule agent_engine_in_scope[of engine_env _ 1 False 1 "\<lambda>_. None" _ st])
      (use st that engine_env_runs(1) in \<open>auto simp: engine_env_def list_ex_iff demo_agent_request_def\<close>)
  with st len show ?thesis by (auto simp: demo_agent_request_def list_all_iff)
qed

end
