(* ===== verification/Pdf_Model.thy ===== *)
theory Pdf_Model
  imports Errors Py_Values
begin

text \<open>
  The data model of parsed PDF files (\<open>app/models/pdf.py\<close>), shared by the parser and by vector
  indexing.
\<close>

section \<open>Data model\<close>

record pdf_block =
  bl_x :: pyfloat
  bl_y :: pyfloat
  bl_width :: pyfloat
  bl_height :: pyfloat
  bl_text :: pystr
  bl_confidence :: "pyfloat option"

record pdf_page =
  pg_number :: int
  pg_text :: pystr
  pg_blocks :: "pdf_block list"

record toc_entry =
  te_level :: int
  te_title :: pystr
  te_page :: int

record pdf_document =
  dc_resource_id :: pystr
  dc_total_pages :: int
  dc_toc :: "toc_entry list"
  dc_pages :: "pdf_page list"

text \<open>Pydantic checks the bounds of the fields.\<close>

definition validation_error :: "pystr \<Rightarrow> exn" where
  "validation_error field = PyException ''ValidationError'' field"

definition pdf_page_new :: "int \<Rightarrow> pystr \<Rightarrow> pdf_block list \<Rightarrow> exn + pdf_page" where
  "pdf_page_new n txt blocks = (if n < 1 then Inl (validation_error (str ''page_number''))
     else Inr \<lparr>pg_number = n, pg_text = txt, pg_blocks = blocks\<rparr>)"

definition toc_entry_new :: "int \<Rightarrow> pystr \<Rightarrow> int \<Rightarrow> exn + toc_entry" where
  "toc_entry_new level title page =
     (if level < 1 then Inl (validation_error (str ''level''))
      else if page < 1 then Inl (validation_error (str ''page''))
      else Inr \<lparr>te_level = level, te_title = title, te_page = page\<rparr>)"

definition pdf_document_new :: "pystr \<Rightarrow> toc_entry list \<Rightarrow> pdf_page list \<Rightarrow> pdf_document" where
  "pdf_document_new resource_id toc pages =
     \<lparr>dc_resource_id = resource_id, dc_total_pages = int (length pages), dc_toc = toc, dc_pages = pages\<rparr>"

record pdf_task =
  pt_task_id :: pystr
  pt_resource_id :: pystr
  pt_user_id :: pystr
  pt_pdf_url :: pystr

text \<open>\<open>PdfDocument.model_validate\<close> of a document that was dumped: the field constraints are checked again.\<close>

definition pdf_validate :: "pdf_document \<Rightarrow> exn + pdf_document" where
  "pdf_validate d =
     (if 0 \<le> dc_total_pages d \<and> list_all (\<lambda>e. 1 \<le> te_level e \<and> 1 \<le> te_page e) (dc_toc d)
        \<and> list_all (\<lambda>p. 1 \<le> pg_number p) (dc_pages d)
      then Inr d else Inl (validation_error (str ''PdfDocument'')))"

end
