(* ===== verification/Reporting.thy ===== *)
theory Reporting
  imports Storage
begin

text \<open>
  Reports to the gateway (\<open>app/services/gateway_reporter.py\<close>) and the contract of the services that
  send them: the PDF parser and the transcriber log their progress and, when told to, the status of their
  task. \<open>requests\<close> is a parameter.
\<close>

datatype 'r report =
    Progress (rp_task: pystr) int pystr
  | Status (rp_task: pystr) pystr "'r option" "pystr option" "int option"

fun is_progress :: "'r report \<Rightarrow> bool" where
  "is_progress (Progress t n s) = True"
| "is_progress (Status t s r m a) = False"

fun is_terminal :: "'r report \<Rightarrow> bool" where
  "is_terminal (Progress t n s) = False"
| "is_terminal (Status t s r m a) = (s = str ''completed'' \<or> s = str ''failed'')"

fun progress_of :: "'r report \<Rightarrow> int option" where
  "progress_of (Progress t n s) = Some n"
| "progress_of (Status t s r m a) = None"

definition progresses :: "'r report list \<Rightarrow> int list" where
  "progresses rlog = map (\<lambda>r. the (progress_of r)) (filter is_progress rlog)"

lemma progresses_simps [simp]:
  "progresses [] = []"
  "progresses (r # rlog) = (case progress_of r of None \<Rightarrow> progresses rlog | Some n \<Rightarrow> n # progresses rlog)"
  "progresses (rlog @ rlog') = progresses rlog @ progresses rlog'"
  by (cases r; simp add: progresses_def)+

section \<open>Sending\<close>

definition build_url :: "pystr \<Rightarrow> 'r report \<Rightarrow> pystr" where
  "build_url base_url r =
     rev (dropWhile (\<lambda>c. c = 47) (rev base_url)) @ str ''/api/v1/internal/tasks/'' @ rp_task r @
       (if is_progress r then str ''/progress'' else str ''/status'')"

text \<open>
  \<open>_patch\<close> and \<open>_post\<close>: without a base address nothing is sent; the errors of
  \<open>requests\<close> (the class \<open>RequestException\<close>) are logged and dropped.
\<close>

definition deliver :: "(pystr \<Rightarrow> 'r report \<Rightarrow> exn + unit) \<Rightarrow> pystr \<Rightarrow> 'r report \<Rightarrow> exn + unit" where
  "deliver request base_url r =
     (if base_url = [] then Inr ()
      else case request (build_url base_url r) r of
             Inr _ \<Rightarrow> Inr ()
           | Inl (PyException c m) \<Rightarrow> if c = ''RequestException'' then Inr () else Inl (PyException c m)
           | Inl e \<Rightarrow> Inl e)"

lemma deliver_total:
  assumes "\<And>url r e. request url r = Inl e \<Longrightarrow> \<exists>m. e = PyException ''RequestException'' m"
  shows "deliver request base_url r = Inr ()"
  using assms by (fastforce simp: deliver_def split: sum.splits exn.splits)

section \<open>Services that report\<close>

text \<open>The report that closes a task, and the reports before it.\<close>

definition closing :: "pystr \<Rightarrow> exn + 'r \<Rightarrow> 'r report" where
  "closing tid res = (case res of
     Inr r \<Rightarrow> Status tid (str ''completed'') (Some r) None None
   | Inl e \<Rightarrow> Status tid (str ''failed'') None (Some (exn_text e)) None)"

lemma closing_terminal [simp]: "is_terminal (closing tid res)" "\<not> is_progress (closing tid res)"
  by (cases res; simp add: closing_def)+

text \<open>
  The contract: a run reports the status when it is told to, and then closes its task with the result or
  the error it ends with; whether it reports the status does not change what it returns; and only errors
  of the given classes leave it.
\<close>

locale task_service =
  fixes run :: "bool \<Rightarrow> 't \<Rightarrow> ('r report, 'r) gen"
    and task_of :: "'t \<Rightarrow> pystr"
    and classes :: "api_class set"
  assumes silent: "list_all is_progress (fst (run False t))"
    and same_result: "snd (run True t) = snd (run False t)"
    and closes: "\<exists>rlog. fst (run True t) = rlog @ [closing (task_of t) (snd (run True t))] \<and> list_all (\<lambda>r. \<not> is_terminal r) rlog"
    and same_progress: "progresses (fst (run True t)) = progresses (fst (run False t))"
    and known_error: "snd (run b t) = Inl e \<Longrightarrow> \<exists>c \<in> classes. has_class c e"
begin

lemma one_terminal: "filter is_terminal (fst (run True t)) = [closing (task_of t) (snd (run True t))]"
proof -
  obtain rlog where l: "fst (run True t) = rlog @ [closing (task_of t) (snd (run True t))]" "list_all (\<lambda>r. \<not> is_terminal r) rlog"
    using closes by blast
  have "filter is_terminal rlog = []" using l(2) by (simp add: filter_empty_conv list_all_iff)
  then show ?thesis by (simp add: l(1))
qed

lemma last_is_terminal: "last (fst (run True t)) = closing (task_of t) (snd (run True t))" "fst (run True t) \<noteq> []"
  using closes[of t] by auto

lemma no_terminal_when_silent: "filter is_terminal (fst (run False t)) = []"
proof -
  have "\<not> is_terminal r" if "is_progress r" for r :: "'r report"
    using that by (cases r) auto
  with silent[of t] show ?thesis by (auto simp: filter_empty_conv list_all_iff)
qed

end

end
