(* ===== verification/Pdf.thy ===== *)
theory Pdf
  imports Pdf_Model Reporting "HOL-Library.Product_Lexorder"
begin

text \<open>
  PDF parsing: the PyMuPDF extractor, the renderer, the OCR
  service and the parser service that puts them together. PyMuPDF (what opening a file, loading a page,
  reading its text and its outline give), the OCR engine and the storage are parameters.
\<close>

section \<open>Extractor\<close>

text \<open>
  What PyMuPDF gives: whether it is installed; the outcome of \<open>fitz.open\<close>, whose documented errors
  are \<open>FileDataError\<close> and other \<open>RuntimeError\<close>s; per page the text and the blocks
  \<open>(x0, y0, x1, y1, text)\<close>; the rows of the outline.
\<close>

datatype 'd open_result = Opened 'd | FileDataError | RuntimeError pystr | OtherError exn

record raw_page =
  rw_text :: pystr
  rw_blocks :: "(pyfloat \<times> pyfloat \<times> pyfloat \<times> pyfloat \<times> pystr) list"

record fitz_doc =
  fd_encrypted :: bool
  fd_pages :: "(exn + raw_page) list"
  fd_toc :: "exn + pyval list list"

definition open_document :: "bool \<Rightarrow> fitz_doc open_result \<Rightarrow> exn + fitz_doc" where
  "open_document installed opened =
     (if \<not> installed then Inl (raise_msg CorruptPdfError (str ''PyMuPDF is not installed''))
      else case opened of
             FileDataError \<Rightarrow> Inl (raise_msg CorruptPdfError (str ''PDF '' @ [0x6587,
               0x4EF6, 0x635F, 0x574F]))
           | RuntimeError m \<Rightarrow> Inl (raise_msg CorruptPdfError (([0x65E0, 0x6CD5, 0x6253,
             0x5F00] @ str '' PDF '' @ [0x6587, 0x4EF6] @ str '': '') @ m))
           | OtherError e \<Rightarrow> Inl e
           | Opened doc \<Rightarrow>
               if fd_encrypted doc then Inl (raise_msg EncryptedPdfError ([0x65E0, 0x6CD5, 0x89E3,
                 0x6790, 0x52A0, 0x5BC6] @ str '' PDF'')) else Inr doc)"

definition page_block :: "pyfloat \<times> pyfloat \<times> pyfloat \<times> pyfloat \<times> pystr \<Rightarrow> pdf_block" where
  "page_block = (\<lambda>(x0, y0, x1, y1, t).
     \<lparr>bl_x = x0, bl_y = y0, bl_width = x1 - x0, bl_height = y1 - y0, bl_text = t, bl_confidence = None\<rparr>)"

definition extract_pages :: "fitz_doc \<Rightarrow> exn + pdf_page list" where
  "extract_pages doc =
     smap (\<lambda>(page_index, loaded). sbind loaded (\<lambda>page.
       pdf_page_new (int page_index + 1) (rw_text page) (map page_block (rw_blocks page))))
       (enumerate 0 (fd_pages doc))"

text \<open>\<open>repr\<close> renders the values that \<open>str\<close> prints through it.\<close>

definition extract_toc :: "(pyval \<Rightarrow> pystr) \<Rightarrow> fitz_doc \<Rightarrow> exn + toc_entry list" where
  "extract_toc repr doc =
     sbind (fd_toc doc) (\<lambda>entries.
       smap (\<lambda>entry. sbind (int_of_val (entry ! 0)) (\<lambda>level.
                       sbind (int_of_val (entry ! 2)) (\<lambda>page.
                         toc_entry_new level (str_of_val repr (entry ! 1)) page)))
         (filter (\<lambda>entry. 3 \<le> length entry) entries))"

definition pdf_extract :: "(pyval \<Rightarrow> pystr) \<Rightarrow> bool \<Rightarrow> fitz_doc open_result \<Rightarrow> pystr \<Rightarrow> exn + pdf_document" where
  "pdf_extract repr installed opened resource_id =
     (case open_document installed opened of
        Inl e \<Rightarrow> if has_class EncryptedPdfError e \<or> has_class CorruptPdfError e then Inl e
                 else Inl (raise_msg CorruptPdfError (([0x65E0, 0x6CD5, 0x6253, 0x5F00] @
                   str '' PDF '' @ [0x6587, 0x4EF6] @ str '': '') @ exn_text e))
      | Inr doc \<Rightarrow>
          (case sbind (extract_pages doc) (\<lambda>pages. sbind (extract_toc repr doc) (\<lambda>toc. Inr (pages, toc))) of
             Inl e \<Rightarrow> Inl (raise_msg CorruptPdfError ((str ''PDF '' @ [0x6587, 0x672C,
               0x63D0, 0x53D6, 0x5931, 0x8D25] @ str '': '') @ exn_text e))
           | Inr (pages, toc) \<Rightarrow> Inr (pdf_document_new resource_id toc pages)))"

definition is_scanned_page :: "pystr \<Rightarrow> int \<Rightarrow> bool" where
  "is_scanned_page page_text threshold \<longleftrightarrow> int (length (py_strip page_text)) < threshold"

definition detect_no_text_layer :: "pdf_document \<Rightarrow> int \<Rightarrow> exn + unit" where
  "detect_no_text_layer document threshold =
     (if dc_pages document = [] then Inr ()
      else if length (filter (\<lambda>page. is_scanned_page (pg_text page) threshold) (dc_pages document))
                = length (dc_pages document)
      then Inl (raise_default NoTextLayerError) else Inr ())"

section \<open>Rendering and OCR\<close>

record render_page =
  rd_page_number :: int
  rd_total_pages :: int

text \<open>
  The renderer is an iterator: it yields the pages it renders and ends, or raises. Its pages are given by
  whether PyMuPDF renders them.
\<close>

fun render_from :: "int \<Rightarrow> int \<Rightarrow> exn option list \<Rightarrow> render_page list \<times> exn option" where
  "render_from total_pages page_index [] = ([], None)"
| "render_from total_pages page_index (Some e # rest) = ([], Some e)"
| "render_from total_pages page_index (None # rest) =
     (case render_from total_pages (page_index + 1) rest of (pages, err) \<Rightarrow>
        (\<lparr>rd_page_number = page_index + 1, rd_total_pages = total_pages\<rparr> # pages, err))"

definition render_pages :: "bool \<Rightarrow> exn option list open_result \<Rightarrow> render_page list \<times> exn option" where
  "render_pages installed opened =
     (if \<not> installed then ([], Some (raise_msg CorruptPdfError (str ''PyMuPDF is not installed'')))
      else case opened of
             FileDataError \<Rightarrow> ([], Some (raise_msg CorruptPdfError (str ''PDF '' @
               [0x6587, 0x4EF6, 0x635F, 0x574F])))
           | RuntimeError m \<Rightarrow> ([], Some (raise_msg CorruptPdfError ([0x65E0, 0x6CD5,
             0x6253, 0x5F00] @ str '' PDF '' @ [0x6587, 0x4EF6])))
           | OtherError e \<Rightarrow> ([], Some e)
           | Opened doc \<Rightarrow> render_from (int (length doc)) 0 doc)"

type_synonym recognizer = "int \<Rightarrow> exn + pdf_block list"

definition recognize_page :: "recognizer \<Rightarrow> int \<Rightarrow> exn + pdf_block list" where
  "recognize_page recognize page_number = (case recognize page_number of
     Inl e \<Rightarrow> if has_class OcrPageFailedError e then Inr [] else Inl e
   | Inr blocks \<Rightarrow> Inr blocks)"

definition build_page :: "recognizer \<Rightarrow> render_page \<Rightarrow> exn + pdf_page" where
  "build_page recognize r =
     sbind (recognize_page recognize (rd_page_number r)) (\<lambda>recognized.
       let blocks = sort_key (\<lambda>block. (bl_y block, bl_x block)) recognized
       in pdf_page_new (rd_page_number r) (py_join [10] (map bl_text blocks)) blocks)"

definition ocr_progress :: "render_page \<Rightarrow> int list" where
  "ocr_progress r = (if 0 < rd_total_pages r
     then [py_trunc (min (of_int (rd_page_number r) / of_int (rd_total_pages r) * 100) 100)] else [])"

fun ocr_batch :: "recognizer \<Rightarrow> render_page list \<Rightarrow> (int, pdf_page list) gen" where
  "ocr_batch recognize [] = ([], Inr [])"
| "ocr_batch recognize (r # batch) =
     gbind (awaits (build_page recognize r)) (\<lambda>page.
       gbind (yields (ocr_progress r)) (\<lambda>_.
         gbind (ocr_batch recognize batch) (\<lambda>pages. awaits (Inr (page # pages)))))"

text \<open>The loop of \<open>process_pdf\<close>: \<open>islice\<close> takes at most \<open>n\<close> pages from the renderer and fails if it fails.\<close>

function ocr_loop :: "recognizer \<Rightarrow> nat \<Rightarrow> render_page list \<Rightarrow> exn option \<Rightarrow> (int, pdf_page list) gen" where
  "ocr_loop recognize n rendered err =
     (if length rendered < n \<and> err \<noteq> None then ([], Inl (the err))
      else let batch = take n rendered
           in if batch = [] then ([], Inr [])
              else gbind (ocr_batch recognize batch) (\<lambda>pages.
                     gbind (ocr_loop recognize n (drop n rendered) err) (\<lambda>rest.
                       awaits (Inr (pages @ rest)))))"
  by pat_completeness auto
termination
  by (relation "measure (\<lambda>(recognize, n, rendered, err). length rendered)") auto

declare ocr_loop.simps [simp del]

definition process_pdf ::
  "recognizer \<Rightarrow> int \<Rightarrow> render_page list \<times> exn option \<Rightarrow> pystr \<Rightarrow> (int, pdf_document) gen" where
  "process_pdf recognize max_pages_in_memory rendering resource_id =
     gbind (ocr_loop recognize (nat (max 1 max_pages_in_memory)) (fst rendering) (snd rendering)) (\<lambda>pages.
       if pages = [] \<or> list_all (\<lambda>page. blank (pg_text page)) pages
       then awaits (Inl (raise_default OcrNoTextError))
       else awaits (Inr (pdf_document_new resource_id [] pages)))"

section \<open>The parser service\<close>

text \<open>
  The collaborators: \<open>ps_download\<close> fetches the file; the extractor reads it; the OCR service, if
  there is one, is given by its rendering of the file, its recognizer and its batch size.
\<close>

record 'f pdf_service =
  ps_download :: "pystr \<Rightarrow> exn + 'f"
  ps_size :: "'f \<Rightarrow> int"
  ps_extract :: "'f \<Rightarrow> pystr \<Rightarrow> exn + pdf_document"
  ps_ocr :: "(('f \<Rightarrow> render_page list \<times> exn option) \<times> ('f \<Rightarrow> recognizer) \<times> int) option"
  ps_upload :: "pdf_document \<Rightarrow> pystr \<Rightarrow> exn + pystr"
  ps_progress_interval :: pyfloat
  ps_ocr_fallback :: bool
  ps_ocr_threshold :: int
  ps_max_pdf_size :: int
  ps_max_pages :: int

type_synonym pdf_result = "pdf_document \<times> pystr"

definition is_fully_scanned :: "'f pdf_service \<Rightarrow> pdf_document \<Rightarrow> bool" where
  "is_fully_scanned svc document \<longleftrightarrow> dc_pages document \<noteq> [] \<and>
     list_all (\<lambda>page. is_scanned_page (pg_text page) (ps_ocr_threshold svc)) (dc_pages document)"

definition running :: "pystr \<Rightarrow> int \<Rightarrow> 'r report" where
  "running task_id progress = Progress task_id progress (str ''running'')"

definition enforce_size_limit :: "'f pdf_service \<Rightarrow> 'f \<Rightarrow> exn + unit" where
  "enforce_size_limit svc file = (if ps_max_pdf_size svc < ps_size svc file
     then Inl (raise_msg PdfParseError (str ''PDF exceeds maximum allowed size of '' @
                 str_of_int (ps_max_pdf_size svc) @ str '' bytes''))
     else Inr ())"

definition apply_ocr_fallback ::
  "'f pdf_service \<Rightarrow> pdf_task \<Rightarrow> 'f \<Rightarrow> pdf_document \<Rightarrow> (pdf_result report, pdf_document) gen" where
  "apply_ocr_fallback svc task file extracted =
     (if \<not> ps_ocr_fallback svc \<or> \<not> is_fully_scanned svc extracted then ([], Inr extracted)
      else case ps_ocr svc of
             None \<Rightarrow> gbind (awaits (detect_no_text_layer extracted (ps_ocr_threshold svc))) (\<lambda>_. ([], Inr extracted))
           | Some (render, recognize, n) \<Rightarrow>
               (case process_pdf (recognize file) n (render file) (pt_resource_id task) of
                  (progress, r) \<Rightarrow> (map (running (pt_task_id task)) progress, r)))"

definition page_progress :: "int \<Rightarrow> int \<Rightarrow> int" where
  "page_progress page_index total_pages =
     (if total_pages \<le> 0 then 100
      else py_trunc (min (of_int (page_index + 1) / of_int total_pages * 100) 100))"

fun report_pages :: "pyfloat \<Rightarrow> int \<Rightarrow> int \<Rightarrow> int \<Rightarrow> nat \<Rightarrow> int list" where
  "report_pages interval total_pages last_reported index 0 = []"
| "report_pages interval total_pages last_reported index (Suc n) =
     (let progress = page_progress index total_pages
      in if interval \<le> of_int (progress - last_reported) \<or> 100 \<le> progress
         then progress # report_pages interval total_pages progress (index + 1) n
         else report_pages interval total_pages last_reported (index + 1) n)"

definition extract_and_report ::
  "'f pdf_service \<Rightarrow> pdf_task \<Rightarrow> 'f \<Rightarrow> (pdf_result report, pdf_document) gen" where
  "extract_and_report svc task file =
     gbind (awaits (ps_extract svc file (pt_resource_id task))) (\<lambda>extracted.
       if ps_max_pages svc < dc_total_pages extracted
       then awaits (Inl (raise_msg PdfParseError (str ''PDF exceeds maximum allowed page count of '' @
                           str_of_int (ps_max_pages svc))))
       else gbind (apply_ocr_fallback svc task file extracted) (\<lambda>document.
         gbind (yields (map (running (pt_task_id task))
           (report_pages (ps_progress_interval svc) (dc_total_pages document) 0 0 (length (dc_pages document))))) (\<lambda>_.
             awaits (Inr document))))"

definition build_result :: "'f pdf_service \<Rightarrow> pdf_task \<Rightarrow> pdf_document \<Rightarrow> exn + pdf_result" where
  "build_result svc task document =
     sbind (ps_upload svc document (str ''results/'' @ safe_task_id (pt_task_id task) @ str ''/parsed.json''))
       (\<lambda>parsed_url. Inr (document, parsed_url))"

definition mark_status :: "bool \<Rightarrow> 'r report \<Rightarrow> 'r report list" where
  "mark_status report_status r = (if report_status then [r] else [])"

definition parse_body :: "'f pdf_service \<Rightarrow> bool \<Rightarrow> pdf_task \<Rightarrow> (pdf_result report, pdf_result) gen" where
  "parse_body svc report_status task =
     gbind (awaits (ps_download svc (pt_pdf_url task))) (\<lambda>file.
       gbind (awaits (enforce_size_limit svc file)) (\<lambda>_.
         gbind (yields (mark_status report_status (Status (pt_task_id task) (str ''running'') None None None))) (\<lambda>_.
           gbind (extract_and_report svc task file) (\<lambda>document.
             awaits (build_result svc task document)))))"

definition pdf_classes :: "api_class list" where
  "pdf_classes = [PdfNotFoundError, EncryptedPdfError, CorruptPdfError, NoTextLayerError, PdfParseError,
     OcrUnavailableError, OcrPageFailedError, OcrNoTextError]"

definition pdf_error :: "exn \<Rightarrow> exn" where
  "pdf_error e = (if list_ex (\<lambda>c. has_class c e) pdf_classes then e
     else raise_msg PdfParseError (str ''PDF parse failed unexpectedly''))"

definition parse :: "'f pdf_service \<Rightarrow> bool \<Rightarrow> pdf_task \<Rightarrow> (pdf_result report, pdf_result) gen" where
  "parse svc report_status task =
     (case parse_body svc report_status task of
        (evs, Inr res) \<Rightarrow>
          (evs @ mark_status report_status (Status (pt_task_id task) (str ''completed'') (Some res) None None), Inr res)
      | (evs, Inl e) \<Rightarrow>
          (evs @ mark_status report_status (Status (pt_task_id task) (str ''failed'') None (Some (exn_text (pdf_error e))) None),
           Inl (pdf_error e)))"

lemma list_all_running [simp]: "list_all is_progress (map (running tid) ns)" "progresses (map (running tid) ns) = ns"
  by (induction ns) (simp_all add: running_def)

lemma progress_not_terminal [simp]: "list_all (\<lambda>r. \<not> is_terminal r) (map (running tid) ns)"
  by (induction ns) (simp_all add: running_def)

end
