(* ===== verification/Pdf_Props.thy ===== *)
theory Pdf_Props
  imports Pdf
begin

text \<open>
  Facts and properties of PDF parsing: the parser as a reporting service, the independence of OCR from its
  batch size, the progress reports, and the well-formedness of the documents.
\<close>

section \<open>The parser as a reporting service\<close>

lemma ocr_fallback_progress: "\<exists>ns. fst (apply_ocr_fallback svc task pdf doc) = map (running (pt_task_id task)) ns"
  by (auto simp: apply_ocr_fallback_def gbind_fst split: option.splits prod.splits sum.splits)

lemma extract_and_report_progress: "\<exists>ns. fst (extract_and_report svc task pdf) = map (running (pt_task_id task)) ns"
proof -
  obtain ns where ns: "fst (apply_ocr_fallback svc task pdf doc) = map (running (pt_task_id task)) (ns doc)" for doc
    using ocr_fallback_progress[of svc task pdf] by metis
  show ?thesis
    by (auto simp: extract_and_report_def gbind_fst gbind_snd ns yields_def simp flip: map_append split: sum.splits)
qed

lemma parse_body_shape:
  "\<exists>pre ns. (\<forall>b. fst (parse_body svc b task) = (if pre then mark_status b (Status (pt_task_id task) (str ''running'') None None None) else [])
       @ map (running (pt_task_id task)) ns) \<and> snd (parse_body svc True task) = snd (parse_body svc False task)"
proof (cases "\<exists>pdf. ps_download svc (pt_pdf_url task) = Inr pdf \<and> enforce_size_limit svc pdf = Inr ()")
  case True
  then obtain pdf where f: "ps_download svc (pt_pdf_url task) = Inr pdf" "enforce_size_limit svc pdf = Inr ()" by blast
  obtain ns where ns: "fst (extract_and_report svc task pdf) = map (running (pt_task_id task)) ns"
    using extract_and_report_progress by metis
  show ?thesis
    by (intro exI[of _ True] exI[of _ ns]) (simp add: parse_body_def f gbind_fst gbind_snd ns split: sum.splits)
next
  case False
  then show ?thesis
    by (intro exI[of _ False] exI[of _ "[]"])
      (auto simp: parse_body_def gbind_fst gbind_snd split: sum.splits)
qed

lemma fst_parse: "fst (parse svc b task) = fst (parse_body svc b task) @ mark_status b (closing (pt_task_id task) (snd (parse svc b task)))"
  by (auto simp: parse_def closing_def split: prod.splits sum.splits)

lemma snd_parse: "snd (parse svc b task) = (case snd (parse_body svc b task) of Inl e \<Rightarrow> Inl (pdf_error e) | Inr r \<Rightarrow> Inr r)"
  by (auto simp: parse_def split: prod.splits sum.splits)

lemma pdf_error_known: "\<exists>c \<in> set pdf_classes. has_class c (pdf_error e)"
  by (auto simp: pdf_error_def list_ex_iff) (simp add: pdf_classes_def)

interpretation pdf: task_service "parse svc" pt_task_id "set pdf_classes" for svc
proof unfold_locales
  fix t
  obtain pre ns where s: "fst (parse_body svc b t) = (if pre then mark_status b (Status (pt_task_id t) (str ''running'') None None None) else [])
       @ map (running (pt_task_id t)) ns" and r: "snd (parse_body svc True t) = snd (parse_body svc False t)" for b
    using parse_body_shape by metis
  show "list_all is_progress (fst (parse svc False t))" by (simp add: fst_parse s mark_status_def)
  show same: "snd (parse svc True t) = snd (parse svc False t)" by (simp add: snd_parse r)
  show "\<exists>rlog. fst (parse svc True t) = rlog @ [closing (pt_task_id t) (snd (parse svc True t))] \<and> list_all (\<lambda>r. \<not> is_terminal r) rlog"
    by (intro exI[of _ "fst (parse_body svc True t)"]) (simp add: fst_parse s mark_status_def)
  show "progresses (fst (parse svc True t)) = progresses (fst (parse svc False t))"
    by (simp add: fst_parse s mark_status_def closing_def split: sum.splits)
  show "\<And>b e. snd (parse svc b t) = Inl e \<Longrightarrow> \<exists>c\<in>set pdf_classes. has_class c e"
    using pdf_error_known by (auto simp: snd_parse split: sum.splits)
qed

section \<open>OCR in batches\<close>

lemma ocr_batch_append:
  "ocr_batch recognize (xs @ ys) =
     gbind (ocr_batch recognize xs) (\<lambda>ps. gbind (ocr_batch recognize ys) (\<lambda>qs. awaits (Inr (ps @ qs))))"
proof (induction xs)
  case (Cons r xs)
  show ?case
    by (cases "build_page recognize r"; cases "ocr_batch recognize xs"; cases "snd (ocr_batch recognize xs)";
        cases "ocr_batch recognize ys"; cases "snd (ocr_batch recognize ys)") (auto simp: Cons)
qed (cases "ocr_batch recognize ys"; cases "snd (ocr_batch recognize ys)"; simp)

lemma ocr_loop_is_batch: "0 < n \<Longrightarrow> ocr_loop recognize n rendered None = ocr_batch recognize rendered"
proof (induction recognize n rendered "None :: exn option" rule: ocr_loop.induct)
  case (1 recognize n rendered)
  show ?case
  proof (cases "rendered = []")
    case True
    then show ?thesis by (subst ocr_loop.simps) simp
  next
    case False
    with 1 have "ocr_loop recognize n (drop n rendered) None = ocr_batch recognize (drop n rendered)" by simp
    with False 1(2) show ?thesis
      using ocr_batch_append[of recognize "take n rendered" "drop n rendered"] by (subst ocr_loop.simps) simp
  qed
qed

text \<open>When the renderer fails, OCR fails: with an error of the renderer or of the engine.\<close>

lemma ocr_loop_fails: "0 < n \<Longrightarrow> \<exists>e'. snd (ocr_loop recognize n rendered (Some e)) = Inl e'"
proof (induction recognize n rendered "Some e" rule: ocr_loop.induct)
  case (1 recognize n rendered)
  show ?case
  proof (cases "length rendered < n")
    case True
    then show ?thesis by (subst ocr_loop.simps) simp
  next
    case False
    with 1(2) have "take n rendered \<noteq> []" by auto
    with 1 False obtain e' where "snd (ocr_loop recognize n (drop n rendered) (Some e)) = Inl e'" by auto
    with False \<open>take n rendered \<noteq> []\<close> show ?thesis
      by (subst ocr_loop.simps) (auto simp: gbind_snd split: sum.splits)
  qed
qed

text \<open>Before the failure, the pages of the whole batches the renderer could give are processed; those of the
  batch it failed in are lost.\<close>

abbreviation whole_batches :: "nat \<Rightarrow> 'a list \<Rightarrow> 'a list" where
  "whole_batches n xs \<equiv> take (length xs - length xs mod n) xs"

lemma whole_batches_drop:
  assumes "0 < n" "n \<le> length xs"
  shows "whole_batches n xs = take n xs @ whole_batches n (drop n xs)"
proof -
  have "n \<le> length xs - length xs mod n" using assms
    by (metis add_diff_cancel_left' diff_le_mono2 le_add_diff_inverse mod_add_self1 mod_less_eq_dividend diff_diff_cancel diff_le_self)
  then have "take (length xs - length xs mod n) xs = take n xs @ take (length xs - length xs mod n - n) (drop n xs)"
    using take_add[of n "length xs - length xs mod n - n" xs]
    by (metis le_add_diff_inverse)
  moreover have "length (drop n xs) - length (drop n xs) mod n = length xs - length xs mod n - n"
    using assms by (simp add: le_mod_geq)
  ultimately show ?thesis by (simp only:)
qed

lemma ocr_loop_cut:
  "0 < n \<Longrightarrow> ocr_loop recognize n rendered (Some e)
     = gbind (ocr_batch recognize (whole_batches n rendered)) (\<lambda>_. awaits (Inl e))"
proof (induction recognize n rendered "Some e" rule: ocr_loop.induct)
  case (1 recognize n rendered)
  show ?case
  proof (cases "length rendered < n")
    case True
    then show ?thesis by (subst ocr_loop.simps) simp
  next
    case False
    with 1(2) have "take n rendered \<noteq> []" by auto
    with 1 False have ih: "ocr_loop recognize n (drop n rendered) (Some e)
      = gbind (ocr_batch recognize (whole_batches n (drop n rendered))) (\<lambda>_. awaits (Inl e))" by auto
    have "whole_batches n rendered = take n rendered @ whole_batches n (drop n rendered)"
      using 1(2) False by (intro whole_batches_drop) auto
    with False \<open>take n rendered \<noteq> []\<close> ih show ?thesis
      by (cases "ocr_batch recognize (take n rendered)"; cases "snd (ocr_batch recognize (take n rendered))";
          cases "ocr_batch recognize (whole_batches n (drop n rendered))";
          cases "snd (ocr_batch recognize (whole_batches n (drop n rendered)))";
          subst ocr_loop.simps) (auto simp: ocr_batch_append)
  qed
qed

section \<open>Progress\<close>

lemma page_progress_mono: "i \<le> j \<Longrightarrow> page_progress i n \<le> page_progress j n"
proof -
  assume "i \<le> j"
  then have "of_int (i + 1) / of_int n * 100 \<le> (of_int (j + 1) / of_int n * 100 :: pyfloat)" if "0 < n"
    using that by (intro mult_right_mono divide_right_mono) simp_all
  then show ?thesis by (auto simp: page_progress_def py_trunc_mono)
qed

lemma page_progress_bounds: "0 \<le> i \<Longrightarrow> 0 \<le> page_progress i n \<and> page_progress i n \<le> 100"
proof (cases "n \<le> 0")
  case False
  assume i: "0 \<le> i"
  let ?x = "min (of_int (i + 1) / of_int n * 100) 100 :: pyfloat"
  have "0 \<le> ?x" using i False by simp
  moreover have "?x \<le> 100" by simp
  ultimately show ?thesis using py_trunc_mono[of 0 ?x] py_trunc_mono[of ?x 100] False
    by (simp add: page_progress_def)
qed (simp add: page_progress_def)

lemma page_progress_end: "page_progress (n - 1) n = 100"
  by (simp add: page_progress_def)

lemma report_pages_props:
  assumes "0 \<le> i" "l \<le> page_progress i n"
  shows "sorted (report_pages interval n l i k) \<and> (\<forall>p \<in> set (report_pages interval n l i k). l \<le> p \<and> 0 \<le> p \<and> p \<le> 100)"
  using assms
proof (induction interval n l i k rule: report_pages.induct)
  case (2 interval n l i k)
  have "page_progress i n \<le> page_progress (i + 1) n" by (simp add: page_progress_mono)
  with 2 page_progress_bounds[of i n] show ?case
    by (auto simp: Let_def intro: order_trans)
qed simp

lemma report_pages_last: "i + int k = n \<Longrightarrow> 0 < k \<Longrightarrow> report_pages interval n l i k \<noteq> [] \<and> last (report_pages interval n l i k) = 100"
proof (induction interval n l i k rule: report_pages.induct)
  case (2 interval n l i k)
  show ?case
  proof (cases k)
    case 0
    with 2(3) have "i = n - 1" by simp
    then have "page_progress i n = 100" using page_progress_end by simp
    with 0 show ?thesis by (simp add: Let_def)
  next
    case (Suc k')
    with 2 show ?thesis by (auto simp: Let_def)
  qed
qed simp

section \<open>Well-formed documents\<close>

fun counts_from :: "int \<Rightarrow> int list \<Rightarrow> bool" where
  "counts_from k [] = True"
| "counts_from k (n # ns) = (n = k \<and> counts_from (k + 1) ns)"

definition document_wf :: "pdf_document \<Rightarrow> bool" where
  "document_wf d \<longleftrightarrow> dc_total_pages d = int (length (dc_pages d))
     \<and> counts_from 1 (map pg_number (dc_pages d))
     \<and> list_all (\<lambda>t. 1 \<le> te_level t \<and> 1 \<le> te_page t) (dc_toc d)"

lemma counts_from_ge: "counts_from k ns \<Longrightarrow> n \<in> set ns \<Longrightarrow> k \<le> n"
  by (induction k ns rule: counts_from.induct) auto

lemma document_wf_valid: "document_wf d \<Longrightarrow> pdf_validate d = Inr d"
  using counts_from_ge[of 1 "map pg_number (dc_pages d)"] by (auto simp: document_wf_def pdf_validate_def list_all_iff)

lemma extract_pages_numbers:
  assumes "smap (\<lambda>(i, loaded). sbind loaded (\<lambda>page.
       pdf_page_new (int i + 1) (rw_text page) (map page_block (rw_blocks page)))) (enumerate k xs) = Inr pages"
  shows "counts_from (int k + 1) (map pg_number pages)"
  using assms
proof (induction xs arbitrary: k pages)
  case (Cons x xs)
  then obtain p ps where "pages = p # ps" "pg_number p = int k + 1" "counts_from (int (Suc k) + 1) (map pg_number ps)"
    by (fastforce simp: sbind_Inr_iff pdf_page_new_def split: if_splits)
  then show ?case by (simp add: add.commute)
qed simp

lemma extract_toc_wf: "extract_toc repr doc = Inr toc \<Longrightarrow> t \<in> set toc \<Longrightarrow> 1 \<le> te_level t \<and> 1 \<le> te_page t"
  by (auto simp: extract_toc_def sbind_Inr_iff toc_entry_new_def dest!: smap_Inr_in split: if_splits)

lemma pdf_extract_wf: "pdf_extract repr installed opened rid = Inr d \<Longrightarrow> document_wf d \<and> dc_resource_id d = rid"
  using extract_pages_numbers[of 0] extract_toc_wf
  by (fastforce simp: pdf_extract_def document_wf_def pdf_document_new_def sbind_Inr_iff extract_pages_def list_all_iff
      split: sum.splits if_splits)

lemma render_from_numbers: "counts_from (k + 1) (map rd_page_number (fst (render_from tot k xs)))"
  by (induction tot k xs rule: render_from.induct) (auto split: prod.splits)

lemma render_pages_numbers: "counts_from 1 (map rd_page_number (fst (render_pages installed opened)))"
  using render_from_numbers[of 0] by (auto simp: render_pages_def split: open_result.splits)

lemma ocr_batch_numbers: "snd (ocr_batch recognize rs) = Inr pages \<Longrightarrow> map pg_number pages = map rd_page_number rs"
  by (induction recognize rs arbitrary: pages rule: ocr_batch.induct)
    (auto simp: gbind_snd build_page_def sbind_Inr_iff Let_def pdf_page_new_def split: sum.splits if_splits)

lemma process_pdf_wf:
  assumes "snd (process_pdf recognize n (render_pages installed opened) rid) = Inr d"
  shows "document_wf d \<and> dc_resource_id d = rid"
proof -
  let ?r = "render_pages installed opened"
  obtain pages where p: "snd (ocr_loop recognize (nat (max 1 n)) (fst ?r) (snd ?r)) = Inr pages" "d = pdf_document_new rid [] pages"
    using assms by (auto simp: process_pdf_def gbind_snd split: sum.splits if_splits)
  have "0 < nat (max 1 n)" by simp
  from ocr_loop_fails[OF this, of recognize "fst ?r"] p(1) have "snd ?r = None"
    by (metis Inl_Inr_False not_None_eq)
  with p(1) have "snd (ocr_batch recognize (fst ?r)) = Inr pages" by (simp add: ocr_loop_is_batch)
  then have "counts_from 1 (map pg_number pages)" using ocr_batch_numbers render_pages_numbers by simp
  with p(2) show ?thesis by (simp add: document_wf_def pdf_document_new_def)
qed

text \<open>A run that succeeds: the document was extracted, went through the fallback and was reported page by page.\<close>

lemma parse_run:
  assumes "snd (parse svc b task) = Inr (document, url)"
  obtains pdf extracted ns where "ps_extract svc pdf (pt_resource_id task) = Inr extracted"
    "apply_ocr_fallback svc task pdf extracted = (map (running (pt_task_id task)) ns, Inr document)"
    "progresses (fst (parse svc b task)) =
       ns @ report_pages (ps_progress_interval svc) (dc_total_pages document) 0 0 (length (dc_pages document))"
proof -
  obtain pdf where f: "ps_download svc (pt_pdf_url task) = Inr pdf" "enforce_size_limit svc pdf = Inr ()"
    "snd (extract_and_report svc task pdf) = Inr document"
    using assms by (auto simp: snd_parse parse_body_def gbind_snd build_result_def sbind_Inr_iff split: sum.splits)
  then obtain extracted where x: "ps_extract svc pdf (pt_resource_id task) = Inr extracted"
    "snd (apply_ocr_fallback svc task pdf extracted) = Inr document" "\<not> ps_max_pages svc < dc_total_pages extracted"
    by (auto simp: extract_and_report_def gbind_snd split: sum.splits if_splits)
  obtain ns where ns: "fst (apply_ocr_fallback svc task pdf extracted) = map (running (pt_task_id task)) ns"
    using ocr_fallback_progress by metis
  have fb: "apply_ocr_fallback svc task pdf extracted = (map (running (pt_task_id task)) ns, Inr document)"
    using ns x(2) by (metis prod.collapse)
  have "progresses (fst (parse svc b task)) =
       ns @ report_pages (ps_progress_interval svc) (dc_total_pages document) 0 0 (length (dc_pages document))"
    using assms by (simp add: fst_parse mark_status_def closing_def parse_body_def f(1,2) gbind_fst extract_and_report_def x(1,3) fb yields_def
        split: sum.splits)
  with that x(1) fb show ?thesis by blast
qed

section \<open>Properties\<close>

text \<open>Every PDF task is closed. Whatever the collaborators do, parsing with status reports sends
  exactly one terminal report, the last one: \<open>completed\<close> with the result that is returned, or
  \<open>failed\<close> with the message of the error that is raised, which is always of a PDF or OCR class. Without
  status reports it sends progress only and ends the same way.\<close>

theorem pdf_task_closed:
  "filter is_terminal (fst (parse svc True task)) = [closing (pt_task_id task) (snd (parse svc True task))]
   \<and> last (fst (parse svc True task)) = closing (pt_task_id task) (snd (parse svc True task))
   \<and> list_all is_progress (fst (parse svc False task)) \<and> snd (parse svc False task) = snd (parse svc True task)
   \<and> (case snd (parse svc True task) of Inl e \<Rightarrow> list_ex (\<lambda>c. has_class c e) pdf_classes | Inr _ \<Rightarrow> True)"
proof -
  have "list_ex (\<lambda>c. has_class c e) pdf_classes" if "snd (parse svc True task) = Inl e" for e
    using pdf.known_error[OF that] by (simp add: list_ex_iff)
  then show ?thesis
    by (intro conjI pdf.one_terminal pdf.last_is_terminal pdf.silent) (auto simp: pdf.same_result split: sum.splits)
qed

text \<open>C18: what OCR in batches does, in terms of a page-by-page run. If the renderer does not fail, batches of
  any size give the pages, the progress reports and the error of processing the rendering page by page. If it
  fails, exactly the pages of the whole batches rendered before are recognized and reported, an error of the
  engine on one of them is the result, and otherwise the renderer's error.\<close>

theorem ocr_batches_equivalent:
  "process_pdf recognize max_pages_in_memory (rendered, failure) resource_id =
     (case failure of
        None \<Rightarrow> gbind (ocr_batch recognize rendered) (\<lambda>pages.
          if pages = [] \<or> list_all (\<lambda>page. blank (pg_text page)) pages
          then awaits (Inl (raise_default OcrNoTextError))
          else awaits (Inr (pdf_document_new resource_id [] pages)))
      | Some e \<Rightarrow> gbind (ocr_batch recognize
          (take (length rendered - length rendered mod nat (max 1 max_pages_in_memory)) rendered)) (\<lambda>_. awaits (Inl e)))"
proof (cases failure)
  case (Some e)
  let ?g = "ocr_batch recognize (take (length rendered - length rendered mod nat (max 1 max_pages_in_memory)) rendered)"
  show ?thesis using Some
    by (cases ?g; cases "snd ?g") (auto simp: process_pdf_def ocr_loop_cut awaits_def)
qed (simp add: process_pdf_def ocr_loop_is_batch)

text \<open>Parsed documents are well formed. A document the parser returns, extracted from the text
  layer or by OCR, belongs to the resource of the task, counts its pages, numbers them from 1 in order and
  has no outline entry before page 1 or level 1.\<close>

theorem parsed_document_wf:
  assumes "ps_extract svc = (\<lambda>pdf. pdf_extract repr installed (opened pdf))"
    and "ps_ocr svc = None \<or> (\<exists>installed' opened' recognize n. ps_ocr svc = Some (\<lambda>pdf. render_pages installed' (opened' pdf), recognize, n))"
    and "snd (parse svc report_status task) = Inr (document, url)"
  shows "document_wf document \<and> dc_resource_id document = pt_resource_id task"
proof -
  obtain pdf extracted ns where x: "ps_extract svc pdf (pt_resource_id task) = Inr extracted"
    "apply_ocr_fallback svc task pdf extracted = (map (running (pt_task_id task)) ns, Inr document)"
    using parse_run[OF assms(3)] by metis
  have ex: "document_wf extracted \<and> dc_resource_id extracted = pt_resource_id task"
    using x(1) pdf_extract_wf by (simp add: assms(1))
  show ?thesis using assms(2)
  proof (elim disjE exE)
    assume "ps_ocr svc = None"
    with x(2) ex show ?thesis by (auto simp: apply_ocr_fallback_def gbind_def awaits_def split: if_splits sum.splits)
  next
    fix installed' opened' recognize n
    assume "ps_ocr svc = Some (\<lambda>pdf. render_pages installed' (opened' pdf), recognize, n)"
    with x(2) ex process_pdf_wf[of "recognize pdf" n installed' "opened' pdf" "pt_resource_id task" document] show ?thesis
      by (auto simp: apply_ocr_fallback_def split: if_splits prod.splits)
  qed
qed

text \<open>Progress of a PDF with a text layer. When no OCR is needed, the progress reports of a run that
  succeeds lie between 0 and 100 and never go down, and those of a document with pages end with 100.\<close>

theorem pdf_progress_monotone:
  assumes "snd (parse svc report_status task) = Inr (document, url)"
    and "ps_ocr_fallback svc \<longrightarrow> ps_ocr svc = None"
    and "dc_total_pages document = int (length (dc_pages document))"
  shows "sorted (progresses (fst (parse svc report_status task)))
     \<and> list_all (\<lambda>n. 0 \<le> n \<and> n \<le> 100) (progresses (fst (parse svc report_status task)))
     \<and> (dc_pages document = [] \<or> last (progresses (fst (parse svc report_status task))) = 100)"
proof -
  let ?ns = "report_pages (ps_progress_interval svc) (dc_total_pages document) 0 0 (length (dc_pages document))"
  obtain pdf extracted ns where x: "apply_ocr_fallback svc task pdf extracted = (map (running (pt_task_id task)) ns, Inr document)"
    "progresses (fst (parse svc report_status task)) = ns @ ?ns"
    using parse_run[OF assms(1)] by metis
  have "ns = []" using x(1) assms(2) by (auto simp: apply_ocr_fallback_def gbind_def awaits_def split: if_splits option.splits sum.splits)
  with x(2) have "progresses (fst (parse svc report_status task)) = ?ns" by simp
  moreover have "sorted ?ns \<and> (\<forall>p \<in> set ?ns. 0 \<le> p \<and> 0 \<le> p \<and> p \<le> 100)"
    by (rule report_pages_props) (simp_all add: page_progress_bounds)
  moreover have "dc_pages document = [] \<or> last ?ns = 100"
    using report_pages_last[of 0 "length (dc_pages document)" "dc_total_pages document"] by (auto simp: assms(3))
  ultimately show ?thesis by (simp add: list_all_iff)
qed

section \<open>Witnesses\<close>

definition demo_pdf :: "pystr \<Rightarrow> fitz_doc open_result" where
  "demo_pdf t = Opened \<lparr>fd_encrypted = False, fd_pages = [Inr \<lparr>rw_text = t, rw_blocks = [(1, 2, 3, 4, t)]\<rparr>, Inr \<lparr>rw_text = t, rw_blocks = []\<rparr>],
     fd_toc = Inr [[PInt 1, PStr (str ''Intro''), PInt 2]]\<rparr>"

definition demo_pdf_service :: "pystr pdf_service" where
  "demo_pdf_service = \<lparr>ps_download = (\<lambda>url. Inr url), ps_size = (\<lambda>f. int (length f)),
     ps_extract = (\<lambda>f. pdf_extract (\<lambda>_. []) True (demo_pdf f)), ps_ocr = None, ps_upload = (\<lambda>d key. Inr key),
     ps_progress_interval = 5, ps_ocr_fallback = True, ps_ocr_threshold = 3, ps_max_pdf_size = 100, ps_max_pages = 10\<rparr>"

definition demo_pdf_task :: pdf_task where
  "demo_pdf_task = \<lparr>pt_task_id = str ''t1'', pt_resource_id = str ''r1'', pt_user_id = str ''u1'', pt_pdf_url = str ''text''\<rparr>"

definition demo_pdf_document :: pdf_document where
  "demo_pdf_document = \<lparr>dc_resource_id = str ''r1'', dc_total_pages = 2,
     dc_toc = [\<lparr>te_level = 1, te_title = str ''Intro'', te_page = 2\<rparr>],
     dc_pages = [\<lparr>pg_number = 1, pg_text = str ''text'', pg_blocks = [\<lparr>bl_x = 1, bl_y = 2, bl_width = 2, bl_height = 2, bl_text = str ''text'', bl_confidence = None\<rparr>]\<rparr>,
       \<lparr>pg_number = 2, pg_text = str ''text'', pg_blocks = []\<rparr>]\<rparr>"

lemma demo_pdf_parsed: "snd (parse demo_pdf_service True demo_pdf_task) = Inr (demo_pdf_document, str ''results/t1/parsed.json'')"
  by code_simp

theorem parsed_document_wf_witness:
  "document_wf demo_pdf_document \<and> dc_resource_id demo_pdf_document = str ''r1''"
proof -
  have "ps_extract demo_pdf_service = (\<lambda>f. pdf_extract (\<lambda>_. []) True (demo_pdf f))" "ps_ocr demo_pdf_service = None"
    by (simp_all add: demo_pdf_service_def)
  from parsed_document_wf[OF this(1) _ demo_pdf_parsed] this(2) show ?thesis by (simp add: demo_pdf_task_def)
qed

theorem pdf_progress_monotone_witness:
  "progresses (fst (parse demo_pdf_service True demo_pdf_task)) = [50, 100] \<and> sorted [50, 100 :: int]"
proof -
  have ns: "progresses (fst (parse demo_pdf_service True demo_pdf_task)) = [50, 100]" by code_simp
  have "sorted (progresses (fst (parse demo_pdf_service True demo_pdf_task)))"
    using pdf_progress_monotone[OF demo_pdf_parsed]
    by (simp add: demo_pdf_service_def demo_pdf_document_def)
  with ns show ?thesis by simp
qed

section \<open>Further behaviour\<close>

text \<open>An outline entry without a target page (page below 1) makes the whole file corrupt.\<close>

lemma outline_without_page_rejected:
  assumes "open_document True opened = Inr doc" "fd_toc doc = Inr (entries @ [PInt l, PStr t, PInt p] # entries')" "p < 1"
    and "extract_pages doc = Inr pages"
  shows "\<exists>m. pdf_extract repr True opened rid = Inl (raise_msg CorruptPdfError m)"
proof (cases "pdf_extract repr True opened rid")
  case (Inr d)
  then obtain toc where "extract_toc repr doc = Inr toc"
    using assms(1,4) by (auto simp: pdf_extract_def sbind_def split: sum.splits)
  with assms(2) obtain ts where "smap (\<lambda>entry. sbind (int_of_val (entry ! 0)) (\<lambda>level. sbind (int_of_val (entry ! 2)) (\<lambda>page.
      toc_entry_new level (str_of_val repr (entry ! 1)) page))) (filter (\<lambda>e. 3 \<le> length e) (entries @ [PInt l, PStr t, PInt p] # entries')) = Inr ts"
    by (auto simp: extract_toc_def)
  from smap_Inr_all[OF this, of "[PInt l, PStr t, PInt p]"] have False
    using assms(3) by (auto simp: toc_entry_new_def split: if_splits)
  then show ?thesis ..
next
  case (Inl e)
  then show ?thesis using assms(1) by (auto simp: pdf_extract_def split: sum.splits prod.splits)
qed

text \<open>With OCR the progress reports start again: they reach 100 twice.\<close>

definition demo_ocr_service :: "pystr pdf_service" where
  "demo_ocr_service = demo_pdf_service\<lparr>ps_ocr_threshold := 50,
     ps_ocr := Some (\<lambda>f. render_pages True (Opened [None, None]), \<lambda>f n. Inr [page_block (0, 0, 1, 1, f)], 5)\<rparr>"

lemma ocr_progress_restarts: "progresses (fst (parse demo_ocr_service True demo_pdf_task)) = [50, 100, 50, 100]"
  by code_simp

end
