(* ===== verification/Asr.thy ===== *)
theory Asr
  imports Pdf Text_Cleaning
begin

text \<open>
  Transcription: the task and result models (\<open>app/models/asr.py\<close>), the audio processor, the Whisper
  engine and the service \<open>app/services/asr_service.py\<close>, which downloads, converts, transcribes, cleans,
  stores and subtitles. ffmpeg, the \<open>wave\<close> reader, the Whisper model and the storage are parameters.
\<close>

section \<open>Data model\<close>

record asr_task =
  at_task_id :: pystr
  at_resource_id :: pystr
  at_user_id :: pystr
  at_audio_url :: pystr
  at_language :: "pystr option"
  at_model :: "pystr option"

record asr_result =
  ar_task_id :: pystr
  ar_resource_id :: pystr
  ar_segments :: "asr_segment list"
  ar_text :: pystr
  ar_duration :: "pyfloat option"
  ar_transcript_url :: "pystr option"
  ar_subtitle_url :: "pystr option"

section \<open>Audio processor\<close>

text \<open>What ffmpeg does: it converts, fails with its own error (the text it wrote, if any), or otherwise.\<close>

datatype 'w ffmpeg_result = Converted 'w | FfmpegError "pystr option" pystr | ConvertFailed exn

definition convert_to_wav :: "'w ffmpeg_result \<Rightarrow> exn + 'w" where
  "convert_to_wav r = (case r of
     Converted w \<Rightarrow> Inr w
   | FfmpegError stderr shown \<Rightarrow>
       Inl (raise_msg AudioProcessingError (str ''ffmpeg convert failed: '' @ (case stderr of Some t \<Rightarrow> t | None \<Rightarrow> shown)))
   | ConvertFailed e \<Rightarrow> Inl (raise_msg AudioProcessingError (str ''audio conversion failed: '' @ exn_text e)))"

definition get_duration :: "exn + nat \<times> nat \<Rightarrow> exn + pyfloat" where
  "get_duration wav = (case wav of
     Inl e \<Rightarrow> if has_class AudioProcessingError e then Inl e
              else Inl (raise_msg AudioProcessingError (str ''failed to read audio duration: '' @ exn_text e))
   | Inr (frames, rate) \<Rightarrow>
       if rate = 0 then Inl (raise_msg AudioProcessingError (str ''invalid WAV: zero sample rate''))
       else Inr (of_nat frames / of_nat rate))"

section \<open>Whisper engine\<close>

text \<open>A segment of the model, and the iterator of segments: what it yields and how it ends.\<close>

record whisper_segment =
  ws_start :: pyfloat
  ws_end :: pyfloat
  ws_text :: pystr
  ws_avg_logprob :: "pyfloat option"

type_synonym transcription = "whisper_segment list \<times> exn option"

definition whisper_load :: "bool \<Rightarrow> pystr \<Rightarrow> exn + 'm \<Rightarrow> exn + 'm" where
  "whisper_load installed model_name loaded =
     (if \<not> installed then Inl (raise_msg ModelLoadError (str ''faster-whisper is not installed''))
      else case loaded of
             Inr m \<Rightarrow> Inr m
           | Inl e \<Rightarrow> Inl (raise_msg ModelLoadError
                            (str ''failed to load whisper model '' @ model_name @ str '': '' @ exn_text e)))"

definition whisper_transcribe ::
  "bool \<Rightarrow> pystr \<Rightarrow> exn + 'm \<Rightarrow> ('m \<Rightarrow> 'w \<Rightarrow> pystr option \<Rightarrow> exn + transcription) \<Rightarrow> 'w \<Rightarrow> pystr option \<Rightarrow> transcription" where
  "whisper_transcribe installed model_name loaded transcribe wav language =
     (case whisper_load installed model_name loaded of
        Inl e \<Rightarrow> ([], Some e)
      | Inr m \<Rightarrow> (case transcribe m wav language of
          Inl e \<Rightarrow> ([], Some e)
        | Inr (segments, err) \<Rightarrow> (map (\<lambda>s. s\<lparr>ws_text := py_strip (ws_text s)\<rparr>) segments, err)))"

section \<open>The service\<close>

record ('f, 'w, 'p) asr_service =
  as_download :: "pystr \<Rightarrow> exn + 'f"
  as_convert :: "'f \<Rightarrow> 'w ffmpeg_result"
  as_wave :: "'w \<Rightarrow> exn + nat \<times> nat"
  as_transcribe :: "'w \<Rightarrow> pystr option \<Rightarrow> transcription"
  as_cleaning :: "'p cleaning_env"
  as_chat_state :: 'p
  as_upload :: "asr_segment list \<Rightarrow> pystr \<Rightarrow> exn + pystr"
  as_subtitles :: "srt_generator option"
  as_save :: "pystr \<Rightarrow> pystr \<Rightarrow> exn + pystr"
  as_progress_interval :: pyfloat

definition segment_progress :: "pyfloat \<Rightarrow> asr_segment \<Rightarrow> int" where
  "segment_progress duration segment = py_trunc (min (sg_end segment / duration * 100) 100)"

text \<open>The loop of \<open>_transcribe_with_progress\<close>, before its errors are wrapped.\<close>

fun transcribe_loop ::
  "pyfloat \<Rightarrow> pyfloat \<Rightarrow> int \<Rightarrow> whisper_segment list \<Rightarrow> exn option \<Rightarrow> (int, asr_segment list) gen" where
  "transcribe_loop interval duration last_reported [] err =
     ([], case err of None \<Rightarrow> Inr [] | Some e \<Rightarrow> Inl e)"
| "transcribe_loop interval duration last_reported (raw # raws) err =
     gbind (awaits (asr_segment_new (ws_start raw) (ws_end raw) (ws_text raw) (ws_avg_logprob raw))) (\<lambda>segment.
       let progress = segment_progress duration segment;
           due = 0 < duration \<and> (interval \<le> of_int (progress - last_reported) \<or> 100 \<le> progress)
       in gbind (yields (if due then [progress] else [])) (\<lambda>_.
            gbind (transcribe_loop interval duration (if due then progress else last_reported) raws err) (\<lambda>segments.
              awaits (Inr (segment # segments)))))"

definition transcribe_with_progress ::
  "('f, 'w, 'p) asr_service \<Rightarrow> asr_task \<Rightarrow> 'w \<Rightarrow> pyfloat \<Rightarrow> (asr_result report, asr_segment list) gen" where
  "transcribe_with_progress svc task wav duration =
     (case as_transcribe svc wav (at_language task) of
        (raws, err) \<Rightarrow>
          (case transcribe_loop (as_progress_interval svc) duration 0 raws err of
             (progress, r) \<Rightarrow>
               (map (running (at_task_id task)) progress,
                case r of Inr segments \<Rightarrow> Inr segments
                        | Inl e \<Rightarrow> Inl (raise_msg AsrProcessingError (str ''transcription failed: '' @ exn_text e)))))"

definition asr_join_text :: "asr_segment list \<Rightarrow> pystr option \<Rightarrow> pystr" where
  "asr_join_text segments language = py_join (if is_cjk language then [] else [32]) (map sg_text segments)"

definition generate_subtitle ::
  "('f, 'w, 'p) asr_service \<Rightarrow> asr_task \<Rightarrow> asr_segment list \<Rightarrow> exn + pystr option" where
  "generate_subtitle svc task segments =
     (case as_subtitles svc of
        None \<Rightarrow> Inr None
      | Some g \<Rightarrow> sbind (generate g segments (at_language task)) (\<lambda>content.
          sbind (as_save svc content (str ''results/'' @ at_task_id task @ str ''/subtitle.'' @ sgn_output_format g))
            (\<lambda>url. Inr (Some url))))"

definition process_body ::
  "('f, 'w, 'p) asr_service \<Rightarrow> bool \<Rightarrow> asr_task \<Rightarrow> (asr_result report, asr_result) gen" where
  "process_body svc report_status task =
     gbind (yields (mark_status report_status (Status (at_task_id task) (str ''running'') None None None))) (\<lambda>_.
       gbind (awaits (as_download svc (at_audio_url task))) (\<lambda>raw.
         gbind (awaits (convert_to_wav (as_convert svc raw))) (\<lambda>wav.
           gbind (awaits (get_duration (as_wave svc wav))) (\<lambda>duration.
             gbind (transcribe_with_progress svc task wav duration) (\<lambda>segments.
               gbind (awaits (snd (clean_transcript (as_cleaning svc) segments (as_chat_state svc)))) (\<lambda>cleaned.
                 gbind (awaits (as_upload svc cleaned (str ''results/'' @ at_task_id task @ str ''/transcript.json''))) (\<lambda>transcript_url.
                   gbind (awaits (generate_subtitle svc task cleaned)) (\<lambda>subtitle_url.
                     awaits (Inr \<lparr>ar_task_id = at_task_id task, ar_resource_id = at_resource_id task,
                       ar_segments = cleaned, ar_text = asr_join_text cleaned (at_language task),
                       ar_duration = Some duration, ar_transcript_url = Some transcript_url,
                       ar_subtitle_url = subtitle_url\<rparr>)))))))))"

definition asr_classes :: "api_class list" where
  "asr_classes = [AudioProcessingError, SubtitleGenerationError, AsrProcessingError]"

definition asr_error :: "exn \<Rightarrow> exn" where
  "asr_error e = (if list_ex (\<lambda>c. has_class c e) asr_classes then e else raise_msg AsrProcessingError (exn_text e))"

definition asr_process ::
  "('f, 'w, 'p) asr_service \<Rightarrow> bool \<Rightarrow> asr_task \<Rightarrow> (asr_result report, asr_result) gen" where
  "asr_process svc report_status task =
     (case process_body svc report_status task of
        (evs, Inr res) \<Rightarrow>
          (evs @ mark_status report_status (Status (at_task_id task) (str ''completed'') (Some res) None None), Inr res)
      | (evs, Inl e) \<Rightarrow>
          (evs @ mark_status report_status (Status (at_task_id task) (str ''failed'') None (Some (exn_text e)) None),
           Inl (asr_error e)))"

section \<open>The service as a reporting service\<close>

lemma asr_error_text [simp]: "exn_text (asr_error e) = exn_text e"
  by (simp add: asr_error_def exn_text_def raise_msg_def)

lemma asr_error_known: "\<exists>c \<in> set asr_classes. has_class c (asr_error e)"
  by (auto simp: asr_error_def list_ex_iff) (simp add: asr_classes_def)

lemma fst_process: "fst (asr_process svc b task) = fst (process_body svc b task) @ mark_status b (closing (at_task_id task) (snd (asr_process svc b task)))"
  by (auto simp: asr_process_def closing_def split: prod.splits sum.splits)

lemma snd_process: "snd (asr_process svc b task) = (case snd (process_body svc b task) of Inl e \<Rightarrow> Inl (asr_error e) | Inr r \<Rightarrow> Inr r)"
  by (auto simp: asr_process_def split: prod.splits sum.splits)

lemma process_body_shape:
  "\<exists>ns. (\<forall>b. fst (process_body svc b task) = mark_status b (Status (at_task_id task) (str ''running'') None None None)
       @ map (running (at_task_id task)) ns) \<and> snd (process_body svc True task) = snd (process_body svc False task)"
proof -
  have t: "\<exists>ns. fst (transcribe_with_progress svc task wav d) = map (running (at_task_id task)) ns" for wav d
    by (auto simp: transcribe_with_progress_def split: prod.splits)
  show ?thesis
  proof (cases "\<exists>raw wav d. as_download svc (at_audio_url task) = Inr raw \<and> convert_to_wav (as_convert svc raw) = Inr wav
      \<and> get_duration (as_wave svc wav) = Inr d")
    case True
    then obtain raw wav d where f: "as_download svc (at_audio_url task) = Inr raw" "convert_to_wav (as_convert svc raw) = Inr wav"
      "get_duration (as_wave svc wav) = Inr d" by blast
    obtain ns where ns: "fst (transcribe_with_progress svc task wav d) = map (running (at_task_id task)) ns" using t by metis
    show ?thesis
      by (intro exI[of _ ns]) (simp add: process_body_def f gbind_fst gbind_snd ns split: sum.splits)
  next
    case False
    then show ?thesis
      by (intro exI[of _ "[]"]) (auto simp: process_body_def gbind_fst gbind_snd split: sum.splits)
  qed
qed

interpretation asr: task_service "asr_process svc" at_task_id "set asr_classes" for svc
proof unfold_locales
  fix t
  obtain ns where s: "fst (process_body svc b t) = mark_status b (Status (at_task_id t) (str ''running'') None None None)
       @ map (running (at_task_id t)) ns" and r: "snd (process_body svc True t) = snd (process_body svc False t)" for b
    using process_body_shape by metis
  show "list_all is_progress (fst (asr_process svc False t))" by (simp add: fst_process s mark_status_def)
  show same: "snd (asr_process svc True t) = snd (asr_process svc False t)" by (simp add: snd_process r)
  show "\<exists>rlog. fst (asr_process svc True t) = rlog @ [closing (at_task_id t) (snd (asr_process svc True t))] \<and> list_all (\<lambda>r. \<not> is_terminal r) rlog"
    by (intro exI[of _ "fst (process_body svc True t)"]) (simp add: fst_process s mark_status_def)
  show "progresses (fst (asr_process svc True t)) = progresses (fst (asr_process svc False t))"
    by (simp add: fst_process s mark_status_def closing_def split: sum.splits)
  show "\<And>b e. snd (asr_process svc b t) = Inl e \<Longrightarrow> \<exists>c\<in>set asr_classes. has_class c e"
    using asr_error_known by (auto simp: snd_process split: sum.splits)
qed

definition engine_segment :: "whisper_segment \<Rightarrow> asr_segment" where
  "engine_segment raw = \<lparr>sg_start = ws_start raw, sg_end = ws_end raw, sg_text = ws_text raw, sg_confidence = ws_avg_logprob raw\<rparr>"

lemma transcribe_loop_timing:
  "snd (transcribe_loop interval duration l raws err) = Inr segs \<Longrightarrow>
     err = None \<and> segs = map engine_segment raws
     \<and> list_all (\<lambda>seg. 0 \<le> sg_start seg \<and> 0 \<le> sg_end seg) segs"
proof (induction raws arbitrary: l segs)
  case (Cons raw raws)
  then show ?case
    by (fastforce simp: gbind_snd asr_segment_new_def engine_segment_def Let_def split: sum.splits if_splits)
qed (auto split: option.splits)

text \<open>A run that succeeds, in terms of what the engine yielded.\<close>

lemma process_run:
  assumes "snd (asr_process svc b task) = Inr res"
  obtains wav raws where "as_transcribe svc wav (at_language task) = (raws, None)"
    "map timing (ar_segments res) = map (\<lambda>raw. (ws_start raw, ws_end raw, ws_avg_logprob raw)) raws"
    "map sg_text (ar_segments res) = map ws_text raws \<or> list_all (\<lambda>seg. \<not> blank (sg_text seg)) (ar_segments res)"
    "ar_text res = asr_join_text (ar_segments res) (at_language task)"
    "as_subtitles svc \<noteq> None \<longrightarrow> ar_segments res \<noteq> []"
proof -
  obtain wav d segs where t: "snd (transcribe_with_progress svc task wav d) = Inr segs"
    "snd (clean_transcript (as_cleaning svc) segs (as_chat_state svc)) = Inr (ar_segments res)"
    "ar_text res = asr_join_text (ar_segments res) (at_language task)" "generate_subtitle svc task (ar_segments res) = Inr (ar_subtitle_url res)"
    using assms by (auto simp: snd_process process_body_def gbind_snd split: sum.splits)
  obtain raws err where r: "as_transcribe svc wav (at_language task) = (raws, err)" by fastforce
  let ?segs = "map engine_segment raws"
  have "snd (transcribe_loop (as_progress_interval svc) d 0 raws err) = Inr segs"
    using t(1) by (auto simp: transcribe_with_progress_def r split: prod.splits sum.splits)
  then have s: "err = None \<and> segs = ?segs" using transcribe_loop_timing by blast
  then have c: "map timing (ar_segments res) = map timing ?segs \<and> (ar_segments res = ?segs \<or> list_all (\<lambda>seg. \<not> blank (sg_text seg)) (ar_segments res))"
    using t(2) clean_transcript_ok by (metis prod.collapse)
  have "as_subtitles svc \<noteq> None \<longrightarrow> ar_segments res \<noteq> []"
    using t(4) by (auto simp: generate_subtitle_def generate_def)
  with that[of wav raws] r s c t(3) show ?thesis by (auto simp: timing_def engine_segment_def comp_def)
qed

section \<open>Properties\<close>

text \<open>Every transcription task is closed. Whatever the collaborators do, a run with status reports sends
  exactly one terminal report, the last one, with the result it returns or the message of the error it raises,
  which is an audio, subtitle or transcription error; without status reports it only reports progress.\<close>

theorem asr_task_closed:
  "filter is_terminal (fst (asr_process svc True task)) = [closing (at_task_id task) (snd (asr_process svc True task))]
   \<and> last (fst (asr_process svc True task)) = closing (at_task_id task) (snd (asr_process svc True task))
   \<and> list_all is_progress (fst (asr_process svc False task)) \<and> snd (asr_process svc False task) = snd (asr_process svc True task)
   \<and> (case snd (asr_process svc True task) of Inl e \<Rightarrow> list_ex (\<lambda>c. has_class c e) asr_classes | Inr _ \<Rightarrow> True)"
proof -
  have "list_ex (\<lambda>c. has_class c e) asr_classes" if "snd (asr_process svc True task) = Inl e" for e
    using asr.known_error[OF that] by (simp add: list_ex_iff)
  then show ?thesis
    by (intro conjI asr.one_terminal asr.last_is_terminal asr.silent) (auto simp: asr.same_result split: sum.splits)
qed

text \<open>A transcript keeps the times of the speech engine. The segments of a result have exactly the start,
  end and confidence of the segments the engine yielded, one for one; their texts are the engine's or, when
  cleaned, not blank; and the text of the result joins them.\<close>

theorem transcript_keeps_engine_timeline:
  assumes "snd (asr_process svc report_status task) = Inr res"
  shows "\<exists>wav raws. as_transcribe svc wav (at_language task) = (raws, None)
     \<and> map timing (ar_segments res) = map (\<lambda>raw. (ws_start raw, ws_end raw, ws_avg_logprob raw)) raws
     \<and> (map sg_text (ar_segments res) = map ws_text raws \<or> list_all (\<lambda>seg. \<not> blank (sg_text seg)) (ar_segments res))
     \<and> ar_text res = asr_join_text (ar_segments res) (at_language task)"
  by (rule process_run[OF assms]) blast

text \<open>Audio without speech fails. When the engine yields no segment, the task cannot succeed while a
  subtitle generator is configured, which the service always does.\<close>

theorem silent_audio_fails:
  assumes "\<And>wav. fst (as_transcribe svc wav (at_language task)) = []" "as_subtitles svc \<noteq> None"
  shows "\<exists>e. snd (asr_process svc report_status task) = Inl e"
proof (cases "snd (asr_process svc report_status task)")
  case (Inr res)
  show ?thesis
  proof (rule process_run[OF Inr])
    fix wav raws
    assume r: "as_transcribe svc wav (at_language task) = (raws, None)" "as_subtitles svc \<noteq> None \<longrightarrow> ar_segments res \<noteq> []"
      "map timing (ar_segments res) = map (\<lambda>raw. (ws_start raw, ws_end raw, ws_avg_logprob raw)) raws"
    from assms(1)[of wav] r(1) have "raws = []" by simp
    with r(2,3) assms(2) show ?thesis by simp
  qed
qed simp

section \<open>Witnesses\<close>

definition demo_asr_service :: "transcription \<Rightarrow> srt_generator option \<Rightarrow> (pystr, pystr, unit) asr_service" where
  "demo_asr_service tr subs = \<lparr>as_download = (\<lambda>url. Inr url), as_convert = (\<lambda>f. Converted f), as_wave = (\<lambda>_. Inr (32000, 16000)),
     as_transcribe = (\<lambda>_ _. tr), as_cleaning = demo_cleaning\<lparr>cl_enabled := False\<rparr>, as_chat_state = (), as_upload = (\<lambda>_ key. Inr key),
     as_subtitles = subs, as_save = (\<lambda>_ key. Inr key), as_progress_interval = 5\<rparr>"

definition demo_generator :: srt_generator where
  "demo_generator = \<lparr>sgn_output_format = str ''srt'', sgn_presigned_expiry = 3600,
     sgn_merger = \<lparr>mg_min_duration = 1, mg_max_duration = 6, mg_max_chars = 80, mg_language = None\<rparr>\<rparr>"

definition demo_asr_task :: asr_task where
  "demo_asr_task = \<lparr>at_task_id = str ''t1'', at_resource_id = str ''r1'', at_user_id = str ''u1'', at_audio_url = str ''a'',
     at_language = Some (str ''en''), at_model = None\<rparr>"

definition demo_transcription :: transcription where
  "demo_transcription = ([\<lparr>ws_start = 0, ws_end = 1, ws_text = str ''no way'', ws_avg_logprob = None\<rparr>], None)"

definition demo_asr_result :: asr_result where
  "demo_asr_result = \<lparr>ar_task_id = str ''t1'', ar_resource_id = str ''r1'',
     ar_segments = [\<lparr>sg_start = 0, sg_end = 1, sg_text = str ''no way'', sg_confidence = None\<rparr>], ar_text = str ''no way'',
     ar_duration = Some 2, ar_transcript_url = Some (str ''results/t1/transcript.json''), ar_subtitle_url = None\<rparr>"

theorem transcript_keeps_engine_timeline_witness:
  "snd (asr_process (demo_asr_service demo_transcription None) True demo_asr_task) = Inr demo_asr_result
   \<and> map timing (ar_segments demo_asr_result) = [(0, 1, None)]"
proof -
  have r: "snd (asr_process (demo_asr_service demo_transcription None) True demo_asr_task) = Inr demo_asr_result"
    by (simp add: asr_process_def process_body_def demo_asr_service_def convert_to_wav_def get_duration_def transcribe_with_progress_def
        demo_transcription_def asr_segment_new_def segment_progress_def Let_def yields_def clean_transcript_def demo_cleaning_def
        demo_asr_task_def demo_asr_result_def asr_join_text_def generate_subtitle_def awaits_def)
  from transcript_keeps_engine_timeline[OF r] r show ?thesis
    by (auto simp: demo_asr_service_def demo_transcription_def)
qed

theorem silent_audio_fails_witness:
  "\<exists>e. snd (asr_process (demo_asr_service ([], None) (Some demo_generator)) True demo_asr_task) = Inl e"
  by (rule silent_audio_fails) (simp_all add: demo_asr_service_def)

end
