(* ===== verification/Vector_Index.thy ===== *)
theory Vector_Index
  imports Chunking Vector_Store Subtitles Pdf_Model
begin

text \<open>
  \<open>VectorIndexService\<close>: parsed PDF pages and transcripts are chunked, embedded and written to the
  vector store. The chunker, the embedding service and the store are injected in the source; they are
  the fields of \<open>index_env\<close>, and \<open>index_env_of\<close> plugs in the models of
  \<open>ChunkingService\<close> and \<open>EmbeddingService\<close>. The state \<open>'s\<close> is the provider's and the
  store's.
\<close>

section \<open>Documents\<close>

definition asr_validate :: "asr_segment list \<Rightarrow> exn + asr_segment list" where
  "asr_validate segs =
     (if list_all (\<lambda>s. 0 \<le> sg_start s \<and> 0 \<le> sg_end s) segs
      then Inr segs else Inl (PyException ''ValidationError'' (str ''AsrResult'')))"

section \<open>The service\<close>

record 's index_env =
  ix_chunk :: "pystr \<Rightarrow> pystr \<Rightarrow> pydict \<Rightarrow> pystr option \<Rightarrow> exn + chunk list"
  ix_embed :: "'s \<Rightarrow> chunk_input list \<Rightarrow> 's \<times> (exn + embedding_record list)"
  ix_delete :: "'s \<Rightarrow> pystr \<Rightarrow> pystr option \<Rightarrow> 's \<times> (exn + int)"
  ix_upsert :: "'s \<Rightarrow> vector_record list \<Rightarrow> 's \<times> (exn + int)"
  ix_now :: int
  ix_strategy :: "pystr option"

definition index_env_of ::
  "chunking_config \<Rightarrow> token_estimator \<Rightarrow> (vector \<Rightarrow> pyfloat) \<Rightarrow> 's embed_call \<Rightarrow> embedding_config \<Rightarrow>
     ('s \<Rightarrow> pystr \<Rightarrow> pystr option \<Rightarrow> 's \<times> (exn + int)) \<Rightarrow> ('s \<Rightarrow> vector_record list \<Rightarrow> 's \<times> (exn + int)) \<Rightarrow>
     int \<Rightarrow> pystr option \<Rightarrow> 's index_env" where
  "index_env_of ccfg est nrm provider ecfg del ups now strategy =
     \<lparr>ix_chunk = chunk_service ccfg est, ix_embed = embed_chunks nrm provider ecfg,
      ix_delete = del, ix_upsert = ups, ix_now = now, ix_strategy = strategy\<rparr>"

definition record_of :: "int \<Rightarrow> pystr \<Rightarrow> chunk \<Rightarrow> embedding_record \<Rightarrow> vector_record" where
  "record_of now user_id c e =
     \<lparr>ve_id = ck_id c, ve_resource_id = ck_resource_id c, ve_user_id = user_id, ve_text = ck_text c,
      ve_vector = em_vector e,
      ve_metadata = AList.update (str ''chunk_index'') (PInt (int (ck_index c))) (ck_metadata c),
      ve_created_at = now\<rparr>"

definition upsert_chunks ::
  "'s index_env \<Rightarrow> 's \<Rightarrow> pystr \<Rightarrow> pystr \<Rightarrow> chunk list \<Rightarrow> 's \<times> (exn + int)" where
  "upsert_chunks env s user_id resource_id chunks =
     (if chunks = [] then (s, Inr 0)
      else case ix_embed env s (map (\<lambda>c. \<lparr>ci_id = ck_id c, ci_resource_id = ck_resource_id c, ci_text = ck_text c\<rparr>) chunks) of
             (s1, Inl e) \<Rightarrow> (s1, Inl e)
           | (s1, Inr embeddings) \<Rightarrow>
               (case ix_delete env s1 resource_id (Some user_id) of
                  (s2, Inl e) \<Rightarrow> (s2, Inl e)
                | (s2, Inr _) \<Rightarrow> ix_upsert env s2
                     (map (\<lambda>(c, e). record_of (ix_now env) user_id c e) (zip chunks embeddings))))"

fun chunk_pages ::
  "'s index_env \<Rightarrow> pystr \<Rightarrow> int \<Rightarrow> pdf_page list \<Rightarrow> exn + chunk list" where
  "chunk_pages env resource_id total_pages [] = Inr []"
| "chunk_pages env resource_id total_pages (p # ps) =
     (if blank (pg_text p) then chunk_pages env resource_id total_pages ps
      else sbind (ix_chunk env (pg_text p) resource_id
                    [(str ''page'', PInt (pg_number p)), (str ''total_pages'', PInt total_pages),
                     (str ''source_type'', PStr (str ''pdf''))] (ix_strategy env)) (\<lambda>cs.
           sbind (chunk_pages env resource_id total_pages ps) (\<lambda>rest. Inr (cs @ rest))))"

definition index_pdf :: "'s index_env \<Rightarrow> 's \<Rightarrow> pystr \<Rightarrow> pystr \<Rightarrow> pdf_document \<Rightarrow> 's \<times> (exn + int)" where
  "index_pdf env s user_id resource_id document =
     (case sbind (pdf_validate document) (\<lambda>pdf. chunk_pages env resource_id (dc_total_pages pdf) (dc_pages pdf)) of
        Inl e \<Rightarrow> (s, Inl e)
      | Inr chunks \<Rightarrow> upsert_chunks env s user_id resource_id chunks)"

type_synonym time_range = "nat \<times> nat \<times> pyfloat \<times> pyfloat"

text \<open>The loop of \<open>_build_asr_text_ranges\<close>; the flag says whether \<open>parts\<close> is non-empty.\<close>

fun asr_ranges_loop :: "nat \<Rightarrow> bool \<Rightarrow> asr_segment list \<Rightarrow> pystr list \<times> time_range list" where
  "asr_ranges_loop cursor any [] = ([], [])"
| "asr_ranges_loop cursor any (seg # segs) =
     (if sg_text seg = [] then asr_ranges_loop cursor any segs
      else let start = (if any then cursor + 1 else cursor);
               e = start + length (sg_text seg)
           in case asr_ranges_loop e True segs of (parts, ranges) \<Rightarrow>
                (sg_text seg # parts, (start, e, sg_start seg, sg_end seg) # ranges))"

definition build_asr_text_ranges :: "asr_segment list \<Rightarrow> pystr \<times> time_range list" where
  "build_asr_text_ranges segs =
     (case asr_ranges_loop 0 False segs of (parts, ranges) \<Rightarrow> (py_join (str '' '') parts, ranges))"

definition overlaps :: "chunk \<Rightarrow> time_range \<Rightarrow> bool" where
  "overlaps c r = (case r of (seg_start, seg_end, t0, t1) \<Rightarrow>
     0 < int (min (ck_end c) seg_end) - int (max (ck_start c) seg_start))"

definition widen :: "chunk \<Rightarrow> pyfloat option \<times> pyfloat option \<Rightarrow> time_range \<Rightarrow> pyfloat option \<times> pyfloat option" where
  "widen c acc r = (case (acc, r) of ((start_time, end_time), (seg_start, seg_end, t0, t1)) \<Rightarrow>
     if \<not> overlaps c r then acc
     else (case start_time of None \<Rightarrow> Some t0 | Some a \<Rightarrow> if t0 < a then Some t0 else Some a,
           case end_time of None \<Rightarrow> Some t1 | Some b \<Rightarrow> if b < t1 then Some t1 else Some b))"

definition chunk_times :: "time_range list \<Rightarrow> chunk \<Rightarrow> pyfloat option \<times> pyfloat option" where
  "chunk_times ranges c = foldl (widen c) (None, None) ranges"

definition set_time :: "string \<Rightarrow> pyfloat option \<Rightarrow> pydict \<Rightarrow> pydict" where
  "set_time k t md = (case t of None \<Rightarrow> md | Some x \<Rightarrow> AList.update (str k) (PFloat x) md)"

definition apply_time_ranges :: "chunk list \<Rightarrow> time_range list \<Rightarrow> chunk list" where
  "apply_time_ranges chunks ranges =
     (if ranges = [] then chunks
      else map (\<lambda>c. case chunk_times ranges c of (t0, t1) \<Rightarrow>
             c\<lparr>ck_metadata := set_time ''end_time'' t1 (set_time ''start_time'' t0 (ck_metadata c))\<rparr>) chunks)"

definition index_asr :: "'s index_env \<Rightarrow> 's \<Rightarrow> pystr \<Rightarrow> pystr \<Rightarrow> asr_segment list \<Rightarrow> 's \<times> (exn + int)" where
  "index_asr env s user_id resource_id segments =
     (case asr_validate segments of
        Inl e \<Rightarrow> (s, Inl e)
      | Inr segs \<Rightarrow>
          if segs = [] then (s, Inr 0)
          else case build_asr_text_ranges segs of (full_text, ranges) \<Rightarrow>
            if blank full_text then (s, Inr 0)
            else (case ix_chunk env full_text resource_id [(str ''source_type'', PStr (str ''audio''))] (ix_strategy env) of
                    Inl e \<Rightarrow> (s, Inl e)
                  | Inr chunks \<Rightarrow> upsert_chunks env s user_id resource_id (apply_time_ranges chunks ranges)))"

section \<open>Text and time ranges\<close>

text \<open>A range denotes the text of its segment.\<close>

lemma asr_ranges_loop_slices:
  "asr_ranges_loop cursor any segs = (parts, ranges) \<Longrightarrow> length pre = cursor \<Longrightarrow>
     list_all2 (\<lambda>seg (a, b, t0, t1). t0 = sg_start seg \<and> t1 = sg_end seg \<and> b = a + length (sg_text seg)
        \<and> slice (pre @ (if any \<and> parts \<noteq> [] then [32] else []) @ py_join [32] parts) a b = sg_text seg)
       (filter (\<lambda>seg. sg_text seg \<noteq> []) segs) ranges"
proof (induction cursor any segs arbitrary: parts ranges pre rule: asr_ranges_loop.induct)
  case (2 cursor any seg segs)
  show ?case
  proof (cases "sg_text seg = []")
    case True
    with 2 show ?thesis by simp
  next
    case False
    define a where "a = (if any then cursor + 1 else cursor)"
    define b where "b = a + length (sg_text seg)"
    obtain ps rs where l: "asr_ranges_loop b True segs = (ps, rs)" by fastforce
    with 2(3) False have p: "parts = sg_text seg # ps" and r: "ranges = (a, b, sg_start seg, sg_end seg) # rs"
      by (simp_all add: Let_def a_def b_def)
    define pre' where "pre' = pre @ (if any then [32] else []) @ sg_text seg"
    have len: "length pre' = b" using 2(4) by (simp add: pre'_def b_def a_def)
    have eq: "pre @ (if any \<and> parts \<noteq> [] then [32] else []) @ py_join [32] parts
        = pre' @ (if True \<and> ps \<noteq> [] then [32] else []) @ py_join [32] ps"
      by (cases ps) (simp_all add: p pre'_def)
    have "length (pre @ (if any then [32] else [])) = a" using 2(4) by (simp add: a_def)
    then have "slice (pre' @ t) a b = sg_text seg" for t
      unfolding pre'_def b_def by (metis append.assoc slice_of_append append_eq_conv_conj)
    with 2(2)[OF False a_def b_def l len] False show ?thesis
      unfolding eq by (simp add: r b_def)
  qed
qed simp

abbreviation range_start :: "time_range \<Rightarrow> pyfloat" where
  "range_start r \<equiv> fst (snd (snd r))"

abbreviation range_end :: "time_range \<Rightarrow> pyfloat" where
  "range_end r \<equiv> snd (snd (snd r))"

lemma widen_Some:
  "widen c (Some a, Some b) r = (if overlaps c r then (Some (min a (range_start r)), Some (max b (range_end r))) else (Some a, Some b))"
  by (cases r) (auto simp: widen_def min_def max_def)

lemma fold_widen_Some:
  "foldl (widen c) (Some a, Some b) rs
     = (Some (Min (insert a (range_start ` set (filter (overlaps c) rs)))),
        Some (Max (insert b (range_end ` set (filter (overlaps c) rs)))))"
proof (induction rs arbitrary: a b)
  case (Cons r rs)
  show ?case
  proof (cases "overlaps c r")
    case True
    let ?S = "range_start ` set (filter (overlaps c) rs)" and ?E = "range_end ` set (filter (overlaps c) rs)"
    have "Min (insert (min a x) A) = Min (insert a (insert x A))" "Max (insert (max a x) A) = Max (insert a (insert x A))"
      if "finite A" for A and a x :: pyfloat
      using that by (cases "A = {}"; simp add: min.assoc max.assoc)+
    with True Cons show ?thesis by (simp add: widen_Some)
  qed (use Cons in \<open>simp add: widen_Some\<close>)
qed simp

lemma chunk_times_spec:
  "chunk_times rs c = (if filter (overlaps c) rs = [] then (None, None)
     else (Some (Min (range_start ` set (filter (overlaps c) rs))), Some (Max (range_end ` set (filter (overlaps c) rs)))))"
proof (induction rs)
  case Nil
  then show ?case by (simp add: chunk_times_def)
next
  case (Cons r rs)
  have "widen c (None, None) r = (if overlaps c r then (Some (range_start r), Some (range_end r)) else (None, None))"
    by (cases r) (simp add: widen_def)
  with Cons show ?case by (simp add: chunk_times_def fold_widen_Some)
qed

section \<open>Properties\<close>

text \<open>Transcript positions. The text built from the segments and the recorded ranges fit together:
  the ranges correspond in order to the segments with text, carry their times, and each denotes in the
  text exactly its segment's text.\<close>

theorem asr_ranges_denote_segments:
  assumes "build_asr_text_ranges segs = (full_text, ranges)"
  shows "list_all2 (\<lambda>seg (a, b, t0, t1). t0 = sg_start seg \<and> t1 = sg_end seg \<and> slice full_text a b = sg_text seg)
    (filter (\<lambda>seg. sg_text seg \<noteq> []) segs) ranges"
proof -
  obtain parts where l: "asr_ranges_loop 0 False segs = (parts, ranges)" and t: "full_text = py_join [32] parts"
    using assms by (auto simp: build_asr_text_ranges_def split: prod.splits)
  from asr_ranges_loop_slices[OF l, of "[]"] show ?thesis
    by (auto simp: t elim!: list_all2_mono)
qed

definition demo_transcript :: "asr_segment list" where
  "demo_transcript = [\<lparr>sg_start = 0, sg_end = 2, sg_text = str ''ab'', sg_confidence = None\<rparr>,
     \<lparr>sg_start = 2, sg_end = 3, sg_text = [], sg_confidence = None\<rparr>,
     \<lparr>sg_start = 3, sg_end = 5, sg_text = str ''cde'', sg_confidence = None\<rparr>]"

theorem asr_ranges_denote_segments_witness:
  "\<exists>full_text ranges. build_asr_text_ranges demo_transcript = (full_text, ranges)
     \<and> full_text = str ''ab cde'' \<and> length ranges = 2"
proof -
  have b: "build_asr_text_ranges demo_transcript = (str ''ab cde'', [(0, 2, 0, 2), (3, 6, 3, 5)])"
    by (simp add: build_asr_text_ranges_def demo_transcript_def Let_def)
  from asr_ranges_denote_segments[OF b] b show ?thesis by (auto dest: list_all2_lengthD)
qed

text \<open>Times of transcript chunks. A chunk that overlaps the text of some segment gets as
  \<open>start_time\<close> the earliest start and as \<open>end_time\<close> the latest end of all the segments it
  overlaps; a chunk that overlaps none keeps its metadata.\<close>

theorem chunk_time_metadata:
  assumes "ranges \<noteq> []" and "c \<in> set chunks"
  shows "\<exists>c' \<in> set (apply_time_ranges chunks ranges). ck_id c' = ck_id c \<and> ck_text c' = ck_text c
    \<and> (if filter (overlaps c) ranges = [] then ck_metadata c' = ck_metadata c
       else map_of (ck_metadata c') (str ''start_time'') = Some (PFloat (Min (range_start ` set (filter (overlaps c) ranges))))
          \<and> map_of (ck_metadata c') (str ''end_time'') = Some (PFloat (Max (range_end ` set (filter (overlaps c) ranges)))))"
  using assms
  by (auto simp: apply_time_ranges_def chunk_times_spec set_time_def update_conv intro!: bexI[OF _ imageI[OF assms(2)]])

definition demo_text_chunk :: chunk where
  "demo_text_chunk = \<lparr>ck_id = str ''r-0'', ck_resource_id = str ''r'', ck_index = 0, ck_text = str ''b c'',
     ck_start = 1, ck_end = 4, ck_metadata = [], ck_token_count = 3\<rparr>"

theorem chunk_time_metadata_witness:
  "\<exists>c' \<in> set (apply_time_ranges [demo_text_chunk] [(0, 2, 0, 2), (3, 6, 3, 5)]).
     map_of (ck_metadata c') (str ''start_time'') = Some (PFloat 0)
     \<and> map_of (ck_metadata c') (str ''end_time'') = Some (PFloat 5)"
  using chunk_time_metadata[of "[(0, 2, 0, 2), (3, 6, 3, 5)]" demo_text_chunk "[demo_text_chunk]"]
  by (auto simp: overlaps_def demo_text_chunk_def)

text \<open>A failed embedding destroys nothing. Whatever document is indexed, if the embedding service
  fails the request fails with its error and the store is not touched: the state is the one the
  embedding service left.\<close>

theorem embedding_failure_keeps_store:
  assumes "chunk_pages env resource_id (dc_total_pages d) (dc_pages d) = Inr chunks" "chunks \<noteq> []"
    and "pdf_validate d = Inr d" and "\<And>s cs. ix_embed env s cs = (embed_state s, Inl e)"
  shows "index_pdf env s user_id resource_id d = (embed_state s, Inl e)"
  using assms by (simp add: index_pdf_def upsert_chunks_def)

text \<open>A store that remembers the batches written to it, and a provider that needs no state.\<close>

definition log_env :: "vector_record list list index_env" where
  "log_env = index_env_of tiny_config fallback_estimator (\<lambda>_. 1) (\<lambda>s ts. (s, Inr (map (\<lambda>_. [1, 1]) ts)))
     demo_embedding_config (\<lambda>s _ _. (s, Inr 0)) (\<lambda>s rs. (s @ [rs], Inr (int (length rs)))) 0 None"

definition two_pages :: pdf_document where
  "two_pages = \<lparr>dc_resource_id = str ''r'', dc_total_pages = 2, dc_toc = [],
     dc_pages = [\<lparr>pg_number = 1, pg_text = str ''ab'', pg_blocks = []\<rparr>, \<lparr>pg_number = 2, pg_text = str ''cd'', pg_blocks = []\<rparr>]\<rparr>"

lemma two_pages_chunks:
  "chunk_pages log_env (str ''r'') 2 (dc_pages two_pages) = Inr (map (\<lambda>(n, t). \<lparr>ck_id = str ''r-0'',
     ck_resource_id = str ''r'', ck_index = 0, ck_text = t, ck_start = 0, ck_end = 2,
     ck_metadata = [(str ''page'', PInt n), (str ''total_pages'', PInt 2), (str ''source_type'', PStr (str ''pdf''))],
     ck_token_count = 2\<rparr>) [(1, str ''ab''), (2, str ''cd'')])"
  by code_simp

theorem embedding_failure_keeps_store_witness:
  "index_pdf (log_env\<lparr>ix_embed := (\<lambda>s _. (s, Inl (raise_default EmbeddingUnavailableError)))\<rparr>) [[]] (str ''u'') (str ''r'') two_pages
     = ([[]], Inl (raise_default EmbeddingUnavailableError))"
proof -
  let ?env = "log_env\<lparr>ix_embed := (\<lambda>s _. (s, Inl (raise_default EmbeddingUnavailableError)))\<rparr>"
  have "chunk_pages ?env (str ''r'') (dc_total_pages two_pages) (dc_pages two_pages)
      = chunk_pages log_env (str ''r'') 2 (dc_pages two_pages)"
    by (simp add: two_pages_def blank_iff is_space_def)
  note c = trans[OF this two_pages_chunks]
  show ?thesis
    by (rule embedding_failure_keeps_store[OF c, where embed_state = "\<lambda>s. s"])
      (simp_all add: two_pages_def pdf_validate_def)
qed

text \<open>The chunks of different pages collide. Every page is chunked on its own and chunk identifiers
  restart at 0, so a document of two short pages is written as two records with one and the same
  identifier, the primary key of the collection.\<close>

theorem pdf_chunk_ids_collide:
  "\<exists>a b. index_pdf log_env [] (str ''u'') (str ''r'') two_pages = ([[a, b]], Inr 2)
     \<and> ve_id a = ve_id b \<and> ve_text a \<noteq> ve_text b"
proof -
  have v: "pdf_validate two_pages = Inr two_pages" by (simp add: two_pages_def pdf_validate_def)
  have t: "dc_total_pages two_pages = 2" by (simp add: two_pages_def)
  show ?thesis
    unfolding index_pdf_def v sbind_simps t two_pages_chunks
    by (simp add: upsert_chunks_def log_env_def index_env_of_def embed_chunks_def demo_embedding_config_def default_embedding_config_def
        batches.simps embed_batch_with_fallback_def prepare_text_def py_strip_def is_space_def embed_batch_def
        retrying_success build_embedding_def record_of_def Let_def)
qed

text \<open>A document that has become empty is not removed. When every page is blank the call returns 0
  without touching the store, so the vectors of the previous version stay searchable.\<close>

theorem blank_document_keeps_old_vectors:
  assumes "pdf_validate d = Inr d" and "list_all (\<lambda>p. blank (pg_text p)) (dc_pages d)"
  shows "index_pdf env s user_id resource_id d = (s, Inr 0)"
proof -
  have "list_all (\<lambda>p. blank (pg_text p)) ps \<Longrightarrow> chunk_pages env resource_id n ps = Inr []" for n ps
    by (induction ps) simp_all
  with assms show ?thesis by (simp add: index_pdf_def upsert_chunks_def)
qed

theorem blank_document_keeps_old_vectors_witness:
  "index_pdf log_env [[]] (str ''u'') (str ''r'') (two_pages\<lparr>dc_pages := [\<lparr>pg_number = 1, pg_text = str '' '', pg_blocks = []\<rparr>]\<rparr>)
     = ([[]], Inr 0)"
  by (rule blank_document_keeps_old_vectors) (simp_all add: two_pages_def pdf_validate_def blank_iff is_space_def)

end
