(* ===== verification/Workers.thy ===== *)
theory Workers
  imports Pdf_Props Asr Vector_Index
begin

text \<open>
  The Celery workers (\<open>celery_workers/tasks\<close>): the base task with its hooks, the tasks that parse a
  PDF, transcribe audio and index vectors, and the worker process as a step relation on its queue. Celery
  is used through its documented contract: a worker takes a message, runs the body of the task and then
  calls \<open>on_success\<close>, \<open>on_retry\<close> or \<open>on_failure\<close>; a retried message is sent again with
  its retry count increased; a worker process has one instance of a task, so an attribute set on it stays.
\<close>

section \<open>The base task\<close>

record 'q message =
  ms_task_id :: pystr
  ms_payload :: 'q
  ms_retries :: nat
  ms_max_retries :: nat

text \<open>How a body ends: it returns, it asks for a retry with a payload, or it raises.\<close>

datatype ('q, 'r) outcome = Returned 'r | Retried 'q | Raised exn

datatype parsed_result = PdfParsed pdf_document | AsrParsed "asr_segment list"

record index_job =
  jb_task_id :: pystr
  jb_user_id :: pystr
  jb_resource_id :: pystr
  jb_source_type :: pystr
  jb_parsed :: parsed_result

record ('q, 'r) ending =
  en_reports :: "'r report list"
  en_outcome :: "('q, 'r) outcome"
  en_flag :: bool
  en_jobs :: "index_job list"

type_synonym ('q, 'r) body = "'q message \<Rightarrow> bool \<Rightarrow> ('q, 'r) ending"

definition attempt_count :: "'q message \<Rightarrow> int" where
  "attempt_count m = int (ms_retries m) + 1"

definition on_success :: "'q message \<Rightarrow> 'r \<Rightarrow> 'r report list" where
  "on_success m retval = [Status (ms_task_id m) (str ''completed'') (Some retval) None (Some (attempt_count m))]"

definition on_retry :: "'q message \<Rightarrow> 'r report list" where
  "on_retry m = [Status (ms_task_id m) (str ''running'') None None (Some (attempt_count m))]"

definition on_failure :: "bool \<Rightarrow> 'q message \<Rightarrow> exn \<Rightarrow> 'r report list" where
  "on_failure failure_reported m e =
     (if failure_reported then []
      else [Status (ms_task_id m) (str ''failed'') None (Some (exn_text e)) (Some (attempt_count m))])"

text \<open>One delivery of a message: the body and its hook; the flag is \<open>_failure_reported\<close>.\<close>

definition deliver_message ::
  "('q, 'r) body \<Rightarrow> 'q message \<Rightarrow> bool \<Rightarrow> 'r report list \<times> 'q message list \<times> bool \<times> index_job list" where
  "deliver_message body m flag =
     (let e = body m flag
      in case en_outcome e of
           Returned r \<Rightarrow> (en_reports e @ on_success m r, [], en_flag e, en_jobs e)
         | Retried q \<Rightarrow> (en_reports e @ on_retry m, [m\<lparr>ms_payload := q, ms_retries := ms_retries m + 1\<rparr>], False, en_jobs e)
         | Raised ex \<Rightarrow> (en_reports e @ on_failure (en_flag e) m ex, [], en_flag e, en_jobs e))"

definition running_report :: "'q message \<Rightarrow> 'r report" where
  "running_report m = Status (ms_task_id m) (str ''running'') None None (Some (attempt_count m))"

definition failed_report :: "'q message \<Rightarrow> exn \<Rightarrow> 'r report" where
  "failed_report m e = Status (ms_task_id m) (str ''failed'') None (Some (exn_text e)) (Some (attempt_count m))"

text \<open>\<open>delay\<close> puts a job into the queue; if it fails, the error is logged and the job is lost.\<close>

definition enqueue :: "(index_job \<Rightarrow> exn + unit) \<Rightarrow> index_job \<Rightarrow> index_job list" where
  "enqueue delay job = (case delay job of Inr _ \<Rightarrow> [job] | Inl e \<Rightarrow> [])"

section \<open>Parsing PDF files\<close>

type_synonym 'f ocr_service = "('f \<Rightarrow> render_page list \<times> exn option) \<times> ('f \<Rightarrow> recognizer) \<times> int"

definition build_ocr_service :: "bool \<Rightarrow> pystr \<Rightarrow> exn + 'f ocr_service \<Rightarrow> exn + 'f ocr_service option" where
  "build_ocr_service enabled engine_name built =
     (if \<not> enabled then Inr None
      else if engine_name \<noteq> str ''paddleocr''
      then Inl (raise_msg OcrUnavailableError (str ''Unsupported OCR engine: '' @ engine_name))
      else case built of
             Inr s \<Rightarrow> Inr (Some s)
           | Inl e \<Rightarrow> if has_class OcrUnavailableError e then Inl e
                      else Inl (raise_msg OcrUnavailableError (str ''OCR engine is unavailable: '' @ exn_text e)))"

text \<open>
  What the task is made of: the payload check, the configured parser service (without OCR), the OCR
  service and the queue of the indexing task.
\<close>

record ('q, 'f) pdf_worker =
  pw_validate :: "'q \<Rightarrow> exn + pdf_task"
  pw_service :: "'f pdf_service"
  pw_ocr :: "exn + 'f ocr_service option"
  pw_delay :: "index_job \<Rightarrow> exn + unit"

definition with_ocr :: "('q, 'f) pdf_worker \<Rightarrow> exn + 'f pdf_service" where
  "with_ocr w = (case pw_ocr w of
     Inr ocr \<Rightarrow> Inr ((pw_service w)\<lparr>ps_ocr := ocr\<rparr>)
   | Inl e \<Rightarrow> if has_class OcrUnavailableError e then Inr ((pw_service w)\<lparr>ps_ocr := None\<rparr>) else Inl e)"

definition run_pdf_parse :: "('q, 'f) pdf_worker \<Rightarrow> ('q, pdf_result) body" where
  "run_pdf_parse w m flag =
     (case pw_validate w (ms_payload m) of
        Inl e \<Rightarrow> \<lparr>en_reports = [], en_outcome = Raised e, en_flag = flag, en_jobs = []\<rparr>
      | Inr task \<Rightarrow>
          (case gbind (awaits (with_ocr w)) (\<lambda>svc. parse svc False task) of
             (evs, Inr document) \<Rightarrow>
               \<lparr>en_reports = running_report m # evs, en_outcome = Returned document, en_flag = flag,
                en_jobs = enqueue (pw_delay w) \<lparr>jb_task_id = ms_task_id m, jb_user_id = pt_user_id task,
                  jb_resource_id = pt_resource_id task, jb_source_type = str ''pdf'', jb_parsed = PdfParsed (fst document)\<rparr>\<rparr>
           | (evs, Inl e) \<Rightarrow>
               if ms_retries m < ms_max_retries m
               then \<lparr>en_reports = running_report m # evs, en_outcome = Retried (ms_payload m), en_flag = flag, en_jobs = []\<rparr>
               else \<lparr>en_reports = running_report m # evs @ [failed_report m e], en_outcome = Raised e, en_flag = True,
                     en_jobs = []\<rparr>))"

section \<open>Transcribing audio\<close>

record ('q, 'f, 'w, 'p) asr_worker =
  aw_validate :: "'q \<Rightarrow> exn + asr_task"
  aw_dump :: "asr_task \<Rightarrow> 'q"
  aw_fallback_model :: "pystr option"
  aw_build :: "pystr option \<Rightarrow> exn + ('f, 'w, 'p) asr_service"
  aw_delay :: "index_job \<Rightarrow> exn + unit"

definition fallback_set :: "('q, 'f, 'w, 'p) asr_worker \<Rightarrow> bool" where
  "fallback_set w = (case aw_fallback_model w of None \<Rightarrow> False | Some name \<Rightarrow> name \<noteq> [])"

definition effective_task :: "('q, 'f, 'w, 'p) asr_worker \<Rightarrow> 'q message \<Rightarrow> asr_task \<Rightarrow> asr_task" where
  "effective_task w m task =
     (if 0 < ms_retries m \<and> fallback_set w \<and> at_model task \<noteq> aw_fallback_model w
      then task\<lparr>at_model := aw_fallback_model w\<rparr> else task)"

definition run_asr :: "('q, 'f, 'w, 'p) asr_worker \<Rightarrow> ('q, asr_result) body" where
  "run_asr w m flag =
     (case aw_validate w (ms_payload m) of
        Inl e \<Rightarrow> \<lparr>en_reports = [], en_outcome = Raised e, en_flag = flag, en_jobs = []\<rparr>
      | Inr request \<Rightarrow>
          let task = effective_task w m request
          in (case gbind (awaits (aw_build w (at_model task))) (\<lambda>svc. asr_process svc False task) of
                (evs, Inr res) \<Rightarrow>
                  \<lparr>en_reports = running_report m # evs, en_outcome = Returned res, en_flag = flag,
                   en_jobs = enqueue (aw_delay w) \<lparr>jb_task_id = ms_task_id m, jb_user_id = at_user_id task,
                     jb_resource_id = at_resource_id task, jb_source_type = str ''audio'', jb_parsed = AsrParsed (ar_segments res)\<rparr>\<rparr>
              | (evs, Inl e) \<Rightarrow>
                  if \<not> has_class ModelLoadError e
                  then \<lparr>en_reports = running_report m # evs, en_outcome = Raised e, en_flag = flag, en_jobs = []\<rparr>
                  else if ms_retries m < ms_max_retries m
                  then \<lparr>en_reports = running_report m # evs,
                        en_outcome = Retried (aw_dump w (if fallback_set w then task\<lparr>at_model := aw_fallback_model w\<rparr> else task)),
                        en_flag = flag, en_jobs = []\<rparr>
                  else \<lparr>en_reports = running_report m # evs @ [failed_report m e], en_outcome = Raised e, en_flag = True,
                        en_jobs = []\<rparr>))"

section \<open>Indexing\<close>

definition index_resource_vectors :: "bool \<Rightarrow> 's index_env \<Rightarrow> 's \<Rightarrow> index_job \<Rightarrow> 's \<times> (exn + pystr \<times> int)" where
  "index_resource_vectors enabled env s job =
     (if \<not> enabled then (s, Inr (jb_resource_id job, 0))
      else case (if jb_source_type job = str ''pdf''
                 then (case jb_parsed job of
                         PdfParsed d \<Rightarrow> index_pdf env s (jb_user_id job) (jb_resource_id job) d
                       | AsrParsed segs \<Rightarrow> (s, Inl (validation_error (str ''PdfDocument''))))
                 else if jb_source_type job = str ''audio''
                 then (case jb_parsed job of
                         AsrParsed segs \<Rightarrow> index_asr env s (jb_user_id job) (jb_resource_id job) segs
                       | PdfParsed d \<Rightarrow> (s, Inl (validation_error (str ''AsrResult''))))
                 else (s, Inl (value_error (str ''Unsupported source type for indexing: '' @ jb_source_type job))))
           of (s', r) \<Rightarrow> (s', sbind r (\<lambda>count. Inr (jb_resource_id job, count))))"

section \<open>The worker process\<close>

record ('q, 'r) worker =
  wk_flag :: bool
  wk_queue :: "'q message list"
  wk_log :: "'r report list"
  wk_jobs :: "index_job list"

inductive worker_step :: "('q, 'r) body \<Rightarrow> ('q, 'r) worker \<Rightarrow> ('q, 'r) worker \<Rightarrow> bool" for body where
  work: "\<lbrakk>wk_queue s = m # q; deliver_message body m (wk_flag s) = (reports, again, flag, jobs)\<rbrakk>
    \<Longrightarrow> worker_step body s \<lparr>wk_flag = flag, wk_queue = q @ again, wk_log = wk_log s @ reports, wk_jobs = wk_jobs s @ jobs\<rparr>"

inductive_cases worker_stepE: "worker_step body s s'"

definition budget :: "'q message list \<Rightarrow> nat" where
  "budget q = sum_list (map (\<lambda>m. ms_max_retries m - ms_retries m + 1) q)"

lemma budget_simps [simp]: "budget [] = 0" "budget (m # q) = ms_max_retries m - ms_retries m + 1 + budget q"
  "budget (q @ q') = budget q + budget q'"
  by (simp_all add: budget_def)

text \<open>A task whose body asks for a retry only while retries are left.\<close>

locale retrying_task =
  fixes body :: "('q, 'r) body"
  assumes retry_bounded: "en_outcome (body m flag) = Retried q \<Longrightarrow> ms_retries m < ms_max_retries m"
begin

lemma step_decreases: "worker_step body s s' \<Longrightarrow> budget (wk_queue s') < budget (wk_queue s)"
  using retry_bounded
  by (fastforce simp: deliver_message_def Let_def elim!: worker_stepE split: outcome.splits)

lemma run_bounded: "(worker_step body ^^ n) s s' \<Longrightarrow> n + budget (wk_queue s') \<le> budget (wk_queue s)"
  by (induction n arbitrary: s') (fastforce dest: step_decreases)+

lemma progress: "wk_queue s \<noteq> [] \<Longrightarrow> \<exists>s'. worker_step body s s'"
  by (cases "wk_queue s"; cases "deliver_message body (hd (wk_queue s)) (wk_flag s)") (auto intro: work)

lemma drains: "\<exists>s'. (worker_step body)\<^sup>*\<^sup>* s s' \<and> wk_queue s' = []"
proof (induction "budget (wk_queue s)" arbitrary: s rule: less_induct)
  case less
  show ?case
  proof (cases "wk_queue s = []")
    case False
    then obtain t where t: "worker_step body s t" using progress by blast
    with less step_decreases obtain s' where "(worker_step body)\<^sup>*\<^sup>* t s'" "wk_queue s' = []" by blast
    with t show ?thesis by (meson converse_rtranclp_into_rtranclp)
  qed blast
qed

end

section \<open>The tasks as retrying tasks\<close>

interpretation pdf_worker: retrying_task "run_pdf_parse w" for w
  by unfold_locales (auto simp: run_pdf_parse_def split: sum.splits prod.splits if_splits)

interpretation asr_worker: retrying_task "run_asr w" for w
  by unfold_locales (auto simp: run_asr_def Let_def split: sum.splits prod.splits if_splits)

lemma silent_no_terminal [simp]:
  "filter is_terminal (fst (parse svc False task)) = []"
  by (rule pdf.no_terminal_when_silent)

lemma running_report_not_terminal [simp]: "\<not> is_terminal (running_report m)"
  by (simp add: running_report_def)

lemma hook_terminals [simp]:
  "filter is_terminal (on_success m r) = on_success m r" "filter is_terminal (on_retry m) = []"
  "filter is_terminal (on_failure flag m e) = on_failure flag m e"
  "is_terminal (failed_report m e)" "length (on_success m r) = 1" "length (on_failure False m e) = 1" "on_failure True m e = []"
  by (simp_all add: on_success_def on_retry_def on_failure_def failed_report_def)

text \<open>A delivery either gives the message back once more or closes it with one terminal report.\<close>

definition accounts :: "'r report list \<times> 'q message list \<times> bool \<times> index_job list \<Rightarrow> bool" where
  "accounts d = (case d of (reports, again, flag, jobs) \<Rightarrow>
     length (filter is_terminal reports) + length again = 1)"

lemma pdf_delivery_accounts:
  assumes "\<exists>task. pw_validate w (ms_payload m) = Inr task"
  shows "accounts (deliver_message (run_pdf_parse w) m flag)"
proof -
  obtain task where t: "pw_validate w (ms_payload m) = Inr task" using assms by blast
  show ?thesis
  proof (cases "with_ocr w")
    case (Inl e)
    then show ?thesis by (simp add: accounts_def deliver_message_def run_pdf_parse_def t Let_def)
  next
    case (Inr svc)
    obtain evs r where p: "parse svc False task = (evs, r)" by fastforce
    with silent_no_terminal[of svc task] have "filter is_terminal evs = []" by simp
    then show ?thesis
      by (cases r) (simp_all add: accounts_def deliver_message_def run_pdf_parse_def t Inr p Let_def)
  qed
qed

lemma delivered_payload:
  assumes "deliver_message (run_pdf_parse w) m flag = (reports, again, flag', jobs)" "m' \<in> set again"
  shows "ms_payload m' = ms_payload m"
  using assms by (auto simp: deliver_message_def run_pdf_parse_def Let_def split: sum.splits prod.splits if_splits)

definition valid_queue :: "('q, 'f) pdf_worker \<Rightarrow> 'q message list \<Rightarrow> bool" where
  "valid_queue w q \<longleftrightarrow> list_all (\<lambda>m. \<exists>task. pw_validate w (ms_payload m) = Inr task) q"

lemma pdf_step_accounts:
  assumes "worker_step (run_pdf_parse w) s s'" "valid_queue w (wk_queue s)"
  shows "valid_queue w (wk_queue s')
    \<and> length (filter is_terminal (wk_log s')) + length (wk_queue s') = length (filter is_terminal (wk_log s)) + length (wk_queue s)"
  using assms(1)
proof cases
  case (work m q reports again flag jobs)
  have v: "\<exists>task. pw_validate w (ms_payload m) = Inr task" "valid_queue w q"
    using assms(2) by (auto simp: work(2) valid_queue_def)
  have "accounts (reports, again, flag, jobs)" using pdf_delivery_accounts[OF v(1)] work(3) by metis
  moreover have "valid_queue w again"
    using delivered_payload[OF work(3)] v(1) by (simp add: valid_queue_def list_all_iff)
  ultimately show ?thesis using v(2) by (simp add: work accounts_def valid_queue_def)
qed

text \<open>Errors of the transcription service are never of the class that is retried.\<close>

lemma asr_no_model_error: "snd (asr_process svc b task) = Inl e \<Longrightarrow> \<not> has_class ModelLoadError e"
  by (drule asr.known_error) (cases e; auto simp: asr_classes_def)

section \<open>Properties\<close>

text \<open>C17: a worker finishes its queue. Whatever the PDF tasks, their services and their failures are, a worker
  process reaches an empty queue from every state, and no run of it is longer than the retries allow.\<close>

theorem pdf_worker_terminates:
  "(\<exists>s'. (worker_step (run_pdf_parse w))\<^sup>*\<^sup>* s s' \<and> wk_queue s' = [])
   \<and> {n. \<exists>s'. (worker_step (run_pdf_parse w) ^^ n) s s'} \<subseteq> {0..budget (wk_queue s)}"
proof (intro conjI subsetI pdf_worker.drains)
  fix n
  assume "n \<in> {n. \<exists>s'. (worker_step (run_pdf_parse w) ^^ n) s s'}"
  then obtain s' where "(worker_step (run_pdf_parse w) ^^ n) s s'" by auto
  from pdf_worker.run_bounded[OF this] show "n \<in> {0..budget (wk_queue s)}" by simp
qed

text \<open>No PDF task is lost. In every run of a worker on messages with valid payloads, the tasks closed by a
  terminal report and the messages still in the queue add up to the same number, so when the queue is empty
  each message has been closed exactly once, however often it was retried.\<close>

theorem pdf_worker_closes_all:
  assumes "(worker_step (run_pdf_parse w))\<^sup>*\<^sup>* s s'" "valid_queue w (wk_queue s)"
  shows "length (filter is_terminal (wk_log s')) + length (wk_queue s') = length (filter is_terminal (wk_log s)) + length (wk_queue s)"
proof -
  from assms have "valid_queue w (wk_queue s')
    \<and> length (filter is_terminal (wk_log s')) + length (wk_queue s') = length (filter is_terminal (wk_log s)) + length (wk_queue s)"
    by (induction rule: rtranclp_induct) (use pdf_step_accounts in \<open>auto\<close>)
  then show ?thesis by blast
qed

text \<open>A failing speech model is never retried. The service turns every error of the engine, also that a
  model cannot be loaded, into a transcription error, which the task does not retry: as long as building the
  service does not itself report a model that cannot be loaded, no message is sent again, the fallback
  model is never used, and the failure is reported at the first attempt.\<close>

theorem asr_never_retried:
  assumes "\<And>name e. aw_build w name = Inl e \<Longrightarrow> \<not> has_class ModelLoadError e"
  shows "fst (snd (deliver_message (run_asr w) m flag)) = []
    \<and> fst (snd (snd (deliver_message (run_asr w) m flag))) = flag"
proof (cases "aw_validate w (ms_payload m)")
  case (Inr request)
  let ?task = "effective_task w m request"
  have "\<not> has_class ModelLoadError e" if "gbind (awaits (aw_build w (at_model ?task))) (\<lambda>svc. asr_process svc False ?task) = (evs, Inl e)" for evs e
  proof (cases "aw_build w (at_model ?task)")
    case (Inl e')
    with that assms[OF Inl] show ?thesis by simp
  next
    case (Inr svc)
    with that asr_no_model_error[of svc False ?task e] show ?thesis by simp
  qed
  then show ?thesis by (auto simp: deliver_message_def run_asr_def Inr Let_def split: sum.splits prod.splits)
qed (simp add: deliver_message_def run_asr_def)

text \<open>What is queued for indexing is fit for it. The job a PDF task puts into the queue carries the
  user and the resource of its request and a document that passes the validation of the indexer, when the
  parser reads files with the PyMuPDF extractor and renders them for OCR with the renderer.\<close>

theorem index_job_accepted:
  assumes "ps_extract (pw_service w) = (\<lambda>pdf. pdf_extract repr installed (opened pdf))"
    and "pw_ocr w = Inr (Some (\<lambda>pdf. render_pages installed' (opened' pdf), recognize, n)) \<or> pw_ocr w = Inr None"
    and "job \<in> set (en_jobs (run_pdf_parse w m flag))"
  shows "\<exists>task document. pw_validate w (ms_payload m) = Inr task \<and> jb_user_id job = pt_user_id task
     \<and> jb_resource_id job = pt_resource_id task \<and> jb_source_type job = str ''pdf''
     \<and> jb_parsed job = PdfParsed document \<and> pdf_validate document = Inr document \<and> dc_resource_id document = pt_resource_id task"
proof -
  obtain svc where svc: "with_ocr w = Inr svc" "ps_extract svc = ps_extract (pw_service w)"
    "ps_ocr svc = None \<or> (\<exists>installed' opened' recognize n. ps_ocr svc = Some (\<lambda>pdf. render_pages installed' (opened' pdf), recognize, n))"
  proof (rule that)
    let ?ocr = "case pw_ocr w of Inr ocr \<Rightarrow> ocr | Inl e \<Rightarrow> None"
    show "with_ocr w = Inr ((pw_service w)\<lparr>ps_ocr := ?ocr\<rparr>)"
      "ps_extract ((pw_service w)\<lparr>ps_ocr := ?ocr\<rparr>) = ps_extract (pw_service w)"
      using assms(2) by (auto simp: with_ocr_def)
    show "ps_ocr ((pw_service w)\<lparr>ps_ocr := ?ocr\<rparr>) = None \<or> (\<exists>installed' opened' recognize n.
        ps_ocr ((pw_service w)\<lparr>ps_ocr := ?ocr\<rparr>) = Some (\<lambda>pdf. render_pages installed' (opened' pdf), recognize, n))"
      using assms(2) by (elim disjE) (simp_all, blast)
  qed
  obtain task document url where t: "pw_validate w (ms_payload m) = Inr task" "snd (parse svc False task) = Inr (document, url)"
    "job = \<lparr>jb_task_id = ms_task_id m, jb_user_id = pt_user_id task, jb_resource_id = pt_resource_id task,
       jb_source_type = str ''pdf'', jb_parsed = PdfParsed document\<rparr>"
    using assms(3) svc(1) by (auto simp: run_pdf_parse_def enqueue_def split: sum.splits prod.splits if_splits)
  have "document_wf document \<and> dc_resource_id document = pt_resource_id task"
    by (rule parsed_document_wf[OF _ svc(3) t(2)]) (simp add: svc(2) assms(1))
  with t show ?thesis using document_wf_valid by simp
qed

section \<open>Witnesses\<close>

definition demo_pdf_worker :: "(pystr, pystr) pdf_worker" where
  "demo_pdf_worker = \<lparr>pw_validate = (\<lambda>url. if url = [] then Inl (validation_error (str ''pdf_url'')) else Inr (demo_pdf_task\<lparr>pt_pdf_url := url\<rparr>)),
     pw_service = demo_pdf_service, pw_ocr = Inr None, pw_delay = (\<lambda>_. Inr ())\<rparr>"

definition demo_message :: "pystr \<Rightarrow> nat \<Rightarrow> pystr message" where
  "demo_message url retries = \<lparr>ms_task_id = str ''t1'', ms_payload = url, ms_retries = retries, ms_max_retries = 1\<rparr>"

definition demo_worker :: "bool \<Rightarrow> pystr message list \<Rightarrow> pdf_result report list \<Rightarrow> index_job list \<Rightarrow> (pystr, pdf_result) worker" where
  "demo_worker flag q rlog jobs = \<lparr>wk_flag = flag, wk_queue = q, wk_log = rlog, wk_jobs = jobs\<rparr>"

text \<open>A file without enough text fails, is retried once, and fails for good.\<close>

lemma demo_first_delivery: "\<exists>reports. deliver_message (run_pdf_parse demo_pdf_worker) (demo_message (str ''x'') 0) False = (reports, [demo_message (str ''x'') 1], False, [])"
  by (rule exI) code_simp

theorem pdf_worker_closes_all_witness:
  "\<exists>s'. (worker_step (run_pdf_parse demo_pdf_worker))\<^sup>*\<^sup>* (demo_worker False [demo_message (str ''x'') 0] [] []) s'
     \<and> wk_queue s' = [demo_message (str ''x'') 1] \<and> filter is_terminal (wk_log s') = []"
proof -
  obtain reports where d: "deliver_message (run_pdf_parse demo_pdf_worker) (demo_message (str ''x'') 0) False
      = (reports, [demo_message (str ''x'') 1], False, [])" using demo_first_delivery by blast
  let ?s = "demo_worker False [demo_message (str ''x'') 0] [] []"
  let ?s' = "demo_worker False [demo_message (str ''x'') 1] reports []"
  have "worker_step (run_pdf_parse demo_pdf_worker) ?s ?s'"
    using worker_step.work[of ?s "demo_message (str ''x'') 0" "[]" "run_pdf_parse demo_pdf_worker" reports _ False] d
    by (simp add: demo_worker_def)
  then have r: "(worker_step (run_pdf_parse demo_pdf_worker))\<^sup>*\<^sup>* ?s ?s'" by blast
  have "valid_queue demo_pdf_worker (wk_queue ?s)" by (simp add: valid_queue_def demo_worker_def demo_pdf_worker_def demo_message_def)
  from pdf_worker_closes_all[OF r this] have "filter is_terminal reports = []" by (simp add: demo_worker_def)
  with r show ?thesis by (auto simp: demo_worker_def)
qed

definition unloaded_model :: transcription where
  "unloaded_model = whisper_transcribe False (str ''small'') (Inr ()) (\<lambda>_ _ _. Inr ([], None)) (str ''wav'') None"

definition demo_asr_worker :: "(asr_task, pystr, pystr, unit) asr_worker" where
  "demo_asr_worker = \<lparr>aw_validate = Inr, aw_dump = id, aw_fallback_model = Some (str ''tiny''),
     aw_build = (\<lambda>name. Inr (demo_asr_service unloaded_model None)), aw_delay = (\<lambda>_. Inr ())\<rparr>"

theorem asr_never_retried_witness:
  "fst (snd (deliver_message (run_asr demo_asr_worker) \<lparr>ms_task_id = str ''t1'', ms_payload = demo_asr_task, ms_retries = 0, ms_max_retries = 3\<rparr> False)) = []
   \<and> as_transcribe (demo_asr_service unloaded_model None) [] None
       = ([], Some (raise_msg ModelLoadError (str ''faster-whisper is not installed'')))"
proof -
  have "\<not> has_class ModelLoadError e" if "aw_build demo_asr_worker name = Inl e" for name e
    using that by (simp add: demo_asr_worker_def)
  from asr_never_retried[of demo_asr_worker, OF this] show ?thesis
    by (simp add: demo_asr_service_def unloaded_model_def whisper_transcribe_def whisper_load_def)
qed

theorem index_job_accepted_witness:
  "\<exists>job. en_jobs (run_pdf_parse demo_pdf_worker (demo_message (str ''text'') 0) False) = [job]
     \<and> (\<exists>document. jb_parsed job = PdfParsed document \<and> pdf_validate document = Inr document)"
proof -
  have j: "en_jobs (run_pdf_parse demo_pdf_worker (demo_message (str ''text'') 0) False) =
      [\<lparr>jb_task_id = str ''t1'', jb_user_id = str ''u1'', jb_resource_id = str ''r1'', jb_source_type = str ''pdf'', jb_parsed = PdfParsed demo_pdf_document\<rparr>]"
    (is "_ = [?job]") by code_simp
  have "\<exists>task document. pw_validate demo_pdf_worker (ms_payload (demo_message (str ''text'') 0)) = Inr task \<and> jb_user_id ?job = pt_user_id task
     \<and> jb_resource_id ?job = pt_resource_id task \<and> jb_source_type ?job = str ''pdf''
     \<and> jb_parsed ?job = PdfParsed document \<and> pdf_validate document = Inr document \<and> dc_resource_id document = pt_resource_id task"
    by (rule index_job_accepted[where repr = "\<lambda>_. []" and installed = True and opened = demo_pdf and flag = False])
      (unfold j, simp_all add: demo_pdf_worker_def demo_pdf_service_def)
  with j show ?thesis by auto
qed

section \<open>Further behaviour\<close>

text \<open>
  A worker that has reported a final failure itself sets \<open>_failure_reported\<close>, and only a retry resets
  it: the next message with an invalid payload ends without any report.
\<close>

lemma final_failure_sets_flag:
  assumes "pw_validate w (ms_payload m) = Inr task" "with_ocr w = Inr svc" "snd (parse svc False task) = Inl e" "ms_max_retries m \<le> ms_retries m"
  shows "fst (snd (snd (deliver_message (run_pdf_parse w) m flag)))"
  using assms by (auto simp: deliver_message_def run_pdf_parse_def Let_def split: prod.splits)

lemma flag_silences_invalid_payload:
  assumes "pw_validate w (ms_payload m) = Inl e"
  shows "deliver_message (run_pdf_parse w) m True = ([], [], True, [])"
  using assms by (simp add: deliver_message_def run_pdf_parse_def Let_def)

end
