(* ===== verification/Gateway.thy ===== *)
theory Gateway
  imports Workers
begin

text \<open>
  The gateway's view of a task (\<open>gateway/internal/service/task_service.go\<close> and
  \<open>gateway/internal/handler/internal_task_handler.go\<close>): the table of tasks with their status, which
  reports it accepts, and the proof that the workers keep to its protocol. Every report is taken to arrive and the
  table to be written: deliveries that are lost and failures of the database, which the Go code returns as errors,
  are not modelled.
\<close>

section \<open>The table of tasks\<close>

datatype task_status = Pending | Running | Completed | Failed

fun canTransition :: "task_status \<Rightarrow> task_status \<Rightarrow> bool" where
  "canTransition Pending to = (to = Running)"
| "canTransition Running to = (to = Running \<or> to = Completed \<or> to = Failed)"
| "canTransition Failed to = (to = Running)"
| "canTransition Completed to = False"

record 'r gateway_task =
  gt_status :: task_status
  gt_progress :: int
  gt_result :: "'r option"
  gt_error_message :: pystr
  gt_retry_count :: int

datatype gateway_error = ValidationError | InvalidStateTransition | NotFound

text \<open>
  \<open>UpdateProgress\<close>: the request binding demands a value between 0 and 100, and (as \<open>required\<close>
  rejects the zero value) not 0.
\<close>

definition UpdateProgress :: "'r gateway_task \<Rightarrow> int \<Rightarrow> gateway_error + 'r gateway_task" where
  "UpdateProgress task progress =
     (if progress < 1 \<or> 100 < progress then Inl ValidationError
      else if gt_status task \<noteq> Running then Inl ValidationError
      else Inr (task\<lparr>gt_progress := progress\<rparr>))"

definition status_named :: "pystr \<Rightarrow> task_status option" where
  "status_named s = (if s = str ''running'' then Some Running else if s = str ''completed'' then Some Completed
     else if s = str ''failed'' then Some Failed else None)"

definition ProcessInternalStatusUpdate ::
  "'r gateway_task \<Rightarrow> pystr \<Rightarrow> 'r option \<Rightarrow> pystr option \<Rightarrow> int option \<Rightarrow> gateway_error + 'r gateway_task" where
  "ProcessInternalStatusUpdate task status result message attempts =
     (case status_named status of
        None \<Rightarrow> Inl ValidationError
      | Some to \<Rightarrow>
          if (case attempts of None \<Rightarrow> False | Some n \<Rightarrow> n < 0 \<or> 255 < n) then Inl ValidationError
          else if \<not> canTransition (gt_status task) to then Inl InvalidStateTransition
          else Inr (task\<lparr>gt_status := to,
                 gt_progress := (case to of Running \<Rightarrow> gt_progress task | Completed \<Rightarrow> 100 | _ \<Rightarrow> 0),
                 gt_result := result,
                 gt_error_message := (case message of Some m \<Rightarrow> if m = [] then gt_error_message task else m | None \<Rightarrow> gt_error_message task),
                 gt_retry_count := (case attempts of None \<Rightarrow> gt_retry_count task | Some n \<Rightarrow> n)\<rparr>))"

type_synonym 'r task_table = "pystr \<rightharpoonup> 'r gateway_task"

definition gateway_handle :: "'r task_table \<Rightarrow> 'r report \<Rightarrow> gateway_error + 'r task_table" where
  "gateway_handle g r =
     (case g (rp_task r) of
        None \<Rightarrow> Inl NotFound
      | Some task \<Rightarrow>
          (case (case r of Progress _ n _ \<Rightarrow> UpdateProgress task n
                         | Status _ s result message attempts \<Rightarrow> ProcessInternalStatusUpdate task s result message attempts) of
             Inl e \<Rightarrow> Inl e
           | Inr task' \<Rightarrow> Inr (g(rp_task r \<mapsto> task'))))"

text \<open>A rejected report leaves the table as it is (and the reporter drops the error).\<close>

definition receive :: "'r task_table \<Rightarrow> 'r report \<Rightarrow> 'r task_table" where
  "receive g r = (case gateway_handle g r of Inl e \<Rightarrow> g | Inr g' \<Rightarrow> g')"

fun accepted :: "'r task_table \<Rightarrow> 'r report list \<Rightarrow> bool" where
  "accepted g [] = True"
| "accepted g (r # rs) = ((is_progress r \<or> gateway_handle g r = Inr (receive g r)) \<and> accepted (receive g r) rs)"

section \<open>The protocol\<close>

text \<open>What clients see: each task has a status, which moves along the allowed transitions only.\<close>

type_synonym status_view = "pystr \<rightharpoonup> task_status"

inductive status_step :: "status_view \<Rightarrow> status_view \<Rightarrow> bool" where
  move: "\<lbrakk>v tid = Some st; canTransition st to\<rbrakk> \<Longrightarrow> status_step v (v(tid \<mapsto> to))"

definition view :: "'r task_table \<Rightarrow> status_view" where
  "view g tid = map_option gt_status (g tid)"

lemma view_update [simp]: "view (g(tid \<mapsto> task)) = (view g)(tid \<mapsto> gt_status task)"
  by (auto simp: view_def)

lemma receive_view: "status_step\<^sup>*\<^sup>* (view g) (view (receive g r))"
proof (cases "gateway_handle g r")
  case (Inr g')
  then obtain task where t: "g (rp_task r) = Some task" by (auto simp: gateway_handle_def split: option.splits)
  have same: "(view g)(rp_task r \<mapsto> gt_status task) = view g" using t by (auto simp: view_def)
  show ?thesis
  proof (cases r)
    case (Progress tid n s)
    with Inr t same have "view (receive g r) = view g"
      by (auto simp: receive_def gateway_handle_def UpdateProgress_def split: if_splits)
    then show ?thesis by simp
  next
    case (Status tid s result message attempts)
    with Inr t obtain to task' where "canTransition (gt_status task) to" "g' = g(tid \<mapsto> task')" "gt_status task' = to"
      by (auto simp: gateway_handle_def ProcessInternalStatusUpdate_def split: option.splits if_splits)
    with Inr t Status have "status_step (view g) (view (receive g r))"
      by (auto simp: receive_def intro!: status_step.move) (simp add: view_def)
    then show ?thesis by blast
  qed
qed (simp add: receive_def)

lemma replay_view: "status_step\<^sup>*\<^sup>* (view g) (view (foldl receive g rs))"
  by (induction rs arbitrary: g) (auto intro: rtranclp_trans receive_view)

section \<open>Deliveries\<close>

definition attempt_ok :: "int option \<Rightarrow> bool" where
  "attempt_ok a = (case a of None \<Rightarrow> True | Some n \<Rightarrow> 0 \<le> n \<and> n \<le> 255)"

definition running_of :: "pystr \<Rightarrow> 'r report \<Rightarrow> bool" where
  "running_of tid r = (case r of Status t s res msg a \<Rightarrow> t = tid \<and> s = str ''running'' \<and> attempt_ok a | _ \<Rightarrow> False)"

definition closing_of :: "pystr \<Rightarrow> 'r report \<Rightarrow> bool" where
  "closing_of tid r = (case r of Status t s res msg a \<Rightarrow> t = tid \<and> (s = str ''completed'' \<or> s = str ''failed'') \<and> attempt_ok a | _ \<Rightarrow> False)"

text \<open>
  The reports of one delivery: that the task runs, its progress, and at the end that it runs again (when the
  message goes back into the queue) or that it is closed.
\<close>

definition delivery_log :: "pystr \<Rightarrow> bool \<Rightarrow> 'r report list \<Rightarrow> bool" where
  "delivery_log tid again reports \<longleftrightarrow> (\<exists>first mids final. reports = first # mids @ [final] \<and> running_of tid first
     \<and> list_all (\<lambda>r. is_progress r \<and> rp_task r = tid) mids \<and> (if again then running_of tid final else closing_of tid final))"

definition status_of :: "'r task_table \<Rightarrow> pystr \<Rightarrow> task_status option" where
  "status_of g tid = map_option gt_status (g tid)"

definition open_task :: "'r task_table \<Rightarrow> pystr \<Rightarrow> bool" where
  "open_task g tid \<longleftrightarrow> status_of g tid \<in> {Some Pending, Some Running}"

definition closed_task :: "'r task_table \<Rightarrow> pystr \<Rightarrow> bool" where
  "closed_task g tid \<longleftrightarrow> status_of g tid \<in> {Some Completed, Some Failed}"

lemma receive_other: "tid \<noteq> rp_task r \<Longrightarrow> receive g r tid = g tid"
  by (auto simp: receive_def gateway_handle_def split: option.splits sum.splits)

lemma receive_running:
  assumes "running_of tid r" "open_task g tid"
  shows "gateway_handle g r = Inr (receive g r) \<and> status_of (receive g r) tid = Some Running"
  using assms
  by (auto simp: running_of_def open_task_def status_of_def receive_def gateway_handle_def ProcessInternalStatusUpdate_def
      status_named_def attempt_ok_def split: report.splits option.splits if_splits)

lemma receive_closing:
  assumes "closing_of tid r" "status_of g tid = Some Running"
  shows "gateway_handle g r = Inr (receive g r) \<and> closed_task (receive g r) tid"
  using assms
  by (auto simp: closing_of_def closed_task_def status_of_def receive_def gateway_handle_def ProcessInternalStatusUpdate_def
      status_named_def attempt_ok_def split: report.splits option.splits if_splits)

lemma receive_progress:
  assumes "is_progress r" "status_of g tid = Some Running"
  shows "status_of (receive g r) tid = Some Running"
  using assms
  by (cases r) (auto simp: status_of_def receive_def gateway_handle_def UpdateProgress_def split: option.splits if_splits)

lemma accepted_append: "accepted g (rs @ rs') \<longleftrightarrow> accepted g rs \<and> accepted (foldl receive g rs) rs'"
  by (induction rs arbitrary: g) auto

lemma replay_progress:
  assumes "list_all (\<lambda>r. is_progress r \<and> rp_task r = tid) rs" "status_of g tid = Some Running"
  shows "accepted g rs \<and> status_of (foldl receive g rs) tid = Some Running"
  using assms by (induction rs arbitrary: g) (auto simp: receive_progress)

lemma replay_other: "list_all (\<lambda>r. rp_task r = tid) rs \<Longrightarrow> tid' \<noteq> tid \<Longrightarrow> foldl receive g rs tid' = g tid'"
  by (induction rs arbitrary: g) (auto simp: receive_other)

lemma running_of_task: "running_of tid r \<Longrightarrow> rp_task r = tid"
  by (cases r) (simp_all add: running_of_def)

lemma closing_of_task: "closing_of tid r \<Longrightarrow> rp_task r = tid"
  by (cases r) (simp_all add: closing_of_def)

lemma delivery_log_task: "delivery_log tid again rs \<Longrightarrow> list_all (\<lambda>r. rp_task r = tid) rs"
  by (auto simp: delivery_log_def list_all_iff dest: running_of_task closing_of_task split: if_splits)

lemma delivery_replay:
  assumes "delivery_log tid again rs" "open_task g tid"
  shows "accepted g rs \<and> (if again then open_task (foldl receive g rs) tid else closed_task (foldl receive g rs) tid)"
proof -
  obtain first mids final where r: "rs = first # mids @ [final]" "running_of tid first"
    "list_all (\<lambda>r. is_progress r \<and> rp_task r = tid) mids" "if again then running_of tid final else closing_of tid final"
    using assms(1) by (auto simp: delivery_log_def)
  let ?g1 = "receive g first" and ?g2 = "foldl receive (receive g first) mids"
  have 1: "gateway_handle g first = Inr ?g1" "status_of ?g1 tid = Some Running"
    using receive_running[OF r(2) assms(2)] by blast+
  have 2: "accepted ?g1 mids" "status_of ?g2 tid = Some Running" using replay_progress[OF r(3) 1(2)] by blast+
  have "gateway_handle ?g2 final = Inr (receive ?g2 final)
    \<and> (if again then open_task (receive ?g2 final) tid else closed_task (receive ?g2 final) tid)"
    using r(4) 2(2) receive_running[of tid final ?g2] receive_closing[of tid final ?g2] by (auto simp: open_task_def)
  with 1 2 r(1) show ?thesis by (simp add: accepted_append)
qed

section \<open>Workers that keep to the protocol\<close>

text \<open>
  The worker and the gateway: the queued messages are valid and for different tasks, which are open at the
  gateway; and each of the given tasks is still queued or closed.
\<close>

definition in_step :: "('q message \<Rightarrow> bool) \<Rightarrow> (bool \<Rightarrow> bool) \<Rightarrow> pystr set \<Rightarrow> ('q, 'r) worker \<Rightarrow> 'r task_table \<Rightarrow> bool" where
  "in_step valid good T s g \<longleftrightarrow> good (wk_flag s) \<and> distinct (map ms_task_id (wk_queue s))
     \<and> list_all (\<lambda>m. valid m \<and> open_task g (ms_task_id m)) (wk_queue s)
     \<and> T \<subseteq> ms_task_id ` set (wk_queue s) \<union> {tid. closed_task g tid}"

text \<open>
  The contract of a task body: on a valid message, with the flag of the worker process in a good state, a
  delivery reports as it should, and a message it asks to be sent again is for the same task and valid.
\<close>

locale protocol_task =
  fixes body :: "('q, 'r) body"
    and valid :: "'q message \<Rightarrow> bool"
    and good :: "bool \<Rightarrow> bool"
  assumes delivery: "\<lbrakk>valid m; good flag; deliver_message body m flag = (reports, again, flag', jobs)\<rbrakk> \<Longrightarrow>
      good flag' \<and> delivery_log (ms_task_id m) (again \<noteq> []) reports
      \<and> (again = [] \<or> (\<exists>m'. again = [m'] \<and> ms_task_id m' = ms_task_id m \<and> valid m'))"
begin

lemma simulation:
  assumes "worker_step body s s'" "in_step valid good T s g"
  shows "\<exists>reports. wk_log s' = wk_log s @ reports \<and> accepted g reports \<and> in_step valid good T s' (foldl receive g reports)"
  using assms(1)
proof cases
  case (work m q reports again flag jobs)
  have q: "valid m" "open_task g (ms_task_id m)" "good (wk_flag s)" "ms_task_id m \<notin> ms_task_id ` set q" "distinct (map ms_task_id q)"
    "list_all (\<lambda>m. valid m \<and> open_task g (ms_task_id m)) q" "T \<subseteq> insert (ms_task_id m) (ms_task_id ` set q) \<union> {tid. closed_task g tid}"
    using assms(2) by (auto simp: in_step_def work(2))
  have d: "good flag" "delivery_log (ms_task_id m) (again \<noteq> []) reports"
    "again = [] \<or> (\<exists>m'. again = [m'] \<and> ms_task_id m' = ms_task_id m \<and> valid m')"
    using delivery[OF q(1,3) work(3)] by blast+
  let ?g = "foldl receive g reports"
  have a: "accepted g reports" "if again = [] then closed_task ?g (ms_task_id m) else open_task ?g (ms_task_id m)"
    using delivery_replay[OF d(2) q(2)] by (auto split: if_splits)
  have other: "open_task ?g tid = open_task g tid" "closed_task ?g tid = closed_task g tid" if "tid \<noteq> ms_task_id m" for tid
    using replay_other[OF delivery_log_task[OF d(2)] that, of g] by (simp_all add: open_task_def closed_task_def status_of_def)
  have "list_all (\<lambda>m. valid m \<and> open_task ?g (ms_task_id m)) q"
    unfolding list_all_iff
  proof (intro ballI)
    fix m'
    assume "m' \<in> set q"
    with q(4,6) other(1)[of "ms_task_id m'"] show "valid m' \<and> open_task ?g (ms_task_id m')"
      by (auto simp: list_all_iff image_iff)
  qed
  moreover have "t \<in> ms_task_id ` set (q @ again) \<union> {tid. closed_task ?g tid}" if "t \<in> T" for t
    using that q(7) other(2)[of t] a(2) d(3) by (cases "t = ms_task_id m") (auto split: if_splits)
  ultimately have "in_step valid good T s' ?g"
    using d(1,3) a(2) q(4,5) by (auto simp: in_step_def work(1) image_iff split: if_splits)
  with a(1) show ?thesis by (auto simp: work(1))
qed

lemma run_simulation:
  assumes "(worker_step body)\<^sup>*\<^sup>* s s'" "in_step valid good T s g"
  shows "\<exists>reports. wk_log s' = wk_log s @ reports \<and> accepted g reports \<and> in_step valid good T s' (foldl receive g reports)"
  using assms(1)
proof (induction rule: rtranclp_induct)
  case base
  then show ?case using assms(2) by (intro exI[of _ "[]"]) simp
next
  case (step t u)
  then obtain reports where r: "wk_log t = wk_log s @ reports" "accepted g reports" "in_step valid good T t (foldl receive g reports)" by blast
  from simulation[OF step(2) r(3)] obtain reports' where "wk_log u = wk_log t @ reports'" "accepted (foldl receive g reports) reports'"
    "in_step valid good T u (foldl receive (foldl receive g reports) reports')" by blast
  with r show ?case by (intro exI[of _ "reports @ reports'"]) (simp add: accepted_append)
qed

end

lemma progress_of_task: "list_all (\<lambda>r. is_progress r \<and> rp_task r = tid) (map (running tid) ns)"
  by (auto simp: running_def list_all_iff)

lemma silent_parse_reports: "list_all (\<lambda>r. is_progress r \<and> rp_task r = pt_task_id task) (fst (parse svc False task))"
proof -
  obtain pre ns where "fst (parse_body svc False task) = (if pre then mark_status False (Status (pt_task_id task) (str ''running'') None None None) else [])
       @ map (running (pt_task_id task)) ns"
    using parse_body_shape by metis
  then have "fst (parse svc False task) = map (running (pt_task_id task)) ns" by (simp add: fst_parse mark_status_def)
  then show ?thesis using progress_of_task by metis
qed

lemma silent_asr_reports: "list_all (\<lambda>r. is_progress r \<and> rp_task r = at_task_id task) (fst (asr_process svc False task))"
proof -
  obtain ns where "fst (process_body svc False task) = mark_status False (Status (at_task_id task) (str ''running'') None None None)
       @ map (running (at_task_id task)) ns"
    using process_body_shape by metis
  then have "fst (asr_process svc False task) = map (running (at_task_id task)) ns" by (simp add: fst_process mark_status_def)
  then show ?thesis using progress_of_task by metis
qed

text \<open>
  Valid messages: the payload is accepted, it is for the task of the message, and the attempt count fits the
  gateway's 8-bit field.
\<close>

definition pdf_message_ok :: "('q, 'f) pdf_worker \<Rightarrow> 'q message \<Rightarrow> bool" where
  "pdf_message_ok w m \<longleftrightarrow> (\<exists>task. pw_validate w (ms_payload m) = Inr task \<and> pt_task_id task = ms_task_id m)
     \<and> ms_retries m \<le> ms_max_retries m \<and> ms_max_retries m < 255"

definition asr_message_ok :: "('q, 'f, 'w, 'p) asr_worker \<Rightarrow> 'q message \<Rightarrow> bool" where
  "asr_message_ok w m \<longleftrightarrow> (\<exists>task. aw_validate w (ms_payload m) = Inr task \<and> at_task_id task = ms_task_id m)
     \<and> ms_retries m < 255 \<and> (\<forall>name e. aw_build w name = Inl e \<longrightarrow> \<not> has_class ModelLoadError e)"

lemma delivery_logs:
  assumes "list_all (\<lambda>r. is_progress r \<and> rp_task r = ms_task_id m) evs" "ms_retries m < 255"
  shows "delivery_log (ms_task_id m) True (running_report m # evs @ on_retry m)"
    "delivery_log (ms_task_id m) False (running_report m # evs @ on_success m r)"
    "delivery_log (ms_task_id m) False (running_report m # evs @ on_failure False m e)"
    "delivery_log (ms_task_id m) False (running_report m # evs @ [failed_report m e])"
  using assms
  by (auto simp: delivery_log_def on_retry_def on_success_def on_failure_def failed_report_def running_report_def
      running_of_def closing_of_def attempt_ok_def attempt_count_def)

interpretation pdf_protocol: protocol_task "run_pdf_parse w" "pdf_message_ok w" "\<lambda>_. True" for w
proof (unfold_locales, intro conjI TrueI)
  fix m flag reports again flag' jobs
  assume ok: "pdf_message_ok w m" and d: "deliver_message (run_pdf_parse w) m flag = (reports, again, flag', jobs)"
  obtain task where t: "pw_validate w (ms_payload m) = Inr task" "pt_task_id task = ms_task_id m" "ms_retries m < 255"
    using ok by (auto simp: pdf_message_ok_def)
  obtain evs r where g: "gbind (awaits (with_ocr w)) (\<lambda>svc. parse svc False task) = (evs, r)" by fastforce
  have evs: "list_all (\<lambda>r. is_progress r \<and> rp_task r = ms_task_id m) evs"
  proof (cases "with_ocr w")
    case (Inr svc)
    with g silent_parse_reports[of task svc] t(2) show ?thesis by simp
  qed (use g in auto)
  note D = d[unfolded deliver_message_def run_pdf_parse_def t(1) Let_def sum.case g]
  show "delivery_log (ms_task_id m) (again \<noteq> []) reports"
    using D by (cases r) (auto simp: delivery_logs[OF evs t(3)] split: if_splits)
  show "again = [] \<or> (\<exists>m'. again = [m'] \<and> ms_task_id m' = ms_task_id m \<and> pdf_message_ok w m')"
    using D ok by (cases r) (auto simp: pdf_message_ok_def split: if_splits)
qed

interpretation asr_protocol: protocol_task "run_asr w" "asr_message_ok w" Not for w
proof (unfold_locales, intro conjI)
  fix m flag reports again flag' jobs
  assume ok: "asr_message_ok w m" and flag: "\<not> flag" and d: "deliver_message (run_asr w) m flag = (reports, again, flag', jobs)"
  obtain request where t: "aw_validate w (ms_payload m) = Inr request" "at_task_id request = ms_task_id m" "ms_retries m < 255"
    "\<And>name e. aw_build w name = Inl e \<Longrightarrow> \<not> has_class ModelLoadError e"
    using ok by (auto simp: asr_message_ok_def)
  let ?task = "effective_task w m request"
  obtain evs r where g: "gbind (awaits (aw_build w (at_model ?task))) (\<lambda>svc. asr_process svc False ?task) = (evs, r)" by fastforce
  have tid: "at_task_id ?task = ms_task_id m" by (simp add: effective_task_def t(2))
  have evs: "list_all (\<lambda>r. is_progress r \<and> rp_task r = ms_task_id m) evs"
  proof (cases "aw_build w (at_model ?task)")
    case (Inr svc)
    with g silent_asr_reports[of ?task svc] tid show ?thesis by simp
  qed (use g in auto)
  have e: "\<not> has_class ModelLoadError e" if "r = Inl e" for e
  proof (cases "aw_build w (at_model ?task)")
    case (Inl e')
    with g that t(4)[OF Inl] show ?thesis by simp
  next
    case (Inr svc)
    with g that asr_no_model_error[of svc False ?task e] show ?thesis by simp
  qed
  note D = d[unfolded deliver_message_def run_asr_def t(1) Let_def sum.case g]
  show "\<not> flag'" using D e flag by (cases r) auto
  show "delivery_log (ms_task_id m) (again \<noteq> []) reports"
    using D e flag by (cases r) (auto simp: delivery_logs[OF evs t(3)])
  show "again = [] \<or> (\<exists>m'. again = [m'] \<and> ms_task_id m' = ms_task_id m \<and> asr_message_ok w m')"
    using D e by (cases r) auto
qed

section \<open>Properties\<close>

text \<open>C20: PDF workers implement the gateway's protocol. As long as a worker and the gateway are in step, every run
  of the worker is matched by the gateway: it accepts every status report, the statuses that clients see move
  along the allowed transitions only, and worker and gateway are in step again.\<close>

theorem pdf_worker_refines_gateway:
  assumes "in_step (pdf_message_ok w) (\<lambda>_. True) T s g" "(worker_step (run_pdf_parse w))\<^sup>*\<^sup>* s s'"
  shows "\<exists>reports. wk_log s' = wk_log s @ reports \<and> accepted g reports
     \<and> status_step\<^sup>*\<^sup>* (view g) (view (foldl receive g reports))
     \<and> in_step (pdf_message_ok w) (\<lambda>_. True) T s' (foldl receive g reports)"
  using pdf_protocol.run_simulation[OF assms(2,1)] replay_view by blast

text \<open>C21: every queued PDF task is closed at the gateway. A worker in step with the gateway can always finish its
  queue, and whenever the queue is empty, the gateway has every task that was queued as completed or failed.\<close>

theorem pdf_tasks_closed_at_gateway:
  assumes "in_step (pdf_message_ok w) (\<lambda>_. True) (ms_task_id ` set (wk_queue s)) s g"
  shows "\<exists>s' reports. (worker_step (run_pdf_parse w))\<^sup>*\<^sup>* s s' \<and> wk_queue s' = [] \<and> wk_log s' = wk_log s @ reports
     \<and> list_all (\<lambda>m. closed_task (foldl receive g reports) (ms_task_id m)) (wk_queue s)"
proof -
  obtain s' where s': "(worker_step (run_pdf_parse w))\<^sup>*\<^sup>* s s'" "wk_queue s' = []" using pdf_worker.drains by blast
  from pdf_protocol.run_simulation[OF s'(1) assms] obtain reports where r: "wk_log s' = wk_log s @ reports"
    "in_step (pdf_message_ok w) (\<lambda>_. True) (ms_task_id ` set (wk_queue s)) s' (foldl receive g reports)" by blast
  from r(2) s'(2) have "list_all (\<lambda>m. closed_task (foldl receive g reports) (ms_task_id m)) (wk_queue s)"
    by (auto simp: in_step_def list_all_iff)
  with s' r(1) show ?thesis by blast
qed

text \<open>The same for transcription.\<close>

theorem asr_worker_refines_gateway:
  assumes "in_step (asr_message_ok w) Not T s g" "(worker_step (run_asr w))\<^sup>*\<^sup>* s s'"
  shows "\<exists>reports. wk_log s' = wk_log s @ reports \<and> accepted g reports
     \<and> status_step\<^sup>*\<^sup>* (view g) (view (foldl receive g reports))
     \<and> in_step (asr_message_ok w) Not T s' (foldl receive g reports)"
  using asr_protocol.run_simulation[OF assms(2,1)] replay_view by blast

section \<open>Witnesses\<close>

definition pending_task :: "'r gateway_task" where
  "pending_task = \<lparr>gt_status = Pending, gt_progress = 0, gt_result = None, gt_error_message = [], gt_retry_count = 0\<rparr>"

definition demo_table :: "'r task_table" where
  "demo_table = [str ''t1'' \<mapsto> pending_task]"

lemma demo_in_step: "in_step (pdf_message_ok demo_pdf_worker) (\<lambda>_. True) {str ''t1''} (demo_worker False [demo_message (str ''text'') 0] [] []) demo_table"
  by (simp add: in_step_def demo_worker_def demo_message_def pdf_message_ok_def demo_pdf_worker_def demo_pdf_task_def open_task_def
      status_of_def demo_table_def pending_task_def)

theorem pdf_worker_refines_gateway_witness:
  "\<exists>s' reports. (worker_step (run_pdf_parse demo_pdf_worker))\<^sup>*\<^sup>* (demo_worker False [demo_message (str ''text'') 0] [] []) s'
     \<and> wk_queue s' = [] \<and> wk_log s' = reports \<and> accepted demo_table reports
     \<and> status_step\<^sup>*\<^sup>* (view (demo_table :: pdf_result task_table)) (view (foldl receive demo_table reports))"
proof -
  obtain s' where s': "(worker_step (run_pdf_parse demo_pdf_worker))\<^sup>*\<^sup>* (demo_worker False [demo_message (str ''text'') 0] [] []) s'" "wk_queue s' = []"
    using pdf_worker.drains by blast
  from pdf_worker_refines_gateway[OF demo_in_step s'(1)] s' show ?thesis by (auto simp: demo_worker_def)
qed

theorem pdf_tasks_closed_at_gateway_witness:
  "\<exists>s' reports. (worker_step (run_pdf_parse demo_pdf_worker))\<^sup>*\<^sup>* (demo_worker False [demo_message (str ''text'') 0] [] []) s'
     \<and> wk_queue s' = [] \<and> wk_log s' = reports \<and> closed_task (foldl receive demo_table reports) (str ''t1'')"
  using pdf_tasks_closed_at_gateway[of demo_pdf_worker "demo_worker False [demo_message (str ''text'') 0] [] []" demo_table] demo_in_step
  by (simp add: demo_worker_def demo_message_def)

section \<open>Further behaviour\<close>

text \<open>A task whose payload is invalid is never reported as running, so its failure is rejected and it stays pending.\<close>

lemma invalid_payload_stays_pending:
  assumes "pw_validate w (ms_payload m) = Inl e" "status_of g (ms_task_id m) = Some Pending"
    and "deliver_message (run_pdf_parse w) m flag = (reports, again, flag', jobs)"
  shows "status_of (foldl receive g reports) (ms_task_id m) = Some Pending \<and> again = []"
  using assms
  by (auto simp: deliver_message_def run_pdf_parse_def Let_def on_failure_def receive_def gateway_handle_def
      ProcessInternalStatusUpdate_def status_of_def status_named_def split: if_splits option.splits)

text \<open>A progress of 0, which OCR reports for the first pages of a long file, is rejected.\<close>

lemma zero_progress_rejected: "UpdateProgress task 0 = Inl ValidationError"
  by (simp add: UpdateProgress_def)

lemma long_scan_reports_zero: "ocr_progress \<lparr>rd_page_number = 1, rd_total_pages = 200\<rparr> = [0]"
  by (simp add: ocr_progress_def py_trunc_def floor_eq_iff)

end
