(* ===== verification/Tag_Extraction.thy ===== *)
theory Tag_Extraction
  imports Summary
begin

text \<open>
  Tags and entities (\<open>app/services/extraction\<close>): the normalizer, the resolver, the rule provider with its
  patterns, the LLM provider with its reply parser, and the service. \<open>str.lower\<close> is a parameter where texts
  of any script are compared; the LLM client and \<open>json.loads\<close> are parameters.
\<close>

section \<open>Data model\<close>

record entity =
  ent_entity :: pystr
  ent_type :: pystr
  ent_mention :: pystr
  ent_source :: pystr

record extraction_result =
  xr_tags :: "pystr list"
  xr_entities :: "entity list"
  xr_source :: pystr

record extraction_response =
  xp_resource_id :: pystr
  xp_tags :: "(pystr \<times> pystr) list"
  xp_entities :: "entity list"
  xp_source :: pystr
  xp_fallback :: bool

definition ALLOWED_TYPES :: "pystr list" where
  "ALLOWED_TYPES = [str ''PERSON'', str ''ORG'', str ''DATE'', str ''LOC'', str ''GPE'', str ''MISC'']"

text \<open>
  \<open>str.upper\<close> for comparisons with ASCII strings: ASCII letters, and the characters whose upper case
  is made of ASCII letters.
\<close>

definition upper_char :: "int \<Rightarrow> pystr" where
  "upper_char c = (if 97 \<le> c \<and> c \<le> 122 then [c - 32] else if c = 0x131 then [73] else if c = 0x17F then [83]
     else if c = 0xDF then [83, 83] else if c = 0xFB00 then [70, 70] else if c = 0xFB01 then [70, 73]
     else if c = 0xFB02 then [70, 76] else if c = 0xFB03 then [70, 70, 73] else if c = 0xFB04 then [70, 70, 76]
     else if c = 0xFB05 \<or> c = 0xFB06 then [83, 84] else [c])"

definition py_upper :: "pystr \<Rightarrow> pystr" where
  "py_upper s = concat (map upper_char s)"

section \<open>Tag normalizer\<close>

definition SYNONYM_MAP :: "(pystr \<times> pystr) list" where
  "SYNONYM_MAP = [(str ''ai'', [0x4EBA, 0x5DE5, 0x667A, 0x80FD]), (str ''artificial intelligence'',
    [0x4EBA, 0x5DE5, 0x667A, 0x80FD]), (str ''ml'', [0x673A, 0x5668, 0x5B66, 0x4E60]),
     (str ''machine learning'', [0x673A, 0x5668, 0x5B66, 0x4E60]), (str ''nlp'', [0x81EA, 0x7136,
       0x8BED, 0x8A00, 0x5904, 0x7406])]"

record tag_normalizer =
  tn_max_count :: int
  tn_lowercase :: bool
  tn_synonyms :: "(pystr \<times> pystr) list"

definition tag_normalizer_init :: "int option \<Rightarrow> bool option \<Rightarrow> bool option \<Rightarrow> tag_normalizer" where
  "tag_normalizer_init max_count lowercase synonym_merge =
     \<lparr>tn_max_count = (case max_count of Some n \<Rightarrow> n | None \<Rightarrow> 10), tn_lowercase = (lowercase = Some True),
      tn_synonyms = (if synonym_merge = Some False then [] else SYNONYM_MAP)\<rparr>"

definition canonical_tag :: "(pystr \<Rightarrow> pystr) \<Rightarrow> tag_normalizer \<Rightarrow> pystr \<Rightarrow> pystr" where
  "canonical_tag lower tn tag =
     (let merged = (case map_of (tn_synonyms tn) (lower tag) of Some t \<Rightarrow> t | None \<Rightarrow> tag)
      in if tn_lowercase tn then lower merged else merged)"

fun normalize_loop :: "(pystr \<Rightarrow> pystr) \<Rightarrow> tag_normalizer \<Rightarrow> pystr set \<Rightarrow> nat \<Rightarrow> pystr list \<Rightarrow> pystr list" where
  "normalize_loop lower tn seen n [] = []"
| "normalize_loop lower tn seen n (raw # raws) =
     (if py_strip raw = [] then normalize_loop lower tn seen n raws
      else let tag = canonical_tag lower tn (py_strip raw)
           in if lower tag \<in> seen then normalize_loop lower tn seen n raws
              else tag # (if tn_max_count tn \<le> int (n + 1) then []
                          else normalize_loop lower tn (insert (lower tag) seen) (n + 1) raws))"

definition normalize_tags :: "(pystr \<Rightarrow> pystr) \<Rightarrow> tag_normalizer \<Rightarrow> pystr list \<Rightarrow> pystr list" where
  "normalize_tags lower tn tags = normalize_loop lower tn {} 0 tags"

section \<open>Entity resolver\<close>

definition entity_key :: "(pystr \<Rightarrow> pystr) \<Rightarrow> entity \<Rightarrow> pystr \<times> pystr \<times> pystr" where
  "entity_key lower item = (lower (py_strip (ent_entity item)), py_upper (ent_type item), lower (py_strip (ent_mention item)))"

fun resolve_loop :: "(pystr \<Rightarrow> pystr) \<Rightarrow> (pystr \<times> pystr \<times> pystr) set \<Rightarrow> entity list \<Rightarrow> entity list" where
  "resolve_loop lower seen [] = []"
| "resolve_loop lower seen (item # items) =
     (if blank (ent_entity item) \<or> blank (ent_mention item) \<or> py_upper (ent_type item) \<notin> set ALLOWED_TYPES
      then resolve_loop lower seen items
      else if entity_key lower item \<in> seen then resolve_loop lower seen items
      else item\<lparr>ent_entity := py_strip (ent_entity item), ent_mention := py_strip (ent_mention item)\<rparr>
           # resolve_loop lower (insert (entity_key lower item) seen) items)"

definition resolve_entities :: "(pystr \<Rightarrow> pystr) \<Rightarrow> entity list \<Rightarrow> entity list" where
  "resolve_entities lower entities = resolve_loop lower {} entities"

section \<open>Rule provider\<close>

text \<open>
  A pattern is given by the length of its match at the start of a string; \<open>finditer\<close> scans for matches
  from left to right.
\<close>

type_synonym matcher = "pystr \<Rightarrow> nat option"

function finditer :: "matcher \<Rightarrow> pystr \<Rightarrow> pystr list" where
  "finditer match [] = []"
| "finditer match (c # cs) = (case match (c # cs) of
     Some (Suc n) \<Rightarrow> take (Suc n) (c # cs) # finditer match (drop n cs)
   | _ \<Rightarrow> finditer match cs)"
  by pat_completeness auto
termination
  by (relation "measure (\<lambda>(m, s). length s)") auto

definition or_else :: "matcher \<Rightarrow> matcher \<Rightarrow> matcher" where
  "or_else m m' s = (case m s of Some n \<Rightarrow> Some n | None \<Rightarrow> m' s)"

definition any_of :: "pystr list \<Rightarrow> matcher" where
  "any_of words s = map_option length (find (\<lambda>w. prefix w s) words)"

text \<open>Between \<open>lo\<close> and \<open>hi\<close> digits and then the character \<open>c\<close>; the digits cannot be followed by it otherwise.\<close>

definition digits_then :: "nat \<Rightarrow> nat \<Rightarrow> int \<Rightarrow> matcher" where
  "digits_then lo hi c s =
     (let k = length (takeWhile is_digit s)
      in if lo \<le> k \<and> k \<le> hi \<and> (case drop k s of d # _ \<Rightarrow> d = c | [] \<Rightarrow> False) then Some (k + 1) else None)"

definition and_then :: "matcher \<Rightarrow> matcher \<Rightarrow> matcher" where
  "and_then m m' s = (case m s of None \<Rightarrow> None | Some k \<Rightarrow> map_option (\<lambda>n. k + n) (m' (drop k s)))"

definition optionally :: "matcher \<Rightarrow> matcher" where
  "optionally m s = (case m s of None \<Rightarrow> Some 0 | Some n \<Rightarrow> Some n)"

definition up_to_digits :: "nat \<Rightarrow> matcher" where
  "up_to_digits hi s = (let k = min hi (length (takeWhile is_digit s)) in if k = 0 then None else Some k)"

definition match_date :: matcher where
  "match_date = or_else
     (and_then (digits_then 4 4 0x5E74) (and_then (digits_then 1 2 0x6708) (optionally (digits_then 1 2 0x65E5))))
     (and_then (digits_then 4 4 45) (and_then (digits_then 1 2 45) (up_to_digits 2)))"

definition org_char :: "int \<Rightarrow> bool" where
  "org_char c \<longleftrightarrow> (0x4E00 \<le> c \<and> c \<le> 0x9FA5) \<or> (65 \<le> c \<and> c \<le> 90) \<or> (97 \<le> c \<and> c \<le> 122) \<or> (48 \<le> c \<and> c \<le> 57)"

definition org_suffixes :: "pystr list" where
  "org_suffixes = [[0x516C, 0x53F8], [0x5927, 0x5B66], [0x5B66, 0x9662], [0x7814, 0x7A76, 0x9662],
    [0x96C6, 0x56E2]]"

text \<open>The greedy repetition takes as many characters as it can and gives back until a suffix follows.\<close>

fun longest_before :: "matcher \<Rightarrow> pystr \<Rightarrow> nat \<Rightarrow> nat option" where
  "longest_before m s 0 = None"
| "longest_before m s (Suc k) = (case m (drop (Suc k) s) of Some n \<Rightarrow> Some (Suc k + n) | None \<Rightarrow> longest_before m s k)"

definition match_org :: matcher where
  "match_org = or_else (\<lambda>s. longest_before (any_of org_suffixes) s (length (takeWhile org_char s)))
     (any_of [str ''OpenAI'', str ''Google'', str ''Microsoft''])"

definition match_gpe :: matcher where
  "match_gpe = any_of [[0x5317, 0x4EAC], [0x4E0A, 0x6D77], [0x6DF1, 0x5733], [0x5E7F, 0x5DDE],
    [0x676D, 0x5DDE], [0x4E2D, 0x56FD], [0x7F8E, 0x56FD], [0x65E5, 0x672C], [0x6B27, 0x6D32]]"

definition han_char :: "int \<Rightarrow> bool" where
  "han_char c \<longleftrightarrow> 0x4E00 \<le> c \<and> c \<le> 0x9FA5"

definition letter_char :: "int \<Rightarrow> bool" where
  "letter_char c \<longleftrightarrow> (65 \<le> c \<and> c \<le> 90) \<or> (97 \<le> c \<and> c \<le> 122)"

definition match_word :: matcher where
  "match_word = or_else
     (\<lambda>s. let k = min 6 (length (takeWhile han_char s)) in if 2 \<le> k then Some k else None)
     (\<lambda>s. case s of
        [] \<Rightarrow> None
      | c # cs \<Rightarrow> (let k = length (takeWhile (\<lambda>d. letter_char d \<or> (48 \<le> d \<and> d \<le> 57) \<or> d = 95 \<or> d = 45) cs)
                   in if letter_char c \<and> 2 \<le> k then Some (k + 1) else None))"

definition KNOWN_KEYWORDS :: "pystr list" where
  "KNOWN_KEYWORDS = [[0x4EBA, 0x5DE5, 0x667A, 0x80FD], [0x673A, 0x5668, 0x5B66, 0x4E60], [0x6DF1,
    0x5EA6, 0x5B66, 0x4E60], [0x795E, 0x7ECF, 0x7F51, 0x7EDC], [0x81EA, 0x7136, 0x8BED, 0x8A00,
    0x5904, 0x7406], [0x6A21, 0x578B, 0x8BAD, 0x7EC3], [0x6570, 0x636E, 0x96C6], [0x53C2, 0x6570,
    0x8C03, 0x4F18], [0x8FC7, 0x62DF, 0x5408]]"

definition STOPWORDS :: "pystr list" where
  "STOPWORDS = [[0x8FD9, 0x4E2A], [0x4E00, 0x4E2A], [0x6211, 0x4EEC], [0x4ED6, 0x4EEC], [0x8FDB,
    0x884C], [0x4EE5, 0x53CA], [0x56E0, 0x6B64], str ''the'', str ''and'', str ''for'',
    str ''with'']"

text \<open>\<open>Counter.most_common\<close>: by falling count, words of equal count in the order of their first occurrence.\<close>

definition most_common :: "nat \<Rightarrow> 'a list \<Rightarrow> 'a list" where
  "most_common n xs = take n (sort_key (\<lambda>x. - int (count_list xs x)) (rev (remdups (rev xs))))"

fun add_words :: "pystr list \<Rightarrow> pystr list \<Rightarrow> pystr list" where
  "add_words result [] = result"
| "add_words result (word # words) =
     (let result' = (if word \<in> set result then result else result @ [word])
      in if 10 \<le> length result' then result' else add_words result' words)"

definition extract_keywords :: "pystr \<Rightarrow> pystr list" where
  "extract_keywords content =
     (let known = filter (\<lambda>k. py_contains k content) KNOWN_KEYWORDS;
          words = filter (\<lambda>w. py_lower w \<notin> set STOPWORDS \<and> 2 \<le> length w) (map py_strip (finditer match_word content))
      in add_words known (most_common 10 words))"

definition rule_entities :: "pystr \<Rightarrow> matcher \<times> pystr \<Rightarrow> entity list" where
  "rule_entities content = (\<lambda>(match, entity_type).
     map (\<lambda>mention. \<lparr>ent_entity = mention, ent_type = entity_type, ent_mention = mention, ent_source = str ''rule''\<rparr>)
       (filter (\<lambda>m. m \<noteq> []) (map py_strip (finditer match content))))"

definition rule_extract :: "pystr \<Rightarrow> extraction_result" where
  "rule_extract content =
     \<lparr>xr_tags = extract_keywords content,
      xr_entities = concat (map (rule_entities content) [(match_date, str ''DATE''), (match_org, str ''ORG''), (match_gpe, str ''GPE'')]),
      xr_source = str ''rule''\<rparr>"

section \<open>LLM provider\<close>

definition first_truthy :: "(json \<Rightarrow> pystr) \<Rightarrow> json_dict \<Rightarrow> string list \<Rightarrow> pystr \<Rightarrow> pystr" where
  "first_truthy dump d keys e = foldr (\<lambda>k rest. if json_truthy (dget d k JNull) then json_str dump (dget d k JNull) else rest) keys e"

definition entity_of_json :: "(json \<Rightarrow> pystr) \<Rightarrow> json \<Rightarrow> entity option" where
  "entity_of_json dump raw = (case raw of
     JObj d \<Rightarrow>
       (let entity_type = py_strip (py_upper (json_str dump (dget d ''type'' (JStr []))));
            ent = py_strip (first_truthy dump d [''text'', ''entity''] []);
            mention = py_strip (first_truthy dump d [''mention''] ent)
        in if entity_type \<notin> set ALLOWED_TYPES \<or> ent = [] \<or> mention = [] then None
           else Some \<lparr>ent_entity = ent, ent_type = entity_type, ent_mention = mention, ent_source = str ''llm''\<rparr>)
   | _ \<Rightarrow> None)"

definition parse_extraction :: "(json \<Rightarrow> pystr) \<Rightarrow> (pystr \<Rightarrow> json option) \<Rightarrow> pystr \<Rightarrow> exn + extraction_result" where
  "parse_extraction dump loads raw = (case loads raw of
     None \<Rightarrow> Inl (raise_default ExtractionParseError)
   | Some (JObj d) \<Rightarrow>
       (case dget d ''tags'' (JArr []) of
          JArr tags \<Rightarrow>
            sbind (case dget d ''entities'' (JArr []) of
                     JArr xs \<Rightarrow> Inr xs | JStr s \<Rightarrow> Inr [] | JObj e \<Rightarrow> Inr []
                   | _ \<Rightarrow> Inl (type_error (str ''object is not iterable''))) (\<lambda>entities.
              Inr \<lparr>xr_tags = filter (\<lambda>t. t \<noteq> []) (map (\<lambda>t. py_strip (json_str dump t)) tags),
                   xr_entities = List.map_filter (entity_of_json dump) entities, xr_source = str ''llm''\<rparr>)
        | _ \<Rightarrow> Inl (raise_msg ExtractionParseError ([0x62BD, 0x53D6, 0x7ED3, 0x679C,
          0x7F3A, 0x5C11] @ str '' tags '' @ [0x5B57, 0x6BB5])))
   | Some _ \<Rightarrow> Inl (raise_msg ExtractionParseError ([0x62BD, 0x53D6, 0x7ED3, 0x679C,
     0x7F3A, 0x5C11] @ str '' tags '' @ [0x5B57, 0x6BB5])))"

definition extraction_prompt :: "pystr \<Rightarrow> pystr" where
  "extraction_prompt content =
     [0x4F60, 0x662F, 0x4E00, 0x540D, 0x4FE1, 0x606F, 0x62BD, 0x53D6, 0x4E13, 0x5BB6, 0x3002,
       0x8BF7, 0x4ECE, 0x6587, 0x672C, 0x4E2D, 0x62BD, 0x53D6, 0x5173, 0x952E, 0x8BCD, 0x6807,
       0x7B7E, 0x4E0E, 0x547D, 0x540D, 0x5B9E, 0x4F53, 0x3002, 0xA, 0xA, 0x8981, 0x6C42, 0xFF1A,
       0xA]
     @ (str ''- tags: 5-10 '' @ [0x4E2A, 0x5173, 0x952E, 0x8BCD, 0x6807, 0x7B7E, 0xFF0C, 0x53CD,
       0x6620, 0x6838, 0x5FC3, 0x4E3B, 0x9898, 0xA])
     @ (str ''- entities: '' @ [0x547D, 0x540D, 0x5B9E, 0x4F53, 0xFF0C, 0x7C7B, 0x578B, 0x53EA,
       0x5141, 0x8BB8] @ str '' PERSON/ORG/DATE/LOC/GPE/MISC'' @ [0xA])
     @ (str ''- '' @ [0x6BCF, 0x6761, 0x5B9E, 0x4F53, 0x5305, 0x542B] @ str '' text'' @ [0x3001] @
       str ''type'' @ [0x3001] @ str ''mention'' @ [0xA])
     @ (str ''- '' @ [0x4EC5, 0x8F93, 0x51FA] @ str '' JSON'' @ [0xFF0C, 0x4E0D, 0x8981] @
       str '' Markdown'' @ [0xA, 0xA] @ str ''JSON '' @ [0x683C, 0x5F0F, 0xFF1A, 0xA])
     @ ([0x7B, 0x22] @ str ''tags'' @ [0x22] @ str '':['' @ [0x22] @ str ''...'' @ [0x22] @
       str ''],'' @ [0x22] @ str ''entities'' @ [0x22] @ str '':[{'' @ [0x22] @ str ''text'' @
       [0x22, 0x3A, 0x22] @ str ''...'' @ [0x22, 0x2C, 0x22] @ str ''type'' @ [0x22, 0x3A, 0x22] @
       str ''PERSON'' @ [0x22, 0x2C, 0x22] @ str ''mention'' @ [0x22, 0x3A, 0x22] @ str ''...'' @
       [0x22] @ str ''}]}'' @ [0xA, 0xA, 0x6587, 0x672C, 0xFF1A, 0xA])
     @ content @ [10]"

record 's extraction_env =
  xe_dump :: "json \<Rightarrow> pystr"
  xe_loads :: "pystr \<Rightarrow> json option"
  xe_lower :: "pystr \<Rightarrow> pystr"
  xe_llm :: "'s completion"
  xe_max_chars :: int
  xe_normalizer :: tag_normalizer
  xe_save :: "extraction_response \<Rightarrow> 's \<Rightarrow> 's \<times> (exn + unit)"

definition llm_extract :: "'s extraction_env \<Rightarrow> pystr \<Rightarrow> 's \<Rightarrow> 's \<times> (exn + extraction_result)" where
  "llm_extract env content =
     retrying 2 (\<lambda>_. False) (\<lambda>s. case xe_llm env (extraction_prompt (py_take (xe_max_chars env) content)) s of
       (s', r) \<Rightarrow> (s', sbind r (\<lambda>(reply, tokens). parse_extraction (xe_dump env) (xe_loads env) reply)))"

section \<open>The service\<close>

definition response_of :: "'s extraction_env \<Rightarrow> pystr \<Rightarrow> bool \<Rightarrow> extraction_result \<Rightarrow> extraction_response" where
  "response_of env resource_id fallback extracted =
     (let source = (if fallback then str ''rule'' else xr_source extracted)
      in \<lparr>xp_resource_id = resource_id,
          xp_tags = map (\<lambda>tag. (tag, source)) (normalize_tags (xe_lower env) (xe_normalizer env) (xr_tags extracted)),
          xp_entities = map (\<lambda>item. item\<lparr>ent_source := source\<rparr>) (resolve_entities (xe_lower env) (xr_entities extracted)),
          xp_source = source, xp_fallback = fallback\<rparr>)"

definition empty_response :: "pystr \<Rightarrow> extraction_response" where
  "empty_response resource_id = \<lparr>xp_resource_id = resource_id, xp_tags = [], xp_entities = [], xp_source = str ''rule'', xp_fallback = True\<rparr>"

definition save_response :: "'s extraction_env \<Rightarrow> extraction_response \<Rightarrow> 's \<Rightarrow> 's \<times> (exn + extraction_response)" where
  "save_response env response s = (case xe_save env response s of (s', r) \<Rightarrow> (s', sbind r (\<lambda>_. Inr response)))"

definition extract_tags :: "'s extraction_env \<Rightarrow> pystr \<Rightarrow> pystr \<Rightarrow> 's \<Rightarrow> 's \<times> (exn + extraction_response)" where
  "extract_tags env resource_id raw_content s =
     (let content = py_strip raw_content
      in if content = [] then save_response env (empty_response resource_id) s
         else case llm_extract env content s of
                (s1, Inr extracted) \<Rightarrow> save_response env (response_of env resource_id False extracted) s1
              | (s1, Inl e) \<Rightarrow> save_response env (response_of env resource_id True (rule_extract content)) s1)"

section \<open>Facts\<close>

lemma normalize_loop_fresh:
  "distinct (map lower (normalize_loop lower tn seen n raws)) \<and> lower ` set (normalize_loop lower tn seen n raws) \<inter> seen = {}"
  by (induction raws arbitrary: seen n) (auto simp: Let_def)

lemma normalize_loop_length:
  "int n < max 1 (tn_max_count tn) \<Longrightarrow> int n + int (length (normalize_loop lower tn seen n raws)) \<le> max 1 (tn_max_count tn)"
proof (induction raws arbitrary: seen n)
  case (Cons raw raws)
  let ?tag = "canonical_tag lower tn (py_strip raw)"
  from Cons.IH[of n seen] Cons.IH[of "n + 1" "insert (lower ?tag) seen"] Cons.prems show ?case by (auto simp: Let_def)
qed simp

lemma entity_key_source [simp]: "entity_key lower (x\<lparr>ent_source := src\<rparr>) = entity_key lower x"
  by (simp add: entity_key_def)

lemma resolve_loop_fresh:
  "distinct (map (entity_key lower) (resolve_loop lower seen items)) \<and> entity_key lower ` set (resolve_loop lower seen items) \<inter> seen = {}"
proof (induction lower seen items rule: resolve_loop.induct)
  case (2 lower seen item items)
  have "entity_key lower (item\<lparr>ent_entity := py_strip (ent_entity item), ent_mention := py_strip (ent_mention item)\<rparr>) = entity_key lower item"
    by (simp add: entity_key_def py_strip_strip)
  with 2 show ?case by auto
qed simp

lemma resolve_loop_valid:
  "item \<in> set (resolve_loop lower seen items) \<Longrightarrow> \<not> blank (ent_entity item) \<and> \<not> blank (ent_mention item) \<and> py_upper (ent_type item) \<in> set ALLOWED_TYPES"
  by (induction lower seen items rule: resolve_loop.induct) (auto simp: blank_strip split: if_splits)

section \<open>Properties\<close>

text \<open>C23: the tags and entities of a response. Whatever the LLM answers and however often it fails, the response has
  distinct tags (compared in lower case), at most \<open>max_count\<close> of them if that is positive, distinct entities of the
  allowed types with text and mention, all marked with the one source of the response, which is
  \<open>rule\<close> when the LLM failed; and it is what was saved.\<close>

theorem extraction_response_sound:
  assumes "extract_tags env resource_id content s = (s', Inr response)"
  shows "distinct (map (xe_lower env \<circ> fst) (xp_tags response))
     \<and> int (length (xp_tags response)) \<le> max 1 (tn_max_count (xe_normalizer env))
     \<and> distinct (map (entity_key (xe_lower env)) (xp_entities response))
     \<and> list_all (\<lambda>x. \<not> blank (ent_entity x) \<and> \<not> blank (ent_mention x) \<and> py_upper (ent_type x) \<in> set ALLOWED_TYPES \<and> ent_source x = xp_source response) (xp_entities response)
     \<and> list_all (\<lambda>t. snd t = xp_source response) (xp_tags response)
     \<and> (xp_fallback response \<longrightarrow> xp_source response = str ''rule'') \<and> (\<exists>s0. xe_save env response s0 = (s', Inr ()))"
proof -
  have saved: "save_response env r s1 = (s', Inr response) \<Longrightarrow> response = r \<and> xe_save env r s1 = (s', Inr ())" for r s1
    by (auto simp: save_response_def sbind_Inr_iff split: prod.splits)
  have r: "response = empty_response resource_id \<or> (\<exists>fallback extracted. response = response_of env resource_id fallback extracted)"
    "\<exists>s0. xe_save env response s0 = (s', Inr ())"
    using assms by (auto simp: extract_tags_def Let_def dest!: saved split: if_splits prod.splits sum.splits)
  show ?thesis using r(1)
  proof (elim disjE exE)
    fix fallback extracted
    assume e: "response = response_of env resource_id fallback extracted"
    let ?tags = "normalize_tags (xe_lower env) (xe_normalizer env) (xr_tags extracted)"
    let ?ents = "resolve_entities (xe_lower env) (xr_entities extracted)"
    have "distinct (map (xe_lower env) ?tags)" "int (length ?tags) \<le> max 1 (tn_max_count (xe_normalizer env))"
      using normalize_loop_fresh normalize_loop_length[of 0 "xe_normalizer env"] by (auto simp: normalize_tags_def)
    moreover have "distinct (map (entity_key (xe_lower env)) ?ents)" using resolve_loop_fresh by (auto simp: resolve_entities_def)
    ultimately show ?thesis
      using resolve_loop_valid r(2) by (auto simp: e response_of_def Let_def comp_def list_all_iff resolve_entities_def)
  qed (use r(2) in \<open>simp add: empty_response_def\<close>)
qed

text \<open>Extraction always answers. Whatever the LLM does, when the repository stores what it is given, the service
  returns a response.\<close>

theorem extraction_always_answers:
  assumes "\<And>response s0. snd (xe_save env response s0) = Inr ()"
  shows "\<exists>response. snd (extract_tags env resource_id content s) = Inr response"
proof -
  have "\<exists>response. snd (save_response env r s0) = Inr response" for r s0
    using assms[of r s0] by (auto simp: save_response_def split: prod.splits)
  then show ?thesis by (auto simp: extract_tags_def Let_def split: prod.splits sum.splits)
qed

section \<open>Witnesses\<close>

definition demo_extraction_env :: "extraction_response list extraction_env" where
  "demo_extraction_env = \<lparr>xe_dump = (\<lambda>_. []), xe_loads = (\<lambda>_. None), xe_lower = py_lower, xe_llm = (\<lambda>_ s. (s, Inr ([], 1))),
     xe_max_chars = 4000, xe_normalizer = tag_normalizer_init None None None, xe_save = (\<lambda>r s. (r # s, Inr ()))\<rparr>"

definition demo_response :: extraction_response where
  "demo_response = \<lparr>xp_resource_id = str ''r'', xp_tags = [(str ''OpenAI'', str ''rule''), (str ''met'', str ''rule'')],
     xp_entities = [\<lparr>ent_entity = str ''2024-5-1'', ent_type = str ''DATE'', ent_mention = str ''2024-5-1'', ent_source = str ''rule''\<rparr>,
       \<lparr>ent_entity = str ''OpenAI'', ent_type = str ''ORG'', ent_mention = str ''OpenAI'', ent_source = str ''rule''\<rparr>],
     xp_source = str ''rule'', xp_fallback = True\<rparr>"

lemma demo_extracted:
  "extract_tags demo_extraction_env (str ''r'') (str '' OpenAI met on 2024-5-1 the '') [] = ([demo_response], Inr demo_response)"
  by code_simp

theorem extraction_response_sound_witness:
  "distinct (map (py_lower \<circ> fst) (xp_tags demo_response)) \<and> length (xp_entities demo_response) = 2"
  using extraction_response_sound[OF demo_extracted] by (simp add: demo_extraction_env_def demo_response_def)

theorem extraction_always_answers_witness:
  "\<exists>response. snd (extract_tags demo_extraction_env (str ''r'') (str ''x'') []) = Inr response"
  by (rule extraction_always_answers) (simp add: demo_extraction_env_def)

section \<open>Further behaviour\<close>

text \<open>A limit of no tags still gives one.\<close>

lemma max_count_zero_gives_one: "normalize_tags py_lower (tag_normalizer_init (Some 0) None None) [str ''a'', str ''b''] = [str ''a'']"
  by code_simp

end
