(* ===== verification/Text_Tasks.thy ===== *)
theory Text_Tasks
  imports Gateway Tag_Extraction
begin

text \<open>
  The Celery tasks for summaries and tags (\<open>celery_workers/tasks/summarize_task.py\<close>,
  \<open>celery_workers/tasks/extract_tags_task.py\<close>). Neither reports that it runs; the payload is checked within the
  part that is retried.
\<close>

definition run_summarize ::
  "('q \<Rightarrow> exn + summarize_request) \<Rightarrow> 's summary_env \<Rightarrow> pystr \<Rightarrow> 's \<Rightarrow> ('q, summary_result) body" where
  "run_summarize validate env resource_id s m flag =
     (case sbind (validate (ms_payload m)) (\<lambda>request. snd (generate_summary env resource_id request s)) of
        Inr result \<Rightarrow> \<lparr>en_reports = [], en_outcome = Returned result, en_flag = flag, en_jobs = []\<rparr>
      | Inl e \<Rightarrow>
          if ms_retries m < ms_max_retries m
          then \<lparr>en_reports = [], en_outcome = Retried (ms_payload m), en_flag = flag, en_jobs = []\<rparr>
          else \<lparr>en_reports = [], en_outcome = Raised e, en_flag = flag, en_jobs = []\<rparr>)"

definition run_extract_tags ::
  "('q \<Rightarrow> exn + pystr) \<Rightarrow> 's extraction_env \<Rightarrow> pystr \<Rightarrow> 's \<Rightarrow> ('q, extraction_response) body" where
  "run_extract_tags validate env resource_id s m flag =
     (case sbind (validate (ms_payload m)) (\<lambda>content. snd (extract_tags env resource_id content s)) of
        Inr result \<Rightarrow> \<lparr>en_reports = [], en_outcome = Returned result, en_flag = flag, en_jobs = []\<rparr>
      | Inl e \<Rightarrow>
          if ms_retries m < ms_max_retries m
          then \<lparr>en_reports = [], en_outcome = Retried (ms_payload m), en_flag = flag, en_jobs = []\<rparr>
          else \<lparr>en_reports = [], en_outcome = Raised e, en_flag = flag, en_jobs = []\<rparr>)"

interpretation summarize_worker: retrying_task "run_summarize validate env resource_id s" for validate env resource_id s
  by unfold_locales (auto simp: run_summarize_def split: sum.splits if_splits)

interpretation extract_worker: retrying_task "run_extract_tags validate env resource_id s" for validate env resource_id s
  by unfold_locales (auto simp: run_extract_tags_def split: sum.splits if_splits)

text \<open>The hooks set the flag only back to false, so a failure of these tasks is always reported.\<close>

lemma summarize_failure_reported:
  assumes "en_outcome (run_summarize validate env resource_id s m False) = Raised e"
  shows "deliver_message (run_summarize validate env resource_id s) m False = ([failed_report m e], [], False, [])"
  using assms by (auto simp: deliver_message_def run_summarize_def on_failure_def failed_report_def Let_def split: sum.splits if_splits)

section \<open>Properties\<close>

text \<open>A summary that succeeds at once is never completed at the gateway. The task does not report that it runs, and
  the gateway accepts no completion of a pending task: the only report of the delivery is rejected and the task
  stays pending.\<close>

theorem summary_completion_rejected:
  assumes "en_outcome (run_summarize validate env resource_id s m flag) = Returned result"
    and "status_of g (ms_task_id m) = Some Pending"
    and "deliver_message (run_summarize validate env resource_id s) m flag = (reports, again, flag', jobs)"
  shows "\<not> accepted g reports \<and> again = [] \<and> status_of (foldl receive g reports) (ms_task_id m) = Some Pending"
proof -
  have d: "reports = on_success m result \<and> again = []"
    using assms(1,3) by (auto simp: deliver_message_def run_summarize_def Let_def split: sum.splits if_splits)
  have "\<not> (\<exists>g'. gateway_handle g (Status (ms_task_id m) (str ''completed'') (Some result) None (Some (attempt_count m))) = Inr g')"
    using assms(2) by (auto simp: gateway_handle_def status_of_def ProcessInternalStatusUpdate_def status_named_def split: option.splits if_splits)
  with d assms(2) show ?thesis
    by (auto simp: on_success_def receive_def split: sum.splits)
qed

definition demo_text_message :: "summarize_request message" where
  "demo_text_message = \<lparr>ms_task_id = str ''t1'', ms_payload = demo_request, ms_retries = 0, ms_max_retries = 3\<rparr>"

theorem summary_completion_rejected_witness:
  "\<exists>reports. fst (deliver_message (run_summarize Inr demo_summary_env (str ''r'') []) demo_text_message False) = reports
     \<and> \<not> accepted demo_table reports"
proof -
  have o: "en_outcome (run_summarize Inr demo_summary_env (str ''r'') [] demo_text_message False) = Returned demo_summary"
    by code_simp
  have "status_of (demo_table :: summary_result task_table) (ms_task_id demo_text_message) = Some Pending"
    by (simp add: demo_table_def status_of_def demo_text_message_def pending_task_def)
  from summary_completion_rejected[OF o this] show ?thesis by (metis prod.collapse)
qed

end
