(* ===== verification/Api.thy ===== *)
theory Api
  imports Api_Base Rag_Engine Text_Tasks
begin

text \<open>
  The HTTP interface (\<open>app/api\<close>): the endpoints with their validation, error wrapping and replies, the table of
  routes (\<open>register_blueprints\<close>) and the way of a request through the guard of its blueprint, the view and
  the error handlers. Pydantic's \<open>model_validate\<close> of each request model, the services, the queues and the world
  they change are parameters. Flask's matching of paths is written out for paths without escapes.
\<close>

section \<open>Values of the replies\<close>

fun json_of_val :: "pyval \<Rightarrow> json" where
  "json_of_val PNone = JNull"
| "json_of_val (PBool b) = JBool b"
| "json_of_val (PInt n) = JNum (of_int n)"
| "json_of_val (PFloat x) = JNum x"
| "json_of_val (PStr s) = JStr s"
| "json_of_val (PList xs) = JArr (map json_of_val xs)"

definition json_of_dict :: "pydict \<Rightarrow> json" where
  "json_of_dict d = JObj (map (\<lambda>(k, v). (k, json_of_val v)) d)"

definition json_int_of :: "int \<Rightarrow> json" where
  "json_int_of n = JNum (of_int n)"

definition json_opt :: "pystr option \<Rightarrow> json" where
  "json_opt x = (case x of None \<Rightarrow> JNull | Some s \<Rightarrow> JStr s)"

definition dump_search_hit :: "vector_search_result \<Rightarrow> json" where
  "dump_search_hit r = JObj [(str ''id'', JStr (vr_id r)), (str ''resource_id'', JStr (vr_resource_id r)),
     (str ''user_id'', JStr (vr_user_id r)), (str ''text'', JStr (vr_text r)),
     (str ''metadata'', json_of_dict (vr_metadata r)), (str ''score'', JNum (vr_score r)),
     (str ''created_at'', json_int_of (vr_created_at r))]"

definition dump_retrieval_chunk :: "retrieval_chunk \<Rightarrow> json" where
  "dump_retrieval_chunk c = JObj [(str ''chunk_id'', JStr (rc_chunk_id c)), (str ''resource_id'', JStr (rc_resource_id c)),
     (str ''text'', JStr (rc_text c)), (str ''score'', JNum (rc_score c)), (str ''metadata'', json_of_dict (rc_metadata c))]"

fun source_name :: "search_source \<Rightarrow> pystr" where
  "source_name SourceBM25 = str ''bm25''"
| "source_name SourceVector = str ''vector''"
| "source_name SourceRerank = str ''rerank''"

text \<open>\<open>model_dump(exclude={"user_id"})\<close>\<close>

definition dump_hybrid_chunk :: "search_result \<Rightarrow> json" where
  "dump_hybrid_chunk c = JObj [(str ''chunk_id'', JStr (search_result.sr_chunk_id c)),
     (str ''resource_id'', JStr (search_result.sr_resource_id c)), (str ''text'', JStr (search_result.sr_text c)),
     (str ''score'', JNum (search_result.sr_score c)), (str ''source'', JStr (source_name (search_result.sr_source c))),
     (str ''metadata'', json_of_dict (search_result.sr_metadata c))]"

definition dump_fusion :: "fusion_stats \<Rightarrow> json" where
  "dump_fusion f = JObj [(str ''bm25_count'', json_int_of (int (fs_bm25_count f))),
     (str ''vector_count'', json_int_of (int (fs_vector_count f))), (str ''fused_count'', json_int_of (int (fs_fused_count f)))]"

definition dump_chunk :: "chunk \<Rightarrow> json" where
  "dump_chunk c = JObj [(str ''id'', JStr (ck_id c)), (str ''resource_id'', JStr (ck_resource_id c)),
     (str ''index'', json_int_of (int (ck_index c))), (str ''text'', JStr (ck_text c)),
     (str ''start_pos'', json_int_of (int (ck_start c))), (str ''end_pos'', json_int_of (int (ck_end c))),
     (str ''metadata'', json_of_dict (ck_metadata c)), (str ''token_count'', json_int_of (int (ck_token_count c)))]"

definition dump_embedding :: "embedding_record \<Rightarrow> json" where
  "dump_embedding e = JObj [(str ''chunk_id'', JStr (em_chunk_id e)), (str ''resource_id'', JStr (em_resource_id e)),
     (str ''vector'', JArr (map JNum (em_vector e))), (str ''model'', JStr (em_model e)),
     (str ''dimensions'', json_int_of (em_dimensions e))]"

definition dump_llm_response :: "llm_response \<Rightarrow> json" where
  "dump_llm_response r = JObj [(str ''content'', JStr (lp_content r)), (str ''reasoning'', json_opt (lp_reasoning r)),
     (str ''model'', JStr (lp_model r)), (str ''finish_reason'', JStr (lp_finish_reason r)),
     (str ''usage'', JObj [(str ''prompt_tokens'', json_int_of (us_prompt_tokens (lp_usage r))),
       (str ''completion_tokens'', json_int_of (us_completion_tokens (lp_usage r))),
       (str ''total_tokens'', json_int_of (us_total_tokens (lp_usage r)))])]"

definition dump_web_response :: "web_response \<Rightarrow> json" where
  "dump_web_response r = JObj [(str ''results'', JArr (map (\<lambda>w. JObj [(str ''title'', JStr (wr_title w)),
       (str ''url'', JStr (wr_url w)), (str ''snippet'', JStr (wr_snippet w))]) (wp_results r))),
     (str ''source_type'', JStr (str ''web'')), (str ''fallback'', JBool (wp_fallback r))]"

section \<open>The services behind the interface\<close>

text \<open>An operation changes the world \<open>'s\<close> of the services, whether it returns or raises.\<close>

type_synonym ('s, 'a) op = "'s \<Rightarrow> 's \<times> (exn + 'a)"

record vector_search_request =
  vq_vector :: vector
  vq_top_k :: int
  vq_filters :: "(pystr \<times> pystr) list"

record chunk_request =
  kq_resource_id :: pystr
  kq_text :: pystr
  kq_metadata :: pydict
  kq_strategy :: "pystr option"

datatype queued_task =
    AsrJob pystr asr_task
  | PdfJob pystr pdf_task
  | SummarizeJob pystr pystr summarize_request
  | ExtractJob pystr pystr pystr

record 's backend =
  bk_upsert :: "vector_record list \<Rightarrow> ('s, int) op"
  bk_delete :: "pystr \<Rightarrow> pystr option \<Rightarrow> ('s, int) op"
  bk_search :: "vector_search_request \<Rightarrow> ('s, vector_search_result list) op"
  bk_retrieve :: "retrieval_request \<Rightarrow> ('s, retrieval_result) op"
  bk_hybrid :: "hybrid_request \<Rightarrow> ('s, hybrid_result) op"
  bk_embed :: "chunk_input list \<Rightarrow> ('s, embedding_record list) op"
  bk_chunk_config :: "exn + chunking_config"
  bk_estimator :: token_estimator
  bk_complete :: "llm_request \<Rightarrow> ('s, llm_response) op"
  bk_llm_stream :: "llm_request \<Rightarrow> 's \<Rightarrow> 's \<times> (pystr list \<times> exn option)"
  bk_qa_stream :: "qa_request \<Rightarrow> 's \<Rightarrow> 's \<times> (pystr list \<times> exn option)"
  bk_agent_stream :: "agent_request \<Rightarrow> 's \<Rightarrow> 's \<times> (pystr list \<times> exn option)"
  bk_web_search :: "pystr \<Rightarrow> int \<Rightarrow> ('s, web_response) op"
  bk_delay :: "queued_task \<Rightarrow> ('s, unit) op"
  bk_generate :: "pystr \<Rightarrow> summarize_request \<Rightarrow> ('s, unit) op"
  bk_extract :: "pystr \<Rightarrow> pystr \<Rightarrow> ('s, unit) op"
  bk_netloc_ok :: "pystr \<Rightarrow> bool"
  bk_testing :: bool
  bk_key :: pystr
  bk_redis_ok :: bool
  bk_broker_ok :: bool

text \<open>\<open>model_validate\<close> of the request models, with the optional task id of the two last.\<close>

record validators =
  va_upsert :: "json \<Rightarrow> exn + vector_record list"
  va_delete :: "json \<Rightarrow> exn + (pystr \<times> pystr option)"
  va_search :: "json \<Rightarrow> exn + vector_search_request"
  va_retrieve :: "json \<Rightarrow> exn + retrieval_request"
  va_hybrid :: "json \<Rightarrow> exn + hybrid_request"
  va_embed :: "json \<Rightarrow> exn + chunk_input list"
  va_chunk :: "json \<Rightarrow> exn + chunk_request"
  va_llm :: "json \<Rightarrow> exn + llm_request"
  va_qa :: "json \<Rightarrow> exn + qa_request"
  va_agent :: "json \<Rightarrow> exn + agent_request"
  va_web :: "json \<Rightarrow> exn + web_request"
  va_asr :: "json \<Rightarrow> exn + asr_task"
  va_pdf :: "json \<Rightarrow> exn + pdf_task"
  va_summarize :: "json \<Rightarrow> exn + (pystr option \<times> summarize_request)"
  va_extract :: "json \<Rightarrow> exn + (pystr option \<times> pystr)"

section \<open>The shape of an endpoint\<close>

datatype reply = Reply json int | StreamReply "pystr list" "exn option"

text \<open>\<open>request.get_json(silent=True) or {}\<close>\<close>

definition request_data :: "json option \<Rightarrow> json" where
  "request_data body = (case body of Some v \<Rightarrow> if json_truthy v then v else JObj [] | None \<Rightarrow> JObj [])"

text \<open>A rejected request: only pydantic's error is translated in most endpoints, any in the others.\<close>

definition read_request :: "(json \<Rightarrow> exn + 'r) \<Rightarrow> exn \<Rightarrow> json option \<Rightarrow> exn + 'r" where
  "read_request validate bad body = (case validate (request_data body) of
     Inr r \<Rightarrow> Inr r | Inl e \<Rightarrow> Inl (if exn_code e = ''ValidationError'' then bad else e))"

definition read_any :: "(json \<Rightarrow> exn + 'r) \<Rightarrow> (exn \<Rightarrow> exn) \<Rightarrow> json option \<Rightarrow> exn + 'r" where
  "read_any validate bad body = (case validate (request_data body) of Inr r \<Rightarrow> Inr r | Inl e \<Rightarrow> Inl (bad e))"

definition on_request :: "exn + 'r \<Rightarrow> ('r \<Rightarrow> ('s, 'a) op) \<Rightarrow> ('s, 'a) op" where
  "on_request r f s = (case r of Inl e \<Rightarrow> (s, Inl e) | Inr x \<Rightarrow> f x s)"

text \<open>\<open>except APIException: raise\<close>, \<open>except Exception: raise other\<close>, and what is made of a result.\<close>

definition api_errors_only :: "exn \<Rightarrow> 's \<times> (exn + 'a) \<Rightarrow> 's \<times> (exn + 'a)" where
  "api_errors_only other r = (fst r, case snd r of Inl e \<Rightarrow> Inl (if is_api e then e else other) | Inr x \<Rightarrow> Inr x)"

definition replying :: "('a \<Rightarrow> reply) \<Rightarrow> 's \<times> (exn + 'a) \<Rightarrow> 's \<times> (exn + reply)" where
  "replying f r = (fst r, case snd r of Inl e \<Rightarrow> Inl e | Inr x \<Rightarrow> Inr (f x))"

definition bad_request :: exn where
  "bad_request = raise_msg ValidationException [0x8BF7, 0x6C42, 0x53C2, 0x6570, 0x9519, 0x8BEF]"

section \<open>Endpoints\<close>

definition upsert_vectors :: "'s backend \<Rightarrow> validators \<Rightarrow> json option \<Rightarrow> ('s, reply) op" where
  "upsert_vectors bk va body = on_request (read_request (va_upsert va) bad_request body) (\<lambda>records s.
     if records = [] then (s, Inl (raise_default EmptyBatchError))
     else replying (\<lambda>n. Reply (JObj [(str ''upserted_count'', json_int_of n)]) 200)
            (api_errors_only (raise_msg VectorStoreError [0x5411, 0x91CF, 0x5199, 0x5165, 0x5931,
              0x8D25]) (bk_upsert bk records s)))"

definition delete_vectors :: "'s backend \<Rightarrow> validators \<Rightarrow> json option \<Rightarrow> ('s, reply) op" where
  "delete_vectors bk va body = on_request (read_request (va_delete va) bad_request body) (\<lambda>(resource_id, user_id) s.
     replying (\<lambda>n. Reply (JObj [(str ''deleted_count'', json_int_of n)]) 200)
       (api_errors_only (raise_msg VectorStoreError [0x5411, 0x91CF, 0x5220, 0x9664, 0x5931,
         0x8D25]) (bk_delete bk resource_id user_id s)))"

definition search_vectors :: "'s backend \<Rightarrow> validators \<Rightarrow> json option \<Rightarrow> ('s, reply) op" where
  "search_vectors bk va body = on_request (read_request (va_search va) bad_request body) (\<lambda>req s.
     replying (\<lambda>results. Reply (JObj [(str ''results'', JArr (map dump_search_hit results))]) 200)
       (api_errors_only (raise_msg VectorStoreError [0x5411, 0x91CF, 0x641C, 0x7D22, 0x5931,
         0x8D25]) (bk_search bk req s)))"

definition dump_retrieval :: "retrieval_result \<Rightarrow> json" where
  "dump_retrieval r = JObj [(str ''chunks'', JArr (map dump_retrieval_chunk (rr_chunks r))), (str ''prompt'', JStr (rr_prompt r)),
     (str ''context_token_count'', json_int_of (int (rr_context_token_count r)))]"

definition retrieve_context :: "'s backend \<Rightarrow> validators \<Rightarrow> json option \<Rightarrow> ('s, reply) op" where
  "retrieve_context bk va body = on_request (read_request (va_retrieve va) bad_request body) (\<lambda>req s.
     replying (\<lambda>r. Reply (dump_retrieval r) 200)
       (api_errors_only (raise_default RetrievalUnavailableError) (bk_retrieve bk req s)))"

definition dump_hybrid :: "hybrid_result \<Rightarrow> json" where
  "dump_hybrid r = JObj [(str ''chunks'', JArr (map dump_hybrid_chunk (hr_chunks r))), (str ''fusion'', dump_fusion (hr_fusion r)),
     (str ''degraded'', JBool (hr_degraded r)), (str ''elapsed_ms'', json_int_of (hr_elapsed_ms r))]"

definition retrieve_hybrid :: "'s backend \<Rightarrow> validators \<Rightarrow> json option \<Rightarrow> ('s, reply) op" where
  "retrieve_hybrid bk va body =
     on_request (read_request (va_hybrid va) (raise_msg InvalidRequestError [0x7F3A, 0x5C11,
       0x95EE, 0x9898, 0x6216, 0x8D44, 0x6E90, 0x8303, 0x56F4]) body) (\<lambda>req s.
       replying (\<lambda>r. Reply (dump_hybrid r) 200)
         (api_errors_only (raise_default RetrievalUnavailableError) (bk_hybrid bk req s)))"

definition embed_endpoint :: "'s backend \<Rightarrow> validators \<Rightarrow> json option \<Rightarrow> ('s, reply) op" where
  "embed_endpoint bk va body = on_request (read_request (va_embed va) bad_request body) (\<lambda>chunks s.
     if chunks = [] then (s, Inl (raise_default EmptyBatchError))
     else replying (\<lambda>es. Reply (JObj [(str ''embeddings'', JArr (map dump_embedding es))]) 200)
            (api_errors_only (raise_default EmbeddingInternalError) (bk_embed bk chunks s)))"

text \<open>The text of pydantic's error goes into the message here.\<close>

definition chunk_text :: "'s backend \<Rightarrow> validators \<Rightarrow> json option \<Rightarrow> ('s, reply) op" where
  "chunk_text bk va body =
     on_request (case va_chunk va (request_data body) of Inr r \<Rightarrow> Inr r
       | Inl e \<Rightarrow> Inl (if exn_code e = ''ValidationError'' then raise_msg ValidationException (([0x8BF7,
         0x6C42, 0x53C2, 0x6570, 0x9519, 0x8BEF] @ str '': '') @ exn_text e) else e))
     (\<lambda>req. on_request (bk_chunk_config bk) (\<lambda>config s.
       if max_input_chars config < int (length (kq_text req))
       then (s, Inl (api_error ''TEXT_TOO_LONG''
              ([0x8F93, 0x5165, 0x6587, 0x672C, 0x8D85, 0x8FC7, 0x6700, 0x5927, 0x957F, 0x5EA6,
                0x9650, 0x5236, 0x20] @ str_of_int (max_input_chars config) @ [0x20, 0x5B57,
                0x7B26]) 400))
       else replying (\<lambda>chunks. Reply (JObj [(str ''chunks'', JArr (map dump_chunk chunks))]) 200)
              (api_errors_only (raise_default ChunkingError)
                (s, chunk_service config (bk_estimator bk) (kq_text req) (kq_resource_id req) (kq_metadata req) (kq_strategy req)))))"

definition llm_complete_endpoint :: "'s backend \<Rightarrow> validators \<Rightarrow> json option \<Rightarrow> ('s, reply) op" where
  "llm_complete_endpoint bk va body = on_request (read_request (va_llm va) bad_request body) (\<lambda>req s.
     replying (\<lambda>r. Reply (dump_llm_response r) 200)
       (api_errors_only (raise_default LLMUnavailableError) (bk_complete bk req s)))"

text \<open>A stream is produced after the view has returned: whatever breaks it comes too late for the handlers.\<close>

definition streaming :: "'s \<times> (pystr list \<times> exn option) \<Rightarrow> 's \<times> (exn + reply)" where
  "streaming r = (fst r, Inr (case snd r of (events, stop) \<Rightarrow> StreamReply events stop))"

definition llm_stream_endpoint :: "'s backend \<Rightarrow> validators \<Rightarrow> json option \<Rightarrow> ('s, reply) op" where
  "llm_stream_endpoint bk va body =
     on_request (read_request (va_llm va) bad_request body) (\<lambda>req s. streaming (bk_llm_stream bk req s))"

definition stream_qa_endpoint :: "'s backend \<Rightarrow> validators \<Rightarrow> json option \<Rightarrow> ('s, reply) op" where
  "stream_qa_endpoint bk va body =
     on_request (read_request (va_qa va) bad_request body) (\<lambda>req s. streaming (bk_qa_stream bk req s))"

definition run_agent_endpoint :: "'s backend \<Rightarrow> validators \<Rightarrow> json option \<Rightarrow> ('s, reply) op" where
  "run_agent_endpoint bk va body =
     on_request (read_request (va_agent va) bad_request body) (\<lambda>req s. streaming (bk_agent_stream bk req s))"

text \<open>Here an exception of the tool is not translated.\<close>

definition web_search_endpoint :: "'s backend \<Rightarrow> validators \<Rightarrow> json option \<Rightarrow> ('s, reply) op" where
  "web_search_endpoint bk va body =
     on_request (read_request (va_web va) (raise_msg InvalidRequestError [0x67E5, 0x8BE2, 0x53C2,
       0x6570, 0x975E, 0x6CD5]) body) (\<lambda>req s.
       replying (\<lambda>r. Reply (dump_web_response r) 200) (bk_web_search bk (wq_query req) (wq_top_k req) s))"

text \<open>Endpoints that queue a task.\<close>

definition queued_reply :: "pystr \<Rightarrow> (pystr \<times> json) list \<Rightarrow> reply" where
  "queued_reply task_id extra = Reply (JObj ([(str ''task_id'', JStr task_id), (str ''status'', JStr (str ''pending''))] @ extra)) 202"

definition create_asr_task :: "'s backend \<Rightarrow> validators \<Rightarrow> json option \<Rightarrow> ('s, reply) op" where
  "create_asr_task bk va body =
     on_request (read_any (va_asr va) (\<lambda>e. raise_msg ValidationException (exn_text e)) body) (\<lambda>t s.
       replying (\<lambda>_. queued_reply (at_task_id t) [(str ''message'', JStr (str ''ASR task queued''))])
         (bk_delay bk (AsrJob (at_task_id t) t) s))"

definition validate_pdf_url :: "(pystr \<Rightarrow> bool) \<Rightarrow> pystr \<Rightarrow> exn + unit" where
  "validate_pdf_url netloc_ok pdf_url =
     sbind (urlparse netloc_ok pdf_url) (\<lambda>parsed.
       if py_lower (u_scheme parsed) \<noteq> str ''minio''
       then Inl (raise_msg ValidationException
              (str ''unsupported PDF URL scheme: '' @ u_scheme parsed @ str ''. Only minio:// is supported.''))
       else if u_netloc parsed = [] \<or> dropWhile (\<lambda>c. c = 47) (u_path parsed) = []
       then Inl (raise_msg ValidationException (str ''invalid PDF URL: missing bucket or object name''))
       else Inr ())"

definition create_pdf_parse_task :: "'s backend \<Rightarrow> validators \<Rightarrow> json option \<Rightarrow> ('s, reply) op" where
  "create_pdf_parse_task bk va body =
     on_request (read_any (va_pdf va) (\<lambda>_. raise_msg ValidationException (str ''invalid PDF parse request body'')) body) (\<lambda>t.
       on_request (validate_pdf_url (bk_netloc_ok bk) (pt_pdf_url t)) (\<lambda>_ s.
         replying (\<lambda>_. queued_reply (pt_task_id t) [(str ''message'', JStr (str ''PDF parse task queued''))]) (bk_delay bk (PdfJob (pt_task_id t) t) s)))"

definition summarize_resource :: "'s backend \<Rightarrow> validators \<Rightarrow> pystr \<Rightarrow> json option \<Rightarrow> ('s, reply) op" where
  "summarize_resource bk va resource_id body =
     on_request (read_any (va_summarize va) (\<lambda>e. raise_msg ValidationException (exn_text e)) body) (\<lambda>(given, payload) s.
       let task_id = (case given of Some t \<Rightarrow> str_or t (str ''sum-'' @ resource_id) | None \<Rightarrow> str ''sum-'' @ resource_id)
       in replying (\<lambda>_. queued_reply task_id [])
            (if bk_testing bk then bk_generate bk resource_id payload s
             else bk_delay bk (SummarizeJob task_id resource_id payload) s))"

definition extract_tags_endpoint :: "'s backend \<Rightarrow> validators \<Rightarrow> pystr \<Rightarrow> json option \<Rightarrow> ('s, reply) op" where
  "extract_tags_endpoint bk va resource_id body =
     on_request (read_any (va_extract va) (\<lambda>e. raise_msg ValidationException (exn_text e)) body) (\<lambda>(given, content) s.
       let task_id = (case given of Some t \<Rightarrow> str_or t (str ''tag-'' @ resource_id) | None \<Rightarrow> str ''tag-'' @ resource_id)
       in replying (\<lambda>_. queued_reply task_id [])
            (if bk_testing bk then bk_extract bk resource_id content s
             else bk_delay bk (ExtractJob task_id resource_id content) s))"

text \<open>The two health endpoints; a ping that raises counts as no answer.\<close>

definition up_or_down :: "bool \<Rightarrow> json" where
  "up_or_down ok = JStr (if ok then str ''ok'' else str ''down'')"

definition health_reply :: "'s backend \<Rightarrow> reply" where
  "health_reply bk = Reply (JObj [(str ''status'', JStr (str ''ok'')), (str ''service'', JStr (str ''ai-service'')),
     (str ''dependencies'', JObj [(str ''redis'', up_or_down (bk_redis_ok bk)),
       (str ''celery_broker'', up_or_down (bk_broker_ok bk))])]) 200"

definition internal_health_reply :: reply where
  "internal_health_reply = Reply (JObj [(str ''status'', JStr (str ''ok'')), (str ''service'', JStr (str ''ai-service''))]) 200"

section \<open>Routes\<close>

datatype endpoint =
    Health | InternalHealth | CreateAsr | CreatePdf | ChunkText | Embed
  | VectorsUpsert | VectorsDelete | VectorsSearch | Retrieve | RetrieveHybrid
  | Summarize pystr | ExtractTags pystr | LlmComplete | LlmStream | StreamQa | RunAgent | WebSearch

definition literal_routes :: "(pystr \<times> pystr \<times> endpoint) list" where
  "literal_routes =
     [(str ''GET'', str ''/api/v1/health'', Health), (str ''GET'', str ''/api/v1/internal/health'', InternalHealth),
      (str ''POST'', str ''/ai/v1/asr'', CreateAsr), (str ''POST'', str ''/ai/v1/pdf/parse'', CreatePdf),
      (str ''POST'', str ''/ai/v1/chunk'', ChunkText), (str ''POST'', str ''/ai/v1/embed'', Embed),
      (str ''POST'', str ''/ai/v1/vectors/upsert'', VectorsUpsert), (str ''POST'', str ''/ai/v1/vectors/delete'', VectorsDelete),
      (str ''POST'', str ''/ai/v1/vectors/search'', VectorsSearch), (str ''POST'', str ''/ai/v1/retrieve'', Retrieve),
      (str ''POST'', str ''/ai/v1/retrieve/hybrid'', RetrieveHybrid), (str ''POST'', str ''/ai/v1/llm/complete'', LlmComplete),
      (str ''POST'', str ''/ai/v1/llm/stream'', LlmStream), (str ''POST'', str ''/ai/v1/qa/stream'', StreamQa),
      (str ''POST'', str ''/ai/v1/agent/run'', RunAgent), (str ''POST'', str ''/ai/v1/tools/web-search'', WebSearch)]"

text \<open>\<open>/ai/v1/resources/<resource_id>/summarize\<close> and \<open>/extract-tags\<close>: the variable is one segment, not empty.\<close>

definition resource_routes :: "pystr \<Rightarrow> (pystr \<times> endpoint) list" where
  "resource_routes path = (case py_split (str ''/'') path of
     [a, b, c, d, rid, action] \<Rightarrow>
       if [a, b, c, d] = [[], str ''ai'', str ''v1'', str ''resources''] \<and> rid \<noteq> []
       then (if action = str ''summarize'' then [(str ''POST'', Summarize rid)]
             else if action = str ''extract-tags'' then [(str ''POST'', ExtractTags rid)] else [])
       else []
   | _ \<Rightarrow> [])"

definition routes_of :: "pystr \<Rightarrow> (pystr \<times> endpoint) list" where
  "routes_of path = map (\<lambda>(m, _, e). (m, e)) (filter (\<lambda>(_, p, _). p = path) literal_routes) @ resource_routes path"

text \<open>
  The rules of the blueprints: no rule for the path is a 404, a rule for another method a 405. The rule
  \<open>/metrics\<close> that \<open>init_metrics\<close> adds to the application itself, outside the blueprints and without a
  guard, is dispatched before these, by \<open>dispatch\<close> of the theory of the application. Left out are the HEAD and
  OPTIONS requests Flask answers on its own, its redirect of a path with repeated slashes and its route of static files.
\<close>

definition find_route :: "pystr \<Rightarrow> pystr \<Rightarrow> int + endpoint" where
  "find_route method path = (case filter (\<lambda>(m, _). m = method) (routes_of path) of
     (_, e) # _ \<Rightarrow> Inr e
   | [] \<Rightarrow> Inl (if routes_of path = [] then 404 else 405))"

section \<open>The way of a request\<close>

text \<open>\<open>before_request\<close> of the blueprint an endpoint belongs to.\<close>

fun guard :: "'s backend \<Rightarrow> endpoint \<Rightarrow> pystr option \<Rightarrow> exn + unit" where
  "guard bk Health header = Inr ()"
| "guard bk RunAgent header = check_agent_internal_key (bk_key bk) header"
| "guard bk _ header = check_internal_key (bk_key bk) header"

fun run_endpoint :: "'s backend \<Rightarrow> validators \<Rightarrow> endpoint \<Rightarrow> json option \<Rightarrow> ('s, reply) op" where
  "run_endpoint bk va Health body s = (s, Inr (health_reply bk))"
| "run_endpoint bk va InternalHealth body s = (s, Inr internal_health_reply)"
| "run_endpoint bk va CreateAsr body s = create_asr_task bk va body s"
| "run_endpoint bk va CreatePdf body s = create_pdf_parse_task bk va body s"
| "run_endpoint bk va ChunkText body s = chunk_text bk va body s"
| "run_endpoint bk va Embed body s = embed_endpoint bk va body s"
| "run_endpoint bk va VectorsUpsert body s = upsert_vectors bk va body s"
| "run_endpoint bk va VectorsDelete body s = delete_vectors bk va body s"
| "run_endpoint bk va VectorsSearch body s = search_vectors bk va body s"
| "run_endpoint bk va Retrieve body s = retrieve_context bk va body s"
| "run_endpoint bk va RetrieveHybrid body s = retrieve_hybrid bk va body s"
| "run_endpoint bk va (Summarize rid) body s = summarize_resource bk va rid body s"
| "run_endpoint bk va (ExtractTags rid) body s = extract_tags_endpoint bk va rid body s"
| "run_endpoint bk va LlmComplete body s = llm_complete_endpoint bk va body s"
| "run_endpoint bk va LlmStream body s = llm_stream_endpoint bk va body s"
| "run_endpoint bk va StreamQa body s = stream_qa_endpoint bk va body s"
| "run_endpoint bk va RunAgent body s = run_agent_endpoint bk va body s"
| "run_endpoint bk va WebSearch body s = web_search_endpoint bk va body s"

record http_request =
  ht_method :: pystr
  ht_path :: pystr
  ht_key :: "pystr option"
  ht_body :: "json option"

fun render :: "request_context \<Rightarrow> exn + reply \<Rightarrow> http_response" where
  "render cx (Inr (Reply data status)) = ok_response cx data status"
| "render cx (Inr (StreamReply events stop)) = EventStream events stop"
| "render cx (Inl e) = handle_failure cx (Thrown e)"

definition serve :: "'s backend \<Rightarrow> validators \<Rightarrow> request_context \<Rightarrow> http_request \<Rightarrow> 's \<Rightarrow> 's \<times> http_response" where
  "serve bk va cx req s = (case find_route (ht_method req) (ht_path req) of
     Inl code \<Rightarrow> (s, handle_failure cx (HttpError code))
   | Inr ep \<Rightarrow> (case guard bk ep (ht_key req) of
       Inl e \<Rightarrow> (s, handle_failure cx (Thrown e))
     | Inr _ \<Rightarrow> (case run_endpoint bk va ep (ht_body req) s of (s', r) \<Rightarrow> (s', render cx r))))"

end
