(* ===== verification/Api_Props.thy ===== *)
theory Api_Props
  imports Api
begin

text \<open>
  Properties of the HTTP interface: nothing happens without the internal key, what an error response tells
  its reader, which exceptions can leave an endpoint, and what the endpoints pass on of the components
  behind them.
\<close>

section \<open>Messages\<close>

definition harmless :: "pystr \<Rightarrow> bool" where
  "harmless m \<longleftrightarrow> length m \<le> 200 \<and> list_all (\<lambda>k. \<not> py_contains k (py_lower m)) sensitive_markers"

lemma py_lower_append: "py_lower (a @ b) = py_lower a @ py_lower b"
  by (simp add: py_lower_def)

lemma py_contains_append: "py_contains k a \<Longrightarrow> py_contains k (a @ b)"
  unfolding py_contains_iff by (metis append.assoc)

lemma harmless_take: "\<not> list_ex (\<lambda>k. py_contains k (py_lower m)) sensitive_markers \<Longrightarrow> harmless (take 200 m)"
  by (auto simp: harmless_def list_all_iff list_ex_iff)
    (metis append_take_drop_id py_contains_append py_lower_append)

lemma generic_harmless: "harmless GENERIC_MESSAGE"
  by code_simp

lemma sanitized_harmless: "harmless (sanitize_message m)"
  by (simp add: sanitize_message_def harmless_take generic_harmless del: str_simps)

lemma sanitize_harmless: "harmless m \<Longrightarrow> sanitize_message m = m"
  by (auto simp: sanitize_message_def harmless_def list_all_iff list_ex_iff)

text \<open>What an error response says: its status, its code and its message.\<close>

definition tells :: "http_response \<Rightarrow> request_context \<Rightarrow> int \<Rightarrow> pystr \<Rightarrow> pystr \<Rightarrow> bool" where
  "tells r cx status code message \<longleftrightarrow>
     (\<exists>more. r = JsonResponse status (JObj ([(str ''success'', JBool False), (str ''data'', JNull),
        (str ''error'', JObj [(str ''code'', JStr code), (str ''message'', JStr message),
           (str ''trace_id'', JStr (cx_trace_id cx)), (str ''retryable'', JBool (is_retryable status code)),
           (str ''details'', JObj [])])] @ more)))"

lemma error_response_tells:
  "code \<noteq> [] \<Longrightarrow> m \<noteq> [] \<Longrightarrow> tells (error_response cx code m status) cx status code (sanitize_message m)"
  by (simp add: tells_def error_response_def make_response_def normalize_error_def entry_def or_string_def safe_details_def
      str_inject Let_def del: str_simps)

lemma str_Nil_iff: "str s = [] \<longleftrightarrow> s = []"
  by (simp add: str_def)

fun failure_status :: "failure \<Rightarrow> int" where
  "failure_status (Thrown (APIException a)) = exc_status a"
| "failure_status (HttpError code) = (if code = 404 then 404 else 500)"
| "failure_status (Thrown (PyException c m)) = 500"

fun failure_code :: "failure \<Rightarrow> pystr" where
  "failure_code (Thrown (APIException a)) = str_or (str (exc_code a)) (str ''INTERNAL_ERROR'')"
| "failure_code (HttpError code) = (if code = 404 then str ''NOT_FOUND'' else str ''INTERNAL_ERROR'')"
| "failure_code (Thrown (PyException c m)) = str ''INTERNAL_ERROR''"

text \<open>The text a failure may show: that of an API exception, a fixed one otherwise.\<close>

fun failure_text :: "failure \<Rightarrow> pystr" where
  "failure_text (Thrown (APIException a)) = str_or (exc_message a) GENERIC_MESSAGE"
| "failure_text (HttpError code) = (if code = 404 then [0x8D44, 0x6E90, 0x4E0D, 0x5B58,
  0x5728] else [0x670D, 0x52A1, 0x5668, 0x5185, 0x90E8, 0x9519, 0x8BEF])"
| "failure_text (Thrown (PyException c m)) = [0x670D, 0x52A1, 0x5668, 0x5185, 0x90E8, 0x9519, 0x8BEF]"

lemma str_or_simps [simp]: "str_or [] b = b" "a \<noteq> [] \<Longrightarrow> str_or a b = a"
  by (simp_all add: str_or_def)

lemma error_response_tells_any:
  "tells (error_response cx code m status) cx status (str_or code (str ''INTERNAL_ERROR''))
     (sanitize_message (str_or m GENERIC_MESSAGE))"
  by (cases "code = []"; cases "m = []")
    (simp_all add: tells_def error_response_def make_response_def normalize_error_def entry_def or_string_def safe_details_def
      str_inject Let_def del: str_simps)

lemma handled:
  "tells (handle_failure cx f) cx (failure_status f) (failure_code f) (sanitize_message (failure_text f))"
proof (cases f rule: failure_text.cases)
  case (1 a)
  then show ?thesis using error_response_tells_any[of cx "str (exc_code a)" "exc_message a" "exc_status a"]
    by (simp add: handle_failure_def del: str_simps)
next
  case (2 code)
  then show ?thesis using error_response_tells_any[of cx "str ''NOT_FOUND''" "failure_text (HttpError 404)" 404]
      error_response_tells_any[of cx "str ''INTERNAL_ERROR''" "failure_text (HttpError 500)" 500]
    by (simp add: handle_failure_def str_inject str_Nil_iff del: str_simps)
next
  case (3 c m)
  then show ?thesis using error_response_tells_any[of cx "str ''INTERNAL_ERROR''" "failure_text (HttpError 500)" 500]
    by (simp add: handle_failure_def str_inject str_Nil_iff del: str_simps)
qed

text \<open>C29: an error response shows no secret. Whatever failed, its body carries the status, the code and the
  message of the failure, a hint whether to retry and no details; the message has at most 200 characters and
  none of the sensitive words; a message that is harmless is passed on as it is, and of an exception that is
  not the interface's own nothing is told.\<close>

theorem errors_sanitized:
  "\<exists>m. tells (handle_failure cx f) cx (failure_status f) (failure_code f) m \<and> harmless m
     \<and> (harmless (failure_text f) \<longrightarrow> m = failure_text f)"
  using handled[of cx f] sanitized_harmless sanitize_harmless by blast

theorem errors_sanitized_witness:
  "\<forall>cx. \<exists>m. tells (handle_failure cx (Thrown (raise_default RetrievalForbiddenError))) cx 403 (str ''FORBIDDEN'') m
     \<and> m = class_message RetrievalForbiddenError"
proof
  fix cx
  have "harmless (failure_text (Thrown (raise_default RetrievalForbiddenError)))" by code_simp
  then show "\<exists>m. tells (handle_failure cx (Thrown (raise_default RetrievalForbiddenError))) cx 403 (str ''FORBIDDEN'') m
     \<and> m = class_message RetrievalForbiddenError"
    using errors_sanitized[of cx "Thrown (raise_default RetrievalForbiddenError)"]
    by (auto simp: raise_default_def raise_msg_def str_inject str_Nil_iff simp del: str_simps)
qed

section \<open>The door\<close>

definition ascii :: "pystr \<Rightarrow> bool" where
  "ascii s \<longleftrightarrow> list_all (\<lambda>c. c < 128) s"

lemma guard_rejects:
  assumes "ep \<noteq> Health" "bk_key bk = [] \<or> header \<noteq> Some (bk_key bk)"
  shows "\<exists>e. guard bk ep header = Inl e
    \<and> (failure_status (Thrown e) \<in> {401, 403} \<or> failure_status (Thrown e) = 500 \<and> \<not> ascii (the header @ bk_key bk))"
proof -
  have g: "guard bk ep header = check_internal_key (bk_key bk) header
      \<or> guard bk ep header = check_agent_internal_key (bk_key bk) header"
    using assms(1) by (cases ep) simp_all
  have "\<exists>e. check_internal_key (bk_key bk) header = Inl e
      \<and> (failure_status (Thrown e) \<in> {401, 403} \<or> failure_status (Thrown e) = 500 \<and> \<not> ascii (the header @ bk_key bk))"
    using assms(2) by (cases header) (auto simp: check_internal_key_def compare_digest_def api_error_def raise_code_def
        type_error_def ascii_def)
  moreover have "\<exists>e. check_agent_internal_key (bk_key bk) header = Inl e
      \<and> (failure_status (Thrown e) \<in> {401, 403} \<or> failure_status (Thrown e) = 500 \<and> \<not> ascii (the header @ bk_key bk))"
    using assms(2) by (cases header) (auto simp: check_agent_internal_key_def compare_digest_def api_error_def raise_code_def
        type_error_def ascii_def Let_def)
  ultimately show ?thesis using g by metis
qed

text \<open>An endpoint behind the guard, without the right key: nothing changes and the answer is an error.\<close>

lemma guarded_endpoint_rejects:
  assumes "bk_key bk = [] \<or> ht_key req \<noteq> Some (bk_key bk)"
    and "find_route (ht_method req) (ht_path req) = Inr ep" "ep \<noteq> Health"
  shows "\<exists>r status code m. serve bk va cx req s = (s, r) \<and> tells r cx status code m
    \<and> (status \<in> {401, 403} \<or> status = 500 \<and> \<not> ascii (the (ht_key req) @ bk_key bk))"
proof -
  from guard_rejects[OF assms(3,1)] obtain e where e: "guard bk ep (ht_key req) = Inl e"
    and st: "failure_status (Thrown e) \<in> {401, 403}
      \<or> failure_status (Thrown e) = 500 \<and> \<not> ascii (the (ht_key req) @ bk_key bk)" by blast
  from e assms(2) have "serve bk va cx req s = (s, handle_failure cx (Thrown e))" by (simp add: serve_def)
  with st handled[of cx "Thrown e"] show ?thesis by blast
qed

definition demo_backend :: "nat backend" where
  "demo_backend = \<lparr>bk_upsert = (\<lambda>rs s. (s + length rs, Inr (int (length rs)))), bk_delete = (\<lambda>r u s. (0, Inr (int s))),
     bk_search = (\<lambda>q s. (s, Inr [])), bk_retrieve = (\<lambda>q s. (s, Inl (value_error (str ''x'')))),
     bk_hybrid = (\<lambda>q s. (s, Inl (raise_default RetrievalForbiddenError))), bk_embed = (\<lambda>cs s. (s, Inr [])),
     bk_chunk_config = Inr tiny_config, bk_estimator = fallback_estimator,
     bk_complete = (\<lambda>q s. (s, Inl (raise_default LLMTimeoutError))), bk_llm_stream = (\<lambda>q s. (s, [], None)),
     bk_qa_stream = (\<lambda>q s. (s, [], None)), bk_agent_stream = (\<lambda>q s. (s, [], None)),
     bk_web_search = (\<lambda>q k s. (s, Inr \<lparr>wp_results = [], wp_fallback = True\<rparr>)),
     bk_delay = (\<lambda>t s. (s + 1, Inr ())), bk_generate = (\<lambda>r q s. (s, Inr ())), bk_extract = (\<lambda>r q s. (s, Inr ())),
     bk_netloc_ok = (\<lambda>_. True), bk_testing = False, bk_key = str ''k'', bk_redis_ok = True, bk_broker_ok = False\<rparr>"

definition demo_call :: "string \<Rightarrow> string \<Rightarrow> pystr option \<Rightarrow> http_request" where
  "demo_call method path key = \<lparr>ht_method = str method, ht_path = str path, ht_key = key, ht_body = None\<rparr>"

section \<open>What leaves an endpoint\<close>

lemma replying_Inr: "replying f r = (s', Inr y) \<longleftrightarrow> (\<exists>x. r = (s', Inr x) \<and> y = f x)"
  by (cases r) (auto simp: replying_def split: sum.splits)

lemma api_errors_only_Inr: "api_errors_only other r = (s', Inr x) \<longleftrightarrow> r = (s', Inr x)"
  by (cases r) (auto simp: api_errors_only_def split: sum.splits if_splits)

definition rejects_properly :: "(json \<Rightarrow> exn + 'a) \<Rightarrow> bool" where
  "rejects_properly validate \<longleftrightarrow> (\<forall>v e. validate v = Inl e \<longrightarrow> exn_code e = ''ValidationError'')"

lemma is_api_default [simp]: "is_api (raise_default c)" "is_api bad_request" "is_api (api_error code m st)"
  by (simp_all add: raise_default_def bad_request_def api_error_def)

text \<open>A result whose exceptions are those of the interface, and how the parts of an endpoint keep it so.\<close>

definition api_only :: "exn + 'a \<Rightarrow> bool" where
  "api_only r \<longleftrightarrow> (case r of Inl e \<Rightarrow> is_api e | Inr x \<Rightarrow> True)"

lemma api_only_simps [simp]: "api_only (Inl e) = is_api e" "api_only (Inr x)"
  by (simp_all add: api_only_def)

lemma on_request_api: "api_only r \<Longrightarrow> (\<And>x. api_only (snd (f x s))) \<Longrightarrow> api_only (snd (on_request r f s))"
  by (cases r) (simp_all add: on_request_def)

lemma replying_api [simp]: "api_only (snd (replying f r)) = api_only (snd r)"
  by (simp add: replying_def split: sum.splits)

lemma errors_api [simp]: "is_api other \<Longrightarrow> api_only (snd (api_errors_only other r))"
  by (simp add: api_errors_only_def split: sum.splits)

lemma streaming_api [simp]: "api_only (snd (streaming r))"
  by (simp add: streaming_def)

lemma read_request_api: "rejects_properly v \<Longrightarrow> is_api bad \<Longrightarrow> api_only (read_request v bad body)"
  by (simp add: read_request_def rejects_properly_def split: sum.splits)

text \<open>Internals stay inside. Whatever exception a store, a model or a provider raises, the endpoints for
  vectors, retrieval, embedding, completion and streams fail with exceptions of the interface only, so that no
  request ends as an unexplained internal error, provided the request models reject with their own error.\<close>

theorem endpoints_raise_api_errors:
  assumes "run_endpoint bk va ep body s = (s', Inl e)"
    and "ep \<in> {VectorsUpsert, VectorsDelete, VectorsSearch, Retrieve, RetrieveHybrid, Embed, LlmComplete, LlmStream, StreamQa, RunAgent}"
    and "rejects_properly (va_upsert va)" "rejects_properly (va_delete va)" "rejects_properly (va_search va)"
      "rejects_properly (va_retrieve va)" "rejects_properly (va_hybrid va)" "rejects_properly (va_embed va)"
      "rejects_properly (va_llm va)" "rejects_properly (va_qa va)" "rejects_properly (va_agent va)"
  shows "is_api e"
proof -
  have "api_only (snd (run_endpoint bk va ep body s))"
    using assms(2-)
    by (auto simp: upsert_vectors_def delete_vectors_def search_vectors_def retrieve_context_def retrieve_hybrid_def
        embed_endpoint_def llm_complete_endpoint_def llm_stream_endpoint_def stream_qa_endpoint_def run_agent_endpoint_def
        intro!: on_request_api read_request_api)
  with assms(1) show ?thesis by simp
qed

definition reject_body :: "json \<Rightarrow> exn + 'a" where
  "reject_body v = Inl (LLM.validation_error ''missing'')"

definition demo_validators :: validators where
  "demo_validators =
     \<lparr>va_upsert = reject_body, va_delete = reject_body, va_search = reject_body, va_retrieve = (\<lambda>_. Inr demo_retrieval_request),
      va_hybrid = reject_body, va_embed = reject_body, va_chunk = reject_body, va_llm = reject_body, va_qa = reject_body,
      va_agent = reject_body, va_web = reject_body, va_asr = reject_body, va_pdf = reject_body, va_summarize = reject_body,
      va_extract = reject_body\<rparr>"

lemma demo_validators_reject:
  "rejects_properly reject_body" "rejects_properly (\<lambda>_. Inr x)"
  by (simp_all add: rejects_properly_def LLM.validation_error_def reject_body_def)

theorem endpoints_raise_api_errors_witness:
  "\<exists>e. run_endpoint demo_backend demo_validators Retrieve None 3 = (3, Inl e) \<and> is_api e"
proof -
  have r: "run_endpoint demo_backend demo_validators Retrieve None 3 = (3, Inl (raise_default RetrievalUnavailableError))"
    by (simp add: demo_validators_def retrieve_context_def on_request_def read_request_def replying_def
        api_errors_only_def demo_backend_def value_error_def)
  from endpoints_raise_api_errors[OF r] r show ?thesis
    by (simp add: demo_validators_def demo_validators_reject)
qed

text \<open>The retrieval endpoint keeps to its request. With either engine behind it, a chunk in the reply of
  \<open>/ai/v1/retrieve\<close> belongs to a resource of the request; the world is not changed.\<close>

theorem retrieve_endpoint_in_scope:
  assumes "bk_retrieve bk = (\<lambda>q s. (s, rag_retrieve engine q))"
    and "run_endpoint bk va Retrieve body s = (s', Inr reply)"
  shows "\<exists>q res. va_retrieve va (request_data body) = Inr q \<and> reply = Reply (dump_retrieval res) 200 \<and> s' = s
    \<and> (\<forall>c \<in> set (rr_chunks res). rc_resource_id c \<in> set (rq_resource_ids q))"
  using assms
  by (auto simp: retrieve_context_def on_request_def read_request_def replying_Inr api_errors_only_Inr
      split: sum.splits dest: rag.in_scope)

definition retrieving_backend :: "nat backend" where
  "retrieving_backend = demo_backend\<lparr>bk_retrieve :=
     (\<lambda>q s. (s, rag_retrieve (LegacyRagEngine demo_retrieval_env default_retrieval_config) q))\<rparr>"

lemma demo_retrieve_runs: "\<not> isl (retrieve demo_retrieval_env default_retrieval_config demo_retrieval_request)"
  by code_simp

theorem retrieve_endpoint_in_scope_witness:
  "\<exists>res. run_endpoint retrieving_backend demo_validators Retrieve None 3 = (3, Inr (Reply (dump_retrieval res) 200))
     \<and> (\<forall>c \<in> set (rr_chunks res). rc_resource_id c \<in> set (rq_resource_ids demo_retrieval_request))"
proof -
  from demo_retrieve_runs obtain res where res: "retrieve demo_retrieval_env default_retrieval_config demo_retrieval_request = Inr res"
    by (cases "retrieve demo_retrieval_env default_retrieval_config demo_retrieval_request") auto
  have r: "run_endpoint retrieving_backend demo_validators Retrieve None 3 = (3, Inr (Reply (dump_retrieval res) 200))"
    using res by (simp add: retrieving_backend_def demo_validators_def retrieve_context_def on_request_def read_request_def
        replying_def api_errors_only_def)
  have b: "bk_retrieve retrieving_backend
      = (\<lambda>q s. (s, rag_retrieve (LegacyRagEngine demo_retrieval_env default_retrieval_config) q))"
    by (simp add: retrieving_backend_def)
  from retrieve_endpoint_in_scope[OF b r] r show ?thesis by (auto simp: demo_validators_def)
qed

section \<open>Accepted PDF addresses\<close>

text \<open>What the endpoint accepts, the worker can fetch. For an address that \<open>/ai/v1/pdf/parse\<close> accepts, the
  worker's download asks the storage for an object in the bucket the address names, unless nothing but dot
  segments is left of its path; the default bucket is never used.\<close>

theorem accepted_pdf_downloads:
  assumes "validate_pdf_url ok url = Inr ()"
  shows "\<exists>bucket path. bucket \<noteq> [] \<and> path \<noteq> [] \<and> download_file ok env fget url =
    (if normalize_object_name path = [] then Inl (raise_msg PdfParseError (str ''invalid minio URL: missing bucket or object name''))
     else sbind (minio_client PdfParseError env) (\<lambda>client. case fget client bucket (normalize_object_name path) of
       Inr f \<Rightarrow> Inr f | Inl e \<Rightarrow> Inl (raise_msg PdfNotFoundError (str ''failed to download PDF from minio''))))"
proof -
  from assms obtain p where p: "urlparse ok url = Inr p" and scheme: "py_lower (u_scheme p) = str ''minio''"
    and bucket: "u_netloc p \<noteq> []" and path: "dropWhile (\<lambda>c. c = 47) (u_path p) \<noteq> []"
    by (auto simp: validate_pdf_url_def sbind_Inr_iff split: if_splits simp del: str_simps)
  have "str_or (u_netloc p) d = u_netloc p" for d using bucket by simp
  then have "download_file ok env fget url =
    (if normalize_object_name (dropWhile (\<lambda>c. c = 47) (u_path p)) = []
     then Inl (raise_msg PdfParseError (str ''invalid minio URL: missing bucket or object name''))
     else sbind (minio_client PdfParseError env) (\<lambda>client.
       case fget client (u_netloc p) (normalize_object_name (dropWhile (\<lambda>c. c = 47) (u_path p))) of
         Inr f \<Rightarrow> Inr f | Inl e \<Rightarrow> Inl (raise_msg PdfNotFoundError (str ''failed to download PDF from minio''))))"
    using scheme bucket by (simp add: download_file_def p Let_def del: str_simps)
  with bucket path show ?thesis by blast
qed

theorem accepted_pdf_downloads_witness:
  "validate_pdf_url (\<lambda>_. True) (str ''minio://b/a.pdf'') = Inr ()
   \<and> (\<forall>env fget. \<exists>bucket path. bucket \<noteq> [] \<and> path \<noteq> [] \<and> download_file (\<lambda>_. True) env fget (str ''minio://b/a.pdf'') =
    (if normalize_object_name path = [] then Inl (raise_msg PdfParseError (str ''invalid minio URL: missing bucket or object name''))
     else sbind (minio_client PdfParseError env) (\<lambda>client. case fget client bucket (normalize_object_name path) of
       Inr f \<Rightarrow> Inr f | Inl e \<Rightarrow> Inl (raise_msg PdfNotFoundError (str ''failed to download PDF from minio'')))))"
proof -
  have "validate_pdf_url (\<lambda>_. True) (str ''minio://b/a.pdf'') = Inr ()" by code_simp
  then show ?thesis using accepted_pdf_downloads by blast
qed

section \<open>Where the interface answers with the wrong error\<close>

text \<open>A method that a path does not offer is a client's mistake (405), but the handler for exceptions answers it as
  an internal error; so does a key that is not ASCII, and a PDF address that Python's parser rejects.\<close>

lemma wrong_method_is_internal_error:
  "serve bk va cx (demo_call ''GET'' ''/ai/v1/retrieve'' key) s
     = (s, error_response cx (str ''INTERNAL_ERROR'') [0x670D, 0x52A1, 0x5668, 0x5185, 0x90E8,
       0x9519, 0x8BEF] 500)"
proof -
  have "find_route (str ''GET'') (str ''/ai/v1/retrieve'') = Inl 405" by code_simp
  then show ?thesis by (simp add: serve_def demo_call_def handle_failure_def del: str_simps)
qed

lemma foreign_key_is_internal_error:
  "serve demo_backend va cx (demo_call ''POST'' ''/ai/v1/retrieve'' (Some [233])) s
     = (s, error_response cx (str ''INTERNAL_ERROR'') [0x670D, 0x52A1, 0x5668, 0x5185, 0x90E8,
       0x9519, 0x8BEF] 500)"
proof -
  have r: "find_route (str ''POST'') (str ''/ai/v1/retrieve'') = Inr Retrieve" by code_simp
  have g: "guard demo_backend Retrieve (Some [233]) = Inl (type_error (str ''comparing strings with non-ASCII characters is not supported''))"
    by (simp add: check_internal_key_def demo_backend_def compare_digest_def str_Nil_iff del: str_simps)
  show ?thesis by (simp add: serve_def demo_call_def r g handle_failure_def type_error_def del: str_simps guard.simps)
qed

lemma malformed_pdf_url_is_internal_error:
  assumes "\<not> ok (str ''[b'')"
  shows "\<exists>m. validate_pdf_url ok (str ''minio://[b/a.pdf'') = Inl (value_error m)"
proof -
  have "urlparse ok (str ''minio://[b/a.pdf'') = Inl (value_error (str ''netloc''))"
    using assms by (simp add: urlparse_def split_scheme_def scheme_start_def scheme_char_def py_lower_def lower_char_def prefix_def)
  then show ?thesis by (auto simp: validate_pdf_url_def)
qed

text \<open>The word list also hides messages that name no secret, such as those about token limits.
\<close>

lemma token_limit_message_hidden:
  "failure_text (Thrown (raise_msg InvalidRetrievalRequestError ((str ''max_context_tokens '' @
    [0x5FC5, 0x987B, 0x5927, 0x4E8E] @ str '' 0''))))
     = (str ''max_context_tokens '' @ [0x5FC5, 0x987B, 0x5927, 0x4E8E] @ str '' 0'')
   \<and> tells (handle_failure cx (Thrown (raise_msg InvalidRetrievalRequestError ((str ''max_context_tokens '' @
     [0x5FC5, 0x987B, 0x5927, 0x4E8E] @ str '' 0''))))) cx
       400 (str (class_code InvalidRetrievalRequestError)) GENERIC_MESSAGE"
proof -
  let ?f = "Thrown (raise_msg InvalidRetrievalRequestError ((str ''max_context_tokens '' @ [0x5FC5,
    0x987B, 0x5927, 0x4E8E] @ str '' 0'')))"
  have t: "failure_text ?f = (str ''max_context_tokens '' @ [0x5FC5, 0x987B, 0x5927, 0x4E8E] @
    str '' 0'')" by code_simp
  have m: "sanitize_message ((str ''max_context_tokens '' @ [0x5FC5, 0x987B, 0x5927, 0x4E8E] @
    str '' 0'')) = GENERIC_MESSAGE" by code_simp
  have "failure_code ?f = str (class_code InvalidRetrievalRequestError)" "failure_status ?f = 400" by code_simp+
  with handled[of cx ?f] t m show ?thesis by simp
qed

end
