(* ===== verification/Sse_Bridge.thy ===== *)
theory Sse_Bridge
  imports LLM
begin

text \<open>
  How a synchronous view sends an asynchronous stream (\<open>sync_format_sse_stream\<close> in
  \<open>app/services/llm/llm_client.py\<close>). Without a running event loop the stream is driven directly. Otherwise a
  thread of its own puts the chunks into a queue that the view empties: a step relation in which both sides
  move in any order. The streams modelled are those that end: a stream is the list of its chunks with the exception
  that ends it, if any. (A stream that yields chunks for ever is sent for ever, by both ways.)
\<close>

section \<open>The two ways\<close>

definition drive_directly :: "'a list \<times> exn option \<Rightarrow> 'a list \<times> exn option" where
  "drive_directly stream = stream"

datatype 'a item = Chunk 'a | Failure exn | Sentinel

datatype phase = Streaming | Closing | Exited

datatype consumer = Waiting | Ended | Broken exn

record 'a bridge =
  br_left :: "'a list"
  br_stop :: "exn option"
  br_phase :: phase
  br_queue :: "'a item list"
  br_sent :: "'a list"
  br_consumer :: consumer

definition bridge_start :: "'a list \<times> exn option \<Rightarrow> 'a bridge" where
  "bridge_start stream = (case stream of (chunks, stop) \<Rightarrow>
     \<lparr>br_left = chunks, br_stop = stop, br_phase = Streaming, br_queue = [], br_sent = [], br_consumer = Waiting\<rparr>)"

text \<open>
  The thread: \<open>async for\<close> puts chunks, \<open>except\<close> puts the exception, \<open>finally\<close> puts the sentinel. The view:
  \<open>q.get()\<close> waits for an item and yields it, raises it or stops.
\<close>

inductive bridge_step :: "'a bridge \<Rightarrow> 'a bridge \<Rightarrow> bool" where
  put_chunk: "br_phase b = Streaming \<Longrightarrow> br_left b = x # xs
    \<Longrightarrow> bridge_step b (b\<lparr>br_left := xs, br_queue := br_queue b @ [Chunk x]\<rparr>)"
| put_exception: "br_phase b = Streaming \<Longrightarrow> br_left b = [] \<Longrightarrow> br_stop b = Some e
    \<Longrightarrow> bridge_step b (b\<lparr>br_phase := Closing, br_queue := br_queue b @ [Failure e]\<rparr>)"
| put_sentinel: "br_phase b = Closing \<or> br_phase b = Streaming \<and> br_left b = [] \<and> br_stop b = None
    \<Longrightarrow> bridge_step b (b\<lparr>br_phase := Exited, br_queue := br_queue b @ [Sentinel]\<rparr>)"
| get_chunk: "br_consumer b = Waiting \<Longrightarrow> br_queue b = Chunk x # q
    \<Longrightarrow> bridge_step b (b\<lparr>br_queue := q, br_sent := br_sent b @ [x]\<rparr>)"
| get_exception: "br_consumer b = Waiting \<Longrightarrow> br_queue b = Failure e # q
    \<Longrightarrow> bridge_step b (b\<lparr>br_queue := q, br_consumer := Broken e\<rparr>)"
| get_sentinel: "br_consumer b = Waiting \<Longrightarrow> br_queue b = Sentinel # q
    \<Longrightarrow> bridge_step b (b\<lparr>br_queue := q, br_consumer := Ended\<rparr>)"

section \<open>Invariant\<close>

definition ending :: "exn option \<Rightarrow> 'a item list" where
  "ending stop = (case stop of None \<Rightarrow> [] | Some e \<Rightarrow> [Failure e]) @ [Sentinel]"

text \<open>What the thread has still to put.\<close>

definition to_come :: "'a bridge \<Rightarrow> 'a item list" where
  "to_come b = (case br_phase b of
     Streaming \<Rightarrow> map Chunk (br_left b) @ ending (br_stop b) | Closing \<Rightarrow> [Sentinel] | Exited \<Rightarrow> [])"

definition bridge_ok :: "'a list \<Rightarrow> exn option \<Rightarrow> 'a bridge \<Rightarrow> bool" where
  "bridge_ok chunks stop b \<longleftrightarrow> (case br_consumer b of
     Waiting \<Rightarrow> map Chunk (br_sent b) @ br_queue b @ to_come b = map Chunk chunks @ ending stop
   | Ended \<Rightarrow> br_sent b = chunks \<and> stop = None
   | Broken e \<Rightarrow> br_sent b = chunks \<and> stop = Some e)"

lemma bridge_start_ok: "bridge_ok chunks stop (bridge_start (chunks, stop))"
  by (simp add: bridge_ok_def bridge_start_def to_come_def)

lemma to_come_simps [simp]:
  "to_come (b\<lparr>br_queue := q\<rparr>) = to_come b" "to_come (b\<lparr>br_sent := o'\<rparr>) = to_come b"
  "to_come (b\<lparr>br_consumer := c\<rparr>) = to_come b"
  by (simp_all add: to_come_def split: phase.splits)

lemma to_come_moves:
  "br_phase b = Streaming \<Longrightarrow> br_left b = x # xs \<Longrightarrow> to_come b = Chunk x # to_come (b\<lparr>br_left := xs\<rparr>)"
  "br_phase b = Streaming \<Longrightarrow> br_left b = [] \<Longrightarrow> br_stop b = Some e \<Longrightarrow> to_come b = Failure e # to_come (b\<lparr>br_phase := Closing\<rparr>)"
  "br_phase b = Closing \<or> br_phase b = Streaming \<and> br_left b = [] \<and> br_stop b = None
     \<Longrightarrow> to_come b = Sentinel # to_come (b\<lparr>br_phase := Exited\<rparr>)"
  by (auto simp: to_come_def ending_def)

lemma sent_prefix: "map Chunk xs @ q = map Chunk ys @ ending stop \<Longrightarrow> prefix xs ys"
proof (induction xs arbitrary: ys)
  case (Cons a xs)
  then show ?case by (cases ys) (auto simp: ending_def split: option.splits)
qed simp

lemma sent_all:
  "map Chunk xs @ i # q = map Chunk ys @ ending stop \<Longrightarrow> i \<in> {Sentinel, Failure e}
     \<Longrightarrow> xs = ys \<and> stop = (if i = Sentinel then None else Some e)"
proof (induction xs arbitrary: ys)
  case Nil
  then show ?case by (cases ys) (auto simp: ending_def split: option.splits)
next
  case (Cons x xs)
  then show ?case by (cases ys) (auto simp: ending_def split: option.splits)
qed

lemma bridge_step_ok:
  assumes "bridge_step b b'" "bridge_ok chunks stop b"
  shows "bridge_ok chunks stop b'"
  using assms
proof cases
  case (put_chunk x xs)
  with assms(2) to_come_moves(1)[of b x xs] show ?thesis by (auto simp: bridge_ok_def split: consumer.splits)
next
  case (put_exception e)
  with assms(2) to_come_moves(2)[of b e] show ?thesis by (auto simp: bridge_ok_def split: consumer.splits)
next
  case put_sentinel
  with assms(2) to_come_moves(3)[of b] show ?thesis by (simp add: bridge_ok_def split: consumer.splits)
next
  case (get_exception e q)
  with assms(2) sent_all[of "br_sent b" "Failure e" _ _ _ e] show ?thesis by (auto simp: bridge_ok_def)
next
  case (get_sentinel q)
  with assms(2) sent_all[of "br_sent b" Sentinel] show ?thesis by (auto simp: bridge_ok_def)
qed (auto simp: bridge_ok_def split: consumer.splits)

lemma reachable_ok: "bridge_step\<^sup>*\<^sup>* (bridge_start (chunks, stop)) b \<Longrightarrow> bridge_ok chunks stop b"
  by (induction rule: rtranclp_induct) (auto intro: bridge_start_ok bridge_step_ok)

lemma waiting_progress:
  assumes "bridge_ok chunks stop b" "br_consumer b = Waiting"
  shows "\<exists>b'. bridge_step b b'"
proof (cases "br_queue b")
  case (Cons i q)
  with assms(2) show ?thesis by (cases i) (blast intro: bridge_step.intros)+
next
  case Nil
  show ?thesis
  proof (cases "br_phase b")
    case Streaming
    then show ?thesis by (cases "br_left b"; cases "br_stop b") (blast intro: bridge_step.intros)+
  next
    case Closing
    then show ?thesis by (blast intro: bridge_step.intros)
  next
    case Exited
    with assms Nil have "map Chunk (br_sent b) = map Chunk chunks @ ending stop" by (simp add: bridge_ok_def to_come_def)
    then have "Sentinel \<in> set (map Chunk (br_sent b))" by (simp add: ending_def)
    then show ?thesis by auto
  qed
qed

text \<open>C30: the thread is invisible. However the thread and the view are scheduled, the view sends a prefix of the
  stream; when it ends, it has sent exactly the chunks that driving the stream directly gives and ends as that
  does, with the same exception or none; and until then one of the two can move.\<close>

theorem bridge_transparent:
  assumes "bridge_step\<^sup>*\<^sup>* (bridge_start stream) b"
  shows "case br_consumer b of
      Waiting \<Rightarrow> prefix (br_sent b) (fst (drive_directly stream)) \<and> (\<exists>b'. bridge_step b b')
    | Ended \<Rightarrow> (br_sent b, None) = drive_directly stream
    | Broken e \<Rightarrow> (br_sent b, Some e) = drive_directly stream"
proof (cases stream)
  case (Pair chunks stop)
  with assms have ok: "bridge_ok chunks stop b" by (simp add: reachable_ok)
  show ?thesis
  proof (cases "br_consumer b")
    case Waiting
    with ok have "map Chunk (br_sent b) @ br_queue b @ to_come b = map Chunk chunks @ ending stop" by (simp add: bridge_ok_def)
    then have "prefix (br_sent b) chunks" by (rule sent_prefix)
    with Waiting waiting_progress[OF ok] show ?thesis by (simp add: drive_directly_def Pair)
  qed (use ok in \<open>auto simp: bridge_ok_def drive_directly_def Pair\<close>)
qed

definition bridge_work :: "'a bridge \<Rightarrow> nat" where
  "bridge_work b = 2 * length (to_come b) + length (br_queue b)"

text \<open>Every step takes a chunk, an exception or the sentinel one place further.\<close>

lemma bridge_step_decreases:
  assumes "bridge_step b b'"
  shows "bridge_work b' < bridge_work b"
  using assms
proof cases
  case (put_chunk x xs)
  with to_come_moves(1)[of b x xs] show ?thesis by (simp add: bridge_work_def)
next
  case (put_exception e)
  with to_come_moves(2)[of b e] show ?thesis by (simp add: bridge_work_def)
next
  case put_sentinel
  with to_come_moves(3)[of b] show ?thesis by (simp add: bridge_work_def)
qed (auto simp: bridge_work_def)

lemma bridge_steps_bound: "(bridge_step ^^ n) b b' \<Longrightarrow> n + bridge_work b' \<le> bridge_work b"
proof (induction n arbitrary: b')
  case (Suc n)
  then obtain c where "(bridge_step ^^ n) b c" "bridge_step c b'" by auto
  with Suc.IH[of c] bridge_step_decreases[of c b'] show ?case by simp
qed simp

lemma bridge_start_work: "bridge_work (bridge_start (chunks, stop)) \<le> 2 * length chunks + 4"
  by (simp add: bridge_work_def bridge_start_def to_come_def ending_def split: option.splits)

text \<open>A bridge nothing can move any more: the thread has put everything, the sentinel included, and left.\<close>

lemma stuck_exited: "\<nexists>b'. bridge_step b b' \<Longrightarrow> br_phase b = Exited"
  by (cases "br_phase b"; cases "br_left b"; cases "br_stop b") (blast intro: bridge_step.intros)+

text \<open>C31: the hand-over of a stream that ends is completed. However the thread and the view are scheduled, at most
  two steps per chunk and four more can be taken, and when none is left the thread has exited and the view,
  having sent every chunk, has ended, or has raised the exception of the stream if it has one. So neither hangs
  in the queue.\<close>

theorem bridge_completes:
  assumes "(bridge_step ^^ n) (bridge_start (chunks, stop)) b"
  shows "n \<le> 2 * length chunks + 4
    \<and> ((\<nexists>b'. bridge_step b b') \<longrightarrow> br_phase b = Exited \<and> br_sent b = chunks
         \<and> br_consumer b = (case stop of None \<Rightarrow> Ended | Some e \<Rightarrow> Broken e))"
proof (intro conjI impI)
  show "n \<le> 2 * length chunks + 4"
    using bridge_steps_bound[OF assms] bridge_start_work[of chunks stop] by simp
  have ok: "bridge_ok chunks stop b" using assms by (intro reachable_ok) (rule relpowp_imp_rtranclp)
  assume stuck: "\<nexists>b'. bridge_step b b'"
  then show "br_phase b = Exited" by (rule stuck_exited)
  from stuck waiting_progress[OF ok] have "br_consumer b \<noteq> Waiting" by blast
  with ok show "br_sent b = chunks" "br_consumer b = (case stop of None \<Rightarrow> Ended | Some e \<Rightarrow> Broken e)"
    by (auto simp: bridge_ok_def split: consumer.splits)
qed

inductive_cases bridge_stepE: "bridge_step b b'"

theorem bridge_completes_witness:
  "\<exists>b. (bridge_step ^^ 4) (bridge_start ([1::nat], None)) b \<and> (\<nexists>b'. bridge_step b b') \<and> br_sent b = [1] \<and> br_consumer b = Ended"
proof -
  let ?b = "bridge_start ([1::nat], None)"
  let ?c = "?b\<lparr>br_left := [], br_queue := [Chunk 1]\<rparr>"
  let ?d = "?c\<lparr>br_phase := Exited, br_queue := [Chunk 1, Sentinel]\<rparr>"
  let ?f = "?d\<lparr>br_queue := [Sentinel], br_sent := [1]\<rparr>"
  let ?g = "?f\<lparr>br_queue := [], br_consumer := Ended\<rparr>"
  have "bridge_step ?b ?c" using put_chunk[of ?b 1 "[]"] by (simp add: bridge_start_def)
  moreover have "bridge_step ?c ?d" using put_sentinel[of ?c] by (simp add: bridge_start_def)
  moreover have "bridge_step ?d ?f" using get_chunk[of ?d 1 "[Sentinel]"] by (simp add: bridge_start_def)
  moreover have "bridge_step ?f ?g" using get_sentinel[of ?f "[]"] by (simp add: bridge_start_def)
  ultimately have r: "(bridge_step ^^ 4) ?b ?g" by (auto simp: numeral_eq_Suc)
  have "\<nexists>b'. bridge_step ?g b'" by (auto elim: bridge_stepE simp: bridge_start_def)
  with bridge_completes[OF r] r show ?thesis by auto
qed

theorem bridge_transparent_witness:
  "\<exists>b. bridge_step\<^sup>*\<^sup>* (bridge_start ([1::nat], Some (value_error []))) b \<and> br_consumer b = Broken (value_error [])
     \<and> (br_sent b, Some (value_error [])) = drive_directly ([1], Some (value_error []))"
proof -
  let ?e = "value_error []" and ?b = "bridge_start ([1::nat], Some (value_error []))"
  let ?c = "?b\<lparr>br_left := [], br_queue := [Chunk 1]\<rparr>"
  let ?d = "?c\<lparr>br_phase := Closing, br_queue := [Chunk 1, Failure ?e]\<rparr>"
  let ?f = "?d\<lparr>br_queue := [Failure ?e], br_sent := [1]\<rparr>"
  let ?g = "?f\<lparr>br_queue := [], br_consumer := Broken ?e\<rparr>"
  have "bridge_step ?b ?c" using put_chunk[of ?b 1 "[]"] by (simp add: bridge_start_def)
  moreover have "bridge_step ?c ?d" using put_exception[of ?c ?e] by (simp add: bridge_start_def)
  moreover have "bridge_step ?d ?f" using get_chunk[of ?d 1 "[Failure ?e]"] by (simp add: bridge_start_def)
  moreover have "bridge_step ?f ?g" using get_exception[of ?f ?e "[]"] by (simp add: bridge_start_def)
  ultimately have r: "bridge_step\<^sup>*\<^sup>* ?b ?g" by (meson rtranclp.rtrancl_into_rtrancl rtranclp.rtrancl_refl)
  from bridge_transparent[OF r] r show ?thesis by (intro exI[of _ ?g]) simp
qed

end
