(* ===== verification/Observability.thy ===== *)
theory Observability
  imports LLM Configuration
begin

text \<open>
  What leaves the service for monitoring (\<open>app/observability\<close>): the redaction of prompts and completions, the
  LLM observers and their choice, trace ids and span attributes, and the counters of requests. The clients of
  Langfuse and LangSmith, \<open>str.upper\<close> and the clock are parameters.
\<close>

section \<open>Redaction\<close>

text \<open>
  \<open>SENSITIVE_PATTERN\<close>. Ignoring case, Python also takes the Kelvin sign for \<open>k\<close>, the long \<open>s\<close> for \<open>s\<close> and the
  dotted and dotless \<open>i\<close> for \<open>i\<close>. No keyword starts another, and the runs of blanks and of value characters
  are separated by their classes, so the match at a position is unique.
\<close>

definition fold_char :: "int \<Rightarrow> int" where
  "fold_char c = (if 65 \<le> c \<and> c \<le> 90 then c + 32 else if c = 8490 then 107 else if c = 383 then 115
     else if c \<in> {304, 305} then 105 else c)"

definition KEYWORDS :: "pystr list" where
  "KEYWORDS = [str ''apikey'', str ''api_key'', str ''api-key'', str ''authorization'', str ''bearer'', str ''jwt'',
     str ''password'', str ''secret'', str ''token'']"

definition value_char :: "int \<Rightarrow> bool" where
  "value_char c \<longleftrightarrow> \<not> is_space c \<and> c \<noteq> 44 \<and> c \<noteq> 59"

definition match_keyword :: "pystr \<Rightarrow> nat option" where
  "match_keyword s = map_option length (find (\<lambda>k. prefix k (map fold_char s)) KEYWORDS)"

text \<open>\<open>\s*[:=]\s*([^\s,;]+)\<close>: the value and what follows it.\<close>

definition match_value :: "pystr \<Rightarrow> (pystr \<times> pystr) option" where
  "match_value s = (case dropWhile is_space s of
     [] \<Rightarrow> None
   | c # r \<Rightarrow>
       let r' = dropWhile is_space r; v = takeWhile value_char r'
       in if c \<in> {58, 61} \<and> v \<noteq> [] then Some (v, dropWhile value_char r') else None)"

text \<open>The keyword as it is written, the value and the rest.\<close>

definition match_secret :: "pystr \<Rightarrow> (pystr \<times> pystr \<times> pystr) option" where
  "match_secret s = (case match_keyword s of
     None \<Rightarrow> None
   | Some n \<Rightarrow> (case match_value (drop n s) of None \<Rightarrow> None | Some (v, rest) \<Rightarrow> Some (take n s, v, rest)))"

definition REDACTED :: pystr where
  "REDACTED = str ''[REDACTED]''"

lemma match_value_shorter:
  assumes "match_value s = Some (v, rest)"
  shows "length rest < length s"
proof -
  from assms obtain c r where d: "dropWhile is_space s = c # r" and rest: "rest = dropWhile value_char (dropWhile is_space r)"
    by (auto simp: match_value_def Let_def split: list.splits if_splits)
  have "length rest \<le> length r" unfolding rest by (meson length_dropWhile_le order_trans)
  also have "length r < length (dropWhile is_space s)" by (simp add: d)
  finally show ?thesis using length_dropWhile_le[of is_space s] by simp
qed

lemma match_secret_shorter: "match_secret s = Some (k, v, rest) \<Longrightarrow> length rest < length s"
  by (auto simp: match_secret_def split: option.splits dest!: match_value_shorter)

function redact :: "pystr \<Rightarrow> pystr" where
  "redact [] = []"
| "redact (c # cs) = (case match_secret (c # cs) of
     Some (k, v, rest) \<Rightarrow> k @ [61] @ REDACTED @ redact rest
   | None \<Rightarrow> c # redact cs)"
  by pat_completeness auto
termination
  by (relation "measure length") (auto dest: match_secret_shorter)

declare redact.simps(2) [simp del]

section \<open>LLM observers\<close>

record llm_observer_config =
  oc_provider :: pystr
  oc_prompt_version :: pystr
  oc_redact :: bool
  oc_max_prompt_chars :: int
  oc_max_completion_chars :: int

definition sanitize_text :: "bool \<Rightarrow> int \<Rightarrow> pystr \<Rightarrow> pystr" where
  "sanitize_text enabled max_chars value = py_take max_chars (if enabled then redact value else value)"

definition sanitize_event :: "llm_observer_config \<Rightarrow> generation_event \<Rightarrow> generation_event" where
  "sanitize_event cfg ev = ev\<lparr>ge_prompt := sanitize_text (oc_redact cfg) (oc_max_prompt_chars cfg) (ge_prompt ev),
     ge_completion := sanitize_text (oc_redact cfg) (oc_max_completion_chars cfg) (ge_completion ev)\<rparr>"

datatype observer_kind = NoopObserver | LangfuseObserver llm_observer_config | LangSmithObserver llm_observer_config

text \<open>\<open>build_llm_observer\<close>; the constructors of the exporters raise when their package is missing.\<close>

definition set_in :: "environment \<Rightarrow> string \<Rightarrow> bool" where
  "set_in env k \<longleftrightarrow> (case env (str k) of Some v \<Rightarrow> v \<noteq> [] | None \<Rightarrow> False)"

definition build_llm_observer ::
  "environment \<Rightarrow> exn + unit \<Rightarrow> exn + unit \<Rightarrow> llm_observer_config \<Rightarrow> observer_kind" where
  "build_llm_observer env langfuse langsmith cfg =
     (if oc_provider cfg \<in> {[], str ''none'', str ''noop''} then NoopObserver
      else if oc_provider cfg = str ''langfuse''
      then (if \<not> set_in env ''LANGFUSE_PUBLIC_KEY'' \<or> \<not> set_in env ''LANGFUSE_SECRET_KEY'' then NoopObserver
            else case langfuse of Inr _ \<Rightarrow> LangfuseObserver cfg | Inl _ \<Rightarrow> NoopObserver)
      else if oc_provider cfg = str ''langsmith''
      then (if \<not> set_in env ''LANGCHAIN_API_KEY'' then NoopObserver
            else case langsmith of Inr _ \<Rightarrow> LangSmithObserver cfg | Inl _ \<Rightarrow> NoopObserver)
      else NoopObserver)"

definition observer_parse_bool :: "(pyval \<Rightarrow> pystr) \<Rightarrow> pyval \<Rightarrow> bool" where
  "observer_parse_bool rp v = (case v of PBool b \<Rightarrow> b
     | _ \<Rightarrow> py_lower (str_of_val rp v) \<notin> {str ''0'', str ''false'', str ''no'', str ''off''})"

definition build_llm_observer_config ::
  "environment \<Rightarrow> (pyval \<Rightarrow> pystr) \<Rightarrow> pydict \<Rightarrow> exn + llm_observer_config" where
  "build_llm_observer_config env rp cfg =
     (let get = (\<lambda>k d. resolve_env_value False env (get_value cfg k d))
      in sbind (case get ''provider'' (PStr (str ''none'')) of PStr s \<Rightarrow> Inr (py_lower s) | _ \<Rightarrow> Inl attribute_error) (\<lambda>provider.
         sbind (int_of_val (get ''max_prompt_chars'' (PInt 2000))) (\<lambda>max_prompt.
         sbind (int_of_val (get ''max_completion_chars'' (PInt 2000))) (\<lambda>max_completion.
           Inr \<lparr>oc_provider = provider, oc_prompt_version = str_of_val rp (get ''prompt_version'' (PStr (str ''default''))),
             oc_redact = observer_parse_bool rp (get ''redact'' (PBool True)),
             oc_max_prompt_chars = max_prompt, oc_max_completion_chars = max_completion\<rparr>))))"

text \<open>
  What an exporter sends: the trace id and the prompt version travel beside the event; text, model and
  token counts are those of the sanitized event.
\<close>

record exported =
  xo_model :: pystr
  xo_input :: pystr
  xo_output :: pystr
  xo_usage :: "int \<times> int \<times> int"
  xo_status :: string
  xo_error_code :: "string option"

definition export_event :: "llm_observer_config \<Rightarrow> generation_event \<Rightarrow> exported" where
  "export_event cfg raw =
     (let ev = sanitize_event cfg raw
      in \<lparr>xo_model = ge_model ev, xo_input = ge_prompt ev, xo_output = ge_completion ev,
          xo_usage = (ge_input_tokens ev, ge_output_tokens ev, ge_total_tokens ev),
          xo_status = ge_status ev, xo_error_code = ge_error_code ev\<rparr>)"

text \<open>\<open>record_generation\<close> over a client that sends or raises, and the guard around it.\<close>

type_synonym 's exporter = "exported \<Rightarrow> 's \<Rightarrow> 's \<times> (exn + unit)"

fun record_generation :: "'s exporter \<Rightarrow> observer_kind \<Rightarrow> generation_event \<Rightarrow> 's \<Rightarrow> 's \<times> (exn + unit)" where
  "record_generation send NoopObserver ev s = (s, Inr ())"
| "record_generation send (LangfuseObserver cfg) ev s = send (export_event cfg ev) s"
| "record_generation send (LangSmithObserver cfg) ev s = send (export_event cfg ev) s"

definition safe_record :: "'s exporter \<Rightarrow> observer_kind \<Rightarrow> generation_event \<Rightarrow> 's \<Rightarrow> 's \<times> (exn + unit)" where
  "safe_record send observer ev s = (fst (record_generation send observer ev s), Inr ())"

section \<open>Tracing\<close>

definition SENSITIVE_MARKERS :: "pystr list" where
  "SENSITIVE_MARKERS = [str ''authorization'', str ''jwt'', str ''token'', str ''api_key'', str ''secret'', str ''password'',
     str ''question'']"

definition ALLOWED_PREFIXES :: "pystr list" where
  "ALLOWED_PREFIXES = [str ''http.'', str ''resource.'', str ''task.'', str ''retrieval.'', str ''llm.'', str ''embedding.'',
     str ''sse.'', str ''error.'']"

definition marked :: "pystr \<Rightarrow> bool" where
  "marked s \<longleftrightarrow> list_ex (\<lambda>m. py_contains m (py_lower s)) SENSITIVE_MARKERS"

definition is_safe_attribute :: "pystr \<Rightarrow> pyval \<Rightarrow> bool" where
  "is_safe_attribute key value \<longleftrightarrow> \<not> marked key
     \<and> (list_ex (\<lambda>p. prefix p (py_lower key)) ALLOWED_PREFIXES \<or> py_lower key \<in> {str ''url.path'', str ''model.provider''})
     \<and> (case value of PStr s \<Rightarrow> \<not> marked s | _ \<Rightarrow> True)"

definition code_char :: "int \<Rightarrow> bool" where
  "code_char c \<longleftrightarrow> (65 \<le> c \<and> c \<le> 90) \<or> (48 \<le> c \<and> c \<le> 57) \<or> c = 95"

definition sanitize_error_code :: "(pystr \<Rightarrow> pystr) \<Rightarrow> pystr \<Rightarrow> pystr" where
  "sanitize_error_code upper code = take 80 (map (\<lambda>c. if code_char c then c else 95) (upper code))"

record span =
  sp_name :: pystr
  sp_attributes :: pydict
  sp_status :: string
  sp_error_code :: "pystr option"
  sp_ended :: bool

definition new_span :: "pystr \<Rightarrow> span" where
  "new_span name = \<lparr>sp_name = name, sp_attributes = [], sp_status = ''OK'', sp_error_code = None, sp_ended = False\<rparr>"

definition set_attribute :: "pystr \<Rightarrow> pyval \<Rightarrow> span \<Rightarrow> span" where
  "set_attribute key value sp = (if is_safe_attribute key value
     then sp\<lparr>sp_attributes := AList.update key value (sp_attributes sp)\<rparr> else sp)"

definition mark_error :: "(pystr \<Rightarrow> pystr) \<Rightarrow> pystr \<Rightarrow> span \<Rightarrow> span" where
  "mark_error upper code sp =
     (let c = sanitize_error_code upper code
      in sp\<lparr>sp_status := ''ERROR'', sp_error_code := Some c, sp_attributes := AList.update (str ''error.code'') (PStr c) (sp_attributes sp)\<rparr>)"

text \<open>\<open>with start_span(...)\<close> around a computation: the span that is appended to the records, and the outcome.\<close>

definition start_span :: "(pystr \<Rightarrow> pystr) \<Rightarrow> pystr \<Rightarrow> pydict \<Rightarrow> exn + 'a \<Rightarrow> span \<times> (exn + 'a)" where
  "start_span upper name attributes body =
     (let sp = fold (\<lambda>(k, v). set_attribute k v) attributes (new_span name)
      in (case body of Inr x \<Rightarrow> sp | Inl e \<Rightarrow> mark_error upper (str (exn_code e)) sp)\<lparr>sp_ended := True\<rparr>, body)"

definition hex_char :: "int \<Rightarrow> bool" where
  "hex_char c \<longleftrightarrow> (48 \<le> c \<and> c \<le> 57) \<or> (97 \<le> c \<and> c \<le> 102)"

text \<open>\<open>TRACEPARENT_RE\<close>: \<open>00-\<close>, 32, 16 and 2 lower-case hexadecimal digits between hyphens.\<close>

definition extract_trace_id :: "pystr option \<Rightarrow> pystr option" where
  "extract_trace_id traceparent = (case traceparent of
     None \<Rightarrow> None
   | Some raw \<Rightarrow>
       (let s = py_strip raw; trace = take 32 (drop 3 s); parent = take 16 (drop 36 s); flags = drop 53 s
        in if length s = 55 \<and> take 3 s = str ''00-'' \<and> s ! 35 = 45 \<and> s ! 52 = 45
              \<and> list_all hex_char (trace @ parent @ flags)
           then Some trace else None))"

text \<open>The trace id of a request: the caller's, or a random one.\<close>

definition request_trace_id :: "pystr option \<Rightarrow> pystr \<Rightarrow> pystr" where
  "request_trace_id traceparent random = (case extract_trace_id traceparent of Some t \<Rightarrow> t | None \<Rightarrow> random)"

section \<open>Metrics\<close>

definition LABEL_MARKERS :: "pystr list" where
  "LABEL_MARKERS = [str ''token'', str ''secret'', str ''jwt'', str ''password'', str ''question'']"

definition safe_label :: "pystr \<Rightarrow> pystr" where
  "safe_label value =
     (let s = str_or value (str ''unknown'')
      in if list_ex (\<lambda>m. py_contains m (py_lower s)) LABEL_MARKERS then str ''redacted'' else take 80 s)"

definition safe_path :: "pystr \<Rightarrow> pystr" where
  "safe_path path = str_or path (str ''unknown'')"

type_synonym labels = "pystr list"

record metrics =
  mx_requests :: "labels \<Rightarrow> nat"
  mx_errors :: "labels \<Rightarrow> nat"
  mx_latency :: "labels \<Rightarrow> pyfloat list"
  mx_retrieval :: "labels \<Rightarrow> nat"
  mx_llm :: "labels \<Rightarrow> nat"

definition empty_metrics :: metrics where
  "empty_metrics = \<lparr>mx_requests = (\<lambda>_. 0), mx_errors = (\<lambda>_. 0), mx_latency = (\<lambda>_. []), mx_retrieval = (\<lambda>_. 0), mx_llm = (\<lambda>_. 0)\<rparr>"

definition increase :: "labels \<Rightarrow> (labels \<Rightarrow> nat) \<Rightarrow> labels \<Rightarrow> nat" where
  "increase l c = c(l := c l + 1)"

definition record_http :: "pystr \<Rightarrow> pystr \<Rightarrow> int \<Rightarrow> pyfloat \<Rightarrow> metrics \<Rightarrow> metrics" where
  "record_http verb path status duration m =
     (let l = [verb, safe_path path, str_of_int status];
          m' = m\<lparr>mx_requests := increase l (mx_requests m),
                 mx_latency := (mx_latency m)([verb, safe_path path] := mx_latency m [verb, safe_path path] @ [duration])\<rparr>
      in if 500 \<le> status then m'\<lparr>mx_errors := increase l (mx_errors m')\<rparr> else m')"

definition record_retrieval :: "pystr \<Rightarrow> pystr \<Rightarrow> metrics \<Rightarrow> metrics" where
  "record_retrieval operation status m = m\<lparr>mx_retrieval := increase [safe_label operation, safe_label status] (mx_retrieval m)\<rparr>"

definition record_llm :: "pystr \<Rightarrow> pystr \<Rightarrow> pystr \<Rightarrow> metrics \<Rightarrow> metrics" where
  "record_llm provider model status m = m\<lparr>mx_llm := increase [safe_label provider, safe_label model, safe_label status] (mx_llm m)\<rparr>"

end
