(* ===== verification/Observability_Props.thy ===== *)
theory Observability_Props
  imports Observability
begin

text \<open>
  What the monitoring systems can and cannot see: redaction leaves no labelled secret in what is exported,
  spans carry safe attributes only, and the error counters agree with the request counters.
\<close>

section \<open>Matches of the pattern\<close>

definition kw_char :: "int \<Rightarrow> bool" where
  "kw_char c \<longleftrightarrow> (97 \<le> c \<and> c \<le> 122) \<or> c = 95 \<or> c = 45"

lemma kw_char_plain: "kw_char (fold_char c) \<Longrightarrow> \<not> is_space c \<and> c \<noteq> 58 \<and> c \<noteq> 61"
  by (auto simp: kw_char_def fold_char_def is_space_def split: if_splits)

lemma keywords_ok: "k \<in> set KEYWORDS \<Longrightarrow> k \<noteq> [] \<and> list_all kw_char k"
proof -
  have "list_all (\<lambda>k. k \<noteq> [] \<and> list_all kw_char k) KEYWORDS" by code_simp
  then show "k \<in> set KEYWORDS \<Longrightarrow> k \<noteq> [] \<and> list_all kw_char k" by (simp add: list_all_iff)
qed

lemma keywords_prefix_free: "k \<in> set KEYWORDS \<Longrightarrow> q \<in> set KEYWORDS \<Longrightarrow> prefix k q \<Longrightarrow> k = q"
proof -
  have "list_all (\<lambda>k. list_all (\<lambda>q. prefix k q \<longrightarrow> k = q) KEYWORDS) KEYWORDS" by code_simp
  then show "k \<in> set KEYWORDS \<Longrightarrow> q \<in> set KEYWORDS \<Longrightarrow> prefix k q \<Longrightarrow> k = q" by (simp add: list_all_iff)
qed

lemma match_keyword_iff:
  "match_keyword s = Some n \<longleftrightarrow> (\<exists>k \<in> set KEYWORDS. prefix k (map fold_char s) \<and> n = length k)"
proof
  show "match_keyword s = Some n \<Longrightarrow> \<exists>k \<in> set KEYWORDS. prefix k (map fold_char s) \<and> n = length k"
    by (auto simp: match_keyword_def find_Some_iff)
next
  assume "\<exists>k \<in> set KEYWORDS. prefix k (map fold_char s) \<and> n = length k"
  then obtain k where k: "k \<in> set KEYWORDS" "prefix k (map fold_char s)" "n = length k" by blast
  then obtain q where q: "find (\<lambda>k. prefix k (map fold_char s)) KEYWORDS = Some q"
    by (cases "find (\<lambda>k. prefix k (map fold_char s)) KEYWORDS") (auto simp: find_None_iff)
  then have "q \<in> set KEYWORDS" "prefix q (map fold_char s)" by (auto simp: find_Some_iff)
  with k have "q = k" using prefix_same_cases keywords_prefix_free by metis
  with q k(3) show "match_keyword s = Some n" by (simp add: match_keyword_def)
qed

lemma match_secret_iff:
  "match_secret s = Some (w, v, r) \<longleftrightarrow>
     (\<exists>k \<in> set KEYWORDS. prefix k (map fold_char s) \<and> w = take (length k) s \<and> match_value (drop (length k) s) = Some (v, r))"
proof
  show "match_secret s = Some (w, v, r) \<Longrightarrow>
     \<exists>k \<in> set KEYWORDS. prefix k (map fold_char s) \<and> w = take (length k) s \<and> match_value (drop (length k) s) = Some (v, r)"
    by (auto simp: match_secret_def split: option.splits dest!: match_keyword_iff[THEN iffD1])
next
  assume "\<exists>k \<in> set KEYWORDS. prefix k (map fold_char s) \<and> w = take (length k) s \<and> match_value (drop (length k) s) = Some (v, r)"
  then obtain k where k: "k \<in> set KEYWORDS" "prefix k (map fold_char s)" "w = take (length k) s"
    "match_value (drop (length k) s) = Some (v, r)" by blast
  then have "match_keyword s = Some (length k)" by (auto simp: match_keyword_iff)
  with k show "match_secret s = Some (w, v, r)" by (simp add: match_secret_def)
qed

text \<open>The stages of a match: before the value, before the separator, within the keyword.\<close>

definition after_separator :: "pystr \<Rightarrow> bool" where
  "after_separator t \<longleftrightarrow> (case dropWhile is_space t of [] \<Rightarrow> False | c # r \<Rightarrow> value_char c)"

definition separated :: "pystr \<Rightarrow> bool" where
  "separated t \<longleftrightarrow> (case dropWhile is_space t of [] \<Rightarrow> False | c # r \<Rightarrow> c \<in> {58, 61} \<and> after_separator r)"

definition keyed :: "pystr \<Rightarrow> pystr \<Rightarrow> bool" where
  "keyed k t \<longleftrightarrow> prefix k (map fold_char t) \<and> separated (drop (length k) t)"

lemma match_value_iff: "match_value t = None \<longleftrightarrow> \<not> separated t"
proof -
  have "takeWhile value_char (dropWhile is_space r) = [] \<longleftrightarrow> \<not> after_separator r" for r
    unfolding after_separator_def by (cases "dropWhile is_space r") (simp_all only: list.case takeWhile.simps, simp_all)
  then show ?thesis
    by (cases "dropWhile is_space t") (simp_all add: match_value_def separated_def Let_def del: dropWhile_eq_Nil_conv)
qed

lemma matched_iff: "match_secret t \<noteq> None \<longleftrightarrow> (\<exists>k \<in> set KEYWORDS. keyed k t)"
proof -
  have "match_secret t \<noteq> None \<longleftrightarrow> (\<exists>w v r. match_secret t = Some (w, v, r))" by auto
  also have "\<dots> \<longleftrightarrow> (\<exists>k \<in> set KEYWORDS. prefix k (map fold_char t) \<and> match_value (drop (length k) t) \<noteq> None)"
    by (auto simp: match_secret_iff)
  finally show ?thesis by (auto simp: keyed_def match_value_iff)
qed

text \<open>What a match leaves behind.\<close>

lemma matched_parts:
  assumes "match_secret t = Some (w, v, r)"
  shows "map fold_char w \<in> set KEYWORDS" "w \<noteq> []" "prefix w t" "list_all (\<lambda>c. kw_char (fold_char c)) w"
    "r = [] \<or> \<not> value_char (hd r)"
proof -
  from assms obtain k where k: "k \<in> set KEYWORDS" "prefix k (map fold_char t)" "w = take (length k) t"
    "match_value (drop (length k) t) = Some (v, r)" by (auto simp: match_secret_iff)
  from k(2,3) have fw: "map fold_char w = k" by (metis append_eq_conv_conj prefix_def take_map)
  with k(1) keywords_ok[OF k(1)] show "map fold_char w \<in> set KEYWORDS" "w \<noteq> []" "list_all (\<lambda>c. kw_char (fold_char c)) w"
    by (auto simp: list_all_iff)
  from k(3) show "prefix w t" by (simp add: take_is_prefix)
  from k(4) obtain x where r: "r = dropWhile value_char x"
    by (auto simp: match_value_def Let_def split: list.splits if_splits)
  show "r = [] \<or> \<not> value_char (hd r)"
    by (cases "r = []") (use r hd_dropWhile[of value_char x] in auto)
qed

section \<open>Redaction does not make new matches\<close>

lemma redact_matched: "match_secret t = Some (w, v, r) \<Longrightarrow> redact t = w @ 61 # REDACTED @ redact r"
  by (cases t) (auto simp: redact.simps(2) match_secret_def match_keyword_def match_value_def KEYWORDS_def)

lemma redact_unmatched: "match_secret (c # cs) = None \<Longrightarrow> redact (c # cs) = c # redact cs"
  by (simp add: redact.simps(2))

lemma redact_hd: "redact (c # cs) = c # tl (redact (c # cs))"
proof (cases "match_secret (c # cs)")
  case (Some m)
  obtain w v r where m: "m = (w, v, r)" by (cases m)
  with Some matched_parts(2,3)[of "c # cs" w v r] show ?thesis
    by (cases w) (auto simp: redact_matched)
qed (simp add: redact_unmatched)

lemma redact_Nil_iff [simp]: "redact t = [] \<longleftrightarrow> t = []"
  using redact_hd by (cases t) (simp, metis list.distinct(1))

lemma plain_unmatched: "is_space c \<or> c \<in> {58, 61} \<Longrightarrow> match_secret (c # cs) = None"
proof (rule ccontr)
  assume c: "is_space c \<or> c \<in> {58, 61}" and "match_secret (c # cs) \<noteq> None"
  then obtain w v r where m: "match_secret (c # cs) = Some (w, v, r)" by auto
  from matched_parts(2,3,4)[OF m] have "kw_char (fold_char c)" by (cases w) auto
  with c kw_char_plain show False by blast
qed

lemma after_separator_redact: "after_separator (redact t) \<Longrightarrow> after_separator t"
proof (induction t)
  case (Cons c cs)
  show ?case
  proof (cases "is_space c")
    case True
    with Cons show ?thesis by (simp add: redact_unmatched plain_unmatched after_separator_def)
  next
    case False
    with Cons.prems redact_hd[of c cs] show ?thesis by (metis after_separator_def dropWhile.simps(2) list.simps(5))
  qed
qed simp

lemma separated_redact: "separated (redact t) \<Longrightarrow> separated t"
proof (induction t)
  case (Cons c cs)
  show ?case
  proof (cases "is_space c \<or> c \<in> {58, 61}")
    case True
    then have r: "redact (c # cs) = c # redact cs" by (simp add: redact_unmatched plain_unmatched)
    show ?thesis
    proof (cases "is_space c")
      case True
      with Cons r show ?thesis by (simp add: separated_def)
    next
      case False
      with Cons.prems r after_separator_redact show ?thesis by (auto simp: separated_def)
    qed
  next
    case False
    with Cons.prems redact_hd[of c cs] show ?thesis by (metis separated_def dropWhile.simps(2) list.simps(5))
  qed
qed simp

text \<open>A keyword in front of a separator that redaction put in ends where the replaced keyword ends.\<close>

lemma keyed_covers:
  assumes k: "keyed k (w @ 61 # x)" and kw: "list_all kw_char k" and w: "list_all (\<lambda>c. kw_char (fold_char c)) w"
  shows "k = map fold_char w"
proof -
  from k have p: "prefix k (map fold_char w @ 61 # map fold_char x)" by (simp add: keyed_def fold_char_def)
  then obtain z where z: "map fold_char w @ 61 # map fold_char x = k @ z" by (auto simp: prefix_def)
  have "length k \<le> length w"
  proof (rule ccontr)
    assume l: "\<not> length k \<le> length w"
    have "k ! length w = (k @ z) ! length w" using l by (simp add: nth_append)
    also have "\<dots> = 61" unfolding z[symmetric] by (simp add: nth_append)
    finally have "k ! length w = 61" .
    moreover from kw l have "kw_char (k ! length w)" by (simp add: list_all_length)
    ultimately show False by (simp add: kw_char_def)
  qed
  moreover have "\<not> length k < length w"
  proof
    assume l: "length k < length w"
    then have d: "drop (length k) (w @ 61 # x) = w ! length k # (drop (Suc (length k)) w @ 61 # x)"
      by (simp add: Cons_nth_drop_Suc[symmetric])
    from w l have "kw_char (fold_char (w ! length k))" by (simp add: list_all_length)
    with kw_char_plain have "\<not> separated (drop (length k) (w @ 61 # x))" unfolding d by (simp add: separated_def)
    with k show False by (simp add: keyed_def)
  qed
  ultimately have "length k = length (map fold_char w)" by simp
  with z show ?thesis by simp
qed

lemma keyed_redact: "list_all kw_char k \<Longrightarrow> keyed k (redact t) \<Longrightarrow> keyed k t"
proof (induction k arbitrary: t)
  case Nil
  then show ?case by (simp add: keyed_def separated_redact)
next
  case (Cons a k)
  show ?case
  proof (cases "match_secret t")
    case None
    from Cons.prems obtain c cs where t: "t = c # cs" by (cases t) (auto simp: keyed_def)
    from Cons.prems None have "keyed k (redact cs)" "a = fold_char c" by (auto simp: t redact_unmatched keyed_def)
    with Cons.IH[of cs] Cons.prems(1) have "keyed k cs" "a = fold_char c" by simp_all
    then show ?thesis by (simp add: keyed_def t)
  next
    case (Some m)
    obtain w v r where m: "match_secret t = Some (w, v, r)" using Some by (cases m) auto
    have "a # k = map fold_char w"
      using Cons.prems keyed_covers[of "a # k" w] matched_parts(4)[OF m] by (simp add: redact_matched[OF m])
    moreover from m obtain q where q: "q \<in> set KEYWORDS" "prefix q (map fold_char t)" "w = take (length q) t"
      "match_value (drop (length q) t) = Some (v, r)" by (auto simp: match_secret_iff)
    moreover from q(2,3) have "map fold_char w = q" by (metis append_eq_conv_conj prefix_def take_map)
    ultimately show ?thesis using match_value_iff[of "drop (length q) t"] by (simp add: keyed_def)
  qed
qed

lemma unmatched_redact: "match_secret t = None \<Longrightarrow> match_secret (redact t) = None"
  using matched_iff keyed_redact keywords_ok by blast

section \<open>What a redacted text shows\<close>

text \<open>A text discloses a value if somewhere a keyword stands before a value other than the mark, or a part of it.\<close>

definition discloses :: "pystr \<Rightarrow> bool" where
  "discloses s \<longleftrightarrow> (\<exists>t w v r. suffix t s \<and> match_secret t = Some (w, v, r) \<and> \<not> prefix v REDACTED)"

lemma mark_unmatched:
  assumes "suffix u (61 # REDACTED)" "u \<noteq> []"
  shows "match_secret (u @ x) = None"
proof -
  have "u \<in> set (suffixes (61 # REDACTED))" using assms(1) unfolding in_set_suffixes .
  then have "match_keyword (u @ x) = None"
    using assms(2) by (auto simp: REDACTED_def match_keyword_def KEYWORDS_def fold_char_def)
  then show ?thesis by (simp add: match_secret_def)
qed

lemma mark_value:
  assumes "r = [] \<or> \<not> value_char (hd r)"
  shows "match_value (61 # REDACTED @ redact r) = Some (REDACTED, redact r)"
proof -
  have "redact r = [] \<or> \<not> value_char (hd (redact r))"
    using assms redact_hd by (cases r) (auto, metis list.sel(1))
  then have "takeWhile value_char (redact r) = []" "dropWhile value_char (redact r) = redact r"
    by (cases "redact r"; simp)+
  then show ?thesis
    by (simp add: match_value_def REDACTED_def value_char_def is_space_def)
qed

lemma suffix_parts:
  assumes "suffix t (a @ (b # bs) @ c)"
  obtains "suffix t c" | u where "t = u @ c" "u \<noteq> []" "suffix u (b # bs)" | u where "t = u @ b # bs @ c" "u \<noteq> []" "suffix u a"
proof -
  from assms consider (1) "suffix t ((b # bs) @ c)" | (2) u where "t = u @ (b # bs) @ c" "suffix u a"
    unfolding suffix_append[of t a] by blast
  then show thesis
  proof cases
    case 1
    then show thesis unfolding suffix_append[of t "b # bs"] using that(1,2) by (metis append_Nil suffix_order.order_refl)
  next
    case (2 u)
    then show thesis using that(2)[of "b # bs"] that(3)[of u] by (cases "u = []") auto
  qed
qed

lemma suffix_matched:
  assumes "suffix t (redact s)" "match_secret t = Some (w, v, r)"
  shows "v = REDACTED"
  using assms
proof (induction s rule: redact.induct)
  case 1
  then show ?case by (simp add: match_secret_def match_keyword_def KEYWORDS_def)
next
  case (2 c cs)
  show ?case
  proof (cases "match_secret (c # cs)")
    case None
    with 2 unmatched_redact[OF None] show ?thesis by (auto simp: redact_unmatched suffix_Cons)
  next
    case (Some m)
    obtain w0 v0 r0 where m: "match_secret (c # cs) = Some (w0, v0, r0)" using Some by (cases m) auto
    have "suffix t (w0 @ (61 # REDACTED) @ redact r0)" using 2(3) by (simp add: redact_matched[OF m])
    then consider "suffix t (redact r0)"
      | u where "t = u @ redact r0" "u \<noteq> []" "suffix u (61 # REDACTED)"
      | u where "t = u @ 61 # REDACTED @ redact r0" "u \<noteq> []" "suffix u w0"
      by (rule suffix_parts)
    then show ?thesis
    proof cases
      case 1
      with 2 m show ?thesis by blast
    next
      case (2 u)
      with mark_unmatched[OF 2(3,2)] \<open>match_secret t = _\<close> show ?thesis by simp
    next
      case (3 u)
      from \<open>match_secret t = _\<close> obtain k where k: "k \<in> set KEYWORDS" "keyed k t" "match_value (drop (length k) t) = Some (v, r)"
        by (auto simp: match_secret_iff keyed_def) (metis match_value_iff option.distinct(1))
      from matched_parts(4)[OF m] 3(3) have "list_all (\<lambda>c. kw_char (fold_char c)) u"
        by (auto simp: list_all_iff suffix_def)
      with k(1,2) 3(1) keywords_ok have "k = map fold_char u" using keyed_covers by blast
      with k(3) mark_value[OF matched_parts(5)[OF m]] 3(1) show ?thesis by simp
    qed
  qed
qed

text \<open>Cutting a text off can only shorten the value of a match.\<close>

lemma match_value_append:
  assumes "match_value x = Some (v, r)"
  shows "\<exists>v' r'. match_value (x @ y) = Some (v', r') \<and> prefix v v'"
proof -
  from assms obtain c q where d: "dropWhile is_space x = c # q" and c: "c \<in> {58, 61}"
    and v: "v = takeWhile value_char (dropWhile is_space q)" "v \<noteq> []"
    by (auto simp: match_value_def Let_def split: list.splits if_splits)
  have "dropWhile is_space (x @ y) = c # (q @ y)"
    using d by (metis append_Cons dropWhile_append1 dropWhile_eq_Nil_conv list.distinct(1))
  moreover from v have "dropWhile is_space q \<noteq> []" by (metis takeWhile.simps(1))
  then have "dropWhile is_space (q @ y) = dropWhile is_space q @ y"
    by (metis dropWhile_append1 dropWhile_eq_Nil_conv)
  moreover have "prefix v (takeWhile value_char (dropWhile is_space q @ y))"
    unfolding v(1) takeWhile_append by (auto simp: takeWhile_eq_all_conv[THEN iffD2])
  ultimately show ?thesis using c v(2) by (auto simp: match_value_def Let_def)
qed

lemma match_secret_append:
  assumes "match_secret x = Some (w, v, r)"
  shows "\<exists>v' r'. match_secret (x @ y) = Some (w, v', r') \<and> prefix v v'"
proof -
  from assms obtain k where k: "k \<in> set KEYWORDS" "prefix k (map fold_char x)" "w = take (length k) x"
    "match_value (drop (length k) x) = Some (v, r)" by (auto simp: match_secret_iff)
  from k(2) have l: "length k \<le> length x" using prefix_length_le by fastforce
  from match_value_append[OF k(4), of y] obtain v' r' where "match_value (drop (length k) (x @ y)) = Some (v', r')" "prefix v v'"
    using l by auto
  moreover from k(2) have "prefix k (map fold_char (x @ y))" by simp
  moreover from k(3) l have "w = take (length k) (x @ y)" by simp
  ultimately show ?thesis using k(1) by (metis match_secret_iff)
qed

lemma sanitized_text: "\<not> discloses (sanitize_text True n s)"
proof -
  have "\<exists>m. sanitize_text True n s = take m (redact s)" unfolding sanitize_text_def py_take_def if_True by (metis (full_types))
  then obtain m where m: "sanitize_text True n s = take m (redact s)" ..
  have "prefix v REDACTED" if suf: "suffix t (take m (redact s))" and match: "match_secret t = Some (w, v, r)" for t w v r
  proof -
    from suf obtain a where "take m (redact s) = a @ t" by (auto simp: suffix_def)
    then have "redact s = a @ t @ drop m (redact s)" by (metis append.assoc append_take_drop_id)
    then have "suffix (t @ drop m (redact s)) (redact s)" by (metis suffixI)
    with match_secret_append[OF match, of "drop m (redact s)"] suffix_matched show ?thesis by metis
  qed
  then show ?thesis by (auto simp: discloses_def m)
qed

text \<open>C32: labelled secrets stay in the service. With redaction on, neither the prompt nor the completion that is
  exported contains a keyword such as \<open>api_key\<close> or \<open>password\<close>, in any case, followed by a separator and a value:
  where one stood, the mark stands, or what cutting the text to its limit left of the mark.\<close>

theorem exports_redacted:
  assumes "oc_redact cfg"
  shows "\<not> discloses (xo_input (export_event cfg ev)) \<and> \<not> discloses (xo_output (export_event cfg ev))"
  using assms by (simp_all add: export_event_def sanitize_event_def Let_def sanitized_text)

definition demo_observer_config :: llm_observer_config where
  "demo_observer_config = \<lparr>oc_provider = str ''langfuse'', oc_prompt_version = str ''default'', oc_redact = True,
     oc_max_prompt_chars = 2000, oc_max_completion_chars = 2000\<rparr>"

definition demo_generation :: generation_event where
  "demo_generation = \<lparr>ge_provider = str ''mock'', ge_model = str ''m'', ge_prompt = str ''PassWord : x, ok'', ge_completion = [],
     ge_input_tokens = 1, ge_output_tokens = 0, ge_total_tokens = 1, ge_status = ''success'', ge_error_code = None\<rparr>"

theorem exports_redacted_witness:
  "oc_redact demo_observer_config \<and> \<not> discloses (xo_input (export_event demo_observer_config demo_generation))
   \<and> xo_input (export_event demo_observer_config demo_generation) = str ''PassWord=[REDACTED], ok''"
proof -
  have "xo_input (export_event demo_observer_config demo_generation) = str ''PassWord=[REDACTED], ok''" by code_simp
  then show ?thesis using exports_redacted[of demo_observer_config demo_generation] by (simp add: demo_observer_config_def)
qed

text \<open>What redaction misses: of an authorization header only the word \<open>Bearer\<close> is replaced, and a quoted key of a
  JSON text is not recognised at all.\<close>

lemma bearer_token_exported:
  "sanitize_text True 2000 (str ''Authorization: Bearer abc123'') = str ''Authorization=[REDACTED] abc123''"
  by code_simp

lemma quoted_key_exported:
  "sanitize_text True 2000 (str ''{\"api_key\": \"abc123\"}'') = str ''{\"api_key\": \"abc123\"}''"
  by code_simp

section \<open>Observers\<close>

text \<open>Observation is optional. Whatever the settings and the environment are, there is an observer; without the
  keys of its service nothing is exported; and an export that fails is not seen by the LLM client.\<close>

theorem observer_never_fails:
  "snd (safe_record send (build_llm_observer env langfuse langsmith cfg) ev s) = Inr ()
   \<and> (\<not> set_in env ''LANGFUSE_SECRET_KEY'' \<and> \<not> set_in env ''LANGCHAIN_API_KEY''
      \<longrightarrow> fst (safe_record send (build_llm_observer env langfuse langsmith cfg) ev s) = s)"
  by (simp_all add: safe_record_def build_llm_observer_def)

definition counting :: "nat exporter" where
  "counting x n = (n + 1, Inr ())"

theorem observer_never_fails_witness:
  "fst (safe_record counting (build_llm_observer (\<lambda>_. None) (Inr ()) (Inr ()) demo_observer_config) demo_generation 0) = 0"
  using observer_never_fails[of counting "\<lambda>_. None" "Inr ()" "Inr ()" demo_observer_config demo_generation 0]
  by (simp add: set_in_def)

section \<open>Spans\<close>

definition span_safe :: "span \<Rightarrow> bool" where
  "span_safe sp \<longleftrightarrow> (\<forall>(k, v) \<in> set (sp_attributes sp). is_safe_attribute k v
     \<or> k = str ''error.code'' \<and> (\<exists>c. v = PStr c \<and> length c \<le> 80 \<and> list_all code_char c))"

lemma set_update_cases: "x \<in> set (AList.update k v al) \<Longrightarrow> x = (k, v) \<or> x \<in> set al"
  by (induction al) (auto split: if_splits)

lemma set_attribute_safe: "span_safe sp \<Longrightarrow> span_safe (set_attribute k v sp)"
  by (auto simp: span_safe_def set_attribute_def dest!: set_update_cases)

lemma mark_error_safe: "span_safe sp \<Longrightarrow> span_safe (mark_error upper code sp)"
proof -
  have "list_all code_char (sanitize_error_code upper code)"
    by (auto simp: sanitize_error_code_def list_all_iff code_char_def dest!: in_set_takeD)
  moreover have "length (sanitize_error_code upper code) \<le> 80" by (simp add: sanitize_error_code_def)
  ultimately show "span_safe sp \<Longrightarrow> span_safe (mark_error upper code sp)"
    by (fastforce simp: span_safe_def mark_error_def Let_def dest!: set_update_cases)
qed

lemma fold_attributes_safe: "span_safe sp \<Longrightarrow> span_safe (fold (\<lambda>(k, v). set_attribute k v) attributes sp)"
  by (induction attributes arbitrary: sp) (auto simp: set_attribute_safe)

text \<open>Spans are safe to export. Whatever attributes and error a span is given, it is closed, carries only
  attributes with an allowed name and without a sensitive word, and an error code of at most 80 capital
  letters, digits and underscores; the outcome of the traced code is passed on unchanged.\<close>

theorem spans_safe:
  "span_safe (fst (start_span upper name attributes body)) \<and> sp_ended (fst (start_span upper name attributes body))
   \<and> snd (start_span upper name attributes body) = body"
proof -
  have "span_safe (fold (\<lambda>(k, v). set_attribute k v) attributes (new_span name))"
    by (rule fold_attributes_safe) (simp add: span_safe_def new_span_def)
  then have "span_safe (case body of Inr x \<Rightarrow> fold (\<lambda>(k, v). set_attribute k v) attributes (new_span name)
      | Inl e \<Rightarrow> mark_error upper (str (exn_code e)) (fold (\<lambda>(k, v). set_attribute k v) attributes (new_span name)))"
    by (cases body) (simp_all add: mark_error_safe)
  then show ?thesis by (simp add: start_span_def Let_def span_safe_def)
qed

text \<open>A trace id is 32 lower-case hexadecimal digits, whether it comes from the caller or is drawn.\<close>

lemma trace_id_format:
  assumes "length random = 32" "list_all hex_char random"
  shows "length (request_trace_id parent random) = 32 \<and> list_all hex_char (request_trace_id parent random)"
  using assms by (auto simp: request_trace_id_def extract_trace_id_def Let_def split: option.splits if_splits)

section \<open>Counters\<close>

definition record_all :: "(pystr \<times> pystr \<times> int \<times> pyfloat) list \<Rightarrow> metrics" where
  "record_all rs = fold (\<lambda>(verb, path, status, duration). record_http verb path status duration) rs empty_metrics"

lemma str_of_int_inject: "str_of_int m = str_of_int n \<longleftrightarrow> m = n"
proof -
  have "py_str_nat a \<noteq> 45 # py_str_nat b" for a b using py_str_nat_digits[of 45 a] by auto
  then show ?thesis by (auto simp: str_of_int_def) metis+
qed

definition counted :: "(pystr \<times> pystr \<times> int \<times> pyfloat) list \<Rightarrow> metrics \<Rightarrow> bool" where
  "counted rs m \<longleftrightarrow> (\<forall>verb path status.
     mx_requests m [verb, path, str_of_int status] = length (filter (\<lambda>(v, p, st, _). v = verb \<and> safe_path p = path \<and> st = status) rs)
     \<and> mx_errors m [verb, path, str_of_int status] = (if 500 \<le> status then mx_requests m [verb, path, str_of_int status] else 0)
     \<and> length (mx_latency m [verb, path]) = length (filter (\<lambda>(v, p, _, _). v = verb \<and> safe_path p = path) rs))"

lemma record_http_counted: "counted rs m \<Longrightarrow> counted (rs @ [(verb, path, status, d)]) (record_http verb path status d m)"
  by (auto simp: counted_def record_http_def increase_def Let_def str_of_int_inject)

text \<open>Error counters are honest. After any sequence of recorded requests, every error counter equals the request
  counter of its labels if the status is 500 or higher and is zero otherwise, and the latencies of a method
  and path are as many as its requests.\<close>

theorem errors_counted: "counted rs (record_all rs)"
proof (induction rs rule: rev_induct)
  case Nil
  then show ?case by (simp add: counted_def record_all_def empty_metrics_def)
next
  case (snoc r rs)
  then show ?case by (cases r) (simp add: record_all_def record_http_counted)
qed

text \<open>Labels of retrieval and LLM counters are short and free of the sensitive words.\<close>

lemma label_safe: "length (safe_label v) \<le> 80 \<and> list_all (\<lambda>m. \<not> py_contains m (py_lower (safe_label v))) LABEL_MARKERS"
proof (cases "list_ex (\<lambda>m. py_contains m (py_lower (str_or v (str ''unknown'')))) LABEL_MARKERS")
  case True
  have "list_all (\<lambda>m. \<not> py_contains m (py_lower (str ''redacted''))) LABEL_MARKERS" by code_simp
  with True show ?thesis by (simp add: safe_label_def str_def)
next
  case False
  have "py_contains m (py_lower (take 80 s)) \<Longrightarrow> py_contains m (py_lower s)" for m s
    unfolding py_contains_iff by (metis append.assoc append_take_drop_id concat_append map_append py_lower_def)
  with False show ?thesis by (auto simp: safe_label_def Let_def list_all_iff list_ex_iff)
qed

end
