(* ===== verification/Eval.thy ===== *)
theory Eval
  imports Api
begin

text \<open>
  The offline evaluation (\<open>src/ai-service/eval\<close>): the data model with its validators, the metrics and the pipeline
  with its retries. The state of the answer provider and of the judge is a parameter.
\<close>

section \<open>Data model\<close>

record citation_ref =
  xk_resource_id :: pystr
  xk_chunk_id :: "pystr option"
  xk_page :: "int option"
  xk_start_sec :: "pyfloat option"
  xk_end_sec :: "pyfloat option"

record expected_citation = citation_ref +
  xk_quote_hint :: "pystr option"

record eval_case =
  ek_id :: pystr
  ek_question :: pystr
  ek_expected_answer :: pystr
  ek_resource_ids :: "pystr list"
  ek_expected_citations :: "expected_citation list"
  ek_tags :: "pystr list"
  ek_difficulty :: pystr

definition ref_fields_ok :: "'z citation_ref_scheme \<Rightarrow> bool" where
  "ref_fields_ok c \<longleftrightarrow> xk_resource_id c \<noteq> [] \<and> xk_chunk_id c \<noteq> Some [] \<and> (\<forall>p \<in> set_option (xk_page c). 1 \<le> p)
     \<and> (\<forall>t \<in> set_option (xk_start_sec c). 0 \<le> t) \<and> (\<forall>t \<in> set_option (xk_end_sec c). 0 \<le> t)"

definition locator_ok :: "'z citation_ref_scheme \<Rightarrow> bool" where
  "locator_ok c \<longleftrightarrow>
     (let has_time = xk_start_sec c \<noteq> None \<or> xk_end_sec c \<noteq> None
      in (xk_page c \<noteq> None \<or> has_time \<or> xk_chunk_id c \<noteq> None)
         \<and> (has_time \<longrightarrow> (case (xk_start_sec c, xk_end_sec c) of (Some a, Some b) \<Rightarrow> a < b | _ \<Rightarrow> False)))"

definition expected_citation_ok :: "expected_citation \<Rightarrow> bool" where
  "expected_citation_ok c \<longleftrightarrow> ref_fields_ok c \<and> (\<forall>q \<in> set_option (xk_quote_hint c). 1 \<le> length q \<and> length q \<le> 160) \<and> locator_ok c"

text \<open>The pattern \<open>^rag-[a-z0-9-]+-\d{3}$\<close>.\<close>

definition case_id_char :: "int \<Rightarrow> bool" where
  "case_id_char c \<longleftrightarrow> (97 \<le> c \<and> c \<le> 122) \<or> (48 \<le> c \<and> c \<le> 57) \<or> c = 45"

definition case_id_ok :: "pystr \<Rightarrow> bool" where
  "case_id_ok s \<longleftrightarrow>
     (let n = length s; middle = take (n - 8) (drop 4 s)
      in 9 \<le> n \<and> prefix (str ''rag-'') s \<and> list_all case_id_char middle \<and> s ! (n - 4) = 45 \<and> list_all is_digit (drop (n - 3) s))"

definition eval_case_ok :: "eval_case \<Rightarrow> bool" where
  "eval_case_ok c \<longleftrightarrow> case_id_ok (ek_id c) \<and> 1 \<le> length (ek_question c) \<and> length (ek_question c) \<le> 500
     \<and> 1 \<le> length (ek_expected_answer c) \<and> length (ek_expected_answer c) \<le> 1200
     \<and> ek_resource_ids c \<noteq> [] \<and> list_all expected_citation_ok (ek_expected_citations c) \<and> ek_tags c \<noteq> []
     \<and> ek_difficulty c \<in> {str ''easy'', str ''medium'', str ''hard''}
     \<and> distinct (ek_resource_ids c) \<and> distinct (ek_tags c)
     \<and> (str ''no_answer'' \<in> set (ek_tags c) \<longrightarrow> ek_expected_citations c = [])
     \<and> list_all (\<lambda>x. xk_resource_id x \<in> set (ek_resource_ids c)) (ek_expected_citations c)"

record generated_answer =
  gk_answer :: pystr
  gk_citations :: "citation_ref list"

definition generated_answer_new :: "pystr \<Rightarrow> citation_ref list \<Rightarrow> exn + generated_answer" where
  "generated_answer_new answer citations =
     (if answer = [] then Inl (LLM.validation_error ''answer'') else Inr \<lparr>gk_answer = answer, gk_citations = citations\<rparr>)"

record judge_scores =
  js_recall :: pyfloat
  js_faithfulness :: pyfloat
  js_relevance :: pyfloat
  js_citation_accuracy :: pyfloat
  js_reason :: pystr
  js_evidence :: "pystr list"

definition scores_ok :: "'z judge_scores_scheme \<Rightarrow> bool" where
  "scores_ok s \<longleftrightarrow> 0 \<le> js_recall s \<and> js_recall s \<le> 1 \<and> 0 \<le> js_faithfulness s \<and> js_faithfulness s \<le> 1
     \<and> 0 \<le> js_relevance s \<and> js_relevance s \<le> 1 \<and> 0 \<le> js_citation_accuracy s \<and> js_citation_accuracy s \<le> 1"

definition judge_scores_new :: "judge_scores \<Rightarrow> exn + judge_scores" where
  "judge_scores_new s = (if scores_ok s \<and> js_reason s \<noteq> [] then Inr s else Inl (LLM.validation_error ''JudgeScores''))"

record eval_result =
  er_case :: eval_case
  er_answer :: "pystr option"
  er_citations :: "citation_ref list"
  er_scores :: "judge_scores option"
  er_failed :: bool
  er_error_code :: "pystr option"
  er_error_message :: "pystr option"
  er_attempts :: int

record metric_values =
  mv_recall :: pyfloat
  mv_faithfulness :: pyfloat
  mv_relevance :: pyfloat
  mv_citation_accuracy :: pyfloat

record eval_summary =
  sm_total :: nat
  sm_passed :: nat
  sm_failed :: nat
  sm_metrics :: metric_values
  sm_by_tag :: "(pystr \<times> nat \<times> metric_values) list"
  sm_failures :: "pystr list"

section \<open>Metrics\<close>

definition citation_key :: "'z citation_ref_scheme \<Rightarrow> pystr \<times> pystr option \<times> int option \<times> pyfloat option \<times> pyfloat option" where
  "citation_key c = (xk_resource_id c, xk_chunk_id c, xk_page c, xk_start_sec c, xk_end_sec c)"

definition citation_overlap_score :: "'z citation_ref_scheme list \<Rightarrow> 'y citation_ref_scheme list \<Rightarrow> pyfloat" where
  "citation_overlap_score expected_citations actual_citations =
     (let expected = remdups (map citation_key expected_citations); actual = map citation_key actual_citations
      in if expected = [] then (if actual = [] then 1 else 0)
         else of_nat (length (filter (\<lambda>k. k \<in> set actual) expected)) / of_nat (length expected))"

text \<open>\<open>round(x, 4)\<close>\<close>

definition round4 :: "pyfloat \<Rightarrow> pyfloat" where
  "round4 x = of_int (py_round (x * 10000)) / 10000"

definition average :: "pyfloat list \<Rightarrow> pyfloat" where
  "average values = (if values = [] then 0 else round4 (sum_list values / of_nat (length values)))"

definition metric_averages :: "judge_scores list \<Rightarrow> metric_values" where
  "metric_averages scores =
     \<lparr>mv_recall = average (map js_recall scores), mv_faithfulness = average (map js_faithfulness scores),
      mv_relevance = average (map js_relevance scores), mv_citation_accuracy = average (map js_citation_accuracy scores)\<rparr>"

definition add_to_group :: "judge_scores \<Rightarrow> pystr \<Rightarrow> (pystr \<times> judge_scores list) list \<Rightarrow> (pystr \<times> judge_scores list) list" where
  "add_to_group s tag groups =
     AList.update tag ((case map_of groups tag of Some xs \<Rightarrow> xs | None \<Rightarrow> []) @ [s]) groups"

definition group_by_tag :: "eval_result list \<Rightarrow> (pystr \<times> judge_scores list) list" where
  "group_by_tag results = fold (\<lambda>r groups. case er_scores r of
     Some s \<Rightarrow> fold (add_to_group s) (ek_tags (er_case r)) groups | None \<Rightarrow> groups) results []"

definition calculate_summary :: "eval_result list \<Rightarrow> eval_summary" where
  "calculate_summary results =
     (let scores = List.map_filter er_scores results;
          failures = map (\<lambda>r. ek_id (er_case r)) (filter er_failed results)
      in \<lparr>sm_total = length results, sm_passed = length results - length failures, sm_failed = length failures,
          sm_metrics = metric_averages scores,
          sm_by_tag = map (\<lambda>(tag, ss). (tag, length ss, metric_averages ss)) (group_by_tag results),
          sm_failures = failures\<rparr>)"

text \<open>\<open>metric_below_thresholds\<close> and \<open>enforce_threshold\<close>\<close>

definition metric_below_thresholds :: "eval_summary \<Rightarrow> metric_values \<Rightarrow> (pystr \<times> pyfloat \<times> pyfloat) list" where
  "metric_below_thresholds summary threshold =
     filter (\<lambda>(n, value, limit). value < limit)
       [(str ''recall'', mv_recall (sm_metrics summary), mv_recall threshold),
        (str ''faithfulness'', mv_faithfulness (sm_metrics summary), mv_faithfulness threshold),
        (str ''relevance'', mv_relevance (sm_metrics summary), mv_relevance threshold),
        (str ''citation_accuracy'', mv_citation_accuracy (sm_metrics summary), mv_citation_accuracy threshold)]"

definition default_threshold :: metric_values where
  "default_threshold = \<lparr>mv_recall = 3 / 4, mv_faithfulness = 4 / 5, mv_relevance = 4 / 5, mv_citation_accuracy = 7 / 10\<rparr>"

definition enforce_threshold :: "eval_summary \<Rightarrow> metric_values \<Rightarrow> int" where
  "enforce_threshold summary threshold = (if metric_below_thresholds summary threshold \<noteq> [] then 1 else 0)"

section \<open>Pipeline\<close>

type_synonym 'p answerer = "eval_case \<Rightarrow> 'p \<Rightarrow> 'p \<times> (exn + generated_answer)"
type_synonym 'p judge = "eval_case \<Rightarrow> generated_answer \<Rightarrow> 'p \<Rightarrow> 'p \<times> (exn + judge_scores)"

definition try_case :: "'p answerer \<Rightarrow> 'p judge \<Rightarrow> eval_case \<Rightarrow> 'p \<Rightarrow> 'p \<times> (exn + generated_answer \<times> judge_scores)" where
  "try_case answer judge c s = (case answer c s of
     (s1, Inl e) \<Rightarrow> (s1, Inl e)
   | (s1, Inr a) \<Rightarrow> (case judge c a s1 of (s2, Inl e) \<Rightarrow> (s2, Inl e) | (s2, Inr sc) \<Rightarrow> (s2, Inr (a, sc))))"

text \<open>The retry loop: \<open>left\<close> tries remain, \<open>attempts\<close> have been made.\<close>

fun run_attempts ::
  "'p answerer \<Rightarrow> 'p judge \<Rightarrow> eval_case \<Rightarrow> nat \<Rightarrow> int \<Rightarrow> exn option \<Rightarrow> 'p
     \<Rightarrow> 'p \<times> int \<times> (exn option + generated_answer \<times> judge_scores)" where
  "run_attempts answer judge c 0 attempts last_error s = (s, attempts, Inl last_error)"
| "run_attempts answer judge c (Suc left) attempts last_error s = (case try_case answer judge c s of
     (s', Inr r) \<Rightarrow> (s', attempts + 1, Inr r)
   | (s', Inl e) \<Rightarrow> run_attempts answer judge c left (attempts + 1) (Some e) s')"

definition eval_error_code :: "exn option \<Rightarrow> pystr" where
  "eval_error_code e = (case e of
     None \<Rightarrow> str ''EVAL_CASE_FAILED''
   | Some x \<Rightarrow>
       let message = py_lower (exn_text x)
       in if py_contains (str ''timeout'') message then str ''EVAL_JUDGE_TIMEOUT''
          else if py_contains (str ''answer'') message \<or> py_contains (str ''rag'') message then str ''EVAL_ANSWER_FAILED''
          else str ''EVAL_CASE_FAILED'')"

text \<open>The result model wants at least one attempt, so a negative \<open>max_retries\<close> is an error.\<close>

definition eval_result_new :: "eval_result \<Rightarrow> exn + eval_result" where
  "eval_result_new r = (if 1 \<le> er_attempts r then Inr r else Inl (LLM.validation_error ''attempts''))"

definition run_case :: "'p answerer \<Rightarrow> 'p judge \<Rightarrow> int \<Rightarrow> eval_case \<Rightarrow> 'p \<Rightarrow> 'p \<times> (exn + eval_result)" where
  "run_case answer judge max_retries c s = (case run_attempts answer judge c (nat (max_retries + 1)) 0 None s of
     (s', attempts, Inr (a, sc)) \<Rightarrow> (s', eval_result_new
        \<lparr>er_case = c, er_answer = Some (gk_answer a), er_citations = gk_citations a, er_scores = Some sc, er_failed = False,
         er_error_code = None, er_error_message = None, er_attempts = attempts\<rparr>)
   | (s', attempts, Inl e) \<Rightarrow> (s', eval_result_new
        \<lparr>er_case = c, er_answer = None, er_citations = [], er_scores = None, er_failed = True,
         er_error_code = Some (eval_error_code e),
         er_error_message = Some (case e of Some x \<Rightarrow> exn_text x | None \<Rightarrow> str ''unknown eval failure''),
         er_attempts = attempts\<rparr>))"

fun run_cases :: "'p answerer \<Rightarrow> 'p judge \<Rightarrow> int \<Rightarrow> eval_case list \<Rightarrow> 'p \<Rightarrow> 'p \<times> (exn + eval_result list)" where
  "run_cases answer judge max_retries [] s = (s, Inr [])"
| "run_cases answer judge max_retries (c # cs) s = (case run_case answer judge max_retries c s of
     (s1, Inl e) \<Rightarrow> (s1, Inl e)
   | (s1, Inr r) \<Rightarrow> (case run_cases answer judge max_retries cs s1 of
       (s2, Inl e) \<Rightarrow> (s2, Inl e) | (s2, Inr rs) \<Rightarrow> (s2, Inr (r # rs))))"

definition eval_run :: "'p answerer \<Rightarrow> 'p judge \<Rightarrow> int \<Rightarrow> eval_case list \<Rightarrow> 'p \<Rightarrow> 'p \<times> (exn + eval_summary \<times> eval_result list)" where
  "eval_run answer judge max_retries cases s = (case run_cases answer judge max_retries cases s of
     (s', Inl e) \<Rightarrow> (s', Inl e) | (s', Inr results) \<Rightarrow> (s', Inr (calculate_summary results, results)))"

text \<open>Filters; an empty set of wanted values admits everything.\<close>

definition case_resource_types :: "eval_case \<Rightarrow> pystr list" where
  "case_resource_types c = filter (\<lambda>t. t \<in> set (ek_tags c) \<or> list_ex (py_contains t) (ek_resource_ids c)) [str ''audio'', str ''pdf'']"

definition meets :: "pystr list \<Rightarrow> pystr list \<Rightarrow> bool" where
  "meets wanted values \<longleftrightarrow> wanted = [] \<or> list_ex (\<lambda>v. v \<in> set wanted) values"

definition filter_cases :: "pystr list \<Rightarrow> pystr list \<Rightarrow> pystr list \<Rightarrow> eval_case list \<Rightarrow> eval_case list" where
  "filter_cases tags difficulties resource_types cases =
     filter (\<lambda>c. meets tags (ek_tags c) \<and> meets difficulties [ek_difficulty c] \<and> meets resource_types (case_resource_types c)) cases"

definition csv_values :: "pystr \<Rightarrow> pystr list" where
  "csv_values value = filter (\<lambda>item. item \<noteq> []) (map py_strip (py_split (str '','') value))"

end
