(* ===== verification/Eval_Run.thy ===== *)
theory Eval_Run
  imports Eval Observability
begin

text \<open>
  The command lines of the evaluation (\<open>eval/validate_dataset.py\<close>, \<open>report.py\<close>, \<open>answer_providers.py\<close>, \<open>judges\<close>
  and the second half of \<open>pipeline.py\<close>): a dataset is scanned for secrets, parsed and checked, the cases are
  filtered and run, and the report is rendered and written. \<open>json\<close>, pydantic's reading of JSON, \<open>str.lower\<close>, the
  file system, the clock and the HTTP client are parameters.
\<close>

section \<open>The secret scan\<close>

text \<open>The patterns of the source, each a sequence of items over one character class at a time.\<close>

datatype pattern_item =
    Boundary
  | OneOf "pystr list"
  | Run nat "int \<Rightarrow> bool"
  | Maybe "int \<Rightarrow> bool"

definition word_char :: "(int \<Rightarrow> bool) \<Rightarrow> int option \<Rightarrow> bool" where
  "word_char alnum c = (case c of None \<Rightarrow> False | Some x \<Rightarrow> alnum x \<or> x = 95)"

definition head_char :: "pystr \<Rightarrow> int option" where
  "head_char s = (case s of [] \<Rightarrow> None | c # _ \<Rightarrow> Some c)"

text \<open>The character before the remaining input after \<open>n\<close> more characters are read.\<close>

definition char_before :: "int option \<Rightarrow> nat \<Rightarrow> pystr \<Rightarrow> int option" where
  "char_before prev n s = (if n = 0 then prev else Some (s ! (n - 1)))"

text \<open>Whether a pattern matches at the start of \<open>s\<close>, by backtracking over the lengths of its runs.\<close>

fun match_at :: "(int \<Rightarrow> bool) \<Rightarrow> pattern_item list \<Rightarrow> int option \<Rightarrow> pystr \<Rightarrow> bool" where
  "match_at alnum [] prev s = True"
| "match_at alnum (Boundary # items) prev s =
     (word_char alnum prev \<noteq> word_char alnum (head_char s) \<and> match_at alnum items prev s)"
| "match_at alnum (OneOf ws # items) prev s =
     list_ex (\<lambda>w. prefix w s \<and> match_at alnum items (char_before prev (length w) s) (drop (length w) s)) ws"
| "match_at alnum (Run n P # items) prev s =
     list_ex (\<lambda>k. match_at alnum items (char_before prev k s) (drop k s)) [n..<Suc (length (takeWhile P s))]"
| "match_at alnum (Maybe P # items) prev s =
     (match_at alnum items prev s
      \<or> (case s of c # cs \<Rightarrow> P c \<and> match_at alnum items (Some c) cs | [] \<Rightarrow> False))"

fun search_from :: "(int \<Rightarrow> bool) \<Rightarrow> pattern_item list \<Rightarrow> nat \<Rightarrow> int option \<Rightarrow> pystr \<Rightarrow> nat option" where
  "search_from alnum items i prev [] = (if match_at alnum items prev [] then Some i else None)"
| "search_from alnum items i prev (c # cs) =
     (if match_at alnum items prev (c # cs) then Some i else search_from alnum items (i + 1) (Some c) cs)"

definition token_char :: "int \<Rightarrow> bool" where
  "token_char c \<longleftrightarrow> (65 \<le> c \<and> c \<le> 90) \<or> (97 \<le> c \<and> c \<le> 122) \<or> (48 \<le> c \<and> c \<le> 57) \<or> c = 95 \<or> c = 45"

definition quote_char :: "int \<Rightarrow> bool" where
  "quote_char c \<longleftrightarrow> c = 39 \<or> c = 34"

definition named_secret_pattern :: "pattern_item list" where
  "named_secret_pattern =
     [Boundary, OneOf [str ''apikey'', str ''api_key'', str ''api-key'', str ''secret'', str ''token'', str ''password''],
      Run 0 is_space, OneOf [str '':'', str ''=''], Run 0 is_space, Maybe quote_char,
      Run 8 (\<lambda>c. \<not> quote_char c \<and> \<not> is_space c)]"

definition key_pattern :: "pattern_item list" where
  "key_pattern = [Boundary, OneOf [str ''sk-'', str ''ak-''], Run 16 token_char, Boundary]"

definition jwt_pattern :: "pattern_item list" where
  "jwt_pattern = [Boundary, Run 24 token_char, OneOf [str ''.''], Run 6 token_char, OneOf [str ''.''], Run 20 token_char, Boundary]"

text \<open>
  The first pattern ignores case: it is searched in the case-folded text, where the folding changes neither the
  lengths nor the spaces, the quotes and the word characters.
\<close>

definition find_secret :: "(int \<Rightarrow> bool) \<Rightarrow> pystr \<Rightarrow> nat option" where
  "find_secret alnum s = (case search_from alnum named_secret_pattern 0 None (map fold_char s) of
     Some i \<Rightarrow> Some i
   | None \<Rightarrow> (case search_from alnum key_pattern 0 None s of
       Some i \<Rightarrow> Some i
     | None \<Rightarrow> search_from alnum jwt_pattern 0 None s))"

section \<open>Reading and checking a dataset\<close>

text \<open>\<open>DatasetValidationError\<close>, or any other exception.\<close>

datatype eval_error = DatasetError pystr pystr | OtherError exn

definition dataset_error :: "string \<Rightarrow> pystr \<Rightarrow> eval_error" where
  "dataset_error code message = DatasetError (str code) message"

record eval_env =
  ev_read :: "pystr \<Rightarrow> exn + pystr"
  ev_loads :: "pystr \<Rightarrow> pystr + json"
  ev_parse :: "json \<Rightarrow> pystr + eval_case"
  ev_problems :: "eval_case \<Rightarrow> pystr"
  ev_alnum :: "int \<Rightarrow> bool"
  ev_lower :: "pystr \<Rightarrow> pystr"
  ev_repr :: "pystr \<Rightarrow> pystr"
  ev_path_text :: "pystr \<Rightarrow> pystr"

text \<open>\<open>splitlines\<close> ends a line at each of these characters, taking CR LF as one end.\<close>

definition line_end :: "int \<Rightarrow> bool" where
  "line_end c \<longleftrightarrow> c \<in> {10, 11, 12, 13, 28, 29, 30, 133, 8232, 8233}"

function splitlines :: "pystr \<Rightarrow> pystr list" where
  "splitlines [] = []"
| "splitlines (c # cs) =
     (let line = takeWhile (\<lambda>x. \<not> line_end x) (c # cs) in
      case dropWhile (\<lambda>x. \<not> line_end x) (c # cs) of
        [] \<Rightarrow> [line]
      | e # rest \<Rightarrow> line # splitlines (if e = 13 \<and> head_char rest = Some 10 then tl rest else rest))"
  by pat_completeness auto

lemma drop_line_shorter:
  assumes "dropWhile P xs = e # rest"
  shows "length rest < length xs" "length (tl rest) < length xs"
proof -
  have "length (e # rest) \<le> length xs" using length_dropWhile_le[of P xs] by (simp add: assms)
  thus "length rest < length xs" "length (tl rest) < length xs" by auto
qed

termination splitlines
proof (relation "measure length", simp)
  fix c cs line e rest
  assume "dropWhile (\<lambda>x. \<not> line_end x) (c # cs) = e # rest"
  from drop_line_shorter[OF this]
  show "((if e = 13 \<and> head_char rest = Some 10 then tl rest else rest), c # cs) \<in> measure length" by auto
qed

definition line_error :: "string \<Rightarrow> nat \<Rightarrow> string \<Rightarrow> pystr \<Rightarrow> eval_error" where
  "line_error code n what detail = dataset_error code (str ''line '' @ py_str_nat n @ str '': '' @ str what @ detail)"

definition read_line :: "eval_env \<Rightarrow> nat \<Rightarrow> pystr \<Rightarrow> eval_error + eval_case" where
  "read_line env n line = (case ev_loads env line of
     Inl m \<Rightarrow> Inl (line_error ''DATASET_PARSE_FAILED'' n ''invalid JSONL: '' m)
   | Inr payload \<Rightarrow> (case ev_parse env payload of
       Inl m \<Rightarrow> Inl (line_error ''DATASET_SCHEMA_INVALID'' n ''schema validation failed: '' m)
     | Inr c \<Rightarrow>
         if eval_case_ok c then Inr c
         else Inl (line_error ''DATASET_SCHEMA_INVALID'' n ''schema validation failed: '' (ev_problems env c))))"

fun load_lines :: "eval_env \<Rightarrow> nat \<Rightarrow> pystr list \<Rightarrow> eval_error + (nat \<times> eval_case) list" where
  "load_lines env n [] = Inr []"
| "load_lines env n (raw # rest) =
     (let line = py_strip raw in
      if line = [] then load_lines env (n + 1) rest
      else sbind (read_line env n line) (\<lambda>c.
           sbind (load_lines env (n + 1) rest) (\<lambda>cs. Inr ((n, c) # cs))))"

text \<open>Reading fails with an \<open>OSError\<close>, or because the bytes are no UTF-8.\<close>

definition load_jsonl :: "eval_env \<Rightarrow> pystr \<Rightarrow> eval_error + (nat \<times> eval_case) list" where
  "load_jsonl env path = (case ev_read env path of
     Inl e \<Rightarrow> (case e of
         PyException cls m \<Rightarrow>
           if cls = ''OSError'' then Inl (dataset_error ''DATASET_PARSE_FAILED''
             (str ''failed to read '' @ ev_path_text env path @ str '': '' @ m))
           else Inl (OtherError e)
       | _ \<Rightarrow> Inl (OtherError e))
   | Inr content \<Rightarrow> load_lines env 1 (splitlines content))"

definition scan_for_secrets :: "eval_env \<Rightarrow> pystr \<Rightarrow> eval_error + unit" where
  "scan_for_secrets env path = (case ev_read env path of
     Inl e \<Rightarrow> Inl (OtherError e)
   | Inr content \<Rightarrow> (case find_secret (ev_alnum env) content of
       Some i \<Rightarrow> Inl (dataset_error ''DATASET_SECRET_DETECTED''
         (str ''sensitive-looking value matched near offset '' @ py_str_nat i))
     | None \<Rightarrow> Inr ()))"

fun check_unique :: "eval_env \<Rightarrow> (pystr \<times> nat) list \<Rightarrow> (nat \<times> eval_case) list \<Rightarrow> eval_error + unit" where
  "check_unique env seen [] = Inr ()"
| "check_unique env seen ((n, c) # rest) = (case map_of seen (ek_id c) of
     Some m \<Rightarrow> Inl (dataset_error ''DATASET_SCHEMA_INVALID''
       (str ''duplicate eval case id '' @ ev_repr env (ek_id c) @ str '' at lines '' @ py_str_nat m @ str '' and '' @ py_str_nat n))
   | None \<Rightarrow> check_unique env ((ek_id c, n) # seen) rest)"

text \<open>The code points order the strings; \<open>repr\<close> of the sorted list.\<close>

definition sorted_strings :: "pystr list \<Rightarrow> pystr list" where
  "sorted_strings xs = sort_key (\<lambda>x. x) (remdups xs)"

definition repr_list :: "eval_env \<Rightarrow> pystr list \<Rightarrow> pystr" where
  "repr_list env xs = str ''['' @ py_join (str '', '') (map (ev_repr env) xs) @ str '']''"

definition validate_cases :: "eval_env \<Rightarrow> (nat \<times> eval_case) list \<Rightarrow> int \<Rightarrow> int \<Rightarrow> pystr list \<Rightarrow> eval_error + eval_case list" where
  "validate_cases env loaded min_cases max_cases required =
     (let cases = map snd loaded; n = int (length cases);
          missing = filter (\<lambda>t. \<not> list_ex (\<lambda>c. t \<in> set (ek_tags c)) cases) required
      in if n < min_cases then Inl (dataset_error ''DATASET_CASES_TOO_FEW''
           (str ''dataset has '' @ str_of_int n @ str '' cases; expected at least '' @ str_of_int min_cases))
         else if max_cases < n then Inl (dataset_error ''DATASET_SCHEMA_INVALID''
           (str ''dataset has '' @ str_of_int n @ str '' cases; expected at most '' @ str_of_int max_cases))
         else sbind (check_unique env [] loaded) (\<lambda>_.
           if missing \<noteq> [] then Inl (dataset_error ''DATASET_SCHEMA_INVALID''
             (str ''dataset missing required tags: '' @ repr_list env (sorted_strings missing)))
           else Inr cases))"

definition DEFAULT_REQUIRED_TAGS :: "pystr list" where
  "DEFAULT_REQUIRED_TAGS = [str ''audio'', str ''pdf'', str ''citation'', str ''no_answer'']"

definition validate_dataset :: "eval_env \<Rightarrow> pystr \<Rightarrow> int \<Rightarrow> int \<Rightarrow> pystr list option \<Rightarrow> eval_error + eval_case list" where
  "validate_dataset env path min_cases max_cases required_tags =
     sbind (scan_for_secrets env path) (\<lambda>_.
     sbind (load_jsonl env path) (\<lambda>loaded.
       validate_cases env loaded min_cases max_cases
         (case required_tags of None \<Rightarrow> DEFAULT_REQUIRED_TAGS | Some r \<Rightarrow> r)))"

text \<open>
  \<open>main\<close> of \<open>validate_dataset.py\<close>: the exit code and what is printed. Only a \<open>DatasetValidationError\<close> is caught;
  any other exception leaves the program.
\<close>

definition validate_main :: "eval_env \<Rightarrow> pystr \<Rightarrow> int \<Rightarrow> int \<Rightarrow> pystr list \<Rightarrow> exn + int \<times> pystr" where
  "validate_main env path min_cases max_cases required_tag =
     (case validate_dataset env path min_cases max_cases
             (Some (if required_tag \<noteq> [] then required_tag else DEFAULT_REQUIRED_TAGS)) of
        Inl (DatasetError code message) \<Rightarrow> Inr (1, code @ str '': '' @ message)
      | Inl (OtherError e) \<Rightarrow> Inl e
      | Inr cases \<Rightarrow> Inr (0, str ''OK: validated '' @ py_str_nat (length cases) @ str '' eval cases from '' @ ev_path_text env path))"

section \<open>Judges and answer providers\<close>

definition ratio :: "nat \<Rightarrow> nat \<Rightarrow> pyfloat \<Rightarrow> pyfloat" where
  "ratio numerator denominator default_value = (if denominator = 0 then default_value else of_nat numerator / of_nat denominator)"

definition expected_tokens :: "eval_env \<Rightarrow> eval_case \<Rightarrow> pystr list" where
  "expected_tokens env c = remdups (filter (\<lambda>token. 2 \<le> length token)
     (py_split_ws (map (\<lambda>ch. if ch \<in> {65292, 12290} then 32 else ch) (ev_lower env (ek_expected_answer c)))))"

definition mock_score :: "eval_env \<Rightarrow> eval_case \<Rightarrow> generated_answer \<Rightarrow> exn + judge_scores" where
  "mock_score env c a =
     (let no_answer = str ''no_answer'' \<in> set (ek_tags c);
          answer_text = ev_lower env (gk_answer a);
          tokens = expected_tokens env c;
          matched = filter (\<lambda>token. py_contains token answer_text) tokens;
          recall = if no_answer then 1 else ratio (length matched) (length tokens) (85 / 100);
          relevance = if py_contains (ev_lower env (take 4 (ek_question c))) answer_text then 85 / 100 else 95 / 100;
          faithfulness = if no_answer \<or> gk_citations a \<noteq> [] \<or> ek_expected_citations c = [] then 1 else 55 / 100
      in judge_scores_new
           \<lparr>js_recall = round4 recall, js_faithfulness = round4 faithfulness, js_relevance = round4 relevance,
            js_citation_accuracy = round4 (citation_overlap_score (ek_expected_citations c) (gk_citations a)),
            js_reason = str ''mock judge compared expected answer hints and citation overlap'',
            js_evidence = ek_id c # ek_resource_ids c\<rparr>)"

text \<open>\<open>MockJudge\<close> with its overrides and its count of calls.\<close>

type_synonym judge_state = "(pystr \<times> int) list"

definition mock_judge :: "eval_env \<Rightarrow> (pystr \<times> (exn + judge_scores)) list \<Rightarrow> judge_state judge" where
  "mock_judge env overrides c a calls =
     (AList.update (ek_id c) ((case map_of calls (ek_id c) of Some n \<Rightarrow> n | None \<Rightarrow> 0) + 1) calls,
      (case map_of overrides (ek_id c) of Some r \<Rightarrow> r | None \<Rightarrow> mock_score env c a))"

definition llm_judge :: "'p judge" where
  "llm_judge c a s =
     (s, Inl (PyException ''RuntimeError'' (str ''LLMJudge remote scoring is not configured; use --judge mock in CI'')))"

definition answer_citation :: "expected_citation \<Rightarrow> citation_ref" where
  "answer_citation c =
     \<lparr>xk_resource_id = xk_resource_id c, xk_chunk_id = xk_chunk_id c, xk_page = xk_page c, xk_start_sec = xk_start_sec c,
      xk_end_sec = xk_end_sec c\<rparr>"

definition mock_answer :: "eval_case \<Rightarrow> exn + generated_answer" where
  "mock_answer c = generated_answer_new
     (if str ''no_answer'' \<in> set (ek_tags c)
      then [0x6839, 0x636E, 0x5F53, 0x524D, 0x77E5, 0x8BC6, 0x5E93, 0xFF0C, 0x672A, 0x627E, 0x5230,
        0x53EF, 0x652F, 0x6301, 0x8BE5, 0x95EE, 0x9898, 0x7684, 0x8D44, 0x6599, 0x3002, 0x671F,
        0x671B, 0x5904, 0x7406, 0xFF1A] @ ek_expected_answer c
      else ek_expected_answer c @ [0xFF08, 0x57FA, 0x4E8E, 0x8BC4, 0x4F30, 0x6837, 0x672C, 0x20] @
        ek_id c @ (str '' mock RAG '' @ [0x56DE, 0x7B54, 0xFF09]))
     (map answer_citation (ek_expected_citations c))"

definition static_answer :: "(pystr \<times> (exn + generated_answer)) list \<Rightarrow> eval_case \<Rightarrow> exn + generated_answer" where
  "static_answer answers c = (case map_of answers (ek_id c) of Some r \<Rightarrow> r | None \<Rightarrow> mock_answer c)"

text \<open>
  The request of \<open>HTTPAnswerProvider\<close>. \<open>urlopen\<close> answers with the body, or raises: a \<open>URLError\<close> (an HTTP error status
  is one) is turned into a \<open>RuntimeError\<close>, other exceptions pass.
\<close>

record answer_request =
  aq_endpoint :: pystr
  aq_headers :: "(pystr \<times> pystr) list"
  aq_payload :: json_dict

definition eval_answer_request :: "pystr \<Rightarrow> pystr \<Rightarrow> eval_case \<Rightarrow> answer_request" where
  "eval_answer_request endpoint key c =
     \<lparr>aq_endpoint = endpoint,
      aq_headers = [(str ''Content-Type'', str ''application/json''), (str ''X-Internal-API-Key'', key)],
      aq_payload = [(str ''question'', JStr (ek_question c)), (str ''resource_ids'', JArr (map JStr (ek_resource_ids c))),
        (str ''conversation_id'', JStr (str ''eval-'' @ ek_id c)), (str ''message_id'', JStr (str ''eval-msg-'' @ ek_id c)),
        (str ''user_id'', JStr (str ''eval-runner''))]\<rparr>"

definition http_answer ::
  "(answer_request \<Rightarrow> 'p \<Rightarrow> 'p \<times> (exn + pystr)) \<Rightarrow> (pystr \<Rightarrow> exn + json) \<Rightarrow> (json_dict \<Rightarrow> exn + citation_ref)
     \<Rightarrow> pystr \<Rightarrow> pystr \<Rightarrow> 'p answerer" where
  "http_answer urlopen loads citation endpoint key c s = (case urlopen (eval_answer_request endpoint key c) s of
     (s', Inl e) \<Rightarrow> (s', Inl (case e of
         PyException cls m \<Rightarrow>
           if cls = ''URLError'' then PyException ''RuntimeError'' (str ''RAG answer request failed: '' @ m) else e
       | _ \<Rightarrow> e))
   | (s', Inr body) \<Rightarrow> (s', sbind (loads body) (\<lambda>data. case data of
       JObj d \<Rightarrow>
         sbind (case map_of d (str ''citations'') of
             None \<Rightarrow> Inr []
           | Some (JArr items) \<Rightarrow> smap citation (List.map_filter (\<lambda>i. case i of JObj x \<Rightarrow> Some x | _ \<Rightarrow> None) items)
           | Some (JObj _) \<Rightarrow> Inr []
           | Some (JStr _) \<Rightarrow> Inr []
           | Some _ \<Rightarrow> Inl (PyException ''TypeError'' (str ''object is not iterable''))) (\<lambda>citations.
         case map_of d (str ''answer'') of
           Some (JStr answer) \<Rightarrow>
             if blank answer then Inl (PyException ''RuntimeError'' (str ''RAG answer response missing answer''))
             else generated_answer_new answer citations
         | _ \<Rightarrow> Inl (PyException ''RuntimeError'' (str ''RAG answer response missing answer'')))
     | _ \<Rightarrow> Inl attribute_error)))"

section \<open>The report\<close>

text \<open>\<open>f"{x:.4f}"\<close> of a value that is not negative.\<close>

definition fmt4 :: "pyfloat \<Rightarrow> pystr" where
  "fmt4 x = (let n = nat (py_round (x * 10000)); frac = py_str_nat (n mod 10000)
     in py_str_nat (n div 10000) @ str ''.'' @ replicate (4 - length frac) 48 @ frac)"

definition fmt_score :: "pyfloat option \<Rightarrow> pystr" where
  "fmt_score v = (case v of None \<Rightarrow> str ''-'' | Some x \<Rightarrow> fmt4 x)"

definition table_row :: "pystr list \<Rightarrow> pystr" where
  "table_row cells = str ''| '' @ py_join (str '' | '') cells @ str '' |''"

definition metric_cells :: "metric_values \<Rightarrow> pystr list" where
  "metric_cells m = [fmt4 (mv_recall m), fmt4 (mv_faithfulness m), fmt4 (mv_relevance m), fmt4 (mv_citation_accuracy m)]"

definition case_row :: "eval_result \<Rightarrow> pystr" where
  "case_row r = table_row
     [ek_id (er_case r), (if er_failed r then str ''failed'' else str ''passed''),
      fmt_score (map_option js_recall (er_scores r)), fmt_score (map_option js_faithfulness (er_scores r)),
      fmt_score (map_option js_relevance (er_scores r)), fmt_score (map_option js_citation_accuracy (er_scores r)),
      (case er_error_code r of Some code \<Rightarrow> code | None \<Rightarrow> [])]"

definition tag_lines :: "eval_summary \<Rightarrow> pystr list" where
  "tag_lines summary =
     (if sm_by_tag summary = [] then [str ''No tag metrics.'']
      else [str ''| Tag | Count | Recall | Faithfulness | Relevance | Citation Accuracy |'', str ''|---|---:|---:|---:|---:|---:|'']
           @ map (\<lambda>(tag, n, m). table_row (tag # py_str_nat n # metric_cells m)) (sort_key fst (sm_by_tag summary)))"

definition render_markdown :: "eval_summary \<Rightarrow> eval_result list \<Rightarrow> pystr" where
  "render_markdown summary results = py_join [10]
     ([str ''# MKC RAG Evaluation Report'', [], str ''## Summary'', [],
       str ''- Total cases: '' @ py_str_nat (sm_total summary),
       str ''- Passed cases: '' @ py_str_nat (sm_passed summary),
       str ''- Failed cases: '' @ py_str_nat (sm_failed summary),
       str ''- Recall: '' @ fmt4 (mv_recall (sm_metrics summary)),
       str ''- Faithfulness: '' @ fmt4 (mv_faithfulness (sm_metrics summary)),
       str ''- Relevance: '' @ fmt4 (mv_relevance (sm_metrics summary)),
       str ''- Citation accuracy: '' @ fmt4 (mv_citation_accuracy (sm_metrics summary)), [], str ''## By Tag'', []]
      @ tag_lines summary
      @ [[], str ''## Cases'', [],
         str ''| Case | Status | Recall | Faithfulness | Relevance | Citation Accuracy | Error |'',
         str ''|---|---|---:|---:|---:|---:|---|'']
      @ map case_row results) @ [10]"

definition SECRET_MARKERS :: "pystr list" where
  "SECRET_MARKERS = [str ''api_key'', str ''secret'', str ''token'', str ''password'']"

definition assert_no_secret_markers :: "pystr \<Rightarrow> exn + unit" where
  "assert_no_secret_markers s = (case find (\<lambda>marker. py_contains marker (py_lower s)) SECRET_MARKERS of
     Some marker \<Rightarrow> Inl (PyException ''ValueError'' (str ''report contains sensitive marker: '' @ marker))
   | None \<Rightarrow> Inr ())"

text \<open>\<open>ReportWriter.write\<close> over a file system, with the report's JSON text and the time stamp.\<close>

record 'f report_files =
  rf_mkdir :: "pystr \<Rightarrow> 'f \<Rightarrow> 'f \<times> (exn + unit)"
  rf_write :: "pystr \<Rightarrow> pystr \<Rightarrow> 'f \<Rightarrow> 'f \<times> (exn + unit)"

definition write_checked :: "'f report_files \<Rightarrow> pystr \<Rightarrow> pystr \<Rightarrow> pystr \<Rightarrow> 'f \<Rightarrow> 'f \<times> (exn + unit)" where
  "write_checked files path content ending s = (case assert_no_secret_markers content of
     Inl e \<Rightarrow> (s, Inl e) | Inr _ \<Rightarrow> rf_write files path (content @ ending) s)"

definition write_report ::
  "'f report_files \<Rightarrow> (eval_summary \<Rightarrow> eval_result list \<Rightarrow> pystr) \<Rightarrow> pystr \<Rightarrow> pystr \<Rightarrow> eval_summary \<Rightarrow> eval_result list
     \<Rightarrow> 'f \<Rightarrow> 'f \<times> (exn + pystr \<times> pystr)" where
  "write_report files dump dir timestamp summary results s = (case rf_mkdir files dir s of
     (s1, Inl e) \<Rightarrow> (s1, Inl e)
   | (s1, Inr _) \<Rightarrow>
       let base = dir @ str ''/eval_report_'' @ timestamp; json_path = base @ str ''.json''; md_path = base @ str ''.md''
       in (case write_checked files json_path (dump summary results) [10] s1 of
             (s2, Inl e) \<Rightarrow> (s2, Inl e)
           | (s2, Inr _) \<Rightarrow> (case write_checked files md_path (render_markdown summary results) [] s2 of
               (s3, Inl e) \<Rightarrow> (s3, Inl e)
             | (s3, Inr _) \<Rightarrow> (s3, Inr (json_path, md_path)))))"

section \<open>The command\<close>

record eval_args =
  ea_dataset :: pystr
  ea_report_dir :: pystr
  ea_tags :: pystr
  ea_difficulty :: pystr
  ea_resource_type :: pystr
  ea_min_cases :: int
  ea_max_cases :: int
  ea_max_retries :: int
  ea_threshold :: metric_values

definition load_eval_cases :: "eval_env \<Rightarrow> pystr \<Rightarrow> int \<Rightarrow> int \<Rightarrow> eval_error + eval_case list" where
  "load_eval_cases env dataset min_cases max_cases =
     sbind (load_jsonl env dataset) (\<lambda>loaded. validate_cases env loaded min_cases max_cases [])"

definition select_cases :: "eval_env \<Rightarrow> eval_args \<Rightarrow> eval_error + eval_case list" where
  "select_cases env args =
     sbind (load_eval_cases env (ea_dataset args) (ea_min_cases args) (ea_max_cases args)) (\<lambda>cases.
     let chosen = filter_cases (csv_values (ea_tags args)) (csv_values (ea_difficulty args))
                    (csv_values (ea_resource_type args)) cases
     in if chosen = [] then Inl (dataset_error ''EVAL_DATASET_NOT_FOUND'' (str ''no eval cases matched filters'')) else Inr chosen)"

definition threshold_ok :: "metric_values \<Rightarrow> bool" where
  "threshold_ok t \<longleftrightarrow> 0 \<le> mv_recall t \<and> mv_recall t \<le> 1 \<and> 0 \<le> mv_faithfulness t \<and> mv_faithfulness t \<le> 1
     \<and> 0 \<le> mv_relevance t \<and> mv_relevance t \<le> 1 \<and> 0 \<le> mv_citation_accuracy t \<and> mv_citation_accuracy t \<le> 1"

text \<open>
  \<open>_build_answer_provider\<close>: the HTTP provider wants a key. The providers, the judge and the report directory share
  the state \<open>'p\<close>.
\<close>

definition build_answer_provider :: "bool \<Rightarrow> pystr \<Rightarrow> (pystr \<Rightarrow> 'p answerer) \<Rightarrow> exn + 'p answerer" where
  "build_answer_provider mock internal_key http =
     (if mock then Inr (\<lambda>c s. (s, mock_answer c))
      else if internal_key = [] then Inl (PyException ''RuntimeError'' (str ''INTERNAL_API_KEY is required for --answer-provider http''))
      else Inr (http internal_key))"

definition run_from_args ::
  "eval_env \<Rightarrow> (exn + 'p answerer) \<Rightarrow> 'p judge \<Rightarrow> 'p report_files \<Rightarrow> (eval_summary \<Rightarrow> eval_result list \<Rightarrow> pystr) \<Rightarrow> pystr
     \<Rightarrow> eval_args \<Rightarrow> 'p \<Rightarrow> 'p \<times> (eval_error + eval_summary \<times> (pystr \<times> pystr) \<times> int)" where
  "run_from_args env provider judge files dump timestamp args s = (case select_cases env args of
     Inl e \<Rightarrow> (s, Inl e)
   | Inr cases \<Rightarrow> (case provider of
       Inl e \<Rightarrow> (s, Inl (OtherError e))
     | Inr answer \<Rightarrow> (case eval_run answer judge (ea_max_retries args) cases s of
         (s1, Inl e) \<Rightarrow> (s1, Inl (OtherError e))
       | (s1, Inr (summary, results)) \<Rightarrow> (case write_report files dump (ea_report_dir args) timestamp summary results s1 of
           (s2, Inl e) \<Rightarrow> (s2, Inl (OtherError e))
         | (s2, Inr paths) \<Rightarrow>
             if threshold_ok (ea_threshold args)
             then (s2, Inr (summary, paths, enforce_threshold summary (ea_threshold args)))
             else (s2, Inl (OtherError (LLM.validation_error ''EvalThreshold'')))))))"

text \<open>The exit code of \<open>main\<close>: every exception is caught.\<close>

definition eval_main ::
  "eval_env \<Rightarrow> (exn + 'p answerer) \<Rightarrow> 'p judge \<Rightarrow> 'p report_files \<Rightarrow> (eval_summary \<Rightarrow> eval_result list \<Rightarrow> pystr) \<Rightarrow> pystr
     \<Rightarrow> eval_args \<Rightarrow> 'p \<Rightarrow> 'p \<times> int" where
  "eval_main env provider judge files dump timestamp args s =
     (case run_from_args env provider judge files dump timestamp args s of
        (s', Inl _) \<Rightarrow> (s', 1) | (s', Inr (_, _, status)) \<Rightarrow> (s', status))"

end
