(* ===== verification/Eval_Props.thy ===== *)
theory Eval_Props
  imports Eval_Run Api_Props
begin

text \<open>
  What the evaluation guarantees: a failing case costs its retries and nothing else, the averages stay in the unit
  interval, an accepted dataset is well formed, and a mock answer is fully cited.
\<close>

section \<open>One result per case\<close>

definition result_sound :: "int \<Rightarrow> eval_case \<Rightarrow> eval_result \<Rightarrow> bool" where
  "result_sound max_retries c r \<longleftrightarrow> er_case r = c \<and> 1 \<le> er_attempts r \<and> er_attempts r \<le> max_retries + 1
     \<and> (er_failed r \<longrightarrow> er_attempts r = max_retries + 1 \<and> er_scores r = None \<and> er_answer r = None \<and> er_error_code r \<noteq> None)
     \<and> (\<not> er_failed r \<longrightarrow> er_scores r \<noteq> None \<and> er_answer r \<noteq> None \<and> er_error_code r = None)"

lemma run_attempts_bounds:
  "run_attempts answer judge c left attempts last_error s = (s', n, r) \<Longrightarrow>
     attempts \<le> n \<and> n \<le> attempts + int left \<and> (left \<noteq> 0 \<longrightarrow> attempts < n) \<and> (\<forall>e. r = Inl e \<longrightarrow> n = attempts + int left)"
proof (induction left arbitrary: attempts last_error s)
  case (Suc left)
  show ?case
  proof (cases "try_case answer judge c s")
    case (Pair s1 q)
    with Suc.prems Suc.IH[of "attempts + 1" _ s1] show ?thesis by (cases q) fastforce+
  qed
qed simp

lemma run_case_sound:
  assumes "0 \<le> max_retries"
  obtains s' r where "run_case answer judge max_retries c s = (s', Inr r)" "result_sound max_retries c r"
proof -
  obtain s' n q where run: "run_attempts answer judge c (nat (max_retries + 1)) 0 None s = (s', n, q)"
    using prod_cases3 by blast
  from run_attempts_bounds[OF run] assms
  have n: "1 \<le> n" "n \<le> max_retries + 1" "\<forall>e. q = Inl e \<longrightarrow> n = max_retries + 1" by auto
  show ?thesis
  proof (cases q)
    case (Inl e)
    with run n that show ?thesis by (auto simp: run_case_def eval_result_new_def result_sound_def)
  next
    case (Inr v)
    with run n that show ?thesis by (cases v) (auto simp: run_case_def eval_result_new_def result_sound_def)
  qed
qed

text \<open>C36: An evaluation with \<open>max_retries \<ge> 0\<close> always returns, whatever the answer provider and the judge raise: it has one
  result for each case, in their order. A case takes at most \<open>max_retries + 1\<close> attempts, a failed one takes exactly
  that many and has an error code and no scores, a passed one has an answer and scores.
\<close>

theorem eval_run_isolates_failures:
  assumes "0 \<le> max_retries"
  shows "\<exists>s' results. eval_run answer judge max_retries cases s = (s', Inr (calculate_summary results, results))
           \<and> list_all2 (result_sound max_retries) cases results"
proof -
  have "\<exists>s' rs. run_cases answer judge max_retries cases s = (s', Inr rs) \<and> list_all2 (result_sound max_retries) cases rs"
  proof (induction cases arbitrary: s)
    case (Cons c cs)
    obtain s1 r where r: "run_case answer judge max_retries c s = (s1, Inr r)" "result_sound max_retries c r"
      by (rule run_case_sound[OF assms])
    moreover obtain s2 rs where "run_cases answer judge max_retries cs s1 = (s2, Inr rs)" "list_all2 (result_sound max_retries) cs rs"
      using Cons.IH by blast
    ultimately have "run_cases answer judge max_retries (c # cs) s = (s2, Inr (r # rs))"
      "list_all2 (result_sound max_retries) (c # cs) (r # rs)" by simp_all
    thus ?case by blast
  qed simp
  thus ?thesis by (auto simp: eval_run_def)
qed

definition sample_case :: "string \<Rightarrow> eval_case" where
  "sample_case i =
     \<lparr>ek_id = str i, ek_question = str ''What is MKC?'', ek_expected_answer = str ''A companion'', ek_resource_ids = [str ''pdf-1''],
      ek_expected_citations = [], ek_tags = [str ''pdf''], ek_difficulty = str ''easy''\<rparr>"

text \<open>A provider that answers one case and fails on every other, and a judge that gives full marks.\<close>

definition one_answer :: "string \<Rightarrow> nat answerer" where
  "one_answer i c s = (s + 1, if ek_id c = str i then Inr \<lparr>gk_answer = str ''A companion'', gk_citations = []\<rparr>
     else Inl (PyException ''TimeoutError'' (str ''timed out'')))"

definition full_marks :: "nat judge" where
  "full_marks c a s = (s, Inr \<lparr>js_recall = 1, js_faithfulness = 1, js_relevance = 1, js_citation_accuracy = 1, js_reason = str ''ok'', js_evidence = []\<rparr>)"

lemma eval_run_isolates_failures_witness:
  "\<exists>s' results. eval_run (one_answer ''rag-b-001'') full_marks 2 [sample_case ''rag-a-001'', sample_case ''rag-b-001''] 0
       = (s', Inr (calculate_summary results, results))
     \<and> list_all2 (result_sound 2) [sample_case ''rag-a-001'', sample_case ''rag-b-001''] results"
  by (rule eval_run_isolates_failures) simp

text \<open>
  The averages leave the failed cases out, so a run in which all but one case failed passes the thresholds: the
  command exits with 0.
\<close>

lemma failed_cases_pass_threshold:
  "(case eval_run (one_answer ''rag-b-001'') full_marks 2
       [sample_case ''rag-a-001'', sample_case ''rag-c-001'', sample_case ''rag-b-001''] 0 of
      (n, Inr (summary, _)) \<Rightarrow> n = 7 \<and> sm_failed summary = 2 \<and> enforce_threshold summary default_threshold = 0
    | _ \<Rightarrow> False)"
  by code_simp

text \<open>A negative \<open>--max-retries\<close> makes no attempt, and the result that says so is no valid one.\<close>

lemma negative_retries_break_the_run:
  "max_retries < 0 \<Longrightarrow> eval_run answer judge max_retries (c # cs) s = (s, Inl (LLM.validation_error ''attempts''))"
  by (simp add: eval_run_def run_case_def eval_result_new_def)

section \<open>Averages\<close>

lemma py_round_le: "x \<le> of_int n \<Longrightarrow> py_round x \<le> n"
proof -
  assume "x \<le> of_int n"
  moreover have "of_int (py_round x) - x \<le> 1 / 2" using py_round_error[of x] by linarith
  ultimately have "(of_int (py_round x) :: pyfloat) < of_int (n + 1)" by simp
  thus ?thesis by (simp only: of_int_less_iff)
qed

lemma round4_unit: "0 \<le> x \<Longrightarrow> x \<le> 1 \<Longrightarrow> 0 \<le> round4 x \<and> round4 x \<le> 1"
proof -
  assume x: "0 \<le> x" "x \<le> 1"
  have "0 \<le> py_round (x * 10000)" using x by (intro py_round_nonneg) simp
  moreover have "py_round (x * 10000) \<le> 10000" using x by (intro py_round_le) simp
  hence "(of_int (py_round (x * 10000)) :: pyfloat) \<le> of_int 10000" by (simp only: of_int_le_iff)
  ultimately show ?thesis by (simp add: round4_def)
qed

lemma average_unit: "\<forall>x \<in> set xs. 0 \<le> x \<and> x \<le> 1 \<Longrightarrow> 0 \<le> average xs \<and> average xs \<le> 1"
proof (cases "xs = []")
  case False
  assume xs: "\<forall>x \<in> set xs. 0 \<le> x \<and> x \<le> 1"
  have "0 \<le> sum_list xs" using xs by (intro sum_list_nonneg) auto
  moreover have "sum_list xs \<le> of_nat (length xs)" using xs by (induction xs) (auto simp: add_mono)
  ultimately show ?thesis using False by (simp add: average_def round4_unit)
qed (simp add: average_def)


lemma metric_averages_unit: "\<forall>s \<in> set scores. scores_ok s \<Longrightarrow> threshold_ok (metric_averages scores)"
  using average_unit[of "map js_recall scores"] average_unit[of "map js_faithfulness scores"]
    average_unit[of "map js_relevance scores"] average_unit[of "map js_citation_accuracy scores"]
  by (simp add: threshold_ok_def metric_averages_def scores_ok_def)

definition results_in_range :: "eval_result list \<Rightarrow> bool" where
  "results_in_range results \<longleftrightarrow> (\<forall>r \<in> set results. \<forall>s \<in> set_option (er_scores r). scores_ok s)"

lemma map_filter_scores: "s \<in> set (List.map_filter er_scores results) \<Longrightarrow> \<exists>r \<in> set results. er_scores r = Some s"
  by (force simp: List.map_filter_def)

definition groups_ok :: "(pystr \<times> judge_scores list) list \<Rightarrow> bool" where
  "groups_ok groups \<longleftrightarrow> (\<forall>(tag, ss) \<in> set groups. \<forall>x \<in> set ss. scores_ok x)"

lemma set_update_subset: "set (AList.update k v al) \<subseteq> insert (k, v) (set al)"
  by (induction al) auto

lemma add_to_group_ok: "scores_ok s \<Longrightarrow> groups_ok groups \<Longrightarrow> groups_ok (add_to_group s tag groups)"
  using set_update_subset[of tag _ groups]
  by (fastforce simp: add_to_group_def groups_ok_def dest: map_of_SomeD split: option.splits)

lemma fold_add_to_group_ok: "scores_ok s \<Longrightarrow> groups_ok groups \<Longrightarrow> groups_ok (fold (add_to_group s) tags groups)"
  by (induction tags arbitrary: groups) (auto simp: add_to_group_ok)

lemma group_by_tag_ok: "results_in_range results \<Longrightarrow> groups_ok (group_by_tag results)"
proof (induction results rule: rev_induct)
  case (snoc r results)
  hence "groups_ok (group_by_tag results)" by (simp add: results_in_range_def)
  with snoc.prems show ?case
    by (cases "er_scores r") (simp_all add: group_by_tag_def results_in_range_def fold_add_to_group_ok)
qed (simp add: group_by_tag_def groups_ok_def)

text \<open>C38: The overall averages and the averages of every tag lie between 0 and 1 when the scores do, also after the rounding
  to four digits and when nothing was scored; passed and failed cases add up to the total.
\<close>

theorem summary_in_range:
  assumes "results_in_range results"
  shows "threshold_ok (sm_metrics (calculate_summary results))
       \<and> (\<forall>(tag, n, m) \<in> set (sm_by_tag (calculate_summary results)). threshold_ok m)
       \<and> sm_passed (calculate_summary results) + sm_failed (calculate_summary results) = sm_total (calculate_summary results)"
proof -
  have "threshold_ok (metric_averages (List.map_filter er_scores results))"
    using assms map_filter_scores by (intro metric_averages_unit) (fastforce simp: results_in_range_def)
  moreover have "\<forall>(tag, n, m) \<in> set (sm_by_tag (calculate_summary results)). threshold_ok m"
    using group_by_tag_ok[OF assms]
    by (fastforce simp: calculate_summary_def Let_def groups_ok_def intro: metric_averages_unit)
  ultimately show ?thesis by (simp add: calculate_summary_def Let_def)
qed

definition sample_result :: "pyfloat \<Rightarrow> eval_result" where
  "sample_result x =
     \<lparr>er_case = sample_case ''rag-a-001'', er_answer = Some (str ''A companion''), er_citations = [],
      er_scores = Some \<lparr>js_recall = x, js_faithfulness = 1, js_relevance = x, js_citation_accuracy = 0, js_reason = str ''ok'', js_evidence = []\<rparr>,
      er_failed = False, er_error_code = None, er_error_message = None, er_attempts = 1\<rparr>"

lemma summary_in_range_witness:
  "threshold_ok (sm_metrics (calculate_summary [sample_result 0, sample_result (2 / 3)]))
   \<and> sm_passed (calculate_summary [sample_result 0, sample_result (2 / 3)])
       + sm_failed (calculate_summary [sample_result 0, sample_result (2 / 3)]) = sm_total (calculate_summary [sample_result 0, sample_result (2 / 3)])"
proof -
  have "results_in_range [sample_result 0, sample_result (2 / 3)]"
    by (simp add: results_in_range_def sample_result_def scores_ok_def)
  from summary_in_range[OF this] show ?thesis by (elim conjE) (intro conjI)
qed

section \<open>Datasets\<close>

lemma load_lines_ok: "load_lines env n ls = Inr loaded \<Longrightarrow> list_all eval_case_ok (map snd loaded)"
proof (induction env n ls arbitrary: loaded rule: load_lines.induct)
  case (2 env n raw rest)
  have "read_line env n (py_strip raw) = Inr c \<Longrightarrow> eval_case_ok c" for c
    by (simp add: read_line_def split: sum.splits if_splits)
  with 2 show ?case by (auto simp: Let_def sbind_Inr_iff split: if_splits)
qed simp

lemma load_jsonl_ok: "load_jsonl env path = Inr loaded \<Longrightarrow> list_all eval_case_ok (map snd loaded)"
  by (auto simp: load_jsonl_def split: sum.splits exn.splits if_splits dest: load_lines_ok)

lemma check_unique_ok:
  "check_unique env seen loaded = Inr () \<Longrightarrow>
     distinct (map (ek_id \<circ> snd) loaded) \<and> fst ` set seen \<inter> (ek_id \<circ> snd) ` set loaded = {}"
proof (induction env seen loaded rule: check_unique.induct)
  case (2 env seen n c rest)
  show ?case
  proof (cases "map_of seen (ek_id c)")
    case None
    with 2 show ?thesis by (auto simp: map_of_eq_None_iff)
  qed (use 2 in simp)
qed simp

text \<open>C37: An accepted dataset has no value that looks like a secret, between the least and the greatest number of cases,
  each of them well formed, with pairwise different ids, and every required tag on some case.
\<close>

theorem accepted_dataset_sound:
  assumes "validate_dataset env path min_cases max_cases (Some required) = Inr cases" "ev_read env path = Inr content"
  shows "find_secret (ev_alnum env) content = None \<and> min_cases \<le> int (length cases) \<and> int (length cases) \<le> max_cases
       \<and> list_all eval_case_ok cases \<and> distinct (map ek_id cases) \<and> (\<forall>t \<in> set required. \<exists>c \<in> set cases. t \<in> set (ek_tags c))"
proof -
  from assms(1) obtain loaded where scan: "scan_for_secrets env path = Inr ()" and load: "load_jsonl env path = Inr loaded"
    and valid: "validate_cases env loaded min_cases max_cases required = Inr cases"
    by (auto simp: validate_dataset_def sbind_Inr_iff)
  from valid have "cases = map snd loaded" "min_cases \<le> int (length cases)" "int (length cases) \<le> max_cases"
    and unique: "check_unique env [] loaded = Inr ()"
    and tags: "\<forall>t \<in> set required. \<exists>c \<in> set cases. t \<in> set (ek_tags c)"
    by (auto simp: validate_cases_def Let_def sbind_Inr_iff filter_empty_conv list_ex_iff split: if_splits)
  moreover have "find_secret (ev_alnum env) content = None"
    using scan assms(2) by (simp add: scan_for_secrets_def split: option.splits)
  ultimately show ?thesis using load_jsonl_ok[OF load] check_unique_ok[OF unique] by (simp add: comp_def)
qed

text \<open>A dataset of one line, whose JSON is read as the sample case.\<close>

definition sample_env :: eval_env where
  "sample_env =
     \<lparr>ev_read = (\<lambda>_. Inr (str ''{}'' @ [10])), ev_loads = (\<lambda>_. Inr JNull), ev_parse = (\<lambda>_. Inr (sample_case ''rag-a-001'')),
      ev_problems = (\<lambda>_. []), ev_alnum = token_char, ev_lower = py_lower, ev_repr = (\<lambda>s. s), ev_path_text = (\<lambda>s. s)\<rparr>"

lemma accepted_dataset_sound_witness:
  "find_secret (ev_alnum sample_env) (str ''{}'' @ [10]) = None \<and> list_all eval_case_ok [sample_case ''rag-a-001'']
   \<and> str ''pdf'' \<in> set (ek_tags (sample_case ''rag-a-001''))"
proof -
  have v: "validate_dataset sample_env [] 1 2 (Some [str ''pdf'']) = Inr [sample_case ''rag-a-001'']" by code_simp
  have r: "ev_read sample_env [] = Inr (str ''{}'' @ [10])" by code_simp
  note q = accepted_dataset_sound[OF v r]
  from q have "find_secret (ev_alnum sample_env) (str ''{}'' @ [10]) = None" by (rule conjunct1)
  moreover from q have "list_all eval_case_ok [sample_case ''rag-a-001'']" by blast
  moreover from q have "\<exists>c \<in> set [sample_case ''rag-a-001'']. str ''pdf'' \<in> set (ek_tags c)"
    by (elim conjE) (erule bspec, simp)
  then have "str ''pdf'' \<in> set (ek_tags (sample_case ''rag-a-001''))" by (simp del: str_simps)
  ultimately show ?thesis by (intro conjI)
qed

text \<open>
  A line separator U+2028 may stand unescaped in a JSON string, but \<open>splitlines\<close> ends the line there: the case is cut in
  two pieces that are no JSON.
\<close>

lemma line_separator_cuts_case: "splitlines (str ''{a'' @ [8232] @ str ''b}'') = [str ''{a'', str ''b}'']"
  by code_simp

section \<open>The mock providers and the HTTP provider\<close>

text \<open>
  A mock answer cites exactly what the case expects, so the citation score of every case is 1 with the mock
  provider, whatever the dataset.
\<close>

theorem mock_answer_fully_cited:
  assumes "mock_answer c = Inr a"
  shows "citation_overlap_score (ek_expected_citations c) (gk_citations a) = 1"
proof -
  have a: "gk_citations a = map answer_citation (ek_expected_citations c)"
    using assms by (auto simp: mock_answer_def generated_answer_new_def split: if_splits)
  have k: "citation_key (answer_citation x) = citation_key x" for x
    by (simp add: citation_key_def answer_citation_def)
  define ks where "ks = map citation_key (ek_expected_citations c)"
  have "filter (\<lambda>k. k \<in> set ks) (remdups ks) = remdups ks" by (simp add: filter_id_conv)
  moreover have "map citation_key (gk_citations a) = ks" by (simp add: a ks_def k)
  ultimately show ?thesis by (simp add: citation_overlap_score_def Let_def flip: ks_def)
qed

definition cited_case :: eval_case where
  "cited_case = (sample_case ''rag-a-001'')\<lparr>ek_expected_citations :=
     [\<lparr>xk_resource_id = str ''pdf-1'', xk_chunk_id = None, xk_page = Some 2, xk_start_sec = None, xk_end_sec = None, xk_quote_hint = None\<rparr>]\<rparr>"

lemma mock_answer_fully_cited_witness:
  "\<exists>a. mock_answer cited_case = Inr a \<and> citation_overlap_score (ek_expected_citations cited_case) (gk_citations a) = 1"
proof -
  obtain a where "mock_answer cited_case = Inr a"
    by (simp add: mock_answer_def generated_answer_new_def cited_case_def sample_case_def)
  with mock_answer_fully_cited[OF this] show ?thesis by blast
qed

text \<open>
  The HTTP provider sends its key as \<open>X-Internal-API-Key\<close>, while the service reads \<open>X-Internal-Key\<close>: each of its
  requests to a guarded endpoint is refused as one without a key, before the endpoint sees it.
\<close>

lemma evaluation_requests_unauthorized:
  assumes "find_route (str ''POST'') path = Inr ep" "ep \<noteq> Health"
  shows "\<exists>e. serve bk va cx \<lparr>ht_method = str ''POST'', ht_path = path,
             ht_key = map_of (aq_headers (eval_answer_request endpoint key c)) (str ''X-Internal-Key''), ht_body = body\<rparr> s
           = (s, handle_failure cx (Thrown (api_error ''UNAUTHORIZED'' e 401)))"
proof -
  have "map_of (aq_headers (eval_answer_request endpoint key c)) (str ''X-Internal-Key'') = None"
    by (simp add: eval_answer_request_def str_inject del: str_simps)
  thus ?thesis using assms
    by (cases ep) (auto simp: serve_def check_internal_key_def check_agent_internal_key_def)
qed

text \<open>And the default of \<open>--answer-endpoint\<close> is no route of the service.\<close>

lemma default_answer_endpoint_unrouted: "find_route (str ''POST'') (str ''/ai/v1/chat'') = Inl 404"
  by code_simp

section \<open>The report\<close>

text \<open>A file system that keeps what is written.\<close>

definition memory_files :: "(pystr \<times> pystr) list report_files" where
  "memory_files = \<lparr>rf_mkdir = (\<lambda>_ s. (s, Inr ())), rf_write = (\<lambda>path content s. ((path, content) # s, Inr ()))\<rparr>"

definition unmarked :: "pystr \<Rightarrow> bool" where
  "unmarked content \<longleftrightarrow> (\<forall>m \<in> set SECRET_MARKERS. \<not> py_contains m (py_lower content))"

lemma assert_no_secret_markers_ok: "assert_no_secret_markers content = Inr () \<longleftrightarrow> unmarked content"
  by (auto simp: assert_no_secret_markers_def unmarked_def find_None_iff find_Some_iff split: option.splits)

lemma contains_append_newline:
  assumes "\<not> py_contains m s" "10 \<notin> set m"
  shows "\<not> py_contains m (s @ [10])"
proof
  assume "py_contains m (s @ [10])"
  then obtain a b where ab: "s @ [10] = a @ m @ b" by (auto simp: py_contains_iff)
  show False
  proof (cases b rule: rev_cases)
    case Nil
    with ab assms show False by (cases m rule: rev_cases) (auto simp: py_contains_iff)
  next
    case (snoc b' x)
    with ab have "s = a @ m @ b'" by simp
    with assms show False by (auto simp: py_contains_iff)
  qed
qed

lemma unmarked_newline: "unmarked content \<Longrightarrow> unmarked (content @ [10])"
  using contains_append_newline[of _ "py_lower content"]
  by (auto simp: unmarked_def py_lower_def lower_char_def SECRET_MARKERS_def)

lemma write_checked_unmarked:
  assumes "write_checked memory_files path content ending s = (s', q)" "ending = [] \<or> ending = [10]"
    "\<forall>f \<in> set s. unmarked (snd f)"
  shows "\<forall>f \<in> set s'. unmarked (snd f)"
proof (cases "assert_no_secret_markers content")
  case (Inr u)
  hence "unmarked content" by (simp flip: assert_no_secret_markers_ok)
  hence "unmarked (content @ ending)" using assms(2) by (auto simp: unmarked_newline)
  with assms Inr show ?thesis by (auto simp: write_checked_def memory_files_def)
qed (use assms in \<open>simp add: write_checked_def\<close>)

text \<open>
  No file of the report holds a marker of a secret in any capitalisation: what is written into an empty directory,
  by a complete or an interrupted write, is free of the four markers.
\<close>

theorem written_reports_unmarked:
  "write_report memory_files dump dir timestamp summary results [] = (written, r) \<Longrightarrow> \<forall>f \<in> set written. unmarked (snd f)"
proof -
  assume w: "write_report memory_files dump dir timestamp summary results [] = (written, r)"
  define base where "base = dir @ str ''/eval_report_'' @ timestamp"
  obtain s2 q2 where w2: "write_checked memory_files (base @ str ''.json'') (dump summary results) [10] [] = (s2, q2)"
    by (meson surj_pair)
  obtain s3 q3 where w3: "write_checked memory_files (base @ str ''.md'') (render_markdown summary results) [] s2 = (s3, q3)"
    by (meson surj_pair)
  have "rf_mkdir memory_files dir [] = ([], Inr ())" by (simp add: memory_files_def)
  with w w2 w3 have "written = s2 \<or> written = s3"
    by (cases q2; cases q3) (auto simp: write_report_def Let_def base_def simp del: str_simps)
  moreover have "\<forall>f \<in> set s2. unmarked (snd f)" by (rule write_checked_unmarked[OF w2]) simp_all
  moreover from this have "\<forall>f \<in> set s3. unmarked (snd f)" by (intro write_checked_unmarked[OF w3]) simp_all
  ultimately show ?thesis by blast
qed

lemma written_reports_unmarked_witness:
  "\<forall>f \<in> set (fst (write_report memory_files (\<lambda>_ _. str ''{}'') (str ''reports'') (str ''20260101T000000Z'')
       (calculate_summary []) [] [])). unmarked (snd f)"
  by (rule written_reports_unmarked) (rule prod.collapse[symmetric])

text \<open>
  The check looks for the bare words. A question about a token or a password is no secret, yet the whole report of a
  finished run is lost to it.
\<close>

lemma harmless_question_loses_report:
  "write_report files (\<lambda>summary results. str ''{'' @ concat (map (ek_question \<circ> er_case) results) @ rest) dir timestamp summary
       (r\<lparr>er_case := (er_case r)\<lparr>ek_question := str ''What is a token?''\<rparr>\<rparr> # rs) s
     = (case rf_mkdir files dir s of (s', Inl e) \<Rightarrow> (s', Inl e) | (s', Inr _) \<Rightarrow>
         (s', Inl (PyException ''ValueError'' (str ''report contains sensitive marker: token''))))"
  if "\<not> py_contains (str ''api_key'') (py_lower (str ''{What is a token?'' @ concat (map (ek_question \<circ> er_case) rs) @ rest))"
     "\<not> py_contains (str ''secret'') (py_lower (str ''{What is a token?'' @ concat (map (ek_question \<circ> er_case) rs) @ rest))"
proof -
  have "py_contains (str ''token'') (py_lower (str ''{What is a token?'' @ t))" for t
    unfolding py_lower_append py_contains_iff
    by (rule exI[of _ "str ''{what is a ''"], rule exI[of _ "str ''?'' @ py_lower t"]) code_simp
  thus ?thesis using that
    by (auto simp: write_report_def write_checked_def Let_def assert_no_secret_markers_def SECRET_MARKERS_def
        split: sum.splits prod.splits)
qed

end
