(* ===== verification/App.thy ===== *)
theory App
  imports Api_Props Observability_Props Pdf
begin

text \<open>
  The application around the endpoints: the configuration Flask takes from the settings, the hooks that run before and
  after each request (\<open>middleware\<close>, \<open>init_tracing\<close>, \<open>init_metrics\<close>), the log line, the routing of the Celery tasks to
  queues and the PaddleOCR engine behind the OCR service. Random ids, the clock and PaddleOCR are parameters.
\<close>

section \<open>Configuration\<close>

text \<open>
  \<open>config.from_object(settings)\<close> takes the attributes whose name is upper-case (\<open>str.isupper\<close>, here for names of ASCII
  letters, digits and underscores). The fields and properties of \<open>Settings\<close>:
\<close>

definition settings_names :: "pystr list" where
  "settings_names =
     [str ''app_name'', str ''debug'', str ''env'', str ''port'', str ''redis_url'', str ''celery_broker_url'',
      str ''celery_result_backend'', str ''internal_api_key'', str ''log_level'', str ''ai_config_path'', str ''minio_access_key'',
      str ''minio_secret_key'', str ''minio_bucket'', str ''minio_endpoint'', str ''minio_use_ssl'', str ''minio_region'',
      str ''zhipu_api_key'', str ''tracing_enabled'', str ''tracing_exporter'', str ''tracing_endpoint'', str ''tracing_sample_ratio'',
      str ''tracing_service_name'', str ''metrics_enabled'', str ''metrics_path'', str ''metrics_namespace'',
      str ''resilience_upload_timeout_seconds'', str ''resilience_retrieval_timeout_seconds'', str ''resilience_llm_timeout_seconds'',
      str ''resilience_max_retries'', str ''resilience_retry_backoff_ms'', str ''ai_config'', str ''rag_engine_config'',
      str ''rag_engine'', str ''is_dev'']"

definition is_upper :: "pystr \<Rightarrow> bool" where
  "is_upper s \<longleftrightarrow> list_ex (\<lambda>c. 65 \<le> c \<and> c \<le> 90) s \<and> \<not> list_ex (\<lambda>c. 97 \<le> c \<and> c \<le> 122) s"

definition from_object :: "pydict \<Rightarrow> pydict" where
  "from_object attributes = filter (\<lambda>(k, _). is_upper k) attributes"

definition set_metrics_defaults :: "pydict \<Rightarrow> pydict" where
  "set_metrics_defaults cfg =
     dict_setdefault (str ''METRICS_NAMESPACE'') (PStr (str ''mkc''))
       (dict_setdefault (str ''METRICS_PATH'') (PStr (str ''/metrics'')) (dict_setdefault (str ''METRICS_ENABLED'') (PBool True) cfg))"

section \<open>A request\<close>

record app_request =
  ar_http :: http_request
  ar_traceparent :: "pystr option"
  ar_request_id :: "pystr option"

text \<open>What the outside gives to one request: \<open>token_hex(16)\<close>, \<open>uuid4()\<close>, the time stamp and the elapsed time.\<close>

record fresh =
  fr_hex :: pystr
  fr_uuid :: pystr
  fr_timestamp :: pystr
  fr_duration :: pyfloat
  fr_repr :: "json \<Rightarrow> pystr"

datatype app_body = Served http_response | MetricsPage metrics

record app_response =
  ap_body :: app_body
  ap_trace_id :: pystr
  ap_request_id :: pystr
  ap_span :: span

record 's app_state =
  as_world :: 's
  as_metrics :: metrics

fun response_status :: "app_body \<Rightarrow> int" where
  "response_status (Served (JsonResponse status _)) = status"
| "response_status (Served (EventStream _ _)) = 200"
| "response_status (MetricsPage _) = 200"

text \<open>\<open>request.url_rule.rule\<close>, or the path of a request that matched no rule.\<close>

fun endpoint_rule :: "endpoint \<Rightarrow> pystr" where
  "endpoint_rule (Summarize _) = str ''/ai/v1/resources/<resource_id>/summarize''"
| "endpoint_rule (ExtractTags _) = str ''/ai/v1/resources/<resource_id>/extract-tags''"
| "endpoint_rule ep = (case find (\<lambda>(_, _, e). e = ep) literal_routes of Some (_, path, _) \<Rightarrow> path | None \<Rightarrow> [])"

definition path_label :: "http_request \<Rightarrow> pystr" where
  "path_label req = (case find_route (ht_method req) (ht_path req) of Inr ep \<Rightarrow> endpoint_rule ep | Inl _ \<Rightarrow> ht_path req)"

text \<open>\<open>start_request_trace\<close> and \<open>finish_request_trace\<close>: the first two attributes are set without the check.\<close>

definition start_request_span :: "http_request \<Rightarrow> span" where
  "start_request_span req = (new_span (ht_method req @ str '' '' @ ht_path req))\<lparr>sp_attributes :=
     [(str ''http.request.method'', PStr (ht_method req)), (str ''url.path'', PStr (ht_path req))]\<rparr>"

definition finish_request_span :: "(pystr \<Rightarrow> pystr) \<Rightarrow> int \<Rightarrow> span \<Rightarrow> span" where
  "finish_request_span upper status sp =
     (let sp' = set_attribute (str ''http.response.status_code'') (PInt status) sp
      in (if 500 \<le> status then mark_error upper (str_of_int status) sp' else sp')\<lparr>sp_ended := True\<rparr>)"

definition request_id :: "pystr option \<Rightarrow> pystr \<Rightarrow> pystr" where
  "request_id header uuid = (case header of Some r \<Rightarrow> r | None \<Rightarrow> uuid)"

definition METRICS_PATH :: pystr where
  "METRICS_PATH = str ''/metrics''"

text \<open>The view of \<open>/metrics\<close>, or the blueprints behind the guard.\<close>

definition dispatch :: "'s backend \<Rightarrow> validators \<Rightarrow> request_context \<Rightarrow> http_request \<Rightarrow> 's app_state \<Rightarrow> 's \<times> app_body" where
  "dispatch bk va cx req st =
     (if ht_path req = METRICS_PATH
      then (as_world st, if ht_method req = str ''GET'' then MetricsPage (as_metrics st) else Served (handle_failure cx (HttpError 405)))
      else (case serve bk va cx req (as_world st) of (w, r) \<Rightarrow> (w, Served r)))"

definition record_metrics :: "http_request \<Rightarrow> int \<Rightarrow> pyfloat \<Rightarrow> metrics \<Rightarrow> metrics" where
  "record_metrics req status duration m =
     (if ht_path req = METRICS_PATH then m else record_http (ht_method req) (path_label req) status duration m)"

text \<open>The hooks before the request, the request itself and the hooks after it, in the reverse order.\<close>

definition handle_request ::
  "'s backend \<Rightarrow> validators \<Rightarrow> (pystr \<Rightarrow> pystr) \<Rightarrow> app_request \<Rightarrow> fresh \<Rightarrow> 's app_state \<Rightarrow> 's app_state \<times> app_response" where
  "handle_request bk va upper req fr st =
     (let trace = request_trace_id (ar_traceparent req) (fr_hex fr);
          sp = start_request_span (ar_http req);
          rid = request_id (ar_request_id req) (fr_uuid fr);
          cx = \<lparr>cx_trace_id = trace, cx_timestamp = fr_timestamp fr, cx_repr = fr_repr fr\<rparr>
      in case dispatch bk va cx (ar_http req) st of
           (w, body) \<Rightarrow>
             let status = response_status body
             in (\<lparr>as_world = w, as_metrics = record_metrics (ar_http req) status (fr_duration fr) (as_metrics st)\<rparr>,
                 \<lparr>ap_body = body, ap_trace_id = trace, ap_request_id = rid, ap_span = finish_request_span upper status sp\<rparr>))"

fun handle_requests ::
  "'s backend \<Rightarrow> validators \<Rightarrow> (pystr \<Rightarrow> pystr) \<Rightarrow> (app_request \<times> fresh) list \<Rightarrow> 's app_state \<Rightarrow> 's app_state \<times> app_response list" where
  "handle_requests bk va upper [] st = (st, [])"
| "handle_requests bk va upper ((req, fr) # reqs) st = (case handle_request bk va upper req fr st of
     (st1, r) \<Rightarrow> (case handle_requests bk va upper reqs st1 of (st2, rs) \<Rightarrow> (st2, r # rs)))"

text \<open>The log line of a request; nothing of it is escaped.\<close>

definition log_line :: "pystr \<Rightarrow> pystr \<Rightarrow> pystr option \<Rightarrow> pystr option \<Rightarrow> pystr \<Rightarrow> pystr \<Rightarrow> pystr" where
  "log_line timestamp level rid trace name message =
     str ''{\"timestamp\":\"'' @ timestamp @ str ''\",\"level\":\"'' @ level
       @ str ''\",\"request_id\":\"'' @ (case rid of Some r \<Rightarrow> r | None \<Rightarrow> []) @ str ''\",\"trace_id\":\"''
       @ (case trace of Some t \<Rightarrow> t | None \<Rightarrow> []) @ str ''\",\"logger\":\"'' @ name @ str ''\",\"message\":\"'' @ message @ str ''\"}''"

section \<open>Celery routes\<close>

definition task_routes :: "(pystr \<times> pystr) list" where
  "task_routes =
     [(str ''app.tasks.transcribe.'', str ''transcribe''), (str ''app.tasks.parse_pdf.'', str ''parse_pdf''),
      (str ''app.tasks.embed.'', str ''embed''), (str ''app.tasks.rag.'', str ''rag''),
      (str ''celery_workers.tasks.asr_task.'', str ''transcribe''), (str ''celery_workers.tasks.pdf_parse_task.'', str ''parse_pdf''),
      (str ''celery_workers.tasks.summarize_task.'', str ''rag''), (str ''celery_workers.tasks.extract_tags_task.'', str ''rag''),
      (str ''celery_workers.tasks.index_vectors_task.'', str ''embed'')]"

text \<open>Each pattern ends in a star and the first that matches wins; without a route a task goes to Celery's own default.\<close>

definition queue_of :: "pystr \<Rightarrow> pystr" where
  "queue_of task = (case find (\<lambda>(p, _). prefix p task) task_routes of Some (_, q) \<Rightarrow> q | None \<Rightarrow> str ''celery'')"

section \<open>PaddleOCR\<close>

text \<open>
  A page of PaddleOCR's result, by what the engine checks of it: a line of two parts, whose second part is a pair, or
  something else. The first part is a polygon, a list of points.
\<close>

datatype prediction = Pair pyval pyval | NoPair
datatype ocr_line = Line "pyfloat list list" prediction | NoLine

fun confidence_of :: "pyval \<Rightarrow> exn + pyfloat" where
  "confidence_of (PFloat x) = Inr x"
| "confidence_of (PInt n) = Inr (of_int n)"
| "confidence_of (PBool b) = Inr (if b then 1 else 0)"
| "confidence_of (PStr s) = (case py_float_of_str s of Some x \<Rightarrow> Inr x | None \<Rightarrow> Inl (value_error (str ''could not convert string to float'')))"
| "confidence_of _ = Inl (type_error (str ''float() argument''))"

definition coordinates :: "nat \<Rightarrow> pyfloat list list \<Rightarrow> exn + pyfloat list" where
  "coordinates i bbox = smap (\<lambda>point. if i < length point then Inr (point ! i)
     else Inl (PyException ''IndexError'' (str ''list index out of range''))) bbox"

definition smallest :: "pyfloat list \<Rightarrow> exn + pyfloat" where
  "smallest xs = (if xs = [] then Inl (value_error (str ''min() arg is an empty sequence'')) else Inr (Min (set xs)))"

definition greatest :: "pyfloat list \<Rightarrow> exn + pyfloat" where
  "greatest xs = (if xs = [] then Inl (value_error (str ''max() arg is an empty sequence'')) else Inr (Max (set xs)))"

definition line_block :: "ocr_line \<Rightarrow> exn + pdf_block option" where
  "line_block l = (case l of
     Line bbox (Pair (PStr s) score) \<Rightarrow>
       sbind (coordinates 0 bbox) (\<lambda>xs. sbind (coordinates 1 bbox) (\<lambda>ys.
       sbind (smallest xs) (\<lambda>x. sbind (smallest ys) (\<lambda>y. sbind (greatest xs) (\<lambda>right. sbind (greatest ys) (\<lambda>bottom.
       sbind (confidence_of score) (\<lambda>confidence.
         Inr (Some \<lparr>bl_x = x, bl_y = y, bl_width = right - x, bl_height = bottom - y, bl_text = s, bl_confidence = Some confidence\<rparr>))))))))
   | _ \<Rightarrow> Inr None)"

text \<open>\<open>recognize\<close>: the result of the library is an exception, nothing, or the lines of its first page.\<close>

definition paddle_recognize :: "exn + ocr_line list option \<Rightarrow> exn + pdf_block list" where
  "paddle_recognize result = (case result of
     Inl e \<Rightarrow> Inl (raise_msg OcrPageFailedError ((str ''OCR '' @ [0x8BC6, 0x522B,
       0x5931, 0x8D25] @ str '': '') @ exn_text e))
   | Inr None \<Rightarrow> Inr []
   | Inr (Some ls) \<Rightarrow> sbind (smap line_block ls) (\<lambda>bs. Inr (List.map_filter id bs)))"

end
