(* ===== verification/App_Props.thy ===== *)
theory App_Props
  imports App
begin

text \<open>
  The application as a whole: every response can be traced, the counters agree with the responses over any run of
  requests, requests without the key leave no trace in the services, and the OCR blocks enclose their polygons.
\<close>

section \<open>Trace ids\<close>

fun body_trace :: "http_response \<Rightarrow> json option" where
  "body_trace (JsonResponse _ (JObj d)) = map_of d (str ''trace_id'')"
| "body_trace _ = None"

lemma make_response_trace:
  "cx_trace_id cx \<noteq> [] \<Longrightarrow> body_trace (make_response cx data success error meta status) = Some (JStr (cx_trace_id cx))"
  by (simp add: make_response_def str_inject del: str_simps)

lemma failure_trace: "cx_trace_id cx \<noteq> [] \<Longrightarrow> body_trace (handle_failure cx f) = Some (JStr (cx_trace_id cx))"
  by (simp add: handle_failure_def error_response_def make_response_trace split: failure.split exn.split del: str_simps)

lemma render_trace:
  "cx_trace_id cx \<noteq> [] \<Longrightarrow> (\<exists>events stop. render cx r = EventStream events stop) \<or> body_trace (render cx r) = Some (JStr (cx_trace_id cx))"
  by (cases "(cx, r)" rule: render.cases) (auto simp: ok_response_def make_response_trace failure_trace simp del: str_simps)

lemma serve_trace:
  assumes "cx_trace_id cx \<noteq> []"
  shows "(\<exists>events stop. snd (serve bk va cx req s) = EventStream events stop)
       \<or> body_trace (snd (serve bk va cx req s)) = Some (JStr (cx_trace_id cx))"
  using assms by (auto simp: serve_def failure_trace render_trace split: sum.split prod.split)

lemma dispatch_trace:
  "cx_trace_id cx \<noteq> [] \<Longrightarrow> dispatch bk va cx req st = (w, Served (JsonResponse status b))
     \<Longrightarrow> body_trace (JsonResponse status b) = Some (JStr (cx_trace_id cx))"
  using serve_trace[of cx bk va req "as_world st"] failure_trace[of cx "HttpError 405"]
  by (auto simp: dispatch_def split: if_splits prod.splits)

text \<open>C33: Every request can be followed: its response names a trace id of 32 hexadecimal digits, the caller's if the
  \<open>traceparent\<close> header is well formed, and the body of every JSON response, also of an error, names the same one.
\<close>

theorem responses_traceable:
  assumes "length (fr_hex fr) = 32" "list_all hex_char (fr_hex fr)" "handle_request bk va upper req fr st = (st', r)"
  shows "length (ap_trace_id r) = 32 \<and> list_all hex_char (ap_trace_id r)
       \<and> (\<forall>t. extract_trace_id (ar_traceparent req) = Some t \<longrightarrow> ap_trace_id r = t)
       \<and> (\<forall>status b. ap_body r = Served (JsonResponse status b) \<longrightarrow> body_trace (JsonResponse status b) = Some (JStr (ap_trace_id r)))"
proof -
  define trace where "trace = request_trace_id (ar_traceparent req) (fr_hex fr)"
  have t: "length trace = 32" "list_all hex_char trace" using trace_id_format[OF assms(1,2)] by (simp_all add: trace_def)
  hence ne: "trace \<noteq> []" by auto
  define cx where "cx = \<lparr>cx_trace_id = trace, cx_timestamp = fr_timestamp fr, cx_repr = fr_repr fr\<rparr>"
  obtain w body where d: "dispatch bk va cx (ar_http req) st = (w, body)" by (meson surj_pair)
  from assms(3) d have r: "ap_trace_id r = trace" "ap_body r = body"
    by (auto simp: handle_request_def Let_def cx_def trace_def)
  have "body_trace (JsonResponse status b) = Some (JStr trace)" if "body = Served (JsonResponse status b)" for status b
    using dispatch_trace[of cx bk va "ar_http req" st w status b] d that ne by (simp add: cx_def)
  with t r show ?thesis by (simp add: trace_def request_trace_id_def)
qed

definition demo_fresh :: fresh where
  "demo_fresh = \<lparr>fr_hex = replicate 32 48, fr_uuid = str ''u'', fr_timestamp = str ''now'', fr_duration = 1 / 4, fr_repr = (\<lambda>_. [])\<rparr>"

definition demo_unknown :: app_request where
  "demo_unknown = \<lparr>ar_http = demo_call ''GET'' ''/nowhere'' None, ar_traceparent = None, ar_request_id = Some (str ''r-1'')\<rparr>"

definition idle :: "nat app_state" where
  "idle = \<lparr>as_world = 0, as_metrics = empty_metrics\<rparr>"

lemma responses_traceable_witness:
  "length (ap_trace_id (snd (handle_request demo_backend demo_validators id demo_unknown demo_fresh idle))) = 32"
proof -
  obtain st' r where h: "handle_request demo_backend demo_validators id demo_unknown demo_fresh idle = (st', r)" by (meson surj_pair)
  have "length (fr_hex demo_fresh) = 32" "list_all hex_char (fr_hex demo_fresh)"
    by (simp_all add: demo_fresh_def hex_char_def list_all_iff)
  from responses_traceable[OF this h] h show ?thesis by simp
qed

section \<open>Requests without the key\<close>

text \<open>What is public: the page of the metrics and the health check.\<close>

definition public_request :: "http_request \<Rightarrow> bool" where
  "public_request req \<longleftrightarrow> ht_path req = METRICS_PATH \<or> find_route (ht_method req) (ht_path req) = Inr Health"

lemma serve_keyless:
  assumes "bk_key bk = [] \<or> ht_key req \<noteq> Some (bk_key bk)" "find_route (ht_method req) (ht_path req) \<noteq> Inr Health"
  shows "\<exists>resp status code m. serve bk va cx req s = (s, resp) \<and> tells resp cx status code m
    \<and> (case find_route (ht_method req) (ht_path req) of
          Inl n \<Rightarrow> status = (if n = 404 then 404 else 500)
        | Inr ep \<Rightarrow> status \<in> {401, 403} \<or> status = 500 \<and> \<not> ascii (the (ht_key req) @ bk_key bk))"
proof (cases "find_route (ht_method req) (ht_path req)")
  case (Inl n)
  have "tells (handle_failure cx (HttpError n)) cx (if n = 404 then 404 else 500) (failure_code (HttpError n))
      (sanitize_message (failure_text (HttpError n)))" using handled[of cx "HttpError n"] by (simp only: failure_status.simps)
  moreover have "serve bk va cx req s = (s, handle_failure cx (HttpError n))" using Inl by (simp add: serve_def)
  ultimately show ?thesis unfolding Inl sum.case by blast
next
  case (Inr ep)
  with guarded_endpoint_rejects[OF assms(1) Inr] assms(2) show ?thesis by simp
qed

text \<open>C28: Nothing happens without the key. A request to the application that does not carry the configured internal key
  changes nothing in the services, and unless it is for the metrics page or the health check, which are public, it is
  answered with an error that names its trace id: 401 or 403, or 500 when one of the keys is not ASCII, for the path
  and method of an endpoint, and 404 or 500 for any other. Without a configured key nobody gets in.
\<close>

theorem wrong_key_stopped:
  assumes "bk_key bk = [] \<or> ht_key (ar_http req) \<noteq> Some (bk_key bk)"
    and "handle_request bk va upper req fr st = (st', r)"
  shows "as_world st' = as_world st \<and> (public_request (ar_http req)
    \<or> (\<exists>resp cx status code m. ap_body r = Served resp \<and> cx_trace_id cx = ap_trace_id r \<and> tells resp cx status code m
        \<and> (case find_route (ht_method (ar_http req)) (ht_path (ar_http req)) of
              Inl n \<Rightarrow> status = (if n = 404 then 404 else 500)
            | Inr ep \<Rightarrow> status \<in> {401, 403} \<or> status = 500 \<and> \<not> ascii (the (ht_key (ar_http req)) @ bk_key bk))))"
proof -
  let ?req = "ar_http req" and ?trace = "request_trace_id (ar_traceparent req) (fr_hex fr)"
  define cx where "cx = \<lparr>cx_trace_id = ?trace, cx_timestamp = fr_timestamp fr, cx_repr = fr_repr fr\<rparr>"
  obtain w body where d: "dispatch bk va cx ?req st = (w, body)" by (meson surj_pair)
  with assms(2) have r: "ap_body r = body" "ap_trace_id r = cx_trace_id cx" "as_world st' = w"
    by (auto simp: handle_request_def Let_def cx_def)
  show ?thesis
  proof (cases "public_request ?req")
    case True
    with d have "w = as_world st"
      by (auto simp: public_request_def dispatch_def serve_def split: if_splits prod.splits)
    with True r show ?thesis by simp
  next
    case False
    then have p: "ht_path ?req \<noteq> METRICS_PATH" "find_route (ht_method ?req) (ht_path ?req) \<noteq> Inr Health"
      by (auto simp: public_request_def)
    from serve_keyless[OF assms(1) p(2), of va cx "as_world st"] obtain resp status code m where
      v: "serve bk va cx ?req (as_world st) = (as_world st, resp)" "tells resp cx status code m"
        "case find_route (ht_method ?req) (ht_path ?req) of Inl n \<Rightarrow> status = (if n = 404 then 404 else 500)
          | Inr ep \<Rightarrow> status \<in> {401, 403} \<or> status = 500 \<and> \<not> ascii (the (ht_key ?req) @ bk_key bk)" by blast
    from d p(1) v(1) have "w = as_world st" "body = Served resp" by (auto simp: dispatch_def)
    with r have "ap_body r = Served resp" "cx_trace_id cx = ap_trace_id r" "as_world st' = as_world st" by simp_all
    with v(2,3) show ?thesis by blast
  qed
qed

lemma wrong_key_stopped_witness:
  "as_world (fst (handle_request demo_backend demo_validators id
       \<lparr>ar_http = demo_call ''POST'' ''/ai/v1/vectors/delete'' (Some (str ''j'')), ar_traceparent = None, ar_request_id = None\<rparr>
       demo_fresh idle)) = 0
   \<and> (\<exists>resp cx status code m. ap_body (snd (handle_request demo_backend demo_validators id
       \<lparr>ar_http = demo_call ''POST'' ''/ai/v1/vectors/delete'' (Some (str ''j'')), ar_traceparent = None, ar_request_id = None\<rparr>
       demo_fresh idle)) = Served resp \<and> tells resp cx status code m \<and> status \<in> {401, 403})"
proof -
  let ?http = "demo_call ''POST'' ''/ai/v1/vectors/delete'' (Some (str ''j''))"
  let ?q = "\<lparr>ar_http = ?http, ar_traceparent = None, ar_request_id = None\<rparr> :: app_request"
  obtain st' r where h: "handle_request demo_backend demo_validators id ?q demo_fresh idle = (st', r)" by (meson surj_pair)
  have k: "bk_key demo_backend = [] \<or> ht_key (ar_http ?q) \<noteq> Some (bk_key demo_backend)" by code_simp
  have f: "find_route (ht_method (ar_http ?q)) (ht_path (ar_http ?q)) = Inr VectorsDelete" by code_simp
  have p: "\<not> public_request (ar_http ?q)" by code_simp
  have a: "ascii (the (ht_key (ar_http ?q)) @ bk_key demo_backend)" by code_simp
  have s: "as_world idle = 0" by (simp add: idle_def)
  from wrong_key_stopped[OF k h] p a show ?thesis unfolding f h fst_conv snd_conv s sum.case by blast
qed

section \<open>Counters\<close>

text \<open>What the counters should have seen of a run: the requests but those for the metrics, with the responses' statuses.\<close>

definition observation :: "app_request \<times> fresh \<Rightarrow> app_response \<Rightarrow> (pystr \<times> pystr \<times> int \<times> pyfloat) list" where
  "observation q r = (case q of (req, fr) \<Rightarrow>
     if ht_path (ar_http req) = METRICS_PATH then []
     else [(ht_method (ar_http req), path_label (ar_http req), response_status (ap_body r), fr_duration fr)])"

lemma handle_request_counted:
  assumes "handle_request bk va upper req fr st = (st', r)" "counted seen (as_metrics st)"
  shows "counted (seen @ observation (req, fr) r) (as_metrics st')"
proof -
  obtain w body where "dispatch bk va \<lparr>cx_trace_id = request_trace_id (ar_traceparent req) (fr_hex fr),
      cx_timestamp = fr_timestamp fr, cx_repr = fr_repr fr\<rparr> (ar_http req) st = (w, body)" by (meson surj_pair)
  with assms show ?thesis
    by (auto simp: handle_request_def Let_def observation_def record_metrics_def record_http_counted)
qed

lemma handle_requests_counted:
  "handle_requests bk va upper qs st = (st', rs) \<Longrightarrow> counted seen (as_metrics st)
     \<Longrightarrow> length rs = length qs \<and> counted (seen @ concat (map2 observation qs rs)) (as_metrics st')"
proof (induction qs arbitrary: st rs seen)
  case (Cons q qs)
  obtain req fr where q: "q = (req, fr)" by (meson surj_pair)
  obtain st1 r where h: "handle_request bk va upper req fr st = (st1, r)" by (meson surj_pair)
  obtain rs' where hs: "handle_requests bk va upper qs st1 = (st', rs')" and rs: "rs = r # rs'"
    using Cons.prems(1) q h by (auto split: prod.splits)
  from Cons.IH[OF hs handle_request_counted[OF h Cons.prems(2)]] rs q show ?case by simp
qed simp

text \<open>C34: The counters tell the truth about any run of requests: for each method, route and status they hold the number of
  the responses with that status, the error counter is the request counter for statuses from 500 on and zero below, and
  there is one latency per response; requests for the metrics themselves are not counted, and each request has one response.
\<close>

theorem counters_match_responses:
  assumes "handle_requests bk va upper qs \<lparr>as_world = s, as_metrics = empty_metrics\<rparr> = (st', rs)"
  shows "length rs = length qs \<and> counted (concat (map2 observation qs rs)) (as_metrics st')"
proof -
  have "counted [] empty_metrics" by (simp add: counted_def empty_metrics_def)
  with handle_requests_counted[OF assms, of "[]"] show ?thesis by simp
qed

lemma counters_match_responses_witness:
  "\<exists>st' rs. handle_requests demo_backend demo_validators id [(demo_unknown, demo_fresh)] idle = (st', rs)
     \<and> length rs = 1 \<and> counted (concat (map2 observation [(demo_unknown, demo_fresh)] rs)) (as_metrics st')"
proof -
  obtain st' rs where "handle_requests demo_backend demo_validators id [(demo_unknown, demo_fresh)] idle = (st', rs)" by (meson surj_pair)
  with counters_match_responses[of demo_backend demo_validators id "[(demo_unknown, demo_fresh)]" 0 st' rs]
  show ?thesis by (auto simp: idle_def)
qed

text \<open>The label of a request without a route is its raw path, so a caller can create as many series as there are paths.\<close>

lemma unknown_path_is_label: "find_route (ht_method req) (ht_path req) = Inl code \<Longrightarrow> path_label req = ht_path req"
  by (simp add: path_label_def)

section \<open>Settings that have no effect\<close>

text \<open>
  No name of the settings is upper-case, so none reaches the configuration: the metrics cannot be switched off, renamed
  or moved by \<open>METRICS_ENABLED\<close>, \<open>METRICS_NAMESPACE\<close> and \<open>METRICS_PATH\<close>.
\<close>

lemma settings_not_upper: "list_all (\<lambda>k. \<not> is_upper k) settings_names"
  by code_simp

lemma metrics_settings_ignored:
  assumes "fst ` set attributes \<subseteq> set settings_names"
  shows "set_metrics_defaults (from_object attributes)
       = [(str ''METRICS_ENABLED'', PBool True), (str ''METRICS_PATH'', PStr (str ''/metrics'')), (str ''METRICS_NAMESPACE'', PStr (str ''mkc''))]"
proof -
  have "from_object attributes = []"
    using assms settings_not_upper by (fastforce simp: from_object_def filter_empty_conv list_all_iff)
  thus ?thesis by (simp add: set_metrics_defaults_def dict_setdefault_def str_inject del: str_simps)
qed

section \<open>The request span and the log\<close>

text \<open>
  The attributes of the request's own span are set without the check of \<open>set_attribute\<close>: a path that names a token is
  kept in a span that would refuse it.
\<close>

lemma request_span_keeps_marked_path:
  "sp_attributes (finish_request_span upper 200 (start_request_span (demo_call ''GET'' ''/reset/token'' None)))
     = [(str ''http.request.method'', PStr (str ''GET'')), (str ''url.path'', PStr (str ''/reset/token'')),
        (str ''http.response.status_code'', PInt 200)]
   \<and> \<not> is_safe_attribute (str ''url.path'') (PStr (str ''/reset/token''))"
  by code_simp

text \<open>
  The log line is written as JSON but its values are not escaped: with a request id of its choice a caller forges the
  fields that follow.
\<close>

lemma request_id_forges_log:
  "log_line t l (Some (r @ str ''\",\"trace_id\":\"'' @ i @ str ''\",\"logger\":\"'' @ n @ str ''\",\"message\":\"'' @ m)) (Some i') n' m'
     = log_line t l (Some r) (Some i) n (m @ str ''\",\"trace_id\":\"'' @ i' @ str ''\",\"logger\":\"'' @ n' @ str ''\",\"message\":\"'' @ m')"
  by (simp add: log_line_def)

section \<open>Queues\<close>

text \<open>The tasks the service queues all go to a queue the worker listens to (\<open>-Q\<close> in the deployment).\<close>

definition worker_queues :: "pystr list" where
  "worker_queues = [str ''default'', str ''transcribe'', str ''parse_pdf'', str ''embed'', str ''rag'']"

lemma service_tasks_consumed:
  "list_all (\<lambda>task. queue_of task \<in> set worker_queues)
     [str ''celery_workers.tasks.asr_task.run_asr'', str ''celery_workers.tasks.pdf_parse_task.run_pdf_parse'',
      str ''celery_workers.tasks.summarize_task.run_summarize'', str ''celery_workers.tasks.extract_tags_task.run_extract_tags'',
      str ''celery_workers.tasks.index_vectors_task.index_resource_vectors'']"
  by code_simp

text \<open>A task without a route goes to \<open>celery\<close>, the default of the library, while the worker listens to \<open>default\<close>.\<close>

lemma sample_task_never_consumed: "queue_of (str ''app.tasks.sample.hello'') \<notin> set worker_queues"
  by code_simp

section \<open>OCR\<close>

definition encloses :: "pdf_block \<Rightarrow> pyfloat list list \<Rightarrow> bool" where
  "encloses b bbox \<longleftrightarrow> (\<forall>p \<in> set bbox. bl_x b \<le> p ! 0 \<and> p ! 0 \<le> bl_x b + bl_width b
     \<and> bl_y b \<le> p ! 1 \<and> p ! 1 \<le> bl_y b + bl_height b)"

lemma coordinates_Inr: "coordinates i bbox = Inr xs \<Longrightarrow> xs = map (\<lambda>p. p ! i) bbox"
  by (induction bbox arbitrary: xs) (auto simp: coordinates_def sbind_Inr_iff split: if_splits)

lemma line_block_encloses:
  assumes "line_block l = Inr (Some b)"
  obtains bbox score where "l = Line bbox (Pair (PStr (bl_text b)) score)" "bbox \<noteq> []" "encloses b bbox"
proof -
  obtain bbox s score where l: "l = Line bbox (Pair (PStr s) score)"
    using assms by (auto simp: line_block_def split: ocr_line.splits prediction.splits pyval.splits)
  from assms[unfolded l] obtain xs ys where xs: "coordinates 0 bbox = Inr xs" "coordinates 1 bbox = Inr ys" "xs \<noteq> []" "ys \<noteq> []"
    and b: "bl_x b = Min (set xs)" "bl_y b = Min (set ys)" "bl_width b = Max (set xs) - Min (set xs)"
      "bl_height b = Max (set ys) - Min (set ys)" "bl_text b = s"
    by (auto simp: line_block_def smallest_def greatest_def sbind_Inr_iff split: if_splits)
  note c = coordinates_Inr[OF xs(1)] coordinates_Inr[OF xs(2)]
  have "encloses b bbox" unfolding encloses_def
  proof
    fix p assume "p \<in> set bbox"
    hence "p ! 0 \<in> set xs" "p ! 1 \<in> set ys" by (auto simp: c)
    thus "bl_x b \<le> p ! 0 \<and> p ! 0 \<le> bl_x b + bl_width b \<and> bl_y b \<le> p ! 1 \<and> p ! 1 \<le> bl_y b + bl_height b"
      by (simp add: b)
  qed
  with that l b(5) xs(3) c(1) show ?thesis by auto
qed

text \<open>C35: Each block the OCR engine returns is the text of a line of the result with the box around its polygon: every
  corner lies in the box, and the box has no negative width or height.
\<close>

theorem ocr_blocks_enclose:
  assumes "paddle_recognize (Inr (Some ls)) = Inr blocks" "b \<in> set blocks"
  shows "\<exists>bbox score. Line bbox (Pair (PStr (bl_text b)) score) \<in> set ls \<and> encloses b bbox \<and> 0 \<le> bl_width b \<and> 0 \<le> bl_height b"
proof -
  from assms obtain bs where bs: "smap line_block ls = Inr bs" "Some b \<in> set bs"
    by (auto simp: paddle_recognize_def sbind_Inr_iff List.map_filter_def)
  then obtain l where l: "l \<in> set ls" "line_block l = Inr (Some b)" using smap_Inr_in by metis
  from line_block_encloses[OF l(2)] obtain bbox score where e: "l = Line bbox (Pair (PStr (bl_text b)) score)"
    "bbox \<noteq> []" "encloses b bbox" .
  from e(2) obtain p where "p \<in> set bbox" by (cases bbox) auto
  with e(3) have "0 \<le> bl_width b \<and> 0 \<le> bl_height b" by (fastforce simp: encloses_def)
  with e l show ?thesis by blast
qed

definition sample_lines :: "ocr_line list" where
  "sample_lines = [Line [[1, 2], [5, 1], [4, 7]] (Pair (PStr (str ''Hi'')) (PFloat (9 / 10))), NoLine, Line [] NoPair]"

definition sample_block :: pdf_block where
  "sample_block = \<lparr>bl_x = 1, bl_y = 1, bl_width = 4, bl_height = 6, bl_text = str ''Hi'', bl_confidence = Some (9 / 10)\<rparr>"

lemma ocr_blocks_enclose_witness:
  "\<exists>bbox score. Line bbox (Pair (PStr (bl_text sample_block)) score) \<in> set sample_lines \<and> encloses sample_block bbox
     \<and> 0 \<le> bl_width sample_block \<and> 0 \<le> bl_height sample_block"
proof (rule ocr_blocks_enclose)
  show "paddle_recognize (Inr (Some sample_lines)) = Inr [sample_block]" by code_simp
qed simp

text \<open>
  Only the failure of the library itself becomes a failure of the page. A line with an empty polygon raises an error
  that the page does not absorb, so the whole document is lost to it.
\<close>

lemma empty_polygon_fails_page:
  "\<exists>e. paddle_recognize (Inr (Some [Line [] (Pair (PStr s) score)])) = Inl e \<and> recognize_page (\<lambda>_. Inl e) n = Inl e"
  by (simp add: paddle_recognize_def line_block_def coordinates_def smallest_def recognize_page_def value_error_def)

end
