(* ===== verification/Agent_Graph.thy ===== *)
theory Agent_Graph
  imports Agent_Props Configuration
begin

text \<open>
  The agent's LangGraph workflow (\<open>app/agent/graph.py\<close>), the nodes only it uses and the summarizer tool, as a step
  relation over a node and the state. LangGraph runs one node at a time, merges what it returns into the state and
  follows the node's edge.
\<close>

section \<open>Configuration\<close>

text \<open>\<open>AgentConfig.from_dict\<close>: the \<open>agent\<close> section of the YAML file and its \<open>sse\<close> part.\<close>

definition agent_config_from_dict :: "(pyval \<Rightarrow> pystr) \<Rightarrow> pydict \<Rightarrow> pydict \<Rightarrow> exn + agent_config" where
  "agent_config_from_dict rp raw sse =
     (let def = default_agent_config
      in sbind (int_of_val (get_value raw ''recursion_limit'' (PInt (ac_recursion_limit def)))) (\<lambda>recursion_limit.
         sbind (int_of_val (get_value raw ''max_iterations'' (PInt (ac_max_iterations def)))) (\<lambda>max_iterations.
         sbind (int_of_val (get_value raw ''compare_concurrency'' (PInt (ac_compare_concurrency def)))) (\<lambda>compare_concurrency.
           Inr \<lparr>ac_enabled = truthy (get_value raw ''enabled'' (PBool True)), ac_recursion_limit = recursion_limit,
             ac_max_iterations = max_iterations,
             ac_default_intent = str_of_val rp (get_value raw ''default_intent'' (PStr (ac_default_intent def))),
             ac_enable_dynamic_intent = truthy (get_value raw ''enable_dynamic_intent'' (PBool False)),
             ac_enable_web_search = truthy (get_value raw ''enable_web_search'' (PBool True)),
             ac_compare_concurrency = compare_concurrency,
             ac_fallback_message = str_of_val rp (get_value raw ''fallback_message'' (PStr (ac_fallback_message def))),
             ac_emit_node_events = truthy (get_value sse ''emit_node_events'' (PBool True))\<rparr>))))"

section \<open>Nodes\<close>

text \<open>\<open>SummarizerTool.invoke\<close>: the text of the stream, up to the first chunk that ends it.\<close>

fun summary_parts :: "stream_chunk list \<Rightarrow> exn option \<Rightarrow> exn + pystr" where
  "summary_parts [] stop = (case stop of None \<Rightarrow> Inr [] | Some e \<Rightarrow> Inl e)"
| "summary_parts (c # cs) stop =
     (if sc_finish c = Some (str ''stop'') \<or> sc_finish c = Some (str ''error'') then Inr (sc_delta c)
      else sbind (summary_parts cs stop) (\<lambda>rest. Inr (sc_delta c @ rest)))"

definition summarizer_invoke :: "agent_env \<Rightarrow> pystr \<Rightarrow> retrieval_chunk list \<Rightarrow> pyfloat \<Rightarrow> int \<Rightarrow> pystr \<Rightarrow> exn + pystr" where
  "summarizer_invoke env question chunks temperature max_tokens memory_context =
     (let context_text = str_or (py_join [10, 10] (map rc_text chunks)) [0x65E0, 0x53EF, 0x7528,
       0x4E0A, 0x4E0B, 0x6587, 0x3002];
          prompt = [0x8BF7, 0x57FA, 0x4E8E, 0x4EE5, 0x4E0B, 0x6750, 0x6599, 0x56DE, 0x7B54, 0x7528,
            0x6237, 0x7684, 0x603B, 0x7ED3, 0x8BF7, 0x6C42, 0x3002] @ [10, 10] @ [0x6750, 0x6599,
            0xFF1A] @ [10] @ context_text @ [10, 10] @ [0x8BF7, 0x6C42, 0xFF1A] @ question;
          messages = (if memory_context \<noteq> [] then [\<lparr>ms_role = str ''system'', ms_content = memory_context\<rparr>] else [])
            @ [\<lparr>ms_role = str ''user'', ms_content = prompt\<rparr>]
      in sbind (llm_request_new messages temperature max_tokens) (\<lambda>req. case ae_stream env req of (cs, stop) \<Rightarrow> summary_parts cs stop))"

definition summarize_node :: "agent_env \<Rightarrow> agent_state \<Rightarrow> exn + agent_state" where
  "summarize_node env st =
     sbind (if as_resource_ids st \<noteq> [] \<and> as_retrieved_chunks st = [] then retrieval_node env st else Inr st) (\<lambda>st'.
       Inr (st'\<lparr>as_draft_answer := (case summarizer_invoke env (as_question st') (as_retrieved_chunks st')
             (num_or (as_temperature st') (3 / 10)) (num_or (as_max_tokens st') 1024) (as_memory_context st') of
           Inr answer \<Rightarrow> answer | Inl _ \<Rightarrow> ac_fallback_message (ae_config env))\<rparr>))"

text \<open>\<open>_collect_llm_answer\<close>: nothing stands for the fallback message.\<close>

fun answer_parts :: "stream_chunk list \<Rightarrow> exn option \<Rightarrow> pystr option" where
  "answer_parts [] stop = (case stop of None \<Rightarrow> Some [] | Some e \<Rightarrow> None)"
| "answer_parts (c # cs) stop =
     (if sc_finish c = Some (str ''error'') then None
      else if sc_finish c = Some (str ''stop'') then Some (sc_delta c)
      else map_option ((@) (sc_delta c)) (answer_parts cs stop))"

definition collect_llm_answer :: "agent_env \<Rightarrow> agent_state \<Rightarrow> pystr \<Rightarrow> pystr" where
  "collect_llm_answer env st node =
     (case llm_request_new (build_llm_messages env st node) (7 / 10) 2048 of
        Inl _ \<Rightarrow> ac_fallback_message (ae_config env)
      | Inr req \<Rightarrow> (case ae_stream env req of (cs, stop) \<Rightarrow>
          (case answer_parts cs stop of Some answer \<Rightarrow> answer | None \<Rightarrow> ac_fallback_message (ae_config env))))"

section \<open>The graph\<close>

datatype graph_node = GIntent | GRetrieve | GSummarize | GQa | GCompare | GGenerate | GValidate | GEnd

fun run_node :: "agent_env \<Rightarrow> graph_node \<Rightarrow> agent_state \<Rightarrow> exn + agent_state" where
  "run_node env GIntent st = intent_node env st"
| "run_node env GRetrieve st = retrieval_node env st"
| "run_node env GSummarize st = summarize_node env st"
| "run_node env GQa st = Inr (st\<lparr>as_draft_answer := collect_llm_answer env st (str ''qa'')\<rparr>)"
| "run_node env GCompare st = Inr (st\<lparr>as_draft_answer := collect_llm_answer env st (str ''compare'')\<rparr>)"
| "run_node env GGenerate st = Inr (st\<lparr>as_draft_answer := collect_llm_answer env st (str ''generate'')\<rparr>)"
| "run_node env GValidate st = Inr (validate_node env st)"
| "run_node env GEnd st = Inr st"

definition intent_edge :: "agent_state \<Rightarrow> graph_node" where
  "intent_edge st = (let intent = route_by_intent st
     in if intent = str ''summarize'' then GSummarize else if intent = str ''generate'' then GGenerate else GRetrieve)"

fun next_node :: "graph_node \<Rightarrow> agent_state \<Rightarrow> graph_node" where
  "next_node GIntent st = intent_edge st"
| "next_node GRetrieve st = (if as_intent st = str ''compare'' then GCompare else GQa)"
| "next_node GValidate st = (case route_after_validate st of RoutePass \<Rightarrow> GEnd | RouteRetry \<Rightarrow> GRetrieve)"
| "next_node GEnd st = GEnd"
| "next_node _ st = GValidate"

inductive graph_step :: "agent_env \<Rightarrow> graph_node \<times> agent_state \<Rightarrow> graph_node \<times> agent_state \<Rightarrow> bool" for env where
  node: "n \<noteq> GEnd \<Longrightarrow> run_node env n st = Inr st' \<Longrightarrow> graph_step env (n, st) (next_node n st', st')"

inductive_cases graph_stepE: "graph_step env c c'"
inductive_simps graph_step_iff: "graph_step env (n, st) c'"

section \<open>Facts\<close>

lemma intent_node_citations: "intent_node env st = Inr st' \<Longrightarrow> as_citations st' = as_citations st"
  by (auto simp: intent_node_def sbind_Inr_iff)

lemma retrieval_node_citations: "retrieval_node env st = Inr st' \<Longrightarrow> as_citations st' = []"
  by (auto simp: retrieval_node_def split: if_splits sum.splits)

lemma summarize_node_citations: "summarize_node env st = Inr st' \<Longrightarrow> as_citations st' = as_citations st \<or> as_citations st' = []"
  by (auto simp: summarize_node_def sbind_Inr_iff dest: retrieval_node_citations split: if_splits)

lemma validate_citations: "as_citations (validate_node env st) = as_citations st"
  by (simp add: validate_node_def Let_def)

lemma validate_passes: "as_citations st = [] \<Longrightarrow> route_after_validate (validate_node env st) = RoutePass"
  by (simp add: validate_node_def route_after_validate_def Let_def)

lemma intent_edge_cases: "intent_edge st = GSummarize \<or> intent_edge st = GGenerate \<or> intent_edge st = GRetrieve"
  by (simp add: intent_edge_def Let_def)

text \<open>
  How many steps are left at most. Citations of an earlier run are the only cause of a retry, and the retrieval of the
  retry drops them.
\<close>

fun steps_left :: "graph_node \<times> agent_state \<Rightarrow> nat" where
  "steps_left (GIntent, st) = 7"
| "steps_left (GRetrieve, st) = 3"
| "steps_left (GValidate, st) = (if as_citations st = [] then 1 else 5)"
| "steps_left (GEnd, st) = 0"
| "steps_left (_, st) = (if as_citations st = [] then 2 else 6)"

lemma graph_step_decreases: "graph_step env c c' \<Longrightarrow> steps_left c' < steps_left c"
proof (erule graph_stepE)
  fix n st st'
  assume c: "c = (n, st)" "c' = (next_node n st', st')" and n: "n \<noteq> GEnd" and r: "run_node env n st = Inr st'"
  have "steps_left (next_node n st', st') < steps_left (n, st)"
  proof (cases n)
    case GIntent
    with intent_edge_cases[of st'] show ?thesis by auto
  next
    case GRetrieve
    with r show ?thesis by (simp add: retrieval_node_citations)
  next
    case GSummarize
    with r summarize_node_citations[of env st st'] show ?thesis by auto
  next
    case GValidate
    with r have st': "st' = validate_node env st" by simp
    show ?thesis
    proof (cases "as_citations st = []")
      case True
      with GValidate st' show ?thesis by (simp add: validate_passes)
    qed (use GValidate in \<open>simp split: route.split\<close>)
  qed (use r n in auto)
  thus ?thesis by (simp add: c)
qed

lemma steps_bounded: "(graph_step env ^^ k) c c' \<Longrightarrow> k + steps_left c' \<le> steps_left c"
proof (induction k arbitrary: c')
  case (Suc k)
  from Suc.prems obtain c1 where "(graph_step env ^^ k) c c1" "graph_step env c1 c'" by auto
  with Suc.IH[of c1] graph_step_decreases[of env c1 c'] show ?case by simp
qed simp

lemma node_failure:
  "run_node env n st = Inl e \<Longrightarrow> has_class RetrievalForbiddenError e \<or> n = GIntent \<and> ac_enable_dynamic_intent (ae_config env)"
  by (cases n) (auto simp: intent_node_def summarize_node_def retrieval_node_def sbind_Inl_iff split: if_splits sum.splits)

lemma reached_end:
  "graph_step env c (GEnd, st) \<Longrightarrow> as_final_answer st = as_draft_answer st \<and> (as_validation_passed st \<or> as_max_iterations st \<le> as_iterations st)"
proof (erule graph_stepE)
  fix n st0 st'
  assume "(GEnd, st) = (next_node n st', st')" "n \<noteq> GEnd" and r: "run_node env n st0 = Inr st'"
  hence st: "st = st'" and n: "next_node n st = GEnd" by simp_all
  from n \<open>n \<noteq> GEnd\<close> have "n = GValidate" using intent_edge_cases[of st] by (cases n) (auto split: if_splits)
  with r st n show ?thesis
    by (auto simp: validate_node_def Let_def route_after_validate_def split: route.splits if_splits)
qed

text \<open>C39: The graph never gets near LangGraph's limit of 25 steps: from the intent node, whatever the state carries over
  from an earlier run and whatever the services do, a run takes at most seven steps; where it stops it is either at the
  end, with the draft as its final answer that passed or used up its iterations, or at a node that raised, which only a
  forbidden retrieval or the classification by the LLM does.
\<close>

theorem graph_run_ends:
  assumes "(graph_step env ^^ k) (GIntent, st0) (n, st)"
  shows "k \<le> 7 \<and> ((\<exists>c'. graph_step env (n, st) c')
       \<or> n = GEnd \<and> as_final_answer st = as_draft_answer st \<and> (as_validation_passed st \<or> as_max_iterations st \<le> as_iterations st)
       \<or> (\<exists>e. run_node env n st = Inl e \<and> (has_class RetrievalForbiddenError e \<or> n = GIntent \<and> ac_enable_dynamic_intent (ae_config env))))"
proof -
  have "k \<le> 7" using steps_bounded[OF assms] by simp
  moreover have "n = GEnd \<Longrightarrow> as_final_answer st = as_draft_answer st \<and> (as_validation_passed st \<or> as_max_iterations st \<le> as_iterations st)"
    using assms reached_end by (cases k) auto
  moreover have "n \<noteq> GEnd \<Longrightarrow> run_node env n st = Inr st' \<Longrightarrow> \<exists>c'. graph_step env (n, st) c'" for st'
    by (auto intro: graph_step.node)
  ultimately show ?thesis using node_failure[of env n st] by (cases "run_node env n st") blast+
qed

text \<open>The relation is a function: the run of \<open>k\<close> steps, evaluated.\<close>

fun graph_run :: "agent_env \<Rightarrow> nat \<Rightarrow> graph_node \<times> agent_state \<Rightarrow> (graph_node \<times> agent_state) option" where
  "graph_run env 0 c = Some c"
| "graph_run env (Suc k) (n, st) =
     (if n = GEnd then None
      else case run_node env n st of Inl e \<Rightarrow> None | Inr st' \<Rightarrow> graph_run env k (next_node n st', st'))"

lemma graph_run_steps: "graph_run env k c = Some c' \<Longrightarrow> (graph_step env ^^ k) c c'"
proof (induction env k c rule: graph_run.induct)
  case (2 env k n st)
  then obtain st' where "n \<noteq> GEnd" "run_node env n st = Inr st'" "graph_run env k (next_node n st', st') = Some c'"
    by (auto split: if_splits sum.splits)
  with 2 have "graph_step env (n, st) (next_node n st', st')" "(graph_step env ^^ k) (next_node n st', st') c'"
    by (auto intro: graph_step.node)
  thus ?case by (rule relpowp_Suc_I2)
qed simp

lemma graph_run_ends_witness:
  "\<exists>st. (graph_step demo_agent_env ^^ 4) (GIntent, initial_state default_agent_config demo_agent_request) (GEnd, st)
     \<and> as_final_answer st = as_draft_answer st"
proof -
  have "map_option fst (graph_run demo_agent_env 4 (GIntent, initial_state default_agent_config demo_agent_request)) = Some GEnd"
    by code_simp
  then obtain st where g: "graph_run demo_agent_env 4 (GIntent, initial_state default_agent_config demo_agent_request) = Some (GEnd, st)"
    by auto
  from graph_run_ends[OF graph_run_steps[OF g]] graph_run_steps[OF g] show ?thesis
    by (auto simp: graph_step_iff)
qed

text \<open>An empty section gives the defaults.\<close>

lemma empty_agent_section: "agent_config_from_dict rp [] [] = Inr default_agent_config"
  by (simp add: agent_config_from_dict_def get_value_def dict_get_def default_agent_config_def Let_def)

text \<open>A retry goes through the retrieve node, which knows two branches: a retried summary is answered as a question.\<close>

lemma retried_summary_becomes_answer:
  "as_intent st = str ''summarize'' \<Longrightarrow> next_node GRetrieve st = GQa \<and> next_node GIntent st = GSummarize"
proof -
  have "str ''summarize'' \<noteq> []" by simp
  thus "as_intent st = str ''summarize'' \<Longrightarrow> ?thesis"
    by (simp add: str_inject intent_edge_def route_by_intent_def VALID_INTENTS_def str_or_def Let_def del: str_simps)
qed

end
