(* ===== verification/Clients.thy ===== *)
theory Clients
  imports Summary Text_Cleaning Vector_Store
begin

text \<open>
  The thin adapters: the chat client in front of an OpenAI-compatible SDK (\<open>app/clients/llm_client.py\<close>), the repository
  of tags (\<open>extraction_repository.py\<close>) and the start of the Milvus store with the schema of its collection. The SDKs and
  \<open>requests\<close> are parameters.
\<close>

section \<open>The chat client\<close>

text \<open>What the SDK returns: a dictionary, an object with \<open>model_dump\<close> or \<open>to_dict\<close>, or something else.\<close>

datatype sdk_response = DictResponse json | DumpResponse json | ToDictResponse json | OtherResponse pystr

record chat_call =
  cc_model :: pystr
  cc_messages :: "(pystr \<times> pystr) list"
  cc_temperature :: pyfloat
  cc_max_tokens :: "int option"

definition chat_completions_create :: "(chat_call \<Rightarrow> 's \<Rightarrow> 's \<times> (exn + sdk_response)) \<Rightarrow> chat_call \<Rightarrow> 's \<Rightarrow> 's \<times> (exn + json)" where
  "chat_completions_create create call s = (case create call s of
     (s', Inl e) \<Rightarrow> (s', Inl e)
   | (s', Inr response) \<Rightarrow> (s', case response of
         DictResponse d \<Rightarrow> Inr d
       | DumpResponse d \<Rightarrow> Inr d
       | ToDictResponse d \<Rightarrow> Inr d
       | OtherResponse t \<Rightarrow> Inl (type_error (str ''unexpected response type from LLM client: '' @ t))))"

section \<open>Tags\<close>

definition save_tags ::
  "('a \<Rightarrow> pystr \<Rightarrow> 's \<Rightarrow> 's \<times> (exn + pystr)) \<Rightarrow> pystr \<Rightarrow> (pystr \<Rightarrow> 'a \<Rightarrow> 's \<Rightarrow> 's \<times> (exn + unit)) \<Rightarrow> pystr \<Rightarrow> 'a \<Rightarrow> 's \<Rightarrow> 's \<times> (exn + pystr)" where
  "save_tags upload base_url post resource_id result s =
     repository_save upload base_url post (str ''tags.json'') (str ''tags'') resource_id result s"

text \<open>A world that logs its uploads and its posts, for an upload that works and a gateway that answers or not.\<close>

datatype saved = Uploaded pystr | Posted pystr

definition log_upload :: "'a \<Rightarrow> pystr \<Rightarrow> saved list \<Rightarrow> saved list \<times> (exn + pystr)" where
  "log_upload result key s = (s @ [Uploaded key], Inr (str ''minio://mkc-resources/'' @ key))"

definition log_post :: "(exn + unit) \<Rightarrow> pystr \<Rightarrow> 'a \<Rightarrow> saved list \<Rightarrow> saved list \<times> (exn + unit)" where
  "log_post answer url result s = (s @ [Posted url], answer)"

text \<open>
  Tags are stored first and announced second, to the resource's own address: the log of a save is the upload and,
  with a gateway configured, the post behind it; the save fails exactly when the gateway does, and then the file is there
  all the same.
\<close>

lemma tags_stored_then_announced:
  "save_tags log_upload base_url (log_post answer) resource_id result s
     = (let base = rev (dropWhile (\<lambda>c. c = 47) (rev base_url)); uri = str ''minio://mkc-resources/'' @ resource_id @ str ''/tags.json''
        in (s @ [Uploaded (resource_id @ str ''/tags.json'')]
              @ (if base = [] then [] else [Posted (base @ str ''/api/v1/internal/resources/'' @ resource_id @ str ''/tags'')]),
            if base = [] then Inr uri else sbind answer (\<lambda>_. Inr uri)))"
  by (simp add: save_tags_def repository_save_def log_upload_def log_post_def Let_def)

section \<open>The start of the Milvus store\<close>

datatype field_type = Varchar nat | FloatVector int | JsonField | Int64

record schema_field =
  sf_name :: pystr
  sf_type :: field_type
  sf_primary :: bool

definition schema_column :: "string \<Rightarrow> field_type \<Rightarrow> bool \<Rightarrow> schema_field" where
  "schema_column name t primary = \<lparr>sf_name = str name, sf_type = t, sf_primary = primary\<rparr>"

definition milvus_schema :: "vector_store_config \<Rightarrow> schema_field list" where
  "milvus_schema cfg =
     [schema_column ''id'' (Varchar 64) True, schema_column ''vector'' (FloatVector (vc_dimensions cfg)) False,
      schema_column ''resource_id'' (Varchar 64) False, schema_column ''user_id'' (Varchar 64) False,
      schema_column ''text'' (Varchar TEXT_MAX_LENGTH) False, schema_column ''metadata'' JsonField False,
      schema_column ''created_at'' Int64 False]"

record index_params =
  ix_field :: pystr
  ix_type :: pystr
  ix_metric :: pystr
  ix_params :: "(pystr \<times> int) list"

definition build_index_params :: "vector_store_config \<Rightarrow> pystr option \<Rightarrow> index_params" where
  "build_index_params cfg index_type =
     \<lparr>ix_field = str ''vector'', ix_type = (case index_type of Some t \<Rightarrow> str_or t (str ''HNSW'') | None \<Rightarrow> str ''HNSW''),
      ix_metric = vc_metric_type cfg, ix_params = [(str ''M'', 16), (str ''efConstruction'', 200)]\<rparr>"

text \<open>\<open>connect\<close> creates a client and lists the collections; it may fail.\<close>

definition create_client_with_retry ::
  "('c \<Rightarrow> 'c \<times> (exn + unit)) \<Rightarrow> vector_store_config \<Rightarrow> 'c \<Rightarrow> 'c \<times> (exn + unit)" where
  "create_client_with_retry connect cfg s =
     (case retrying (attempts_left (vc_max_retries cfg)) (\<lambda>_. False) connect s of
        (s', Inr u) \<Rightarrow> (s', Inr u)
      | (s', Inl e) \<Rightarrow> (s', Inl (raise_msg VectorStoreUnavailableError (([0x65E0,
        0x6CD5, 0x8FDE, 0x63A5, 0x5230] @ str '' Milvus '' @ [0x5411, 0x91CF, 0x5B58, 0x50A8])))))"

definition milvus_store_new ::
  "(exn \<Rightarrow> pystr option) \<Rightarrow> ('c \<Rightarrow> 'c \<times> (exn + unit)) \<Rightarrow> 'c milvus_client \<Rightarrow> vector_store_config \<Rightarrow> bool \<Rightarrow> 'c \<Rightarrow> 'c \<times> (exn + unit)" where
  "milvus_store_new milvus connect cl cfg client_given s =
     (case (if client_given then (s, Inr ()) else create_client_with_retry connect cfg s) of
        (s1, Inl e) \<Rightarrow> (s1, Inl e)
      | (s1, Inr _) \<Rightarrow> ensure_collection milvus cl cfg s1)"

text \<open>
  A store that started finds its collection with the configured dimension, and starting it again on the same server
  succeeds without changing it, if a created collection exists with the dimension of its schema.
\<close>

lemma milvus_restart:
  assumes "milvus_store_new milvus connect cl cfg client_given s = (s', Inr ())"
    and created: "\<And>t s s'. mc_create cl t s = (s', Inr ()) \<Longrightarrow> mc_has_collection cl s' = Inr True \<and> mc_vector_dim cl s' = Inr (Some (Some (vc_dimensions cfg)))"
  shows "mc_has_collection cl s' = Inr True \<and> mc_vector_dim cl s' = Inr (Some (Some (vc_dimensions cfg)))
       \<and> milvus_store_new milvus connect cl cfg True s' = (s', Inr ())"
proof -
  from assms(1) obtain s1 where e: "ensure_collection milvus cl cfg s1 = (s', Inr ())"
    by (auto simp: milvus_store_new_def split: prod.splits sum.splits if_splits)
  have "mc_has_collection cl s' = Inr True \<and> mc_vector_dim cl s' = Inr (Some (Some (vc_dimensions cfg)))"
  proof (cases "mc_has_collection cl s1")
    case (Inr b)
    with e created show ?thesis
      by (cases b) (auto simp: ensure_collection_def validate_collection_dimension_def sbind_Inr_iff
          split: sum.splits option.splits if_splits prod.splits)
  qed (use e in \<open>simp add: ensure_collection_def\<close>)
  thus ?thesis by (simp add: milvus_store_new_def ensure_collection_def validate_collection_dimension_def)
qed

text \<open>
  Milvus counts the length of a VARCHAR in bytes, the store truncates to as many characters: a Chinese text of the
  allowed length has three times the bytes the column takes.
\<close>

definition utf8_length :: "pystr \<Rightarrow> nat" where
  "utf8_length s = sum_list (map (\<lambda>c. if c < 128 then 1 else if c < 2048 then 2 else if c < 65536 then 3 else 4) s)"

lemma truncated_text_exceeds_column:
  "ve_text r = replicate TEXT_MAX_LENGTH 20013 \<Longrightarrow> utf8_length (ve_text (record_to_milvus r)) = 3 * TEXT_MAX_LENGTH"
  by (simp add: utf8_length_def record_to_milvus_def sum_list_replicate)

end
