(* ===== verification/Web_Client.thy ===== *)
theory Web_Client
  imports Web_Search
begin

text \<open>
  How a search provider fetches its reply (\<open>search_providers.py\<close>): the query encoded into an address or a JSON body,
  the arguments of \<open>curl\<close> and the reading of its output. The process itself, \<open>json\<close>, the decoding of bytes and
  \<open>str\<close> of a float are parameters.
\<close>

section \<open>URL encoding\<close>

text \<open>\<open>s.encode("utf-8")\<close>, which refuses surrogates.\<close>

definition utf8_char :: "int \<Rightarrow> int list" where
  "utf8_char c =
     (if c < 128 then [c]
      else if c < 2048 then [192 + c div 64, 128 + c mod 64]
      else if c < 65536 then [224 + c div 4096, 128 + c div 64 mod 64, 128 + c mod 64]
      else [240 + c div 262144, 128 + c div 4096 mod 64, 128 + c div 64 mod 64, 128 + c mod 64])"

definition utf8_encode :: "pystr \<Rightarrow> exn + int list" where
  "utf8_encode s = (if utf8_encodable s then Inr (concat (map utf8_char s))
     else Inl (PyException ''UnicodeEncodeError'' (str ''surrogates not allowed'')))"

text \<open>\<open>quote_plus\<close>: letters, digits and \<open>_.-~\<close> stay, a space becomes a plus, every other byte two hexadecimal digits.\<close>

definition url_safe :: "int \<Rightarrow> bool" where
  "url_safe b \<longleftrightarrow> (65 \<le> b \<and> b \<le> 90) \<or> (97 \<le> b \<and> b \<le> 122) \<or> (48 \<le> b \<and> b \<le> 57) \<or> b = 95 \<or> b = 46 \<or> b = 45 \<or> b = 126"

definition hex_digit :: "int \<Rightarrow> int" where
  "hex_digit d = (if d < 10 then 48 + d else 55 + d)"

definition quote_byte :: "int \<Rightarrow> pystr" where
  "quote_byte b = (if b = 32 then [43] else if url_safe b then [b] else [37, hex_digit (b div 16), hex_digit (b mod 16)])"

definition quote_plus :: "pystr \<Rightarrow> exn + pystr" where
  "quote_plus s = sbind (utf8_encode s) (\<lambda>bs. Inr (concat (map quote_byte bs)))"

definition urlencode :: "(pystr \<times> pystr) list \<Rightarrow> exn + pystr" where
  "urlencode pairs = sbind (smap (\<lambda>(k, v). sbind (quote_plus k) (\<lambda>qk. sbind (quote_plus v) (\<lambda>qv. Inr (qk @ str ''='' @ qv)))) pairs)
     (\<lambda>parts. Inr (py_join (str ''&'') parts))"

section \<open>Requests\<close>

text \<open>What runs \<open>curl\<close> gives: the return code, the output and the error output.\<close>

record 's curl_env =
  cu_exec :: "pystr list \<Rightarrow> 's \<Rightarrow> 's \<times> (exn + int \<times> int list \<times> int list)"
  cu_decode :: "int list \<Rightarrow> exn + pystr"
  cu_decode_ignore :: "int list \<Rightarrow> pystr"
  cu_loads :: "pystr \<Rightarrow> exn + json"
  cu_dumps :: "json \<Rightarrow> pystr"
  cu_float :: "pyfloat \<Rightarrow> pystr"

definition curl_json :: "'s curl_env \<Rightarrow> pystr list \<Rightarrow> 's \<Rightarrow> 's \<times> (exn + json)" where
  "curl_json env args s = (case cu_exec env args s of
     (s', Inl e) \<Rightarrow> (s', Inl e)
   | (s', Inr (code, out, err)) \<Rightarrow>
       (s', if code \<noteq> 0 then Inl (PyException ''RuntimeError'' (str_or (cu_decode_ignore env err) (str ''curl request failed'')))
            else sbind (cu_decode env out) (\<lambda>body. cu_loads env (str_or body (str ''{}'')))))"

definition rstrip_slash :: "pystr \<Rightarrow> pystr" where
  "rstrip_slash s = rev (dropWhile (\<lambda>c. c = 47) (rev s))"

definition curl_arguments :: "'s curl_env \<Rightarrow> provider_config \<Rightarrow> web_request \<Rightarrow> exn + pystr list" where
  "curl_arguments env pc req =
     sbind (urlencode [(str ''q'', wq_query req), (str ''format'', str ''json''), (str ''no_html'', str ''1''), (str ''skip_disambig'', str ''1'')]) (\<lambda>query.
       Inr [str ''curl'', str ''-sS'', str ''--max-time'', cu_float env (pc_timeout pc), rstrip_slash (pc_base_url pc) @ str ''?'' @ query])"

definition serper_arguments :: "'s curl_env \<Rightarrow> provider_config \<Rightarrow> web_request \<Rightarrow> exn + pystr list" where
  "serper_arguments env pc req =
     Inr [str ''curl'', str ''-sS'', str ''--max-time'', cu_float env (pc_timeout pc), str ''-X'', str ''POST'', pc_base_url pc, str ''-H'',
          str ''Content-Type: application/json'', str ''-H'', str ''X-API-KEY: '' @ pc_api_key pc, str ''-d'',
          cu_dumps env (JObj [(str ''q'', JStr (wq_query req)), (str ''num'', JNum (of_int (wq_top_k req)))])]"

definition bing_arguments :: "'s curl_env \<Rightarrow> provider_config \<Rightarrow> web_request \<Rightarrow> exn + pystr list" where
  "bing_arguments env pc req =
     sbind (urlencode [(str ''q'', wq_query req), (str ''count'', str_of_int (wq_top_k req))]) (\<lambda>query.
       Inr [str ''curl'', str ''-sS'', str ''--max-time'', cu_float env (pc_timeout pc), pc_base_url pc @ str ''?'' @ query, str ''-H'',
            str ''Ocp-Apim-Subscription-Key: '' @ pc_api_key pc])"

text \<open>What a provider fetches, and its \<open>search\<close>; the mock provider runs no process and has no arguments.\<close>

definition search_arguments :: "'s curl_env \<Rightarrow> web_search_config \<Rightarrow> search_provider \<Rightarrow> web_request \<Rightarrow> exn + pystr list" where
  "search_arguments env cfg p req = (case p of
     CurlSearchProvider \<Rightarrow> curl_arguments env (wc_curl cfg) req
   | SerperProvider \<Rightarrow> serper_arguments env (wc_serper cfg) req
   | BingProvider \<Rightarrow> bing_arguments env (wc_bing cfg) req
   | MockSearchProvider \<Rightarrow> Inr [])"

definition fetch_reply :: "'s curl_env \<Rightarrow> web_search_config \<Rightarrow> search_provider \<Rightarrow> web_request \<Rightarrow> 's \<Rightarrow> 's \<times> (exn + json)" where
  "fetch_reply env cfg p req s = (case search_arguments env cfg p req of
     Inl e \<Rightarrow> (s, Inl e) | Inr args \<Rightarrow> curl_json env args s)"

definition run_search ::
  "'s curl_env \<Rightarrow> (json \<Rightarrow> pystr) \<Rightarrow> web_search_config \<Rightarrow> search_provider \<Rightarrow> web_request \<Rightarrow> 's \<Rightarrow> 's \<times> (exn + web_result list)" where
  "run_search env dump cfg p req s = provider_search p dump cfg (fetch_reply env cfg p) req s"

section \<open>Facts\<close>

text \<open>A decoder of query strings, as the receiving server reads them: bytes of a value, and the pairs of a query.\<close>

definition hex_value :: "int \<Rightarrow> int" where
  "hex_value c = (if c \<le> 57 then c - 48 else c - 55)"

fun unquote_plus :: "pystr \<Rightarrow> int list" where
  "unquote_plus [] = []"
| "unquote_plus (c # cs) =
     (if c = 43 then 32 # unquote_plus cs
      else if c = 37 then (case cs of h # l # rest \<Rightarrow> (16 * hex_value h + hex_value l) # unquote_plus rest | _ \<Rightarrow> [c])
      else c # unquote_plus cs)"

definition is_byte :: "int \<Rightarrow> bool" where
  "is_byte b \<longleftrightarrow> 0 \<le> b \<and> b < 256"

lemma utf8_char_bytes: "0 \<le> c \<Longrightarrow> c < 1114112 \<Longrightarrow> list_all is_byte (utf8_char c)"
  by (auto simp: utf8_char_def is_byte_def)

lemma hex_round: "0 \<le> d \<Longrightarrow> d < 16 \<Longrightarrow> hex_value (hex_digit d) = d"
  by (simp add: hex_value_def hex_digit_def)

lemma unquote_byte: "is_byte b \<Longrightarrow> unquote_plus (quote_byte b @ rest) = b # unquote_plus rest"
  by (auto simp: quote_byte_def is_byte_def hex_round url_safe_def)

lemma unquote_quote: "list_all is_byte bs \<Longrightarrow> unquote_plus (concat (map quote_byte bs)) = bs"
  by (induction bs) (auto simp: unquote_byte)

definition query_char :: "int \<Rightarrow> bool" where
  "query_char c \<longleftrightarrow> url_safe c \<or> c = 43 \<or> c = 37"

lemma hex_digit_safe: "0 \<le> d \<Longrightarrow> d < 16 \<Longrightarrow> url_safe (hex_digit d)"
  by (simp add: hex_digit_def url_safe_def)

lemma quote_byte_chars:
  assumes "is_byte b"
  shows "list_all query_char (quote_byte b)"
proof -
  from assms have "0 \<le> b div 16" "b div 16 < 16" unfolding is_byte_def by linarith+
  then have "url_safe (hex_digit (b div 16))" by (rule hex_digit_safe)
  moreover have "url_safe (hex_digit (b mod 16))" by (rule hex_digit_safe) simp_all
  ultimately show ?thesis by (simp add: quote_byte_def query_char_def)
qed

lemma quote_plus_chars:
  assumes "quote_plus s = Inr q" "list_all (\<lambda>c. 0 \<le> c \<and> c < 1114112) s"
  shows "list_all query_char q \<and> unquote_plus q = concat (map utf8_char s)"
proof -
  have b: "list_all is_byte (concat (map utf8_char s))"
    using assms(2) utf8_char_bytes by (fastforce simp: list_all_iff)
  have q: "q = concat (map quote_byte (concat (map utf8_char s)))"
    using assms(1) by (auto simp: quote_plus_def utf8_encode_def sbind_Inr_iff split: if_splits)
  show ?thesis using b unquote_quote[OF b] quote_byte_chars by (fastforce simp: q list_all_iff)
qed

text \<open>The query string of a search, for the parameters \<open>pairs\<close> that follow the question.\<close>

lemma urlencode_Cons:
  assumes "urlencode ((k, v) # p # pairs) = Inr q"
  obtains qk qv rest where "quote_plus k = Inr qk" "quote_plus v = Inr qv" "urlencode (p # pairs) = Inr rest"
    "q = qk @ str ''='' @ qv @ str ''&'' @ rest"
proof -
  from assms obtain qk qv qp ps where "quote_plus k = Inr qk" "quote_plus v = Inr qv"
    and p: "(\<lambda>(k, v). sbind (quote_plus k) (\<lambda>qk. sbind (quote_plus v) (\<lambda>qv. Inr (qk @ str ''='' @ qv)))) p = Inr qp"
    "smap (\<lambda>(k, v). sbind (quote_plus k) (\<lambda>qk. sbind (quote_plus v) (\<lambda>qv. Inr (qk @ str ''='' @ qv)))) pairs = Inr ps"
    and q: "q = py_join (str ''&'') ((qk @ str ''='' @ qv) # qp # ps)"
    by (auto simp: urlencode_def sbind_Inr_iff)
  with that show ?thesis by (simp add: urlencode_def)
qed

text \<open>C40: The search engine gets the question and nothing else of it: the address of the curl provider is the configured
  one, a query with the parameter \<open>q\<close> first, whose value holds no character that ends a parameter or the query and is
  decoded to the UTF-8 bytes of the question, followed by the fixed parameters.
\<close>

theorem question_reaches_engine:
  assumes "curl_arguments env pc req = Inr args" "list_all (\<lambda>c. 0 \<le> c \<and> c < 1114112) (wq_query req)"
  shows "\<exists>value. last args = rstrip_slash (pc_base_url pc) @ str ''?q='' @ value @ str ''&format=json&no_html=1&skip_disambig=1''
       \<and> list_all query_char value \<and> unquote_plus value = concat (map utf8_char (wq_query req))"
proof -
  from assms(1) obtain query where u: "urlencode [(str ''q'', wq_query req), (str ''format'', str ''json''), (str ''no_html'', str ''1''), (str ''skip_disambig'', str ''1'')] = Inr query"
    and args: "last args = rstrip_slash (pc_base_url pc) @ str ''?'' @ query"
    by (auto simp: curl_arguments_def sbind_Inr_iff)
  from urlencode_Cons[OF u] obtain qk qv rest where q: "quote_plus (str ''q'') = Inr qk" "quote_plus (wq_query req) = Inr qv"
    "urlencode [(str ''format'', str ''json''), (str ''no_html'', str ''1''), (str ''skip_disambig'', str ''1'')] = Inr rest"
    "query = qk @ str ''='' @ qv @ str ''&'' @ rest" .
  have "quote_plus (str ''q'') = Inr (str ''q'')" by code_simp
  moreover have "urlencode [(str ''format'', str ''json''), (str ''no_html'', str ''1''), (str ''skip_disambig'', str ''1'')]
      = Inr (str ''format=json&no_html=1&skip_disambig=1'')" by code_simp
  ultimately have "last args = rstrip_slash (pc_base_url pc) @ str ''?q='' @ qv @ str ''&format=json&no_html=1&skip_disambig=1''"
    using q args by simp
  with quote_plus_chars[OF q(2) assms(2)] show ?thesis by blast
qed

definition demo_curl_env :: "nat curl_env" where
  "demo_curl_env = \<lparr>cu_exec = (\<lambda>_ s. (s + 1, Inr (0, [], []))), cu_decode = Inr, cu_decode_ignore = id, cu_loads = (\<lambda>_. Inr (JObj [])),
     cu_dumps = (\<lambda>_. []), cu_float = (\<lambda>_. str ''10.0'')\<rparr>"

lemma question_reaches_engine_witness:
  "\<exists>value. str ''https://api.duckduckgo.com?q=a%26b+%C3%A9&format=json&no_html=1&skip_disambig=1''
       = str ''https://api.duckduckgo.com'' @ str ''?q='' @ value @ str ''&format=json&no_html=1&skip_disambig=1''
     \<and> list_all query_char value \<and> unquote_plus value = [97, 38, 98, 32, 195, 169]"
proof -
  define url where "url = str ''https://api.duckduckgo.com?q=a%26b+%C3%A9&format=json&no_html=1&skip_disambig=1''"
  have a: "curl_arguments demo_curl_env (wc_curl default_web_search_config) \<lparr>wq_query = [97, 38, 98, 32, 233], wq_top_k = 3\<rparr>
      = Inr [str ''curl'', str ''-sS'', str ''--max-time'', str ''10.0'', url]"
    unfolding url_def by code_simp
  have r: "rstrip_slash (pc_base_url (wc_curl default_web_search_config)) = str ''https://api.duckduckgo.com''" by code_simp
  have u: "concat (map utf8_char [97, 38, 98, 32, 233]) = [97, 38, 98, 32, 195, 169]" by code_simp
  have l: "list_all (\<lambda>c. 0 \<le> c \<and> c < 1114112) [97, 38, 98, 32, 233::int]" by simp
  note q = question_reaches_engine[OF a, unfolded web_request.select_convs, OF l, unfolded u r]
  show ?thesis using q unfolding url_def by (simp only: last.simps list.simps simp_thms if_True if_False)
qed

text \<open>
  The key of a provider is an argument of the process, so while it runs every user of the machine can read it in the
  list of processes.
\<close>

lemma api_key_on_command_line:
  "\<exists>a \<in> set (case serper_arguments env pc req of Inr args \<Rightarrow> args | Inl _ \<Rightarrow> []). suffix (pc_api_key pc) a"
  by (simp add: serper_arguments_def suffix_def)

end
