(* ===== verification/Wiring.thy ===== *)
theory Wiring
  imports Citations Summary Tag_Extraction Web_Search Storage
begin

text \<open>
  The services \<open>init_extensions\<close> builds from \<open>config/ai.yaml\<close> itself: citations, summaries, tags and web search, with
  the settings each reads from its section. A YAML value is a \<open>json\<close>. The compiler of regular expressions, the
  templates, the file system, the YAML parser and pydantic's reading of the fields of an \<open>LLMRequest\<close> are parameters;
  \<open>build_web_search_config\<close> is in the theory Configuration, over a section split into dictionaries.
\<close>

section \<open>Sections\<close>

text \<open>\<open>v or {}\<close>\<close>

definition or_empty :: "json \<Rightarrow> json" where
  "or_empty v = (if json_truthy v then v else JObj [])"

text \<open>\<open>load_yaml_config\<close>: the content of the file, if there is one.\<close>

definition load_yaml_config :: "(exn + json) option \<Rightarrow> exn + json" where
  "load_yaml_config file_content = (case file_content of None \<Rightarrow> Inr (JObj []) | Some r \<Rightarrow> sbind r (\<lambda>v. Inr (or_empty v)))"

text \<open>\<open>(settings.ai_config or {}).get(name, {})\<close>\<close>

definition section_of :: "json \<Rightarrow> string \<Rightarrow> exn + json" where
  "section_of ai k = json_get (or_empty ai) k (JObj [])"

definition int_setting :: "json \<Rightarrow> string \<Rightarrow> int \<Rightarrow> exn + int" where
  "int_setting cfg k n = sbind (json_get cfg k (JNum (of_int n))) json_int"

section \<open>Citations\<close>

record 'p citation_settings =
  cs_pattern :: 'p
  cs_snippet_max_chars :: int
  cs_max_citations :: int
  cs_log_dropped :: bool

definition MARKER_PATTERN :: pystr where
  "MARKER_PATTERN = [92, 91, 92, 94, 40, 92, 100, 43, 41, 92, 93]"

definition citation_service :: "(json \<Rightarrow> exn + 'p) \<Rightarrow> json \<Rightarrow> exn + 'p citation_settings" where
  "citation_service compile ai =
     sbind (section_of ai ''citation'') (\<lambda>cfg.
     sbind (json_get cfg ''marker_pattern'' (JStr MARKER_PATTERN)) (\<lambda>raw.
     sbind (int_setting cfg ''snippet_max_chars'' 200) (\<lambda>snippet.
     sbind (compile raw) (\<lambda>pattern.
     sbind (int_setting cfg ''max_citations'' 8) (\<lambda>citations.
     sbind (json_get cfg ''log_dropped'' (JBool True)) (\<lambda>log_dropped.
       Inr \<lparr>cs_pattern = pattern, cs_snippet_max_chars = snippet, cs_max_citations = citations,
         cs_log_dropped = json_truthy log_dropped\<rparr>))))))"

section \<open>Summaries\<close>

text \<open>\<open>SummaryLLMProvider._chars\<close>\<close>

definition summary_chars :: "json \<Rightarrow> string \<Rightarrow> int list \<Rightarrow> exn + int list" where
  "summary_chars cfg k dflt = sbind (json_get cfg k (JArr (map (\<lambda>n. JNum (of_int n)) dflt))) (\<lambda>v. case v of
     JArr [a, b] \<Rightarrow> sbind (json_int a) (\<lambda>x. sbind (json_int b) (\<lambda>y. Inr [x, y]))
   | _ \<Rightarrow> Inr dflt)"

text \<open>The request of \<open>_complete_summary\<close>.\<close>

definition summary_request :: "(json \<Rightarrow> json \<Rightarrow> exn + pyfloat \<times> int) \<Rightarrow> json \<Rightarrow> pystr \<Rightarrow> exn + llm_request" where
  "summary_request read_fields cfg prompt =
     sbind (json_get cfg ''llm'' (JObj [])) (\<lambda>llm_cfg.
     sbind (json_get llm_cfg ''temperature'' (JNum (3 / 10))) (\<lambda>temperature.
     sbind (json_get llm_cfg ''max_tokens'' (JNum 1024)) (\<lambda>max_tokens.
     sbind (read_fields temperature max_tokens) (\<lambda>(t, n).
       llm_request_new [\<lparr>ms_role = str ''user'', ms_content = prompt\<rparr>] t n))))"

definition map_reduce_settings :: "json \<Rightarrow> exn + int \<times> int" where
  "map_reduce_settings cfg =
     sbind (json_get cfg ''map_reduce'' (JObj [])) (\<lambda>m.
     sbind (int_setting m ''chunk_token_limit'' 3000) (\<lambda>limit.
     sbind (int_setting m ''overlap_tokens'' 100) (\<lambda>overlap. Inr (limit, overlap))))"

definition fallback_chars :: "json \<Rightarrow> exn + int" where
  "fallback_chars cfg = sbind (json_get cfg ''fallback'' (JObj [])) (\<lambda>f. int_setting f ''empty_summary_chars'' 200)"

definition model_name :: "(json \<Rightarrow> pystr) \<Rightarrow> json \<Rightarrow> exn + pystr" where
  "model_name dump cfg = sbind (json_get cfg ''llm'' (JObj [])) (\<lambda>llm_cfg.
     sbind (json_get llm_cfg ''model'' (JStr (str ''mock''))) (\<lambda>m. Inr (json_str dump m)))"

text \<open>
  The service over a section: \<open>sd_render\<close> renders a template with its title, its content and its bounds. The code reads a
  setting where it uses it, so a section that cannot be read, for which there is no environment here, fails there.
\<close>

record 's summary_deps =
  sd_dump :: "json \<Rightarrow> pystr"
  sd_loads :: "pystr \<Rightarrow> json option"
  sd_read_fields :: "json \<Rightarrow> json \<Rightarrow> exn + pyfloat \<times> int"
  sd_complete :: "llm_request \<Rightarrow> 's \<Rightarrow> 's \<times> (exn + pystr \<times> int)"
  sd_render :: "string \<Rightarrow> pystr \<Rightarrow> pystr \<Rightarrow> int list \<Rightarrow> pystr"
  sd_estimator :: token_estimator
  sd_save :: "summary_result \<Rightarrow> 's \<Rightarrow> 's \<times> (exn + unit)"

definition summary_service :: "'s summary_deps \<Rightarrow> json \<Rightarrow> exn + 's summary_env" where
  "summary_service deps ai =
     sbind (section_of ai ''summary'') (\<lambda>raw. let cfg = or_empty raw in
     sbind (summary_chars cfg ''full_summary_chars'' [200, 300]) (\<lambda>full_chars.
     sbind (summary_chars cfg ''section_summary_chars'' [80, 150]) (\<lambda>section_chars.
     sbind (map_reduce_settings cfg) (\<lambda>(limit, overlap).
     sbind (fallback_chars cfg) (\<lambda>empty_chars.
     sbind (model_name (sd_dump deps) cfg) (\<lambda>model.
       Inr \<lparr>su_dump = sd_dump deps, su_loads = sd_loads deps,
         su_llm = (\<lambda>prompt s. case summary_request (sd_read_fields deps) cfg prompt of
           Inl e \<Rightarrow> (s, Inl e) | Inr req \<Rightarrow> sd_complete deps req s),
         su_full_prompt = (\<lambda>content. sd_render deps ''full_summary.j2'' [] content full_chars),
         su_chunk_prompt = (\<lambda>content. sd_render deps ''chunk_summary.j2'' [] content section_chars),
         su_section_prompt = (\<lambda>title content. sd_render deps ''section_summary.j2'' title content section_chars),
         su_estimator = sd_estimator deps, su_chunk_token_limit = limit, su_overlap_tokens = overlap,
         su_empty_summary_chars = empty_chars, su_model = model, su_save = sd_save deps\<rparr>))))))"

section \<open>Tags\<close>

text \<open>\<open>TagNormalizer(config)\<close>\<close>

definition tag_normalizer_from :: "json \<Rightarrow> exn + tag_normalizer" where
  "tag_normalizer_from raw =
     (let cfg = or_empty raw in
      sbind (int_setting cfg ''max_count'' 10) (\<lambda>max_count.
      sbind (json_get cfg ''normalize_lowercase'' (JBool False)) (\<lambda>lowercase.
      sbind (json_get cfg ''synonym_merge'' (JBool True)) (\<lambda>merge.
        Inr (tag_normalizer_init (Some max_count) (Some (json_truthy lowercase)) (Some (json_truthy merge)))))))"

text \<open>What \<open>LLMExtractionProvider.extract\<close> reads: the number of characters, and the fields of the request.\<close>

definition extraction_chars :: "json \<Rightarrow> exn + int" where
  "extraction_chars cfg =
     sbind (json_get cfg ''batch'' (JObj [])) (\<lambda>batch.
     sbind (json_get cfg ''max_chars'' (JNum 4000)) (\<lambda>dflt.
     sbind (json_get batch ''max_chars'' dflt) json_int))"

definition extraction_request :: "(json \<Rightarrow> json \<Rightarrow> exn + pyfloat \<times> int) \<Rightarrow> json \<Rightarrow> pystr \<Rightarrow> exn + llm_request" where
  "extraction_request read_fields cfg prompt =
     sbind (json_get cfg ''llm'' (JObj [])) (\<lambda>llm_cfg.
     sbind (json_get llm_cfg ''temperature'' (JNum (1 / 10))) (\<lambda>temperature.
     sbind (json_get llm_cfg ''max_tokens'' (JNum 1024)) (\<lambda>max_tokens.
     sbind (read_fields temperature max_tokens) (\<lambda>(t, n).
       llm_request_new [\<lparr>ms_role = str ''user'', ms_content = prompt\<rparr>] t n))))"

text \<open>The configuration of the extraction service and its normalizer; the section must be a dictionary at the start.\<close>

definition extraction_service :: "json \<Rightarrow> exn + json \<times> tag_normalizer" where
  "extraction_service ai =
     sbind (section_of ai ''extraction'') (\<lambda>cfg.
     sbind (json_get cfg ''tags'' (JObj [])) (\<lambda>tags.
     sbind (tag_normalizer_from tags) (\<lambda>normalizer. Inr (or_empty cfg, normalizer))))"

text \<open>The environment of \<open>ExtractionService.extract\<close>; as for summaries, a section that cannot be read fails at its use.\<close>

definition extraction_env_of ::
  "'s summary_deps \<Rightarrow> (pystr \<Rightarrow> pystr) \<Rightarrow> (extraction_response \<Rightarrow> 's \<Rightarrow> 's \<times> (exn + unit)) \<Rightarrow> json \<Rightarrow> exn + 's extraction_env" where
  "extraction_env_of deps lower save ai =
     sbind (extraction_service ai) (\<lambda>(cfg, normalizer).
     sbind (extraction_chars cfg) (\<lambda>max_chars.
       Inr \<lparr>xe_dump = sd_dump deps, xe_loads = sd_loads deps, xe_lower = lower,
         xe_llm = (\<lambda>prompt s. case extraction_request (sd_read_fields deps) cfg prompt of
           Inl e \<Rightarrow> (s, Inl e) | Inr req \<Rightarrow> sd_complete deps req s),
         xe_max_chars = max_chars, xe_normalizer = normalizer, xe_save = save\<rparr>))"

section \<open>Web search\<close>

text \<open>\<open>WebSearchTool(config=\<dots>)\<close>: a provider that cannot be built stops the start.\<close>

definition web_search_tool :: "(json \<Rightarrow> exn + web_search_config) \<Rightarrow> json \<Rightarrow> exn + web_search_config \<times> search_provider" where
  "web_search_tool build ai =
     sbind (section_of ai ''web_search'') (\<lambda>raw.
     sbind (build raw) (\<lambda>cfg.
     sbind (build_search_provider cfg) (\<lambda>p. Inr (cfg, p))))"

section \<open>The gateway's address\<close>

text \<open>The reporter and the two repositories take the argument, then the section; no variable of the environment.\<close>

definition gateway_base_url :: "pystr option \<Rightarrow> json \<Rightarrow> exn + json" where
  "gateway_base_url argument ai =
     sbind (section_of ai ''gateway'') (\<lambda>cfg. case argument of
       Some url \<Rightarrow> if url \<noteq> [] then Inr (JStr url) else json_get cfg ''base_url'' (JStr [])
     | None \<Rightarrow> json_get cfg ''base_url'' (JStr []))"

section \<open>The start\<close>

record 'p late_services =
  ls_citation :: "'p citation_settings"
  ls_summary :: json
  ls_extraction :: json
  ls_normalizer :: tag_normalizer
  ls_web_search :: web_search_config
  ls_provider :: search_provider

definition init_late_services ::
  "(json \<Rightarrow> exn + 'p) \<Rightarrow> (json \<Rightarrow> exn + web_search_config) \<Rightarrow> json \<Rightarrow> exn + 'p late_services" where
  "init_late_services compile build ai =
     sbind (citation_service compile ai) (\<lambda>citation.
     sbind (section_of ai ''summary'') (\<lambda>summary.
     sbind (extraction_service ai) (\<lambda>(extraction, normalizer).
     sbind (web_search_tool build ai) (\<lambda>(web, p).
       Inr \<lparr>ls_citation = citation, ls_summary = or_empty summary, ls_extraction = extraction, ls_normalizer = normalizer,
         ls_web_search = web, ls_provider = p\<rparr>))))"

text \<open>
  \<open>AgentCheckpointer._build_saver\<close>: the constructors of the LangGraph savers raise when the package is missing. The
  endpoint of the agent builds it with its defaults.
\<close>

definition build_saver :: "exn + 'a \<Rightarrow> (pystr \<Rightarrow> exn + 'a) \<Rightarrow> pystr \<Rightarrow> pystr option \<Rightarrow> 'a option" where
  "build_saver memory_saver sqlite_saver backend sqlite_path =
     (if backend = str ''memory'' then (case memory_saver of Inr x \<Rightarrow> Some x | Inl _ \<Rightarrow> None)
      else case sqlite_path of
        Some p \<Rightarrow> if backend = str ''sqlite'' \<and> p \<noteq> [] then (case sqlite_saver p of Inr x \<Rightarrow> Some x | Inl _ \<Rightarrow> None) else None
      | None \<Rightarrow> None)"

definition agent_saver :: "exn + 'a \<Rightarrow> (pystr \<Rightarrow> exn + 'a) \<Rightarrow> 'a option" where
  "agent_saver memory_saver sqlite_saver = build_saver memory_saver sqlite_saver (str ''memory'') None"

section \<open>Facts\<close>

lemma section_of_absent: "section_of (JObj []) k = Inr (JObj [])"
  by (simp add: section_of_def or_empty_def json_get_def dget_def)

text \<open>Without a configuration file every service has its defaults.\<close>

lemma defaults_without_file:
  "sbind (load_yaml_config None) (citation_service compile) = sbind (compile (JStr MARKER_PATTERN)) (\<lambda>p.
     Inr \<lparr>cs_pattern = p, cs_snippet_max_chars = 200, cs_max_citations = 8, cs_log_dropped = True\<rparr>)"
  "sbind (load_yaml_config None) extraction_service = Inr (JObj [], tag_normalizer_init None None None)"
  by (simp_all add: load_yaml_config_def citation_service_def extraction_service_def tag_normalizer_from_def section_of_absent
      or_empty_def json_get_def dget_def int_setting_def json_int_def tag_normalizer_init_def py_trunc_def split: sum.splits)

text \<open>The options of the section of citations that the program does not read change nothing.\<close>

lemma citation_options_without_effect:
  assumes "k \<in> {''enabled'', ''drop_ungrounded'', ''prompt_template''}"
  shows "citation_service compile (JObj [(str ''citation'', JObj ((str k, v) # cfg))])
       = citation_service compile (JObj [(str ''citation'', JObj cfg)])"
  using assms by (auto simp: citation_service_def section_of_def or_empty_def json_get_def dget_def int_setting_def str_inject
      simp del: str_simps)

text \<open>A section that is left empty in the file is \<open>None\<close>, not missing, and the application does not start.\<close>

lemma empty_section_stops_start:
  "init_late_services compile build (JObj [(str ''citation'', JNull)]) = Inl attribute_error"
  by (simp add: init_late_services_def citation_service_def section_of_def or_empty_def json_get_def dget_def sbind_def)

text \<open>The shipped configuration has no section of summaries: every stored summary names the model \<open>mock\<close>.\<close>

lemma generated_model: "generate_summary env rid req s = (s', Inr r) \<Longrightarrow> sr_model r = su_model env"
  by (auto simp: generate_summary_def Let_def sbind_Inr_iff split: sum.splits prod.splits)

lemma summaries_name_mock_model:
  assumes "summary_service deps (JObj ai) = Inr env" "map_of ai (str ''summary'') = None"
    and "generate_summary env rid req s = (s', Inr r)"
  shows "sr_model r = str ''mock''"
proof -
  have "section_of (JObj ai) ''summary'' = Inr (JObj [])"
    using assms(2) by (auto simp: section_of_def or_empty_def json_get_def dget_def)
  with assms(1) have "su_model env = str ''mock''"
    by (auto simp: summary_service_def Let_def model_name_def or_empty_def json_get_def dget_def json_str_def sbind_Inr_iff split: prod.splits)
  with generated_model[OF assms(3)] show ?thesis by simp
qed

text \<open>
  The deployment names the object store in \<open>MINIO_ENDPOINT\<close> and the gateway in \<open>GATEWAY_BASE_URL\<close>, but the shipped file
  has both addresses, on the local host: the first variable is not used where the file has an endpoint, the second by
  nothing.
\<close>

lemma endpoint_of_file_wins:
  "mi_cfg_endpoint env \<noteq> [] \<Longrightarrow> minio_client cls (env\<lparr>mi_endpoint := e\<rparr>) = minio_client cls env"
  by (simp add: minio_client_def str_or_def split: option.splits)

lemma gateway_of_file:
  "gateway_base_url None (JObj [(str ''gateway'', JObj [(str ''base_url'', JStr url)])]) = Inr (JStr url)"
  by (simp add: gateway_base_url_def section_of_def or_empty_def json_get_def dget_def)

text \<open>The saver of the agent is in memory, whatever \<open>agent.checkpointer\<close> says.\<close>

lemma agent_saver_in_memory: "agent_saver (Inr memory) sqlite = Some memory"
  by (simp add: agent_saver_def build_saver_def)

end
