(* ===== verification/Spec2Isabelle.thy ===== *)
theory Spec2Isabelle
  imports Hybrid_Props Subtitle_Props Citation_Props QA Agent_Props Configuration_Props LLM_Providers Api_Props Sse_Bridge Observability_Props Eval_Props App_Props Agent_Graph Clients Web_Client Wiring
begin

text \<open>
  MKC, a multimodal knowledge companion: a verification library of its AI service
  (\<open>src/ai-service\<close>) and of the part of the Go gateway (\<open>src/gateway\<close>) that follows its tasks.

  \<^bold>\<open>The program.\<close> A user's resources (PDF files, audio, video) are turned into searchable text and asked
  about. Celery workers parse a PDF or transcribe a recording, write the result to object storage and report
  progress to the gateway, which keeps a task row per job. Transcripts are cleaned and rendered as subtitles.
  The text is split into chunks, embedded and stored in a vector store. Questions are answered by a pipeline
  of retrieval, prompt building, an LLM stream, citation mapping and memory, either directly
  (\<open>services/qa_service.py\<close>) or by an agent (\<open>agent/\<close>) that classifies the question and may call tools.
  Summaries and tags are produced by workers of their own. A Flask application wires these services together
  from \<open>config/ai.yaml\<close> and the environment.

  \<^bold>\<open>Foundations.\<close> \<open>Prelude\<close> holds what the components share: a Python \<open>str\<close> is the list of its code
  points (\<open>pystr\<close>), the exceptions are values of the sum type \<open>exn + 'a\<close> with \<open>sbind\<close> as sequencing, and the
  string, list and number primitives the source calls, with the generic lemmas about them. \<open>Py_Values\<close> holds
  dynamically typed values (\<open>pyval\<close>), their conversions, JSON and dictionaries. \<open>Errors\<close> is
  \<open>core/exceptions.py\<close>: every API exception class with its code, status and default message.

  \<^bold>\<open>Theories and sources\<close> (paths under \<open>src/ai-service/app\<close> unless they say otherwise).
  \<^item> \<open>Chunk_Base\<close>, \<open>Chunkers\<close>, \<open>Chunking\<close>: \<open>services/chunking\<close>. The three strategies satisfy the locale
    \<open>chunk_strategy\<close> (numbered chunks, texts are slices of the input); \<open>char_bounded\<close> is the law of a token
    estimator that never gives more tokens than characters.
  \<^item> \<open>Search_Types\<close>, \<open>Fusion\<close>, \<open>Hybrid\<close>, \<open>Hybrid_Props\<close>: \<open>services/hybrid_retrieval\<close>. The state is the LRU cache of
    BM25 indexes. The locale \<open>scope_guard\<close> is the law of a scope check over results of any kind.
  \<^item> \<open>Retrieval\<close>, \<open>Llama_Index\<close>, \<open>Llama_Props\<close>, \<open>Rag_Engine\<close>: \<open>services/retrieval\<close>, \<open>services/llamaindex\<close>,
    \<open>services/rag_engine\<close> and the wiring of \<open>main.py\<close>. The locale \<open>retriever\<close> is what the clients of a retrieval
    service rely on (chunks of the requested resources only); the legacy service, the LlamaIndex engine and
    the selected engine are its interpretations.
  \<^item> \<open>Subtitles\<close>, \<open>Subtitle_Props\<close>: \<open>utils/timecode.py\<close>, \<open>services/segment_merger.py\<close>, \<open>services/srt_generator.py\<close>.
  \<^item> \<open>Citations\<close>, \<open>Citation_Props\<close>: \<open>services/citation_*.py\<close>.
  \<^item> \<open>Embedding\<close>, \<open>Vector_Store\<close>, \<open>Vector_Index\<close>: \<open>services/embedding\<close>, \<open>vector_store\<close>, \<open>services/vector_indexing\<close>.
  \<^item> \<open>LLM\<close>, \<open>LLM_Providers\<close>: \<open>services/llm\<close>. The locale \<open>chat_provider\<close> is what the client relies on when it reads
    a provider's stream.
  \<^item> \<open>Memory\<close>, \<open>QA\<close>: \<open>services/memory\<close>, \<open>services/qa_service.py\<close>.
  \<^item> \<open>Web_Search\<close>, \<open>Web_Client\<close>, \<open>Agent\<close>, \<open>Agent_Props\<close>, \<open>Agent_Graph\<close>: \<open>agent/\<close>, with the sliding window of the rate
    limiter, the addresses and arguments of the search requests, the nodes, the runner's event stream, the checkpointer
    and, as a step relation over the state, the graph of \<open>graph.py\<close>.
  \<^item> \<open>Text_Cleaning\<close>, \<open>Summary\<close>, \<open>Tag_Extraction\<close>: \<open>services/text_cleaning\<close>, \<open>services/summary\<close>, \<open>services/extraction\<close>.
  \<^item> \<open>Storage\<close>, \<open>Reporting\<close>, \<open>Pdf_Model\<close>, \<open>Pdf\<close>, \<open>Pdf_Props\<close>, \<open>Asr\<close>: object storage, gateway reports, PDF parsing and OCR,
    transcription. The locale \<open>task_service\<close> is the contract of a service that reports its progress.
  \<^item> \<open>Workers\<close>, \<open>Text_Tasks\<close>: \<open>celery_workers/tasks\<close>. The locale \<open>retrying_task\<close> is the contract with Celery: a task body
    returns, fails or asks for a retry, and is run again while retries are left.
  \<^item> \<open>Gateway\<close>: \<open>gateway/internal/service/task_service.go\<close> and its handler. The locale \<open>protocol_task\<close> states which
    messages a worker sends; the task rows refine an abstract life cycle of tasks.
  \<^item> \<open>Configuration\<close>, \<open>Configuration_Props\<close>: the builders of configuration records over a YAML section and the
    environment.
  \<^item> \<open>Api_Base\<close>, \<open>Api\<close>, \<open>Api_Props\<close>: \<open>api/\<close> with \<open>core/response.py\<close> and the error handlers of \<open>main.py\<close>: routing, the check
    of the internal key, the endpoints with their validation over a record of the services (\<open>backend\<close>; the reading of
    each request model by pydantic is a parameter), and the sanitised error responses. \<open>Sse_Bridge\<close>: the hand-over of an event stream from the thread that produces it to the thread
    that answers, a step relation of two threads and their queue.
  \<^item> \<open>Observability\<close>, \<open>Observability_Props\<close>: \<open>observability/\<close>: redaction, the exporters and the observer of LLM calls, spans,
    trace ids and metrics.
  \<^item> \<open>App\<close>, \<open>App_Props\<close>: the hooks of a request (\<open>middleware/\<close>, \<open>observability/\<close>), the log line of \<open>core/logger.py\<close>, composed with the endpoints;
    the routing of tasks to queues; the PaddleOCR engine's reading of a result.
  \<^item> \<open>Eval\<close>, \<open>Eval_Run\<close>, \<open>Eval_Props\<close>: \<open>src/ai-service/eval\<close>: loading and validating a dataset, the answer providers, the
    mock judge, the pipeline with its retries, the metrics and the report.
  \<^item> \<open>Wiring\<close>: the second half of \<open>init_extensions\<close> in \<open>main.py\<close>: the sections of \<open>config/ai.yaml\<close> the application reads
    itself, the services it builds from them with the settings these read later, and the agent's saver.
  \<^item> \<open>Clients\<close>: \<open>clients/llm_client.py\<close>, the repository of tags and the start of the Milvus store.

  \<^bold>\<open>How state and effects are modelled.\<close> A service's mutable fields are a record that its operations take
  and return (the BM25 cache, the rate limiter's window, the provider's counters, the storage bucket, the task
  row). A stream is the list of its events with the exception that ends it, if any. Clocks, random
  identifiers, hashes and everything that belongs to packages or services outside the repository (chromadb,
  pymilvus, the LLM SDKs, LlamaIndex, PyMuPDF, PaddleOCR, Whisper, MinIO, jieba, rank_bm25, tiktoken, Jinja2)
  are arguments of the definitions that use them. Python's integers are \<open>int\<close>, its floats are rationals: the
  theorems do not speak of rounding, except where the code rounds itself (the averages of an evaluation). \<open>str.lower\<close>, \<open>str.upper\<close>, \<open>str.strip\<close> and the classes of the
  regular expressions are written out for the characters whose result the code depends on; the theories
  say for each where its definition stops. Logging is left out where no result depends on it.

  \<^bold>\<open>Bounds.\<close> Loops are structural recursions, or \<open>function\<close>s with a measure (window moves of the fixed
  chunker, splitting, placeholder expansion). Retries recurse on the number of attempts that are left, which
  the configuration fixes, so termination needs no fuel. The graph of the agent and the bridge of the threads are
  step relations; their runs are bounded by theorems, not by fuel: seven steps of the graph, and for a stream that ends
  two steps of the bridge per chunk and four more, after which both threads are done.

  \<^bold>\<open>What the groups of lemmas show.\<close> Chunking loses nothing and stays within its limits; search results
  never leave the scope of their request; streams of events end exactly once (but for an empty
  retrieval prompt, whose exception escapes); citations lead to the chunks
  they name; subtitles and records are read back as written; tasks are closed at the gateway whatever
  fails; retried calls end; configurations that are built are valid; both RAG engines find the same chunks; a request without the
  internal key changes nothing in the services (the metrics page and the health check are public), every response names its trace and no error response discloses a marked value; the bridge
  between the threads delivers the stream as it is; an evaluation answers every case within its attempts. Where the
  code departs from its documentation or its purpose, a theorem shows the departure on a concrete input.

  \<^bold>\<open>Not modelled.\<close> Of the service: how pydantic-settings fills \<open>core/config.py\<close>, the parsing of YAML, \<open>.env\<close> and command
  lines, Flask's own answers to \<open>HEAD\<close>, \<open>OPTIONS\<close>, redirects and static files, the set-up of handlers and exporters
  (log files, the Prometheus registry, the Langfuse client), the in-memory and SQLite savers of LangGraph and the LangChain
  wrapper of a tool, constructors that only store their arguments, type protocols and package exports: code whose result is the behaviour of a package that is not part of the repository. Prompts as prose, \<open>LLMJudge.build_prompt\<close>
  among them, are parameters: no property depends on their wording. A tokenizer that refuses a text (tiktoken does, for the
  name of a special token), reports to the gateway that are lost, failures of its database, and streams that never
  end are not modelled either. Floating point is rational arithmetic, and
  interleavings other than those of the bridge, the workers and the gateway (threads sharing a service's caches) are
  not considered. Of the repository: the demonstration tasks, which compute nothing; the rest of the Go gateway
  (accounts, resources, uploads, sharing), the Flutter client, the scripts, the deployment files and the full chain test, which are programs
  of their own that meet the service only at the interfaces modelled here.
\<close>

end
